(* ===== verification/Prelude.thy ===== *)
theory Prelude
  imports Main "HOL-Library.Char_ord" "HOL-Library.List_Lexorder"
begin

text \<open>
  Shared vocabulary of the development: the types that stand for Python values (identifiers,
  instants, error results), the list idioms the sources use (\<open>next((i for i, e in enumerate(xs)
  if ...), None)\<close>, \<open>xs.pop(i)\<close>, \<open>xs[-n:]\<close>), the error monad on sums, and the locales that
  name the contracts several components share: an at-least-once inbox that drops repeated
  deliveries (\<open>dedup_inbox\<close>), a command that may be replayed (\<open>idempotent_command\<close>) and a
  policy evaluation that collects blocks (\<open>fence\<close>).
\<close>

section \<open>Types\<close>

text \<open>
  A UUID is a 128-bit number; only equality of UUIDs matters to the code, so it is a natural
  number. An instant is a timezone-aware point in time, counted in microseconds (the resolution
  of Python's \<open>datetime\<close>); a duration (\<open>timedelta\<close>) is a number of microseconds. Free text is
  a list of Unicode code points, identifiers restricted to ASCII by the contracts are strings.
\<close>

type_synonym uuid = nat
type_synonym instant = int
type_synonym duration = int
type_synonym unicode = "nat list"

section \<open>Error results\<close>

text \<open>\<open>Inl\<close> is a raised exception, \<open>Inr\<close> a returned value.\<close>

fun bind_result :: "'e + 'a \<Rightarrow> ('a \<Rightarrow> 'e + 'b) \<Rightarrow> 'e + 'b" where
  "bind_result (Inl e) f = Inl e"
| "bind_result (Inr x) f = f x"

definition require :: "bool \<Rightarrow> 'e \<Rightarrow> 'e + unit" where
  "require ok e = (if ok then Inr () else Inl e)"

lemma bind_result_Inr [simp]:
  "bind_result m f = Inr y \<longleftrightarrow> (\<exists>x. m = Inr x \<and> f x = Inr y)"
  by (cases m) auto

lemma bind_result_Inl:
  "bind_result m f = Inl e \<longleftrightarrow> m = Inl e \<or> (\<exists>x. m = Inr x \<and> f x = Inl e)"
  by (cases m) auto

lemma require_Inr [simp]: "require ok e = Inr u \<longleftrightarrow> ok"
  by (simp add: require_def)

lemma require_Inl [simp]: "require ok e = Inl e' \<longleftrightarrow> \<not> ok \<and> e' = e"
  by (auto simp: require_def)

lemma require_True [simp]: "require True e = Inr ()"
  by (simp add: require_def)

text \<open>\<open>for x in xs: check(x)\<close>, stopping at the first exception.\<close>

fun check_all :: "('a \<Rightarrow> 'e + unit) \<Rightarrow> 'a list \<Rightarrow> 'e + unit" where
  "check_all f [] = Inr ()"
| "check_all f (x # xs) = bind_result (f x) (\<lambda>_. check_all f xs)"

lemma check_all_Inr [simp]: "check_all f xs = Inr u \<longleftrightarrow> (\<forall>x \<in> set xs. f x = Inr ())"
  by (induction xs) auto

lemma check_all_Inl: "check_all f xs = Inl e \<Longrightarrow> \<exists>x \<in> set xs. f x = Inl e"
  by (induction xs) (auto simp: bind_result_Inl)

section \<open>List idioms\<close>

text \<open>\<open>next((index for index, item in enumerate(xs) if p(item)), None)\<close>\<close>

fun first_index :: "('a \<Rightarrow> bool) \<Rightarrow> 'a list \<Rightarrow> nat option" where
  "first_index p [] = None"
| "first_index p (x # xs) = (if p x then Some 0 else map_option Suc (first_index p xs))"

lemma first_index_None [simp]: "first_index p xs = None \<longleftrightarrow> (\<forall>x \<in> set xs. \<not> p x)"
  by (induction xs) auto

lemma first_index_Some:
  "first_index p xs = Some i \<longleftrightarrow> i < length xs \<and> p (xs ! i) \<and> (\<forall>j < i. \<not> p (xs ! j))"
proof (induction xs arbitrary: i)
  case Nil
  then show ?case by simp
next
  case (Cons x xs)
  show ?case
  proof (cases i)
    case 0
    then show ?thesis by auto
  next
    case (Suc k)
    have *: "(\<forall>j < Suc k. \<not> p ((x # xs) ! j)) \<longleftrightarrow> \<not> p x \<and> (\<forall>j < k. \<not> p (xs ! j))"
      by (auto simp: less_Suc_eq_0_disj)
    show ?thesis using Cons.IH [of k] * Suc by auto
  qed
qed

text \<open>\<open>xs.pop(i)\<close> leaves the list without its element at \<open>i\<close>.\<close>

definition remove_at :: "nat \<Rightarrow> 'a list \<Rightarrow> 'a list" where
  "remove_at i xs = take i xs @ drop (Suc i) xs"

lemma length_remove_at: "i < length xs \<Longrightarrow> Suc (length (remove_at i xs)) = length xs"
  by (simp add: remove_at_def)

lemma set_remove_at: "set (remove_at i xs) \<subseteq> set xs"
  by (auto simp: remove_at_def dest: in_set_takeD in_set_dropD)

lemma map_remove_at: "map f (remove_at i xs) = remove_at i (map f xs)"
  by (simp add: remove_at_def take_map drop_map)

lemma distinct_remove_at: "distinct xs \<Longrightarrow> distinct (remove_at i xs)"
  by (simp add: remove_at_def distinct_append set_take_disj_set_drop_if_distinct)

lemma insert_set_remove_at: "i < length xs \<Longrightarrow> insert (xs ! i) (set (remove_at i xs)) = set xs"
proof -
  assume "i < length xs"
  then have "xs = take i xs @ xs ! i # drop (Suc i) xs" by (rule id_take_nth_drop)
  then have "set xs = set (take i xs @ xs ! i # drop (Suc i) xs)" by simp
  then show ?thesis by (simp add: remove_at_def)
qed

text \<open>\<open>xs[-n:]\<close> for a positive \<open>n\<close>.\<close>

definition last_items :: "nat \<Rightarrow> 'a list \<Rightarrow> 'a list" where
  "last_items n xs = drop (length xs - n) xs"

lemma length_last_items [simp]: "length (last_items n xs) = min n (length xs)"
  by (simp add: last_items_def)

lemma last_items_short [simp]: "length xs \<le> n \<Longrightarrow> last_items n xs = xs"
  by (simp add: last_items_def)

lemma last_items_idem [simp]: "last_items n (last_items n xs) = last_items n xs"
  by simp

text \<open>\<open>sep.join(parts)\<close>\<close>

fun join_with :: "'a list \<Rightarrow> 'a list list \<Rightarrow> 'a list" where
  "join_with sep [] = []"
| "join_with sep [x] = x"
| "join_with sep (x # xs) = x @ sep @ join_with sep xs"

text \<open>The elements whose key was not seen before, each key once, in first-arrival order.\<close>

fun fresh_items :: "('m \<Rightarrow> 'k) \<Rightarrow> 'k set \<Rightarrow> 'm list \<Rightarrow> 'm list" where
  "fresh_items key known [] = []"
| "fresh_items key known (m # ms) =
     (if key m \<in> known then fresh_items key known ms
      else m # fresh_items key (insert (key m) known) ms)"

lemma set_fresh_items: "set (fresh_items key known ms) \<subseteq> set ms"
  by (induction ms arbitrary: known) auto

lemma fresh_items_keys: "key ` set (fresh_items key known ms) = key ` set ms - known"
  by (induction ms arbitrary: known) auto

lemma distinct_fresh_items: "distinct (map key (fresh_items key known ms))"
proof (induction ms arbitrary: known)
  case (Cons m ms)
  have "key m \<notin> key ` set (fresh_items key (insert (key m) known) ms)"
    by (simp add: fresh_items_keys)
  with Cons show ?case by simp
qed simp

lemma fresh_items_fresh:
  "known' \<subseteq> known \<Longrightarrow> fresh_items key known (fresh_items key known' ms) = fresh_items key known ms"
proof (induction ms arbitrary: known known')
  case (Cons m ms)
  show ?case using Cons.prems Cons.IH [of known' known] Cons.IH [of "insert (key m) known'" known]
      Cons.IH [of "insert (key m) known'" "insert (key m) known"]
    by auto
qed simp

lemma fresh_items_all_new:
  "distinct (map key ms) \<Longrightarrow> key ` set ms \<inter> known = {} \<Longrightarrow> fresh_items key known ms = ms"
  by (induction ms arbitrary: known) auto

text \<open>A buffer holds each key once, and only keys already recorded as known.\<close>

definition inbox_ok :: "('m \<Rightarrow> 'k) \<Rightarrow> 'm list \<Rightarrow> 'k set \<Rightarrow> bool" where
  "inbox_ok key xs known \<longleftrightarrow> distinct (map key xs) \<and> key ` set xs \<subseteq> known"

lemma inbox_ok_Nil [simp]: "inbox_ok key [] known"
  by (simp add: inbox_ok_def)

lemma inbox_ok_append_fresh:
  assumes "inbox_ok key xs known"
  shows "inbox_ok key (xs @ fresh_items key known ms) (known \<union> key ` set ms)"
proof -
  have keys: "key ` set (fresh_items key known ms) = key ` set ms - known"
    by (rule fresh_items_keys)
  then have "set (map key xs) \<inter> set (map key (fresh_items key known ms)) = {}"
    using assms by (auto simp: inbox_ok_def)
  then show ?thesis
    using assms keys by (auto simp: inbox_ok_def distinct_fresh_items)
qed

lemma inbox_ok_tail: "inbox_ok key (x # xs) known \<Longrightarrow> inbox_ok key xs known"
  by (simp add: inbox_ok_def)

lemma inbox_ok_remove_at: "inbox_ok key xs known \<Longrightarrow> inbox_ok key (remove_at i xs) known"
  using set_remove_at [of i xs]
  by (auto simp: inbox_ok_def map_remove_at distinct_remove_at)

text \<open>
  A buffer together with the keys already consumed from it: no key is consumed twice, and none
  is both consumed and still waiting.
\<close>

definition consumed_ok :: "('m \<Rightarrow> 'k) \<Rightarrow> 'm list \<Rightarrow> 'k set \<Rightarrow> 'k list \<Rightarrow> bool" where
  "consumed_ok key xs known used \<longleftrightarrow>
     inbox_ok key xs known \<and> distinct used \<and> set used \<subseteq> known \<and> set used \<inter> key ` set xs = {}"

lemma consumed_ok_append_fresh:
  assumes "consumed_ok key xs known used"
  shows "consumed_ok key (xs @ fresh_items key known ms) (known \<union> key ` set ms) used"
  using assms fresh_items_keys [of key known ms] inbox_ok_append_fresh [of key xs known ms]
  by (auto simp: consumed_ok_def)

lemma consumed_ok_remove_at:
  assumes "consumed_ok key xs known used" and "i < length xs"
  shows "consumed_ok key (remove_at i xs) known (used @ [key (xs ! i)])"
proof -
  have xs: "insert (xs ! i) (set (remove_at i xs)) = set xs"
    using assms(2) by (rule insert_set_remove_at)
  have split: "map key xs = map key (take i xs) @ key (xs ! i) # map key (drop (Suc i) xs)"
    using id_take_nth_drop [OF assms(2)] by (metis map_append list.simps(9))
  have "distinct (map key xs)" using assms(1) by (simp add: consumed_ok_def inbox_ok_def)
  then have "key (xs ! i) \<notin> set (map key (take i xs)) \<union> set (map key (drop (Suc i) xs))"
    unfolding split by auto
  then have fresh: "key (xs ! i) \<notin> key ` set (remove_at i xs)"
    by (simp add: remove_at_def image_Un)
  have sub: "key ` set (remove_at i xs) \<subseteq> key ` set xs"
    by (rule image_mono) (rule set_remove_at)
  have used: "set used \<inter> key ` set xs = {}" "key ` set xs \<subseteq> known" "distinct used"
    "set used \<subseteq> known" "inbox_ok key xs known"
    using assms(1) by (simp_all add: consumed_ok_def inbox_ok_def)
  have here: "key (xs ! i) \<in> key ` set xs" using assms(2) by simp
  have "key (xs ! i) \<notin> set used" "key (xs ! i) \<in> known"
    "set used \<inter> key ` set (remove_at i xs) = {}"
    using used here sub by blast+
  then show ?thesis
    using fresh used by (simp add: consumed_ok_def inbox_ok_remove_at)
qed

lemma consumed_ok_tail:
  assumes "consumed_ok key (x # xs) known used"
  shows "consumed_ok key xs known (used @ [key x])"
  using consumed_ok_remove_at [OF assms, of 0] by (simp add: remove_at_def)

lemma consumed_ok_drop: "consumed_ok key xs known used \<Longrightarrow> consumed_ok key xs known (drop n used)"
  by (auto simp: consumed_ok_def dest: in_set_dropD)

section \<open>Contracts shared by components\<close>

text \<open>
  An inbox that receives messages at least once: a message whose identity was already seen
  changes nothing, any other is appended.
\<close>

locale dedup_inbox =
  fixes receive :: "'m \<Rightarrow> 's \<Rightarrow> 's"
    and ident :: "'m \<Rightarrow> 'k"
    and buffered :: "'s \<Rightarrow> 'm list"
    and seen :: "'s \<Rightarrow> 'k set"
  assumes receive_known: "ident m \<in> seen s \<Longrightarrow> receive m s = s"
    and buffered_receive: "ident m \<notin> seen s \<Longrightarrow> buffered (receive m s) = buffered s @ [m]"
    and seen_receive: "seen (receive m s) = insert (ident m) (seen s)"
begin

lemma receive_again: "receive m (receive m s) = receive m s"
  by (simp add: receive_known seen_receive)

lemma seen_receive_all: "seen (fold receive ms s) = seen s \<union> ident ` set ms"
  by (induction ms arbitrary: s) (auto simp: seen_receive)

lemma buffered_receive_all:
  "buffered (fold receive ms s) = buffered s @ fresh_items ident (seen s) ms"
proof (induction ms arbitrary: s)
  case (Cons m ms)
  then show ?case
    by (cases "ident m \<in> seen s") (simp_all add: receive_known buffered_receive seen_receive)
qed simp

lemma redeliver_all:
  assumes "ident ` set ms \<subseteq> seen s"
  shows "fold receive ms s = s"
  using assms by (induction ms) (auto simp: receive_known)

lemma inbox_ok_receive_all:
  "inbox_ok ident (buffered s) (seen s) \<Longrightarrow>
   inbox_ok ident (buffered (fold receive ms s)) (seen (fold receive ms s))"
  by (simp add: buffered_receive_all seen_receive_all inbox_ok_append_fresh)

end

text \<open>
  A command that carries its identity and may be delivered again: once it has been accepted,
  submitting it again returns the same answer and leaves the store as it is, whatever the
  environment (clock, generated identifiers) of the later delivery.
\<close>

locale idempotent_command =
  fixes submit :: "'env \<Rightarrow> 'c \<Rightarrow> 'db \<Rightarrow> 'e + 'r \<times> 'db"
  assumes replay: "submit e c db = Inr (r, db') \<Longrightarrow> submit e' c db' = Inr (r, db')"
begin

fun redeliver :: "'env list \<Rightarrow> 'c \<Rightarrow> 'r \<times> 'db \<Rightarrow> 'e + 'r \<times> 'db" where
  "redeliver [] c p = Inr p"
| "redeliver (e # es) c p = bind_result (submit e c (snd p)) (redeliver es c)"

lemma redeliver_same: "submit e c db = Inr p \<Longrightarrow> redeliver es c p = Inr p"
proof (induction es arbitrary: e db)
  case (Cons e' es)
  obtain r db' where p: "p = (r, db')" by (cases p)
  then have again: "submit e' c db' = Inr p" using replay Cons.prems by blast
  then show ?case using Cons.IH [OF again] by (simp add: p)
qed simp

end

text \<open>
  A command that is answered from what it stored: in every later database in which the rows it
  reads stand as it left them, whatever other transactions did to the rest, it gives its first
  answer and changes nothing.
\<close>

locale stored_command =
  fixes submit :: "'env \<Rightarrow> 'c \<Rightarrow> 'db \<Rightarrow> 'e + 'r \<times> 'db"
    and rows :: "'c \<Rightarrow> 'db \<Rightarrow> 'x"
  assumes answered_from_rows:
    "submit e c db = Inr (r, db') \<Longrightarrow> rows c later = rows c db' \<Longrightarrow> submit e' c later = Inr (r, later)"

sublocale stored_command \<subseteq> idempotent_command submit
  by unfold_locales (rule answered_from_rows [OF _ refl])

text \<open>
  A policy evaluation collects every block that applies; the guarded operation goes ahead only
  when there is none and otherwise fails with the first.
\<close>

locale fence =
  fixes blocks :: "'i \<Rightarrow> 'b list"
    and allowed :: "'i \<Rightarrow> bool"
    and admit :: "'i \<Rightarrow> 'b + unit"
  assumes allowed_iff: "allowed i \<longleftrightarrow> blocks i = []"
    and admit_first: "admit i = (case blocks i of [] \<Rightarrow> Inr () | b # _ \<Rightarrow> Inl b)"
begin

lemma admit_iff_allowed: "admit i = Inr () \<longleftrightarrow> allowed i"
  by (simp add: allowed_iff admit_first split: list.splits)

lemma admit_block_applies: "admit i = Inl b \<Longrightarrow> b \<in> set (blocks i)"
  by (auto simp: admit_first split: list.splits)

lemma blocked_fails: "b \<in> set (blocks i) \<Longrightarrow> \<exists>b'. admit i = Inl b'"
  by (auto simp: admit_first split: list.splits)

end

end
