(* ===== verification/Json.thy ===== *)
theory Json
  imports Prelude
begin

text \<open>
  The Python values the contracts call \<open>Any\<close> and what the code does with them: equality as
  Python defines it, \<open>json.dumps\<close> with sorted keys and no blanks, UTF-8 encoding, \<open>str.strip\<close>.
  A string is its list of code points. A finite float is \<open>m / 2^k\<close> together with its \<open>repr\<close>;
  \<open>JUnsupported\<close> stands for every value \<open>json.dumps(..., allow_nan=False)\<close> refuses.
\<close>

datatype json =
    JNull
  | JBool bool
  | JInt int
  | JFloat int nat unicode
  | JStr unicode
  | JArr "json list"
  | JObj "(unicode \<times> json) list"
  | JUnsupported

type_synonym jobject = "(unicode \<times> json) list"

text \<open>A literal of the source as code points.\<close>

definition ascii :: "string \<Rightarrow> unicode" where
  "ascii s = map (\<lambda>c. of_char c) s"

section \<open>Equality of Python values\<close>

text \<open>\<open>True == 1 == 1.0\<close>: numbers compare by value, dictionaries as finite maps.\<close>

fun number_of :: "json \<Rightarrow> (int \<times> nat) option" where
  "number_of (JBool b) = Some (if b then 1 else 0, 0)"
| "number_of (JInt i) = Some (i, 0)"
| "number_of (JFloat m k t) = Some (m, k)"
| "number_of _ = None"

definition same_number :: "int \<times> nat \<Rightarrow> int \<times> nat \<Rightarrow> bool" where
  "same_number x y \<longleftrightarrow> fst x * 2 ^ snd y = fst y * 2 ^ snd x"

function py_eq :: "json \<Rightarrow> json \<Rightarrow> bool"
  and py_eq_items :: "json list \<Rightarrow> json list \<Rightarrow> bool"
  and py_eq_fields :: "jobject \<Rightarrow> jobject \<Rightarrow> bool" where
  "py_eq a b =
     (case (number_of a, number_of b) of
        (Some x, Some y) \<Rightarrow> same_number x y
      | _ \<Rightarrow>
        (case (a, b) of
           (JNull, JNull) \<Rightarrow> True
         | (JStr s, JStr t) \<Rightarrow> s = t
         | (JArr xs, JArr ys) \<Rightarrow> py_eq_items xs ys
         | (JObj xs, JObj ys) \<Rightarrow> length xs = length ys \<and> py_eq_fields xs ys
         | _ \<Rightarrow> False))"
| "py_eq_items [] ys = (ys = [])"
| "py_eq_items (x # xs) ys = (case ys of [] \<Rightarrow> False | y # ys' \<Rightarrow> py_eq x y \<and> py_eq_items xs ys')"
| "py_eq_fields [] ys = True"
| "py_eq_fields ((k, x) # xs) ys =
     ((case map_of ys k of None \<Rightarrow> False | Some y \<Rightarrow> py_eq x y) \<and> py_eq_fields xs ys)"
  by pat_completeness auto
termination
  by (relation "measure (\<lambda>v. case v of
        Inl (a, b) \<Rightarrow> size a
      | Inr (Inl (xs, ys)) \<Rightarrow> size_list size xs
      | Inr (Inr (xs, ys)) \<Rightarrow> size_list (\<lambda>p. Suc (size (snd p))) xs)")
    (auto simp: size_prod_simp split: json.splits)

subsection \<open>Documents\<close>

text \<open>A JSON document: dictionaries have distinct keys and every value can be written.\<close>

primrec document :: "json \<Rightarrow> bool" where
  "document JNull = True"
| "document (JBool b) = True"
| "document (JInt i) = True"
| "document (JFloat m k t) = True"
| "document (JStr s) = True"
| "document (JArr xs) = list_all id (map document xs)"
| "document (JObj kvs) = (distinct (map fst kvs) \<and> list_all snd (map (map_prod id document) kvs))"
| "document JUnsupported = False"

lemma py_eq_items_self: "(\<And>x. x \<in> set xs \<Longrightarrow> py_eq x x) \<Longrightarrow> py_eq_items xs xs"
  by (induction xs) auto

lemma py_eq_fields_self:
  "(\<And>k x. (k, x) \<in> set xs \<Longrightarrow> map_of ys k = Some x \<and> py_eq x x) \<Longrightarrow> py_eq_fields xs ys"
proof (induction xs)
  case (Cons f xs)
  have "map_of ys (fst f) = Some (snd f)" "py_eq (snd f) (snd f)" using Cons.prems [of "fst f" "snd f"] by simp_all
  moreover have "py_eq_fields xs ys" by (rule Cons.IH) (rule Cons.prems, rule list.set_intros(2))
  ultimately show ?case by (cases f) (simp del: py_eq.simps)
qed simp

lemma document_self: "document v \<Longrightarrow> py_eq v v"
proof (induction v)
  case (JArr xs)
  then have "py_eq_items xs xs" by (intro py_eq_items_self) (auto simp: list_all_iff)
  then show ?case by simp
next
  case (JObj kvs)
  have "map_of kvs k = Some x \<and> py_eq x x" if "(k, x) \<in> set kvs" for k x
  proof -
    have "document x" "distinct (map fst kvs)" using JObj.prems that by (auto simp: list_all_iff)
    then show ?thesis using JObj.IH [OF that] that by (simp del: py_eq.simps)
  qed
  then have "py_eq_fields kvs kvs" by (rule py_eq_fields_self)
  then show ?case by simp
qed (simp_all add: same_number_def)

text \<open>\<open>==\<close> on values of type \<open>dict | None\<close>.\<close>

fun same_object :: "jobject option \<Rightarrow> jobject option \<Rightarrow> bool" where
  "same_object None None = True"
| "same_object (Some a) (Some b) = py_eq (JObj a) (JObj b)"
| "same_object _ _ = False"

lemma same_object_self: "(\<And>a. x = Some a \<Longrightarrow> document (JObj a)) \<Longrightarrow> same_object x x"
  by (cases x) (simp_all add: document_self del: py_eq.simps)

section \<open>UTF-8\<close>

text \<open>A lone surrogate cannot be encoded (\<open>UnicodeEncodeError\<close>).\<close>

definition utf8_char :: "nat \<Rightarrow> nat list option" where
  "utf8_char c =
     (if c < 128 then Some [c]
      else if c < 2048 then Some [192 + c div 64, 128 + c mod 64]
      else if 55296 \<le> c \<and> c < 57344 then None
      else if c < 65536 then Some [224 + c div 4096, 128 + c div 64 mod 64, 128 + c mod 64]
      else if c < 1114112
      then Some [240 + c div 262144, 128 + c div 4096 mod 64, 128 + c div 64 mod 64, 128 + c mod 64]
      else None)"

fun utf8_encode :: "unicode \<Rightarrow> nat list option" where
  "utf8_encode [] = Some []"
| "utf8_encode (c # cs) =
     (case (utf8_char c, utf8_encode cs) of
        (Some bs, Some rest) \<Rightarrow> Some (bs @ rest)
      | _ \<Rightarrow> None)"

section \<open>\<open>json.dumps(value, sort_keys=True, separators=(',', ':'))\<close>\<close>

definition hex_digit :: "nat \<Rightarrow> nat" where
  "hex_digit n = (if n < 10 then 48 + n else 87 + n)"

definition hex4 :: "nat \<Rightarrow> unicode" where
  "hex4 c = [92, 117] @ [hex_digit (c div 4096 mod 16), hex_digit (c div 256 mod 16),
     hex_digit (c div 16 mod 16), hex_digit (c mod 16)]"

text \<open>
  \<open>ensure_ascii\<close> chooses between the two escape tables of the encoder: with it, every code
  point outside the printable ASCII range becomes a four-digit hexadecimal escape (a surrogate
  pair beyond the basic plane); without it, only control characters, quote and backslash do.
\<close>

definition escape_char :: "bool \<Rightarrow> nat \<Rightarrow> unicode" where
  "escape_char ensure_ascii c =
     (if c = 34 then [92, 34]
      else if c = 92 then [92, 92]
      else if c = 8 then [92, 98]
      else if c = 9 then [92, 116]
      else if c = 10 then [92, 110]
      else if c = 12 then [92, 102]
      else if c = 13 then [92, 114]
      else if c < 32 then hex4 c
      else if ensure_ascii \<and> 127 \<le> c then
        (if c < 65536 then hex4 c
         else hex4 (55296 + (c - 65536) div 1024) @ hex4 (56320 + (c - 65536) mod 1024))
      else [c])"

definition dump_string :: "bool \<Rightarrow> unicode \<Rightarrow> unicode" where
  "dump_string ensure_ascii s = [34] @ concat (map (escape_char ensure_ascii) s) @ [34]"

fun dump_nat :: "nat \<Rightarrow> unicode" where
  "dump_nat n = (if n < 10 then [48 + n] else dump_nat (n div 10) @ [48 + n mod 10])"

declare dump_nat.simps [simp del]

definition dump_int :: "int \<Rightarrow> unicode" where
  "dump_int i = (if i < 0 then 45 # dump_nat (nat (- i)) else dump_nat (nat i))"

text \<open>\<open>sorted(dict.items())\<close>: keys are distinct, so only they are compared.\<close>

definition sort_fields :: "(unicode \<times> 'v) list \<Rightarrow> (unicode \<times> 'v) list" where
  "sort_fields kvs = sort_key fst kvs"

function dump_json :: "bool \<Rightarrow> json \<Rightarrow> unicode option"
  and dump_items :: "bool \<Rightarrow> json list \<Rightarrow> unicode list option"
  and dump_fields :: "bool \<Rightarrow> jobject \<Rightarrow> (unicode \<times> unicode) list option" where
  "dump_json ea JNull = Some (ascii ''null'')"
| "dump_json ea (JBool b) = Some (ascii (if b then ''true'' else ''false''))"
| "dump_json ea (JInt i) = Some (dump_int i)"
| "dump_json ea (JFloat m k t) = Some t"
| "dump_json ea (JStr s) = Some (dump_string ea s)"
| "dump_json ea JUnsupported = None"
| "dump_json ea (JArr xs) =
     map_option (\<lambda>ts. [91] @ join_with [44] ts @ [93]) (dump_items ea xs)"
| "dump_json ea (JObj kvs) =
     map_option (\<lambda>ts. [123] @ join_with [44]
         (map (\<lambda>(k, t). dump_string ea k @ [58] @ t) (sort_fields ts)) @ [125])
       (dump_fields ea kvs)"
| "dump_items ea [] = Some []"
| "dump_items ea (x # xs) =
     (case (dump_json ea x, dump_items ea xs) of (Some t, Some ts) \<Rightarrow> Some (t # ts) | _ \<Rightarrow> None)"
| "dump_fields ea [] = Some []"
| "dump_fields ea ((k, x) # xs) =
     (case (dump_json ea x, dump_fields ea xs) of (Some t, Some ts) \<Rightarrow> Some ((k, t) # ts) | _ \<Rightarrow> None)"
  by pat_completeness auto
termination
  by (relation "measure (\<lambda>v. case v of
        Inl (ea, a) \<Rightarrow> size a
      | Inr (Inl (ea, xs)) \<Rightarrow> size_list size xs
      | Inr (Inr (ea, xs)) \<Rightarrow> size_list (\<lambda>p. Suc (size (snd p))) xs)")
    (auto simp: size_prod_simp)

lemma dump_items_length: "dump_items ea xs = Some ts \<Longrightarrow> length ts = length xs"
  by (induction xs arbitrary: ts) (auto split: option.splits)

section \<open>\<open>str.strip\<close>\<close>

definition is_space :: "nat \<Rightarrow> bool" where
  "is_space c \<longleftrightarrow>
     (9 \<le> c \<and> c \<le> 13) \<or> (28 \<le> c \<and> c \<le> 32) \<or> c = 133 \<or> c = 160 \<or> c = 5760
     \<or> (8192 \<le> c \<and> c \<le> 8202) \<or> c = 8232 \<or> c = 8233 \<or> c = 8239 \<or> c = 8287 \<or> c = 12288"

definition strip :: "unicode \<Rightarrow> unicode" where
  "strip s = rev (dropWhile is_space (rev (dropWhile is_space s)))"

text \<open>Evaluation leaves the printable ASCII characters to one comparison.\<close>

lemma is_space_code [code]:
  "is_space c \<longleftrightarrow> (if 32 < c \<and> c < 133 then False else
     (9 \<le> c \<and> c \<le> 13) \<or> (28 \<le> c \<and> c \<le> 32) \<or> c = 133 \<or> c = 160 \<or> c = 5760
     \<or> (8192 \<le> c \<and> c \<le> 8202) \<or> c = 8232 \<or> c = 8233 \<or> c = 8239 \<or> c = 8287 \<or> c = 12288)"
  by (auto simp: is_space_def)

lemma strip_eq_Nil: "strip s = [] \<longleftrightarrow> (\<forall>c \<in> set s. is_space c)"
proof (cases "dropWhile is_space s")
  case Nil
  then show ?thesis by (auto simp: strip_def dropWhile_eq_Nil_conv dest: set_dropWhileD)
next
  case (Cons c cs)
  then have "\<not> is_space c" and "c \<in> set s"
    using hd_dropWhile [of is_space s] set_dropWhileD [of c is_space s] by auto
  then show ?thesis using Cons by (auto simp: strip_def dropWhile_eq_Nil_conv)
qed

end
