(* ===== verification/Limits.thy ===== *)
theory Limits
  imports Json
begin

text \<open>
  The hard platform ceilings of \<open>core/limits.py\<close>: the limits record with its consistency check,
  the canonical JSON encoding and the three primitive checks (JSON bytes, UTF-8 bytes, items)
  from which the content checks for events, action parameters, process memory and the fact
  projection are built.
\<close>

section \<open>Limits\<close>

record PlatformSafetyLimits =
  max_event_payload_fields :: int
  max_event_payload_bytes :: int
  max_event_input_bytes :: int
  max_canonical_event_bytes :: int
  max_external_references_per_event :: int
  max_facts_per_event :: int
  max_fact_value_bytes :: int
  max_events_per_turn :: int
  max_reviews_per_turn :: int
  max_action_results_per_turn :: int
  max_timers_per_turn :: int
  max_action_parameter_fields :: int
  max_action_parameters_bytes :: int
  max_action_conflict_facts :: int
  max_action_conflict_message_bytes :: int
  max_action_conflict_bytes :: int
  max_review_message_bytes :: int
  max_operator_guidance_bytes :: int
  max_open_commitments :: int
  max_commitment_bytes :: int
  max_open_commitments_bytes :: int
  max_memory_summary_bytes :: int
  max_process_fact_entries :: int
  max_process_fact_projection_bytes :: int
  max_agent_context_bytes :: int
  max_rendered_prompt_bytes :: int

definition DEFAULT_PLATFORM_SAFETY_LIMITS :: PlatformSafetyLimits where
  "DEFAULT_PLATFORM_SAFETY_LIMITS =
     \<lparr>max_event_payload_fields = 100, max_event_payload_bytes = 64 * 1024,
      max_event_input_bytes = 96 * 1024, max_canonical_event_bytes = 128 * 1024,
      max_external_references_per_event = 20, max_facts_per_event = 50,
      max_fact_value_bytes = 16 * 1024,
      max_events_per_turn = 50, max_reviews_per_turn = 20, max_action_results_per_turn = 20,
      max_timers_per_turn = 50,
      max_action_parameter_fields = 100, max_action_parameters_bytes = 32 * 1024,
      max_action_conflict_facts = 50, max_action_conflict_message_bytes = 4 * 1024,
      max_action_conflict_bytes = 128 * 1024, max_review_message_bytes = 16 * 1024,
      max_operator_guidance_bytes = 16 * 1024,
      max_open_commitments = 50, max_commitment_bytes = 2 * 1024,
      max_open_commitments_bytes = 32 * 1024, max_memory_summary_bytes = 16 * 1024,
      max_process_fact_entries = 500, max_process_fact_projection_bytes = 128 * 1024,
      max_agent_context_bytes = 256 * 1024, max_rendered_prompt_bytes = 512 * 1024\<rparr>"

definition limit_values :: "PlatformSafetyLimits \<Rightarrow> int list" where
  "limit_values l =
     [max_event_payload_fields l, max_event_payload_bytes l, max_event_input_bytes l,
      max_canonical_event_bytes l, max_external_references_per_event l, max_facts_per_event l,
      max_fact_value_bytes l, max_events_per_turn l, max_reviews_per_turn l,
      max_action_results_per_turn l, max_timers_per_turn l, max_action_parameter_fields l,
      max_action_parameters_bytes l, max_action_conflict_facts l,
      max_action_conflict_message_bytes l, max_action_conflict_bytes l, max_review_message_bytes l,
      max_operator_guidance_bytes l, max_open_commitments l, max_commitment_bytes l,
      max_open_commitments_bytes l, max_memory_summary_bytes l, max_process_fact_entries l,
      max_process_fact_projection_bytes l, max_agent_context_bytes l, max_rendered_prompt_bytes l]"

datatype limits_error =
    LimitNotPositive nat
  | PayloadAboveInput
  | InputAboveCanonical
  | ContextAbovePrompt

text \<open>\<open>__post_init__\<close>: the position of the first offending field is reported.\<close>

definition check_platform_limits :: "PlatformSafetyLimits \<Rightarrow> limits_error + PlatformSafetyLimits" where
  "check_platform_limits l =
     (case first_index (\<lambda>v. v < 1) (limit_values l) of
        Some i \<Rightarrow> Inl (LimitNotPositive i)
      | None \<Rightarrow>
          if max_event_input_bytes l < max_event_payload_bytes l then Inl PayloadAboveInput
          else if max_canonical_event_bytes l < max_event_input_bytes l then Inl InputAboveCanonical
          else if max_rendered_prompt_bytes l < max_agent_context_bytes l then Inl ContextAbovePrompt
          else Inr l)"

section \<open>Primitive checks\<close>

datatype limit_unit = Bytes | Items

text \<open>
  \<open>SafetyLimitExceeded\<close> and the plain \<open>ValueError\<close> of \<open>canonical_json_bytes\<close>; both are value
  errors, and \<open>NotUtf8\<close> is the \<open>UnicodeEncodeError\<close> (again a value error) of \<open>str.encode\<close>.
\<close>

datatype value_error =
    SafetyLimitExceeded unicode int int limit_unit
  | NotJsonCompatible unicode
  | NotUtf8 unicode

definition canonical_json_bytes :: "json \<Rightarrow> unicode \<Rightarrow> value_error + nat list" where
  "canonical_json_bytes value label =
     (case dump_json False value of
        None \<Rightarrow> Inl (NotJsonCompatible label)
      | Some t \<Rightarrow>
          (case utf8_encode t of None \<Rightarrow> Inl (NotJsonCompatible label) | Some bytes \<Rightarrow> Inr bytes))"

definition require_json_bytes :: "json \<Rightarrow> unicode \<Rightarrow> int \<Rightarrow> value_error + int" where
  "require_json_bytes value label max_bytes =
     bind_result (canonical_json_bytes value label) (\<lambda>bytes.
       let actual = int (length bytes) in
       if max_bytes < actual then Inl (SafetyLimitExceeded label actual max_bytes Bytes)
       else Inr actual)"

definition require_utf8_bytes :: "unicode \<Rightarrow> unicode \<Rightarrow> int \<Rightarrow> value_error + int" where
  "require_utf8_bytes value label max_bytes =
     (case utf8_encode value of
        None \<Rightarrow> Inl (NotUtf8 label)
      | Some bytes \<Rightarrow>
          let actual = int (length bytes) in
          if max_bytes < actual then Inl (SafetyLimitExceeded label actual max_bytes Bytes)
          else Inr actual)"

definition require_item_count :: "'a list \<Rightarrow> unicode \<Rightarrow> int \<Rightarrow> value_error + int" where
  "require_item_count value label max_items =
     (let actual = int (length value) in
      if max_items < actual then Inl (SafetyLimitExceeded label actual max_items Items)
      else Inr actual)"

section \<open>Content checks\<close>

definition require_event_content ::
  "jobject \<Rightarrow> 'r list \<Rightarrow> 'f list \<Rightarrow> PlatformSafetyLimits \<Rightarrow> value_error + unit" where
  "require_event_content payload external_references facts limits =
     bind_result (require_item_count payload (ascii ''event payload fields'')
       (max_event_payload_fields limits)) (\<lambda>_.
     bind_result (require_json_bytes (JObj payload) (ascii ''event payload'')
       (max_event_payload_bytes limits)) (\<lambda>_.
     bind_result (require_item_count external_references (ascii ''event external references'')
       (max_external_references_per_event limits)) (\<lambda>_.
     bind_result (require_item_count facts (ascii ''event facts'')
       (max_facts_per_event limits)) (\<lambda>_. Inr ()))))"

definition require_action_parameters ::
  "jobject \<Rightarrow> unicode \<Rightarrow> PlatformSafetyLimits \<Rightarrow> value_error + unit" where
  "require_action_parameters parameters label limits =
     bind_result (require_item_count parameters (label @ ascii '' fields'')
       (max_action_parameter_fields limits)) (\<lambda>_.
     bind_result (require_json_bytes (JObj parameters) label
       (max_action_parameters_bytes limits)) (\<lambda>_. Inr ()))"

text \<open>
  The memory checks take the four ceilings they use, because \<open>require_memory_content\<close> reads
  them from the platform limits and \<open>validate_decision\<close> from the decision policy.
\<close>

definition check_memory ::
  "unicode option \<Rightarrow> unicode list \<Rightarrow> int \<Rightarrow> int \<Rightarrow> int \<Rightarrow> int \<Rightarrow> value_error + unit" where
  "check_memory summary open_commitments summary_bytes commitments commitment_bytes total_bytes =
     bind_result (case summary of
         None \<Rightarrow> Inr ()
       | Some s \<Rightarrow> bind_result (require_utf8_bytes s (ascii ''memory summary'') summary_bytes)
           (\<lambda>_. Inr ())) (\<lambda>_.
     bind_result (require_item_count open_commitments (ascii ''open commitments'') commitments) (\<lambda>_.
     bind_result (check_all (\<lambda>c. bind_result
         (require_utf8_bytes c (ascii ''open commitment'') commitment_bytes) (\<lambda>_. Inr ()))
         open_commitments) (\<lambda>_.
     bind_result (require_json_bytes (JArr (map JStr open_commitments)) (ascii ''open commitments'')
       total_bytes) (\<lambda>_. Inr ()))))"

definition require_memory_content ::
  "unicode option \<Rightarrow> unicode list \<Rightarrow> PlatformSafetyLimits \<Rightarrow> value_error + unit" where
  "require_memory_content summary open_commitments limits =
     check_memory summary open_commitments (max_memory_summary_bytes limits)
       (max_open_commitments limits) (max_commitment_bytes limits)
       (max_open_commitments_bytes limits)"

definition require_process_fact_projection ::
  "jobject \<Rightarrow> jobject \<Rightarrow> jobject \<Rightarrow> PlatformSafetyLimits \<Rightarrow> value_error + unit" where
  "require_process_fact_projection authoritative_facts customer_claims fact_provenance limits =
     (let entry_count = int (length authoritative_facts) + int (length customer_claims) in
      if max_process_fact_entries limits < entry_count
      then Inl (SafetyLimitExceeded (ascii ''process fact projection'') entry_count
                  (max_process_fact_entries limits) Items)
      else bind_result (require_json_bytes
             (JObj [(ascii ''authoritative_facts'', JObj authoritative_facts),
                    (ascii ''customer_claims'', JObj customer_claims),
                    (ascii ''fact_provenance'', JObj fact_provenance)])
             (ascii ''process fact projection'') (max_process_fact_projection_bytes limits))
             (\<lambda>_. Inr ()))"

section \<open>What the checks establish\<close>

text \<open>The size the checks measure; \<open>None\<close> for a value that cannot be encoded.\<close>

definition json_size :: "json \<Rightarrow> int option" where
  "json_size v =
     (case dump_json False v of
        None \<Rightarrow> None
      | Some t \<Rightarrow> map_option (\<lambda>bytes. int (length bytes)) (utf8_encode t))"

definition utf8_size :: "unicode \<Rightarrow> int option" where
  "utf8_size s = map_option (\<lambda>bytes. int (length bytes)) (utf8_encode s)"

definition fits :: "int option \<Rightarrow> int \<Rightarrow> bool" where
  "fits measured limit = (case measured of None \<Rightarrow> False | Some n \<Rightarrow> n \<le> limit)"

lemma require_json_bytes_ok:
  "(\<exists>n. require_json_bytes v label limit = Inr n) \<longleftrightarrow> fits (json_size v) limit"
  by (cases "dump_json False v"; cases "utf8_encode (the (dump_json False v))")
    (auto simp: require_json_bytes_def canonical_json_bytes_def json_size_def fits_def Let_def)

lemma require_utf8_bytes_ok:
  "(\<exists>n. require_utf8_bytes s label limit = Inr n) \<longleftrightarrow> fits (utf8_size s) limit"
  by (auto simp: require_utf8_bytes_def utf8_size_def fits_def Let_def split: option.splits)

lemma require_item_count_ok:
  "(\<exists>n. require_item_count xs label limit = Inr n) \<longleftrightarrow> int (length xs) \<le> limit"
  by (auto simp: require_item_count_def Let_def)

lemmas require_ok = require_json_bytes_ok require_utf8_bytes_ok require_item_count_ok

text \<open>The declarative reading of the memory check.\<close>

definition memory_fits ::
  "unicode option \<Rightarrow> unicode list \<Rightarrow> int \<Rightarrow> int \<Rightarrow> int \<Rightarrow> int \<Rightarrow> bool" where
  "memory_fits summary open_commitments summary_bytes commitments commitment_bytes total_bytes \<longleftrightarrow>
     (case summary of None \<Rightarrow> True | Some s \<Rightarrow> fits (utf8_size s) summary_bytes)
     \<and> int (length open_commitments) \<le> commitments
     \<and> (\<forall>c \<in> set open_commitments. fits (utf8_size c) commitment_bytes)
     \<and> fits (json_size (JArr (map JStr open_commitments))) total_bytes"

lemma check_memory_ok:
  "check_memory summary cs a b c d = Inr u \<longleftrightarrow> memory_fits summary cs a b c d"
  by (cases summary) (simp_all add: check_memory_def memory_fits_def require_ok)

lemma require_event_content_ok:
  "require_event_content payload refs facts l = Inr u \<longleftrightarrow>
     int (length payload) \<le> max_event_payload_fields l
     \<and> fits (json_size (JObj payload)) (max_event_payload_bytes l)
     \<and> int (length refs) \<le> max_external_references_per_event l
     \<and> int (length facts) \<le> max_facts_per_event l"
  by (simp add: require_event_content_def require_ok)

lemma require_action_parameters_ok:
  "require_action_parameters ps label l = Inr u \<longleftrightarrow>
     int (length ps) \<le> max_action_parameter_fields l
     \<and> fits (json_size (JObj ps)) (max_action_parameters_bytes l)"
  by (simp add: require_action_parameters_def require_ok)

lemma check_platform_limits_ok:
  "check_platform_limits l = Inr l' \<longleftrightarrow>
     l' = l \<and> (\<forall>v \<in> set (limit_values l). 1 \<le> v)
     \<and> max_event_payload_bytes l \<le> max_event_input_bytes l
     \<and> max_event_input_bytes l \<le> max_canonical_event_bytes l
     \<and> max_agent_context_bytes l \<le> max_rendered_prompt_bytes l"
proof (cases "first_index (\<lambda>v. v < 1) (limit_values l)")
  case None
  then have "\<forall>v \<in> set (limit_values l). 1 \<le> v" by (simp only: first_index_None not_less)
  then show ?thesis
    unfolding check_platform_limits_def None by (auto simp del: first_index_None)
next
  case (Some i)
  then have "limit_values l ! i \<in> set (limit_values l)" "limit_values l ! i < 1"
    by (simp_all only: first_index_Some nth_mem)
  then show ?thesis unfolding check_platform_limits_def Some by force
qed

lemma default_limits_consistent:
  "check_platform_limits DEFAULT_PLATFORM_SAFETY_LIMITS = Inr DEFAULT_PLATFORM_SAFETY_LIMITS"
  by (simp add: check_platform_limits_ok limit_values_def DEFAULT_PLATFORM_SAFETY_LIMITS_def)

end
