(* ===== verification/Contracts.thy ===== *)
theory Contracts
  imports Limits
begin

text \<open>
  The typed contracts of \<open>core/contracts\<close>: enumerations, records, and for every model class the
  check its construction performs (field constraints first, then the validators in source
  order). Values that satisfy a pattern such as \<open>^[a-z][a-z0-9_]*$\<close> are ASCII and kept as
  strings; free text is Unicode. A construction either returns the value or raises; where
  pydantic would report several field errors together, the first one is kept.
\<close>

section \<open>Timestamps and patterns\<close>

text \<open>A \<open>datetime\<close> either has no usable timezone or denotes an instant.\<close>

datatype datetime = Naive int | Aware instant

definition lower_char :: "char \<Rightarrow> bool" where
  "lower_char c \<longleftrightarrow> CHR ''a'' \<le> c \<and> c \<le> CHR ''z''"

definition word_char :: "char \<Rightarrow> bool" where
  "word_char c \<longleftrightarrow> lower_char c \<or> (CHR ''0'' \<le> c \<and> c \<le> CHR ''9'') \<or> c = CHR ''_''"

text \<open>\<open>^[a-z][a-z0-9_]*$\<close>\<close>

fun is_identifier :: "string \<Rightarrow> bool" where
  "is_identifier [] = False"
| "is_identifier (c # cs) = (lower_char c \<and> list_all word_char cs)"

fun split_on :: "'a \<Rightarrow> 'a list \<Rightarrow> 'a list list" where
  "split_on d [] = [[]]"
| "split_on d (c # cs) =
     (if c = d then [] # split_on d cs
      else (case split_on d cs of [] \<Rightarrow> [[c]] | w # ws \<Rightarrow> (c # w) # ws))"

text \<open>\<open>^[a-z][a-z0-9_]*(\.[a-z][a-z0-9_]*)+$\<close>\<close>

definition is_dotted_name :: "string \<Rightarrow> bool" where
  "is_dotted_name s \<longleftrightarrow>
     2 \<le> length (split_on (CHR ''.'') s) \<and> list_all is_identifier (split_on (CHR ''.'') s)"

definition between_lengths :: "nat \<Rightarrow> nat \<Rightarrow> 'a list \<Rightarrow> bool" where
  "between_lengths lo hi xs \<longleftrightarrow> lo \<le> length xs \<and> length xs \<le> hi"

section \<open>Enumerations\<close>

datatype DecisionStatus = ACTIVE | WAITING | COMPLETED | ESCALATED

datatype Interaction = APPROVAL | REVIEW | OPERATOR

datatype PermissionOutcome = ALLOW | DENY | REQUIRE_APPROVAL

datatype ActionRequestStatus =
    ALLOWED | DENIED | PENDING_APPROVAL | APPROVED | REJECTED | SUPERSEDED
  | EXECUTING | SUCCEEDED | FAILED | CONFLICT | UNKNOWN | RECONCILING

datatype ActionAttemptStatus = EXECUTING | SUCCEEDED | FAILED | CONFLICT | UNKNOWN | RECONCILING

datatype ActionResolution = SUCCEEDED | FAILED

datatype ApprovalStatus = PENDING | APPROVED | REJECTED | EXPIRED | CANCELLED | SUPERSEDED

datatype FactKind = AUTHORITATIVE | CUSTOMER_CLAIM

datatype ReviewCommandType = APPROVE | REJECT | REQUEST_REVISION | COMMENT | CORRECT_FACT | CANCEL

datatype ProcessStatus = ACTIVE | WAITING | REVIEW | PAUSED | COMPLETED | CANCELLED | FAILED

datatype Sensitivity = PUBLIC | INTERNAL | CONFIDENTIAL | RESTRICTED

text \<open>The string values of the enumerations that the code writes into text.\<close>

fun fact_kind_value :: "FactKind \<Rightarrow> string" where
  "fact_kind_value AUTHORITATIVE = ''authoritative''"
| "fact_kind_value CUSTOMER_CLAIM = ''customer_claim''"

fun outcome_value :: "PermissionOutcome \<Rightarrow> string" where
  "outcome_value ALLOW = ''allow''"
| "outcome_value DENY = ''deny''"
| "outcome_value REQUIRE_APPROVAL = ''require_approval''"

fun sensitivity_value :: "Sensitivity \<Rightarrow> string" where
  "sensitivity_value PUBLIC = ''public''"
| "sensitivity_value INTERNAL = ''internal''"
| "sensitivity_value CONFIDENTIAL = ''confidential''"
| "sensitivity_value RESTRICTED = ''restricted''"

section \<open>Errors of construction\<close>

datatype contract_error =
    InvalidField string
  | ContentLimit value_error
  | NaiveTimestamp string
  | SourcesWithoutSummary
  | SummaryWithoutSources
  | DuplicateSummarySources
  | BlankCommitment
  | DuplicateCommitments
  | WaitingWithoutWake
  | ConflictFactsNotAuthoritative
  | ApprovalWithoutHash
  | MessageRequired ReviewCommandType

definition content_limit :: "value_error + 'a \<Rightarrow> contract_error + unit" where
  "content_limit r = (case r of Inl e \<Rightarrow> Inl (ContentLimit e) | Inr _ \<Rightarrow> Inr ())"

lemma content_limit_Inr [simp]: "content_limit r = Inr u \<longleftrightarrow> (\<exists>x. r = Inr x)"
  by (cases r) (simp_all add: content_limit_def)

fun require_timezone :: "string \<Rightarrow> datetime \<Rightarrow> contract_error + instant" where
  "require_timezone label (Naive _) = Inl (NaiveTimestamp label)"
| "require_timezone label (Aware t) = Inr t"

lemma require_timezone_Inr [simp]: "require_timezone label d = Inr t \<longleftrightarrow> d = Aware t"
  by (cases d) auto

section \<open>Decisions\<close>

record ActionProposal =
  ap_action_request_id :: uuid
  ap_logical_action_key :: unicode
  ap_action_type :: string
  ap_parameters :: jobject
  ap_rationale :: unicode

definition check_ActionProposal :: "ActionProposal \<Rightarrow> contract_error + ActionProposal" where
  "check_ActionProposal a =
     bind_result (require (between_lengths 1 200 (ap_logical_action_key a))
       (InvalidField ''logical_action_key'')) (\<lambda>_.
     bind_result (require (is_identifier (ap_action_type a)) (InvalidField ''action_type'')) (\<lambda>_.
     bind_result (require (between_lengths 1 1000 (ap_rationale a)) (InvalidField ''rationale'')) (\<lambda>_.
     Inr a)))"

datatype WakeCondition =
    EventWakeCondition string
  | TimerWakeCondition instant
  | HumanWakeCondition Interaction

fun is_human_wake :: "WakeCondition \<Rightarrow> bool" where
  "is_human_wake (HumanWakeCondition _) = True"
| "is_human_wake _ = False"

definition make_EventWakeCondition :: "string \<Rightarrow> contract_error + WakeCondition" where
  "make_EventWakeCondition event_type =
     (if is_dotted_name event_type then Inr (EventWakeCondition event_type)
      else Inl (InvalidField ''event_type''))"

definition make_TimerWakeCondition :: "datetime \<Rightarrow> contract_error + WakeCondition" where
  "make_TimerWakeCondition at = bind_result (require_timezone ''timer'' at) (\<lambda>t. Inr (TimerWakeCondition t))"

record MemoryUpdate =
  mu_summary :: "unicode option"
  mu_summary_source_event_ids :: "uuid list"
  mu_summary_source_review_command_ids :: "uuid list"
  mu_summary_source_action_attempt_ids :: "uuid list"
  mu_summary_source_timer_ids :: "string list"
  mu_open_commitments :: "unicode list"

definition empty_MemoryUpdate :: MemoryUpdate where
  "empty_MemoryUpdate =
     \<lparr>mu_summary = None, mu_summary_source_event_ids = [], mu_summary_source_review_command_ids = [],
      mu_summary_source_action_attempt_ids = [], mu_summary_source_timer_ids = [],
      mu_open_commitments = []\<rparr>"

definition has_summary_sources :: "MemoryUpdate \<Rightarrow> bool" where
  "has_summary_sources m \<longleftrightarrow>
     mu_summary_source_event_ids m \<noteq> [] \<or> mu_summary_source_review_command_ids m \<noteq> []
     \<or> mu_summary_source_action_attempt_ids m \<noteq> [] \<or> mu_summary_source_timer_ids m \<noteq> []"

definition check_MemoryUpdate :: "MemoryUpdate \<Rightarrow> contract_error + MemoryUpdate" where
  "check_MemoryUpdate m =
     bind_result (require (case mu_summary m of None \<Rightarrow> True | Some s \<Rightarrow> length s \<le> 4000)
       (InvalidField ''summary'')) (\<lambda>_.
     bind_result (require (\<not> (mu_summary m = None \<and> has_summary_sources m))
       SourcesWithoutSummary) (\<lambda>_.
     bind_result (require (\<not> (mu_summary m \<noteq> None \<and> \<not> has_summary_sources m))
       SummaryWithoutSources) (\<lambda>_.
     bind_result (require (distinct (mu_summary_source_event_ids m)
         \<and> distinct (mu_summary_source_review_command_ids m)
         \<and> distinct (mu_summary_source_action_attempt_ids m)
         \<and> distinct (mu_summary_source_timer_ids m))
       DuplicateSummarySources) (\<lambda>_.
     bind_result (require (\<not> list_ex (\<lambda>c. strip c = []) (mu_open_commitments m))
       BlankCommitment) (\<lambda>_.
     bind_result (require (distinct (mu_open_commitments m)) DuplicateCommitments) (\<lambda>_.
     Inr m))))))"

record AgentDecision =
  ad_decision_id :: uuid
  ad_based_on_event_ids :: "uuid list"
  ad_based_on_review_command_ids :: "uuid list"
  ad_based_on_action_attempt_ids :: "uuid list"
  ad_based_on_timer_ids :: "string list"
  ad_status :: DecisionStatus
  ad_actions :: "ActionProposal list"
  ad_wake_conditions :: "WakeCondition list"
  ad_memory_update :: MemoryUpdate

definition check_AgentDecision :: "AgentDecision \<Rightarrow> contract_error + AgentDecision" where
  "check_AgentDecision d =
     bind_result (check_all (\<lambda>a. bind_result (check_ActionProposal a) (\<lambda>_. Inr ())) (ad_actions d)) (\<lambda>_.
     bind_result (check_MemoryUpdate (ad_memory_update d)) (\<lambda>_.
     bind_result (require (\<not> (ad_status d = DecisionStatus.WAITING \<and> ad_wake_conditions d = []))
       WaitingWithoutWake) (\<lambda>_.
     Inr d)))"

section \<open>Knowledge\<close>

record FactObservation =
  fo_key :: string
  fo_kind :: FactKind
  fo_value :: json

definition check_FactObservation :: "FactObservation \<Rightarrow> contract_error + FactObservation" where
  "check_FactObservation f =
     bind_result (require (is_dotted_name (fo_key f) \<and> length (fo_key f) \<le> 200) (InvalidField ''key'')) (\<lambda>_.
     bind_result (content_limit (require_json_bytes (fo_value f) (ascii ''fact value'')
       (max_fact_value_bytes DEFAULT_PLATFORM_SAFETY_LIMITS))) (\<lambda>_.
     Inr f))"

text \<open>\<open>model_dump(mode='json')\<close> of a fact; its value is already JSON.\<close>

definition dump_FactObservation :: "FactObservation \<Rightarrow> json" where
  "dump_FactObservation f =
     JObj [(ascii ''key'', JStr (ascii (fo_key f))),
           (ascii ''kind'', JStr (ascii (fact_kind_value (fo_kind f)))),
           (ascii ''value'', fo_value f)]"

section \<open>Actions\<close>

record ActionConflict =
  ac_code :: string
  ac_message :: unicode
  ac_details :: jobject
  ac_facts :: "FactObservation list"

definition dump_ActionConflict :: "ActionConflict \<Rightarrow> json" where
  "dump_ActionConflict c =
     JObj [(ascii ''code'', JStr (ascii (ac_code c))),
           (ascii ''message'', JStr (ac_message c)),
           (ascii ''details'', JObj (ac_details c)),
           (ascii ''facts'', JArr (map dump_FactObservation (ac_facts c)))]"

definition check_ActionConflict :: "ActionConflict \<Rightarrow> contract_error + ActionConflict" where
  "check_ActionConflict c =
     (let limits = DEFAULT_PLATFORM_SAFETY_LIMITS in
     bind_result (require (is_identifier (ac_code c) \<and> length (ac_code c) \<le> 100)
       (InvalidField ''code'')) (\<lambda>_.
     bind_result (require (between_lengths 1 2000 (ac_message c)) (InvalidField ''message'')) (\<lambda>_.
     bind_result (content_limit (require_action_parameters (ac_details c)
       (ascii ''action conflict details'') limits)) (\<lambda>_.
     bind_result (check_all (\<lambda>f. bind_result (check_FactObservation f) (\<lambda>_. Inr ())) (ac_facts c)) (\<lambda>_.
     bind_result (require (\<not> list_ex (\<lambda>f. fo_kind f \<noteq> AUTHORITATIVE) (ac_facts c))
       ConflictFactsNotAuthoritative) (\<lambda>_.
     bind_result (content_limit (require_item_count (ac_facts c) (ascii ''action conflict facts'')
       (max_action_conflict_facts limits))) (\<lambda>_.
     bind_result (content_limit (require_utf8_bytes (ac_message c) (ascii ''action conflict message'')
       (max_action_conflict_message_bytes limits))) (\<lambda>_.
     bind_result (content_limit (require_json_bytes (dump_ActionConflict c) (ascii ''action conflict'')
       (max_action_conflict_bytes limits))) (\<lambda>_.
     Inr c)))))))))"

record OperatorActionResolution =
  oar_decision_id :: uuid
  oar_tenant_id :: uuid
  oar_process_instance_id :: uuid
  oar_action_attempt_id :: uuid
  oar_actor_id :: uuid
  oar_resolution :: ActionResolution
  oar_evidence :: unicode
  oar_provider_reference :: "unicode option"
  oar_result :: "jobject option"

definition check_OperatorActionResolution ::
  "OperatorActionResolution \<Rightarrow> contract_error + OperatorActionResolution" where
  "check_OperatorActionResolution r =
     bind_result (require (between_lengths 1 10000 (oar_evidence r)) (InvalidField ''evidence'')) (\<lambda>_.
     bind_result (require (case oar_provider_reference r of None \<Rightarrow> True | Some p \<Rightarrow> length p \<le> 500)
       (InvalidField ''provider_reference'')) (\<lambda>_.
     Inr r))"

section \<open>Events\<close>

record ExternalReference =
  er_provider :: unicode
  er_resource_type :: unicode
  er_external_id :: unicode

definition check_ExternalReference :: "ExternalReference \<Rightarrow> contract_error + ExternalReference" where
  "check_ExternalReference r =
     bind_result (require (between_lengths 1 100 (er_provider r)) (InvalidField ''provider'')) (\<lambda>_.
     bind_result (require (between_lengths 1 100 (er_resource_type r)) (InvalidField ''resource_type'')) (\<lambda>_.
     bind_result (require (between_lengths 1 500 (er_external_id r)) (InvalidField ''external_id'')) (\<lambda>_.
     Inr r)))"

record CanonicalEvent =
  ce_event_id :: uuid
  ce_tenant_id :: uuid
  ce_process_instance_id :: "uuid option"
  ce_event_type :: string
  ce_source :: unicode
  ce_source_event_id :: unicode
  ce_occurred_at :: datetime
  ce_received_at :: datetime
  ce_schema_version :: int
  ce_sensitivity :: Sensitivity
  ce_external_references :: "ExternalReference list"
  ce_facts :: "FactObservation list"
  ce_payload :: jobject

text \<open>
  \<open>model_dump(mode='json')\<close> of an event. How pydantic writes a timestamp and a UUID is not part
  of this repository: the two renderings are arguments.
\<close>

definition dump_CanonicalEvent ::
  "(datetime \<Rightarrow> unicode) \<Rightarrow> (uuid \<Rightarrow> unicode) \<Rightarrow> CanonicalEvent \<Rightarrow> json" where
  "dump_CanonicalEvent show_time show_uuid e =
     JObj [(ascii ''event_id'', JStr (show_uuid (ce_event_id e))),
           (ascii ''tenant_id'', JStr (show_uuid (ce_tenant_id e))),
           (ascii ''process_instance_id'',
             case ce_process_instance_id e of None \<Rightarrow> JNull | Some u \<Rightarrow> JStr (show_uuid u)),
           (ascii ''event_type'', JStr (ascii (ce_event_type e))),
           (ascii ''source'', JStr (ce_source e)),
           (ascii ''source_event_id'', JStr (ce_source_event_id e)),
           (ascii ''occurred_at'', JStr (show_time (ce_occurred_at e))),
           (ascii ''received_at'', JStr (show_time (ce_received_at e))),
           (ascii ''schema_version'', JInt (ce_schema_version e)),
           (ascii ''sensitivity'', JStr (ascii (sensitivity_value (ce_sensitivity e)))),
           (ascii ''external_references'', JArr (map (\<lambda>r.
              JObj [(ascii ''provider'', JStr (er_provider r)),
                    (ascii ''resource_type'', JStr (er_resource_type r)),
                    (ascii ''external_id'', JStr (er_external_id r))]) (ce_external_references e))),
           (ascii ''facts'', JArr (map dump_FactObservation (ce_facts e))),
           (ascii ''payload'', JObj (ce_payload e))]"

definition check_CanonicalEvent ::
  "(datetime \<Rightarrow> unicode) \<Rightarrow> (uuid \<Rightarrow> unicode) \<Rightarrow> CanonicalEvent \<Rightarrow> contract_error + CanonicalEvent" where
  "check_CanonicalEvent show_time show_uuid e =
     (let limits = DEFAULT_PLATFORM_SAFETY_LIMITS in
     bind_result (require (is_dotted_name (ce_event_type e) \<and> length (ce_event_type e) \<le> 150)
       (InvalidField ''event_type'')) (\<lambda>_.
     bind_result (require (between_lengths 1 100 (ce_source e)) (InvalidField ''source'')) (\<lambda>_.
     bind_result (require (between_lengths 1 500 (ce_source_event_id e)) (InvalidField ''source_event_id'')) (\<lambda>_.
     bind_result (require_timezone ''occurred_at'' (ce_occurred_at e)) (\<lambda>_.
     bind_result (require_timezone ''received_at'' (ce_received_at e)) (\<lambda>_.
     bind_result (require (1 \<le> ce_schema_version e) (InvalidField ''schema_version'')) (\<lambda>_.
     bind_result (check_all (\<lambda>r. bind_result (check_ExternalReference r) (\<lambda>_. Inr ()))
       (ce_external_references e)) (\<lambda>_.
     bind_result (check_all (\<lambda>f. bind_result (check_FactObservation f) (\<lambda>_. Inr ())) (ce_facts e)) (\<lambda>_.
     bind_result (content_limit (require_event_content (ce_payload e) (ce_external_references e)
       (ce_facts e) limits)) (\<lambda>_.
     bind_result (content_limit (require_json_bytes (dump_CanonicalEvent show_time show_uuid e)
       (ascii ''canonical event'') (max_canonical_event_bytes limits))) (\<lambda>_.
     Inr e)))))))))))"

section \<open>Review commands\<close>

record ReviewCommand =
  rc_command_id :: uuid
  rc_tenant_id :: uuid
  rc_process_instance_id :: uuid
  rc_review_thread_id :: uuid
  rc_action_request_id :: uuid
  rc_proposal_revision :: int
  rc_command_type :: ReviewCommandType
  rc_actor_id :: uuid
  rc_message :: "unicode option"
  rc_expected_payload_hash :: "unicode option"

definition needs_message :: "ReviewCommandType \<Rightarrow> bool" where
  "needs_message t \<longleftrightarrow> t \<in> {REJECT, REQUEST_REVISION, COMMENT, CORRECT_FACT}"

definition check_ReviewCommand :: "ReviewCommand \<Rightarrow> contract_error + ReviewCommand" where
  "check_ReviewCommand c =
     bind_result (require (1 \<le> rc_proposal_revision c) (InvalidField ''proposal_revision'')) (\<lambda>_.
     bind_result (require (case rc_message c of None \<Rightarrow> True | Some m \<Rightarrow> length m \<le> 10000)
       (InvalidField ''message'')) (\<lambda>_.
     bind_result (case rc_message c of
         None \<Rightarrow> Inr ()
       | Some m \<Rightarrow> content_limit (require_utf8_bytes m (ascii ''review message'')
           (max_review_message_bytes DEFAULT_PLATFORM_SAFETY_LIMITS))) (\<lambda>_.
     bind_result (require (case rc_expected_payload_hash c of
         None \<Rightarrow> True | Some h \<Rightarrow> between_lengths 32 128 h) (InvalidField ''expected_payload_hash'')) (\<lambda>_.
     bind_result (require (\<not> (rc_command_type c = APPROVE \<and> rc_expected_payload_hash c \<in> {None, Some []}))
       ApprovalWithoutHash) (\<lambda>_.
     bind_result (require (\<not> (needs_message (rc_command_type c) \<and> rc_message c \<in> {None, Some []}))
       (MessageRequired (rc_command_type c))) (\<lambda>_.
     Inr c))))))"

section \<open>Process state\<close>

record ProcessSnapshot =
  ps_tenant_id :: uuid
  ps_process_instance_id :: uuid
  ps_process_type :: unicode
  ps_process_definition_version :: unicode
  ps_status :: ProcessStatus
  ps_authoritative_facts :: jobject
  ps_customer_claims :: jobject
  ps_fact_provenance :: jobject
  ps_memory_summary :: "unicode option"
  ps_memory_summary_source_event_ids :: "uuid list"
  ps_memory_summary_source_review_command_ids :: "uuid list"
  ps_memory_summary_source_action_attempt_ids :: "uuid list"
  ps_memory_summary_source_timer_ids :: "string list"
  ps_open_commitments :: "unicode list"
  ps_current_wake_conditions :: "WakeCondition list"
  ps_state_version :: int

section \<open>What construction guarantees\<close>

lemma check_ActionProposal_ok:
  "check_ActionProposal a = Inr b \<longleftrightarrow>
     b = a \<and> between_lengths 1 200 (ap_logical_action_key a) \<and> is_identifier (ap_action_type a)
     \<and> between_lengths 1 1000 (ap_rationale a)"
  by (auto simp: check_ActionProposal_def)

definition memory_provenance :: "MemoryUpdate \<Rightarrow> bool" where
  "memory_provenance m \<longleftrightarrow>
     (mu_summary m \<noteq> None \<longleftrightarrow> has_summary_sources m)
     \<and> distinct (mu_summary_source_event_ids m) \<and> distinct (mu_summary_source_review_command_ids m)
     \<and> distinct (mu_summary_source_action_attempt_ids m) \<and> distinct (mu_summary_source_timer_ids m)
     \<and> (\<forall>c \<in> set (mu_open_commitments m). \<exists>x \<in> set c. \<not> is_space x)
     \<and> distinct (mu_open_commitments m)"

lemma check_MemoryUpdate_ok:
  "check_MemoryUpdate m = Inr m' \<longleftrightarrow>
     m' = m \<and> (case mu_summary m of None \<Rightarrow> True | Some s \<Rightarrow> length s \<le> 4000) \<and> memory_provenance m"
  by (auto simp: check_MemoryUpdate_def memory_provenance_def list_ex_iff strip_eq_Nil)

lemma check_FactObservation_ok:
  "check_FactObservation f = Inr g \<longleftrightarrow>
     g = f \<and> is_dotted_name (fo_key f) \<and> length (fo_key f) \<le> 200
     \<and> fits (json_size (fo_value f)) (max_fact_value_bytes DEFAULT_PLATFORM_SAFETY_LIMITS)"
  by (auto simp: check_FactObservation_def require_json_bytes_ok)

lemma check_AgentDecision_ok:
  "check_AgentDecision d = Inr d' \<longleftrightarrow>
     d' = d \<and> (\<forall>a \<in> set (ad_actions d). check_ActionProposal a = Inr a)
     \<and> check_MemoryUpdate (ad_memory_update d) = Inr (ad_memory_update d)
     \<and> (ad_status d = DecisionStatus.WAITING \<longrightarrow> ad_wake_conditions d \<noteq> [])"
  by (auto simp: check_AgentDecision_def check_ActionProposal_ok check_MemoryUpdate_ok)

lemma check_ActionConflict_ok:
  assumes "check_ActionConflict c = Inr c'"
  shows "c' = c" and "\<forall>f \<in> set (ac_facts c). fo_kind f = AUTHORITATIVE"
    and "int (length (ac_facts c)) \<le> max_action_conflict_facts DEFAULT_PLATFORM_SAFETY_LIMITS"
    and "fits (json_size (dump_ActionConflict c)) (max_action_conflict_bytes DEFAULT_PLATFORM_SAFETY_LIMITS)"
  using assms
  by (auto simp: check_ActionConflict_def Let_def require_item_count_ok require_json_bytes_ok list_ex_iff)

lemma check_ReviewCommand_ok:
  assumes "check_ReviewCommand c = Inr c'"
  shows "c' = c"
    and "rc_command_type c = APPROVE \<Longrightarrow> \<exists>h. rc_expected_payload_hash c = Some h \<and> h \<noteq> []"
    and "needs_message (rc_command_type c) \<Longrightarrow> \<exists>m. rc_message c = Some m \<and> m \<noteq> []"
  using assms by (auto simp: check_ReviewCommand_def)

end
