(* ===== verification/Sha256.thy ===== *)
theory Sha256
  imports Json "HOL-Library.Word"
begin

text \<open>
  \<open>hashlib.sha256(data).hexdigest()\<close> and \<open>str(uuid)\<close> of the standard library, which the action
  identities of \<open>core/action_identity.py\<close> are built from. The digest works on 32-bit words
  with wrap-around addition, as FIPS 180-4 defines it; a byte is a number below 256.
\<close>

unbundle bit_operations_syntax

section \<open>SHA-256\<close>

type_synonym word32 = "32 word"

text \<open>The round constants, in decimal.\<close>

definition sha_constants :: "word32 list" where
  "sha_constants =
     [1116352408, 1899447441, 3049323471, 3921009573, 961987163, 1508970993,
      2453635748, 2870763221, 3624381080, 310598401, 607225278, 1426881987,
      1925078388, 2162078206, 2614888103, 3248222580, 3835390401, 4022224774,
      264347078, 604807628, 770255983, 1249150122, 1555081692, 1996064986,
      2554220882, 2821834349, 2952996808, 3210313671, 3336571891, 3584528711,
      113926993, 338241895, 666307205, 773529912, 1294757372, 1396182291,
      1695183700, 1986661051, 2177026350, 2456956037, 2730485921, 2820302411,
      3259730800, 3345764771, 3516065817, 3600352804, 4094571909, 275423344,
      430227734, 506948616, 659060556, 883997877, 958139571, 1322822218,
      1537002063, 1747873779, 1955562222, 2024104815, 2227730452, 2361852424,
      2428436474, 2756734187, 3204031479, 3329325298]"

record sha_state =
  sha_a :: word32
  sha_b :: word32
  sha_c :: word32
  sha_d :: word32
  sha_e :: word32
  sha_f :: word32
  sha_g :: word32
  sha_h :: word32

definition sha_initial :: sha_state where
  "sha_initial =
     \<lparr>sha_a = 0x6a09e667, sha_b = 0xbb67ae85, sha_c = 0x3c6ef372, sha_d = 0xa54ff53a,
      sha_e = 0x510e527f, sha_f = 0x9b05688c, sha_g = 0x1f83d9ab, sha_h = 0x5be0cd19\<rparr>"

definition big_endian :: "nat \<Rightarrow> nat \<Rightarrow> nat list" where
  "big_endian count n = map (\<lambda>i. n div 256 ^ i mod 256) (rev [0..<count])"

text \<open>A one bit, zero bits up to 56 modulo 64 bytes, and the length in bits as eight bytes.\<close>

definition sha_pad :: "nat list \<Rightarrow> nat list" where
  "sha_pad bytes =
     bytes @ [128] @ replicate ((119 - length bytes mod 64) mod 64) 0
       @ big_endian 8 (8 * length bytes)"

fun sha_words :: "nat list \<Rightarrow> word32 list" where
  "sha_words (a # b # c # d # rest) =
     of_nat (a * 16777216 + b * 65536 + c * 256 + d) # sha_words rest"
| "sha_words _ = []"

fun sha_blocks :: "nat \<Rightarrow> word32 list \<Rightarrow> word32 list list" where
  "sha_blocks 0 ws = []"
| "sha_blocks (Suc n) ws = take 16 ws # sha_blocks n (drop 16 ws)"

definition sha_schedule :: "word32 list \<Rightarrow> word32 list" where
  "sha_schedule block =
     fold (\<lambda>t w.
        let x = w ! (t - 15); y = w ! (t - 2);
            s0 = word_rotr 7 x XOR word_rotr 18 x XOR drop_bit 3 x;
            s1 = word_rotr 17 y XOR word_rotr 19 y XOR drop_bit 10 y
        in w @ [w ! (t - 16) + s0 + w ! (t - 7) + s1])
       [16..<64] block"

definition sha_round :: "word32 \<times> word32 \<Rightarrow> sha_state \<Rightarrow> sha_state" where
  "sha_round kw s =
     (let a = sha_a s; b = sha_b s; c = sha_c s; e = sha_e s; f = sha_f s; g = sha_g s;
          s1 = word_rotr 6 e XOR word_rotr 11 e XOR word_rotr 25 e;
          ch = (e AND f) XOR (NOT e AND g);
          t1 = sha_h s + s1 + ch + fst kw + snd kw;
          s0 = word_rotr 2 a XOR word_rotr 13 a XOR word_rotr 22 a;
          maj = (a AND b) XOR (a AND c) XOR (b AND c)
      in \<lparr>sha_a = t1 + (s0 + maj), sha_b = a, sha_c = b, sha_d = c,
          sha_e = sha_d s + t1, sha_f = e, sha_g = f, sha_h = g\<rparr>)"

definition sha_compress :: "word32 list \<Rightarrow> sha_state \<Rightarrow> sha_state" where
  "sha_compress block s =
     (let r = fold sha_round (zip sha_constants (sha_schedule block)) s
      in \<lparr>sha_a = sha_a s + sha_a r, sha_b = sha_b s + sha_b r, sha_c = sha_c s + sha_c r,
          sha_d = sha_d s + sha_d r, sha_e = sha_e s + sha_e r, sha_f = sha_f s + sha_f r,
          sha_g = sha_g s + sha_g r, sha_h = sha_h s + sha_h r\<rparr>)"

definition sha_output :: "sha_state \<Rightarrow> word32 list" where
  "sha_output s = [sha_a s, sha_b s, sha_c s, sha_d s, sha_e s, sha_f s, sha_g s, sha_h s]"

definition sha256 :: "nat list \<Rightarrow> nat list" where
  "sha256 bytes =
     (let ws = sha_words (sha_pad bytes)
      in concat (map (\<lambda>w. big_endian 4 (unat w))
           (sha_output (fold sha_compress (sha_blocks (length ws div 16) ws) sha_initial))))"

section \<open>Hexadecimal text\<close>

text \<open>\<open>count\<close> hexadecimal digits of a number, most significant first.\<close>

definition hex_digits :: "nat \<Rightarrow> nat \<Rightarrow> unicode" where
  "hex_digits count n = map (\<lambda>i. hex_digit (n div 16 ^ i mod 16)) (rev [0..<count])"

definition hexdigest :: "nat list \<Rightarrow> unicode" where
  "hexdigest bytes = concat (map (hex_digits 2) bytes)"

text \<open>\<open>str(uuid)\<close>: 32 digits in groups of 8, 4, 4, 4 and 12.\<close>

definition uuid_str :: "uuid \<Rightarrow> unicode" where
  "uuid_str u =
     (let h = hex_digits 32 u
      in take 8 h @ [45] @ take 4 (drop 8 h) @ [45] @ take 4 (drop 12 h) @ [45]
           @ take 4 (drop 16 h) @ [45] @ drop 20 h)"

lemma length_hex_digits [simp]: "length (hex_digits count n) = count"
  by (simp add: hex_digits_def)

lemma hex_digit_inj: "m < 16 \<Longrightarrow> n < 16 \<Longrightarrow> hex_digit m = hex_digit n \<Longrightarrow> m = n"
  by (auto simp: hex_digit_def split: if_splits)

lemma hex_digits_Suc: "hex_digits (Suc count) n = hex_digit (n div 16 ^ count mod 16) # hex_digits count n"
  by (simp add: hex_digits_def)

lemma hex_digits_mod: "hex_digits count m = hex_digits count n \<Longrightarrow> m mod 16 ^ count = n mod 16 ^ count"
proof (induction count)
  case (Suc k)
  then have top: "m div 16 ^ k mod 16 = n div 16 ^ k mod 16"
    by (auto simp: hex_digits_Suc intro: hex_digit_inj)
  have low: "m mod 16 ^ k = n mod 16 ^ k" using Suc by (simp add: hex_digits_Suc)
  have "x mod 16 ^ Suc k = 16 ^ k * (x div 16 ^ k mod 16) + x mod 16 ^ k" for x :: nat
    by (metis mod_mult2_eq mult.commute power_Suc)
  then show ?case using top low by metis
qed simp

lemma hex_digits_inj:
  assumes "m < 16 ^ count" "n < 16 ^ count" "hex_digits count m = hex_digits count n"
  shows "m = n"
  using hex_digits_mod [OF assms(3)] assms(1,2) by simp

lemma length_hexdigest: "length (hexdigest bytes) = 2 * length bytes"
  by (induction bytes) (simp_all add: hexdigest_def)

lemma length_big_endian [simp]: "length (big_endian count n) = count"
  by (simp add: big_endian_def)

lemma length_sha256: "length (sha256 bytes) = 32"
  by (simp add: sha256_def Let_def sha_output_def)

lemma length_sha256_hexdigest: "length (hexdigest (sha256 bytes)) = 64"
  by (simp add: length_hexdigest length_sha256)

lemma length_uuid_str [simp]: "length (uuid_str u) = 36"
  by (simp add: uuid_str_def Let_def)

lemma uuid_str_inj:
  assumes "u < 2 ^ 128" "v < 2 ^ 128" "uuid_str u = uuid_str v"
  shows "u = v"
proof -
  have "hex_digits 32 x = take 8 (uuid_str x) @ take 4 (drop 9 (uuid_str x))
      @ take 4 (drop 14 (uuid_str x)) @ take 4 (drop 19 (uuid_str x)) @ drop 24 (uuid_str x)" for x
  proof -
    let ?h = "hex_digits 32 x"
    have "take 8 ?h @ drop 8 ?h = ?h" "take 4 (drop 8 ?h) @ drop 12 ?h = drop 8 ?h"
      "take 4 (drop 12 ?h) @ drop 16 ?h = drop 12 ?h" "take 4 (drop 16 ?h) @ drop 20 ?h = drop 16 ?h"
      using append_take_drop_id [of 8 ?h] append_take_drop_id [of 4 "drop 8 ?h"]
        append_take_drop_id [of 4 "drop 12 ?h"] append_take_drop_id [of 4 "drop 16 ?h"]
      by simp_all
    then have "?h = take 8 ?h @ take 4 (drop 8 ?h) @ take 4 (drop 12 ?h) @ take 4 (drop 16 ?h) @ drop 20 ?h"
      by simp
    then show ?thesis by (simp add: uuid_str_def Let_def)
  qed
  then have "hex_digits 32 u = hex_digits 32 v" using assms(3) by metis
  then show ?thesis using assms(1,2) by (intro hex_digits_inj) simp_all
qed

end
