(* ===== verification/Identity.thy ===== *)
theory Identity
  imports Contracts Sha256
begin

text \<open>
  Action identities and action permissions: \<open>core/action_identity.py\<close> (the payload hash and the
  provider's idempotency key), \<open>core/action_policy.py\<close> (permission classification) and
  \<open>core/reserved_events.py\<close>. The lemmas show that the hashed execution text
  determines what it was built from, so two execution keys can only coincide through a collision
  of SHA-256 itself, and that every JSON value the platform accepts has a payload identity.
\<close>

section \<open>Identities\<close>

definition action_payload_text :: "string \<Rightarrow> jobject \<Rightarrow> unicode option" where
  "action_payload_text action_type parameters =
     dump_json True (JObj [(ascii ''action_type'', JStr (ascii action_type)),
                           (ascii ''parameters'', JObj parameters)])"

text \<open>\<open>None\<close>: the payload cannot be serialised and \<open>json.dumps\<close> raises.\<close>

definition action_payload_identity :: "string \<Rightarrow> jobject \<Rightarrow> unicode option" where
  "action_payload_identity action_type parameters =
     Option.bind (action_payload_text action_type parameters) (\<lambda>canonical.
       map_option (\<lambda>bytes. hexdigest (sha256 bytes)) (utf8_encode canonical))"

definition execution_identity_text ::
  "uuid \<Rightarrow> uuid \<Rightarrow> uuid \<Rightarrow> int \<Rightarrow> unicode \<Rightarrow> unicode" where
  "execution_identity_text tenant process action_request revision payload_hash =
     uuid_str tenant @ [58] @ uuid_str process @ [58] @ uuid_str action_request @ [58]
       @ dump_int revision @ [58] @ payload_hash"

definition execution_idempotency_key ::
  "uuid \<Rightarrow> uuid \<Rightarrow> uuid \<Rightarrow> int \<Rightarrow> unicode \<Rightarrow> unicode option" where
  "execution_idempotency_key tenant process action_request revision payload_hash =
     map_option (\<lambda>bytes. hexdigest (sha256 bytes))
       (utf8_encode (execution_identity_text tenant process action_request revision payload_hash))"

section \<open>Permission classification\<close>

record ActionPolicyDecision =
  apd_outcome :: PermissionOutcome
  apd_policy_version :: unicode
  apd_reason :: unicode

record ConfiguredActionPolicy =
  cap_permissions :: "(string \<times> PermissionOutcome) list"
  cap_version :: unicode

definition evaluate_action :: "ConfiguredActionPolicy \<Rightarrow> ActionProposal \<Rightarrow> ActionPolicyDecision" where
  "evaluate_action policy action =
     (let outcome = (case map_of (cap_permissions policy) (ap_action_type action) of
                       None \<Rightarrow> DENY | Some granted \<Rightarrow> granted)
      in \<lparr>apd_outcome = outcome, apd_policy_version = cap_version policy,
          apd_reason = ascii ''action '' @ [39] @ ascii (ap_action_type action) @ [39]
            @ ascii '' is configured as '' @ ascii (outcome_value outcome) @ ascii '' by policy ''
            @ cap_version policy\<rparr>)"

fun initial_action_request_status :: "PermissionOutcome \<Rightarrow> ActionRequestStatus" where
  "initial_action_request_status ALLOW = ActionRequestStatus.ALLOWED"
| "initial_action_request_status DENY = ActionRequestStatus.DENIED"
| "initial_action_request_status REQUIRE_APPROVAL = ActionRequestStatus.PENDING_APPROVAL"

definition RESERVED_KERNEL_EVENT_TYPES :: "string list" where
  "RESERVED_KERNEL_EVENT_TYPES = [''operator.manual_wake'']"

section \<open>The hashed texts are injective\<close>

lemma dump_nat_digits: "c \<in> set (dump_nat n) \<Longrightarrow> 48 \<le> c \<and> c \<le> 57"
proof (induction n arbitrary: c rule: dump_nat.induct)
  case (1 n)
  show ?case
  proof (cases "n < 10")
    case True
    then show ?thesis using "1.prems" by (simp add: dump_nat.simps [of n])
  next
    case False
    then have "c \<in> set (dump_nat (n div 10)) \<or> c = 48 + n mod 10"
      using "1.prems" by (auto simp: dump_nat.simps [of n])
    then show ?thesis using "1.IH" [OF False] by auto
  qed
qed

lemma dump_nat_value: "fold (\<lambda>d acc. acc * 10 + (d - 48)) (dump_nat n) 0 = n"
proof (induction n rule: dump_nat.induct)
  case (1 n)
  then show ?case by (cases "n < 10") (simp_all add: dump_nat.simps [of n])
qed

lemma dump_nat_inj: "dump_nat m = dump_nat n \<Longrightarrow> m = n"
  by (metis dump_nat_value)

lemma dump_int_inj: "dump_int i = dump_int j \<Longrightarrow> i = j"
proof -
  assume eq: "dump_int i = dump_int j"
  have no_sign: "45 # xs \<noteq> dump_nat n" for xs n
  proof
    assume "45 # xs = dump_nat n"
    then have "45 \<in> set (dump_nat n)" by (metis list.set_intros(1))
    then show False using dump_nat_digits by fastforce
  qed
  show "i = j"
    using eq no_sign no_sign [symmetric]
    by (auto simp: dump_int_def dest!: dump_nat_inj split: if_splits)
qed

lemma dump_int_no_colon: "58 \<notin> set (dump_int i)"
  using dump_nat_digits [of 58] by (auto simp: dump_int_def)

lemma append_separator_inj:
  "x \<notin> set xs \<Longrightarrow> x \<notin> set ys \<Longrightarrow> xs @ x # as = ys @ x # bs \<Longrightarrow> xs = ys \<and> as = bs"
proof (induction xs arbitrary: ys)
  case Nil
  then show ?case by (cases ys) auto
next
  case (Cons a xs)
  then show ?case by (cases ys) auto
qed

lemma execution_identity_text_inj:
  assumes "execution_identity_text t p a r h = execution_identity_text t' p' a' r' h'"
    and "t < 2 ^ 128" "p < 2 ^ 128" "a < 2 ^ 128" "t' < 2 ^ 128" "p' < 2 ^ 128" "a' < 2 ^ 128"
  shows "t = t' \<and> p = p' \<and> a = a' \<and> r = r' \<and> h = h'"
proof -
  have "uuid_str t = uuid_str t'" "uuid_str p = uuid_str p'" "uuid_str a = uuid_str a'"
    and rest: "dump_int r @ 58 # h = dump_int r' @ 58 # h'"
    using assms(1) by (auto simp: execution_identity_text_def)
  moreover have "dump_int r = dump_int r' \<and> h = h'"
    using append_separator_inj [OF dump_int_no_colon dump_int_no_colon rest] .
  ultimately show ?thesis using assms(2-) uuid_str_inj dump_int_inj by blast
qed

section \<open>Every accepted JSON value has an identity\<close>

definition encodable :: "unicode \<Rightarrow> bool" where
  "encodable s \<longleftrightarrow> (\<forall>c \<in> set s. utf8_char c \<noteq> None)"

lemma utf8_encode_defined: "(\<exists>bs. utf8_encode s = Some bs) \<longleftrightarrow> encodable s"
  by (induction s) (auto simp: encodable_def split: option.splits)

lemma encodable_simps [simp]:
  "encodable []" "encodable (c # s) \<longleftrightarrow> utf8_char c \<noteq> None \<and> encodable s"
  "encodable (s @ t) \<longleftrightarrow> encodable s \<and> encodable t"
  by (auto simp: encodable_def)

lemma utf8_char_ascii [simp]: "c < 128 \<Longrightarrow> utf8_char c = Some [c]"
  by (simp add: utf8_char_def)

lemma encodable_ascii [simp]: "encodable (ascii ''null'')" "encodable (ascii ''true'')"
    "encodable (ascii ''false'')"
  by (simp_all add: ascii_def)

lemma hex_digit_bound: "n < 16 \<Longrightarrow> hex_digit n < 128"
  by (simp add: hex_digit_def)

lemma encodable_hex4 [simp]: "encodable (hex4 c)"
  by (simp add: hex4_def hex_digit_bound)

lemma encodable_escape [simp]: "encodable (escape_char True c)"
  by (auto simp: escape_char_def)

lemma encodable_dump_string [simp]: "encodable (dump_string True s)"
  by (induction s) (simp_all add: dump_string_def)

lemma encodable_dump_int [simp]: "encodable (dump_int i)"
proof -
  have "encodable (dump_nat n)" for n
  proof -
    have "utf8_char c \<noteq> None" if "c \<in> set (dump_nat n)" for c
      using dump_nat_digits [OF that] by simp
    then show ?thesis by (simp add: encodable_def)
  qed
  then show ?thesis by (simp add: dump_int_def)
qed

lemma encodable_join: "encodable sep \<Longrightarrow> (\<forall>t \<in> set ts. encodable t) \<Longrightarrow> encodable (join_with sep ts)"
  by (induction sep ts rule: join_with.induct) simp_all

lemma join_encodable: "encodable (join_with sep ts) \<Longrightarrow> t \<in> set ts \<Longrightarrow> encodable t"
  by (induction sep ts rule: join_with.induct) auto

lemma set_sort_fields [simp]: "set (sort_fields kvs) = set kvs"
  by (simp add: sort_fields_def)

lemma dump_items_ascii:
  assumes "\<And>x t. x \<in> set xs \<Longrightarrow> dump_json False x = Some t \<Longrightarrow> encodable t \<Longrightarrow>
      \<exists>t'. dump_json True x = Some t' \<and> encodable t'"
    and "dump_items False xs = Some ts" "\<forall>t \<in> set ts. encodable t"
  shows "\<exists>ts'. dump_items True xs = Some ts' \<and> (\<forall>t \<in> set ts'. encodable t)"
  using assms
proof (induction xs arbitrary: ts)
  case (Cons x xs)
  then obtain t ts' where ts: "dump_json False x = Some t" "dump_items False xs = Some ts'" "ts = t # ts'"
    by (auto split: option.splits)
  then obtain u us where "dump_json True x = Some u" "encodable u"
    "dump_items True xs = Some us" "\<forall>t \<in> set us. encodable t"
    using Cons.IH [of ts'] Cons.prems(1) [of x t] Cons.prems(1,3) by (metis list.set_intros)
  then show ?case by simp
qed simp

lemma dump_fields_ascii:
  assumes "\<And>k x t. (k, x) \<in> set kvs \<Longrightarrow> dump_json False x = Some t \<Longrightarrow> encodable t \<Longrightarrow>
      \<exists>t'. dump_json True x = Some t' \<and> encodable t'"
    and "dump_fields False kvs = Some fs" "\<forall>f \<in> set fs. encodable (snd f)"
  shows "\<exists>fs'. dump_fields True kvs = Some fs' \<and> (\<forall>f \<in> set fs'. encodable (snd f))"
  using assms
proof (induction kvs arbitrary: fs)
  case (Cons kv kvs)
  obtain k x where kv: "kv = (k, x)" by (cases kv)
  from Cons.prems(2) kv obtain t fs'
    where fs: "dump_json False x = Some t" "dump_fields False kvs = Some fs'" "fs = (k, t) # fs'"
    by (auto split: option.splits)
  then obtain u us where "dump_json True x = Some u" "encodable u"
    "dump_fields True kvs = Some us" "\<forall>f \<in> set us. encodable (snd f)"
    using Cons.IH [of fs'] Cons.prems(1) [of k x t] Cons.prems(1,3) kv
    by (metis list.set_intros snd_conv)
  then show ?case using kv by simp
qed simp

lemma dump_json_ascii:
  "dump_json False v = Some t \<Longrightarrow> encodable t \<Longrightarrow> \<exists>t'. dump_json True v = Some t' \<and> encodable t'"
proof (induction v arbitrary: t)
  case (JArr xs)
  then obtain ts where ts: "dump_items False xs = Some ts" "encodable (join_with [44] ts)" by auto
  then have "\<forall>t \<in> set ts. encodable t" using join_encodable by blast
  then obtain ts' where "dump_items True xs = Some ts'" "\<forall>t \<in> set ts'. encodable t"
    using dump_items_ascii [of xs ts] JArr.IH ts(1) by blast
  then show ?case by (simp add: encodable_join)
next
  case (JObj kvs)
  then obtain fs where fs: "dump_fields False kvs = Some fs"
    "encodable (join_with [44] (map (\<lambda>(k, t). dump_string False k @ [58] @ t) (sort_fields fs)))"
    by auto
  have "encodable (snd f)" if "f \<in> set fs" for f
    using join_encodable [OF fs(2), of "dump_string False (fst f) @ [58] @ snd f"] that
    by (force simp: case_prod_beta)
  moreover have "\<exists>t'. dump_json True x = Some t' \<and> encodable t'"
    if "(k, x) \<in> set kvs" "dump_json False x = Some t" "encodable t" for k x t
    using JObj.IH [of "(k, x)" x t] that by simp
  ultimately obtain fs' where "dump_fields True kvs = Some fs'" "\<forall>f \<in> set fs'. encodable (snd f)"
    using dump_fields_ascii [of kvs fs] fs(1) by blast
  then show ?case by (force intro!: encodable_join)
qed (auto split: if_splits)

lemma dump_two_fields:
  assumes "dump_json True v = Some t" "encodable t" "dump_json True w = Some u" "encodable u"
  shows "\<exists>r. dump_json True (JObj [(a, v), (b, w)]) = Some r \<and> encodable r"
  using assms by (auto intro!: encodable_join)

lemma json_size_encodable:
  assumes "fits (json_size v) limit"
  obtains t where "dump_json False v = Some t" "encodable t"
proof (cases "dump_json False v")
  case None
  with assms show ?thesis by (simp add: fits_def json_size_def)
next
  case (Some t)
  with assms have "utf8_encode t \<noteq> None"
    by (auto simp: fits_def json_size_def split: option.splits)
  then show ?thesis using that Some utf8_encode_defined by blast
qed

lemma action_payload_identity_defined:
  assumes "fits (json_size (JObj ps)) limit"
  shows "\<exists>h. action_payload_identity ty ps = Some h"
proof -
  obtain t where "dump_json False (JObj ps) = Some t" "encodable t"
    using assms by (rule json_size_encodable)
  then obtain t' where t': "dump_json True (JObj ps) = Some t'" "encodable t'"
    using dump_json_ascii by blast
  have "dump_json True (JStr (ascii ty)) = Some (dump_string True (ascii ty))" by simp
  from dump_two_fields [OF this encodable_dump_string t']
  obtain u where "action_payload_text ty ps = Some u" "encodable u"
    unfolding action_payload_text_def by blast
  moreover from this(2) obtain bytes where "utf8_encode u = Some bytes"
    using utf8_encode_defined by blast
  ultimately show ?thesis by (simp add: action_payload_identity_def)
qed

section \<open>Encoding and digests are injective\<close>

lemma utf8_char_head:
  assumes "utf8_char c = Some bs"
  shows "bs \<noteq> [] \<and> length bs = (if hd bs < 128 then 1 else if hd bs < 224 then 2 else if hd bs < 240 then 3 else 4)"
  using assms by (auto simp: utf8_char_def div_less_iff_less_mult split: if_splits)

fun utf8_decode :: "nat list \<Rightarrow> nat" where
  "utf8_decode [a] = a"
| "utf8_decode [a, b] = (a - 192) * 64 + (b - 128)"
| "utf8_decode [a, b, c] = (a - 224) * 4096 + (b - 128) * 64 + (c - 128)"
| "utf8_decode [a, b, c, d] = (a - 240) * 262144 + (b - 128) * 4096 + (c - 128) * 64 + (d - 128)"
| "utf8_decode _ = 0"

lemma positional:
  fixes c :: nat
  shows "q0 * 64 + r0 = c \<Longrightarrow> q1 * 64 + r1 = q0 \<Longrightarrow> q1 * 4096 + r1 * 64 + r0 = c"
    and "q0 * 64 + r0 = c \<Longrightarrow> q1 * 64 + r1 = q0 \<Longrightarrow> q2 * 64 + r2 = q1 \<Longrightarrow>
      q2 * 262144 + r2 * 4096 + r1 * 64 + r0 = c"
  by (simp_all add: algebra_simps)

lemma base64_digits:
  fixes c :: nat
  shows "c div 64 * 64 + c mod 64 = c"
    "c div 4096 * 4096 + c div 64 mod 64 * 64 + c mod 64 = c"
    "c div 262144 * 262144 + c div 4096 mod 64 * 4096 + c div 64 mod 64 * 64 + c mod 64 = c"
proof -
  have d: "c div 4096 = c div 64 div 64" "c div 262144 = c div 64 div 64 div 64"
    by (simp_all add: div_mult2_eq [symmetric])
  note step = div_mult_mod_eq [of c 64] div_mult_mod_eq [of "c div 64" 64]
    div_mult_mod_eq [of "c div 64 div 64" 64]
  show "c div 64 * 64 + c mod 64 = c" by (rule step(1))
  show "c div 4096 * 4096 + c div 64 mod 64 * 64 + c mod 64 = c"
    unfolding d using step(1,2) by (rule positional(1))
  show "c div 262144 * 262144 + c div 4096 mod 64 * 4096 + c div 64 mod 64 * 64 + c mod 64 = c"
    unfolding d using step by (rule positional(2))
qed

lemma utf8_decode_char: "utf8_char c = Some bs \<Longrightarrow> utf8_decode bs = c"
  by (auto simp: utf8_char_def base64_digits split: if_splits)

lemma utf8_char_inj: "utf8_char c = Some bs \<Longrightarrow> utf8_char c' = Some bs \<Longrightarrow> c = c'"
  using utf8_decode_char by blast

lemma utf8_encode_inj: "utf8_encode s = Some bs \<Longrightarrow> utf8_encode t = Some bs \<Longrightarrow> s = t"
proof (induction s arbitrary: t bs)
  case Nil
  then show ?case by (cases t) (auto split: option.splits dest: utf8_char_head)
next
  case (Cons c cs)
  obtain b rest where b: "utf8_char c = Some b" "utf8_encode cs = Some rest" "bs = b @ rest"
    using Cons.prems by (auto split: option.splits)
  obtain d ds where t: "t = d # ds" using Cons.prems b utf8_char_head [OF b(1)] by (cases t) auto
  obtain b' rest' where b': "utf8_char d = Some b'" "utf8_encode ds = Some rest'" "bs = b' @ rest'"
    using Cons.prems t by (auto split: option.splits)
  have "hd b = hd b'" using b(3) b'(3) utf8_char_head [OF b(1)] utf8_char_head [OF b'(1)]
    by (cases b; cases b') simp_all
  then have "length b = length b'" using utf8_char_head [OF b(1)] utf8_char_head [OF b'(1)] by simp
  then have "b = b'" "rest = rest'" using b(3) b'(3) by auto
  moreover have "c = d" using utf8_char_inj [OF b(1)] b'(1) \<open>b = b'\<close> by simp
  moreover have "cs = ds" using Cons.IH [OF b(2)] b'(2) \<open>rest = rest'\<close> by simp
  ultimately show ?case by (simp add: t)
qed

lemma hexdigest_Cons: "hexdigest (x # xs) = hex_digits 2 x @ hexdigest xs"
  by (simp add: hexdigest_def)

lemma hexdigest_inj:
  assumes "\<forall>b \<in> set xs. b < 256" "\<forall>b \<in> set ys. b < 256" "length xs = length ys"
    and "hexdigest xs = hexdigest ys"
  shows "xs = ys"
  using assms(3,1,2,4)
proof (induction xs ys rule: list_induct2)
  case (Cons x xs y ys)
  then have "hex_digits 2 x = hex_digits 2 y" "hexdigest xs = hexdigest ys"
    by (simp_all add: hexdigest_Cons)
  moreover from this(1) have "x = y" using Cons.prems(1,2) by (intro hex_digits_inj [of x 2 y]) simp_all
  ultimately show ?case using Cons by simp
qed simp

lemma sha256_bytes: "\<forall>b \<in> set (sha256 bytes). b < 256"
  by (auto simp: sha256_def Let_def big_endian_def)

section \<open>Execution keys\<close>

lemma execution_key_collision:
  assumes "execution_idempotency_key t p a r h = Some k" "execution_idempotency_key t' p' a' r' h' = Some k"
    and "t < 2 ^ 128" "p < 2 ^ 128" "a < 2 ^ 128" "t' < 2 ^ 128" "p' < 2 ^ 128" "a' < 2 ^ 128"
    and "(t, p, a, r, h) \<noteq> (t', p', a', r', h')"
  obtains x y where "utf8_encode (execution_identity_text t p a r h) = Some x"
    "utf8_encode (execution_identity_text t' p' a' r' h') = Some y" "x \<noteq> y" "sha256 x = sha256 y"
proof -
  obtain x y where x: "utf8_encode (execution_identity_text t p a r h) = Some x"
    and y: "utf8_encode (execution_identity_text t' p' a' r' h') = Some y"
    and eq: "hexdigest (sha256 x) = hexdigest (sha256 y)"
    using assms(1,2) by (auto simp: execution_idempotency_key_def)
  have "x \<noteq> y"
  proof
    assume "x = y"
    then have "execution_identity_text t p a r h = execution_identity_text t' p' a' r' h'"
      using utf8_encode_inj [OF x] y by blast
    from execution_identity_text_inj [OF this assms(3-8)] show False using assms(9) by simp
  qed
  moreover have "sha256 x = sha256 y"
    using hexdigest_inj [OF sha256_bytes sha256_bytes _ eq] by (simp add: length_sha256)
  ultimately show ?thesis using that x y by blast
qed

end
