(* ===== verification/Policy.thy ===== *)
theory Policy
  imports Identity
begin

text \<open>
  \<open>core/policy.py\<close>: the deterministic policy a proposed decision must satisfy. The model follows
  the statements of \<open>validate_decision\<close> in order, one error constructor per \<open>raise\<close>; the
  declarative predicate \<open>admissible\<close> states what an accepted decision satisfies, and
  \<open>validate_decision_admissible\<close> shows that the two coincide.
\<close>

section \<open>Decision policy\<close>

record DecisionPolicy =
  dp_allowed_action_types :: "string set"
  dp_allowed_wake_event_types :: "string set"
  dp_human_wake_action_types :: "string set"
  dp_max_actions_per_turn :: int
  dp_max_timer_horizon :: duration
  dp_max_action_parameter_fields :: int
  dp_max_action_parameters_bytes :: int
  dp_max_open_commitments :: int
  dp_max_commitment_bytes :: int
  dp_max_open_commitments_bytes :: int
  dp_max_memory_summary_bytes :: int
  dp_completion_requirements :: jobject

datatype policy_error =
    NegativeMaxActions
  | HorizonNotPositive
  | PolicyLimitNotPositive nat
  | AbovePlatformMaximum nat
  | HumanWakeActionNotAllowed

text \<open>The pairs \<open>(value, platform maximum)\<close> in the order of \<open>byte_and_count_limits\<close>.\<close>

definition policy_limits :: "DecisionPolicy \<Rightarrow> (int \<times> int) list" where
  "policy_limits p =
     (let d = DEFAULT_PLATFORM_SAFETY_LIMITS in
      [(dp_max_action_parameter_fields p, max_action_parameter_fields d),
       (dp_max_action_parameters_bytes p, max_action_parameters_bytes d),
       (dp_max_open_commitments p, max_open_commitments d),
       (dp_max_commitment_bytes p, max_commitment_bytes d),
       (dp_max_open_commitments_bytes p, max_open_commitments_bytes d),
       (dp_max_memory_summary_bytes p, max_memory_summary_bytes d)])"

definition check_DecisionPolicy :: "DecisionPolicy \<Rightarrow> policy_error + DecisionPolicy" where
  "check_DecisionPolicy p =
     bind_result (require (0 \<le> dp_max_actions_per_turn p) NegativeMaxActions) (\<lambda>_.
     bind_result (require (0 < dp_max_timer_horizon p) HorizonNotPositive) (\<lambda>_.
     bind_result (check_all (\<lambda>(i, value, maximum).
         bind_result (require (1 \<le> value) (PolicyLimitNotPositive i)) (\<lambda>_.
         require (value \<le> maximum) (AbovePlatformMaximum i)))
       (enumerate 0 (policy_limits p))) (\<lambda>_.
     bind_result (require (dp_human_wake_action_types p \<subseteq> dp_allowed_action_types p)
       HumanWakeActionNotAllowed) (\<lambda>_.
     Inr p))))"

section \<open>Validation of a decision\<close>

datatype decision_error =
    NaiveWorkflowNow
  | EventsMismatch
  | ReviewCommandsMismatch
  | ActionResultsMismatch
  | TimersMismatch
  | ContentRejected value_error
  | SummaryCitesOtherEvent
  | SummaryCitesOtherReview
  | SummaryCitesOtherActionResult
  | SummaryCitesOtherTimer
  | TooManyActions
  | CompletedWithActions
  | CompletionFactsMissing
  | CompletionUnsatisfied "unicode list"
  | ActiveWithoutWork
  | ActionTypeNotAllowed string
  | PayloadNotSerialisable
  | DuplicateLogicalActionKey unicode
  | RepeatsConflictedPayload
  | HumanWakeWithoutApprovalAction
  | WakeEventTypeNotAllowed string
  | TimerNotInFuture
  | TimerBeyondHorizon

text \<open>
  The expected sources of the turn and the optional arguments of \<open>validate_decision\<close>; \<open>None\<close>
  leaves a set unchecked.
\<close>

record TurnExpectation =
  tx_workflow_now :: datetime
  tx_event_ids :: "uuid set option"
  tx_review_command_ids :: "uuid set option"
  tx_action_attempt_ids :: "uuid set option"
  tx_timer_ids :: "string set option"
  tx_conflicted_action_payload_hashes :: "unicode set"
  tx_current_authoritative_facts :: "jobject option"
  tx_enforce_completion_requirements :: bool

definition expected_sources :: "'k set option \<Rightarrow> 'k list \<Rightarrow> bool" where
  "expected_sources expected actual = (case expected of None \<Rightarrow> True | Some ids \<Rightarrow> set actual = ids)"

text \<open>The keys of the requirements a set of facts does not meet, sorted.\<close>

definition fact_meets :: "jobject \<Rightarrow> unicode \<times> json \<Rightarrow> bool" where
  "fact_meets facts requirement =
     (case map_of facts (fst requirement) of None \<Rightarrow> False | Some v \<Rightarrow> py_eq v (snd requirement))"

definition unsatisfied_requirements :: "jobject \<Rightarrow> jobject \<Rightarrow> unicode list" where
  "unsatisfied_requirements requirements facts =
     map fst (filter (\<lambda>r. \<not> fact_meets facts r) (sort_fields requirements))"

definition check_action_parameters :: "DecisionPolicy \<Rightarrow> ActionProposal \<Rightarrow> value_error + unit" where
  "check_action_parameters policy action =
     (let label = ascii ''action parameters for '' @ ap_logical_action_key action in
     bind_result (require_item_count (ap_parameters action) label
       (dp_max_action_parameter_fields policy)) (\<lambda>_.
     bind_result (require_json_bytes (JObj (ap_parameters action)) label
       (dp_max_action_parameters_bytes policy)) (\<lambda>_. Inr ())))"

definition content_rejected :: "value_error + unit \<Rightarrow> decision_error + unit" where
  "content_rejected r = (case r of Inl e \<Rightarrow> Inl (ContentRejected e) | Inr u \<Rightarrow> Inr u)"

definition check_decision_content :: "DecisionPolicy \<Rightarrow> AgentDecision \<Rightarrow> decision_error + unit" where
  "check_decision_content policy decision =
     (let memory = ad_memory_update decision in
     content_rejected (
       bind_result (check_memory (mu_summary memory) (mu_open_commitments memory)
         (dp_max_memory_summary_bytes policy) (dp_max_open_commitments policy)
         (dp_max_commitment_bytes policy) (dp_max_open_commitments_bytes policy)) (\<lambda>_.
       check_all (check_action_parameters policy) (ad_actions decision))))"

definition check_completion ::
  "DecisionPolicy \<Rightarrow> TurnExpectation \<Rightarrow> AgentDecision \<Rightarrow> decision_error + unit" where
  "check_completion policy turn decision =
     (if tx_enforce_completion_requirements turn \<and> ad_status decision = DecisionStatus.COMPLETED
         \<and> dp_completion_requirements policy \<noteq> []
      then (case tx_current_authoritative_facts turn of
              None \<Rightarrow> Inl CompletionFactsMissing
            | Some facts \<Rightarrow>
                let unsatisfied = unsatisfied_requirements (dp_completion_requirements policy) facts
                in if unsatisfied \<noteq> [] then Inl (CompletionUnsatisfied unsatisfied) else Inr ())
      else Inr ())"

text \<open>The loop over the proposed actions, with the set of keys already used.\<close>

fun check_proposals ::
  "DecisionPolicy \<Rightarrow> unicode set \<Rightarrow> unicode set \<Rightarrow> ActionProposal list \<Rightarrow> decision_error + unit" where
  "check_proposals policy conflicted action_keys [] = Inr ()"
| "check_proposals policy conflicted action_keys (action # rest) =
     (if ap_action_type action \<notin> dp_allowed_action_types policy
      then Inl (ActionTypeNotAllowed (ap_action_type action))
      else if ap_logical_action_key action \<in> action_keys
      then Inl (DuplicateLogicalActionKey (ap_logical_action_key action))
      else (case action_payload_identity (ap_action_type action) (ap_parameters action) of
              None \<Rightarrow> Inl PayloadNotSerialisable
            | Some identity \<Rightarrow>
                if identity \<in> conflicted then Inl RepeatsConflictedPayload
                else check_proposals policy conflicted
                       (insert (ap_logical_action_key action) action_keys) rest))"

fun check_wake :: "DecisionPolicy \<Rightarrow> instant \<Rightarrow> WakeCondition \<Rightarrow> decision_error + unit" where
  "check_wake policy now (EventWakeCondition event_type) =
     require (event_type \<in> dp_allowed_wake_event_types policy) (WakeEventTypeNotAllowed event_type)"
| "check_wake policy now (TimerWakeCondition at) =
     (if at \<le> now then Inl TimerNotInFuture
      else if dp_max_timer_horizon policy < at - now then Inl TimerBeyondHorizon
      else Inr ())"
| "check_wake policy now (HumanWakeCondition _) = Inr ()"

definition validate_decision ::
  "AgentDecision \<Rightarrow> DecisionPolicy \<Rightarrow> TurnExpectation \<Rightarrow> decision_error + AgentDecision" where
  "validate_decision decision policy turn =
     (let memory = ad_memory_update decision in
     bind_result (case tx_workflow_now turn of Naive _ \<Rightarrow> Inl NaiveWorkflowNow | Aware t \<Rightarrow> Inr t) (\<lambda>now.
     bind_result (require (expected_sources (tx_event_ids turn) (ad_based_on_event_ids decision))
       EventsMismatch) (\<lambda>_.
     bind_result (require (expected_sources (tx_review_command_ids turn)
         (ad_based_on_review_command_ids decision)) ReviewCommandsMismatch) (\<lambda>_.
     bind_result (require (expected_sources (tx_action_attempt_ids turn)
         (ad_based_on_action_attempt_ids decision)) ActionResultsMismatch) (\<lambda>_.
     bind_result (require (expected_sources (tx_timer_ids turn) (ad_based_on_timer_ids decision))
       TimersMismatch) (\<lambda>_.
     bind_result (check_decision_content policy decision) (\<lambda>_.
     bind_result (require (set (mu_summary_source_event_ids memory) \<subseteq> set (ad_based_on_event_ids decision))
       SummaryCitesOtherEvent) (\<lambda>_.
     bind_result (require (set (mu_summary_source_review_command_ids memory)
         \<subseteq> set (ad_based_on_review_command_ids decision)) SummaryCitesOtherReview) (\<lambda>_.
     bind_result (require (set (mu_summary_source_action_attempt_ids memory)
         \<subseteq> set (ad_based_on_action_attempt_ids decision)) SummaryCitesOtherActionResult) (\<lambda>_.
     bind_result (require (set (mu_summary_source_timer_ids memory) \<subseteq> set (ad_based_on_timer_ids decision))
       SummaryCitesOtherTimer) (\<lambda>_.
     bind_result (require (int (length (ad_actions decision)) \<le> dp_max_actions_per_turn policy)
       TooManyActions) (\<lambda>_.
     bind_result (require (\<not> (ad_status decision = DecisionStatus.COMPLETED \<and> ad_actions decision \<noteq> []))
       CompletedWithActions) (\<lambda>_.
     bind_result (check_completion policy turn decision) (\<lambda>_.
     bind_result (require (\<not> (ad_status decision = DecisionStatus.ACTIVE \<and> ad_actions decision = []
         \<and> ad_wake_conditions decision = [])) ActiveWithoutWork) (\<lambda>_.
     bind_result (check_proposals policy (tx_conflicted_action_payload_hashes turn) {}
       (ad_actions decision)) (\<lambda>_.
     bind_result (require (\<not> (list_ex is_human_wake (ad_wake_conditions decision)
         \<and> \<not> list_ex (\<lambda>a. ap_action_type a \<in> dp_human_wake_action_types policy) (ad_actions decision)))
       HumanWakeWithoutApprovalAction) (\<lambda>_.
     bind_result (check_all (check_wake policy now) (ad_wake_conditions decision)) (\<lambda>_.
     Inr decision))))))))))))))))))"

section \<open>What an accepted decision satisfies\<close>

definition cites_only_turn_sources :: "AgentDecision \<Rightarrow> bool" where
  "cites_only_turn_sources d \<longleftrightarrow>
     (let m = ad_memory_update d in
      set (mu_summary_source_event_ids m) \<subseteq> set (ad_based_on_event_ids d)
      \<and> set (mu_summary_source_review_command_ids m) \<subseteq> set (ad_based_on_review_command_ids d)
      \<and> set (mu_summary_source_action_attempt_ids m) \<subseteq> set (ad_based_on_action_attempt_ids d)
      \<and> set (mu_summary_source_timer_ids m) \<subseteq> set (ad_based_on_timer_ids d))"

definition uses_turn_sources :: "TurnExpectation \<Rightarrow> AgentDecision \<Rightarrow> bool" where
  "uses_turn_sources turn d \<longleftrightarrow>
     expected_sources (tx_event_ids turn) (ad_based_on_event_ids d)
     \<and> expected_sources (tx_review_command_ids turn) (ad_based_on_review_command_ids d)
     \<and> expected_sources (tx_action_attempt_ids turn) (ad_based_on_action_attempt_ids d)
     \<and> expected_sources (tx_timer_ids turn) (ad_based_on_timer_ids d)"

definition content_fits :: "DecisionPolicy \<Rightarrow> AgentDecision \<Rightarrow> bool" where
  "content_fits p d \<longleftrightarrow>
     memory_fits (mu_summary (ad_memory_update d)) (mu_open_commitments (ad_memory_update d))
       (dp_max_memory_summary_bytes p) (dp_max_open_commitments p)
       (dp_max_commitment_bytes p) (dp_max_open_commitments_bytes p)
     \<and> (\<forall>a \<in> set (ad_actions d).
          int (length (ap_parameters a)) \<le> dp_max_action_parameter_fields p
          \<and> fits (json_size (JObj (ap_parameters a))) (dp_max_action_parameters_bytes p))"

definition completion_allowed :: "DecisionPolicy \<Rightarrow> TurnExpectation \<Rightarrow> AgentDecision \<Rightarrow> bool" where
  "completion_allowed p turn d \<longleftrightarrow>
     (ad_status d = DecisionStatus.COMPLETED \<longrightarrow>
        ad_actions d = []
        \<and> (tx_enforce_completion_requirements turn \<and> dp_completion_requirements p \<noteq> [] \<longrightarrow>
             (\<exists>facts. tx_current_authoritative_facts turn = Some facts
                \<and> (\<forall>r \<in> set (dp_completion_requirements p). fact_meets facts r))))"

definition actions_allowed :: "DecisionPolicy \<Rightarrow> TurnExpectation \<Rightarrow> AgentDecision \<Rightarrow> bool" where
  "actions_allowed p turn d \<longleftrightarrow>
     int (length (ad_actions d)) \<le> dp_max_actions_per_turn p
     \<and> distinct (map ap_logical_action_key (ad_actions d))
     \<and> (\<forall>a \<in> set (ad_actions d).
          ap_action_type a \<in> dp_allowed_action_types p
          \<and> (\<exists>h. action_payload_identity (ap_action_type a) (ap_parameters a) = Some h
               \<and> h \<notin> tx_conflicted_action_payload_hashes turn))"

fun wake_allowed :: "DecisionPolicy \<Rightarrow> instant \<Rightarrow> WakeCondition \<Rightarrow> bool" where
  "wake_allowed p now (EventWakeCondition ty) \<longleftrightarrow> ty \<in> dp_allowed_wake_event_types p"
| "wake_allowed p now (TimerWakeCondition at) \<longleftrightarrow> now < at \<and> at \<le> now + dp_max_timer_horizon p"
| "wake_allowed p now (HumanWakeCondition _) \<longleftrightarrow> True"

definition wakes_allowed :: "DecisionPolicy \<Rightarrow> instant \<Rightarrow> AgentDecision \<Rightarrow> bool" where
  "wakes_allowed p now d \<longleftrightarrow>
     (ad_status d = DecisionStatus.ACTIVE \<longrightarrow> ad_actions d \<noteq> [] \<or> ad_wake_conditions d \<noteq> [])
     \<and> ((\<exists>w \<in> set (ad_wake_conditions d). is_human_wake w) \<longrightarrow>
          (\<exists>a \<in> set (ad_actions d). ap_action_type a \<in> dp_human_wake_action_types p))
     \<and> (\<forall>w \<in> set (ad_wake_conditions d). wake_allowed p now w)"

definition admissible :: "DecisionPolicy \<Rightarrow> TurnExpectation \<Rightarrow> instant \<Rightarrow> AgentDecision \<Rightarrow> bool" where
  "admissible p turn now d \<longleftrightarrow>
     uses_turn_sources turn d \<and> content_fits p d \<and> cites_only_turn_sources d
     \<and> completion_allowed p turn d \<and> actions_allowed p turn d \<and> wakes_allowed p now d"

lemmas admissible_defs = admissible_def uses_turn_sources_def content_fits_def
  cites_only_turn_sources_def completion_allowed_def actions_allowed_def wakes_allowed_def

section \<open>Equivalence of validation and admissibility\<close>

lemma content_rejected_Inr [simp]: "content_rejected r = Inr u \<longleftrightarrow> r = Inr ()"
  by (cases r) (simp_all add: content_rejected_def)

lemma check_action_parameters_ok:
  "check_action_parameters p a = Inr u \<longleftrightarrow>
     int (length (ap_parameters a)) \<le> dp_max_action_parameter_fields p
     \<and> fits (json_size (JObj (ap_parameters a))) (dp_max_action_parameters_bytes p)"
  by (simp add: check_action_parameters_def Let_def require_ok)

lemma check_decision_content_ok: "check_decision_content p d = Inr u \<longleftrightarrow> content_fits p d"
  by (simp add: check_decision_content_def content_fits_def Let_def check_memory_ok
      check_action_parameters_ok)

lemma unsatisfied_requirements_Nil:
  "unsatisfied_requirements rs facts = [] \<longleftrightarrow> (\<forall>r \<in> set rs. fact_meets facts r)"
  by (simp add: unsatisfied_requirements_def filter_empty_conv)

lemma check_completion_ok:
  "check_completion p turn d = Inr u \<longleftrightarrow>
     (ad_status d = DecisionStatus.COMPLETED \<and> tx_enforce_completion_requirements turn
        \<and> dp_completion_requirements p \<noteq> [] \<longrightarrow>
      (\<exists>facts. tx_current_authoritative_facts turn = Some facts
         \<and> (\<forall>r \<in> set (dp_completion_requirements p). fact_meets facts r)))"
  by (auto simp: check_completion_def Let_def unsatisfied_requirements_Nil split: option.splits)

lemma check_proposals_ok:
  "check_proposals p conflicted keys as = Inr u \<longleftrightarrow>
     distinct (map ap_logical_action_key as) \<and> ap_logical_action_key ` set as \<inter> keys = {}
     \<and> (\<forall>a \<in> set as. ap_action_type a \<in> dp_allowed_action_types p
          \<and> (\<exists>h. action_payload_identity (ap_action_type a) (ap_parameters a) = Some h
               \<and> h \<notin> conflicted))"
  by (induction as arbitrary: keys) (auto split: option.splits)

lemma check_wake_ok: "check_wake p now w = Inr u \<longleftrightarrow> wake_allowed p now w"
  by (cases w) auto

lemma validate_decision_admissible:
  "validate_decision d p turn = Inr d' \<longleftrightarrow>
     d' = d \<and> (\<exists>now. tx_workflow_now turn = Aware now \<and> admissible p turn now d)"
proof (cases "tx_workflow_now turn")
  case (Naive n)
  then show ?thesis by (simp add: validate_decision_def Let_def)
next
  case (Aware now)
  then show ?thesis
    unfolding validate_decision_def Let_def admissible_defs
    by (simp add: check_decision_content_ok content_fits_def check_completion_ok
        check_proposals_ok check_wake_ok list_ex_iff) blast
qed

section \<open>Policies within the platform's limits\<close>

definition policy_within_platform :: "DecisionPolicy \<Rightarrow> bool" where
  "policy_within_platform p \<longleftrightarrow>
     0 \<le> dp_max_actions_per_turn p \<and> 0 < dp_max_timer_horizon p
     \<and> (\<forall>(value, maximum) \<in> set (policy_limits p). 1 \<le> value \<and> value \<le> maximum)
     \<and> dp_human_wake_action_types p \<subseteq> dp_allowed_action_types p"

lemma check_DecisionPolicy_ok:
  "check_DecisionPolicy p = Inr p' \<longleftrightarrow> p' = p \<and> policy_within_platform p"
  by (auto simp: check_DecisionPolicy_def policy_within_platform_def enumerate_eq_zip
      policy_limits_def Let_def)

lemma fits_mono: "fits n limit \<Longrightarrow> limit \<le> limit' \<Longrightarrow> fits n limit'"
  by (auto simp: fits_def split: option.splits)

lemma memory_fits_mono:
  "memory_fits s cs a b c d \<Longrightarrow> a \<le> a' \<Longrightarrow> b \<le> b' \<Longrightarrow> c \<le> c' \<Longrightarrow> d \<le> d' \<Longrightarrow>
   memory_fits s cs a' b' c' d'"
  by (auto simp: memory_fits_def intro: fits_mono split: option.splits)

lemma content_within_platform:
  assumes "policy_within_platform p" "content_fits p d"
  shows "require_memory_content (mu_summary (ad_memory_update d))
           (mu_open_commitments (ad_memory_update d)) DEFAULT_PLATFORM_SAFETY_LIMITS = Inr ()"
    and "\<forall>a \<in> set (ad_actions d). require_action_parameters (ap_parameters a) label
           DEFAULT_PLATFORM_SAFETY_LIMITS = Inr ()"
  using assms
  by (auto simp: policy_within_platform_def policy_limits_def Let_def content_fits_def
      require_memory_content_def check_memory_ok require_action_parameters_ok
      elim!: memory_fits_mono intro: fits_mono)

section \<open>Rejection\<close>

text \<open>
  Once the workflow time is aware, every failure is a \<open>DecisionRejected\<close>: a payload that passed
  the content check can be hashed.
\<close>

lemma check_proposals_serialisable:
  assumes "\<forall>a \<in> set as. \<exists>h. action_payload_identity (ap_action_type a) (ap_parameters a) = Some h"
  shows "check_proposals p conflicted keys as \<noteq> Inl PayloadNotSerialisable"
  using assms by (induction as arbitrary: keys) (auto split: if_splits)

lemma check_all_not_Inl: "(\<And>x. f x \<noteq> Inl e) \<Longrightarrow> check_all f xs \<noteq> Inl e"
  using check_all_Inl by metis

lemma validate_decision_serialisable: "validate_decision d p turn \<noteq> Inl PayloadNotSerialisable"
proof
  assume bad: "validate_decision d p turn = Inl PayloadNotSerialisable"
  have wake: "check_wake p now w \<noteq> Inl PayloadNotSerialisable" for now w
    by (cases w) (auto simp: require_def)
  have wakes: "check_all (check_wake p now) ws \<noteq> Inl PayloadNotSerialisable" for now ws
    by (rule check_all_not_Inl) (rule wake)
  have completion: "check_completion p turn d \<noteq> Inl PayloadNotSerialisable"
    by (auto simp: check_completion_def Let_def split: option.splits)
  have content: "check_decision_content p d \<noteq> Inl PayloadNotSerialisable"
    by (simp add: check_decision_content_def content_rejected_def Let_def split: sum.splits)
  have "check_decision_content p d = Inr ()
      \<and> check_proposals p (tx_conflicted_action_payload_hashes turn) {} (ad_actions d)
          = Inl PayloadNotSerialisable"
    using bad completion content wakes
    by (auto simp: validate_decision_def Let_def bind_result_Inl split: datetime.splits)
  moreover from this have "\<forall>a \<in> set (ad_actions d).
      \<exists>h. action_payload_identity (ap_action_type a) (ap_parameters a) = Some h"
    using action_payload_identity_defined by (auto simp: check_decision_content_ok content_fits_def)
  ultimately show False using check_proposals_serialisable by blast
qed

end
