(* ===== verification/Transitions.thy ===== *)
theory Transitions
  imports Policy "HOL-Library.AList"
begin

text \<open>
  \<open>core/transitions.py\<close>: the projection rules shared by persistence and simulation. Fact
  observations update the authoritative facts or the customer claims together with their
  provenance; a decision and the statuses of the open actions determine the next process status
  and the effective wake conditions. A dictionary is an association list in insertion order,
  and \<open>d[k] = v\<close> is \<open>AList.update\<close>.
\<close>

section \<open>Facts\<close>

record FactProjection =
  fp_authoritative :: jobject
  fp_claims :: jobject
  fp_provenance :: jobject

definition provenance_key :: "FactKind \<Rightarrow> string \<Rightarrow> unicode" where
  "provenance_key kind key = ascii (fact_kind_value kind) @ [58] @ ascii key"

definition provenance_entry :: "FactKind \<Rightarrow> unicode \<Rightarrow> uuid \<Rightarrow> json" where
  "provenance_entry kind source_type source_id =
     JObj [(ascii ''kind'', JStr (ascii (fact_kind_value kind))),
           (ascii ''source_type'', JStr source_type),
           (ascii ''source_id'', JStr (uuid_str source_id))]"

definition apply_observation ::
  "unicode \<Rightarrow> uuid \<Rightarrow> FactObservation \<Rightarrow> FactProjection \<Rightarrow> FactProjection" where
  "apply_observation source_type source_id observation fp =
     (let key = ascii (fo_key observation);
          fp' = (if fo_kind observation = AUTHORITATIVE
                 then fp\<lparr>fp_authoritative := AList.update key (fo_value observation) (fp_authoritative fp)\<rparr>
                 else fp\<lparr>fp_claims := AList.update key (fo_value observation) (fp_claims fp)\<rparr>)
      in fp'\<lparr>fp_provenance := AList.update (provenance_key (fo_kind observation) (fo_key observation))
                (provenance_entry (fo_kind observation) source_type source_id) (fp_provenance fp')\<rparr>)"

definition apply_fact_observations ::
  "FactObservation list \<Rightarrow> unicode \<Rightarrow> uuid \<Rightarrow> FactProjection \<Rightarrow> FactProjection" where
  "apply_fact_observations observations source_type source_id fp =
     fold (apply_observation source_type source_id) observations fp"

section \<open>Process transitions\<close>

record ProjectedProcessTransition =
  pt_status :: ProcessStatus
  pt_wake_conditions :: "WakeCondition list"

datatype transition_error =
    CompletedWithOpenActions
  | RequirementsUnsatisfied "unicode list"
  | CompletedNotTerminal

type_synonym open_action = "uuid \<times> ActionRequestStatus"

definition needs_human :: "ActionRequestStatus \<Rightarrow> bool" where
  "needs_human s \<longleftrightarrow> s \<in> {ActionRequestStatus.PENDING_APPROVAL, ActionRequestStatus.UNKNOWN,
     ActionRequestStatus.RECONCILING}"

definition next_status ::
  "AgentDecision \<Rightarrow> open_action list \<Rightarrow> ProcessStatus set option \<Rightarrow> jobject \<Rightarrow> jobject
     \<Rightarrow> transition_error + ProcessStatus" where
  "next_status decision open_actions terminal_states authoritative_facts completion_requirements =
     (let open_statuses = snd ` set open_actions in
      if ad_status decision = DecisionStatus.COMPLETED \<and> open_actions \<noteq> []
      then Inl CompletedWithOpenActions
      else if \<exists>s \<in> open_statuses. needs_human s then Inr ProcessStatus.REVIEW
      else if open_statuses \<noteq> {} then Inr ProcessStatus.ACTIVE
      else if ad_status decision = DecisionStatus.COMPLETED then
        (let unsatisfied = unsatisfied_requirements completion_requirements authoritative_facts in
         if unsatisfied \<noteq> [] then Inl (RequirementsUnsatisfied unsatisfied)
         else if (case terminal_states of None \<Rightarrow> False
                  | Some states \<Rightarrow> ProcessStatus.COMPLETED \<notin> states) then Inl CompletedNotTerminal
         else Inr ProcessStatus.COMPLETED)
      else if ad_status decision = DecisionStatus.ESCALATED
              \<or> list_ex is_human_wake (ad_wake_conditions decision) then Inr ProcessStatus.REVIEW
      else if ad_status decision = DecisionStatus.WAITING then Inr ProcessStatus.WAITING
      else Inr ProcessStatus.ACTIVE)"

definition effective_wake_conditions ::
  "AgentDecision \<Rightarrow> ProcessStatus \<Rightarrow> open_action list \<Rightarrow> WakeCondition list" where
  "effective_wake_conditions decision status open_actions =
     (let open_statuses = snd ` set open_actions in
      if ActionRequestStatus.PENDING_APPROVAL \<in> open_statuses
      then [HumanWakeCondition Interaction.APPROVAL]
      else if ActionRequestStatus.UNKNOWN \<in> open_statuses
              \<or> ActionRequestStatus.RECONCILING \<in> open_statuses
      then [HumanWakeCondition Interaction.OPERATOR]
      else if open_actions \<noteq> [] then []
      else if status \<in> {ProcessStatus.COMPLETED, ProcessStatus.CANCELLED, ProcessStatus.FAILED} then []
      else if status = ProcessStatus.REVIEW \<and> ad_wake_conditions decision = []
      then [HumanWakeCondition Interaction.OPERATOR]
      else ad_wake_conditions decision)"

definition project_process_transition ::
  "AgentDecision \<Rightarrow> open_action list \<Rightarrow> ProcessStatus set option \<Rightarrow> jobject \<Rightarrow> jobject
     \<Rightarrow> transition_error + ProjectedProcessTransition" where
  "project_process_transition decision open_actions terminal_states authoritative_facts
       completion_requirements =
     bind_result (next_status decision open_actions terminal_states authoritative_facts
         completion_requirements) (\<lambda>status.
       Inr \<lparr>pt_status = status,
            pt_wake_conditions = effective_wake_conditions decision status open_actions\<rparr>)"

section \<open>Facts: the last observation wins and is attributed\<close>

definition last_observed :: "FactKind \<Rightarrow> unicode \<Rightarrow> FactObservation list \<Rightarrow> json option" where
  "last_observed kind key observations =
     map_of (rev (map (\<lambda>f. (ascii (fo_key f), fo_value f)) (filter (\<lambda>f. fo_kind f = kind) observations))) key"

lemma last_observed_snoc:
  "last_observed kind key (fs @ [f]) =
     (if fo_kind f = kind \<and> ascii (fo_key f) = key then Some (fo_value f) else last_observed kind key fs)"
  by (simp add: last_observed_def)

lemma last_observed_Nil [simp]: "last_observed kind key [] = None"
  by (simp add: last_observed_def)

lemma apply_fact_observations_snoc:
  "apply_fact_observations (fs @ [f]) ty src fp =
     apply_observation ty src f (apply_fact_observations fs ty src fp)"
  by (simp add: apply_fact_observations_def)

lemma apply_facts_authoritative:
  "map_of (fp_authoritative (apply_fact_observations fs ty src fp)) key =
     (case last_observed AUTHORITATIVE key fs of
        None \<Rightarrow> map_of (fp_authoritative fp) key | Some v \<Rightarrow> Some v)"
proof (induction fs rule: rev_induct)
  case Nil
  then show ?case by (simp add: apply_fact_observations_def)
next
  case (snoc f fs)
  then show ?case
    by (simp add: apply_fact_observations_snoc last_observed_snoc apply_observation_def Let_def
        update_conv)
qed

lemma apply_facts_claims:
  "map_of (fp_claims (apply_fact_observations fs ty src fp)) key =
     (case last_observed CUSTOMER_CLAIM key fs of
        None \<Rightarrow> map_of (fp_claims fp) key | Some v \<Rightarrow> Some v)"
proof (induction fs rule: rev_induct)
  case Nil
  then show ?case by (simp add: apply_fact_observations_def)
next
  case (snoc f fs)
  then show ?case
    by (cases "fo_kind f")
      (simp_all add: apply_fact_observations_snoc last_observed_snoc apply_observation_def Let_def
        update_conv)
qed

lemma ascii_inj: "ascii s = ascii t \<Longrightarrow> s = t"
  by (simp add: ascii_def inj_map_eq_map inj_of_char)

lemma provenance_key_inj:
  assumes "provenance_key k s = provenance_key k' s'"
  shows "k = k' \<and> s = s'"
proof (cases k; cases k')
qed (use assms in \<open>auto simp: provenance_key_def ascii_def dest!: ascii_inj [unfolded ascii_def]\<close>)

lemma apply_facts_provenance:
  "map_of (fp_provenance (apply_fact_observations fs ty src fp)) (provenance_key kind key) =
     (if \<exists>f \<in> set fs. fo_kind f = kind \<and> fo_key f = key
      then Some (provenance_entry kind ty src)
      else map_of (fp_provenance fp) (provenance_key kind key))"
proof (induction fs rule: rev_induct)
  case Nil
  then show ?case by (simp add: apply_fact_observations_def)
next
  case (snoc f fs)
  then show ?case
    using provenance_key_inj [of "fo_kind f" "fo_key f" kind key]
    by (auto simp: apply_fact_observations_snoc apply_observation_def Let_def update_conv)
qed

text \<open>Dictionary keys stay distinct.\<close>

definition projection_ok :: "FactProjection \<Rightarrow> bool" where
  "projection_ok fp \<longleftrightarrow> distinct (map fst (fp_authoritative fp)) \<and> distinct (map fst (fp_claims fp))
     \<and> distinct (map fst (fp_provenance fp))"

lemma apply_facts_ok: "projection_ok fp \<Longrightarrow> projection_ok (apply_fact_observations fs ty src fp)"
proof (induction fs rule: rev_induct)
  case Nil
  then show ?case by (simp add: apply_fact_observations_def)
next
  case (snoc f fs)
  then show ?case
    by (simp add: apply_fact_observations_snoc apply_observation_def Let_def projection_ok_def
        distinct_update)
qed

section \<open>Status and wakes\<close>

text \<open>A status that nothing but a wake can leave.\<close>

definition quiescent :: "ProcessStatus \<Rightarrow> bool" where
  "quiescent s \<longleftrightarrow> s \<in> {ProcessStatus.WAITING, ProcessStatus.REVIEW}"

lemma next_status_completed:
  assumes "next_status d open_actions terminal facts reqs = Inr ProcessStatus.COMPLETED"
  shows "ad_status d = DecisionStatus.COMPLETED" "open_actions = []"
    "\<forall>r \<in> set reqs. fact_meets facts r"
    "\<forall>states. terminal = Some states \<longrightarrow> ProcessStatus.COMPLETED \<in> states"
  using assms
  by (auto simp: next_status_def Let_def unsatisfied_requirements_Nil split: if_splits option.splits)

lemma next_status_review:
  "next_status d open_actions terminal facts reqs = Inr ProcessStatus.REVIEW \<longleftrightarrow>
     ad_status d \<noteq> DecisionStatus.COMPLETED
       \<and> ((\<exists>a \<in> set open_actions. needs_human (snd a))
          \<or> open_actions = [] \<and> (ad_status d = DecisionStatus.ESCALATED
              \<or> (\<exists>w \<in> set (ad_wake_conditions d). is_human_wake w)))"
  by (auto simp: next_status_def Let_def list_ex_iff split: option.splits)

lemma next_status_range:
  "next_status d open_actions terminal facts reqs = Inr s \<Longrightarrow>
   s \<in> {ProcessStatus.ACTIVE, ProcessStatus.WAITING, ProcessStatus.REVIEW, ProcessStatus.COMPLETED}"
  by (auto simp: next_status_def Let_def split: if_splits option.splits)

lemma transition_no_dead_end:
  assumes "check_AgentDecision d = Inr d"
    and "project_process_transition d open_actions terminal facts reqs = Inr t"
    and "quiescent (pt_status t)"
  shows "pt_wake_conditions t \<noteq> []"
proof (cases "pt_status t = ProcessStatus.WAITING")
  case True
  then have "ad_status d = DecisionStatus.WAITING" "open_actions = []"
    using assms(2) by (auto simp: project_process_transition_def next_status_def Let_def
        split: if_splits option.splits)
  then show ?thesis
    using assms(1,2) True
    by (auto simp: check_AgentDecision_ok project_process_transition_def effective_wake_conditions_def
        Let_def)
next
  case False
  then have "next_status d open_actions terminal facts reqs = Inr ProcessStatus.REVIEW"
    and t: "pt_wake_conditions t = effective_wake_conditions d ProcessStatus.REVIEW open_actions"
    using assms(2,3) by (auto simp: project_process_transition_def quiescent_def)
  then have "(\<exists>a \<in> set open_actions. needs_human (snd a)) \<or> open_actions = []"
    by (auto simp: next_status_review)
  then show ?thesis
    unfolding t effective_wake_conditions_def Let_def
    by (auto simp: needs_human_def simp del: image_iff intro: rev_image_eqI)
qed

end
