(* ===== verification/Definitions.thy ===== *)
theory Definitions
  imports Transitions
begin

text \<open>
  \<open>processes/definitions.py\<close>: the configuration of one process-definition version, the checks its
  construction performs, and the policies compiled from it (\<open>decision_policy\<close>,
  \<open>action_policy\<close>, \<open>CommunicationPolicy.from_definition\<close> and
  \<open>ModelBudget.from_definition\<close> read it). A clock time is a number of microseconds since
  midnight; whether a timezone name exists is a question to the timezone database, which is an
  argument (\<open>known_zone\<close>).
\<close>

abbreviation hours :: "int \<Rightarrow> duration" where "hours n \<equiv> n * 3600000000"
abbreviation days :: "int \<Rightarrow> duration" where "days n \<equiv> n * 86400000000"

section \<open>Configuration records\<close>

datatype DefinitionStatus = DRAFT | PUBLISHED | RETIRED

record ProcessLimits =
  pl_max_actions_per_turn :: int
  pl_max_follow_ups_without_reply :: int
  pl_minimum_follow_up_interval_hours :: int
  pl_maximum_timer_horizon_days :: int
  pl_max_outbound_messages_per_process :: int
  pl_max_outbound_messages_per_window :: int
  pl_outbound_message_window_hours :: int
  pl_maximum_process_lifetime_days :: int
  pl_max_model_input_tokens_per_process :: int
  pl_max_model_output_tokens_per_process :: int
  pl_max_model_total_tokens_per_process :: int
  pl_max_model_cost_micros_per_process :: int

definition default_ProcessLimits :: ProcessLimits where
  "default_ProcessLimits =
     \<lparr>pl_max_actions_per_turn = 3, pl_max_follow_ups_without_reply = 3,
      pl_minimum_follow_up_interval_hours = 24, pl_maximum_timer_horizon_days = 30,
      pl_max_outbound_messages_per_process = 50, pl_max_outbound_messages_per_window = 5,
      pl_outbound_message_window_hours = 24, pl_maximum_process_lifetime_days = 90,
      pl_max_model_input_tokens_per_process = 1000000,
      pl_max_model_output_tokens_per_process = 250000,
      pl_max_model_total_tokens_per_process = 1000000,
      pl_max_model_cost_micros_per_process = 20000000\<rparr>"

text \<open>A time of day, with or without a UTC offset.\<close>

datatype clock = LocalClock int | OffsetClock int

fun clock_micros :: "clock \<Rightarrow> int" where
  "clock_micros (LocalClock t) = t"
| "clock_micros (OffsetClock t) = t"

record DailyQuietHours =
  qh_timezone :: unicode
  qh_start_local :: clock
  qh_end_local :: clock

record CommunicationConfiguration =
  cc_outbound_action_types :: "string list"
  cc_reply_event_types :: "string list"
  cc_opt_out_event_types :: "string list"
  cc_automated_response_event_types :: "string list"
  cc_quiet_hours :: "DailyQuietHours option"

record FactDefinition =
  fd_key :: string
  fd_title :: unicode
  fd_description :: unicode
  fd_kinds :: "FactKind list"
  fd_value_schema :: jobject
  fd_operator_editable :: bool

record ProcessDefinition =
  pd_id :: string
  pd_version :: unicode
  pd_status :: DefinitionStatus
  pd_trigger_events :: "string list"
  pd_goals :: "unicode list"
  pd_terminal_states :: "ProcessStatus list"
  pd_allowed_actions :: "string list"
  pd_action_permissions :: "(string \<times> PermissionOutcome) list"
  pd_action_guidance :: "(string \<times> unicode) list"
  pd_decision_guidance :: "unicode list"
  pd_allowed_wake_events :: "string list"
  pd_limits :: ProcessLimits
  pd_review :: "ReviewCommandType list"
  pd_communications :: CommunicationConfiguration
  pd_integrations :: "(unicode \<times> unicode) list"
  pd_facts :: "FactDefinition list"
  pd_completion_requirements :: "(string \<times> json) list"

section \<open>Checks\<close>

datatype definition_error =
    LimitOutOfRange nat
  | UnsupportedReviewCommand
  | DuplicateReviewCommand
  | InvalidConfigurationField string
  | UnknownTimezone
  | QuietHoursWithOffset
  | QuietHoursEmpty
  | DuplicateCommunicationType
  | AmbiguousEventRole
  | ControlsWithoutOutboundAction
  | DuplicateFactKind
  | InvalidDefinitionId
  | InvalidEventType
  | DuplicateEventType
  | ReservedEventType "string list"
  | InvalidActionType
  | DuplicateActionType
  | InvalidGuidanceKey
  | BlankGuidance
  | DuplicateDecisionGuidance
  | InvalidPermissionKey
  | BlankGoal
  | InvalidRequirementKey
  | RequirementNotJson value_error
  | NotTerminalStatus
  | CompletedMissing
  | PermissionsDoNotMatchActions
  | GuidanceForUnknownAction
  | OutboundActionNotAllowed
  | ReplyEventNotAllowed
  | ControlEventNotAllowed
  | DuplicateFactKey
  | RequirementWithoutFact
  | RequirementNotAuthoritative

text \<open>The bounds \<open>ge\<close> and \<open>le\<close> of each limit, in declaration order.\<close>

definition limit_ranges :: "ProcessLimits \<Rightarrow> (int \<times> int \<times> int) list" where
  "limit_ranges l =
     [(pl_max_actions_per_turn l, 0, 20),
      (pl_max_follow_ups_without_reply l, 0, 100),
      (pl_minimum_follow_up_interval_hours l, 1, 24 * 30),
      (pl_maximum_timer_horizon_days l, 1, 365),
      (pl_max_outbound_messages_per_process l, 0, 10000),
      (pl_max_outbound_messages_per_window l, 0, 1000),
      (pl_outbound_message_window_hours l, 1, 24 * 30),
      (pl_maximum_process_lifetime_days l, 1, 3650),
      (pl_max_model_input_tokens_per_process l, 0, 1000000000),
      (pl_max_model_output_tokens_per_process l, 0, 1000000000),
      (pl_max_model_total_tokens_per_process l, 0, 1000000000),
      (pl_max_model_cost_micros_per_process l, 0, 10 ^ 15)]"

definition check_ProcessLimits :: "ProcessLimits \<Rightarrow> definition_error + unit" where
  "check_ProcessLimits l =
     check_all (\<lambda>(i, v, lo, hi). require (lo \<le> v \<and> v \<le> hi) (LimitOutOfRange i))
       (enumerate 0 (limit_ranges l))"

definition check_ReviewConfiguration :: "ReviewCommandType list \<Rightarrow> definition_error + unit" where
  "check_ReviewConfiguration commands =
     bind_result (require (set commands \<subseteq> {APPROVE, REJECT, REQUEST_REVISION, COMMENT})
       UnsupportedReviewCommand) (\<lambda>_.
     require (distinct commands) DuplicateReviewCommand)"

fun is_local_clock :: "clock \<Rightarrow> bool" where
  "is_local_clock (LocalClock _) = True"
| "is_local_clock (OffsetClock _) = False"

definition check_DailyQuietHours ::
  "(unicode \<Rightarrow> bool) \<Rightarrow> DailyQuietHours \<Rightarrow> definition_error + unit" where
  "check_DailyQuietHours known_zone q =
     bind_result (require (between_lengths 1 100 (qh_timezone q)) (InvalidConfigurationField ''timezone'')) (\<lambda>_.
     bind_result (require (known_zone (qh_timezone q)) UnknownTimezone) (\<lambda>_.
     bind_result (require (is_local_clock (qh_start_local q) \<and> is_local_clock (qh_end_local q))
       QuietHoursWithOffset) (\<lambda>_.
     require (qh_start_local q \<noteq> qh_end_local q) QuietHoursEmpty)))"

definition check_CommunicationConfiguration ::
  "(unicode \<Rightarrow> bool) \<Rightarrow> CommunicationConfiguration \<Rightarrow> definition_error + unit" where
  "check_CommunicationConfiguration known_zone c =
     (let reply = set (cc_reply_event_types c); opt_out = set (cc_opt_out_event_types c);
          automated = set (cc_automated_response_event_types c) in
     bind_result (require (distinct (cc_outbound_action_types c) \<and> distinct (cc_reply_event_types c)
         \<and> distinct (cc_opt_out_event_types c) \<and> distinct (cc_automated_response_event_types c))
       DuplicateCommunicationType) (\<lambda>_.
     bind_result (case cc_quiet_hours c of None \<Rightarrow> Inr () | Some q \<Rightarrow> check_DailyQuietHours known_zone q) (\<lambda>_.
     bind_result (require (reply \<inter> opt_out = {} \<and> reply \<inter> automated = {} \<and> opt_out \<inter> automated = {})
       AmbiguousEventRole) (\<lambda>_.
     require (\<not> (cc_outbound_action_types c = []
         \<and> (reply \<noteq> {} \<or> opt_out \<noteq> {} \<or> automated \<noteq> {} \<or> cc_quiet_hours c \<noteq> None)))
       ControlsWithoutOutboundAction))))"

definition check_FactDefinition :: "FactDefinition \<Rightarrow> definition_error + unit" where
  "check_FactDefinition f =
     bind_result (require (is_dotted_name (fd_key f) \<and> length (fd_key f) \<le> 200)
       (InvalidConfigurationField ''key'')) (\<lambda>_.
     bind_result (require (between_lengths 1 200 (fd_title f)) (InvalidConfigurationField ''title'')) (\<lambda>_.
     bind_result (require (between_lengths 1 2000 (fd_description f))
       (InvalidConfigurationField ''description'')) (\<lambda>_.
     bind_result (require (fd_kinds f \<noteq> []) (InvalidConfigurationField ''kinds'')) (\<lambda>_.
     require (distinct (fd_kinds f)) DuplicateFactKind))))"

definition check_event_types :: "string list \<Rightarrow> definition_error + unit" where
  "check_event_types values =
     bind_result (require (list_all is_dotted_name values) InvalidEventType) (\<lambda>_.
     bind_result (require (distinct values) DuplicateEventType) (\<lambda>_.
     let reserved = filter (\<lambda>v. v \<in> set RESERVED_KERNEL_EVENT_TYPES) values in
     require (reserved = []) (ReservedEventType (sort reserved))))"

definition check_requirement :: "string \<times> json \<Rightarrow> definition_error + unit" where
  "check_requirement r =
     bind_result (require (is_dotted_name (fst r)) InvalidRequirementKey) (\<lambda>_.
     case canonical_json_bytes (snd r) (ascii (''completion requirement '' @ fst r)) of
       Inl e \<Rightarrow> Inl (RequirementNotJson e)
     | Inr _ \<Rightarrow> Inr ())"

text \<open>The field validators of \<open>ProcessDefinition\<close>, in declaration order of the fields.\<close>

definition check_definition_fields ::
  "(unicode \<Rightarrow> bool) \<Rightarrow> ProcessDefinition \<Rightarrow> definition_error + unit" where
  "check_definition_fields known_zone d =
     bind_result (require (is_identifier (pd_id d)) InvalidDefinitionId) (\<lambda>_.
     bind_result (require (between_lengths 1 64 (pd_version d)) (InvalidConfigurationField ''version'')) (\<lambda>_.
     bind_result (check_event_types (pd_trigger_events d)) (\<lambda>_.
     bind_result (require (pd_goals d \<noteq> []) (InvalidConfigurationField ''goals'')) (\<lambda>_.
     bind_result (require (\<not> list_ex (\<lambda>g. strip g = []) (pd_goals d)) BlankGoal) (\<lambda>_.
     bind_result (require (pd_terminal_states d \<noteq> []) (InvalidConfigurationField ''terminal_states'')) (\<lambda>_.
     bind_result (require (set (pd_terminal_states d)
         \<subseteq> {ProcessStatus.COMPLETED, ProcessStatus.CANCELLED, ProcessStatus.FAILED})
       NotTerminalStatus) (\<lambda>_.
     bind_result (require (ProcessStatus.COMPLETED \<in> set (pd_terminal_states d)) CompletedMissing) (\<lambda>_.
     bind_result (require (list_all is_identifier (pd_allowed_actions d)) InvalidActionType) (\<lambda>_.
     bind_result (require (distinct (pd_allowed_actions d)) DuplicateActionType) (\<lambda>_.
     bind_result (require (list_all (\<lambda>p. is_identifier (fst p)) (pd_action_permissions d))
       InvalidPermissionKey) (\<lambda>_.
     bind_result (require (list_all (\<lambda>p. is_identifier (fst p)) (pd_action_guidance d))
       InvalidGuidanceKey) (\<lambda>_.
     bind_result (require (\<not> list_ex (\<lambda>p. strip (snd p) = []) (pd_action_guidance d)) BlankGuidance) (\<lambda>_.
     bind_result (require (\<not> list_ex (\<lambda>g. strip g = []) (pd_decision_guidance d)) BlankGuidance) (\<lambda>_.
     bind_result (require (distinct (pd_decision_guidance d)) DuplicateDecisionGuidance) (\<lambda>_.
     bind_result (check_event_types (pd_allowed_wake_events d)) (\<lambda>_.
     bind_result (check_ProcessLimits (pd_limits d)) (\<lambda>_.
     bind_result (check_ReviewConfiguration (pd_review d)) (\<lambda>_.
     bind_result (check_CommunicationConfiguration known_zone (pd_communications d)) (\<lambda>_.
     bind_result (check_all check_FactDefinition (pd_facts d)) (\<lambda>_.
     check_all check_requirement (pd_completion_requirements d)))))))))))))))))))))"

text \<open>\<open>require_explicit_action_permissions\<close>\<close>

definition check_definition_consistency :: "ProcessDefinition \<Rightarrow> definition_error + unit" where
  "check_definition_consistency d =
     (let actions = set (pd_allowed_actions d); wakes = set (pd_allowed_wake_events d);
          comms = pd_communications d; facts = pd_facts d;
          requirements = map fst (pd_completion_requirements d) in
     bind_result (require (fst ` set (pd_action_permissions d) = actions)
       PermissionsDoNotMatchActions) (\<lambda>_.
     bind_result (require (fst ` set (pd_action_guidance d) \<subseteq> actions) GuidanceForUnknownAction) (\<lambda>_.
     bind_result (require (set (cc_outbound_action_types comms) \<subseteq> actions) OutboundActionNotAllowed) (\<lambda>_.
     bind_result (require (set (cc_reply_event_types comms) \<subseteq> wakes) ReplyEventNotAllowed) (\<lambda>_.
     bind_result (require (set (cc_opt_out_event_types comms) \<union> set (cc_automated_response_event_types comms)
         \<subseteq> wakes) ControlEventNotAllowed) (\<lambda>_.
     bind_result (require (distinct (map fd_key facts)) DuplicateFactKey) (\<lambda>_.
     bind_result (require (set requirements \<subseteq> fd_key ` set facts) RequirementWithoutFact) (\<lambda>_.
     require (\<not> list_ex (\<lambda>key. list_ex (\<lambda>f. fd_key f = key \<and> AUTHORITATIVE \<notin> set (fd_kinds f)) facts)
         requirements) RequirementNotAuthoritative))))))))"

definition check_ProcessDefinition ::
  "(unicode \<Rightarrow> bool) \<Rightarrow> ProcessDefinition \<Rightarrow> definition_error + ProcessDefinition" where
  "check_ProcessDefinition known_zone d =
     bind_result (check_definition_fields known_zone d) (\<lambda>_.
     bind_result (check_definition_consistency d) (\<lambda>_. Inr d))"

section \<open>Compiled policies\<close>

definition decision_policy :: "ProcessDefinition \<Rightarrow> DecisionPolicy" where
  "decision_policy d =
     (let limits = DEFAULT_PLATFORM_SAFETY_LIMITS in
      \<lparr>dp_allowed_action_types = set (pd_allowed_actions d),
       dp_allowed_wake_event_types = set (pd_allowed_wake_events d),
       dp_human_wake_action_types =
         fst ` set (filter (\<lambda>p. snd p = REQUIRE_APPROVAL) (pd_action_permissions d)),
       dp_max_actions_per_turn = pl_max_actions_per_turn (pd_limits d),
       dp_max_timer_horizon = days (pl_maximum_timer_horizon_days (pd_limits d)),
       dp_max_action_parameter_fields = max_action_parameter_fields limits,
       dp_max_action_parameters_bytes = max_action_parameters_bytes limits,
       dp_max_open_commitments = max_open_commitments limits,
       dp_max_commitment_bytes = max_commitment_bytes limits,
       dp_max_open_commitments_bytes = max_open_commitments_bytes limits,
       dp_max_memory_summary_bytes = max_memory_summary_bytes limits,
       dp_completion_requirements = map (\<lambda>(k, v). (ascii k, v)) (pd_completion_requirements d)\<rparr>)"

text \<open>The version of the action policy is the definition's fingerprint, an argument here.\<close>

definition action_policy :: "(ProcessDefinition \<Rightarrow> unicode) \<Rightarrow> ProcessDefinition \<Rightarrow> ConfiguredActionPolicy" where
  "action_policy fingerprint d =
     \<lparr>cap_permissions = pd_action_permissions d, cap_version = fingerprint d\<rparr>"

section \<open>A checked definition compiles to sound policies\<close>

lemma check_ProcessLimits_ok:
  "check_ProcessLimits l = Inr u \<longleftrightarrow> (\<forall>(v, lo, hi) \<in> set (limit_ranges l). lo \<le> v \<and> v \<le> hi)"
  by (auto simp: check_ProcessLimits_def limit_ranges_def)

lemma check_ProcessDefinition_parts:
  assumes "check_ProcessDefinition known_zone d = Inr d'"
  shows "d' = d" "check_definition_fields known_zone d = Inr ()"
    "check_definition_consistency d = Inr ()"
  using assms by (auto simp: check_ProcessDefinition_def)

lemma checked_limits:
  assumes "check_ProcessDefinition known_zone d = Inr d'"
  shows "check_ProcessLimits (pd_limits d) = Inr ()"
  using check_ProcessDefinition_parts(2) [OF assms] by (simp add: check_definition_fields_def)

lemma checked_event_types:
  assumes "check_ProcessDefinition known_zone d = Inr d'"
  shows "check_event_types (pd_allowed_wake_events d) = Inr ()"
    "check_event_types (pd_trigger_events d) = Inr ()"
  using check_ProcessDefinition_parts(2) [OF assms] by (simp_all add: check_definition_fields_def)

lemma reserved_not_in_event_types:
  assumes "check_event_types values = Inr u" "v \<in> set RESERVED_KERNEL_EVENT_TYPES"
  shows "v \<notin> set values"
  using assms by (auto simp: check_event_types_def Let_def filter_empty_conv)

lemma decision_policy_within_platform:
  assumes "check_ProcessDefinition known_zone d = Inr d'"
  shows "check_DecisionPolicy (decision_policy d) = Inr (decision_policy d)"
proof -
  have limits: "0 \<le> pl_max_actions_per_turn (pd_limits d)" "1 \<le> pl_maximum_timer_horizon_days (pd_limits d)"
    using checked_limits [OF assms] by (simp_all add: check_ProcessLimits_ok limit_ranges_def)
  have "fst ` set (pd_action_permissions d) = set (pd_allowed_actions d)"
    using check_ProcessDefinition_parts(3) [OF assms] by (simp add: check_definition_consistency_def Let_def)
  then have "dp_human_wake_action_types (decision_policy d) \<subseteq> dp_allowed_action_types (decision_policy d)"
    by (auto simp: decision_policy_def Let_def)
  then show ?thesis
    using limits
    by (simp add: check_DecisionPolicy_ok policy_within_platform_def policy_limits_def
        decision_policy_def Let_def DEFAULT_PLATFORM_SAFETY_LIMITS_def)
qed

lemma action_policy_outside_denied:
  assumes "check_ProcessDefinition known_zone d = Inr d'" "ap_action_type a \<notin> set (pd_allowed_actions d)"
  shows "apd_outcome (evaluate_action (action_policy fingerprint d) a) = DENY"
proof -
  have "fst ` set (pd_action_permissions d) = set (pd_allowed_actions d)"
    using check_ProcessDefinition_parts(3) [OF assms(1)] by (simp add: check_definition_consistency_def Let_def)
  then have "map_of (pd_action_permissions d) (ap_action_type a) = None"
    using assms(2) by (simp add: map_of_eq_None_iff)
  then show ?thesis by (simp add: evaluate_action_def action_policy_def Let_def)
qed

end
