(* ===== verification/Decision_Properties.thy ===== *)
theory Decision_Properties
  imports Definitions
begin

text \<open>
  What the decision boundary guarantees: the properties of \<open>Policy\<close>, \<open>Transitions\<close>,
  \<open>Definitions\<close> and \<open>Identity\<close>, with instances on a small process definition.
\<close>

section \<open>Instances\<close>

definition sample_definition :: ProcessDefinition where
  "sample_definition =
     \<lparr>pd_id = ''enquiry'', pd_version = ascii ''1'', pd_status = DefinitionStatus.PUBLISHED,
      pd_trigger_events = [''enquiry.received''], pd_goals = [ascii ''answer''],
      pd_terminal_states = [ProcessStatus.COMPLETED, ProcessStatus.CANCELLED],
      pd_allowed_actions = [''send_reply'', ''look_up''],
      pd_action_permissions = [(''send_reply'', REQUIRE_APPROVAL), (''look_up'', ALLOW)],
      pd_action_guidance = [], pd_decision_guidance = [],
      pd_allowed_wake_events = [''customer.replied'', ''customer.opted_out''],
      pd_limits = default_ProcessLimits, pd_review = [APPROVE, REJECT],
      pd_communications =
        \<lparr>cc_outbound_action_types = [''send_reply''], cc_reply_event_types = [''customer.replied''],
         cc_opt_out_event_types = [''customer.opted_out''], cc_automated_response_event_types = [],
         cc_quiet_hours = None\<rparr>,
      pd_integrations = [],
      pd_facts = [\<lparr>fd_key = ''enquiry.answered'', fd_title = ascii ''Answered'',
                   fd_description = ascii ''The answer was sent'', fd_kinds = [AUTHORITATIVE],
                   fd_value_schema = [], fd_operator_editable = False\<rparr>],
      pd_completion_requirements = [(''enquiry.answered'', JBool True)]\<rparr>"

lemma sample_definition_checked: "check_ProcessDefinition (\<lambda>_. True) sample_definition = Inr sample_definition"
  by code_simp

definition sample_action :: ActionProposal where
  "sample_action =
     \<lparr>ap_action_request_id = 7, ap_logical_action_key = ascii ''reply-1'', ap_action_type = ''send_reply'',
      ap_parameters = [(ascii ''body'', JStr (ascii ''Hello''))], ap_rationale = ascii ''first answer''\<rparr>"

definition sample_decision :: AgentDecision where
  "sample_decision =
     \<lparr>ad_decision_id = 1, ad_based_on_event_ids = [2], ad_based_on_review_command_ids = [],
      ad_based_on_action_attempt_ids = [], ad_based_on_timer_ids = [], ad_status = DecisionStatus.WAITING,
      ad_actions = [sample_action], ad_wake_conditions = [EventWakeCondition ''customer.replied''],
      ad_memory_update = empty_MemoryUpdate\<rparr>"

definition sample_turn :: TurnExpectation where
  "sample_turn =
     \<lparr>tx_workflow_now = Aware 0, tx_event_ids = Some {2}, tx_review_command_ids = Some {},
      tx_action_attempt_ids = Some {}, tx_timer_ids = Some {}, tx_conflicted_action_payload_hashes = {},
      tx_current_authoritative_facts = Some [], tx_enforce_completion_requirements = True\<rparr>"

lemma sample_decision_admissible:
  "admissible (decision_policy sample_definition) sample_turn 0 sample_decision"
proof -
  have "uses_turn_sources sample_turn sample_decision \<and> cites_only_turn_sources sample_decision" by code_simp
  moreover have content: "content_fits (decision_policy sample_definition) sample_decision" by code_simp
  moreover have "completion_allowed (decision_policy sample_definition) sample_turn sample_decision"
    by (simp add: completion_allowed_def sample_decision_def)
  moreover have "wakes_allowed (decision_policy sample_definition) 0 sample_decision" by code_simp
  moreover obtain h where "action_payload_identity ''send_reply'' (ap_parameters sample_action) = Some h"
    using content action_payload_identity_defined [of "ap_parameters sample_action"
        "dp_max_action_parameters_bytes (decision_policy sample_definition)" "''send_reply''"]
    by (auto simp: content_fits_def sample_decision_def)
  then have "actions_allowed (decision_policy sample_definition) sample_turn sample_decision"
    by (simp add: actions_allowed_def sample_decision_def sample_turn_def decision_policy_def Let_def
        sample_definition_def default_ProcessLimits_def sample_action_def)
  ultimately show ?thesis by (simp add: admissible_def)
qed

lemma sample_decision_accepted:
  "validate_decision sample_decision (decision_policy sample_definition) sample_turn = Inr sample_decision"
  using sample_decision_admissible by (simp add: validate_decision_admissible sample_turn_def)

section \<open>Validation\<close>

text \<open>
  (C9) \<open>validate_decision\<close> accepts a decision exactly when it is admissible at the (aware)
  workflow time: it uses exactly the sources of the turn, its content fits the policy's limits,
  its memory cites only those sources, a completion has no actions and meets the required
  authoritative facts, every action is allowed, uniquely keyed and not a repetition of a payload
  that conflicted, and every wake condition is permitted. It returns the decision unchanged.
\<close>

theorem decision_accepted_iff_admissible:
  "validate_decision d p turn = Inr d' \<longleftrightarrow>
     d' = d \<and> (\<exists>now. tx_workflow_now turn = Aware now \<and> admissible p turn now d)"
  by (rule validate_decision_admissible)

text \<open>
  (C31) A decision accepted under the policy of a checked process definition proposes only actions
  the definition lists, at most as many as its limit and at most twenty, each with parameters
  within the platform's ceilings, and updates the memory within the platform's ceilings.
\<close>

theorem accepted_decision_within_platform:
  assumes "check_ProcessDefinition known_zone d = Inr d'"
    and "validate_decision decision (decision_policy d) turn = Inr decision'"
  shows "int (length (ad_actions decision)) \<le> min 20 (pl_max_actions_per_turn (pd_limits d))
    \<and> (\<forall>a \<in> set (ad_actions decision). ap_action_type a \<in> set (pd_allowed_actions d)
         \<and> require_action_parameters (ap_parameters a) label DEFAULT_PLATFORM_SAFETY_LIMITS = Inr ())
    \<and> require_memory_content (mu_summary (ad_memory_update decision))
         (mu_open_commitments (ad_memory_update decision)) DEFAULT_PLATFORM_SAFETY_LIMITS = Inr ()"
proof -
  obtain now where adm: "admissible (decision_policy d) turn now decision"
    using assms(2) by (auto simp: validate_decision_admissible)
  then have allowed: "actions_allowed (decision_policy d) turn decision"
    and content: "content_fits (decision_policy d) decision" by (simp_all add: admissible_def)
  have "policy_within_platform (decision_policy d)"
    using decision_policy_within_platform [OF assms(1)] by (simp add: check_DecisionPolicy_ok)
  note platform = content_within_platform [OF this content]
  have "pl_max_actions_per_turn (pd_limits d) \<le> 20"
    using checked_limits [OF assms(1)] by (simp add: check_ProcessLimits_ok limit_ranges_def)
  then show ?thesis
    using allowed platform by (auto simp: actions_allowed_def decision_policy_def Let_def)
qed

theorem accepted_decision_within_platform_witness:
  "require_action_parameters (ap_parameters sample_action) (ascii ''x'') DEFAULT_PLATFORM_SAFETY_LIMITS = Inr ()"
  using accepted_decision_within_platform [OF sample_definition_checked sample_decision_accepted]
  by (simp add: sample_decision_def)

section \<open>Definitions\<close>

text \<open>
  (C34) A checked process definition compiles to sound policies: its decision policy passes its own
  construction checks; an action it does not list is denied; only an action it lists with the
  permission \<open>require_approval\<close> is sent to a human for approval, and these are also the only
  actions whose proposal allows a decision to wait for an approval; no event type reserved for the
  kernel can start or wake the process.
\<close>

theorem checked_definition_sound:
  assumes "check_ProcessDefinition known_zone d = Inr d'"
  shows "check_DecisionPolicy (decision_policy d) = Inr (decision_policy d)
    \<and> (ap_action_type a \<notin> set (pd_allowed_actions d) \<longrightarrow>
         apd_outcome (evaluate_action (action_policy fingerprint d) a) = DENY)
    \<and> (apd_outcome (evaluate_action (action_policy fingerprint d) a) = REQUIRE_APPROVAL \<longrightarrow>
         ap_action_type a \<in> set (pd_allowed_actions d)
         \<and> (ap_action_type a, REQUIRE_APPROVAL) \<in> set (pd_action_permissions d))
    \<and> dp_human_wake_action_types (decision_policy d)
        = {t \<in> set (pd_allowed_actions d). (t, REQUIRE_APPROVAL) \<in> set (pd_action_permissions d)}
    \<and> set RESERVED_KERNEL_EVENT_TYPES \<inter> (set (pd_trigger_events d) \<union> dp_allowed_wake_event_types (decision_policy d)) = {}"
proof -
  have "v \<notin> set (pd_trigger_events d)" "v \<notin> set (pd_allowed_wake_events d)"
    if "v \<in> set RESERVED_KERNEL_EVENT_TYPES" for v
    using reserved_not_in_event_types [OF checked_event_types(2) [OF assms] that]
      reserved_not_in_event_types [OF checked_event_types(1) [OF assms] that] by simp_all
  then have reserved: "set RESERVED_KERNEL_EVENT_TYPES
      \<inter> (set (pd_trigger_events d) \<union> dp_allowed_wake_event_types (decision_policy d)) = {}"
    by (auto simp: decision_policy_def Let_def)
  have keys: "fst ` set (pd_action_permissions d) = set (pd_allowed_actions d)"
    using check_ProcessDefinition_parts(3) [OF assms] by (simp add: check_definition_consistency_def Let_def)
  have human: "dp_human_wake_action_types (decision_policy d)
      = {t \<in> set (pd_allowed_actions d). (t, REQUIRE_APPROVAL) \<in> set (pd_action_permissions d)}"
    unfolding keys [symmetric] by (force simp: decision_policy_def Let_def)
  have approval: "(ap_action_type a, REQUIRE_APPROVAL) \<in> set (pd_action_permissions d)"
    if "apd_outcome (evaluate_action (action_policy fingerprint d) a) = REQUIRE_APPROVAL"
    using that by (auto simp: evaluate_action_def action_policy_def Let_def dest: map_of_SomeD split: option.splits)
  then have "ap_action_type a \<in> set (pd_allowed_actions d)"
    if "apd_outcome (evaluate_action (action_policy fingerprint d) a) = REQUIRE_APPROVAL"
    using that unfolding keys [symmetric] by force
  then show ?thesis
    using reserved human approval decision_policy_within_platform [OF assms]
      action_policy_outside_denied [OF assms, of a fingerprint] by simp
qed

theorem checked_definition_sound_witness:
  "apd_outcome (evaluate_action (action_policy (\<lambda>_. ascii ''v1'') sample_definition)
     (sample_action\<lparr>ap_action_type := ''refund''\<rparr>)) = DENY"
  using checked_definition_sound [OF sample_definition_checked,
      of "sample_action\<lparr>ap_action_type := ''refund''\<rparr>" "\<lambda>_. ascii ''v1''"]
  by (simp add: sample_definition_def)

section \<open>Transitions\<close>

text \<open>
  (C33) A process that waits or is under review always has something that can wake it: the projection
  of a well-formed decision to one of these statuses leaves at least one wake condition.
\<close>

theorem transition_leaves_a_wake:
  assumes "check_AgentDecision d = Inr d"
    and "project_process_transition d open_actions terminal facts requirements = Inr t"
    and "pt_status t \<in> {ProcessStatus.WAITING, ProcessStatus.REVIEW}"
  shows "pt_wake_conditions t \<noteq> []"
  using transition_no_dead_end [OF assms(1,2)] assms(3) by (simp add: quiescent_def)

theorem transition_leaves_a_wake_witness:
  "\<exists>t. project_process_transition sample_decision [(7, ActionRequestStatus.PENDING_APPROVAL)] None [] [] = Inr t
     \<and> pt_status t = ProcessStatus.REVIEW \<and> pt_wake_conditions t \<noteq> []"
proof -
  have "check_AgentDecision sample_decision = Inr sample_decision" by code_simp
  moreover have "project_process_transition sample_decision [(7, ActionRequestStatus.PENDING_APPROVAL)] None [] [] =
      Inr \<lparr>pt_status = ProcessStatus.REVIEW, pt_wake_conditions = [HumanWakeCondition Interaction.APPROVAL]\<rparr>"
    by code_simp
  ultimately show ?thesis
    using transition_leaves_a_wake [of sample_decision "[(7, ActionRequestStatus.PENDING_APPROVAL)]"
        None "[]" "[]" "\<lparr>pt_status = ProcessStatus.REVIEW, pt_wake_conditions = [HumanWakeCondition Interaction.APPROVAL]\<rparr>"]
    by simp
qed

lemma fact_meets_iff:
  "fact_meets facts (key, value) \<longleftrightarrow> (\<exists>v. map_of facts key = Some v \<and> py_eq v value)"
  by (auto simp: fact_meets_def simp del: py_eq.simps split: option.splits)

text \<open>
  (C32) A process is projected to completed only on a completed decision with no open action, when
  every completion requirement equals the authoritative fact of its key and the definition
  has the status as a terminal one; a completed process has no wake condition.
\<close>

theorem completion_justified:
  assumes "project_process_transition d open_actions terminal facts requirements = Inr t"
    and "pt_status t = ProcessStatus.COMPLETED"
  shows "ad_status d = DecisionStatus.COMPLETED \<and> open_actions = [] \<and> pt_wake_conditions t = []
    \<and> (\<forall>(key, value) \<in> set requirements. \<exists>v. map_of facts key = Some v \<and> py_eq v value)
    \<and> (\<forall>states. terminal = Some states \<longrightarrow> ProcessStatus.COMPLETED \<in> states)"
proof -
  have "next_status d open_actions terminal facts requirements = Inr ProcessStatus.COMPLETED"
    and t: "pt_wake_conditions t = effective_wake_conditions d ProcessStatus.COMPLETED open_actions"
    using assms by (auto simp: project_process_transition_def)
  note completed = next_status_completed [OF this(1)]
  have "pt_wake_conditions t = []" using t completed(2) by (simp add: effective_wake_conditions_def)
  moreover have "\<forall>(key, value) \<in> set requirements. \<exists>v. map_of facts key = Some v \<and> py_eq v value"
    using completed(3) by (auto simp: fact_meets_iff simp del: py_eq.simps)
  ultimately show ?thesis using completed by blast
qed

theorem completion_justified_witness:
  "(\<exists>v. map_of [(ascii ''enquiry.answered'', JInt 1)] (ascii ''enquiry.answered'') = Some v \<and> py_eq v (JBool True))"
proof -
  let ?d = "sample_decision\<lparr>ad_status := DecisionStatus.COMPLETED, ad_actions := [], ad_wake_conditions := []\<rparr>"
  have "project_process_transition ?d [] (Some {ProcessStatus.COMPLETED})
      [(ascii ''enquiry.answered'', JInt 1)] [(ascii ''enquiry.answered'', JBool True)] =
      Inr \<lparr>pt_status = ProcessStatus.COMPLETED, pt_wake_conditions = []\<rparr>"
    by code_simp
  from completion_justified [OF this] show ?thesis by simp
qed

text \<open>
  (C35) Applying a list of fact observations gives every authoritative fact and every customer claim
  the value of its last observation of that kind and leaves the others as they were, and
  attributes exactly the observed ones to the source; the two kinds never overwrite each other.
\<close>

theorem facts_last_observation_wins:
  "map_of (fp_authoritative (apply_fact_observations fs ty src fp)) key =
     (case last_observed AUTHORITATIVE key fs of
        None \<Rightarrow> map_of (fp_authoritative fp) key | Some v \<Rightarrow> Some v)
   \<and> map_of (fp_claims (apply_fact_observations fs ty src fp)) key =
     (case last_observed CUSTOMER_CLAIM key fs of
        None \<Rightarrow> map_of (fp_claims fp) key | Some v \<Rightarrow> Some v)
   \<and> map_of (fp_provenance (apply_fact_observations fs ty src fp)) (provenance_key kind name) =
     (if \<exists>f \<in> set fs. fo_kind f = kind \<and> fo_key f = name
      then Some (provenance_entry kind ty src)
      else map_of (fp_provenance fp) (provenance_key kind name))"
  by (simp add: apply_facts_authoritative apply_facts_claims apply_facts_provenance)

section \<open>Identities\<close>

lemma encodable_uuid_str [simp]: "encodable (uuid_str u)"
proof -
  have hex: "encodable (hex_digits n u)" for n
    by (auto simp: encodable_def hex_digits_def hex_digit_bound)
  have "set (take n (drop m (hex_digits 32 u))) \<subseteq> set (hex_digits 32 u)" for n m
    by (meson order_trans set_drop_subset set_take_subset)
  then have "encodable (take n (drop m (hex_digits 32 u)))" "encodable (drop m (hex_digits 32 u))"
    "encodable (take n (hex_digits 32 u))" for n m
    using hex [of 32] set_drop_subset set_take_subset unfolding encodable_def by fast+
  moreover have "encodable [45]" by (simp add: encodable_def)
  ultimately show ?thesis by (simp add: uuid_str_def Let_def)
qed

lemma execution_key_defined:
  "encodable h \<Longrightarrow> \<exists>k. execution_idempotency_key t p a r h = Some k"
proof -
  assume "encodable h"
  then have "encodable (execution_identity_text t p a r h)"
    by (simp add: execution_identity_text_def)
  then obtain bytes where "utf8_encode (execution_identity_text t p a r h) = Some bytes"
    using utf8_encode_defined by blast
  then show ?thesis by (simp add: execution_idempotency_key_def)
qed
text \<open>
  The provider's idempotency key identifies one exact revision: two different combinations of
  tenant, process, action request, revision and payload hash have the same key only if their two
  (different) encoded texts collide under SHA-256.
\<close>

theorem execution_key_identifies:
  assumes "execution_idempotency_key t p a r h = Some k" "execution_idempotency_key t' p' a' r' h' = Some k"
    and "t < 2 ^ 128" "p < 2 ^ 128" "a < 2 ^ 128" "t' < 2 ^ 128" "p' < 2 ^ 128" "a' < 2 ^ 128"
  shows "(t, p, a, r, h) = (t', p', a', r', h')
    \<or> (\<exists>x y. utf8_encode (execution_identity_text t p a r h) = Some x
         \<and> utf8_encode (execution_identity_text t' p' a' r' h') = Some y \<and> x \<noteq> y \<and> sha256 x = sha256 y)"
proof (rule disjCI)
  assume "\<not> (\<exists>x y. utf8_encode (execution_identity_text t p a r h) = Some x
    \<and> utf8_encode (execution_identity_text t' p' a' r' h') = Some y \<and> x \<noteq> y \<and> sha256 x = sha256 y)"
  then show "(t, p, a, r, h) = (t', p', a', r', h')"
    using execution_key_collision [OF assms] by metis
qed

theorem execution_key_identifies_witness:
  "\<exists>k. execution_idempotency_key 1 2 3 1 (ascii ''ab'') = Some k
     \<and> ((1, 2, 3, 1, ascii ''ab'') = (1 :: uuid, 2 :: uuid, 3 :: uuid, 1 :: int, ascii ''ab'')
        \<or> (\<exists>x y. utf8_encode (execution_identity_text 1 2 3 1 (ascii ''ab'')) = Some x
             \<and> utf8_encode (execution_identity_text 1 2 3 1 (ascii ''ab'')) = Some y
             \<and> x \<noteq> y \<and> sha256 x = sha256 y))"
proof -
  have "encodable (ascii ''ab'')" by (simp add: encodable_def ascii_def)
  then obtain k where k: "execution_idempotency_key 1 2 3 1 (ascii ''ab'') = Some k"
    using execution_key_defined by blast
  have "(1, 2, 3, 1, ascii ''ab'') = (1 :: uuid, 2 :: uuid, 3 :: uuid, 1 :: int, ascii ''ab'')
        \<or> (\<exists>x y. utf8_encode (execution_identity_text 1 2 3 1 (ascii ''ab'')) = Some x
             \<and> utf8_encode (execution_identity_text 1 2 3 1 (ascii ''ab'')) = Some y
             \<and> x \<noteq> y \<and> sha256 x = sha256 y)"
    by (rule execution_key_identifies [OF k k]) (simp_all del: utf8_encode.simps)
  then show ?thesis using k by blast
qed

end
