(* ===== verification/Mailbox.thy ===== *)
theory Mailbox
  imports Prelude
begin

text \<open>
  The durable process mailbox of \<open>temporal/workflows/mailbox.py\<close>: the messages it buffers, the
  workflow's own state, the signal handlers, the queries that select the next wake, the wake
  plan, the list of pending actions, and the snapshot carried across Continue-As-New
  (\<open>_continuation_input\<close>, \<open>_restore_continuation\<close>). Identifiers are the strings the workflow
  receives. Documents the workflow stores as JSON text are the records their parse gives.
  The two halves of the workflow that await activities are in \<open>Mailbox_Turn\<close> and
  \<open>Mailbox_Run\<close>.
\<close>

section \<open>Messages and records\<close>

record MailboxEvent =
  me_event_id :: string
  me_event_type :: string

record MailboxReview =
  mr_command_id :: string
  mr_command_type :: string
  mr_review_thread_id :: string
  mr_action_request_id :: string
  mr_proposal_revision :: int

record MailboxActionResolution =
  ma_command_id :: string
  ma_action_request_id :: string
  ma_action_attempt_id :: string
  ma_status :: string

record MailboxControl =
  mc_command_id :: string
  mc_command_type :: string
  mc_event_ids :: "string list"
  mc_review_command_ids :: "string list"
  mc_action_attempt_ids :: "string list"
  mc_timer_ids :: "string list"

record WakePlan =
  wp_event_types :: "string list"
  wp_timer_id :: "string option"
  wp_timer_at :: "instant option"
  wp_human_interactions :: "string list"

text \<open>\<open>WakePlan(human_interactions=(who,))\<close>, every other field at its default.\<close>

definition human_wake_plan :: "string \<Rightarrow> WakePlan" where
  "human_wake_plan who =
     \<lparr>wp_event_types = [], wp_timer_id = None, wp_timer_at = None, wp_human_interactions = [who]\<rparr>"

record WakeRecord =
  wr_reason :: string
  wr_event_id :: "string option"
  wr_event_type :: "string option"
  wr_timer_id :: "string option"
  wr_woke_at :: instant
  wr_review_command_id :: "string option"
  wr_review_command_type :: "string option"

text \<open>
  The parsed documents: a decision (\<open>decision_json\<close>), the persisted actions of a turn
  (\<open>actions_json\<close>) and one execution result (\<open>result_json\<close>).
\<close>

datatype wake_doc = EventWakeDoc string | TimerWakeDoc instant | HumanWakeDoc string

record DecisionDoc =
  dd_decision_id :: string
  dd_status :: "string option"
  dd_wake_conditions :: "wake_doc list"

record ActionItem =
  ai_action_request_id :: string
  ai_outcome :: string
  ai_revision :: int

record ExecutionDoc =
  xd_attempt_id :: string
  xd_status :: string

record TurnRecord =
  tr_turn_id :: string
  tr_event_ids :: "string list"
  tr_review_command_ids :: "string list"
  tr_action_attempt_ids :: "string list"
  tr_timer_ids :: "string list"
  tr_decision_json :: "DecisionDoc option"
  tr_actions_json :: "ActionItem list option"
  tr_execution_results_json :: "ExecutionDoc list option"
  tr_error :: "string option"

record ExecutionRecord =
  xr_action_request_id :: string
  xr_revision :: int
  xr_result_json :: "ExecutionDoc option"
  xr_error :: "string option"

section \<open>The workflow's state\<close>

record Mailbox =
  tenant_id :: string
  process_instance_id :: string
  buffered_events :: "MailboxEvent list"
  seen_event_ids :: "string set"
  buffered_reviews :: "MailboxReview list"
  seen_review_command_ids :: "string set"
  buffered_action_resolutions :: "MailboxActionResolution list"
  seen_action_resolution_ids :: "string set"
  buffered_controls :: "MailboxControl list"
  seen_control_command_ids :: "string set"
  wake_records :: "WakeRecord list"
  turn_records :: "TurnRecord list"
  execution_records :: "ExecutionRecord list"
  pending_action_request_ids :: "string list"
  turn_in_progress :: bool
  process_definition_id :: "string option"
  process_definition_version :: "string option"
  wake_plan :: "WakePlan option"
  timer_due_at :: "instant option"
  plan_revision :: nat
  closed :: bool
  started :: bool
  continue_as_new_after_turns :: int
  turns_since_continue :: int
  completed_turn_count :: int
  continued_run_count :: int

text \<open>\<open>ProcessMailboxWorkflow.__init__\<close>\<close>

definition init_mailbox :: Mailbox where
  "init_mailbox =
     \<lparr>tenant_id = '''', process_instance_id = '''',
      buffered_events = [], seen_event_ids = {},
      buffered_reviews = [], seen_review_command_ids = {},
      buffered_action_resolutions = [], seen_action_resolution_ids = {},
      buffered_controls = [], seen_control_command_ids = {},
      wake_records = [], turn_records = [], execution_records = [],
      pending_action_request_ids = [], turn_in_progress = False,
      process_definition_id = None, process_definition_version = None,
      wake_plan = None, timer_due_at = None, plan_revision = 0,
      closed = False, started = False, continue_as_new_after_turns = 100,
      turns_since_continue = 0, completed_turn_count = 0, continued_run_count = 0\<rparr>"

section \<open>Signals\<close>

definition receive_event :: "MailboxEvent \<Rightarrow> Mailbox \<Rightarrow> Mailbox" where
  "receive_event event st =
     (if me_event_id event \<in> seen_event_ids st then st
      else st\<lparr>seen_event_ids := insert (me_event_id event) (seen_event_ids st),
              buffered_events := buffered_events st @ [event]\<rparr>)"

definition receive_review :: "MailboxReview \<Rightarrow> Mailbox \<Rightarrow> Mailbox" where
  "receive_review review st =
     (if mr_command_id review \<in> seen_review_command_ids st then st
      else st\<lparr>seen_review_command_ids := insert (mr_command_id review) (seen_review_command_ids st),
              buffered_reviews := buffered_reviews st @ [review]\<rparr>)"

definition receive_action_resolution :: "MailboxActionResolution \<Rightarrow> Mailbox \<Rightarrow> Mailbox" where
  "receive_action_resolution resolution st =
     (if ma_command_id resolution \<in> seen_action_resolution_ids st then st
      else st\<lparr>seen_action_resolution_ids :=
                insert (ma_command_id resolution) (seen_action_resolution_ids st),
              buffered_action_resolutions := buffered_action_resolutions st @ [resolution]\<rparr>)"

definition receive_control :: "MailboxControl \<Rightarrow> Mailbox \<Rightarrow> Mailbox" where
  "receive_control control st =
     (if mc_command_id control \<in> seen_control_command_ids st then st
      else st\<lparr>seen_control_command_ids := insert (mc_command_id control) (seen_control_command_ids st),
              buffered_controls := buffered_controls st @ [control]\<rparr>)"

text \<open>The three assignments every replacement of the plan makes: plan, due time, revision.\<close>

definition set_wake_plan :: "WakePlan \<Rightarrow> Mailbox \<Rightarrow> Mailbox" where
  "set_wake_plan plan st =
     st\<lparr>wake_plan := Some plan, timer_due_at := wp_timer_at plan,
        plan_revision := plan_revision st + 1\<rparr>"

definition replace_wake_plan :: "WakePlan \<Rightarrow> Mailbox \<Rightarrow> Mailbox" where
  "replace_wake_plan plan st = set_wake_plan plan st"

definition close_mailbox :: "Mailbox \<Rightarrow> Mailbox" where
  "close_mailbox st = st\<lparr>closed := True\<rparr>"

datatype signal =
    ReceiveEvent MailboxEvent
  | ReceiveReview MailboxReview
  | ReceiveActionResolution MailboxActionResolution
  | ReceiveControl MailboxControl
  | ReplaceWakePlan WakePlan
  | Close

fun handle_signal :: "signal \<Rightarrow> Mailbox \<Rightarrow> Mailbox" where
  "handle_signal (ReceiveEvent e) st = receive_event e st"
| "handle_signal (ReceiveReview r) st = receive_review r st"
| "handle_signal (ReceiveActionResolution a) st = receive_action_resolution a st"
| "handle_signal (ReceiveControl c) st = receive_control c st"
| "handle_signal (ReplaceWakePlan p) st = replace_wake_plan p st"
| "handle_signal Close st = close_mailbox st"

definition deliver :: "signal list \<Rightarrow> Mailbox \<Rightarrow> Mailbox" where
  "deliver signals st = fold handle_signal signals st"

section \<open>Wake selection\<close>

definition OPERATOR_MANUAL_WAKE_EVENT_TYPE :: string where
  "OPERATOR_MANUAL_WAKE_EVENT_TYPE = ''operator.manual_wake''"

definition initial_event_index :: "Mailbox \<Rightarrow> nat option" where
  "initial_event_index st =
     first_index (\<lambda>event. me_event_type event \<noteq> OPERATOR_MANUAL_WAKE_EVENT_TYPE) (buffered_events st)"

definition manual_wake_event_index :: "Mailbox \<Rightarrow> nat option" where
  "manual_wake_event_index st =
     first_index (\<lambda>event. me_event_type event = OPERATOR_MANUAL_WAKE_EVENT_TYPE) (buffered_events st)"

definition matching_event_index :: "Mailbox \<Rightarrow> nat option" where
  "matching_event_index st =
     (case wake_plan st of
        None \<Rightarrow> None
      | Some plan \<Rightarrow>
          first_index (\<lambda>event. me_event_type event \<in> set (wp_event_types plan)) (buffered_events st))"

definition timer_timeout :: "instant \<Rightarrow> Mailbox \<Rightarrow> duration option" where
  "timer_timeout now st =
     (case timer_due_at st of None \<Rightarrow> None | Some due \<Rightarrow> Some (max (due - now) 0))"

definition lifecycle_preemption_pending :: "Mailbox \<Rightarrow> bool" where
  "lifecycle_preemption_pending st \<longleftrightarrow>
     closed st \<or> list_ex (\<lambda>control. mc_command_type control = ''takeover'') (buffered_controls st)"

definition clear_wake_plan :: "Mailbox \<Rightarrow> Mailbox" where
  "clear_wake_plan st =
     st\<lparr>wake_plan := None, timer_due_at := None, plan_revision := plan_revision st + 1\<rparr>"

definition add_pending_action :: "string \<Rightarrow> Mailbox \<Rightarrow> Mailbox" where
  "add_pending_action action_request_id st =
     (if action_request_id \<in> set (pending_action_request_ids st) then st
      else st\<lparr>pending_action_request_ids := pending_action_request_ids st @ [action_request_id]\<rparr>)"

definition remove_pending_action :: "string \<Rightarrow> Mailbox \<Rightarrow> Mailbox" where
  "remove_pending_action action_request_id st =
     st\<lparr>pending_action_request_ids := remove1 action_request_id (pending_action_request_ids st)\<rparr>"

section \<open>Continue-As-New\<close>

definition CONTINUATION_SCHEMA_VERSION :: int where
  "CONTINUATION_SCHEMA_VERSION = 1"

definition RECENT_RECORD_LIMIT :: nat where
  "RECENT_RECORD_LIMIT = 50"

text \<open>
  The continuation carries each message and record as a dictionary. The value of a field is what
  the code writes into it: a text, a whole number, a tuple of texts, \<open>None\<close>, the text
  \<open>isoformat\<close> gives for an instant (known by the instant), or the JSON text of a stored document
  (known by its parse, as in the records).
\<close>

datatype doc_value =
    DText string
  | DInt int
  | DTexts "string list"
  | DNone
  | DIso instant
  | DDecision DecisionDoc
  | DActions "ActionItem list"
  | DResults "ExecutionDoc list"
  | DResult ExecutionDoc

type_synonym document = "(string \<times> doc_value) list"

record MailboxContinuation =
  co_schema_version :: int
  co_started :: bool
  co_buffered_events :: "document list"
  co_seen_event_ids :: "string list"
  co_buffered_reviews :: "document list"
  co_seen_review_command_ids :: "string list"
  co_buffered_action_resolutions :: "document list"
  co_seen_action_resolution_ids :: "string list"
  co_buffered_controls :: "document list"
  co_seen_control_command_ids :: "string list"
  co_recent_wake_records :: "document list"
  co_recent_turn_records :: "document list"
  co_recent_execution_records :: "document list"
  co_pending_action_request_ids :: "string list"
  co_wake_plan :: "document option"
  co_completed_turn_count :: int
  co_continued_run_count :: int

record MailboxInput =
  in_tenant_id :: string
  in_process_instance_id :: string
  in_process_definition_id :: "string option"
  in_process_definition_version :: "string option"
  in_continue_as_new_after_turns :: int
  in_continuation :: MailboxContinuation

text \<open>\<open>MailboxContinuation()\<close>: the first run of a process.\<close>

definition fresh_continuation :: MailboxContinuation where
  "fresh_continuation =
     \<lparr>co_schema_version = 1, co_started = False, co_buffered_events = [], co_seen_event_ids = [],
      co_buffered_reviews = [], co_seen_review_command_ids = [],
      co_buffered_action_resolutions = [], co_seen_action_resolution_ids = [],
      co_buffered_controls = [], co_seen_control_command_ids = [],
      co_recent_wake_records = [], co_recent_turn_records = [], co_recent_execution_records = [],
      co_pending_action_request_ids = [], co_wake_plan = None,
      co_completed_turn_count = 0, co_continued_run_count = 0\<rparr>"

subsection \<open>Writing the dictionaries\<close>

fun doc_optional :: "('a \<Rightarrow> doc_value) \<Rightarrow> 'a option \<Rightarrow> doc_value" where
  "doc_optional f None = DNone"
| "doc_optional f (Some x) = f x"

definition event_document :: "MailboxEvent \<Rightarrow> document" where
  "event_document event =
     [(''event_id'', DText (me_event_id event)), (''event_type'', DText (me_event_type event))]"

definition review_document :: "MailboxReview \<Rightarrow> document" where
  "review_document review =
     [(''command_id'', DText (mr_command_id review)),
      (''command_type'', DText (mr_command_type review)),
      (''review_thread_id'', DText (mr_review_thread_id review)),
      (''action_request_id'', DText (mr_action_request_id review)),
      (''proposal_revision'', DInt (mr_proposal_revision review))]"

definition resolution_document :: "MailboxActionResolution \<Rightarrow> document" where
  "resolution_document resolution =
     [(''command_id'', DText (ma_command_id resolution)),
      (''action_request_id'', DText (ma_action_request_id resolution)),
      (''action_attempt_id'', DText (ma_action_attempt_id resolution)),
      (''status'', DText (ma_status resolution))]"

definition control_document :: "MailboxControl \<Rightarrow> document" where
  "control_document control =
     [(''command_id'', DText (mc_command_id control)),
      (''command_type'', DText (mc_command_type control)),
      (''event_ids'', DTexts (mc_event_ids control)),
      (''review_command_ids'', DTexts (mc_review_command_ids control)),
      (''action_attempt_ids'', DTexts (mc_action_attempt_ids control)),
      (''timer_ids'', DTexts (mc_timer_ids control))]"

definition wake_document :: "WakeRecord \<Rightarrow> document" where
  "wake_document record' =
     [(''reason'', DText (wr_reason record')),
      (''event_id'', doc_optional DText (wr_event_id record')),
      (''event_type'', doc_optional DText (wr_event_type record')),
      (''timer_id'', doc_optional DText (wr_timer_id record')),
      (''woke_at'', DIso (wr_woke_at record')),
      (''review_command_id'', doc_optional DText (wr_review_command_id record')),
      (''review_command_type'', doc_optional DText (wr_review_command_type record'))]"

definition turn_document :: "TurnRecord \<Rightarrow> document" where
  "turn_document record' =
     [(''turn_id'', DText (tr_turn_id record')),
      (''event_ids'', DTexts (tr_event_ids record')),
      (''review_command_ids'', DTexts (tr_review_command_ids record')),
      (''action_attempt_ids'', DTexts (tr_action_attempt_ids record')),
      (''timer_ids'', DTexts (tr_timer_ids record')),
      (''decision_json'', doc_optional DDecision (tr_decision_json record')),
      (''actions_json'', doc_optional DActions (tr_actions_json record')),
      (''execution_results_json'', doc_optional DResults (tr_execution_results_json record')),
      (''error'', doc_optional DText (tr_error record'))]"

definition execution_document :: "ExecutionRecord \<Rightarrow> document" where
  "execution_document record' =
     [(''action_request_id'', DText (xr_action_request_id record')),
      (''revision'', DInt (xr_revision record')),
      (''result_json'', doc_optional DResult (xr_result_json record')),
      (''error'', doc_optional DText (xr_error record'))]"

definition plan_document :: "WakePlan \<Rightarrow> document" where
  "plan_document plan =
     [(''event_types'', DTexts (wp_event_types plan)),
      (''timer_id'', doc_optional DText (wp_timer_id plan)),
      (''timer_at'', doc_optional DIso (wp_timer_at plan)),
      (''human_interactions'', DTexts (wp_human_interactions plan))]"

definition snapshot_continuation :: "Mailbox \<Rightarrow> MailboxContinuation" where
  "snapshot_continuation st =
     \<lparr>co_schema_version = CONTINUATION_SCHEMA_VERSION,
      co_started = started st,
      co_buffered_events = map event_document (buffered_events st),
      co_seen_event_ids = sorted_list_of_set (seen_event_ids st),
      co_buffered_reviews = map review_document (buffered_reviews st),
      co_seen_review_command_ids = sorted_list_of_set (seen_review_command_ids st),
      co_buffered_action_resolutions = map resolution_document (buffered_action_resolutions st),
      co_seen_action_resolution_ids = sorted_list_of_set (seen_action_resolution_ids st),
      co_buffered_controls = map control_document (buffered_controls st),
      co_seen_control_command_ids = sorted_list_of_set (seen_control_command_ids st),
      co_recent_wake_records =
        map wake_document (last_items RECENT_RECORD_LIMIT (wake_records st)),
      co_recent_turn_records =
        map turn_document (last_items RECENT_RECORD_LIMIT (turn_records st)),
      co_recent_execution_records =
        map execution_document (last_items RECENT_RECORD_LIMIT (execution_records st)),
      co_pending_action_request_ids = pending_action_request_ids st,
      co_wake_plan = map_option plan_document (wake_plan st),
      co_completed_turn_count = completed_turn_count st,
      co_continued_run_count = continued_run_count st + 1\<rparr>"

definition continuation_input :: "Mailbox \<Rightarrow> MailboxInput" where
  "continuation_input st =
     \<lparr>in_tenant_id = tenant_id st,
      in_process_instance_id = process_instance_id st,
      in_process_definition_id = process_definition_id st,
      in_process_definition_version = process_definition_version st,
      in_continue_as_new_after_turns = continue_as_new_after_turns st,
      in_continuation = snapshot_continuation st\<rparr>"

subsection \<open>Reading the dictionaries\<close>

text \<open>
  What the reads raise: \<open>document[k]\<close> on a missing key (\<open>KeyError\<close>), iterating a number or \<open>None\<close>
  (\<open>TypeError\<close>), \<open>fromisoformat\<close> on another text (\<open>ValueError\<close>). A value of a kind the snapshot
  never writes in that place is \<open>OtherKind\<close>: there \<open>cast\<close>, \<open>int\<close> or \<open>str\<close> may let it through
  unchecked in Python, which the typed records cannot hold.
\<close>

datatype document_error = NoField string | NotIterable | NotAnInstant | OtherKind

definition doc_field :: "string \<Rightarrow> document \<Rightarrow> document_error + doc_value" where
  "doc_field k d = (case map_of d k of None \<Rightarrow> Inl (NoField k) | Some v \<Rightarrow> Inr v)"

fun digits :: "nat \<Rightarrow> string" where
  "digits n = (if n < 10 then [char_of (48 + n)] else digits (n div 10) @ [char_of (48 + n mod 10)])"

declare digits.simps [simp del]

text \<open>\<open>str(value)\<close>\<close>

fun str_value :: "doc_value \<Rightarrow> document_error + string" where
  "str_value (DText s) = Inr s"
| "str_value (DInt i) = Inr (if i < 0 then ''-'' @ digits (nat (- i)) else digits (nat i))"
| "str_value DNone = Inr ''None''"
| "str_value _ = Inl OtherKind"

fun int_value :: "doc_value \<Rightarrow> document_error + int" where
  "int_value (DInt i) = Inr i"
| "int_value _ = Inl OtherKind"

text \<open>\<open>tuple(str(v) for v in value)\<close>; a text is iterated by character.\<close>

fun texts_value :: "doc_value \<Rightarrow> document_error + string list" where
  "texts_value (DTexts ts) = Inr ts"
| "texts_value (DText s) = Inr (map (\<lambda>c. [c]) s)"
| "texts_value (DInt i) = Inl NotIterable"
| "texts_value DNone = Inl NotIterable"
| "texts_value _ = Inl OtherKind"

text \<open>\<open>datetime.fromisoformat(str(value))\<close>\<close>

fun iso_value :: "doc_value \<Rightarrow> document_error + instant" where
  "iso_value (DIso t) = Inr t"
| "iso_value (DText s) = Inl NotAnInstant"
| "iso_value (DInt i) = Inl NotAnInstant"
| "iso_value DNone = Inl NotAnInstant"
| "iso_value _ = Inl OtherKind"

text \<open>\<open>cast(str | None, value)\<close>, and the same for the stored JSON documents.\<close>

fun text_or_none :: "doc_value \<Rightarrow> document_error + string option" where
  "text_or_none DNone = Inr None"
| "text_or_none (DText s) = Inr (Some s)"
| "text_or_none _ = Inl OtherKind"

fun decision_or_none :: "doc_value \<Rightarrow> document_error + DecisionDoc option" where
  "decision_or_none DNone = Inr None"
| "decision_or_none (DDecision d) = Inr (Some d)"
| "decision_or_none _ = Inl OtherKind"

fun actions_or_none :: "doc_value \<Rightarrow> document_error + ActionItem list option" where
  "actions_or_none DNone = Inr None"
| "actions_or_none (DActions as) = Inr (Some as)"
| "actions_or_none _ = Inl OtherKind"

fun results_or_none :: "doc_value \<Rightarrow> document_error + ExecutionDoc list option" where
  "results_or_none DNone = Inr None"
| "results_or_none (DResults rs) = Inr (Some rs)"
| "results_or_none _ = Inl OtherKind"

fun result_or_none :: "doc_value \<Rightarrow> document_error + ExecutionDoc option" where
  "result_or_none DNone = Inr None"
| "result_or_none (DResult r) = Inr (Some r)"
| "result_or_none _ = Inl OtherKind"

text \<open>\<open>fromisoformat(str(value)) if value is not None else None\<close>\<close>

fun iso_or_none :: "doc_value \<Rightarrow> document_error + instant option" where
  "iso_or_none DNone = Inr None"
| "iso_or_none v = map_sum id Some (iso_value v)"

definition read_field ::
  "(doc_value \<Rightarrow> document_error + 'a) \<Rightarrow> string \<Rightarrow> document \<Rightarrow> ('a \<Rightarrow> document_error + 'b) \<Rightarrow>
   document_error + 'b" where
  "read_field read k d rest = bind_result (bind_result (doc_field k d) read) rest"

text \<open>\<open>document.get(k, ())\<close>\<close>

definition read_texts_or_empty ::
  "string \<Rightarrow> document \<Rightarrow> (string list \<Rightarrow> document_error + 'b) \<Rightarrow> document_error + 'b" where
  "read_texts_or_empty k d rest =
     bind_result (case map_of d k of None \<Rightarrow> Inr [] | Some v \<Rightarrow> texts_value v) rest"

definition read_event :: "document \<Rightarrow> document_error + MailboxEvent" where
  "read_event d =
     read_field str_value ''event_id'' d (\<lambda>event_id.
     read_field str_value ''event_type'' d (\<lambda>event_type.
     Inr \<lparr>me_event_id = event_id, me_event_type = event_type\<rparr>))"

definition read_review :: "document \<Rightarrow> document_error + MailboxReview" where
  "read_review d =
     read_field str_value ''command_id'' d (\<lambda>command_id.
     read_field str_value ''command_type'' d (\<lambda>command_type.
     read_field str_value ''review_thread_id'' d (\<lambda>thread.
     read_field str_value ''action_request_id'' d (\<lambda>request.
     read_field int_value ''proposal_revision'' d (\<lambda>revision.
     Inr \<lparr>mr_command_id = command_id, mr_command_type = command_type,
          mr_review_thread_id = thread, mr_action_request_id = request,
          mr_proposal_revision = revision\<rparr>)))))"

definition read_resolution :: "document \<Rightarrow> document_error + MailboxActionResolution" where
  "read_resolution d =
     read_field str_value ''command_id'' d (\<lambda>command_id.
     read_field str_value ''action_request_id'' d (\<lambda>request.
     read_field str_value ''action_attempt_id'' d (\<lambda>attempt.
     read_field str_value ''status'' d (\<lambda>status.
     Inr \<lparr>ma_command_id = command_id, ma_action_request_id = request,
          ma_action_attempt_id = attempt, ma_status = status\<rparr>))))"

definition read_control :: "document \<Rightarrow> document_error + MailboxControl" where
  "read_control d =
     read_field str_value ''command_id'' d (\<lambda>command_id.
     read_field str_value ''command_type'' d (\<lambda>command_type.
     read_texts_or_empty ''event_ids'' d (\<lambda>event_ids.
     read_texts_or_empty ''review_command_ids'' d (\<lambda>reviews.
     read_texts_or_empty ''action_attempt_ids'' d (\<lambda>attempts.
     read_texts_or_empty ''timer_ids'' d (\<lambda>timers.
     Inr \<lparr>mc_command_id = command_id, mc_command_type = command_type, mc_event_ids = event_ids,
          mc_review_command_ids = reviews, mc_action_attempt_ids = attempts,
          mc_timer_ids = timers\<rparr>))))))"

definition read_wake :: "document \<Rightarrow> document_error + WakeRecord" where
  "read_wake d =
     read_field str_value ''reason'' d (\<lambda>reason.
     read_field text_or_none ''event_id'' d (\<lambda>event_id.
     read_field text_or_none ''event_type'' d (\<lambda>event_type.
     read_field text_or_none ''timer_id'' d (\<lambda>timer_id.
     read_field iso_value ''woke_at'' d (\<lambda>woke_at.
     read_field text_or_none ''review_command_id'' d (\<lambda>review.
     read_field text_or_none ''review_command_type'' d (\<lambda>review_type.
     Inr \<lparr>wr_reason = reason, wr_event_id = event_id, wr_event_type = event_type,
          wr_timer_id = timer_id, wr_woke_at = woke_at, wr_review_command_id = review,
          wr_review_command_type = review_type\<rparr>)))))))"

definition read_turn :: "document \<Rightarrow> document_error + TurnRecord" where
  "read_turn d =
     read_field str_value ''turn_id'' d (\<lambda>turn_id.
     read_field texts_value ''event_ids'' d (\<lambda>event_ids.
     read_field texts_value ''review_command_ids'' d (\<lambda>reviews.
     read_field texts_value ''action_attempt_ids'' d (\<lambda>attempts.
     read_field texts_value ''timer_ids'' d (\<lambda>timers.
     read_field decision_or_none ''decision_json'' d (\<lambda>decision.
     read_field actions_or_none ''actions_json'' d (\<lambda>actions.
     read_field results_or_none ''execution_results_json'' d (\<lambda>results.
     read_field text_or_none ''error'' d (\<lambda>error.
     Inr \<lparr>tr_turn_id = turn_id, tr_event_ids = event_ids, tr_review_command_ids = reviews,
          tr_action_attempt_ids = attempts, tr_timer_ids = timers, tr_decision_json = decision,
          tr_actions_json = actions, tr_execution_results_json = results,
          tr_error = error\<rparr>)))))))))"

definition read_execution :: "document \<Rightarrow> document_error + ExecutionRecord" where
  "read_execution d =
     read_field str_value ''action_request_id'' d (\<lambda>request.
     read_field int_value ''revision'' d (\<lambda>revision.
     read_field result_or_none ''result_json'' d (\<lambda>result.
     read_field text_or_none ''error'' d (\<lambda>error.
     Inr \<lparr>xr_action_request_id = request, xr_revision = revision, xr_result_json = result,
          xr_error = error\<rparr>))))"

definition read_plan :: "document \<Rightarrow> document_error + WakePlan" where
  "read_plan d =
     read_field texts_value ''event_types'' d (\<lambda>event_types.
     read_field text_or_none ''timer_id'' d (\<lambda>timer_id.
     read_field iso_or_none ''timer_at'' d (\<lambda>timer_at.
     read_texts_or_empty ''human_interactions'' d (\<lambda>people.
     Inr \<lparr>wp_event_types = event_types, wp_timer_id = timer_id, wp_timer_at = timer_at,
          wp_human_interactions = people\<rparr>))))"

text \<open>\<open>[read(document) for document in documents]\<close>\<close>

fun read_all :: "(document \<Rightarrow> document_error + 'a) \<Rightarrow> document list \<Rightarrow> document_error + 'a list" where
  "read_all read [] = Inr []"
| "read_all read (d # ds) =
     bind_result (read d) (\<lambda>x. bind_result (read_all read ds) (\<lambda>xs. Inr (x # xs)))"

fun read_optional_plan :: "document option \<Rightarrow> document_error + WakePlan option" where
  "read_optional_plan None = Inr None"
| "read_optional_plan (Some d) = map_sum id Some (read_plan d)"

text \<open>
  The assignments of \<open>_restore_continuation\<close> before the merge, in its order: what the carried
  snapshot says. The plan revision is not carried and keeps its value.
\<close>

definition load_continuation :: "MailboxContinuation \<Rightarrow> Mailbox \<Rightarrow> document_error + Mailbox" where
  "load_continuation c st =
     bind_result (read_all read_event (co_buffered_events c)) (\<lambda>events.
     bind_result (read_all read_review (co_buffered_reviews c)) (\<lambda>reviews.
     bind_result (read_all read_resolution (co_buffered_action_resolutions c)) (\<lambda>resolutions.
     bind_result (read_all read_control (co_buffered_controls c)) (\<lambda>controls.
     bind_result (read_all read_wake (co_recent_wake_records c)) (\<lambda>wakes.
     bind_result (read_all read_turn (co_recent_turn_records c)) (\<lambda>turns.
     bind_result (read_all read_execution (co_recent_execution_records c)) (\<lambda>executions.
     bind_result (read_optional_plan (co_wake_plan c)) (\<lambda>plan.
     Inr (st\<lparr>started := co_started c,
        buffered_events := events,
        seen_event_ids := set (co_seen_event_ids c),
        buffered_reviews := reviews,
        seen_review_command_ids := set (co_seen_review_command_ids c),
        buffered_action_resolutions := resolutions,
        seen_action_resolution_ids := set (co_seen_action_resolution_ids c),
        buffered_controls := controls,
        seen_control_command_ids := set (co_seen_control_command_ids c),
        wake_records := wakes,
        turn_records := turns,
        execution_records := executions,
        pending_action_request_ids := co_pending_action_request_ids c,
        wake_plan := plan,
        timer_due_at := (case plan of None \<Rightarrow> None | Some p \<Rightarrow> wp_timer_at p),
        completed_turn_count := co_completed_turn_count c,
        continued_run_count := co_continued_run_count c\<rparr>)))))))))"

text \<open>
  Signal-With-Start may have run handlers before the workflow method; what they left in the
  mailbox \<open>before\<close> is received again after the snapshot, and their plan wins.
\<close>

definition merge_prestart :: "Mailbox \<Rightarrow> Mailbox \<Rightarrow> Mailbox" where
  "merge_prestart before st =
     (let st1 = fold receive_event (buffered_events before) st;
          st2 = fold receive_review (buffered_reviews before) st1;
          st3 = fold receive_action_resolution (buffered_action_resolutions before) st2;
          st4 = fold receive_control (buffered_controls before) st3
      in case wake_plan before of
           None \<Rightarrow> st4
         | Some plan \<Rightarrow> st4\<lparr>wake_plan := Some plan, timer_due_at := wp_timer_at plan\<rparr>)"

datatype mailbox_error = UnsupportedMailboxContinuation int | MalformedContinuation document_error

definition restore_continuation :: "MailboxContinuation \<Rightarrow> Mailbox \<Rightarrow> mailbox_error + Mailbox" where
  "restore_continuation c st =
     (if co_schema_version c \<noteq> CONTINUATION_SCHEMA_VERSION
      then Inl (UnsupportedMailboxContinuation (co_schema_version c))
      else map_sum MalformedContinuation (merge_prestart st) (load_continuation c st))"

text \<open>The prologue of \<open>run\<close>: the input's identity, then the carried state.\<close>

definition set_identity :: "MailboxInput \<Rightarrow> Mailbox \<Rightarrow> Mailbox" where
  "set_identity i st =
     st\<lparr>tenant_id := in_tenant_id i,
        process_instance_id := in_process_instance_id i,
        process_definition_id := in_process_definition_id i,
        process_definition_version := in_process_definition_version i,
        continue_as_new_after_turns := max 1 (in_continue_as_new_after_turns i)\<rparr>"

definition start_run :: "MailboxInput \<Rightarrow> Mailbox \<Rightarrow> mailbox_error + Mailbox" where
  "start_run i st = restore_continuation (in_continuation i) (set_identity i st)"

section \<open>Outcome of a turn\<close>

text \<open>
  \<open>_apply_turn_outcome\<close>. \<open>timer_candidates\<close> is the list of indexed timers, \<open>earliest\<close> the
  \<open>min\<close> by time (the first of equal ones); \<open>digits\<close> is \<open>str\<close> on the index in the timer identity.
\<close>

fun timer_candidates :: "nat \<Rightarrow> wake_doc list \<Rightarrow> (nat \<times> instant) list" where
  "timer_candidates i [] = []"
| "timer_candidates i (TimerWakeDoc t # ws) = (i, t) # timer_candidates (Suc i) ws"
| "timer_candidates i (_ # ws) = timer_candidates (Suc i) ws"

fun earliest :: "(nat \<times> instant) list \<Rightarrow> (nat \<times> instant) option" where
  "earliest [] = None"
| "earliest (x # xs) =
     (case earliest xs of None \<Rightarrow> Some x | Some y \<Rightarrow> Some (if snd y < snd x then y else x))"

fun event_types_of :: "wake_doc list \<Rightarrow> string list" where
  "event_types_of [] = []"
| "event_types_of (EventWakeDoc t # ws) = t # event_types_of ws"
| "event_types_of (_ # ws) = event_types_of ws"

fun human_interactions_of :: "wake_doc list \<Rightarrow> string list" where
  "human_interactions_of [] = []"
| "human_interactions_of (HumanWakeDoc t # ws) = t # human_interactions_of ws"
| "human_interactions_of (_ # ws) = human_interactions_of ws"

definition plan_of_wakes :: "string \<Rightarrow> wake_doc list \<Rightarrow> WakePlan" where
  "plan_of_wakes decision_id wakes =
     (let selected = earliest (timer_candidates 0 wakes) in
      \<lparr>wp_event_types = event_types_of wakes,
       wp_timer_id = map_option (\<lambda>(i, _). decision_id @ '':timer:'' @ digits i) selected,
       wp_timer_at = map_option snd selected,
       wp_human_interactions = human_interactions_of wakes\<rparr>)"

record ProcessStateDoc =
  ps_terminal :: "bool option"
  ps_wake_conditions_json :: "wake_doc list option"

definition apply_turn_outcome :: "ProcessStateDoc \<Rightarrow> DecisionDoc \<Rightarrow> Mailbox \<Rightarrow> Mailbox" where
  "apply_turn_outcome result decision st =
     (let (terminal, wakes) =
        (case ps_terminal result of
           Some t \<Rightarrow> (t, case ps_wake_conditions_json result of None \<Rightarrow> [] | Some ws \<Rightarrow> ws)
         | None \<Rightarrow> (dd_status decision = Some ''completed'', dd_wake_conditions decision))
      in if terminal then st\<lparr>closed := True\<rparr>
         else set_wake_plan (plan_of_wakes (dd_decision_id decision) wakes) st)"

section \<open>Properties of the inboxes\<close>

interpretation events: dedup_inbox receive_event me_event_id buffered_events seen_event_ids
  by unfold_locales (auto simp: receive_event_def)

interpretation reviews: dedup_inbox receive_review mr_command_id buffered_reviews
    seen_review_command_ids
  by unfold_locales (auto simp: receive_review_def)

interpretation resolutions: dedup_inbox receive_action_resolution ma_command_id
    buffered_action_resolutions seen_action_resolution_ids
  by unfold_locales (auto simp: receive_action_resolution_def)

interpretation controls: dedup_inbox receive_control mc_command_id buffered_controls
    seen_control_command_ids
  by unfold_locales (auto simp: receive_control_def)

lemmas signal_defs = receive_event_def receive_review_def receive_action_resolution_def
  receive_control_def replace_wake_plan_def set_wake_plan_def close_mailbox_def

fun events_in :: "signal list \<Rightarrow> MailboxEvent list" where
  "events_in [] = []"
| "events_in (ReceiveEvent e # ss) = e # events_in ss"
| "events_in (_ # ss) = events_in ss"

fun reviews_in :: "signal list \<Rightarrow> MailboxReview list" where
  "reviews_in [] = []"
| "reviews_in (ReceiveReview e # ss) = e # reviews_in ss"
| "reviews_in (_ # ss) = reviews_in ss"

fun resolutions_in :: "signal list \<Rightarrow> MailboxActionResolution list" where
  "resolutions_in [] = []"
| "resolutions_in (ReceiveActionResolution e # ss) = e # resolutions_in ss"
| "resolutions_in (_ # ss) = resolutions_in ss"

fun controls_in :: "signal list \<Rightarrow> MailboxControl list" where
  "controls_in [] = []"
| "controls_in (ReceiveControl e # ss) = e # controls_in ss"
| "controls_in (_ # ss) = controls_in ss"

fun plans_in :: "signal list \<Rightarrow> WakePlan list" where
  "plans_in [] = []"
| "plans_in (ReplaceWakePlan p # ss) = p # plans_in ss"
| "plans_in (_ # ss) = plans_in ss"

definition newest_plan :: "WakePlan list \<Rightarrow> WakePlan option \<Rightarrow> WakePlan option" where
  "newest_plan plans old = (if plans = [] then old else Some (last plans))"

text \<open>
  What a batch of signals does to each field: the four inboxes grow by the fresh messages, the
  newest plan wins, everything else is untouched.
\<close>

lemma deliver_Nil [simp]: "deliver [] st = st"
  by (simp add: deliver_def)

lemma deliver_Cons [simp]: "deliver (s # ss) st = deliver ss (handle_signal s st)"
  by (simp add: deliver_def)

lemma deliver_append: "deliver (ss @ ts) st = deliver ts (deliver ss st)"
  by (simp add: deliver_def)

lemma deliver_events:
  "buffered_events (deliver ss st) =
     buffered_events st @ fresh_items me_event_id (seen_event_ids st) (events_in ss)"
  "seen_event_ids (deliver ss st) = seen_event_ids st \<union> me_event_id ` set (events_in ss)"
  by (induction ss arbitrary: st rule: events_in.induct) (auto simp: signal_defs)

lemma deliver_reviews:
  "buffered_reviews (deliver ss st) =
     buffered_reviews st @ fresh_items mr_command_id (seen_review_command_ids st) (reviews_in ss)"
  "seen_review_command_ids (deliver ss st) =
     seen_review_command_ids st \<union> mr_command_id ` set (reviews_in ss)"
  by (induction ss arbitrary: st rule: reviews_in.induct) (auto simp: signal_defs)

lemma deliver_resolutions:
  "buffered_action_resolutions (deliver ss st) =
     buffered_action_resolutions st @
       fresh_items ma_command_id (seen_action_resolution_ids st) (resolutions_in ss)"
  "seen_action_resolution_ids (deliver ss st) =
     seen_action_resolution_ids st \<union> ma_command_id ` set (resolutions_in ss)"
  by (induction ss arbitrary: st rule: resolutions_in.induct) (auto simp: signal_defs)

lemma deliver_controls:
  "buffered_controls (deliver ss st) =
     buffered_controls st @ fresh_items mc_command_id (seen_control_command_ids st) (controls_in ss)"
  "seen_control_command_ids (deliver ss st) =
     seen_control_command_ids st \<union> mc_command_id ` set (controls_in ss)"
  by (induction ss arbitrary: st rule: controls_in.induct) (auto simp: signal_defs)

lemma deliver_plan:
  "wake_plan (deliver ss st) = newest_plan (plans_in ss) (wake_plan st)"
  "timer_due_at (deliver ss st) =
     (if plans_in ss = [] then timer_due_at st else wp_timer_at (last (plans_in ss)))"
  "plan_revision (deliver ss st) = plan_revision st + length (plans_in ss)"
  by (induction ss arbitrary: st rule: plans_in.induct) (auto simp: signal_defs newest_plan_def)

lemma deliver_closed: "closed (deliver ss st) \<longleftrightarrow> closed st \<or> Close \<in> set ss"
proof (induction ss arbitrary: st)
  case (Cons s ss)
  then show ?case by (cases s) (auto simp: signal_defs)
qed simp

lemma handle_signal_frame [simp]:
  "tenant_id (handle_signal s st) = tenant_id st"
  "process_instance_id (handle_signal s st) = process_instance_id st"
  "wake_records (handle_signal s st) = wake_records st"
  "turn_records (handle_signal s st) = turn_records st"
  "execution_records (handle_signal s st) = execution_records st"
  "pending_action_request_ids (handle_signal s st) = pending_action_request_ids st"
  "turn_in_progress (handle_signal s st) = turn_in_progress st"
  "process_definition_id (handle_signal s st) = process_definition_id st"
  "process_definition_version (handle_signal s st) = process_definition_version st"
  "started (handle_signal s st) = started st"
  "continue_as_new_after_turns (handle_signal s st) = continue_as_new_after_turns st"
  "turns_since_continue (handle_signal s st) = turns_since_continue st"
  "completed_turn_count (handle_signal s st) = completed_turn_count st"
  "continued_run_count (handle_signal s st) = continued_run_count st"
  by (cases s; simp add: signal_defs)+

lemma deliver_frame [simp]:
  "tenant_id (deliver ss st) = tenant_id st"
  "process_instance_id (deliver ss st) = process_instance_id st"
  "wake_records (deliver ss st) = wake_records st"
  "turn_records (deliver ss st) = turn_records st"
  "execution_records (deliver ss st) = execution_records st"
  "pending_action_request_ids (deliver ss st) = pending_action_request_ids st"
  "turn_in_progress (deliver ss st) = turn_in_progress st"
  "process_definition_id (deliver ss st) = process_definition_id st"
  "process_definition_version (deliver ss st) = process_definition_version st"
  "started (deliver ss st) = started st"
  "continue_as_new_after_turns (deliver ss st) = continue_as_new_after_turns st"
  "turns_since_continue (deliver ss st) = turns_since_continue st"
  "completed_turn_count (deliver ss st) = completed_turn_count st"
  "continued_run_count (deliver ss st) = continued_run_count st"
  by (induction ss arbitrary: st) simp_all

lemmas deliver_fields = deliver_events deliver_reviews deliver_resolutions deliver_controls
  deliver_plan deliver_closed

section \<open>The mailbox invariant\<close>

definition inboxes_ok :: "Mailbox \<Rightarrow> bool" where
  "inboxes_ok st \<longleftrightarrow>
     inbox_ok me_event_id (buffered_events st) (seen_event_ids st) \<and>
     inbox_ok mr_command_id (buffered_reviews st) (seen_review_command_ids st) \<and>
     inbox_ok ma_command_id (buffered_action_resolutions st) (seen_action_resolution_ids st) \<and>
     inbox_ok mc_command_id (buffered_controls st) (seen_control_command_ids st)"

definition seen_finite :: "Mailbox \<Rightarrow> bool" where
  "seen_finite st \<longleftrightarrow>
     finite (seen_event_ids st) \<and> finite (seen_review_command_ids st) \<and>
     finite (seen_action_resolution_ids st) \<and> finite (seen_control_command_ids st)"

definition timer_ok :: "Mailbox \<Rightarrow> bool" where
  "timer_ok st \<longleftrightarrow> timer_due_at st = (case wake_plan st of None \<Rightarrow> None | Some p \<Rightarrow> wp_timer_at p)"

text \<open>
  No message is buffered twice and every buffered one is marked as seen; the armed timer is the
  one of the installed plan; no action is pending twice; the rollover threshold is positive.
\<close>

definition mailbox_ok :: "Mailbox \<Rightarrow> bool" where
  "mailbox_ok st \<longleftrightarrow>
     inboxes_ok st \<and> seen_finite st \<and> timer_ok st \<and> distinct (pending_action_request_ids st)
     \<and> 1 \<le> continue_as_new_after_turns st"

lemmas mailbox_ok_defs = mailbox_ok_def inboxes_ok_def seen_finite_def timer_ok_def

lemma init_mailbox_ok: "mailbox_ok init_mailbox"
  by (simp add: mailbox_ok_defs init_mailbox_def)

lemma deliver_inboxes_ok: "inboxes_ok st \<Longrightarrow> inboxes_ok (deliver ss st)"
  by (simp add: inboxes_ok_def deliver_fields inbox_ok_append_fresh)

lemma deliver_timer_ok: "timer_ok st \<Longrightarrow> timer_ok (deliver ss st)"
  by (simp add: timer_ok_def deliver_plan newest_plan_def)

lemma deliver_ok: "mailbox_ok st \<Longrightarrow> mailbox_ok (deliver ss st)"
  using deliver_inboxes_ok [of st ss] deliver_timer_ok [of st ss]
  by (simp add: mailbox_ok_def seen_finite_def deliver_fields)

section \<open>Continue-As-New keeps the mailbox\<close>

text \<open>What the next run knows: everything but the run's own counters and the older records.\<close>

definition rolled_over :: "Mailbox \<Rightarrow> Mailbox" where
  "rolled_over st =
     st\<lparr>wake_records := last_items RECENT_RECORD_LIMIT (wake_records st),
        turn_records := last_items RECENT_RECORD_LIMIT (turn_records st),
        execution_records := last_items RECENT_RECORD_LIMIT (execution_records st),
        turn_in_progress := False, plan_revision := 0, closed := False,
        turns_since_continue := 0, continued_run_count := continued_run_count st + 1\<rparr>"

lemma merge_prestart_init: "wake_plan before = None \<Longrightarrow> buffered_events before = [] \<Longrightarrow>
    buffered_reviews before = [] \<Longrightarrow> buffered_action_resolutions before = [] \<Longrightarrow>
    buffered_controls before = [] \<Longrightarrow> merge_prestart before st = st"
  by (simp add: merge_prestart_def)

lemma read_all_map:
  assumes "\<And>x. read (write x) = Inr x"
  shows "read_all read (map write xs) = Inr xs"
  by (induction xs) (simp_all add: assms)

lemma optional_round_trips [simp]:
  "text_or_none (doc_optional DText t) = Inr t"
  "decision_or_none (doc_optional DDecision d) = Inr d"
  "actions_or_none (doc_optional DActions as) = Inr as"
  "results_or_none (doc_optional DResults rs) = Inr rs"
  "result_or_none (doc_optional DResult r) = Inr r"
  "iso_or_none (doc_optional DIso at) = Inr at"
  subgoal by (cases t) simp_all
  subgoal by (cases d) simp_all
  subgoal by (cases "as") simp_all
  subgoal by (cases rs) simp_all
  subgoal by (cases r) simp_all
  subgoal by (cases at) simp_all
  done

lemmas read_defs = read_field_def read_texts_or_empty_def doc_field_def

lemma document_round_trips:
  "read_event (event_document e) = Inr e"
  "read_review (review_document r) = Inr r"
  "read_resolution (resolution_document a) = Inr a"
  "read_control (control_document c) = Inr c"
  "read_wake (wake_document w) = Inr w"
  "read_turn (turn_document t) = Inr t"
  "read_execution (execution_document x) = Inr x"
  "read_plan (plan_document p) = Inr p"
  by (simp_all add: read_defs read_event_def event_document_def read_review_def review_document_def
      read_resolution_def resolution_document_def read_control_def control_document_def
      read_wake_def wake_document_def read_turn_def turn_document_def read_execution_def
      execution_document_def read_plan_def plan_document_def)

lemma read_optional_plan_document: "read_optional_plan (map_option plan_document p) = Inr p"
  by (cases p) (simp_all add: document_round_trips)

lemmas continuation_round_trips = read_all_map [of read_event event_document]
  read_all_map [of read_review review_document] read_all_map [of read_resolution resolution_document]
  read_all_map [of read_control control_document] read_all_map [of read_wake wake_document]
  read_all_map [of read_turn turn_document] read_all_map [of read_execution execution_document]
  document_round_trips read_optional_plan_document

lemma start_run_continuation:
  assumes "mailbox_ok st"
  shows "start_run (continuation_input st) init_mailbox = Inr (rolled_over st)"
proof -
  have "max 1 (continue_as_new_after_turns st) = continue_as_new_after_turns st"
    using assms by (simp add: mailbox_ok_def)
  then show ?thesis
    using assms
    by (simp add: start_run_def set_identity_def restore_continuation_def continuation_input_def
        snapshot_continuation_def merge_prestart_init load_continuation_def init_mailbox_def
        rolled_over_def mailbox_ok_defs continuation_round_trips)
qed

text \<open>Receiving a list of messages again after a snapshot touches only their own inbox.\<close>

lemma fold_receive_event:
  "fold receive_event es st =
     st\<lparr>buffered_events := buffered_events st @ fresh_items me_event_id (seen_event_ids st) es,
        seen_event_ids := seen_event_ids st \<union> me_event_id ` set es\<rparr>"
proof (induction es arbitrary: st)
  case (Cons e es)
  then show ?case by (simp add: receive_event_def insert_absorb)
qed simp

lemma fold_receive_review:
  "fold receive_review rs st =
     st\<lparr>buffered_reviews := buffered_reviews st @
          fresh_items mr_command_id (seen_review_command_ids st) rs,
        seen_review_command_ids := seen_review_command_ids st \<union> mr_command_id ` set rs\<rparr>"
proof (induction rs arbitrary: st)
  case (Cons r rs)
  then show ?case by (simp add: receive_review_def insert_absorb)
qed simp

lemma fold_receive_action_resolution:
  "fold receive_action_resolution rs st =
     st\<lparr>buffered_action_resolutions := buffered_action_resolutions st @
          fresh_items ma_command_id (seen_action_resolution_ids st) rs,
        seen_action_resolution_ids := seen_action_resolution_ids st \<union> ma_command_id ` set rs\<rparr>"
proof (induction rs arbitrary: st)
  case (Cons r rs)
  then show ?case by (simp add: receive_action_resolution_def insert_absorb)
qed simp

lemma fold_receive_control:
  "fold receive_control cs st =
     st\<lparr>buffered_controls := buffered_controls st @
          fresh_items mc_command_id (seen_control_command_ids st) cs,
        seen_control_command_ids := seen_control_command_ids st \<union> mc_command_id ` set cs\<rparr>"
proof (induction cs arbitrary: st)
  case (Cons c cs)
  then show ?case by (simp add: receive_control_def insert_absorb)
qed simp

lemmas fold_receives = fold_receive_event fold_receive_review fold_receive_action_resolution
  fold_receive_control

lemma merge_prestart_fields:
  "merge_prestart before st =
     st\<lparr>buffered_events := buffered_events st @
          fresh_items me_event_id (seen_event_ids st) (buffered_events before),
        seen_event_ids := seen_event_ids st \<union> me_event_id ` set (buffered_events before),
        buffered_reviews := buffered_reviews st @
          fresh_items mr_command_id (seen_review_command_ids st) (buffered_reviews before),
        seen_review_command_ids := seen_review_command_ids st \<union>
          mr_command_id ` set (buffered_reviews before),
        buffered_action_resolutions := buffered_action_resolutions st @
          fresh_items ma_command_id (seen_action_resolution_ids st)
            (buffered_action_resolutions before),
        seen_action_resolution_ids := seen_action_resolution_ids st \<union>
          ma_command_id ` set (buffered_action_resolutions before),
        buffered_controls := buffered_controls st @
          fresh_items mc_command_id (seen_control_command_ids st) (buffered_controls before),
        seen_control_command_ids := seen_control_command_ids st \<union>
          mc_command_id ` set (buffered_controls before),
        wake_plan := (case wake_plan before of None \<Rightarrow> wake_plan st | Some p \<Rightarrow> Some p),
        timer_due_at :=
          (case wake_plan before of None \<Rightarrow> timer_due_at st | Some p \<Rightarrow> wp_timer_at p)\<rparr>"
  by (cases "wake_plan before") (simp_all add: merge_prestart_def Let_def fold_receives)

text \<open>
  Signals that arrive before the run method starts (Signal-With-Start) have exactly the effect
  they would have had right after it restored the carried snapshot.
\<close>

lemma load_continuation_Inr:
  "load_continuation c st = Inr st1 \<Longrightarrow>
     \<exists>p es rs as cs ws ts xs. \<forall>st. load_continuation c st = Inr
       (st\<lparr>started := co_started c, buffered_events := es, seen_event_ids := set (co_seen_event_ids c),
        buffered_reviews := rs, seen_review_command_ids := set (co_seen_review_command_ids c),
        buffered_action_resolutions := as,
        seen_action_resolution_ids := set (co_seen_action_resolution_ids c),
        buffered_controls := cs, seen_control_command_ids := set (co_seen_control_command_ids c),
        wake_records := ws, turn_records := ts, execution_records := xs,
        pending_action_request_ids := co_pending_action_request_ids c, wake_plan := p,
        timer_due_at := (case p of None \<Rightarrow> None | Some p \<Rightarrow> wp_timer_at p),
        completed_turn_count := co_completed_turn_count c,
        continued_run_count := co_continued_run_count c\<rparr>)"
  unfolding load_continuation_def by (simp only: bind_result_Inr) fastforce

lemma load_continuation_Inl:
  "load_continuation c st = Inl e \<Longrightarrow> load_continuation c st' = Inl e"
  by (auto simp: load_continuation_def bind_result_Inl)

lemma merge_deliver:
  assumes "wake_plan before = None" and "buffered_events before = []"
    and "buffered_reviews before = []" and "buffered_action_resolutions before = []"
    and "buffered_controls before = []" and "seen_event_ids before = {}"
    and "seen_review_command_ids before = {}" and "seen_action_resolution_ids before = {}"
    and "seen_control_command_ids before = {}"
  shows "map_sum id (merge_prestart (deliver ss before)) (load_continuation c (deliver ss before)) =
    map_sum id (deliver ss) (load_continuation c before)"
proof (cases "load_continuation c before")
  case (Inl e)
  then show ?thesis using load_continuation_Inl [OF Inl, of "deliver ss before"] by simp
next
  case (Inr st)
  note fields = merge_prestart_fields deliver_fields newest_plan_def
  from load_continuation_Inr [OF Inr] show ?thesis
    by (elim exE, simp)
      (rule Mailbox.Mailbox.equality; simp add: fields assms fresh_items_keys fresh_items_fresh)
qed

lemma deliver_set_identity: "set_identity i (deliver ss st) = deliver ss (set_identity i st)"
proof (induction ss arbitrary: st)
  case (Cons s ss)
  have "set_identity i (handle_signal s st) = handle_signal s (set_identity i st)"
    by (cases s) (simp_all add: signal_defs set_identity_def)
  with Cons show ?case by simp
qed simp

lemma start_run_deliver:
  "start_run i (deliver ss init_mailbox) = map_sum id (deliver ss) (start_run i init_mailbox)"
proof -
  let ?st = "set_identity i init_mailbox" and ?c = "in_continuation i"
  have init: "merge_prestart ?st st = st" for st
    by (rule merge_prestart_init) (simp_all add: set_identity_def init_mailbox_def)
  have "map_sum id (merge_prestart (deliver ss ?st)) (load_continuation ?c (deliver ss ?st)) =
    map_sum id (deliver ss) (load_continuation ?c ?st)"
    by (rule merge_deliver) (simp_all add: set_identity_def init_mailbox_def)
  then show ?thesis
    by (cases "load_continuation ?c ?st"; cases "load_continuation ?c (deliver ss ?st)")
      (simp_all add: start_run_def restore_continuation_def deliver_set_identity init)
qed

end
