(* ===== verification/Mailbox_Turn.thy ===== *)
theory Mailbox_Turn
  imports Mailbox "HOL-Library.Sublist"
begin

text \<open>
  One agent turn of the mailbox workflow (\<open>_run_turn\<close>, \<open>_execute_pending_action\<close> and their
  helpers). The workflow is single-threaded but every \<open>await\<close> lets signals in and time pass, and
  what an activity answers is not decided by the workflow. The environment is therefore a list
  of steps, one per await: the signals handled while waiting, the time that passed, whether the
  server now suggests Continue-As-New, and the activity's answer (read only by an await of an
  activity). An outcome says whether the code returned, raised, or is still waiting because the
  environment has given no further step. Every activity call is logged with its arguments.
\<close>

section \<open>The environment of the workflow\<close>

datatype exn = ApplicationError "string option" | OtherError

text \<open>An \<open>ActivityError\<close>: its chain of causes and its text.\<close>

record ActivityFailure =
  af_causes :: "exn list"
  af_message :: string

text \<open>The dictionaries the activities return: a missing key is \<open>None\<close>.\<close>

record ActivityResult =
  ar_decision_json :: "DecisionDoc option"
  ar_actions_json :: "ActionItem list option"
  ar_result_json :: "ExecutionDoc option"
  ar_process_state :: ProcessStateDoc

record AwaitStep =
  as_signals :: "signal list"
  as_elapsed :: nat
  as_continue_as_new_suggested :: bool
  as_outcome :: "ActivityFailure + ActivityResult"

record CallContext =
  cc_tenant_id :: string
  cc_process_instance_id :: string
  cc_process_definition_id :: "string option"
  cc_process_definition_version :: "string option"

record TurnArgs =
  ta_event_ids :: "string list"
  ta_review_command_ids :: "string list"
  ta_action_attempt_ids :: "string list"
  ta_timer_ids :: "string list"

definition no_sources :: TurnArgs where
  "no_sources =
     \<lparr>ta_event_ids = [], ta_review_command_ids = [], ta_action_attempt_ids = [], ta_timer_ids = []\<rparr>"

record Intervention =
  iv_intervention_id :: string
  iv_agent_turn_id :: string
  iv_kind :: string
  iv_error_type :: string
  iv_error :: string
  iv_args :: TurnArgs

datatype activity_call =
    RunAgentTurn CallContext string TurnArgs instant
  | PersistAgentActions CallContext string TurnArgs instant DecisionDoc
  | PersistProcessState CallContext string TurnArgs instant DecisionDoc
  | ExecuteAction CallContext string int
  | ReconcileAction CallContext string int
  | RecordIntervention CallContext Intervention

text \<open>
  The runtime around the workflow object: its clock, the supply behind \<open>workflow.uuid4()\<close>
  (a function of how many were drawn), the server's Continue-As-New suggestion, and the log.
\<close>

record Runtime =
  rt_mailbox :: Mailbox
  rt_now :: instant
  rt_uuid4 :: "nat \<Rightarrow> string"
  rt_uuids_drawn :: nat
  rt_continue_as_new_suggested :: bool
  rt_log :: "activity_call list"

datatype ('e, 'a) outcome =
    Returned 'a Runtime "AwaitStep list"
  | Raised 'e Runtime "AwaitStep list"
  | Suspended Runtime

text \<open>Exceptions that can leave workflow code: an activity's, or a missing key of a result.\<close>

datatype wf_error = ActivityErr ActivityFailure | MissingKey string

definition on_mailbox :: "(Mailbox \<Rightarrow> Mailbox) \<Rightarrow> Runtime \<Rightarrow> Runtime" where
  "on_mailbox f rt = rt\<lparr>rt_mailbox := f (rt_mailbox rt)\<rparr>"

definition resume_at :: "AwaitStep \<Rightarrow> Runtime \<Rightarrow> Runtime" where
  "resume_at s rt =
     rt\<lparr>rt_mailbox := deliver (as_signals s) (rt_mailbox rt),
        rt_now := rt_now rt + int (as_elapsed s),
        rt_continue_as_new_suggested := as_continue_as_new_suggested s\<rparr>"

definition log_call :: "activity_call \<Rightarrow> Runtime \<Rightarrow> Runtime" where
  "log_call call rt = rt\<lparr>rt_log := rt_log rt @ [call]\<rparr>"

definition draw_uuid :: "Runtime \<Rightarrow> string \<times> Runtime" where
  "draw_uuid rt = (rt_uuid4 rt (rt_uuids_drawn rt), rt\<lparr>rt_uuids_drawn := rt_uuids_drawn rt + 1\<rparr>)"

definition call_context :: "Mailbox \<Rightarrow> CallContext" where
  "call_context st =
     \<lparr>cc_tenant_id = tenant_id st, cc_process_instance_id = process_instance_id st,
      cc_process_definition_id = process_definition_id st,
      cc_process_definition_version = process_definition_version st\<rparr>"

fun execute_activity ::
  "activity_call \<Rightarrow> Runtime \<Rightarrow> AwaitStep list \<Rightarrow> (wf_error, ActivityResult) outcome" where
  "execute_activity call rt [] = Suspended (log_call call rt)"
| "execute_activity call rt (s # script) =
     (let rt' = resume_at s (log_call call rt) in
      case as_outcome s of
        Inl failure \<Rightarrow> Raised (ActivityErr failure) rt' script
      | Inr result \<Rightarrow> Returned result rt' script)"

section \<open>Error classification\<close>

definition is_activity_error_type :: "ActivityFailure \<Rightarrow> string \<Rightarrow> bool" where
  "is_activity_error_type error expected \<longleftrightarrow>
     list_ex (\<lambda>cause. cause = ApplicationError (Some expected)) (af_causes error)"

fun activity_error_type_of :: "exn list \<Rightarrow> string" where
  "activity_error_type_of [] = ''ActivityError''"
| "activity_error_type_of (ApplicationError t # causes) =
     (case t of None \<Rightarrow> ''ApplicationError''
      | Some name \<Rightarrow> if name = '''' then ''ApplicationError'' else name)"
| "activity_error_type_of (OtherError # causes) = activity_error_type_of causes"

definition activity_error_type :: "ActivityFailure \<Rightarrow> string" where
  "activity_error_type error = activity_error_type_of (af_causes error)"

section \<open>Executing one action\<close>

text \<open>
  The loop around \<open>run_agent_turn\<close> and the one around \<open>execute_action\<close>: an error of the
  suspension type sleeps for a minute and tries again, unless the mailbox was closed meanwhile
  (\<open>None\<close>); any other error is raised.
\<close>

fun retry_while_suspended ::
  "string \<Rightarrow> activity_call \<Rightarrow> Runtime \<Rightarrow> AwaitStep list \<Rightarrow>
   (wf_error, ActivityResult option) outcome" where
  "retry_while_suspended suspended call rt [] = Suspended (log_call call rt)"
| "retry_while_suspended suspended call rt (s # script) =
     (let rt' = resume_at s (log_call call rt) in
      case as_outcome s of
        Inr result \<Rightarrow> Returned (Some result) rt' script
      | Inl error \<Rightarrow>
          if \<not> is_activity_error_type error suspended then Raised (ActivityErr error) rt' script
          else (case script of
                  [] \<Rightarrow> Suspended rt'
                | sleep # rest \<Rightarrow>
                    let rt'' = resume_at sleep rt' in
                    if closed (rt_mailbox rt'') then Returned None rt'' rest
                    else retry_while_suspended suspended call rt'' rest))"

definition record_execution ::
  "string \<Rightarrow> int \<Rightarrow> ExecutionDoc option \<Rightarrow> string option \<Rightarrow> Mailbox \<Rightarrow> Mailbox" where
  "record_execution action_request_id revision result error st =
     st\<lparr>execution_records := execution_records st @
        [\<lparr>xr_action_request_id = action_request_id, xr_revision = revision,
          xr_result_json = result, xr_error = error\<rparr>]\<rparr>"

definition settled_statuses :: "string list" where
  "settled_statuses = [''succeeded'', ''failed'', ''conflict'']"

definition settle_action :: "string \<Rightarrow> ExecutionDoc \<Rightarrow> Mailbox \<Rightarrow> Mailbox" where
  "settle_action action_request_id result st =
     (if xd_status result \<in> set settled_statuses then remove_pending_action action_request_id st
      else st)"

text \<open>The outer \<open>except ActivityError\<close> of \<open>_execute_pending_action\<close>.\<close>

definition execution_failed ::
  "string \<Rightarrow> int \<Rightarrow> ActivityFailure \<Rightarrow> Runtime \<Rightarrow> AwaitStep list \<Rightarrow>
   (wf_error, ExecutionDoc option) outcome" where
  "execution_failed action_request_id revision error rt script =
     (let rt' = on_mailbox (record_execution action_request_id revision None
                              (Some (af_message error))) rt in
      if is_activity_error_type error ''DeploymentCompatibilityError''
      then Raised (ActivityErr error) rt' script else Returned None rt' script)"

text \<open>
  After \<open>execute_action\<close> answered: an unknown outcome is reconciled once (a failing
  reconciliation leaves the outcome unknown), then a settled action leaves the pending list.
\<close>

definition after_execution ::
  "string \<Rightarrow> int \<Rightarrow> ExecutionDoc \<Rightarrow> Runtime \<Rightarrow> AwaitStep list \<Rightarrow>
   (wf_error, ExecutionDoc option) outcome" where
  "after_execution action_request_id revision result rt script =
     (if xd_status result = ''unknown'' then
        (case execute_activity
                (ReconcileAction (call_context (rt_mailbox rt)) action_request_id revision) rt script of
           Suspended rt' \<Rightarrow> Suspended rt'
         | Raised (ActivityErr error) rt' script' \<Rightarrow>
             let rt'' = on_mailbox (record_execution action_request_id revision None
                                      (Some (af_message error))) rt' in
             if is_activity_error_type error ''DeploymentCompatibilityError''
             then execution_failed action_request_id revision error rt'' script'
             else Returned (Some result) (on_mailbox (settle_action action_request_id result) rt'') script'
         | Raised e rt' script' \<Rightarrow> Raised e rt' script'
         | Returned answer rt' script' \<Rightarrow>
             (case ar_result_json answer of
                None \<Rightarrow> Raised (MissingKey ''result_json'') rt' script'
              | Some reconciled \<Rightarrow>
                  Returned (Some reconciled)
                    (on_mailbox (settle_action action_request_id reconciled)
                      (on_mailbox (record_execution action_request_id revision (Some reconciled) None)
                        rt')) script'))
      else Returned (Some result) (on_mailbox (settle_action action_request_id result) rt) script)"

definition execute_pending_action ::
  "string \<Rightarrow> int \<Rightarrow> Runtime \<Rightarrow> AwaitStep list \<Rightarrow> (wf_error, ExecutionDoc option) outcome" where
  "execute_pending_action action_request_id revision rt script =
     (let rt0 = on_mailbox (add_pending_action action_request_id) rt in
      case retry_while_suspended ''ActionExecutionSuspended''
             (ExecuteAction (call_context (rt_mailbox rt0)) action_request_id revision) rt0 script of
        Suspended rt' \<Rightarrow> Suspended rt'
      | Raised (ActivityErr error) rt' script' \<Rightarrow>
          execution_failed action_request_id revision error rt' script'
      | Raised e rt' script' \<Rightarrow> Raised e rt' script'
      | Returned None rt' script' \<Rightarrow> Returned None rt' script'
      | Returned (Some answer) rt' script' \<Rightarrow>
          (case ar_result_json answer of
             None \<Rightarrow> Raised (MissingKey ''result_json'') rt' script'
           | Some result \<Rightarrow>
               after_execution action_request_id revision result
                 (on_mailbox (record_execution action_request_id revision (Some result) None) rt')
                 script'))"

section \<open>One turn\<close>

text \<open>The local variables of \<open>_run_turn\<close> (\<open>lv\<close> below).\<close>

record TurnLocals =
  tl_turn_id :: string
  tl_args :: TurnArgs
  tl_workflow_now :: instant
  tl_decision_json :: "DecisionDoc option"
  tl_actions_json :: "ActionItem list option"
  tl_execution_results :: "ExecutionDoc list"

definition LIFECYCLE_PREEMPTION_ERROR :: string where
  "LIFECYCLE_PREEMPTION_ERROR = ''turn superseded by operator lifecycle control''"

definition append_turn_record ::
  "TurnLocals \<Rightarrow> DecisionDoc option \<Rightarrow> ActionItem list option \<Rightarrow> ExecutionDoc list option \<Rightarrow>
   string option \<Rightarrow> Mailbox \<Rightarrow> Mailbox" where
  "append_turn_record lv decision actions results error st =
     st\<lparr>turn_records := turn_records st @
        [\<lparr>tr_turn_id = tl_turn_id lv, tr_event_ids = ta_event_ids (tl_args lv),
          tr_review_command_ids = ta_review_command_ids (tl_args lv),
          tr_action_attempt_ids = ta_action_attempt_ids (tl_args lv),
          tr_timer_ids = ta_timer_ids (tl_args lv),
          tr_decision_json = decision, tr_actions_json = actions,
          tr_execution_results_json = results, tr_error = error\<rparr>]\<rparr>"

definition record_preempted_turn ::
  "TurnLocals \<Rightarrow> ExecutionDoc list option \<Rightarrow> Mailbox \<Rightarrow> Mailbox" where
  "record_preempted_turn lv results st =
     append_turn_record lv (tl_decision_json lv) (tl_actions_json lv) results
       (Some LIFECYCLE_PREEMPTION_ERROR) st"

definition record_intervention ::
  "string \<Rightarrow> string \<Rightarrow> string \<Rightarrow> string \<Rightarrow> TurnArgs \<Rightarrow> Runtime \<Rightarrow> AwaitStep list \<Rightarrow>
   (wf_error, ActivityResult) outcome" where
  "record_intervention turn_id kind error_type error args rt script =
     (let (intervention_id, rt') = draw_uuid rt in
      execute_activity
        (RecordIntervention (call_context (rt_mailbox rt'))
           \<lparr>iv_intervention_id = intervention_id, iv_agent_turn_id = turn_id, iv_kind = kind,
            iv_error_type = error_type, iv_error = error, iv_args = args\<rparr>) rt' script)"

text \<open>
  The loop over the persisted actions. \<open>None\<close> in the second component of the result says the
  turn was preempted and its record written; \<open>Some b\<close> gives \<open>requires_approval\<close>.
\<close>

fun run_actions ::
  "TurnLocals \<Rightarrow> bool \<Rightarrow> ActionItem list \<Rightarrow> Runtime \<Rightarrow> AwaitStep list \<Rightarrow>
   (wf_error \<times> TurnLocals, TurnLocals \<times> bool option) outcome" where
  "run_actions lv requires_approval [] rt script = Returned (lv, Some requires_approval) rt script"
| "run_actions lv requires_approval (item # items) rt script =
     (if lifecycle_preemption_pending (rt_mailbox rt)
      then Returned (lv, None)
             (on_mailbox (record_preempted_turn lv (Some (tl_execution_results lv))) rt) script
      else if ai_outcome item = ''allow'' then
        (case execute_pending_action (ai_action_request_id item) (ai_revision item) rt script of
           Suspended rt' \<Rightarrow> Suspended rt'
         | Raised e rt' script' \<Rightarrow> Raised (e, lv) rt' script'
         | Returned None rt' script' \<Rightarrow> run_actions lv requires_approval items rt' script'
         | Returned (Some execution) rt' script' \<Rightarrow>
             run_actions (lv\<lparr>tl_execution_results := tl_execution_results lv @ [execution]\<rparr>)
               requires_approval items rt' script')
      else if ai_outcome item = ''require_approval'' then
        run_actions lv True items (on_mailbox (add_pending_action (ai_action_request_id item)) rt) script
      else run_actions lv requires_approval items rt script)"

datatype turn_end = TurnOver | TurnFollowUp "string list"

text \<open>
  The end of the \<open>try\<close> block: the turn record, then a follow-up turn for the action results (or,
  at the chain limit, an intervention), or the wake plan the turn leaves behind.
\<close>

definition chain_limit :: nat where
  "chain_limit = 5"

definition conclude_turn ::
  "TurnLocals \<Rightarrow> nat \<Rightarrow> bool \<Rightarrow> DecisionDoc \<Rightarrow> ProcessStateDoc \<Rightarrow> Runtime \<Rightarrow> AwaitStep list \<Rightarrow>
   (wf_error \<times> TurnLocals, TurnLocals \<times> turn_end) outcome" where
  "conclude_turn lv chain_depth requires_approval decision process_state_result rt script =
     (let result_attempt_ids = map xd_attempt_id (tl_execution_results lv);
          chain_limit_reached = (result_attempt_ids \<noteq> [] \<and> chain_limit \<le> chain_depth);
          rt1 = on_mailbox (append_turn_record lv (tl_decision_json lv) (tl_actions_json lv)
                  (Some (tl_execution_results lv))
                  (if chain_limit_reached then Some ''automatic action-result chain limit reached''
                   else None)) rt
      in if result_attempt_ids \<noteq> [] then
           (if \<not> chain_limit_reached then Returned (lv, TurnFollowUp result_attempt_ids) rt1 script
            else (case record_intervention (tl_turn_id lv) ''action_chain_limit''
                         ''ActionChainLimitReached'' ''automatic action-result chain limit reached''
                         (no_sources\<lparr>ta_action_attempt_ids := result_attempt_ids\<rparr>) rt1 script of
                    Suspended rt' \<Rightarrow> Suspended rt'
                  | Raised e rt' script' \<Rightarrow> Raised (e, lv) rt' script'
                  | Returned _ rt' script' \<Rightarrow>
                      Returned (lv, TurnOver)
                        (on_mailbox (set_wake_plan (human_wake_plan ''operator'')) rt') script'))
         else if requires_approval \<or> pending_action_request_ids (rt_mailbox rt1) \<noteq> [] then
           (if ps_terminal process_state_result \<noteq> None
            then Returned (lv, TurnOver)
                   (on_mailbox (apply_turn_outcome process_state_result decision) rt1) script
            else Returned (lv, TurnOver)
                   (on_mailbox (set_wake_plan (human_wake_plan ''approval'')) rt1) script)
         else Returned (lv, TurnOver)
                (on_mailbox (apply_turn_outcome process_state_result decision) rt1) script)"

text \<open>
  From the persisted actions on: the process state is persisted, the actions run, and the turn
  concludes, with a preemption check between each.
\<close>

definition after_actions ::
  "TurnLocals \<Rightarrow> nat \<Rightarrow> DecisionDoc \<Rightarrow> ActionItem list \<Rightarrow> Runtime \<Rightarrow> AwaitStep list \<Rightarrow>
   (wf_error \<times> TurnLocals, TurnLocals \<times> turn_end) outcome" where
  "after_actions lv chain_depth decision actions rt script =
     (case execute_activity
             (PersistProcessState (call_context (rt_mailbox rt)) (tl_turn_id lv) (tl_args lv)
                (tl_workflow_now lv) decision) rt script of
        Suspended rt' \<Rightarrow> Suspended rt'
      | Raised e rt' script' \<Rightarrow> Raised (e, lv) rt' script'
      | Returned state_answer rt' script' \<Rightarrow>
          (case run_actions lv False actions rt' script' of
             Suspended rt'' \<Rightarrow> Suspended rt''
           | Raised e rt'' script'' \<Rightarrow> Raised e rt'' script''
           | Returned (lv', None) rt'' script'' \<Rightarrow> Returned (lv', TurnOver) rt'' script''
           | Returned (lv', Some requires_approval) rt'' script'' \<Rightarrow>
               if lifecycle_preemption_pending (rt_mailbox rt'')
               then Returned (lv', TurnOver)
                      (on_mailbox (record_preempted_turn lv' (Some (tl_execution_results lv'))) rt'')
                      script''
               else conclude_turn lv' chain_depth requires_approval decision
                      (ar_process_state state_answer) rt'' script''))"

definition after_decision ::
  "TurnLocals \<Rightarrow> nat \<Rightarrow> DecisionDoc \<Rightarrow> Runtime \<Rightarrow> AwaitStep list \<Rightarrow>
   (wf_error \<times> TurnLocals, TurnLocals \<times> turn_end) outcome" where
  "after_decision lv chain_depth decision rt script =
     (if lifecycle_preemption_pending (rt_mailbox rt)
      then Returned (lv, TurnOver) (on_mailbox (record_preempted_turn lv None) rt) script
      else
        (case execute_activity
                (PersistAgentActions (call_context (rt_mailbox rt)) (tl_turn_id lv) (tl_args lv)
                   (tl_workflow_now lv) decision) rt script of
           Suspended rt' \<Rightarrow> Suspended rt'
         | Raised e rt' script' \<Rightarrow> Raised (e, lv) rt' script'
         | Returned answer rt' script' \<Rightarrow>
             (case ar_actions_json answer of
                None \<Rightarrow> Raised (MissingKey ''actions_json'', lv) rt' script'
              | Some actions \<Rightarrow>
                  let lv' = lv\<lparr>tl_actions_json := Some actions\<rparr> in
                  if lifecycle_preemption_pending (rt_mailbox rt')
                  then Returned (lv', TurnOver) (on_mailbox (record_preempted_turn lv' None) rt') script'
                  else after_actions lv' chain_depth decision actions rt' script')))"

text \<open>The \<open>try\<close> block of \<open>_run_turn\<close>, up to the recursive call.\<close>

definition turn_body ::
  "TurnLocals \<Rightarrow> nat \<Rightarrow> Runtime \<Rightarrow> AwaitStep list \<Rightarrow>
   (wf_error \<times> TurnLocals, TurnLocals \<times> turn_end) outcome" where
  "turn_body lv chain_depth rt script =
     (case retry_while_suspended ''TenantSuspended''
             (RunAgentTurn (call_context (rt_mailbox rt)) (tl_turn_id lv) (tl_args lv)
                (tl_workflow_now lv)) rt script of
        Suspended rt' \<Rightarrow> Suspended rt'
      | Raised e rt' script' \<Rightarrow> Raised (e, lv) rt' script'
      | Returned None rt' script' \<Rightarrow> Returned (lv, TurnOver) rt' script'
      | Returned (Some answer) rt' script' \<Rightarrow>
          (case ar_decision_json answer of
             None \<Rightarrow> Raised (MissingKey ''decision_json'', lv) rt' script'
           | Some decision \<Rightarrow>
               after_decision (lv\<lparr>tl_decision_json := Some decision\<rparr>) chain_depth decision rt' script'))"

text \<open>The \<open>except ActivityError\<close> clause.\<close>

definition turn_failed ::
  "ActivityFailure \<Rightarrow> TurnLocals \<Rightarrow> Runtime \<Rightarrow> AwaitStep list \<Rightarrow> (wf_error, unit) outcome" where
  "turn_failed error lv rt script =
     (if lifecycle_preemption_pending (rt_mailbox rt)
      then Returned () (on_mailbox (record_preempted_turn lv (Some (tl_execution_results lv))) rt) script
      else
        (case record_intervention (tl_turn_id lv) ''turn_failure'' (activity_error_type error)
                (af_message error) (tl_args lv)
                (on_mailbox (append_turn_record lv None None None (Some (af_message error))) rt)
                script of
           Suspended rt' \<Rightarrow> Suspended rt'
         | Raised e rt' script' \<Rightarrow> Raised e rt' script'
         | Returned _ rt' script' \<Rightarrow>
             Returned () (on_mailbox (set_wake_plan (human_wake_plan ''operator'')) rt') script'))"

definition catch_turn_error ::
  "(wf_error \<times> TurnLocals, unit) outcome \<Rightarrow> (wf_error, unit) outcome" where
  "catch_turn_error result =
     (case result of
        Returned u rt script \<Rightarrow> Returned u rt script
      | Suspended rt \<Rightarrow> Suspended rt
      | Raised (ActivityErr error, lv) rt script \<Rightarrow> turn_failed error lv rt script
      | Raised (e, lv) rt script \<Rightarrow> Raised e rt script)"

text \<open>The \<open>finally\<close> clause.\<close>

definition end_turn :: "Mailbox \<Rightarrow> Mailbox" where
  "end_turn st =
     st\<lparr>turn_in_progress := False, turns_since_continue := turns_since_continue st + 1,
        completed_turn_count := completed_turn_count st + 1\<rparr>"

fun finally_end_turn :: "(wf_error, unit) outcome \<Rightarrow> (wf_error, unit) outcome" where
  "finally_end_turn (Returned u rt script) = Returned u (on_mailbox end_turn rt) script"
| "finally_end_turn (Raised e rt script) = Raised e (on_mailbox end_turn rt) script"
| "finally_end_turn (Suspended rt) = Suspended rt"

definition begin_turn :: "TurnArgs \<Rightarrow> Runtime \<Rightarrow> TurnLocals \<times> Runtime" where
  "begin_turn args rt =
     (let (turn_id, rt') = draw_uuid rt in
      (\<lparr>tl_turn_id = turn_id, tl_args = args, tl_workflow_now = rt_now rt,
        tl_decision_json = None, tl_actions_json = None, tl_execution_results = []\<rparr>,
       on_mailbox (\<lambda>st. st\<lparr>turn_in_progress := True\<rparr>) rt'))"

section \<open>Reasoning about everything a turn does\<close>

text \<open>
  The configuration an outcome ends in, and the changes the body of a turn makes to the mailbox
  besides handling signals. A relation between configurations that is reflexive, transitive and
  kept by each elementary step is kept by the whole turn.
\<close>

fun final :: "('e, 'a) outcome \<Rightarrow> Runtime \<times> AwaitStep list" where
  "final (Returned a rt script) = (rt, script)"
| "final (Raised e rt script) = (rt, script)"
| "final (Suspended rt) = (rt, [])"

inductive turn_update :: "(Mailbox \<Rightarrow> Mailbox) \<Rightarrow> bool" where
  "turn_update (record_execution a r res err)"
| "turn_update (append_turn_record lv d acts res err)"
| "turn_update (record_preempted_turn lv res)"
| "turn_update (set_wake_plan p)"
| "turn_update (apply_turn_outcome result decision)"
| "turn_update (add_pending_action a)"
| "turn_update (settle_action a doc)"
| "turn_update (\<lambda>st. st\<lparr>turn_in_progress := True\<rparr>)"

declare turn_update.intros [simp, intro]

lemmas turn_update_defs = record_execution_def append_turn_record_def record_preempted_turn_def
  set_wake_plan_def apply_turn_outcome_def add_pending_action_def settle_action_def
  remove_pending_action_def

lemma on_mailbox_simps [simp]:
  "rt_mailbox (on_mailbox f rt) = f (rt_mailbox rt)"
  "rt_log (on_mailbox f rt) = rt_log rt"
  "rt_now (on_mailbox f rt) = rt_now rt"
  "rt_uuid4 (on_mailbox f rt) = rt_uuid4 rt"
  "rt_uuids_drawn (on_mailbox f rt) = rt_uuids_drawn rt"
  by (simp_all add: on_mailbox_def)

lemma resume_at_simps [simp]:
  "rt_mailbox (resume_at s rt) = deliver (as_signals s) (rt_mailbox rt)"
  "rt_log (resume_at s rt) = rt_log rt"
  "rt_now (resume_at s rt) = rt_now rt + int (as_elapsed s)"
  "rt_uuids_drawn (resume_at s rt) = rt_uuids_drawn rt"
  by (simp_all add: resume_at_def)

lemma log_call_simps [simp]:
  "rt_mailbox (log_call call rt) = rt_mailbox rt"
  "rt_log (log_call call rt) = rt_log rt @ [call]"
  "rt_now (log_call call rt) = rt_now rt"
  "rt_uuids_drawn (log_call call rt) = rt_uuids_drawn rt"
  by (simp_all add: log_call_def)

lemma draw_uuid_simps [simp]:
  "rt_mailbox (snd (draw_uuid rt)) = rt_mailbox rt"
  "rt_log (snd (draw_uuid rt)) = rt_log rt"
  "rt_now (snd (draw_uuid rt)) = rt_now rt"
  by (simp_all add: draw_uuid_def)

locale turn_relation =
  fixes R :: "Runtime \<times> AwaitStep list \<Rightarrow> Runtime \<times> AwaitStep list \<Rightarrow> bool"
  assumes R_refl: "R c c"
    and R_trans: "R a b \<Longrightarrow> R b c \<Longrightarrow> R a c"
    and R_resume: "R (rt, s # script) (resume_at s rt, script)"
    and R_log: "R (rt, script) (log_call call rt, script)"
    and R_draw: "R (rt, script) (snd (draw_uuid rt), script)"
    and R_update: "turn_update f \<Longrightarrow> R (rt, script) (on_mailbox f rt, script)"
begin

lemma R_then_update: "R c (rt, script) \<Longrightarrow> turn_update f \<Longrightarrow> R c (on_mailbox f rt, script)"
  by (rule R_trans [OF _ R_update])

lemma R_update_then: "R (on_mailbox f rt, script) c \<Longrightarrow> turn_update f \<Longrightarrow> R (rt, script) c"
  by (rule R_trans [OF R_update])

lemma R_via: "final x = b \<Longrightarrow> R a (final x) \<Longrightarrow> R b c \<Longrightarrow> R a c"
  by (blast intro: R_trans)

lemma R_log_resume: "R (rt, s # script) (resume_at s (log_call call rt), script)"
  by (rule R_trans [OF R_log R_resume])

lemma R_execute_activity: "R (rt, script) (final (execute_activity call rt script))"
  by (cases script) (auto simp: Let_def R_log R_log_resume split: sum.split)

lemma R_retry: "R (rt, script) (final (retry_while_suspended sus call rt script))"
proof (induction sus call rt script rule: retry_while_suspended.induct)
  case (1 sus call rt)
  then show ?case by (simp add: R_log)
next
  case (2 sus call rt s script)
  let ?rt' = "resume_at s (log_call call rt)"
  have step: "R (rt, s # script) (?rt', script)" by (rule R_log_resume)
  show ?case
  proof (cases "as_outcome s")
    case (Inr result)
    then show ?thesis using step by (simp add: Let_def)
  next
    case (Inl error)
    show ?thesis
    proof (cases "is_activity_error_type error sus")
      case False
      then show ?thesis using step Inl by (simp add: Let_def)
    next
      case True
      show ?thesis
      proof (cases script)
        case Nil
        then show ?thesis using step Inl True by (simp add: Let_def)
      next
        case (Cons z rest)
        let ?rt'' = "resume_at z ?rt'"
        have step2: "R (rt, s # script) (?rt'', rest)"
          by (rule R_trans [OF step]) (simp add: Cons R_resume)
        show ?thesis
        proof (cases "closed (rt_mailbox ?rt'')")
          case True
          with Inl \<open>is_activity_error_type error sus\<close> Cons step2 show ?thesis
            by (simp add: Let_def)
        next
          case False
          then have "R (?rt'', rest) (final (retry_while_suspended sus call ?rt'' rest))"
            using "2.IH" [OF refl Inl _ Cons refl] True by simp
          from R_trans [OF step2 this] show ?thesis
            using Inl True Cons False by (simp add: Let_def)
        qed
      qed
    qed
  qed
qed

lemma R_execution_failed: "R (rt, script) (final (execution_failed a r error rt script))"
  by (auto simp: execution_failed_def Let_def R_update)

lemma R_after_execution: "R (rt, script) (final (after_execution a r doc rt script))"
proof (cases "xd_status doc = ''unknown''")
  case False
  then show ?thesis by (simp add: after_execution_def R_update)
next
  case True
  let ?x = "execute_activity (ReconcileAction (call_context (rt_mailbox rt)) a r) rt script"
  have x: "R (rt, script) (final ?x)" by (rule R_execute_activity)
  show ?thesis
  proof (cases ?x)
    case (Suspended rt')
    then show ?thesis using x True by (simp add: after_execution_def)
  next
    case (Returned answer rt' script')
    then show ?thesis using x True
      by (auto simp: after_execution_def R_then_update split: option.split)
  next
    case (Raised e rt' script')
    then have x': "R (rt, script) (rt', script')" using x by simp
    show ?thesis
    proof (cases e)
      case (MissingKey k)
      then show ?thesis using Raised x' True by (simp add: after_execution_def)
    next
      case (ActivityErr error)
      let ?rt'' = "on_mailbox (record_execution a r None (Some (af_message error))) rt'"
      have x'': "R (rt, script) (?rt'', script')" by (simp add: x' R_then_update)
      show ?thesis
        using Raised ActivityErr True R_trans [OF x'' R_execution_failed]
        by (simp add: after_execution_def Let_def x'' R_then_update)
    qed
  qed
qed

lemma R_execute_pending_action: "R (rt, script) (final (execute_pending_action a r rt script))"
proof -
  let ?rt0 = "on_mailbox (add_pending_action a) rt"
  let ?x = "retry_while_suspended ''ActionExecutionSuspended''
    (ExecuteAction (call_context (rt_mailbox ?rt0)) a r) ?rt0 script"
  have x: "R (rt, script) (final ?x)"
    by (rule R_update_then [OF R_retry]) simp
  show ?thesis
  proof (cases ?x)
    case (Suspended rt')
    then show ?thesis using x by (simp add: execute_pending_action_def)
  next
    case (Raised e rt' script')
    then show ?thesis using x R_trans [OF _ R_execution_failed]
      by (cases e) (simp_all add: execute_pending_action_def)
  next
    case (Returned res rt' script')
    then show ?thesis using x R_trans [OF _ R_update_then [OF R_after_execution]]
      by (auto simp: execute_pending_action_def split: option.split)
  qed
qed

lemma R_run_actions: "R (rt, script) (final (run_actions lv req items rt script))"
proof (induction items arbitrary: lv req rt script)
  case Nil
  then show ?case by (simp add: R_refl)
next
  case (Cons item items)
  let ?x = "execute_pending_action (ai_action_request_id item) (ai_revision item) rt script"
  have x: "R (rt, script) (final ?x)" by (rule R_execute_pending_action)
  have rest: "R (rt, script) (rt', script') \<Longrightarrow>
      R (rt, script) (final (run_actions lv' req' items rt' script'))" for rt' script' lv' req'
    by (rule R_trans [OF _ Cons])
  have outcome: "R (rt, script) (final (case ?x of
           Suspended rt' \<Rightarrow> Suspended rt'
         | Raised e rt' script' \<Rightarrow> Raised (e, lv) rt' script'
         | Returned None rt' script' \<Rightarrow> run_actions lv req items rt' script'
         | Returned (Some execution) rt' script' \<Rightarrow>
             run_actions (lv\<lparr>tl_execution_results := tl_execution_results lv @ [execution]\<rparr>)
               req items rt' script'))"
    using x by (cases ?x) (simp_all add: rest split: option.split)
  show ?case
    using outcome Cons by (simp add: R_update R_update_then [OF Cons])
qed

lemma R_record_intervention:
  "R (rt, script) (final (record_intervention t k et e args rt script))"
  using R_trans [OF R_draw R_execute_activity]
  by (simp add: record_intervention_def Let_def case_prod_beta)

lemma R_conclude_turn: "R (rt, script) (final (conclude_turn lv depth req d ps rt script))"
proof -
  define err where "err = (if map xd_attempt_id (tl_execution_results lv) \<noteq> [] \<and> chain_limit \<le> depth
    then Some ''automatic action-result chain limit reached'' else None)"
  define rt1 where "rt1 = on_mailbox (append_turn_record lv (tl_decision_json lv)
    (tl_actions_json lv) (Some (tl_execution_results lv)) err) rt"
  have rt1: "R (rt, script) (rt1, script)" by (simp add: rt1_def R_update)
  let ?x = "record_intervention (tl_turn_id lv) ''action_chain_limit''
    ''ActionChainLimitReached'' ''automatic action-result chain limit reached''
    (no_sources\<lparr>ta_action_attempt_ids := map xd_attempt_id (tl_execution_results lv)\<rparr>) rt1 script"
  have x: "R (rt, script) (final ?x)" by (rule R_trans [OF rt1 R_record_intervention])
  have "R (rt, script) (final (case ?x of
                    Suspended rt' \<Rightarrow> Suspended rt'
                  | Raised e rt' script' \<Rightarrow> Raised (e, lv) rt' script'
                  | Returned _ rt' script' \<Rightarrow>
                      Returned (lv, TurnOver)
                        (on_mailbox (set_wake_plan (human_wake_plan ''operator'')) rt') script'))"
    using x by (cases ?x) (simp_all add: R_then_update)
  then show ?thesis
    using rt1
    unfolding conclude_turn_def Let_def err_def [symmetric] rt1_def [symmetric]
    by (simp add: R_then_update)
qed

lemma R_after_actions: "R (rt, script) (final (after_actions lv depth d acts rt script))"
proof -
  let ?x = "execute_activity (PersistProcessState (call_context (rt_mailbox rt)) (tl_turn_id lv)
    (tl_args lv) (tl_workflow_now lv) d) rt script"
  have x: "R (rt, script) (final ?x)" by (rule R_execute_activity)
  show ?thesis
  proof (cases ?x)
    case (Returned answer rt' script')
    let ?y = "run_actions lv False acts rt' script'"
    have y: "R (rt, script) (final ?y)" using x Returned R_trans [OF _ R_run_actions] by simp
    show ?thesis
      using Returned y R_trans [OF _ R_conclude_turn]
      by (cases ?y) (auto simp: after_actions_def R_then_update split: option.split)
  qed (use x in \<open>simp_all add: after_actions_def\<close>)
qed

lemma R_after_decision: "R (rt, script) (final (after_decision lv depth d rt script))"
proof (cases "lifecycle_preemption_pending (rt_mailbox rt)")
  case True
  then show ?thesis by (simp add: after_decision_def R_update)
next
  case False
  let ?x = "execute_activity (PersistAgentActions (call_context (rt_mailbox rt)) (tl_turn_id lv)
    (tl_args lv) (tl_workflow_now lv) d) rt script"
  have x: "R (rt, script) (final ?x)" by (rule R_execute_activity)
  show ?thesis
    using x False R_trans [OF _ R_after_actions]
    by (cases ?x) (auto simp: after_decision_def Let_def R_then_update split: option.split)
qed

lemma R_turn_body: "R (rt, script) (final (turn_body lv depth rt script))"
proof -
  let ?x = "retry_while_suspended ''TenantSuspended''
    (RunAgentTurn (call_context (rt_mailbox rt)) (tl_turn_id lv) (tl_args lv) (tl_workflow_now lv))
    rt script"
  have x: "R (rt, script) (final ?x)" by (rule R_retry)
  show ?thesis
    using x R_trans [OF _ R_after_decision]
    by (cases ?x) (auto simp: turn_body_def split: option.split)
qed

lemma R_turn_failed: "R (rt, script) (final (turn_failed error lv rt script))"
proof (cases "lifecycle_preemption_pending (rt_mailbox rt)")
  case True
  then show ?thesis by (simp add: turn_failed_def R_update)
next
  case False
  let ?rt1 = "on_mailbox (append_turn_record lv None None None (Some (af_message error))) rt"
  let ?x = "record_intervention (tl_turn_id lv) ''turn_failure'' (activity_error_type error)
    (af_message error) (tl_args lv) ?rt1 script"
  have x: "R (rt, script) (final ?x)" by (rule R_update_then [OF R_record_intervention]) simp
  show ?thesis
    using x False by (cases ?x) (simp_all add: turn_failed_def R_then_update)
qed

lemma R_catch_turn_error:
  assumes "R c (final x)"
  shows "R c (final (catch_turn_error x))"
proof (cases x)
  case (Raised e rt script)
  obtain err lv where e: "e = (err, lv)" by (cases e)
  show ?thesis
  proof (cases err)
    case (ActivityErr failure)
    then show ?thesis using assms Raised e R_trans [OF _ R_turn_failed]
      by (simp add: catch_turn_error_def)
  next
    case (MissingKey k)
    then show ?thesis using assms Raised e by (simp add: catch_turn_error_def)
  qed
qed (use assms in \<open>simp_all add: catch_turn_error_def\<close>)

lemma R_begin_turn: "R (rt, script) (snd (begin_turn args rt), script)"
  using R_then_update [OF R_draw] by (simp add: begin_turn_def Let_def case_prod_beta)

end

section \<open>The whole turn\<close>

text \<open>The environment's steps are consumed in order, and the body of a turn takes at least one.\<close>

definition consumes :: "Runtime \<times> AwaitStep list \<Rightarrow> Runtime \<times> AwaitStep list \<Rightarrow> bool" where
  "consumes c c' \<longleftrightarrow> suffix (snd c') (snd c)"

interpretation body_script: turn_relation consumes
  by unfold_locales (auto simp: consumes_def suffix_Cons intro: suffix_order.trans)

lemma retry_consumes:
  "suffix (snd (final (retry_while_suspended sus call rt (s # script)))) script"
proof -
  have rest: "suffix (snd (final (retry_while_suspended sus call rt' rest))) rest" for rt' rest
    using body_script.R_retry [of rt' rest] by (simp add: consumes_def)
  show ?thesis
    by (auto simp: Let_def rest suffix_ConsI split: sum.split list.split)
qed

lemma script_then:
  assumes "suffix (snd (final x)) script" and "consumes (final x) c"
  shows "suffix (snd c) script"
  using assms by (auto simp: consumes_def intro: suffix_order.trans)

lemma turn_body_consumes: "suffix (snd (final (turn_body lv depth rt (s # script)))) script"
proof -
  let ?x = "retry_while_suspended ''TenantSuspended''
    (RunAgentTurn (call_context (rt_mailbox rt)) (tl_turn_id lv) (tl_args lv) (tl_workflow_now lv))
    rt (s # script)"
  have x: "suffix (snd (final ?x)) script" by (rule retry_consumes)
  have "consumes (final ?x) (final (turn_body lv depth rt (s # script)))"
  proof (cases ?x)
    case (Returned res rt' script')
    then show ?thesis using body_script.R_after_decision body_script.R_refl
      by (auto simp: turn_body_def split: option.split)
  qed (simp_all add: turn_body_def body_script.R_refl)
  with x show ?thesis by (rule script_then)
qed

lemma turn_body_takes_step:
  assumes "turn_body lv depth rt script = Returned res rt' script'"
  shows "length script' < length script"
proof (cases script)
  case Nil
  then show ?thesis using assms by (simp add: turn_body_def)
next
  case (Cons s rest)
  then have "suffix script' rest" using turn_body_consumes [of lv depth rt s rest] assms by simp
  then show ?thesis using Cons by (auto dest: suffix_length_le)
qed

text \<open>\<open>_run_turn\<close>. A turn that ends takes a step of the environment, so the chain of follow-ups ends.\<close>

function run_turn ::
  "TurnArgs \<Rightarrow> nat \<Rightarrow> Runtime \<Rightarrow> AwaitStep list \<Rightarrow> (wf_error, unit) outcome" where
  "run_turn args chain_depth rt script =
     (if process_definition_id (rt_mailbox rt) = None
         \<or> process_definition_version (rt_mailbox rt) = None
      then Returned () rt script
      else
        let (lv, rt0) = begin_turn args rt in
        finally_end_turn (catch_turn_error
          (case turn_body lv chain_depth rt0 script of
             Suspended rt' \<Rightarrow> Suspended rt'
           | Raised e rt' script' \<Rightarrow> Raised e rt' script'
           | Returned (lv', TurnOver) rt' script' \<Rightarrow> Returned () rt' script'
           | Returned (lv', TurnFollowUp ids) rt' script' \<Rightarrow>
               (case run_turn (no_sources\<lparr>ta_action_attempt_ids := ids\<rparr>) (Suc chain_depth)
                       rt' script' of
                  Suspended rt'' \<Rightarrow> Suspended rt''
                | Raised e rt'' script'' \<Rightarrow> Raised (e, lv') rt'' script''
                | Returned u rt'' script'' \<Rightarrow> Returned u rt'' script''))))"
  by pat_completeness auto
termination
  by (relation "measure (\<lambda>(args, chain_depth, rt, script). length script)") (auto dest: turn_body_takes_step)

declare run_turn.simps [simp del]

definition has_definition :: "Mailbox \<Rightarrow> bool" where
  "has_definition st \<longleftrightarrow> process_definition_id st \<noteq> None \<and> process_definition_version st \<noteq> None"

text \<open>The \<open>try\<close> block with its recursive call, and the two equations of a turn.\<close>

definition turn_try ::
  "TurnLocals \<Rightarrow> nat \<Rightarrow> Runtime \<Rightarrow> AwaitStep list \<Rightarrow> (wf_error \<times> TurnLocals, unit) outcome" where
  "turn_try lv chain_depth rt0 script =
     (case turn_body lv chain_depth rt0 script of
        Suspended rt' \<Rightarrow> Suspended rt'
      | Raised e rt' script' \<Rightarrow> Raised e rt' script'
      | Returned (lv', TurnOver) rt' script' \<Rightarrow> Returned () rt' script'
      | Returned (lv', TurnFollowUp ids) rt' script' \<Rightarrow>
          (case run_turn (no_sources\<lparr>ta_action_attempt_ids := ids\<rparr>) (Suc chain_depth) rt' script' of
             Suspended rt'' \<Rightarrow> Suspended rt''
           | Raised e rt'' script'' \<Rightarrow> Raised (e, lv') rt'' script''
           | Returned u rt'' script'' \<Rightarrow> Returned u rt'' script''))"

lemma run_turn_no_definition:
  "\<not> has_definition (rt_mailbox rt) \<Longrightarrow> run_turn args depth rt script = Returned () rt script"
  by (subst run_turn.simps) (auto simp: has_definition_def)

lemma run_turn_active:
  "has_definition (rt_mailbox rt) \<Longrightarrow> begin_turn args rt = (lv, rt0) \<Longrightarrow>
   run_turn args depth rt script = finally_end_turn (catch_turn_error (turn_try lv depth rt0 script))"
  by (subst run_turn.simps) (auto simp: has_definition_def turn_try_def)

text \<open>Induction along the chain of follow-up turns.\<close>

lemma run_turn_chain_induct [case_names turn]:
  assumes step: "\<And>args depth rt script.
    (\<And>args' rt' script'. length script' < length script \<Longrightarrow> P args' (Suc depth) rt' script') \<Longrightarrow>
    P args depth rt script"
  shows "P args depth rt script"
proof (induction "length script" arbitrary: args depth rt script rule: less_induct)
  case less
  show ?case by (rule step, rule less) simp
qed

text \<open>With the \<open>finally\<close> clause as one more elementary step, the relation covers the turn.\<close>

locale turn_relation_end = turn_relation +
  assumes R_end: "R (rt, script) (on_mailbox end_turn rt, script)"
begin

lemma R_finally: "R c (final x) \<Longrightarrow> R c (final (finally_end_turn x))"
  by (cases x) (auto intro: R_trans R_end)

lemma R_turn_try:
  assumes follow: "\<And>args rt' script'. length script' < length script \<Longrightarrow>
      R (rt', script') (final (run_turn args (Suc depth) rt' script'))"
  shows "R (rt, script) (final (turn_try lv depth rt script))"
proof -
  have x: "R (rt, script) (final (turn_body lv depth rt script))" by (rule R_turn_body)
  show ?thesis
  proof (cases "turn_body lv depth rt script")
    case (Returned res rt' script')
    obtain lv' te where res: "res = (lv', te)" by (cases res)
    show ?thesis
    proof (cases te)
      case TurnOver
      then show ?thesis using x Returned res by (simp add: turn_try_def)
    next
      case te: (TurnFollowUp ids)
      let ?z = "run_turn (no_sources\<lparr>ta_action_attempt_ids := ids\<rparr>) (Suc depth) rt' script'"
      have "R (rt', script') (final ?z)" using turn_body_takes_step [OF Returned] by (rule follow)
      then have "R (rt, script) (final ?z)" using x Returned R_trans by simp
      then show ?thesis using Returned res te by (cases ?z) (simp_all add: turn_try_def)
    qed
  qed (use x in \<open>simp_all add: turn_try_def\<close>)
qed

lemma R_run_turn: "R (rt, script) (final (run_turn args depth rt script))"
proof (induction args depth rt script rule: run_turn_chain_induct)
  case (turn args depth rt script)
  show ?case
  proof (cases "has_definition (rt_mailbox rt)")
    case False
    then show ?thesis by (simp add: run_turn_no_definition R_refl)
  next
    case True
    obtain lv rt0 where b: "begin_turn args rt = (lv, rt0)" by (cases "begin_turn args rt")
    have "R (rt, script) (rt0, script)" using R_begin_turn [of rt script args] b by simp
    then have "R (rt, script) (final (turn_try lv depth rt0 script))"
      by (rule R_trans [OF _ R_turn_try]) (rule turn)
    then show ?thesis
      by (simp add: run_turn_active [OF True b] R_finally R_catch_turn_error)
  qed
qed

end

end
