(* ===== verification/Mailbox_Safety.thy ===== *)
theory Mailbox_Safety
  imports Mailbox_Turn "HOL-Library.Sublist"
begin

text \<open>
  What a turn of the mailbox keeps and what it never does: the relations of \<open>Mailbox_Turn\<close>
  instantiated (the mailbox invariant, the buffered messages, the identity of the process, the
  activity log, the environment script), the bound on the chain of automatic follow-up turns,
  and the behaviour of a turn that a lifecycle control overtakes or an activity fails.
\<close>

section \<open>Relations every turn keeps\<close>

lemma turn_update_ok: "turn_update f \<Longrightarrow> mailbox_ok st \<Longrightarrow> mailbox_ok (f st)"
  by (induction rule: turn_update.induct)
    (auto simp: mailbox_ok_defs turn_update_defs Let_def split: option.split prod.split)

lemma end_turn_ok: "mailbox_ok st \<Longrightarrow> mailbox_ok (end_turn st)"
  by (simp add: mailbox_ok_defs end_turn_def)

definition keeps_ok :: "Runtime \<times> AwaitStep list \<Rightarrow> Runtime \<times> AwaitStep list \<Rightarrow> bool" where
  "keeps_ok c c' \<longleftrightarrow> (mailbox_ok (rt_mailbox (fst c)) \<longrightarrow> mailbox_ok (rt_mailbox (fst c')))"

interpretation ok: turn_relation_end keeps_ok
  by unfold_locales (auto simp: keeps_ok_def deliver_ok turn_update_ok end_turn_ok)

text \<open>Messages are only appended, nothing seen is forgotten and a closed mailbox stays closed.\<close>

definition grows :: "Mailbox \<Rightarrow> Mailbox \<Rightarrow> bool" where
  "grows st st' \<longleftrightarrow>
     prefix (buffered_events st) (buffered_events st') \<and>
     prefix (buffered_reviews st) (buffered_reviews st') \<and>
     prefix (buffered_action_resolutions st) (buffered_action_resolutions st') \<and>
     prefix (buffered_controls st) (buffered_controls st') \<and>
     seen_event_ids st \<subseteq> seen_event_ids st' \<and>
     seen_review_command_ids st \<subseteq> seen_review_command_ids st' \<and>
     seen_action_resolution_ids st \<subseteq> seen_action_resolution_ids st' \<and>
     seen_control_command_ids st \<subseteq> seen_control_command_ids st' \<and>
     (closed st \<longrightarrow> closed st')"

lemma grows_refl: "grows st st"
  by (simp add: grows_def)

lemma grows_trans: "grows a b \<Longrightarrow> grows b c \<Longrightarrow> grows a c"
  unfolding grows_def by (blast intro: prefix_order.trans)

lemma grows_deliver: "grows st (deliver ss st)"
  by (simp add: grows_def deliver_fields)

lemma grows_update: "turn_update f \<Longrightarrow> grows st (f st)"
  by (induction rule: turn_update.induct)
    (auto simp: grows_def turn_update_defs Let_def split: option.split prod.split)

lemma grows_end_turn: "grows st (end_turn st)"
  by (simp add: grows_def end_turn_def)

lemma grows_preemption:
  "grows st st' \<Longrightarrow> lifecycle_preemption_pending st \<Longrightarrow> lifecycle_preemption_pending st'"
  by (auto simp: grows_def lifecycle_preemption_pending_def prefix_def)

definition keeps_messages :: "Runtime \<times> AwaitStep list \<Rightarrow> Runtime \<times> AwaitStep list \<Rightarrow> bool" where
  "keeps_messages c c' \<longleftrightarrow> grows (rt_mailbox (fst c)) (rt_mailbox (fst c'))"

interpretation messages: turn_relation_end keeps_messages
  by unfold_locales
    (auto simp: keeps_messages_def grows_refl grows_deliver grows_update grows_end_turn
      intro: grows_trans)

text \<open>The log only grows, time does not run backwards, and the process keeps its identity.\<close>

definition same_process :: "Runtime \<times> AwaitStep list \<Rightarrow> Runtime \<times> AwaitStep list \<Rightarrow> bool" where
  "same_process c c' \<longleftrightarrow>
     call_context (rt_mailbox (fst c')) = call_context (rt_mailbox (fst c)) \<and>
     continue_as_new_after_turns (rt_mailbox (fst c')) =
       continue_as_new_after_turns (rt_mailbox (fst c)) \<and>
     started (rt_mailbox (fst c')) = started (rt_mailbox (fst c)) \<and>
     wake_records (rt_mailbox (fst c')) = wake_records (rt_mailbox (fst c)) \<and>
     prefix (rt_log (fst c)) (rt_log (fst c')) \<and> rt_now (fst c) \<le> rt_now (fst c')"

lemma turn_update_identity:
  "turn_update f \<Longrightarrow> call_context (f st) = call_context st
     \<and> continue_as_new_after_turns (f st) = continue_as_new_after_turns st
     \<and> started (f st) = started st \<and> wake_records (f st) = wake_records st"
  by (induction rule: turn_update.induct)
    (auto simp: call_context_def turn_update_defs Let_def split: option.split prod.split)

interpretation process: turn_relation_end same_process
proof unfold_locales
  fix f rt script
  assume "turn_update f"
  then show "same_process (rt, script) (on_mailbox f rt, script)"
    using turn_update_identity [of f "rt_mailbox rt"] by (simp add: same_process_def)
qed (auto simp: same_process_def call_context_def end_turn_def)

interpretation script: turn_relation_end consumes
  by unfold_locales (auto simp: consumes_def suffix_Cons intro: suffix_order.trans)

text \<open>Only the \<open>finally\<close> clause counts turns.\<close>

definition same_counts :: "Runtime \<times> AwaitStep list \<Rightarrow> Runtime \<times> AwaitStep list \<Rightarrow> bool" where
  "same_counts c c' \<longleftrightarrow>
     completed_turn_count (rt_mailbox (fst c')) = completed_turn_count (rt_mailbox (fst c)) \<and>
     turns_since_continue (rt_mailbox (fst c')) = turns_since_continue (rt_mailbox (fst c))"

lemma turn_update_counts:
  "turn_update f \<Longrightarrow> completed_turn_count (f st) = completed_turn_count st
     \<and> turns_since_continue (f st) = turns_since_continue st"
  by (induction rule: turn_update.induct)
    (auto simp: turn_update_defs Let_def split: option.split prod.split)

interpretation counts: turn_relation same_counts
proof unfold_locales
  fix f rt script
  assume "turn_update f"
  then show "same_counts (rt, script) (on_mailbox f rt, script)"
    using turn_update_counts [of f "rt_mailbox rt"] by (simp add: same_counts_def)
qed (auto simp: same_counts_def)

section \<open>The chain of automatic turns is bounded\<close>

abbreviation turns_of :: "Runtime \<times> AwaitStep list \<Rightarrow> int" where
  "turns_of c \<equiv> completed_turn_count (rt_mailbox (fst c))"

lemma same_counts_turns: "same_counts c c' \<Longrightarrow> turns_of c' = turns_of c"
  by (simp add: same_counts_def)

lemma turns_end: "turns_of (final (finally_end_turn x)) \<le> turns_of (final x) + 1"
  by (cases x) (simp_all add: end_turn_def)

lemma turns_catch: "turns_of (final (catch_turn_error x)) = turns_of (final x)"
  using counts.R_catch_turn_error [OF counts.R_refl] by (blast dest: same_counts_turns)

text \<open>A turn asks for a follow-up only below the chain limit.\<close>

lemma conclude_turn_follow_up:
  "conclude_turn lv depth req d ps rt script = Returned (lv', TurnFollowUp ids) rt' script' \<Longrightarrow> depth < chain_limit"
  by (auto simp: conclude_turn_def Let_def split: if_splits outcome.splits)

lemma turn_body_follow_up:
  assumes "turn_body lv depth rt script = Returned (lv', TurnFollowUp ids) rt' script'"
  shows "depth < chain_limit"
  using assms
  by (auto simp: turn_body_def after_decision_def after_actions_def Let_def
      split: outcome.splits option.splits prod.splits if_splits dest!: conclude_turn_follow_up)

lemma turns_try:
  assumes follow: "\<And>args rt' script'. depth < chain_limit \<Longrightarrow> length script' < length script \<Longrightarrow>
      turns_of (final (run_turn args (Suc depth) rt' script'))
        \<le> completed_turn_count (rt_mailbox rt') + int (chain_limit - depth)"
  shows "turns_of (final (turn_try lv depth rt script))
    \<le> completed_turn_count (rt_mailbox rt) + int (chain_limit - depth)"
proof -
  let ?x = "turn_body lv depth rt script"
  have x: "turns_of (final ?x) = completed_turn_count (rt_mailbox rt)"
    using counts.R_turn_body [of rt script lv depth] by (simp add: same_counts_def)
  show ?thesis
  proof (cases ?x)
    case (Returned res rt' script')
    obtain lv' te where res: "res = (lv', te)" by (cases res)
    show ?thesis
    proof (cases te)
      case TurnOver
      then show ?thesis using x Returned res by (simp add: turn_try_def)
    next
      case te: (TurnFollowUp ids)
      have below: "depth < chain_limit" using turn_body_follow_up [of lv depth rt script] Returned res te by simp
      let ?z = "run_turn (no_sources\<lparr>ta_action_attempt_ids := ids\<rparr>) (Suc depth) rt' script'"
      have "turns_of (final ?z) \<le> completed_turn_count (rt_mailbox rt') + int (chain_limit - depth)"
        using below turn_body_takes_step [OF Returned] by (rule follow)
      then show ?thesis
        using x Returned res te by (cases ?z) (simp_all add: turn_try_def)
    qed
  qed (use x in \<open>simp_all add: turn_try_def\<close>)
qed

lemma run_turn_count:
  "turns_of (final (run_turn args depth rt script))
     \<le> completed_turn_count (rt_mailbox rt) + int (chain_limit - depth) + 1"
proof (induction args depth rt script rule: run_turn_chain_induct)
  case (turn args depth rt script)
  show ?case
  proof (cases "has_definition (rt_mailbox rt)")
    case False
    then show ?thesis by (simp add: run_turn_no_definition)
  next
    case True
    obtain lv rt0 where b: "begin_turn args rt = (lv, rt0)" by (cases "begin_turn args rt")
    have rt0: "completed_turn_count (rt_mailbox rt0) = completed_turn_count (rt_mailbox rt)"
      using counts.R_begin_turn [of rt script args] b by (simp add: same_counts_def)
    have follow: "turns_of (final (run_turn args' (Suc depth) rt' script'))
        \<le> completed_turn_count (rt_mailbox rt') + int (chain_limit - depth)"
      if "depth < chain_limit" "length script' < length script" for args' rt' script'
      using turn [OF that(2), of args' rt'] that(1) by simp
    have try_le: "turns_of (final (turn_try lv depth rt0 script))
        \<le> completed_turn_count (rt_mailbox rt) + int (chain_limit - depth)"
      using turns_try [OF follow, where lv = lv and rt = rt0 and script = script] rt0 by simp
    have "turns_of (final (run_turn args depth rt script))
        \<le> turns_of (final (catch_turn_error (turn_try lv depth rt0 script))) + 1"
      unfolding run_turn_active [OF True b] by (rule turns_end)
    also have "\<dots> = turns_of (final (turn_try lv depth rt0 script)) + 1"
      by (simp add: turns_catch)
    finally show ?thesis using try_le by simp
  qed
qed

section \<open>Lifecycle controls preempt a turn\<close>

definition is_agent_turn :: "activity_call \<Rightarrow> bool" where
  "is_agent_turn call = (case call of RunAgentTurn _ _ _ _ \<Rightarrow> True | _ \<Rightarrow> False)"

text \<open>
  \<open>only_calls p c c'\<close>: every activity the log gained satisfies \<open>p\<close>.
\<close>

definition only_calls ::
  "(activity_call \<Rightarrow> bool) \<Rightarrow> Runtime \<times> AwaitStep list \<Rightarrow> Runtime \<times> AwaitStep list \<Rightarrow> bool" where
  "only_calls p c c' \<longleftrightarrow> (\<exists>calls. rt_log (fst c') = rt_log (fst c) @ calls \<and> list_all p calls)"

lemma only_calls_same: "rt_log (fst c') = rt_log (fst c) \<Longrightarrow> only_calls p c c'"
  by (simp add: only_calls_def)

lemma only_calls_trans: "only_calls p a b \<Longrightarrow> only_calls p b c \<Longrightarrow> only_calls p a c"
  by (auto simp: only_calls_def)

lemma only_calls_retry:
  "p call \<Longrightarrow> only_calls p (rt, script) (final (retry_while_suspended sus call rt script))"
proof (induction sus call rt script rule: retry_while_suspended.induct)
  case (1 sus call rt)
  then show ?case by (simp add: only_calls_def)
next
  case (2 sus call rt s script)
  let ?rt' = "resume_at s (log_call call rt)"
  have now: "only_calls p (rt, s # script) (?rt', script)"
    using "2.prems" by (simp add: only_calls_def)
  show ?case
  proof (cases "\<exists>error z rest. as_outcome s = Inl error \<and> is_activity_error_type error sus
      \<and> script = z # rest \<and> \<not> closed (rt_mailbox (resume_at z ?rt'))")
    case False
    then show ?thesis using "2.prems"
      by (auto simp: Let_def only_calls_def split: sum.split list.split)
  next
    case True
    then obtain error z rest where o: "as_outcome s = Inl error" "is_activity_error_type error sus"
      "script = z # rest" "\<not> closed (rt_mailbox (resume_at z ?rt'))" by blast
    have "only_calls p (resume_at z ?rt', rest)
        (final (retry_while_suspended sus call (resume_at z ?rt') rest))"
      using "2.IH" [OF refl o(1) _ o(3) refl] o "2.prems" by simp
    then have "only_calls p (rt, s # script)
        (final (retry_while_suspended sus call (resume_at z ?rt') rest))"
      using now by (auto simp: only_calls_def)
    then show ?thesis using o by (simp add: Let_def)
  qed
qed

lemma preempted_body:
  assumes "lifecycle_preemption_pending (rt_mailbox rt)"
  shows "only_calls is_agent_turn (rt, script) (final (turn_body lv depth rt script))"
    and "turn_body lv depth rt script = Returned (lv', te) rt' script' \<Longrightarrow> te = TurnOver"
proof -
  let ?call = "RunAgentTurn (call_context (rt_mailbox rt)) (tl_turn_id lv) (tl_args lv)
    (tl_workflow_now lv)"
  let ?x = "retry_while_suspended ''TenantSuspended'' ?call rt script"
  have calls: "only_calls is_agent_turn (rt, script) (final ?x)"
    by (rule only_calls_retry) (simp add: is_agent_turn_def)
  have pending: "lifecycle_preemption_pending (rt_mailbox (fst (final ?x)))"
    using messages.R_retry [of rt script "''TenantSuspended''" ?call]
    by (auto simp: keeps_messages_def intro: grows_preemption [OF _ assms])
  show "only_calls is_agent_turn (rt, script) (final (turn_body lv depth rt script))"
    using calls pending
    by (cases ?x) (auto simp: turn_body_def after_decision_def only_calls_def split: option.split)
  show "turn_body lv depth rt script = Returned (lv', te) rt' script' \<Longrightarrow> te = TurnOver"
    using pending
    by (cases ?x) (auto simp: turn_body_def after_decision_def split: option.splits)
qed

lemma preempted_try:
  assumes "lifecycle_preemption_pending (rt_mailbox rt)"
  shows "final (turn_try lv depth rt script) = final (turn_body lv depth rt script)"
proof (cases "turn_body lv depth rt script")
  case (Returned res rt' script')
  then obtain lv' where "res = (lv', TurnOver)"
    using preempted_body(2) [OF assms, of lv depth script "fst res" "snd res" rt' script']
    by (cases res) simp
  with Returned show ?thesis by (simp add: turn_try_def)
qed (simp_all add: turn_try_def)

lemma preempted_catch:
  "lifecycle_preemption_pending (rt_mailbox (fst (final x))) \<Longrightarrow>
   rt_log (fst (final (catch_turn_error x))) = rt_log (fst (final x))"
  by (cases x) (auto simp: catch_turn_error_def turn_failed_def split: prod.split wf_error.split)

lemma log_finally: "rt_log (fst (final (finally_end_turn x))) = rt_log (fst (final x))"
  by (cases x) simp_all

lemma run_turn_preempted:
  assumes pending: "lifecycle_preemption_pending (rt_mailbox rt)"
  shows "only_calls is_agent_turn (rt, script) (final (run_turn args depth rt script))"
proof (cases "has_definition (rt_mailbox rt)")
  case False
  then show ?thesis by (simp add: run_turn_no_definition only_calls_same)
next
  case True
  obtain lv rt0 where b: "begin_turn args rt = (lv, rt0)" by (cases "begin_turn args rt")
  have rt0: "rt_log rt0 = rt_log rt" "lifecycle_preemption_pending (rt_mailbox rt0)"
    using b pending messages.R_begin_turn [of rt script args]
    by (auto simp: begin_turn_def draw_uuid_def Let_def keeps_messages_def intro: grows_preemption)
  let ?x = "turn_try lv depth rt0 script"
  have fin: "final ?x = final (turn_body lv depth rt0 script)"
    by (rule preempted_try [OF rt0(2)])
  have "only_calls is_agent_turn (rt0, script) (final ?x)"
    unfolding fin by (rule preempted_body(1) [OF rt0(2)])
  moreover have "lifecycle_preemption_pending (rt_mailbox (fst (final ?x)))"
    unfolding fin using messages.R_turn_body [of rt0 script lv depth] rt0(2)
    by (auto simp: keeps_messages_def intro: grows_preemption)
  ultimately show ?thesis
    using rt0(1) by (simp add: run_turn_active [OF True b] only_calls_def log_finally preempted_catch)
qed

section \<open>Single turns, end to end\<close>

lemma begin_turn_eq:
  "begin_turn args rt =
     (\<lparr>tl_turn_id = rt_uuid4 rt (rt_uuids_drawn rt), tl_args = args, tl_workflow_now = rt_now rt,
       tl_decision_json = None, tl_actions_json = None, tl_execution_results = []\<rparr>,
      on_mailbox (\<lambda>st. st\<lparr>turn_in_progress := True\<rparr>) (snd (draw_uuid rt)))"
  by (simp add: begin_turn_def draw_uuid_def Let_def)

lemma call_context_busy [simp]:
  "call_context (st\<lparr>turn_in_progress := b\<rparr>) = call_context st"
  by (simp add: call_context_def)

lemma deliver_busy: "deliver ss (st\<lparr>turn_in_progress := b\<rparr>) = (deliver ss st)\<lparr>turn_in_progress := b\<rparr>"
proof (induction ss arbitrary: st)
  case (Cons s ss)
  have "handle_signal s (st\<lparr>turn_in_progress := b\<rparr>) = (handle_signal s st)\<lparr>turn_in_progress := b\<rparr>"
    by (cases s) (simp_all add: signal_defs)
  with Cons show ?case by simp
qed simp

lemma preemption_busy [simp]:
  "lifecycle_preemption_pending (st\<lparr>turn_in_progress := b\<rparr>) = lifecycle_preemption_pending st"
  by (simp add: lifecycle_preemption_pending_def)

text \<open>A control that arrives while the model is thinking: nothing of the decision is persisted.\<close>

lemma run_turn_overtaken:
  assumes "has_definition (rt_mailbox rt)"
    and "as_outcome s = Inr answer" and "ar_decision_json answer = Some decision"
    and "lifecycle_preemption_pending (deliver (as_signals s) (rt_mailbox rt))"
  shows "\<exists>rt'. run_turn args depth rt (s # script) = Returned () rt' script
    \<and> rt_log rt' = rt_log rt @ [RunAgentTurn (call_context (rt_mailbox rt))
         (rt_uuid4 rt (rt_uuids_drawn rt)) args (rt_now rt)]
    \<and> wake_plan (rt_mailbox rt') = wake_plan (deliver (as_signals s) (rt_mailbox rt))
    \<and> pending_action_request_ids (rt_mailbox rt') = pending_action_request_ids (rt_mailbox rt)
    \<and> tr_error (last (turn_records (rt_mailbox rt'))) = Some LIFECYCLE_PREEMPTION_ERROR"
  using assms
  by (simp add: run_turn_active [OF assms(1) begin_turn_eq] turn_try_def turn_body_def Let_def
      after_decision_def catch_turn_error_def deliver_busy record_preempted_turn_def
      append_turn_record_def end_turn_def)

text \<open>
  A failing agent turn. \<open>failed_so_far\<close> is what the log and the turn records hold once the failure
  is being reported.
\<close>

definition failed_so_far ::
  "TurnArgs \<Rightarrow> ActivityFailure \<Rightarrow> Intervention \<Rightarrow> Runtime \<Rightarrow> Runtime \<Rightarrow> bool" where
  "failed_so_far args error iv rt rt' \<longleftrightarrow>
     rt_log rt' = rt_log rt @
        [RunAgentTurn (call_context (rt_mailbox rt)) (rt_uuid4 rt (rt_uuids_drawn rt)) args (rt_now rt),
         RecordIntervention (call_context (rt_mailbox rt)) iv]
     \<and> iv_kind iv = ''turn_failure'' \<and> iv_args iv = args \<and> iv_error iv = af_message error
     \<and> iv_agent_turn_id iv = rt_uuid4 rt (rt_uuids_drawn rt)
     \<and> tr_error (last (turn_records (rt_mailbox rt'))) = Some (af_message error)"

lemmas failed_turn_defs = turn_try_def turn_body_def Let_def catch_turn_error_def turn_failed_def
  record_intervention_def deliver_busy draw_uuid_def append_turn_record_def end_turn_def
  set_wake_plan_def human_wake_plan_def call_context_def failed_so_far_def record_preempted_turn_def

lemma failure_preempted:
  assumes "has_definition (rt_mailbox rt)"
    and "as_outcome s = Inl error" and "\<not> is_activity_error_type error ''TenantSuspended''"
    and "lifecycle_preemption_pending (deliver (as_signals s) (rt_mailbox rt))"
  shows "\<exists>rt'. run_turn args depth rt (s # script) = Returned () rt' script
     \<and> rt_log rt' = rt_log rt @
        [RunAgentTurn (call_context (rt_mailbox rt)) (rt_uuid4 rt (rt_uuids_drawn rt)) args (rt_now rt)]
     \<and> tr_error (last (turn_records (rt_mailbox rt'))) = Some LIFECYCLE_PREEMPTION_ERROR"
  using assms by (simp add: run_turn_active [OF assms(1) begin_turn_eq] failed_turn_defs)

lemma failure_reported:
  assumes "has_definition (rt_mailbox rt)"
    and "as_outcome s = Inl error" and "\<not> is_activity_error_type error ''TenantSuspended''"
    and "\<not> lifecycle_preemption_pending (deliver (as_signals s) (rt_mailbox rt))"
  shows "as_outcome t = Inr answer \<Longrightarrow>
      \<exists>rt' iv. run_turn args depth rt (s # t # script) = Returned () rt' script
        \<and> failed_so_far args error iv rt rt'
        \<and> wake_plan (rt_mailbox rt') = Some (human_wake_plan ''operator'')
        \<and> timer_due_at (rt_mailbox rt') = None"
    and "as_outcome t = Inl error' \<Longrightarrow>
      \<exists>rt' iv. run_turn args depth rt (s # t # script) = Raised (ActivityErr error') rt' script
        \<and> failed_so_far args error iv rt rt'"
    and "\<exists>rt' iv. run_turn args depth rt [s] = Suspended rt' \<and> failed_so_far args error iv rt rt'"
  using assms by (auto simp: run_turn_active [OF assms(1) begin_turn_eq] failed_turn_defs)

end
