(* ===== verification/Mailbox_Run.thy ===== *)
theory Mailbox_Run
  imports Mailbox_Safety
begin

text \<open>
  The main loop of the mailbox workflow (\<open>ProcessMailboxWorkflow.run\<close>): the choice of the next
  wake in the order of its branches, what each branch does to the mailbox before it runs a turn,
  the turn it runs, the wait for a wake condition, and the loop with Continue-As-New. The loop is
  a total function of the runtime and the environment's steps; its termination proof shows that
  every iteration either takes a step of the environment or shrinks the work that is buffered.
\<close>

section \<open>Choosing the next wake\<close>

datatype wake_choice =
    WakeInitial MailboxEvent nat
  | WakeReview MailboxReview
  | WakeResolution MailboxActionResolution
  | WakeControl MailboxControl
  | WakeManual MailboxEvent nat
  | WakeMatching MailboxEvent nat
  | WakeTimer
  | WakeWait

definition timer_is_due :: "instant \<Rightarrow> Mailbox \<Rightarrow> bool" where
  "timer_is_due now st = (case timer_due_at st of None \<Rightarrow> False | Some due \<Rightarrow> due \<le> now)"

definition initial_wake :: "Mailbox \<Rightarrow> nat option" where
  "initial_wake st =
     (if \<not> started st \<and> wake_plan st = None then initial_event_index st else None)"

text \<open>The branches after the initial one: review, resolution, control, manual, matching, timer.\<close>

definition next_wake_started :: "instant \<Rightarrow> Mailbox \<Rightarrow> wake_choice" where
  "next_wake_started now st =
     (case buffered_reviews st of
        review # _ \<Rightarrow> WakeReview review
      | [] \<Rightarrow>
     (case buffered_action_resolutions st of
        resolution # _ \<Rightarrow> WakeResolution resolution
      | [] \<Rightarrow>
     (case buffered_controls st of
        control # _ \<Rightarrow> WakeControl control
      | [] \<Rightarrow>
     (case manual_wake_event_index st of
        Some i \<Rightarrow> WakeManual (buffered_events st ! i) i
      | None \<Rightarrow>
     (case matching_event_index st of
        Some i \<Rightarrow> WakeMatching (buffered_events st ! i) i
      | None \<Rightarrow> if timer_is_due now st then WakeTimer else WakeWait)))))"

definition next_wake :: "instant \<Rightarrow> Mailbox \<Rightarrow> wake_choice" where
  "next_wake now st =
     (case initial_wake st of
        Some i \<Rightarrow> WakeInitial (buffered_events st ! i) i
      | None \<Rightarrow> next_wake_started now st)"

section \<open>Taking a wake\<close>

definition event_wake_record :: "string \<Rightarrow> MailboxEvent \<Rightarrow> instant \<Rightarrow> WakeRecord" where
  "event_wake_record reason event now =
     \<lparr>wr_reason = reason, wr_event_id = Some (me_event_id event),
      wr_event_type = Some (me_event_type event), wr_timer_id = None, wr_woke_at = now,
      wr_review_command_id = None, wr_review_command_type = None\<rparr>"

definition pop_event :: "nat \<Rightarrow> WakeRecord \<Rightarrow> Mailbox \<Rightarrow> Mailbox" where
  "pop_event i record st =
     st\<lparr>buffered_events := remove_at i (buffered_events st), started := True,
        wake_records := wake_records st @ [record]\<rparr>"

definition review_wake_record :: "MailboxReview \<Rightarrow> instant \<Rightarrow> WakeRecord" where
  "review_wake_record review now =
     \<lparr>wr_reason = ''review'', wr_event_id = None, wr_event_type = None, wr_timer_id = None,
      wr_woke_at = now, wr_review_command_id = Some (mr_command_id review),
      wr_review_command_type = Some (mr_command_type review)\<rparr>"

definition timer_wake_record :: "string option \<Rightarrow> instant \<Rightarrow> WakeRecord" where
  "timer_wake_record timer now =
     \<lparr>wr_reason = ''timer'', wr_event_id = None, wr_event_type = None, wr_timer_id = timer,
      wr_woke_at = now, wr_review_command_id = None, wr_review_command_type = None\<rparr>"

definition take_review :: "MailboxReview \<Rightarrow> instant \<Rightarrow> Mailbox \<Rightarrow> Mailbox" where
  "take_review review now st =
     (let st' = clear_wake_plan (st\<lparr>buffered_reviews := tl (buffered_reviews st), started := True,
                  wake_records := wake_records st @ [review_wake_record review now]\<rparr>)
      in if mr_command_type review \<in> {''reject'', ''request_revision''}
         then remove_pending_action (mr_action_request_id review) st' else st')"

definition take_control :: "MailboxControl \<Rightarrow> Mailbox \<Rightarrow> Mailbox" where
  "take_control control st =
     (let st' = st\<lparr>buffered_controls := tl (buffered_controls st), started := True\<rparr>
      in if mc_command_type control = ''takeover'' then set_wake_plan (human_wake_plan ''operator'') st'
         else if mc_command_type control = ''retry'' then clear_wake_plan st'
         else st')"

definition active_timer_id :: "Mailbox \<Rightarrow> string option" where
  "active_timer_id st = (case wake_plan st of None \<Rightarrow> None | Some plan \<Rightarrow> wp_timer_id plan)"

text \<open>What the chosen branch does to the mailbox before its first await.\<close>

fun take_wake :: "wake_choice \<Rightarrow> instant \<Rightarrow> Mailbox \<Rightarrow> Mailbox" where
  "take_wake (WakeInitial event i) now st =
     pop_event i (event_wake_record ''process_started'' event now) st"
| "take_wake (WakeReview review) now st = take_review review now st"
| "take_wake (WakeResolution resolution) now st =
     clear_wake_plan (remove_pending_action (ma_action_request_id resolution)
       (st\<lparr>buffered_action_resolutions := tl (buffered_action_resolutions st), started := True\<rparr>))"
| "take_wake (WakeControl control) now st = take_control control st"
| "take_wake (WakeManual event i) now st =
     clear_wake_plan (pop_event i (event_wake_record ''operator_manual_wake'' event now) st)"
| "take_wake (WakeMatching event i) now st =
     clear_wake_plan (pop_event i (event_wake_record ''event'' event now) st)"
| "take_wake WakeTimer now st =
     clear_wake_plan (st\<lparr>started := True,
       wake_records := wake_records st @ [timer_wake_record (active_timer_id st) now]\<rparr>)"
| "take_wake WakeWait now st = st"

section \<open>Running what the wake asks for\<close>

definition control_args :: "MailboxControl \<Rightarrow> TurnArgs" where
  "control_args control =
     \<lparr>ta_event_ids = mc_event_ids control, ta_review_command_ids = mc_review_command_ids control,
      ta_action_attempt_ids = mc_action_attempt_ids control, ta_timer_ids = mc_timer_ids control\<rparr>"

definition run_approved ::
  "MailboxReview \<Rightarrow> Runtime \<Rightarrow> AwaitStep list \<Rightarrow> (wf_error, unit) outcome" where
  "run_approved review rt script =
     (case execute_pending_action (mr_action_request_id review) (mr_proposal_revision review)
             rt script of
        Suspended rt' \<Rightarrow> Suspended rt'
      | Raised e rt' script' \<Rightarrow> Raised e rt' script'
      | Returned None rt' script' \<Rightarrow> Returned () rt' script'
      | Returned (Some execution) rt' script' \<Rightarrow>
          run_turn (no_sources\<lparr>ta_action_attempt_ids := [xd_attempt_id execution]\<rparr>) 0 rt' script')"

definition wake_ready :: "nat \<Rightarrow> Mailbox \<Rightarrow> bool" where
  "wake_ready awaited_revision st \<longleftrightarrow>
     closed st \<or> plan_revision st \<noteq> awaited_revision \<or> buffered_reviews st \<noteq> []
     \<or> buffered_action_resolutions st \<noteq> [] \<or> buffered_controls st \<noteq> []
     \<or> (\<not> started st \<and> wake_plan st = None \<and> initial_event_index st \<noteq> None)
     \<or> manual_wake_event_index st \<noteq> None \<or> matching_event_index st \<noteq> None"

text \<open>
  \<open>workflow.wait_condition\<close>: it returns at once when the condition holds, otherwise after the
  first batch of signals that makes it hold or once the timeout has passed (\<open>TimeoutError\<close> is
  suppressed).
\<close>

fun wait_steps ::
  "nat \<Rightarrow> instant option \<Rightarrow> Runtime \<Rightarrow> AwaitStep list \<Rightarrow> (wf_error, unit) outcome" where
  "wait_steps revision deadline rt [] = Suspended rt"
| "wait_steps revision deadline rt (s # script) =
     (let rt' = resume_at s rt in
      if wake_ready revision (rt_mailbox rt') then Returned () rt' script
      else if (case deadline of None \<Rightarrow> False | Some t \<Rightarrow> t \<le> rt_now rt') then Returned () rt' script
      else wait_steps revision deadline rt' script)"

definition wait_condition :: "Runtime \<Rightarrow> AwaitStep list \<Rightarrow> (wf_error, unit) outcome" where
  "wait_condition rt script =
     (let revision = plan_revision (rt_mailbox rt);
          deadline = map_option (\<lambda>timeout. rt_now rt + timeout)
                       (timer_timeout (rt_now rt) (rt_mailbox rt))
      in if wake_ready revision (rt_mailbox rt) then Returned () rt script
         else wait_steps revision deadline rt script)"

text \<open>The awaits of the chosen branch; \<open>before\<close> is the mailbox the branch was chosen in.\<close>

fun follow_wake ::
  "wake_choice \<Rightarrow> Mailbox \<Rightarrow> Runtime \<Rightarrow> AwaitStep list \<Rightarrow> (wf_error, unit) outcome" where
  "follow_wake (WakeInitial event i) before rt script =
     run_turn (no_sources\<lparr>ta_event_ids := [me_event_id event]\<rparr>) 0 rt script"
| "follow_wake (WakeReview review) before rt script =
     (if mr_command_type review = ''approve'' then run_approved review rt script
      else if mr_command_type review \<in> {''reject'', ''request_revision'', ''comment''}
      then run_turn (no_sources\<lparr>ta_review_command_ids := [mr_command_id review]\<rparr>) 0 rt script
      else Returned () rt script)"
| "follow_wake (WakeResolution resolution) before rt script =
     run_turn (no_sources\<lparr>ta_action_attempt_ids := [ma_action_attempt_id resolution]\<rparr>) 0 rt script"
| "follow_wake (WakeControl control) before rt script =
     (if mc_command_type control = ''takeover'' then Returned () rt script
      else if mc_command_type control = ''retry'' then run_turn (control_args control) 0 rt script
      else Returned () rt script)"
| "follow_wake (WakeManual event i) before rt script =
     run_turn (no_sources\<lparr>ta_event_ids := [me_event_id event]\<rparr>) 0 rt script"
| "follow_wake (WakeMatching event i) before rt script =
     run_turn (no_sources\<lparr>ta_event_ids := [me_event_id event]\<rparr>) 0 rt script"
| "follow_wake WakeTimer before rt script =
     (case active_timer_id before of
        None \<Rightarrow> Returned () rt script
      | Some timer \<Rightarrow> run_turn (no_sources\<lparr>ta_timer_ids := [timer]\<rparr>) 0 rt script)"
| "follow_wake WakeWait before rt script = wait_condition rt script"

definition run_iteration :: "Runtime \<Rightarrow> AwaitStep list \<Rightarrow> (wf_error, unit) outcome" where
  "run_iteration rt script =
     (let choice = next_wake (rt_now rt) (rt_mailbox rt) in
      follow_wake choice (rt_mailbox rt) (on_mailbox (take_wake choice (rt_now rt)) rt) script)"

definition should_continue_as_new :: "Runtime \<Rightarrow> bool" where
  "should_continue_as_new rt \<longleftrightarrow>
     \<not> turn_in_progress (rt_mailbox rt)
     \<and> (continue_as_new_after_turns (rt_mailbox rt) \<le> turns_since_continue (rt_mailbox rt)
        \<or> rt_continue_as_new_suggested rt)"

section \<open>Every iteration makes progress\<close>

definition workload :: "Mailbox \<Rightarrow> nat" where
  "workload st =
     length (buffered_events st) + length (buffered_reviews st)
     + length (buffered_action_resolutions st) + length (buffered_controls st)
     + (if timer_due_at st = None then 0 else 1)"

lemma next_wake_cases:
  "next_wake now st = WakeInitial e i \<Longrightarrow>
     initial_event_index st = Some i \<and> e = buffered_events st ! i \<and> i < length (buffered_events st)"
  "next_wake now st = WakeReview r \<Longrightarrow> \<exists>rs. buffered_reviews st = r # rs"
  "next_wake now st = WakeResolution a \<Longrightarrow> \<exists>as. buffered_action_resolutions st = a # as"
  "next_wake now st = WakeControl c \<Longrightarrow> \<exists>cs. buffered_controls st = c # cs"
  "next_wake now st = WakeManual e i \<Longrightarrow>
     e = buffered_events st ! i \<and> i < length (buffered_events st)
     \<and> me_event_type e = OPERATOR_MANUAL_WAKE_EVENT_TYPE"
  "next_wake now st = WakeMatching e i \<Longrightarrow>
     e = buffered_events st ! i \<and> i < length (buffered_events st)"
  "next_wake now st = WakeTimer \<Longrightarrow> timer_due_at st \<noteq> None"
  by (auto simp: next_wake_def next_wake_started_def initial_wake_def initial_event_index_def
      manual_wake_event_index_def matching_event_index_def timer_is_due_def first_index_Some
      split: option.splits list.splits if_splits)

lemma workload_take_wake:
  assumes "next_wake now st = choice" and "choice \<noteq> WakeWait"
  shows "workload (take_wake choice now st) < workload st"
proof (cases choice)
  case (WakeInitial e i)
  then show ?thesis using next_wake_cases(1) [of now st e i] assms
    length_remove_at [of i "buffered_events st"]
    by (simp add: workload_def pop_event_def)
next
  case (WakeReview r)
  then show ?thesis using next_wake_cases(2) [of now st r] assms
    by (auto simp: workload_def take_review_def Let_def clear_wake_plan_def remove_pending_action_def)
next
  case (WakeResolution a)
  then show ?thesis using next_wake_cases(3) [of now st a] assms
    by (auto simp: workload_def clear_wake_plan_def remove_pending_action_def)
next
  case (WakeControl c)
  then show ?thesis using next_wake_cases(4) [of now st c] assms
    by (auto simp: workload_def take_control_def Let_def clear_wake_plan_def set_wake_plan_def
        human_wake_plan_def)
next
  case (WakeManual e i)
  then show ?thesis using next_wake_cases(5) [of now st e i] assms
    length_remove_at [of i "buffered_events st"]
    by (simp add: workload_def pop_event_def clear_wake_plan_def)
next
  case (WakeMatching e i)
  then show ?thesis using next_wake_cases(6) [of now st e i] assms
    length_remove_at [of i "buffered_events st"]
    by (simp add: workload_def pop_event_def clear_wake_plan_def)
next
  case WakeTimer
  then show ?thesis using next_wake_cases(7) [of now st] assms
    by (simp add: workload_def clear_wake_plan_def)
qed (use assms in simp)

text \<open>A turn of a process with a definition takes at least one step of the environment.\<close>

lemma turn_try_after_body: "consumes (final (turn_body lv depth rt script)) (final (turn_try lv depth rt script))"
proof (cases "turn_body lv depth rt script")
  case (Returned res rt' script')
  have turn: "consumes (rt', script') (final (run_turn args d rt' script'))" for args d
    by (rule script.R_run_turn)
  have "consumes (rt', script') (final (case run_turn args d rt' script' of
      Suspended rt'' \<Rightarrow> Suspended rt''
    | Raised e rt'' script'' \<Rightarrow> Raised (e, lv') rt'' script''
    | Returned u rt'' script'' \<Rightarrow> Returned u rt'' script''))" for args d lv'
    using turn [of args d] by (cases "run_turn args d rt' script'") simp_all
  then show ?thesis using Returned
    by (cases res) (auto simp: turn_try_def body_script.R_refl split: turn_end.split)
qed (simp_all add: turn_try_def body_script.R_refl)

lemma run_turn_consumes:
  assumes "has_definition (rt_mailbox rt)"
  shows "suffix (snd (final (run_turn args depth rt (s # script)))) script"
proof -
  obtain lv rt0 where b: "begin_turn args rt = (lv, rt0)" by (cases "begin_turn args rt")
  have "suffix (snd (final (turn_try lv depth rt0 (s # script)))) script"
    by (rule script_then [OF turn_body_consumes turn_try_after_body])
  then have "suffix (snd (final (catch_turn_error (turn_try lv depth rt0 (s # script))))) script"
    by (rule script_then) (rule body_script.R_catch_turn_error [OF body_script.R_refl])
  then have "suffix (snd (final (finally_end_turn
      (catch_turn_error (turn_try lv depth rt0 (s # script)))))) script"
    by (rule script_then) (rule script.R_finally [OF body_script.R_refl])
  then show ?thesis by (simp add: run_turn_active [OF assms b])
qed

lemma run_turn_waits:
  "has_definition (rt_mailbox rt) \<Longrightarrow> \<exists>rt'. run_turn args depth rt [] = Suspended rt'"
  by (cases "begin_turn args rt")
    (simp add: run_turn_active turn_try_def turn_body_def catch_turn_error_def)

lemma run_turn_progress:
  assumes "run_turn args depth rt script = Returned u rt' script'"
  shows "length script' < length script \<or> (script' = script \<and> rt' = rt)"
proof (cases "has_definition (rt_mailbox rt)")
  case False
  then show ?thesis using assms by (simp add: run_turn_no_definition)
next
  case True
  show ?thesis
  proof (cases script)
    case Nil
    then show ?thesis using assms run_turn_waits [OF True, of args depth] by auto
  next
    case (Cons s rest)
    then have "suffix script' rest" using run_turn_consumes [OF True, of args depth s rest] assms by simp
    then have "length script' \<le> length rest" by (rule suffix_length_le)
    with Cons show ?thesis by simp
  qed
qed

lemma execute_pending_action_after_retry:
  "consumes (final (retry_while_suspended ''ActionExecutionSuspended''
      (ExecuteAction (call_context (add_pending_action a (rt_mailbox rt))) a r)
      (on_mailbox (add_pending_action a) rt) script))
    (final (execute_pending_action a r rt script))" (is "consumes (final ?x) _")
proof (cases ?x)
  case (Returned res rt' script')
  then show ?thesis
    using body_script.R_update_then [OF body_script.R_after_execution] body_script.R_refl
    by (auto simp: execute_pending_action_def Let_def split: option.split)
next
  case (Raised e rt' script')
  then show ?thesis using body_script.R_execution_failed body_script.R_refl
    by (cases e) (simp_all add: execute_pending_action_def Let_def)
qed (simp add: execute_pending_action_def Let_def body_script.R_refl)

lemma execute_pending_action_progress:
  assumes "execute_pending_action a r rt script = Returned x rt' script'"
  shows "length script' < length script"
proof (cases script)
  case Nil
  then show ?thesis using assms by (simp add: execute_pending_action_def Let_def)
next
  case (Cons s rest)
  have "suffix (snd (final (execute_pending_action a r rt (s # rest)))) rest"
    by (rule script_then [OF retry_consumes execute_pending_action_after_retry])
  then have "suffix script' rest" using assms Cons by simp
  then have "length script' \<le> length rest" by (rule suffix_length_le)
  then show ?thesis by (simp add: Cons)
qed

lemma run_approved_progress:
  assumes "run_approved review rt script = Returned u rt' script'"
  shows "length script' < length script"
proof -
  let ?x = "execute_pending_action (mr_action_request_id review) (mr_proposal_revision review)
    rt script"
  obtain res rt1 script1 where x: "?x = Returned res rt1 script1"
    using assms by (cases ?x) (auto simp: run_approved_def)
  then have "length script1 < length script" by (rule execute_pending_action_progress)
  moreover have "script' = script1 \<or> length script' \<le> length script1"
    using assms x run_turn_progress [of _ 0 rt1 script1 u rt' script']
    by (fastforce simp: run_approved_def split: option.splits)
  ultimately show ?thesis by auto
qed

lemma wait_steps_progress:
  "wait_steps revision deadline rt script = Returned u rt' script' \<Longrightarrow> length script' < length script"
  by (induction revision deadline rt script rule: wait_steps.induct)
    (auto simp: Let_def split: if_splits option.splits)

lemma next_wake_wait:
  assumes "next_wake now st = WakeWait" and "\<not> closed st"
  shows "\<not> wake_ready (plan_revision st) st \<and> \<not> timer_is_due now st"
  using assms
  by (auto simp: next_wake_def next_wake_started_def initial_wake_def wake_ready_def
      split: option.splits list.splits if_splits)

lemma follow_wake_progress:
  assumes "follow_wake choice before rt script = Returned u rt' script'" and "choice \<noteq> WakeWait"
  shows "length script' < length script \<or> (script' = script \<and> rt' = rt)"
  using assms
  by (cases choice)
    (auto split: if_splits option.splits dest: run_turn_progress run_approved_progress)

lemma run_iteration_progress:
  assumes "run_iteration rt script = Returned u rt' script'" and "\<not> closed (rt_mailbox rt)"
  shows "length script' < length script
    \<or> (length script' = length script \<and> workload (rt_mailbox rt') < workload (rt_mailbox rt))"
proof (cases "next_wake (rt_now rt) (rt_mailbox rt) = WakeWait")
  case True
  then show ?thesis
    using assms next_wake_wait [OF True assms(2)]
    by (auto simp: run_iteration_def Let_def wait_condition_def on_mailbox_def
        dest: wait_steps_progress)
next
  case False
  then show ?thesis
    using assms follow_wake_progress [of _ _ _ script u rt' script']
      workload_take_wake [OF refl False]
    by (fastforce simp: run_iteration_def Let_def)
qed

section \<open>The loop\<close>

datatype run_end =
    Completed Runtime
  | ContinuedAsNew MailboxInput Runtime "AwaitStep list"
  | Failed wf_error Runtime
  | Waiting Runtime

function run_loop :: "Runtime \<Rightarrow> AwaitStep list \<Rightarrow> run_end" where
  "run_loop rt script =
     (if closed (rt_mailbox rt) then Completed rt
      else if should_continue_as_new rt
      then ContinuedAsNew (continuation_input (rt_mailbox rt)) rt script
      else (case run_iteration rt script of
              Returned _ rt' script' \<Rightarrow> run_loop rt' script'
            | Raised e rt' script' \<Rightarrow> Failed e rt'
            | Suspended rt' \<Rightarrow> Waiting rt'))"
  by pat_completeness auto
termination
  by (relation "measures [\<lambda>(rt, script). length script, \<lambda>(rt, script). workload (rt_mailbox rt)]")
    (auto dest: run_iteration_progress)

declare run_loop.simps [simp del]

fun end_mailbox :: "run_end \<Rightarrow> Mailbox" where
  "end_mailbox (Completed rt) = rt_mailbox rt"
| "end_mailbox (ContinuedAsNew i rt script) = rt_mailbox rt"
| "end_mailbox (Failed e rt) = rt_mailbox rt"
| "end_mailbox (Waiting rt) = rt_mailbox rt"

section \<open>Invariants of the whole workflow\<close>

locale mailbox_invariant =
  fixes I :: "Mailbox \<Rightarrow> bool"
  assumes I_deliver: "I st \<Longrightarrow> I (deliver ss st)"
    and I_update: "turn_update f \<Longrightarrow> I st \<Longrightarrow> I (f st)"
    and I_end: "I st \<Longrightarrow> I (end_turn st)"
    and I_take: "I st \<Longrightarrow> next_wake now st = choice \<Longrightarrow> I (take_wake choice now st)"

sublocale mailbox_invariant \<subseteq> turn: turn_relation_end
  "\<lambda>c c'. I (rt_mailbox (fst c)) \<longrightarrow> I (rt_mailbox (fst c'))"
  by unfold_locales (auto simp: I_deliver I_update I_end)

context mailbox_invariant
begin

lemma I_wait_steps:
  "I (rt_mailbox rt) \<Longrightarrow> I (rt_mailbox (fst (final (wait_steps revision deadline rt script))))"
  by (induction revision deadline rt script rule: wait_steps.induct) (auto simp: Let_def I_deliver)

lemma I_run_approved:
  assumes "I (rt_mailbox rt)"
  shows "I (rt_mailbox (fst (final (run_approved review rt script))))"
proof -
  let ?x = "execute_pending_action (mr_action_request_id review) (mr_proposal_revision review)
    rt script"
  have x: "I (rt_mailbox (fst (final ?x)))"
    using turn.R_execute_pending_action [of rt script] assms by simp
  show ?thesis
  proof (cases ?x)
    case (Returned res rt' script')
    then show ?thesis using x turn.R_run_turn [of rt' script']
      by (auto simp: run_approved_def split: option.split)
  qed (use x in \<open>simp_all add: run_approved_def\<close>)
qed

lemma I_follow_wake:
  assumes "I (rt_mailbox rt)"
  shows "I (rt_mailbox (fst (final (follow_wake choice before rt script))))"
proof -
  have turn: "I (rt_mailbox (fst (final (run_turn args 0 rt script))))" for args
    using turn.R_run_turn [of rt script args 0] assms by simp
  show ?thesis
    using assms turn I_run_approved [OF assms] I_wait_steps [OF assms]
    by (cases choice) (auto simp: wait_condition_def Let_def split: option.split)
qed

lemma I_run_iteration:
  "I (rt_mailbox rt) \<Longrightarrow> I (rt_mailbox (fst (final (run_iteration rt script))))"
  by (simp add: run_iteration_def Let_def I_follow_wake I_take)

lemma I_run_loop: "I (rt_mailbox rt) \<Longrightarrow> I (end_mailbox (run_loop rt script))"
proof (induction rt script rule: run_loop.induct)
  case (1 rt script)
  have i: "I (rt_mailbox (fst (final (run_iteration rt script))))"
    by (rule I_run_iteration) (rule "1.prems")
  show ?case
  proof (cases "closed (rt_mailbox rt) \<or> should_continue_as_new rt")
    case True
    then show ?thesis using "1.prems" by (subst run_loop.simps) auto
  next
    case False
    then show ?thesis
      using i "1.IH" by (subst run_loop.simps) (cases "run_iteration rt script"; simp)
  qed
qed

end

lemma take_wake_ok:
  assumes ok: "mailbox_ok st" and wake: "next_wake now st = choice"
  shows "mailbox_ok (take_wake choice now st)"
proof (cases choice)
  case (WakeReview r)
  with wake next_wake_cases(2) obtain rs where "buffered_reviews st = r # rs" by blast
  then show ?thesis using ok WakeReview
    by (auto simp: mailbox_ok_defs take_review_def Let_def clear_wake_plan_def
        remove_pending_action_def intro: inbox_ok_tail)
next
  case (WakeResolution a)
  with wake next_wake_cases(3) obtain as where "buffered_action_resolutions st = a # as" by blast
  then show ?thesis using ok WakeResolution
    by (auto simp: mailbox_ok_defs clear_wake_plan_def remove_pending_action_def
        intro: inbox_ok_tail)
next
  case (WakeControl c)
  with wake next_wake_cases(4) obtain cs where "buffered_controls st = c # cs" by blast
  then show ?thesis using ok WakeControl
    by (auto simp: mailbox_ok_defs take_control_def Let_def clear_wake_plan_def set_wake_plan_def
        intro: inbox_ok_tail)
qed (use ok in \<open>auto simp: mailbox_ok_defs pop_event_def clear_wake_plan_def
    inbox_ok_remove_at\<close>)

interpretation ok_inv: mailbox_invariant mailbox_ok
  by unfold_locales (auto simp: deliver_ok turn_update_ok end_turn_ok take_wake_ok)

text \<open>
  Every business event and every review command wakes the process at most once: the identities
  in the wake records are distinct, were seen, and are no longer buffered. \<open>older\<close> are the wake
  records of earlier runs that the mailbox no longer holds: Continue-As-New carries only the
  last ones.
\<close>

definition woken_events :: "WakeRecord list \<Rightarrow> string list" where
  "woken_events records = List.map_filter wr_event_id records"

definition woken_reviews :: "WakeRecord list \<Rightarrow> string list" where
  "woken_reviews records = List.map_filter wr_review_command_id records"

definition wakes_once :: "WakeRecord list \<Rightarrow> Mailbox \<Rightarrow> bool" where
  "wakes_once older st \<longleftrightarrow>
     consumed_ok me_event_id (buffered_events st) (seen_event_ids st)
       (woken_events (older @ wake_records st)) \<and>
     consumed_ok mr_command_id (buffered_reviews st) (seen_review_command_ids st)
       (woken_reviews (older @ wake_records st))"

lemmas wakes_once_defs = wakes_once_def woken_events_def woken_reviews_def

lemma map_filter_append: "List.map_filter f (xs @ ys) = List.map_filter f xs @ List.map_filter f ys"
  by (simp add: List.map_filter_def)

lemma map_filter_single: "List.map_filter f [x] = (case f x of None \<Rightarrow> [] | Some y \<Rightarrow> [y])"
  by (simp add: List.map_filter_def split: option.split)

lemmas wake_record_simps = map_filter_append map_filter_single event_wake_record_def
  review_wake_record_def timer_wake_record_def

lemma wakes_once_deliver: "wakes_once older st \<Longrightarrow> wakes_once older (deliver ss st)"
  by (simp add: wakes_once_defs deliver_events deliver_reviews consumed_ok_append_fresh)

lemma wakes_once_update: "turn_update f \<Longrightarrow> wakes_once older st \<Longrightarrow> wakes_once older (f st)"
  by (induction rule: turn_update.induct)
    (auto simp: wakes_once_defs turn_update_defs Let_def split: option.split prod.split)

lemma wakes_once_pop_event:
  assumes "wakes_once older st" and "i < length (buffered_events st)"
  shows "wakes_once older (pop_event i (event_wake_record reason (buffered_events st ! i) now) st)"
  using assms consumed_ok_remove_at [of me_event_id "buffered_events st" "seen_event_ids st"]
  by (simp add: wakes_once_defs pop_event_def wake_record_simps flip: append_assoc)

lemma wakes_once_clear [simp]: "wakes_once older (clear_wake_plan st) = wakes_once older st"
  by (simp add: wakes_once_defs clear_wake_plan_def)

lemma wakes_once_take:
  assumes once: "wakes_once older st" and wake: "next_wake now st = choice"
  shows "wakes_once older (take_wake choice now st)"
proof (cases choice)
  case (WakeInitial e i)
  then show ?thesis using once next_wake_cases(1) [of now st e i] wake
    by (auto intro: wakes_once_pop_event)
next
  case (WakeReview r)
  with wake next_wake_cases(2) obtain rs where "buffered_reviews st = r # rs" by blast
  then show ?thesis using once WakeReview
    consumed_ok_tail [of mr_command_id r rs "seen_review_command_ids st"
      "woken_reviews (older @ wake_records st)"]
    by (simp add: wakes_once_defs take_review_def Let_def clear_wake_plan_def
        remove_pending_action_def wake_record_simps)
next
  case (WakeManual e i)
  then show ?thesis using once next_wake_cases(5) [of now st e i] wake
    by (auto intro: wakes_once_pop_event)
next
  case (WakeMatching e i)
  then show ?thesis using once next_wake_cases(6) [of now st e i] wake
    by (auto intro: wakes_once_pop_event)
qed (use once in \<open>auto simp: wakes_once_defs clear_wake_plan_def take_control_def Let_def
    set_wake_plan_def remove_pending_action_def wake_record_simps\<close>)

lemma wakes_once_end: "wakes_once older st \<Longrightarrow> wakes_once older (end_turn st)"
  by (simp add: wakes_once_defs end_turn_def)

interpretation once_inv: mailbox_invariant "wakes_once older" for older
  by unfold_locales
    (auto simp: wakes_once_deliver wakes_once_update wakes_once_take wakes_once_end)

text \<open>Within a run the wake records are only appended to.\<close>

lemma take_wake_records: "prefix (wake_records st) (wake_records (take_wake choice now st))"
  by (cases choice)
    (auto simp: pop_event_def clear_wake_plan_def take_review_def take_control_def set_wake_plan_def
      remove_pending_action_def Let_def)

interpretation records_inv: mailbox_invariant "\<lambda>st. prefix records (wake_records st)" for records
proof unfold_locales
  fix f and st :: Mailbox
  assume "turn_update f" "prefix records (wake_records st)"
  then show "prefix records (wake_records (f st))" using turn_update_identity [of f st] by simp
next
  fix st :: Mailbox and now choice
  assume "prefix records (wake_records st)"
  then show "prefix records (wake_records (take_wake choice now st))"
    using take_wake_records prefix_order.trans by blast
qed (simp_all add: end_turn_def)

text \<open>What a run adds to the wake records.\<close>

definition new_wakes :: "Mailbox \<Rightarrow> Mailbox \<Rightarrow> WakeRecord list" where
  "new_wakes st st' = drop (length (wake_records st)) (wake_records st')"

lemma run_loop_records:
  "wake_records (end_mailbox (run_loop rt script)) =
     wake_records (rt_mailbox rt) @ new_wakes (rt_mailbox rt) (end_mailbox (run_loop rt script))"
  using records_inv.I_run_loop [of "wake_records (rt_mailbox rt)" rt script]
  by (auto simp: new_wakes_def prefix_def)

end
