(* ===== verification/Mailbox_Properties.thy ===== *)
theory Mailbox_Properties
  imports Mailbox_Run
begin

text \<open>
  What the mailbox workflow guarantees over the whole life of a process: the states it can reach
  through any number of runs linked by Continue-As-New, and the properties of single turns.
\<close>

section \<open>The life of a process\<close>

text \<open>
  The mailboxes a process can have at the start or the end of the runs of its workflow, with the
  history of all wakes since the process began: a first run is started with an empty
  continuation, a later one with the continuation its predecessor handed over; signals may arrive
  before the start of each and at every await within. The history is not part of the workflow's
  state: it gets what each run adds to its wake records, and loses nothing when a run starts from
  a continuation that carries only the last of them.
\<close>

inductive lifetime :: "WakeRecord list \<Rightarrow> Mailbox \<Rightarrow> bool" where
  first_run: "in_continuation i = fresh_continuation \<Longrightarrow>
    start_run i (deliver ss init_mailbox) = Inr st \<Longrightarrow> lifetime [] st"
| run_ends: "lifetime history (rt_mailbox rt) \<Longrightarrow> run_loop rt script = run_end \<Longrightarrow>
    lifetime (history @ new_wakes (rt_mailbox rt) (end_mailbox run_end)) (end_mailbox run_end)"
| next_run: "lifetime history (rt_mailbox rt) \<Longrightarrow> run_loop rt script = ContinuedAsNew i rt' rest \<Longrightarrow>
    start_run i (deliver ss init_mailbox) = Inr st \<Longrightarrow>
    lifetime (history @ new_wakes (rt_mailbox rt) (rt_mailbox rt')) st"

lemma fresh_start_ok:
  assumes "in_continuation i = fresh_continuation" "start_run i init_mailbox = Inr st"
  shows "mailbox_ok st \<and> wake_records st = [] \<and> wakes_once [] st"
  using assms
  by (auto simp: start_run_def restore_continuation_def fresh_continuation_def set_identity_def
      CONTINUATION_SCHEMA_VERSION_def merge_prestart_init load_continuation_def init_mailbox_def
      mailbox_ok_defs wakes_once_defs consumed_ok_def List.map_filter_def)

lemma rolled_over_ok:
  assumes "mailbox_ok st" "wakes_once older st"
  obtains dropped where "wake_records st = dropped @ wake_records (rolled_over st)"
    and "mailbox_ok (rolled_over st)" and "wakes_once (older @ dropped) (rolled_over st)"
proof
  let ?dropped = "take (length (wake_records st) - RECENT_RECORD_LIMIT) (wake_records st)"
  show "wake_records st = ?dropped @ wake_records (rolled_over st)"
    by (simp add: rolled_over_def last_items_def)
  show "mailbox_ok (rolled_over st)" using assms(1) by (simp add: mailbox_ok_defs rolled_over_def)
  show "wakes_once (older @ ?dropped) (rolled_over st)"
    using assms(2) by (simp add: wakes_once_def rolled_over_def last_items_def)
qed

lemma run_loop_continues:
  assumes "run_loop rt script = ContinuedAsNew i rt' rest"
  shows "i = continuation_input (end_mailbox (run_loop rt script))"
  using assms
proof (induction rt script rule: run_loop.induct)
  case (1 rt script)
  show ?case
  proof (cases "closed (rt_mailbox rt) \<or> should_continue_as_new rt")
    case True
    then show ?thesis using "1.prems" by (auto simp: run_loop.simps [of rt script] split: if_splits)
  next
    case False
    then show ?thesis
      using "1.IH" "1.prems" by (cases "run_iteration rt script") (auto simp: run_loop.simps [of rt script])
  qed
qed

lemma start_run_Inr:
  assumes "start_run i (deliver ss init_mailbox) = Inr st"
  obtains st0 where "start_run i init_mailbox = Inr st0" "st = deliver ss st0"
  using assms by (cases "start_run i init_mailbox") (auto simp: start_run_deliver)

lemma lifetime_ok:
  "lifetime history st \<Longrightarrow>
     mailbox_ok st \<and> (\<exists>older. history = older @ wake_records st \<and> wakes_once older st)"
proof (induction rule: lifetime.induct)
  case (first_run i ss st)
  then obtain st0 where "start_run i init_mailbox = Inr st0" "st = deliver ss st0"
    using start_run_Inr by blast
  then show ?case using fresh_start_ok first_run(1) by (simp add: deliver_ok wakes_once_deliver)
next
  case (run_ends history rt script run_end)
  then obtain older where older: "history = older @ wake_records (rt_mailbox rt)"
    "wakes_once older (rt_mailbox rt)" by blast
  have "mailbox_ok (end_mailbox run_end)" "wakes_once older (end_mailbox run_end)"
    using run_ends ok_inv.I_run_loop once_inv.I_run_loop [OF older(2)] by blast+
  then show ?case
    using run_loop_records [of rt script] older(1) run_ends.hyps(2) by auto
next
  case (next_run history rt script i rt' rest ss st)
  let ?final = "end_mailbox (run_loop rt script)"
  obtain older where older: "history = older @ wake_records (rt_mailbox rt)"
    "wakes_once older (rt_mailbox rt)" using next_run.IH by blast
  have ok: "mailbox_ok ?final" "wakes_once older ?final"
    using next_run.IH ok_inv.I_run_loop once_inv.I_run_loop [OF older(2)] by blast+
  obtain dropped where dropped: "wake_records ?final = dropped @ wake_records (rolled_over ?final)"
    "mailbox_ok (rolled_over ?final)" "wakes_once (older @ dropped) (rolled_over ?final)"
    using rolled_over_ok [OF ok] by blast
  have "i = continuation_input ?final" using next_run.hyps(2) by (rule run_loop_continues)
  then have st: "st = deliver ss (rolled_over ?final)"
    using next_run.hyps(3) start_run_Inr start_run_continuation [OF ok(1)] by (metis Inr_inject)
  have "history @ new_wakes (rt_mailbox rt) (rt_mailbox rt') = (older @ dropped) @ wake_records st"
    using run_loop_records [of rt script] older(1) dropped(1) next_run.hyps(2) st by simp
  then show ?case using dropped st by (auto simp: deliver_ok wakes_once_deliver)
qed

section \<open>Properties\<close>

text \<open>
  (C2) Over the whole life of a process, whatever signals arrive (duplicates included), whatever the
  activities answer and however many runs it takes: no message is buffered twice, every buffered
  one is marked as seen, the armed timer is the one of the installed wake plan and no action is
  pending twice. In the history of all wakes since the first run, of which the mailbox holds the
  end, no business event and no review command occurs twice; everything in it is still marked as
  seen in the current run, so a redelivery cannot wake the process again, and none of it is
  buffered.
\<close>

theorem mailbox_lifetime_invariant:
  assumes "lifetime history st"
  shows "mailbox_ok st \<and> suffix (wake_records st) history
    \<and> distinct (woken_events history) \<and> distinct (woken_reviews history)
    \<and> set (woken_events history) \<subseteq> seen_event_ids st
    \<and> set (woken_reviews history) \<subseteq> seen_review_command_ids st
    \<and> set (woken_events history) \<inter> me_event_id ` set (buffered_events st) = {}
    \<and> set (woken_reviews history) \<inter> mr_command_id ` set (buffered_reviews st) = {}"
  using lifetime_ok [OF assms] by (auto simp: wakes_once_def consumed_ok_def suffix_def)

definition sample_event :: MailboxEvent where
  "sample_event = \<lparr>me_event_id = ''e1'', me_event_type = ''enquiry.received''\<rparr>"

definition sample_input :: MailboxInput where
  "sample_input =
     \<lparr>in_tenant_id = ''t'', in_process_instance_id = ''p'', in_process_definition_id = Some ''enquiry'',
      in_process_definition_version = Some ''1'', in_continue_as_new_after_turns = 100,
      in_continuation = fresh_continuation\<rparr>"

definition sample_mailbox :: Mailbox where
  "sample_mailbox = set_identity sample_input init_mailbox"

lemma sample_start: "start_run sample_input (deliver ss init_mailbox) = Inr (deliver ss sample_mailbox)"
proof -
  have "start_run sample_input init_mailbox = Inr sample_mailbox"
    by (simp add: start_run_def restore_continuation_def sample_input_def fresh_continuation_def
        CONTINUATION_SCHEMA_VERSION_def sample_mailbox_def merge_prestart_init load_continuation_def
        set_identity_def init_mailbox_def)
  then show ?thesis by (simp add: start_run_deliver)
qed

lemma sample_lifetime: "lifetime [] (deliver ss sample_mailbox)"
  using lifetime.first_run [OF _ sample_start] by (simp add: sample_input_def)

definition sample_runtime :: Runtime where
  "sample_runtime =
     \<lparr>rt_mailbox = deliver [ReceiveEvent sample_event] sample_mailbox, rt_now = 0,
      rt_uuid4 = digits, rt_uuids_drawn = 0, rt_continue_as_new_suggested = False, rt_log = []\<rparr>"

text \<open>A first run that the process waits in after its first wake: the history has one event.\<close>

lemma sample_first_run:
  "new_wakes (rt_mailbox sample_runtime) (end_mailbox (run_loop sample_runtime [])) =
     [event_wake_record ''process_started'' sample_event 0]"
  by code_simp

lemma sample_history:
  "lifetime [event_wake_record ''process_started'' sample_event 0]
     (end_mailbox (run_loop sample_runtime []))"
proof -
  have "lifetime [] (rt_mailbox sample_runtime)"
    using sample_lifetime [of "[ReceiveEvent sample_event]"] by (simp add: sample_runtime_def)
  from lifetime.run_ends [OF this refl, of "[]"] show ?thesis by (simp add: sample_first_run)
qed

theorem mailbox_lifetime_invariant_witness:
  "''e1'' \<in> seen_event_ids (end_mailbox (run_loop sample_runtime []))
     \<and> mailbox_ok (end_mailbox (run_loop sample_runtime []))"
  using mailbox_lifetime_invariant [OF sample_history]
  by (simp add: wake_record_simps woken_events_def sample_event_def)

section \<open>Continue-As-New\<close>

text \<open>
  (C11) Continue-As-New loses no active state. Every buffered message, the wake plan and the last
  50 wake, turn and execution records are written into dictionaries field by field; starting the
  next run from them, for a mailbox that satisfies the invariant, reads every dictionary without
  an error and gives back the same mailbox, except for what the next run starts afresh: the
  records older than the last 50 are dropped, the turn in progress, the plan revision, the closed
  flag and the turns since the last rollover are back at their initial values, and the number of
  runs grows by one.
\<close>

theorem continue_as_new_roundtrip:
  assumes "mailbox_ok st"
  shows "start_run (continuation_input st) init_mailbox = Inr
    (st\<lparr>wake_records := last_items 50 (wake_records st),
        turn_records := last_items 50 (turn_records st),
        execution_records := last_items 50 (execution_records st),
        turn_in_progress := False, plan_revision := 0, closed := False,
        turns_since_continue := 0, continued_run_count := continued_run_count st + 1\<rparr>)"
  using start_run_continuation [OF assms] by (simp add: rolled_over_def RECENT_RECORD_LIMIT_def)

definition busy_mailbox :: Mailbox where
  "busy_mailbox = add_pending_action ''a1'' (deliver
     [ReceiveEvent sample_event,
      ReceiveReview \<lparr>mr_command_id = ''r1'', mr_command_type = ''approve'',
        mr_review_thread_id = ''h1'', mr_action_request_id = ''a1'', mr_proposal_revision = 2\<rparr>,
      ReceiveControl \<lparr>mc_command_id = ''c1'', mc_command_type = ''retry'', mc_event_ids = [''e0''],
        mc_review_command_ids = [], mc_action_attempt_ids = [], mc_timer_ids = [''d:timer:0'']\<rparr>,
      ReplaceWakePlan \<lparr>wp_event_types = [''enquiry.received''], wp_timer_id = Some ''d:timer:0'',
        wp_timer_at = Some 5, wp_human_interactions = []\<rparr>] sample_mailbox)"

lemma busy_mailbox_ok: "mailbox_ok busy_mailbox"
proof -
  have "mailbox_ok sample_mailbox"
    using lifetime_ok [OF sample_lifetime [of "[]"]] by simp
  from deliver_ok [OF this] show ?thesis
    unfolding busy_mailbox_def by (rule turn_update_ok [OF turn_update.intros(6)])
qed

theorem continue_as_new_roundtrip_witness:
  "start_run (continuation_input busy_mailbox) init_mailbox
     = Inr (busy_mailbox\<lparr>plan_revision := 0, continued_run_count := 1\<rparr>)"
proof -
  have "busy_mailbox\<lparr>wake_records := last_items 50 (wake_records busy_mailbox),
        turn_records := last_items 50 (turn_records busy_mailbox),
        execution_records := last_items 50 (execution_records busy_mailbox),
        turn_in_progress := False, plan_revision := 0, closed := False,
        turns_since_continue := 0, continued_run_count := continued_run_count busy_mailbox + 1\<rparr>
      = busy_mailbox\<lparr>plan_revision := 0, continued_run_count := 1\<rparr>"
    by code_simp
  then show ?thesis using continue_as_new_roundtrip [OF busy_mailbox_ok] by simp
qed

text \<open>
  (C25) Signals handled before the workflow method starts (Signal-With-Start, or signals that race
  with Continue-As-New) have exactly the effect of the same signals handled right after it has
  restored the carried state, for every input, and do not change whether it is accepted.
\<close>

theorem prestart_signals_equivalent:
  "start_run i (deliver ss init_mailbox) = map_sum id (deliver ss) (start_run i init_mailbox)"
  by (rule start_run_deliver)

section \<open>Progress\<close>

text \<open>
  (C26) The main loop cannot spin: an iteration that returns has either consumed a step of the
  environment or reduced the buffered work (messages and the armed timer), so between two
  steps of the environment only finitely many iterations run.
\<close>

theorem iteration_makes_progress:
  assumes "run_iteration rt script = Returned u rt' script'" and "\<not> closed (rt_mailbox rt)"
  shows "length script' < length script
    \<or> (length script' = length script \<and> workload (rt_mailbox rt') < workload (rt_mailbox rt))"
  by (rule run_iteration_progress [OF assms])

definition sample_takeover :: MailboxControl where
  "sample_takeover = \<lparr>mc_command_id = ''c1'', mc_command_type = ''takeover'', mc_event_ids = [],
     mc_review_command_ids = [], mc_action_attempt_ids = [], mc_timer_ids = []\<rparr>"

definition takeover_runtime :: Runtime where
  "takeover_runtime = sample_runtime\<lparr>rt_mailbox := deliver [ReceiveControl sample_takeover] sample_mailbox\<rparr>"

lemmas sample_mailbox_defs = sample_runtime_def sample_mailbox_def sample_input_def init_mailbox_def
  set_identity_def receive_event_def receive_control_def sample_event_def sample_takeover_def
  takeover_runtime_def

lemma takeover_iteration:
  "\<exists>rt'. run_iteration takeover_runtime [] = Returned () rt' [] \<and> \<not> closed (rt_mailbox takeover_runtime)"
  by (simp add: run_iteration_def Let_def next_wake_def initial_wake_def initial_event_index_def
      next_wake_started_def sample_mailbox_defs)

theorem iteration_makes_progress_witness:
  "\<exists>rt'. run_iteration takeover_runtime [] = Returned () rt' []
     \<and> workload (rt_mailbox rt') < workload (rt_mailbox takeover_runtime)"
  using takeover_iteration iteration_makes_progress [of takeover_runtime "[]" "()" _ "[]"] by auto

section \<open>Turns\<close>

text \<open>
  (C27) One wake runs at most six turns: the chain of automatic follow-up turns that consume action
  results is bounded, whatever the agent decides and the providers answer.
\<close>

theorem automatic_turns_bounded:
  "completed_turn_count (rt_mailbox (fst (final (run_turn args 0 rt script))))
     \<le> completed_turn_count (rt_mailbox rt) + 6"
  using run_turn_count [of args 0 rt script] by (simp add: chain_limit_def)

text \<open>
  A turn never loses or reorders a message: what is buffered before it is still buffered in
  the same order after it, with what arrived meanwhile behind it; nothing seen is forgotten, and
  a mailbox that was closed stays closed.
\<close>

theorem turn_keeps_messages:
  "grows (rt_mailbox rt) (rt_mailbox (fst (final (run_turn args depth rt script))))"
  using messages.R_run_turn [of rt script args depth] by (simp add: keeps_messages_def)

text \<open>
  (C28) While a takeover is waiting or the mailbox is closed, a turn asks the model at most: no
  decision, no process state and no intervention is persisted and no action is executed.
\<close>

theorem pending_control_stops_effects:
  assumes "lifecycle_preemption_pending (rt_mailbox rt)"
  shows "only_calls is_agent_turn (rt, script) (final (run_turn args depth rt script))"
  by (rule run_turn_preempted [OF assms])

theorem pending_control_stops_effects_witness:
  "only_calls is_agent_turn (takeover_runtime, []) (final (run_turn no_sources 0 takeover_runtime []))"
  by (rule pending_control_stops_effects)
    (simp add: lifecycle_preemption_pending_def sample_mailbox_defs)

text \<open>
  A control that arrives while the model is thinking wins: the turn ends after the agent
  activity, its decision is not persisted, no action becomes pending, the wake plan is the one
  the signals left, and the turn is recorded as preempted.
\<close>

theorem overtaken_turn_discarded:
  assumes "has_definition (rt_mailbox rt)"
    and "as_outcome s = Inr answer" and "ar_decision_json answer = Some decision"
    and "lifecycle_preemption_pending (deliver (as_signals s) (rt_mailbox rt))"
  shows "\<exists>rt'. run_turn args depth rt (s # script) = Returned () rt' script
    \<and> rt_log rt' = rt_log rt @ [RunAgentTurn (call_context (rt_mailbox rt))
         (rt_uuid4 rt (rt_uuids_drawn rt)) args (rt_now rt)]
    \<and> wake_plan (rt_mailbox rt') = wake_plan (deliver (as_signals s) (rt_mailbox rt))
    \<and> pending_action_request_ids (rt_mailbox rt') = pending_action_request_ids (rt_mailbox rt)
    \<and> tr_error (last (turn_records (rt_mailbox rt'))) = Some LIFECYCLE_PREEMPTION_ERROR"
  by (rule run_turn_overtaken [OF assms])

definition sample_answer :: ActivityResult where
  "sample_answer =
     \<lparr>ar_decision_json = Some \<lparr>dd_decision_id = ''d1'', dd_status = Some ''waiting'', dd_wake_conditions = []\<rparr>,
      ar_actions_json = None, ar_result_json = None,
      ar_process_state = \<lparr>ps_terminal = None, ps_wake_conditions_json = None\<rparr>\<rparr>"

definition sample_step :: AwaitStep where
  "sample_step = \<lparr>as_signals = [ReceiveControl sample_takeover], as_elapsed = 0,
     as_continue_as_new_suggested = False, as_outcome = Inr sample_answer\<rparr>"

theorem overtaken_turn_discarded_witness:
  "\<exists>rt'. run_turn no_sources 0 sample_runtime [sample_step] = Returned () rt' []
     \<and> pending_action_request_ids (rt_mailbox rt') = []"
  using overtaken_turn_discarded [of sample_runtime sample_step sample_answer _ no_sources 0 "[]"]
  by (auto simp: has_definition_def sample_step_def sample_answer_def lifecycle_preemption_pending_def
      sample_mailbox_defs)


definition failing_step :: AwaitStep where
  "failing_step = \<lparr>as_signals = [], as_elapsed = 0, as_continue_as_new_suggested = False,
     as_outcome = Inl \<lparr>af_causes = [OtherError], af_message = ''boom''\<rparr>\<rparr>"



text \<open>
  (C30) When the execution of an approved action fails (other than by suspension or a deployment
  mismatch), the iteration ends with the failed activity as its only call: no turn is run and
  no intervention is recorded, the wake plan and its timer are gone, and the action stays pending.
\<close>

theorem approved_failure_unreported:
  assumes "next_wake (rt_now rt) (rt_mailbox rt) = WakeReview review" "mr_command_type review = ''approve''"
    and "as_outcome s = Inl error" "as_signals s = []"
    and "\<not> is_activity_error_type error ''ActionExecutionSuspended''"
    and "\<not> is_activity_error_type error ''DeploymentCompatibilityError''"
  shows "\<exists>rt'. run_iteration rt (s # script) = Returned () rt' script
    \<and> rt_log rt' = rt_log rt @ [ExecuteAction (call_context (rt_mailbox rt))
         (mr_action_request_id review) (mr_proposal_revision review)]
    \<and> wake_plan (rt_mailbox rt') = None \<and> timer_due_at (rt_mailbox rt') = None
    \<and> mr_action_request_id review \<in> set (pending_action_request_ids (rt_mailbox rt'))"
  using assms
  by (simp add: run_iteration_def Let_def run_approved_def execute_pending_action_def execution_failed_def
      take_review_def clear_wake_plan_def add_pending_action_def record_execution_def call_context_def)

definition sample_approval :: MailboxReview where
  "sample_approval = \<lparr>mr_command_id = ''r1'', mr_command_type = ''approve'', mr_review_thread_id = ''th'',
     mr_action_request_id = ''a1'', mr_proposal_revision = 1\<rparr>"

definition approval_runtime :: Runtime where
  "approval_runtime = sample_runtime\<lparr>rt_mailbox := deliver [ReceiveReview sample_approval] sample_mailbox\<rparr>"

theorem approved_failure_unreported_witness:
  "\<exists>rt'. run_iteration approval_runtime [failing_step] = Returned () rt' []
     \<and> wake_plan (rt_mailbox rt') = None \<and> ''a1'' \<in> set (pending_action_request_ids (rt_mailbox rt'))"
proof -
  have "next_wake (rt_now approval_runtime) (rt_mailbox approval_runtime) = WakeReview sample_approval"
    by (simp add: next_wake_def initial_wake_def initial_event_index_def next_wake_started_def
        approval_runtime_def receive_review_def sample_mailbox_defs)
  from approved_failure_unreported [OF this, of failing_step _ "[]"] show ?thesis
    by (auto simp: failing_step_def is_activity_error_type_def sample_approval_def)
qed

end
