(* ===== verification/Communications.thy ===== *)
theory Communications
  imports Definitions
begin

text \<open>
  \<open>communications/policy.py\<close>: the deterministic customer-communication policy. The evaluation
  works on aware timestamps (\<open>_as_utc\<close> rejects a naive one) and collects every block that
  applies, in source order; \<open>require_allowed\<close> raises the first. A block's message is the
  constructor that names it together with the instant it quotes. The rules of a timezone
  (\<open>zoneinfo\<close>) are an argument: the local clock at an instant, and the instant a local clock
  reading denotes for each value of \<open>fold\<close>.
\<close>

section \<open>Policy and evidence\<close>

datatype CommunicationBlockCode =
    PROCESS_EXPIRED | OPTED_OUT | AUTOMATED_RESPONSE_LOOP | QUIET_HOURS
  | PROCESS_MESSAGE_LIMIT | RATE_LIMIT | FOLLOW_UP_LIMIT | MINIMUM_INTERVAL

datatype block_message =
    LifetimeEndedAt instant
  | OptedOutAt instant
  | LatestContactAutomated
  | QuietUntil instant
  | ProcessLimitReached
  | WindowLimitReached
  | FollowUpLimitReached
  | RetryAfter instant

record CommunicationBlock =
  cb_code :: CommunicationBlockCode
  cb_message :: block_message
  cb_next_allowed_at :: "instant option"

record CommunicationPolicy =
  cp_outbound_action_types :: "string set"
  cp_reply_event_types :: "string set"
  cp_max_follow_ups_without_reply :: int
  cp_minimum_follow_up_interval :: duration
  cp_opt_out_event_types :: "string set"
  cp_automated_response_event_types :: "string set"
  cp_quiet_hours :: "DailyQuietHours option"
  cp_max_outbound_messages_per_process :: int
  cp_max_outbound_messages_per_window :: int
  cp_outbound_message_window :: duration
  cp_maximum_process_lifetime :: duration

definition communication_policy :: "ProcessDefinition \<Rightarrow> CommunicationPolicy" where
  "communication_policy d =
     (let communications = pd_communications d; limits = pd_limits d in
      \<lparr>cp_outbound_action_types = set (cc_outbound_action_types communications),
       cp_reply_event_types = set (cc_reply_event_types communications),
       cp_max_follow_ups_without_reply = pl_max_follow_ups_without_reply limits,
       cp_minimum_follow_up_interval = hours (pl_minimum_follow_up_interval_hours limits),
       cp_opt_out_event_types = set (cc_opt_out_event_types communications),
       cp_automated_response_event_types = set (cc_automated_response_event_types communications),
       cp_quiet_hours = cc_quiet_hours communications,
       cp_max_outbound_messages_per_process = pl_max_outbound_messages_per_process limits,
       cp_max_outbound_messages_per_window = pl_max_outbound_messages_per_window limits,
       cp_outbound_message_window = hours (pl_outbound_message_window_hours limits),
       cp_maximum_process_lifetime = days (pl_maximum_process_lifetime_days limits)\<rparr>)"

record CommunicationSafetySnapshot =
  cs_evaluated_at :: instant
  cs_outbound_allowed_now :: bool
  cs_blocks :: "CommunicationBlock list"
  cs_outbound_messages_total :: int
  cs_outbound_messages_in_window :: int
  cs_follow_ups_since_reply :: int
  cs_last_human_reply_at :: "instant option"
  cs_latest_automated_response_at :: "instant option"
  cs_opted_out_at :: "instant option"
  cs_process_expires_at :: instant
  cs_rate_window_started_at :: instant

text \<open>\<open>require_allowed\<close>: \<open>Inl\<close> is \<open>CommunicationSafetyBlocked\<close>.\<close>

definition communication_require_allowed :: "CommunicationSafetySnapshot \<Rightarrow> CommunicationBlock + unit" where
  "communication_require_allowed s = (case cs_blocks s of [] \<Rightarrow> Inr () | b # _ \<Rightarrow> Inl b)"

text \<open>\<open>CommunicationSafetyFacts\<close>, over timestamps as given or already converted to UTC.\<close>

record 't safety_facts =
  sf_process_created_at :: 't
  sf_outbound_message_times :: "'t list"
  sf_prior_outbound_message_times :: "'t list option"
  sf_last_human_reply_at :: "'t option"
  sf_latest_automated_response_at :: "'t option"
  sf_opted_out_at :: "'t option"
  sf_reserve_next_message :: bool

section \<open>Timestamps\<close>

datatype timestamp_error = NotAware string

fun as_utc :: "string \<Rightarrow> datetime \<Rightarrow> timestamp_error + instant" where
  "as_utc label (Naive _) = Inl (NotAware label)"
| "as_utc label (Aware t) = Inr t"

fun optional_as_utc :: "string \<Rightarrow> datetime option \<Rightarrow> timestamp_error + instant option" where
  "optional_as_utc label None = Inr None"
| "optional_as_utc label (Some d) = bind_result (as_utc label d) (\<lambda>t. Inr (Some t))"

fun all_as_utc :: "string \<Rightarrow> datetime list \<Rightarrow> timestamp_error + instant list" where
  "all_as_utc label [] = Inr []"
| "all_as_utc label (d # ds) =
     bind_result (as_utc label d) (\<lambda>t. bind_result (all_as_utc label ds) (\<lambda>ts. Inr (t # ts)))"

text \<open>\<open>max(values, default=None)\<close> and \<open>min(values)\<close>.\<close>

fun latest_of :: "instant list \<Rightarrow> instant option" where
  "latest_of [] = None"
| "latest_of (t # ts) = (case latest_of ts of None \<Rightarrow> Some t | Some u \<Rightarrow> Some (max t u))"

fun earliest_of :: "instant list \<Rightarrow> instant option" where
  "earliest_of [] = None"
| "earliest_of (t # ts) = (case earliest_of ts of None \<Rightarrow> Some t | Some u \<Rightarrow> Some (min t u))"

section \<open>Quiet hours\<close>

text \<open>
  A zone: the wall clock (microseconds, as if it were UTC) shown at an instant, and the instant
  denoted by a wall clock reading with \<open>fold=0\<close> (\<open>False\<close>) or \<open>fold=1\<close> (\<open>True\<close>).
\<close>

record zone =
  zone_wall :: "instant \<Rightarrow> int"
  zone_instant :: "int \<Rightarrow> bool \<Rightarrow> instant"

definition resolve_local_boundary :: "zone \<Rightarrow> int \<Rightarrow> bool \<Rightarrow> instant" where
  "resolve_local_boundary z wall earliest_wanted =
     (let first = zone_instant z wall False; second = zone_instant z wall True
      in if earliest_wanted then min first second else max first second)"

text \<open>One pass of the loop: the interval that starts on \<open>start_date\<close> (a day number).\<close>

definition quiet_interval :: "zone \<Rightarrow> DailyQuietHours \<Rightarrow> int \<Rightarrow> instant \<times> instant" where
  "quiet_interval z q start_date =
     (let overnight = clock_micros (qh_end_local q) < clock_micros (qh_start_local q);
          end_date = start_date + (if overnight then 1 else 0)
      in (resolve_local_boundary z (days start_date + clock_micros (qh_start_local q)) True,
          resolve_local_boundary z (days end_date + clock_micros (qh_end_local q)) False))"

definition quiet_hours_end ::
  "(unicode \<Rightarrow> zone) \<Rightarrow> DailyQuietHours option \<Rightarrow> instant \<Rightarrow> instant option" where
  "quiet_hours_end zones configuration now =
     (case configuration of
        None \<Rightarrow> None
      | Some q \<Rightarrow>
          (let z = zones (qh_timezone q);
               today = zone_wall z now div 86400000000
           in map_option snd (find (\<lambda>(start_utc, end_utc). start_utc \<le> now \<and> now < end_utc)
                [quiet_interval z q (today - 1), quiet_interval z q today])))"

section \<open>Evaluation\<close>

definition lifetime_block :: "instant \<Rightarrow> CommunicationPolicy \<Rightarrow> instant \<Rightarrow> CommunicationBlock option" where
  "lifetime_block created_at policy now =
     (let process_expires_at = created_at + cp_maximum_process_lifetime policy in
      if now < process_expires_at then None
      else Some \<lparr>cb_code = PROCESS_EXPIRED, cb_message = LifetimeEndedAt process_expires_at,
                 cb_next_allowed_at = None\<rparr>)"

definition evaluate_process_lifetime ::
  "datetime \<Rightarrow> CommunicationPolicy \<Rightarrow> datetime \<Rightarrow> timestamp_error + CommunicationBlock option" where
  "evaluate_process_lifetime process_created_at policy now =
     bind_result (as_utc ''process lifetime evaluation time'' now) (\<lambda>now_utc.
     bind_result (as_utc ''process creation time'' process_created_at) (\<lambda>created_at.
     Inr (lifetime_block created_at policy now_utc)))"

text \<open>The body of \<open>evaluate_communication_safety\<close> once every timestamp is an instant.\<close>

definition since_reply :: "instant option \<Rightarrow> instant \<Rightarrow> bool" where
  "since_reply last_reply t = (case last_reply of None \<Rightarrow> True | Some r \<Rightarrow> r < t)"

definition prior_times :: "instant safety_facts \<Rightarrow> instant list" where
  "prior_times facts = (case sf_prior_outbound_message_times facts of
     None \<Rightarrow> sf_outbound_message_times facts | Some ts \<Rightarrow> ts)"

definition window_times :: "CommunicationPolicy \<Rightarrow> instant safety_facts \<Rightarrow> instant \<Rightarrow> instant list" where
  "window_times policy facts now =
     filter (\<lambda>t. now - cp_outbound_message_window policy < t) (sf_outbound_message_times facts)"

definition follow_up_times :: "instant safety_facts \<Rightarrow> instant list" where
  "follow_up_times facts =
     filter (since_reply (sf_last_human_reply_at facts)) (sf_outbound_message_times facts)"

definition reservation :: "'t safety_facts \<Rightarrow> int" where
  "reservation facts = (if sf_reserve_next_message facts then 1 else 0)"

text \<open>The list \<open>blocks\<close> as the function appends to it.\<close>

definition communication_blocks ::
  "(unicode \<Rightarrow> zone) \<Rightarrow> CommunicationPolicy \<Rightarrow> instant safety_facts \<Rightarrow> instant \<Rightarrow> CommunicationBlock list" where
  "communication_blocks zones policy facts now =
     (case lifetime_block (sf_process_created_at facts) policy now of None \<Rightarrow> [] | Some b \<Rightarrow> [b])
     @ (case sf_opted_out_at facts of None \<Rightarrow> []
        | Some t \<Rightarrow> [\<lparr>cb_code = OPTED_OUT, cb_message = OptedOutAt t, cb_next_allowed_at = None\<rparr>])
     @ (case sf_latest_automated_response_at facts of None \<Rightarrow> []
        | Some t \<Rightarrow> [\<lparr>cb_code = AUTOMATED_RESPONSE_LOOP, cb_message = LatestContactAutomated,
                     cb_next_allowed_at = None\<rparr>])
     @ (case quiet_hours_end zones (cp_quiet_hours policy) now of None \<Rightarrow> []
        | Some t \<Rightarrow> [\<lparr>cb_code = QUIET_HOURS, cb_message = QuietUntil t, cb_next_allowed_at = Some t\<rparr>])
     @ (if cp_max_outbound_messages_per_process policy
           < int (length (sf_outbound_message_times facts)) + reservation facts
        then [\<lparr>cb_code = PROCESS_MESSAGE_LIMIT, cb_message = ProcessLimitReached,
               cb_next_allowed_at = None\<rparr>] else [])
     @ (if cp_max_outbound_messages_per_window policy
           < int (length (window_times policy facts now)) + reservation facts
        then [\<lparr>cb_code = RATE_LIMIT, cb_message = WindowLimitReached,
               cb_next_allowed_at = map_option (\<lambda>t. t + cp_outbound_message_window policy)
                 (earliest_of (window_times policy facts now))\<rparr>] else [])
     @ (if cp_max_follow_ups_without_reply policy
           < int (length (follow_up_times facts)) + reservation facts
        then [\<lparr>cb_code = FOLLOW_UP_LIMIT, cb_message = FollowUpLimitReached,
               cb_next_allowed_at = None\<rparr>] else [])
     @ (case latest_of (filter (since_reply (sf_last_human_reply_at facts)) (prior_times facts)) of
          None \<Rightarrow> []
        | Some t \<Rightarrow>
            if now < t + cp_minimum_follow_up_interval policy
            then [\<lparr>cb_code = MINIMUM_INTERVAL,
                   cb_message = RetryAfter (t + cp_minimum_follow_up_interval policy),
                   cb_next_allowed_at = Some (t + cp_minimum_follow_up_interval policy)\<rparr>] else [])"

definition assess_communication ::
  "(unicode \<Rightarrow> zone) \<Rightarrow> CommunicationPolicy \<Rightarrow> instant safety_facts \<Rightarrow> instant
     \<Rightarrow> CommunicationSafetySnapshot" where
  "assess_communication zones policy facts now =
     (let blocks = communication_blocks zones policy facts now in
      \<lparr>cs_evaluated_at = now, cs_outbound_allowed_now = (blocks = []), cs_blocks = blocks,
       cs_outbound_messages_total = int (length (sf_outbound_message_times facts)),
       cs_outbound_messages_in_window = int (length (window_times policy facts now)),
       cs_follow_ups_since_reply = int (length (follow_up_times facts)),
       cs_last_human_reply_at = sf_last_human_reply_at facts,
       cs_latest_automated_response_at = sf_latest_automated_response_at facts,
       cs_opted_out_at = sf_opted_out_at facts,
       cs_process_expires_at = sf_process_created_at facts + cp_maximum_process_lifetime policy,
       cs_rate_window_started_at = now - cp_outbound_message_window policy\<rparr>)"

definition facts_as_utc :: "datetime safety_facts \<Rightarrow> timestamp_error + instant safety_facts" where
  "facts_as_utc facts =
     bind_result (as_utc ''process creation time'' (sf_process_created_at facts)) (\<lambda>created.
     bind_result (all_as_utc ''outbound message time'' (sf_outbound_message_times facts)) (\<lambda>outbound.
     bind_result (all_as_utc ''prior outbound message time''
       (case sf_prior_outbound_message_times facts of
          None \<Rightarrow> sf_outbound_message_times facts | Some ts \<Rightarrow> ts)) (\<lambda>prior.
     bind_result (optional_as_utc ''human reply time'' (sf_last_human_reply_at facts)) (\<lambda>reply.
     bind_result (optional_as_utc ''automated response time''
       (sf_latest_automated_response_at facts)) (\<lambda>automated.
     bind_result (optional_as_utc ''opt-out time'' (sf_opted_out_at facts)) (\<lambda>opted_out.
     Inr \<lparr>sf_process_created_at = created, sf_outbound_message_times = outbound,
          sf_prior_outbound_message_times = Some prior, sf_last_human_reply_at = reply,
          sf_latest_automated_response_at = automated, sf_opted_out_at = opted_out,
          sf_reserve_next_message = sf_reserve_next_message facts\<rparr>))))))"

definition evaluate_communication_safety ::
  "(unicode \<Rightarrow> zone) \<Rightarrow> CommunicationPolicy \<Rightarrow> datetime safety_facts \<Rightarrow> datetime
     \<Rightarrow> timestamp_error + CommunicationSafetySnapshot" where
  "evaluate_communication_safety zones policy facts now =
     bind_result (as_utc ''communication policy evaluation time'' now) (\<lambda>now_utc.
     bind_result (facts_as_utc facts) (\<lambda>facts_utc.
     Inr (assess_communication zones policy facts_utc now_utc)))"

section \<open>The fence\<close>

interpretation communication: fence
  "\<lambda>(zones, policy, facts, now). cs_blocks (assess_communication zones policy facts now)"
  "\<lambda>(zones, policy, facts, now). cs_outbound_allowed_now (assess_communication zones policy facts now)"
  "\<lambda>(zones, policy, facts, now). communication_require_allowed (assess_communication zones policy facts now)"
  by unfold_locales
    (simp_all add: assess_communication_def communication_require_allowed_def Let_def case_prod_beta)

text \<open>What it means to be allowed to send now, stated without blocks.\<close>

definition may_contact ::
  "(unicode \<Rightarrow> zone) \<Rightarrow> CommunicationPolicy \<Rightarrow> instant safety_facts \<Rightarrow> instant \<Rightarrow> bool" where
  "may_contact zones p f now \<longleftrightarrow>
     now < sf_process_created_at f + cp_maximum_process_lifetime p
     \<and> sf_opted_out_at f = None
     \<and> sf_latest_automated_response_at f = None
     \<and> quiet_hours_end zones (cp_quiet_hours p) now = None
     \<and> int (length (sf_outbound_message_times f)) + reservation f \<le> cp_max_outbound_messages_per_process p
     \<and> int (length (window_times p f now)) + reservation f \<le> cp_max_outbound_messages_per_window p
     \<and> int (length (follow_up_times f)) + reservation f \<le> cp_max_follow_ups_without_reply p
     \<and> (\<forall>t \<in> set (prior_times f). since_reply (sf_last_human_reply_at f) t \<longrightarrow>
          t + cp_minimum_follow_up_interval p \<le> now)"

lemma latest_of_None [simp]: "latest_of ts = None \<longleftrightarrow> ts = []"
  by (cases ts) (auto split: option.splits)

lemma latest_of_Some: "latest_of ts = Some m \<Longrightarrow> m \<in> set ts \<and> (\<forall>t \<in> set ts. t \<le> m)"
  by (induction ts arbitrary: m) (auto split: option.splits simp: max_def)

lemma earliest_of_None [simp]: "earliest_of ts = None \<longleftrightarrow> ts = []"
  by (cases ts) (auto split: option.splits)

lemma earliest_of_Some: "earliest_of ts = Some m \<Longrightarrow> m \<in> set ts \<and> (\<forall>t \<in> set ts. m \<le> t)"
proof (induction ts arbitrary: m)
  case (Cons t ts)
  then show ?case by (cases "earliest_of ts") (auto simp: min_def split: if_splits)
qed simp

lemma interval_block_Nil:
  "(case latest_of (filter P ts) of None \<Rightarrow> [] | Some t \<Rightarrow> if now < t + gap then [b t] else []) = []
     \<longleftrightarrow> (\<forall>t \<in> set ts. P t \<longrightarrow> t + gap \<le> (now::int))"
proof (cases "latest_of (filter P ts)")
  case None
  then show ?thesis by (simp add: filter_empty_conv)
next
  case (Some m)
  have "now < m + gap \<longleftrightarrow> \<not> (\<forall>t \<in> set ts. P t \<longrightarrow> t + gap \<le> now)"
    using latest_of_Some [OF Some] by (force simp: not_le)
  then show ?thesis using Some by simp
qed

lemma option_list_Nil: "(case x of None \<Rightarrow> [] | Some y \<Rightarrow> [f y]) = [] \<longleftrightarrow> x = None"
  by (cases x) simp_all

lemma if_list_Nil: "(if b then [x] else []) = [] \<longleftrightarrow> \<not> b"
  by simp

lemma lifetime_block_None:
  "lifetime_block created p now = None \<longleftrightarrow> now < created + cp_maximum_process_lifetime p"
  by (simp add: lifetime_block_def Let_def)

lemma blocks_Nil_may_contact: "communication_blocks zones p f now = [] \<longleftrightarrow> may_contact zones p f now"
  unfolding communication_blocks_def may_contact_def append_is_Nil_conv option_list_Nil if_list_Nil
    interval_block_Nil lifetime_block_None not_less by (rule refl)

section \<open>Quiet hours\<close>

text \<open>The local clock reading is inside the recurring interval.\<close>

definition in_quiet_hours :: "DailyQuietHours \<Rightarrow> int \<Rightarrow> bool" where
  "in_quiet_hours q wall \<longleftrightarrow>
     (let tod = wall mod 86400000000; s = clock_micros (qh_start_local q);
          e = clock_micros (qh_end_local q) in
      if e < s then s \<le> tod \<or> tod < e else s \<le> tod \<and> tod < e)"

text \<open>
  What a zone's two conversions have in common, whatever its transitions: of the instants a wall
  clock reading may denote, the earlier is not after any instant at which the clock shows that
  reading or a later one, and the later is after every instant at which it shows an earlier one.
\<close>

definition zone_law :: "zone \<Rightarrow> bool" where
  "zone_law z \<longleftrightarrow>
     (\<forall>t w. w \<le> zone_wall z t \<longrightarrow> min (zone_instant z w False) (zone_instant z w True) \<le> t)
     \<and> (\<forall>t w. zone_wall z t < w \<longrightarrow> t < max (zone_instant z w False) (zone_instant z w True))"

lemma find_Some_exists: "x \<in> set xs \<Longrightarrow> P x \<Longrightarrow> \<exists>y. find P xs = Some y \<and> P y"
  by (induction xs) auto

lemma find_holds: "find P xs = Some y \<Longrightarrow> y \<in> set xs \<and> P y"
  by (induction xs) (auto split: if_splits)

lemma quiet_interval_covers:
  assumes "zone_law z"
    and "days d + clock_micros (qh_start_local q) \<le> zone_wall z now"
    and "zone_wall z now <
           days (d + (if clock_micros (qh_end_local q) < clock_micros (qh_start_local q) then 1 else 0))
             + clock_micros (qh_end_local q)"
  shows "fst (quiet_interval z q d) \<le> now \<and> now < snd (quiet_interval z q d)"
  using assms by (simp add: zone_law_def quiet_interval_def resolve_local_boundary_def Let_def)

lemma quiet_hours_end_future: "quiet_hours_end zones cfg now = Some e \<Longrightarrow> now < e"
  by (auto simp del: find.simps simp: quiet_hours_end_def Let_def dest!: find_holds split: option.splits)

lemma quiet_hours_blocked:
  assumes "zone_law (zones (qh_timezone q))"
    and "in_quiet_hours q (zone_wall (zones (qh_timezone q)) now)"
    and "0 \<le> clock_micros (qh_start_local q)" "clock_micros (qh_start_local q) < days 1"
    and "0 \<le> clock_micros (qh_end_local q)" "clock_micros (qh_end_local q) < days 1"
  shows "\<exists>e. quiet_hours_end zones (Some q) now = Some e \<and> now < e"
proof -
  let ?z = "zones (qh_timezone q)"
  let ?w = "zone_wall ?z now"
  let ?s = "clock_micros (qh_start_local q)" and ?e = "clock_micros (qh_end_local q)"
  define d where "d = ?w div 86400000000"
  have w: "?w = days d + ?w mod 86400000000" by (simp add: d_def)
  have tod: "0 \<le> ?w mod 86400000000" "?w mod 86400000000 < 86400000000" by simp_all
  let ?day = "if ?e < ?s \<and> ?w mod 86400000000 < ?e then d - 1 else d"
  have "days ?day + ?s \<le> ?w \<and> ?w < days (?day + (if ?e < ?s then 1 else 0)) + ?e"
    using assms(2-) w tod by (auto simp: in_quiet_hours_def Let_def split: if_splits)
  then have hit: "fst (quiet_interval ?z q ?day) \<le> now \<and> now < snd (quiet_interval ?z q ?day)"
    by (intro quiet_interval_covers assms(1)) simp_all
  have "quiet_interval ?z q ?day \<in> set [quiet_interval ?z q (d - 1), quiet_interval ?z q d]" by simp
  from find_Some_exists [OF this, of "\<lambda>(start_utc, end_utc). start_utc \<le> now \<and> now < end_utc"] hit
  obtain y where "find (\<lambda>(start_utc, end_utc). start_utc \<le> now \<and> now < end_utc)
      [quiet_interval ?z q (d - 1), quiet_interval ?z q d] = Some y"
    by (auto simp: case_prod_beta)
  then have "quiet_hours_end zones (Some q) now = Some (snd y)"
    by (simp add: quiet_hours_end_def Let_def d_def)
  then show ?thesis using quiet_hours_end_future by blast
qed

end
