(* ===== verification/Store.thy ===== *)
theory Store
  imports Definitions
begin

text \<open>
  The durable store of \<open>db/models\<close>: one record per table row with the columns the services read
  or write, and the database as the list of rows of each table. Columns that hold the rendered
  form of a value (\<open>str(uuid)\<close>, an enumeration's string, a JSON document of a contract) hold
  the value itself. A query returns the rows of the current tenant only, as PostgreSQL's row
  level security does after \<open>set_tenant_context\<close>. Generated identifiers (\<open>gen_random_uuid()\<close>,
  \<open>uuid4()\<close>) and the clock are arguments of the operations that use them. An operation
  returns the new database or an error; on an error the transaction is rolled back, so there
  is no new database.
\<close>

section \<open>Rows\<close>

datatype TenantStatus = ACTIVE | SUSPENDED

record Tenant =
  tn_id :: uuid
  tn_slug :: unicode
  tn_name :: unicode
  tn_status :: TenantStatus
  tn_deployment_id :: string

record TenantSafetyEvent =
  ts_id :: uuid
  ts_tenant_id :: uuid
  ts_actor_id :: uuid
  ts_previous_status :: TenantStatus
  ts_new_status :: TenantStatus
  ts_reason :: unicode

record TenantDeploymentEvent =
  te_id :: uuid
  te_tenant_id :: uuid
  te_actor_id :: uuid
  te_previous_deployment_id :: string
  te_new_deployment_id :: string
  te_reason :: unicode

datatype credential_status = ACTIVE | REVOKED

record TenantCredential =
  tc_id :: uuid
  tc_tenant_id :: uuid
  tc_actor_id :: uuid
  tc_name :: unicode
  tc_secret_hash :: unicode
  tc_scopes :: "unicode list"
  tc_roles :: "unicode list"
  tc_status :: credential_status
  tc_expires_at :: "instant option"
  tc_revoked_at :: "instant option"
  tc_revoked_by_actor_id :: "uuid option"

record ProcessInstance =
  pi_id :: uuid
  pi_tenant_id :: uuid
  pi_process_type :: string
  pi_definition_version :: unicode
  pi_extension_manifest_hash :: string
  pi_client_pack_fingerprint :: string
  pi_process_definition_fingerprint :: string
  pi_deployment_id :: string
  pi_deployment_release_fingerprint :: string
  pi_temporal_task_queue :: string
  pi_status :: ProcessStatus
  pi_workflow_id :: unicode
  pi_late_event_policy :: string
  pi_authoritative_facts :: jobject
  pi_customer_claims :: jobject
  pi_fact_provenance :: jobject
  pi_memory_summary :: "unicode option"
  pi_memory_summary_source_event_ids :: "uuid list"
  pi_memory_summary_source_review_command_ids :: "uuid list"
  pi_memory_summary_source_action_attempt_ids :: "uuid list"
  pi_memory_summary_source_timer_ids :: "string list"
  pi_open_commitments :: "unicode list"
  pi_current_wake_conditions :: "WakeCondition list"
  pi_state_version :: int
  pi_created_at :: instant

record ProcessStateRevision =
  sr_id :: uuid
  sr_tenant_id :: uuid
  sr_process_instance_id :: uuid
  sr_agent_turn_id :: uuid
  sr_decision_id :: uuid
  sr_version :: int
  sr_decision_status :: DecisionStatus
  sr_process_status :: ProcessStatus
  sr_authoritative_facts :: jobject
  sr_customer_claims :: jobject
  sr_fact_provenance :: jobject
  sr_memory_summary :: "unicode option"
  sr_memory_summary_source_event_ids :: "uuid list"
  sr_memory_summary_source_review_command_ids :: "uuid list"
  sr_memory_summary_source_action_attempt_ids :: "uuid list"
  sr_memory_summary_source_timer_ids :: "string list"
  sr_open_commitments :: "unicode list"
  sr_wake_conditions :: "WakeCondition list"
  sr_based_on_event_ids :: "uuid list"
  sr_based_on_review_command_ids :: "uuid list"
  sr_based_on_action_attempt_ids :: "uuid list"
  sr_based_on_timer_ids :: "string list"

datatype intervention_status = OPEN | RESOLVED

record ProcessIntervention =
  pv_id :: uuid
  pv_tenant_id :: uuid
  pv_process_instance_id :: uuid
  pv_agent_turn_id :: uuid
  pv_kind :: string
  pv_status :: intervention_status
  pv_error_type :: unicode
  pv_error :: unicode
  pv_source_event_ids :: "uuid list"
  pv_source_review_command_ids :: "uuid list"
  pv_source_action_attempt_ids :: "uuid list"
  pv_source_timer_ids :: "string list"
  pv_resolved_by_command_id :: "uuid option"
  pv_resolved_at :: "instant option"

datatype ProcessControlType = RETRY | WAKE | TAKEOVER | RESUME

text \<open>The sources of a retried turn; every other command has an empty payload.\<close>

record control_sources =
  cs_event_ids :: "uuid list"
  cs_review_command_ids :: "uuid list"
  cs_action_attempt_ids :: "uuid list"
  cs_timer_ids :: "string list"

record ProcessControlCommand =
  pc_id :: uuid
  pc_tenant_id :: uuid
  pc_process_instance_id :: uuid
  pc_actor_id :: uuid
  pc_intervention_id :: "uuid option"
  pc_command_type :: ProcessControlType
  pc_reason :: unicode
  pc_payload :: "control_sources option"

record ActionRequest =
  ar_id :: uuid
  ar_tenant_id :: uuid
  ar_process_instance_id :: uuid
  ar_agent_turn_id :: uuid
  ar_logical_action_key :: unicode
  ar_action_type :: string
  ar_process_definition_version :: unicode
  ar_supersedes_action_request_id :: "uuid option"
  ar_current_revision :: int
  ar_status :: ActionRequestStatus
  ar_created_at :: instant

record ActionRevision =
  av_id :: uuid
  av_tenant_id :: uuid
  av_process_instance_id :: uuid
  av_action_request_id :: uuid
  av_revision :: int
  av_parameters :: jobject
  av_payload_hash :: unicode
  av_rationale :: unicode
  av_based_on_event_ids :: "uuid list"
  av_based_on_review_command_ids :: "uuid list"
  av_based_on_action_attempt_ids :: "uuid list"
  av_based_on_timer_ids :: "string list"

record ActionPolicyRecord =
  ay_id :: uuid
  ay_tenant_id :: uuid
  ay_process_instance_id :: uuid
  ay_action_request_id :: uuid
  ay_revision :: int
  ay_outcome :: PermissionOutcome
  ay_policy_version :: unicode
  ay_reason :: unicode

record ApprovalRequest =
  aq_id :: uuid
  aq_tenant_id :: uuid
  aq_process_instance_id :: uuid
  aq_action_request_id :: uuid
  aq_revision :: int
  aq_payload_hash :: unicode
  aq_status :: ApprovalStatus
  aq_expires_at :: "instant option"
  aq_required_role :: "unicode option"

record ActionAttempt =
  aa_id :: uuid
  aa_tenant_id :: uuid
  aa_process_instance_id :: uuid
  aa_action_request_id :: uuid
  aa_revision :: int
  aa_attempt_number :: int
  aa_idempotency_key :: unicode
  aa_adapter_id :: unicode
  aa_status :: ActionAttemptStatus
  aa_provider_reference :: "unicode option"
  aa_result :: "jobject option"
  aa_conflict :: "ActionConflict option"
  aa_facts :: "FactObservation list"
  aa_error :: "unicode option"
  aa_started_at :: instant
  aa_completed_at :: "instant option"

record ActionReconciliationDecision =
  rd_id :: uuid
  rd_tenant_id :: uuid
  rd_process_instance_id :: uuid
  rd_action_request_id :: uuid
  rd_action_attempt_id :: uuid
  rd_actor_id :: uuid
  rd_previous_status :: ActionAttemptStatus
  rd_resolution :: ActionResolution
  rd_evidence :: unicode
  rd_provider_reference :: "unicode option"
  rd_result :: "jobject option"

datatype thread_status = OPEN | APPROVED | REJECTED | REVISION_REQUESTED | CANCELLED

record ReviewThread =
  rt_id :: uuid
  rt_tenant_id :: uuid
  rt_process_instance_id :: uuid
  rt_approval_request_id :: uuid
  rt_status :: thread_status

record ReviewMessage =
  rm_id :: uuid
  rm_tenant_id :: uuid
  rm_process_instance_id :: uuid
  rm_review_thread_id :: uuid
  rm_actor_id :: uuid
  rm_message_type :: ReviewCommandType
  rm_content :: "unicode option"
  rm_proposal_revision :: int

datatype approval_outcome = APPROVED | REJECTED

record ApprovalDecision =
  ax_id :: uuid
  ax_tenant_id :: uuid
  ax_process_instance_id :: uuid
  ax_approval_request_id :: uuid
  ax_actor_id :: uuid
  ax_decision :: approval_outcome
  ax_payload_hash :: unicode
  ax_reason :: "unicode option"

datatype correlation_status = PENDING | MATCHED | REJECTED

record EventInbox =
  ei_id :: uuid
  ei_tenant_id :: uuid
  ei_process_instance_id :: "uuid option"
  ei_source :: unicode
  ei_source_event_id :: unicode
  ei_event_type :: string
  ei_event_data :: CanonicalEvent
  ei_correlation_status :: correlation_status
  ei_correlation_reason :: "string option"
  ei_received_at :: instant

record ExternalCorrelation =
  xc_id :: uuid
  xc_tenant_id :: uuid
  xc_process_instance_id :: uuid
  xc_provider :: unicode
  xc_resource_type :: unicode
  xc_external_id :: unicode

datatype outbox_status = PENDING | PUBLISHING | PUBLISHED | DEAD_LETTER

text \<open>The payloads the services enqueue, one constructor per message type.\<close>

datatype outbox_payload =
    ProcessEventPayload uuid string
  | ReviewCommandPayload uuid ReviewCommandType uuid uuid int
  | ActionResolutionPayload uuid uuid uuid ActionResolution
  | ProcessControlPayload uuid ProcessControlType "control_sources option"

record OutboxMessage =
  om_id :: uuid
  om_tenant_id :: uuid
  om_process_instance_id :: "uuid option"
  om_causation_event_id :: "uuid option"
  om_message_type :: string
  om_destination :: unicode
  om_deduplication_key :: unicode
  om_payload :: outbox_payload
  om_status :: outbox_status
  om_available_at :: instant
  om_attempt_count :: int
  om_claimed_at :: "instant option"
  om_claim_token :: "uuid option"
  om_last_error :: "unicode option"
  om_published_at :: "instant option"
  om_dead_lettered_at :: "instant option"
  om_created_at :: instant

record OutboxRecoveryCommand =
  oc_id :: uuid
  oc_tenant_id :: uuid
  oc_outbox_message_id :: uuid
  oc_actor_id :: uuid
  oc_reason :: unicode
  oc_previous_attempt_count :: int
  oc_previous_error :: "unicode option"
  oc_previous_dead_lettered_at :: instant

record EventResolutionCommand =
  eq_id :: uuid
  eq_tenant_id :: uuid
  eq_event_id :: uuid
  eq_process_instance_id :: uuid
  eq_actor_id :: uuid
  eq_reason :: unicode
  eq_previous_status :: correlation_status
  eq_previous_reason :: "string option"
  eq_bound_references :: "ExternalReference list"
  eq_delivery_scheduled :: bool

record ModelUsageLedger =
  ul_id :: uuid
  ul_tenant_id :: uuid
  ul_process_instance_id :: uuid
  ul_agent_turn_id :: uuid
  ul_execution_id :: uuid
  ul_attempt_number :: int
  ul_model :: unicode
  ul_input_tokens :: int
  ul_output_tokens :: int
  ul_cost_micros :: int
  ul_price_table_version :: int

datatype BreakerScope = MODEL_CALLS | OUTBOUND_MESSAGES | CAPABILITY | ALL

record CircuitBreaker =
  br_id :: uuid
  br_tenant_id :: uuid
  br_scope :: BreakerScope
  br_target :: unicode
  br_tripped :: bool
  br_reason :: unicode
  br_actor_id :: uuid
  br_created_at :: instant

record Database =
  db_tenants :: "Tenant list"
  db_safety_events :: "TenantSafetyEvent list"
  db_deployment_events :: "TenantDeploymentEvent list"
  db_credentials :: "TenantCredential list"
  db_processes :: "ProcessInstance list"
  db_state_revisions :: "ProcessStateRevision list"
  db_interventions :: "ProcessIntervention list"
  db_controls :: "ProcessControlCommand list"
  db_action_requests :: "ActionRequest list"
  db_action_revisions :: "ActionRevision list"
  db_policy_records :: "ActionPolicyRecord list"
  db_approvals :: "ApprovalRequest list"
  db_attempts :: "ActionAttempt list"
  db_reconciliations :: "ActionReconciliationDecision list"
  db_review_threads :: "ReviewThread list"
  db_review_messages :: "ReviewMessage list"
  db_approval_decisions :: "ApprovalDecision list"
  db_events :: "EventInbox list"
  db_correlations :: "ExternalCorrelation list"
  db_outbox :: "OutboxMessage list"
  db_recoveries :: "OutboxRecoveryCommand list"
  db_resolutions :: "EventResolutionCommand list"
  db_usage :: "ModelUsageLedger list"
  db_breakers :: "CircuitBreaker list"

definition empty_database :: Database where
  "empty_database =
     \<lparr>db_tenants = [], db_safety_events = [], db_deployment_events = [], db_credentials = [],
      db_processes = [], db_state_revisions = [], db_interventions = [], db_controls = [], db_action_requests = [], db_action_revisions = [],
      db_policy_records = [], db_approvals = [], db_attempts = [], db_reconciliations = [],
      db_review_threads = [], db_review_messages = [], db_approval_decisions = [], db_events = [],
      db_correlations = [], db_outbox = [], db_recoveries = [], db_resolutions = [],
      db_usage = [], db_breakers = []\<rparr>"

section \<open>Statements\<close>

text \<open>\<open>UPDATE ... WHERE\<close> on the rows a predicate selects.\<close>

definition update_rows :: "('r \<Rightarrow> bool) \<Rightarrow> ('r \<Rightarrow> 'r) \<Rightarrow> 'r list \<Rightarrow> 'r list" where
  "update_rows p f rows = map (\<lambda>r. if p r then f r else r) rows"

text \<open>
  \<open>INSERT ... ON CONFLICT ON CONSTRAINT c DO NOTHING\<close>: \<open>same\<close> compares the columns of the named
  constraint, \<open>clash\<close> those of the other unique constraints, whose violation is an error.
\<close>

datatype 'r insertion = Inserted "'r list" | Ignored | Violation

definition insert_ignore :: "('r \<Rightarrow> 'r \<Rightarrow> bool) \<Rightarrow> ('r \<Rightarrow> 'r \<Rightarrow> bool) \<Rightarrow> 'r \<Rightarrow> 'r list \<Rightarrow> 'r insertion" where
  "insert_ignore same clash row rows =
     (if list_ex (same row) rows then Ignored
      else if list_ex (clash row) rows then Violation
      else Inserted (rows @ [row]))"

lemma length_update_rows [simp]: "length (update_rows p f rows) = length rows"
  by (simp add: update_rows_def)

lemma update_rows_append [simp]: "update_rows p f (xs @ ys) = update_rows p f xs @ update_rows p f ys"
  by (simp add: update_rows_def)

lemma update_rows_none: "\<forall>r \<in> set rows. \<not> p r \<Longrightarrow> update_rows p f rows = rows"
  by (simp add: update_rows_def map_idI)

lemma map_update_rows:
  "(\<And>r. p r \<Longrightarrow> g (f r) = g r) \<Longrightarrow> map g (update_rows p f rows) = map g rows"
  by (simp add: update_rows_def)

lemma set_update_rows: "set (update_rows p f rows) = (\<lambda>r. if p r then f r else r) ` set rows"
  by (simp add: update_rows_def)

lemma update_rows_idem:
  "(\<And>r. p r \<Longrightarrow> f (f r) = f r) \<Longrightarrow> (\<And>r. p r \<Longrightarrow> p (f r)) \<Longrightarrow>
   update_rows p f (update_rows p f rows) = update_rows p f rows"
  by (simp add: update_rows_def)

lemma find_append: "find p (xs @ ys) = (case find p xs of None \<Rightarrow> find p ys | Some x \<Rightarrow> Some x)"
  by (induction xs) auto

lemma find_Some_mem: "find p xs = Some x \<Longrightarrow> x \<in> set xs \<and> p x"
  by (induction xs) (auto split: if_splits)

lemma find_None: "find p xs = None \<longleftrightarrow> (\<forall>x \<in> set xs. \<not> p x)"
  by (induction xs) auto

text \<open>A lookup whose condition an update does not affect finds the updated row.\<close>

lemma find_update_rows:
  "(\<And>r. q r \<Longrightarrow> p (f r) = p r) \<Longrightarrow>
   find p (update_rows q f rows) = map_option (\<lambda>r. if q r then f r else r) (find p rows)"
proof (induction rows)
  case Nil
  then show ?case by (simp add: update_rows_def)
next
  case (Cons r rows)
  then show ?case by (cases "q r") (simp_all add: update_rows_def)
qed

lemma find_update_key:
  assumes "\<And>r. key (f r) = key r"
  shows "find (\<lambda>r. key r = k) (update_rows (\<lambda>r. key r = k') f rows) =
           (if k = k' then map_option f (find (\<lambda>r. key r = k) rows) else find (\<lambda>r. key r = k) rows)"
proof -
  have "find (\<lambda>r. key r = k) (update_rows (\<lambda>r. key r = k') f rows) =
      map_option (\<lambda>r. if key r = k' then f r else r) (find (\<lambda>r. key r = k) rows)"
    using assms by (intro find_update_rows) simp
  then show ?thesis
    by (cases "find (\<lambda>r. key r = k) rows") (auto dest: find_Some_mem)
qed

lemma insert_ignore_Inserted:
  "insert_ignore same clash row rows = Inserted rows' \<longleftrightarrow>
     (\<forall>r \<in> set rows. \<not> same row r) \<and> (\<forall>r \<in> set rows. \<not> clash row r) \<and> rows' = rows @ [row]"
  by (auto simp: insert_ignore_def list_ex_iff)

lemma insert_ignore_Ignored:
  "insert_ignore same clash row rows = Ignored \<longleftrightarrow> (\<exists>r \<in> set rows. same row r)"
  by (auto simp: insert_ignore_def list_ex_iff)

text \<open>A plain insert (\<open>session.add\<close>): violating a unique constraint is an integrity error.\<close>

definition insert_row :: "('r \<Rightarrow> 'r \<Rightarrow> bool) \<Rightarrow> 'r \<Rightarrow> 'r list \<Rightarrow> 'r list option" where
  "insert_row clash row rows = (if list_ex (clash row) rows then None else Some (rows @ [row]))"

lemma insert_row_Some:
  "insert_row clash row rows = Some rows' \<longleftrightarrow> (\<forall>r \<in> set rows. \<not> clash row r) \<and> rows' = rows @ [row]"
  by (auto simp: insert_row_def list_ex_iff)

text \<open>
  \<open>INSERT ... ON CONFLICT DO NOTHING\<close> followed by the \<open>SELECT\<close> of the row with the same key:
  whether a row was inserted, the row found and the table. \<open>None\<close> is an integrity error.
\<close>

definition insert_select ::
  "('r \<Rightarrow> 'k) \<Rightarrow> ('r \<Rightarrow> uuid) \<Rightarrow> 'r \<Rightarrow> 'r list \<Rightarrow> (bool \<times> 'r option \<times> 'r list) option" where
  "insert_select key ident row rows =
     (case insert_ignore (\<lambda>r s. key r = key s) (\<lambda>r s. ident r = ident s) row rows of
        Violation \<Rightarrow> None
      | Inserted rows' \<Rightarrow> Some (True, find (\<lambda>r. key r = key row) rows', rows')
      | Ignored \<Rightarrow> Some (False, find (\<lambda>r. key r = key row) rows, rows))"

lemma insert_select_cases:
  assumes "insert_select key ident row rows = Some (inserted, found, rows')"
  obtains (new) "inserted" "found = Some row" "rows' = rows @ [row]"
      "\<forall>r \<in> set rows. key r \<noteq> key row \<and> ident r \<noteq> ident row"
    | (old) r where "\<not> inserted" "found = Some r" "rows' = rows" "key r = key row" "r \<in> set rows"
proof (cases "\<exists>r \<in> set rows. key row = key r")
  case True
  then have ig: "insert_ignore (\<lambda>r s. key r = key s) (\<lambda>r s. ident r = ident s) row rows = Ignored"
    by (simp add: insert_ignore_Ignored)
  from True have "find (\<lambda>r. key r = key row) rows \<noteq> None" by (auto simp: find_None)
  then obtain r where r: "find (\<lambda>r. key r = key row) rows = Some r" by blast
  show ?thesis
    using assms r find_Some_mem [OF r] by (intro old [of r]) (simp_all add: insert_select_def ig)
next
  case False
  then have none: "find (\<lambda>r. key r = key row) rows = None" by (auto simp: find_None)
  have "insert_ignore (\<lambda>r s. key r = key s) (\<lambda>r s. ident r = ident s) row rows = Inserted (rows @ [row])
      \<and> (\<forall>r \<in> set rows. ident r \<noteq> ident row)"
    using assms False
    by (auto simp: insert_select_def insert_ignore_def list_ex_iff split: if_splits)
  then show ?thesis
    using assms False by (intro new) (auto simp: insert_select_def find_append none)
qed

lemma insert_select_again:
  assumes "insert_select key ident row rows = Some (inserted, found, rows')"
  shows "insert_select key ident row rows' = Some (False, found, rows')"
  using assms
proof (cases rule: insert_select_cases)
  case new
  then have "find (\<lambda>r. key r = key row) rows = None" by (simp add: find_None)
  then show ?thesis using new by (simp add: insert_select_def insert_ignore_def find_append)
next
  case (old r)
  then have "\<exists>s \<in> set rows. key row = key s" by (intro bexI [of _ r]) simp_all
  then have "insert_ignore (\<lambda>r s. key r = key s) (\<lambda>r s. ident r = ident s) row rows = Ignored"
    by (simp add: insert_ignore_Ignored)
  then show ?thesis using assms old by (simp add: insert_select_def)
qed

text \<open>An insert whose key is taken finds the stored row, whatever the other columns hold.\<close>

lemma insert_select_taken:
  assumes "insert_select key ident row rows = Some (inserted, found, rows')" "key row' = key row"
  shows "insert_select key ident row' rows' = Some (False, found, rows')"
proof -
  have again: "insert_select key ident row rows' = Some (False, found, rows')"
    using assms(1) by (rule insert_select_again)
  then obtain r where "r \<in> set rows'" "key r = key row"
    by (cases rule: insert_select_cases) auto
  then have "\<exists>r \<in> set rows'. key row' = key r"
    using assms(2) by (intro bexI [of _ r]) simp_all
  then have "insert_ignore (\<lambda>r s. key r = key s) (\<lambda>r s. ident r = ident s) row' rows' = Ignored"
    by (simp add: insert_ignore_Ignored)
  then show ?thesis
    using again assms(2) by (auto simp: insert_select_def split: insertion.splits)
qed

lemma insert_select_fresh:
  assumes "insert_select key ident row rows = Some (inserted, found, rows')"
    and "\<forall>r \<in> set rows. key r \<noteq> key row"
  shows "inserted \<and> found = Some row \<and> rows' = rows @ [row] \<and> (\<forall>r \<in> set rows. ident r \<noteq> ident row)"
  using assms(1) by (cases rule: insert_select_cases) (use assms(2) in auto)

lemma insert_select_subset:
  "insert_select key ident row rows = Some (inserted, found, rows') \<Longrightarrow> set rows \<subseteq> set rows'"
  by (erule insert_select_cases) auto

text \<open>\<open>ORDER BY created_at DESC, id DESC LIMIT 1\<close>\<close>

fun newest_by :: "('r \<Rightarrow> instant) \<Rightarrow> ('r \<Rightarrow> uuid) \<Rightarrow> 'r list \<Rightarrow> 'r option" where
  "newest_by at ident [] = None"
| "newest_by at ident (r # rs) =
     (case newest_by at ident rs of
        None \<Rightarrow> Some r
      | Some s \<Rightarrow> if at s < at r \<or> at s = at r \<and> ident s < ident r then Some r else Some s)"

lemma newest_by_None [simp]: "newest_by at ident rs = None \<longleftrightarrow> rs = []"
  by (cases rs) (auto split: option.splits)

lemma newest_by_mem: "newest_by at ident rs = Some r \<Longrightarrow> r \<in> set rs"
  by (induction rs arbitrary: r) (auto split: option.splits if_splits)

lemma newest_by_ge: "newest_by at ident rs = Some r \<Longrightarrow> s \<in> set rs \<Longrightarrow> at s \<le> at r"
proof (induction rs arbitrary: r s)
  case (Cons x rs)
  show ?case
  proof (cases "newest_by at ident rs")
    case None
    then show ?thesis using Cons.prems by simp
  next
    case (Some a)
    have "at y \<le> at a" if "y \<in> set rs" for y using Cons.IH [OF Some that] .
    then show ?thesis using Cons.prems Some by (force split: if_splits)
  qed
qed simp

lemma newest_by_snoc: "(\<forall>s \<in> set rs. at s < at r) \<Longrightarrow> newest_by at ident (rs @ [r]) = Some r"
  by (induction rs) (auto simp: less_asym)

section \<open>Tenant checks\<close>

text \<open>\<open>security/tenancy.py\<close>\<close>

datatype tenancy_error =
    TenantUnavailable
  | TenantSuspended
  | TenantNotAuthorized
  | SafetyControlConflict
  | SafetyReasonMissing
  | SafetyReasonTooLong

definition find_tenant :: "uuid \<Rightarrow> Database \<Rightarrow> Tenant option" where
  "find_tenant tenant db = find (\<lambda>t. tn_id t = tenant) (db_tenants db)"

definition require_tenant_deployment :: "uuid \<Rightarrow> string \<Rightarrow> Database \<Rightarrow> tenancy_error + unit" where
  "require_tenant_deployment tenant deployment_id db =
     (case find_tenant tenant db of
        None \<Rightarrow> Inl TenantUnavailable
      | Some t \<Rightarrow> if tn_deployment_id t \<noteq> deployment_id then Inl TenantNotAuthorized else Inr ())"

definition require_active_tenant :: "uuid \<Rightarrow> string option \<Rightarrow> Database \<Rightarrow> tenancy_error + unit" where
  "require_active_tenant tenant deployment_id db =
     (case find_tenant tenant db of
        None \<Rightarrow> Inl TenantUnavailable
      | Some t \<Rightarrow>
          if deployment_id \<noteq> None \<and> Some (tn_deployment_id t) \<noteq> deployment_id
          then Inl TenantNotAuthorized
          else if tn_status t \<noteq> TenantStatus.ACTIVE then Inl TenantSuspended
          else Inr ())"

definition require_authorized_tenant :: "uuid \<Rightarrow> uuid set option \<Rightarrow> tenancy_error + unit" where
  "require_authorized_tenant tenant authorized =
     (case authorized of None \<Rightarrow> Inr ()
      | Some ids \<Rightarrow> require (tenant \<in> ids) TenantNotAuthorized)"

definition set_tenant_status ::
  "uuid \<Rightarrow> uuid \<Rightarrow> uuid \<Rightarrow> TenantStatus \<Rightarrow> unicode \<Rightarrow> Database \<Rightarrow> tenancy_error + TenantSafetyEvent \<times> Database" where
  "set_tenant_status new_id tenant actor new_status reason db =
     (let normalized_reason = strip reason in
      if normalized_reason = [] then Inl SafetyReasonMissing
      else if 10000 < length normalized_reason then Inl SafetyReasonTooLong
      else (case find_tenant tenant db of
              None \<Rightarrow> Inl TenantUnavailable
            | Some t \<Rightarrow>
                if tn_status t = new_status then Inl SafetyControlConflict
                else let event = \<lparr>ts_id = new_id, ts_tenant_id = tenant, ts_actor_id = actor,
                                  ts_previous_status = tn_status t, ts_new_status = new_status,
                                  ts_reason = normalized_reason\<rparr>
                     in Inr (event,
                          db\<lparr>db_tenants := update_rows (\<lambda>r. tn_id r = tenant)
                                (\<lambda>r. r\<lparr>tn_status := new_status\<rparr>) (db_tenants db),
                             db_safety_events := db_safety_events db @ [event]\<rparr>)))"

lemma require_active_tenant_ok:
  "require_active_tenant tenant deployment db = Inr u \<longleftrightarrow>
     (\<exists>t. find_tenant tenant db = Some t \<and> tn_status t = TenantStatus.ACTIVE
        \<and> (\<forall>d. deployment = Some d \<longrightarrow> tn_deployment_id t = d))"
  by (auto simp: require_active_tenant_def split: option.splits)

lemma find_tenant_set_status:
  assumes "set_tenant_status i tenant actor s reason db = Inr (e, db')"
  shows "find_tenant other db' = (if other = tenant
           then map_option (\<lambda>t. t\<lparr>tn_status := s\<rparr>) (find_tenant other db) else find_tenant other db)"
proof -
  have "db_tenants db' = update_rows (\<lambda>r. tn_id r = tenant) (\<lambda>r. r\<lparr>tn_status := s\<rparr>) (db_tenants db)"
    using assms by (auto simp: set_tenant_status_def Let_def split: if_splits option.splits)
  then show ?thesis by (simp add: find_tenant_def find_update_key)
qed

section \<open>Processes\<close>

definition find_process :: "uuid \<Rightarrow> uuid \<Rightarrow> Database \<Rightarrow> ProcessInstance option" where
  "find_process tenant process db =
     find (\<lambda>p. pi_tenant_id p = tenant \<and> pi_id p = process) (db_processes db)"

definition update_process ::
  "uuid \<Rightarrow> uuid \<Rightarrow> (ProcessInstance \<Rightarrow> ProcessInstance) \<Rightarrow> Database \<Rightarrow> Database" where
  "update_process tenant process f db =
     db\<lparr>db_processes := update_rows (\<lambda>p. pi_tenant_id p = tenant \<and> pi_id p = process) f (db_processes db)\<rparr>"

text \<open>The two sets of statuses the services test for.\<close>

definition terminal_status :: "ProcessStatus \<Rightarrow> bool" where
  "terminal_status s \<longleftrightarrow> s \<in> {ProcessStatus.COMPLETED, ProcessStatus.CANCELLED, ProcessStatus.FAILED}"

definition halted_status :: "ProcessStatus \<Rightarrow> bool" where
  "halted_status s \<longleftrightarrow> s = ProcessStatus.PAUSED \<or> terminal_status s"

lemma find_update_process:
  assumes "\<And>p. pi_tenant_id (f p) = pi_tenant_id p" "\<And>p. pi_id (f p) = pi_id p"
  shows "find_process t i (update_process tenant process f db) =
           (if t = tenant \<and> i = process then map_option f (find_process t i db) else find_process t i db)"
  using find_update_key [of "\<lambda>p. (pi_tenant_id p, pi_id p)" f "(t, i)" "(tenant, process)"] assms
  by (simp add: find_process_def update_process_def)

lemma find_process_ids: "find_process t i db = Some p \<Longrightarrow> pi_tenant_id p = t \<and> pi_id p = i"
  by (auto simp: find_process_def dest: find_Some_mem)

section \<open>Action requests, approvals and threads\<close>

text \<open>The columns of \<open>uq_action_request_ref\<close>, \<open>uq_approval_request_ref\<close> and \<open>uq_review_thread_ref\<close>.\<close>

definition request_key :: "ActionRequest \<Rightarrow> uuid \<times> uuid \<times> uuid" where
  "request_key r = (ar_tenant_id r, ar_process_instance_id r, ar_id r)"

definition approval_key :: "ApprovalRequest \<Rightarrow> uuid \<times> uuid \<times> uuid" where
  "approval_key a = (aq_tenant_id a, aq_process_instance_id a, aq_id a)"

definition thread_key :: "ReviewThread \<Rightarrow> uuid \<times> uuid \<times> uuid" where
  "thread_key t = (rt_tenant_id t, rt_process_instance_id t, rt_id t)"

lemma keys_of_updates [simp]:
  "request_key (r\<lparr>ar_status := s\<rparr>) = request_key r"
  "approval_key (a\<lparr>aq_status := s'\<rparr>) = approval_key a"
  "thread_key (t\<lparr>rt_status := s''\<rparr>) = thread_key t"
  by (simp_all add: request_key_def approval_key_def thread_key_def)

definition find_request :: "uuid \<times> uuid \<times> uuid \<Rightarrow> Database \<Rightarrow> ActionRequest option" where
  "find_request k db = find (\<lambda>r. request_key r = k) (db_action_requests db)"

definition find_approval :: "uuid \<times> uuid \<times> uuid \<Rightarrow> Database \<Rightarrow> ApprovalRequest option" where
  "find_approval k db = find (\<lambda>a. approval_key a = k) (db_approvals db)"

definition find_thread :: "uuid \<times> uuid \<times> uuid \<Rightarrow> Database \<Rightarrow> ReviewThread option" where
  "find_thread k db = find (\<lambda>t. thread_key t = k) (db_review_threads db)"

lemma find_key_of:
  "find_request k db = Some r \<Longrightarrow> request_key r = k \<and> r \<in> set (db_action_requests db)"
  "find_approval k db = Some a \<Longrightarrow> approval_key a = k \<and> a \<in> set (db_approvals db)"
  "find_thread k db = Some t \<Longrightarrow> thread_key t = k \<and> t \<in> set (db_review_threads db)"
  by (auto simp: find_request_def find_approval_def find_thread_def dest: find_Some_mem)

end
