(* ===== verification/Communication_Service.thy ===== *)
theory Communication_Service
  imports Communications Store
begin

text \<open>
  \<open>communications/safety.py\<close>: the evidence for the communication policy, projected from the event
  inbox and the action requests of a process. Every reserved outbound action counts as a
  message. Timestamps of database columns are timezone-aware.
\<close>

section \<open>Projection\<close>

definition reserved_outbound :: "ActionRequestStatus \<Rightarrow> bool" where
  "reserved_outbound s \<longleftrightarrow>
     s \<in> {ActionRequestStatus.ALLOWED, ActionRequestStatus.PENDING_APPROVAL, ActionRequestStatus.APPROVED,
          ActionRequestStatus.EXECUTING, ActionRequestStatus.SUCCEEDED, ActionRequestStatus.UNKNOWN,
          ActionRequestStatus.RECONCILING}"

text \<open>\<open>ORDER BY created_at DESC, id\<close>\<close>

definition outbound_rows :: "uuid \<Rightarrow> ProcessInstance \<Rightarrow> CommunicationPolicy \<Rightarrow> Database \<Rightarrow> ActionRequest list" where
  "outbound_rows tenant process policy db =
     sort_key (\<lambda>r. - ar_created_at r) (sort_key ar_id
       (filter (\<lambda>r. ar_tenant_id r = tenant \<and> ar_process_instance_id r = pi_id process
                  \<and> ar_action_type r \<in> cp_outbound_action_types policy \<and> reserved_outbound (ar_status r))
         (db_action_requests db)))"

definition matched_events :: "uuid \<Rightarrow> uuid \<Rightarrow> string set \<Rightarrow> Database \<Rightarrow> EventInbox list" where
  "matched_events tenant process event_types db =
     filter (\<lambda>e. ei_tenant_id e = tenant \<and> ei_process_instance_id e = Some process
               \<and> ei_correlation_status e = correlation_status.MATCHED \<and> ei_event_type e \<in> event_types)
       (db_events db)"

definition latest_event_time :: "uuid \<Rightarrow> uuid \<Rightarrow> string set \<Rightarrow> Database \<Rightarrow> instant option" where
  "latest_event_time tenant process event_types db =
     (if event_types = {} then None
      else map_option ei_received_at
             (newest_by ei_received_at ei_id (matched_events tenant process event_types db)))"

definition active_automated_response_time ::
  "uuid \<Rightarrow> uuid \<Rightarrow> string set \<Rightarrow> string set \<Rightarrow> Database \<Rightarrow> instant option" where
  "active_automated_response_time tenant process reply_types automated_types db =
     (if automated_types = {} then None
      else (case newest_by ei_received_at ei_id
                   (matched_events tenant process (reply_types \<union> automated_types) db) of
              None \<Rightarrow> None
            | Some latest \<Rightarrow>
                if ei_event_type latest \<notin> automated_types then None else Some (ei_received_at latest)))"

datatype communication_error =
    CommunicationTimeNaive
  | NotAReservation
  | CommunicationTimestamp timestamp_error

definition inspect_communication ::
  "(unicode \<Rightarrow> zone) \<Rightarrow> uuid \<Rightarrow> ProcessInstance \<Rightarrow> CommunicationPolicy \<Rightarrow> datetime \<Rightarrow> uuid option \<Rightarrow> Database
     \<Rightarrow> communication_error + CommunicationSafetySnapshot" where
  "inspect_communication zones tenant process policy now current db =
     (case now of
        Naive _ \<Rightarrow> Inl CommunicationTimeNaive
      | Aware t \<Rightarrow>
          let rows = outbound_rows tenant process policy db in
          if current \<noteq> None \<and> \<not> list_ex (\<lambda>r. Some (ar_id r) = current) rows then Inl NotAReservation
          else (case evaluate_communication_safety zones policy
                  \<lparr>sf_process_created_at = Aware (pi_created_at process),
                   sf_outbound_message_times = map (\<lambda>r. Aware (ar_created_at r)) rows,
                   sf_prior_outbound_message_times =
                     Some (map (\<lambda>r. Aware (ar_created_at r)) (filter (\<lambda>r. Some (ar_id r) \<noteq> current) rows)),
                   sf_last_human_reply_at = map_option Aware
                     (latest_event_time tenant (pi_id process) (cp_reply_event_types policy) db),
                   sf_latest_automated_response_at = map_option Aware
                     (active_automated_response_time tenant (pi_id process) (cp_reply_event_types policy)
                        (cp_automated_response_event_types policy) db),
                   sf_opted_out_at = map_option Aware
                     (latest_event_time tenant (pi_id process) (cp_opt_out_event_types policy) db),
                   sf_reserve_next_message = (current = None)\<rparr> (Aware t) of
                  Inl e \<Rightarrow> Inl (CommunicationTimestamp e)
                | Inr snapshot \<Rightarrow> Inr snapshot))"

definition process_lifetime_block ::
  "ProcessInstance \<Rightarrow> CommunicationPolicy \<Rightarrow> datetime \<Rightarrow> timestamp_error + CommunicationBlock option" where
  "process_lifetime_block process policy now =
     evaluate_process_lifetime (Aware (pi_created_at process)) policy now"

section \<open>What the projection counts\<close>

text \<open>The evidence as instants.\<close>

definition communication_evidence ::
  "uuid \<Rightarrow> ProcessInstance \<Rightarrow> CommunicationPolicy \<Rightarrow> uuid option \<Rightarrow> Database \<Rightarrow> instant safety_facts" where
  "communication_evidence tenant process policy current db =
     (let rows = outbound_rows tenant process policy db in
      \<lparr>sf_process_created_at = pi_created_at process,
       sf_outbound_message_times = map ar_created_at rows,
       sf_prior_outbound_message_times =
         Some (map ar_created_at (filter (\<lambda>r. Some (ar_id r) \<noteq> current) rows)),
       sf_last_human_reply_at = latest_event_time tenant (pi_id process) (cp_reply_event_types policy) db,
       sf_latest_automated_response_at =
         active_automated_response_time tenant (pi_id process) (cp_reply_event_types policy)
           (cp_automated_response_event_types policy) db,
       sf_opted_out_at = latest_event_time tenant (pi_id process) (cp_opt_out_event_types policy) db,
       sf_reserve_next_message = (current = None)\<rparr>)"

lemma all_as_utc_Aware [simp]: "all_as_utc label (map (\<lambda>r. Aware (f r)) rows) = Inr (map f rows)"
  by (induction rows) simp_all

lemma optional_as_utc_Aware [simp]: "optional_as_utc label (map_option Aware x) = Inr x"
  by (cases x) simp_all

lemma inspect_communication_eq:
  "inspect_communication zones tenant process policy (Aware now) current db =
     (if current \<noteq> None \<and> \<not> list_ex (\<lambda>r. Some (ar_id r) = current) (outbound_rows tenant process policy db)
      then Inl NotAReservation
      else Inr (assess_communication zones policy (communication_evidence tenant process policy current db) now))"
  by (simp add: inspect_communication_def evaluate_communication_safety_def facts_as_utc_def
      communication_evidence_def Let_def)

text \<open>A send that passes the fence satisfies every rule of the policy.\<close>

lemma inspect_communication_allowed:
  assumes "inspect_communication zones tenant process policy now current db = Inr snapshot"
    and "communication_require_allowed snapshot = Inr ()"
  obtains t where "now = Aware t"
    "may_contact zones policy (communication_evidence tenant process policy current db) t"
proof (cases now)
  case (Naive n)
  then show ?thesis using assms(1) by (simp add: inspect_communication_def)
next
  case (Aware t)
  then have "snapshot = assess_communication zones policy (communication_evidence tenant process policy current db) t"
    using assms(1) by (auto simp: inspect_communication_eq split: if_splits)
  then have "communication_blocks zones policy (communication_evidence tenant process policy current db) t = []"
    using assms(2)
    by (auto simp: communication_require_allowed_def assess_communication_def Let_def split: list.splits)
  then show ?thesis using that Aware by (simp add: blocks_Nil_may_contact)
qed

text \<open>Opting out is final: a matched opt-out event forbids every later send.\<close>

lemma opted_out_blocks:
  assumes "e \<in> set (matched_events tenant (pi_id process) (cp_opt_out_event_types policy) db)"
  shows "\<not> may_contact zones policy (communication_evidence tenant process policy current db) now"
proof -
  have "cp_opt_out_event_types policy \<noteq> {}" using assms by (auto simp: matched_events_def)
  moreover have "newest_by ei_received_at ei_id
      (matched_events tenant (pi_id process) (cp_opt_out_event_types policy) db) \<noteq> None"
    using assms by auto
  ultimately have "latest_event_time tenant (pi_id process) (cp_opt_out_event_types policy) db \<noteq> None"
    by (simp add: latest_event_time_def)
  then show ?thesis by (auto simp: may_contact_def communication_evidence_def Let_def)
qed

text \<open>The reserved messages of a process never exceed the process limit when sends pass the fence.\<close>

lemma may_contact_reserved:
  assumes "may_contact zones policy (communication_evidence tenant process policy None db) now"
  shows "int (length (outbound_rows tenant process policy db)) < cp_max_outbound_messages_per_process policy"
  using assms by (simp add: may_contact_def communication_evidence_def Let_def reservation_def)

end
