(* ===== verification/Budgets.thy ===== *)
theory Budgets
  imports Store
begin

text \<open>
  Model spend: \<open>budgets/policy.py\<close> (usage, per-process budget and its fence),
  \<open>budgets/pricing.py\<close> (integer micro-USD cost), \<open>budgets/ledger.py\<close> (the append-only usage
  ledger) and \<open>budgets/breakers.py\<close> (tenant spend caps and circuit breakers). The lemmas show
  that the fence is exactly the four caps, that recording usage is idempotent and never
  counted twice, and that a breaker's history alternates.
\<close>

section \<open>Usage and budget\<close>

record ModelUsage =
  us_input_tokens :: int
  us_output_tokens :: int

datatype budget_error =
    NegativeTokens
  | NegativeCost
  | BadAttemptNumber
  | BlankModel
  | BadPriceTableVersion
  | UsageNotReserved
  | UsageLineageChanged
  | UsageIntegrity
  | UnknownModelPrice unicode
  | NegativePrice
  | OverridePriceOutOfRange

definition make_ModelUsage :: "int \<Rightarrow> int \<Rightarrow> budget_error + ModelUsage" where
  "make_ModelUsage input_tokens output_tokens =
     (if input_tokens < 0 \<or> output_tokens < 0 then Inl NegativeTokens
      else Inr \<lparr>us_input_tokens = input_tokens, us_output_tokens = output_tokens\<rparr>)"

definition total_tokens :: "ModelUsage \<Rightarrow> int" where
  "total_tokens u = us_input_tokens u + us_output_tokens u"

definition add_usage :: "ModelUsage \<Rightarrow> ModelUsage \<Rightarrow> budget_error + ModelUsage" where
  "add_usage u v =
     make_ModelUsage (us_input_tokens u + us_input_tokens v) (us_output_tokens u + us_output_tokens v)"

record ModelBudget =
  mb_max_input_tokens_per_process :: int
  mb_max_output_tokens_per_process :: int
  mb_max_total_tokens_per_process :: int
  mb_max_cost_micros_per_process :: int

definition model_budget :: "ProcessDefinition \<Rightarrow> ModelBudget" where
  "model_budget d =
     (let limits = pd_limits d in
      \<lparr>mb_max_input_tokens_per_process = pl_max_model_input_tokens_per_process limits,
       mb_max_output_tokens_per_process = pl_max_model_output_tokens_per_process limits,
       mb_max_total_tokens_per_process = pl_max_model_total_tokens_per_process limits,
       mb_max_cost_micros_per_process = pl_max_model_cost_micros_per_process limits\<rparr>)"

text \<open>A block's code fixes its message, except for the two tenant caps and open breakers.\<close>

datatype ModelBudgetBlock =
    INPUT_TOKEN_LIMIT
  | OUTPUT_TOKEN_LIMIT
  | TOTAL_TOKEN_LIMIT
  | COST_LIMIT
  | TENANT_TOKEN_SPEND_LIMIT
  | TENANT_COST_SPEND_LIMIT

record ModelBudgetSnapshot =
  bs_evaluated_spent :: ModelUsage
  bs_evaluated_cost_micros :: int
  bs_model_allowed_now :: bool
  bs_blocks :: "ModelBudgetBlock list"

definition budget_require_allowed :: "ModelBudgetSnapshot \<Rightarrow> ModelBudgetBlock + unit" where
  "budget_require_allowed s = (case bs_blocks s of [] \<Rightarrow> Inr () | b # _ \<Rightarrow> Inl b)"

definition budget_blocks :: "ModelBudget \<Rightarrow> ModelUsage \<Rightarrow> int \<Rightarrow> ModelBudgetBlock list" where
  "budget_blocks budget spent spent_cost_micros =
     (if mb_max_input_tokens_per_process budget \<le> us_input_tokens spent then [INPUT_TOKEN_LIMIT] else [])
     @ (if mb_max_output_tokens_per_process budget \<le> us_output_tokens spent then [OUTPUT_TOKEN_LIMIT] else [])
     @ (if mb_max_total_tokens_per_process budget \<le> total_tokens spent then [TOTAL_TOKEN_LIMIT] else [])
     @ (if mb_max_cost_micros_per_process budget \<le> spent_cost_micros then [COST_LIMIT] else [])"

definition assess_budget :: "ModelBudget \<Rightarrow> ModelUsage \<Rightarrow> int \<Rightarrow> ModelBudgetSnapshot" where
  "assess_budget budget spent spent_cost_micros =
     (let blocks = budget_blocks budget spent spent_cost_micros in
      \<lparr>bs_evaluated_spent = spent, bs_evaluated_cost_micros = spent_cost_micros,
       bs_model_allowed_now = (blocks = []), bs_blocks = blocks\<rparr>)"

definition evaluate_model_budget ::
  "ModelBudget \<Rightarrow> ModelUsage \<Rightarrow> int \<Rightarrow> budget_error + ModelBudgetSnapshot" where
  "evaluate_model_budget budget spent spent_cost_micros =
     (if spent_cost_micros < 0 then Inl NegativeCost
      else Inr (assess_budget budget spent spent_cost_micros))"

section \<open>Prices\<close>

definition PRICE_TABLE_VERSION :: int where
  "PRICE_TABLE_VERSION = 1"

record PriceEntry =
  pe_input_micros_per_million_tokens :: int
  pe_output_micros_per_million_tokens :: int

definition make_PriceEntry :: "int \<Rightarrow> int \<Rightarrow> budget_error + PriceEntry" where
  "make_PriceEntry input_price output_price =
     (if input_price < 0 \<or> output_price < 0 then Inl NegativePrice
      else Inr \<lparr>pe_input_micros_per_million_tokens = input_price,
                pe_output_micros_per_million_tokens = output_price\<rparr>)"

definition DEFAULT_MODEL_PRICES :: "(unicode \<times> PriceEntry) list" where
  "DEFAULT_MODEL_PRICES =
     [(ascii ''gpt-4o'', \<lparr>pe_input_micros_per_million_tokens = 2500000,
                          pe_output_micros_per_million_tokens = 10000000\<rparr>),
      (ascii ''gpt-4o-mini'', \<lparr>pe_input_micros_per_million_tokens = 150000,
                               pe_output_micros_per_million_tokens = 600000\<rparr>),
      (ascii ''gpt-4.1'', \<lparr>pe_input_micros_per_million_tokens = 2000000,
                           pe_output_micros_per_million_tokens = 8000000\<rparr>),
      (ascii ''gpt-4.1-mini'', \<lparr>pe_input_micros_per_million_tokens = 400000,
                                pe_output_micros_per_million_tokens = 1600000\<rparr>),
      (ascii ''o4-mini'', \<lparr>pe_input_micros_per_million_tokens = 1100000,
                           pe_output_micros_per_million_tokens = 4400000\<rparr>)]"

text \<open>\<open>ModelPriceOverride\<close>: the constructor's bounds, then the price entry.\<close>

definition override_price_entry :: "int \<times> int \<Rightarrow> budget_error + PriceEntry" where
  "override_price_entry p =
     (if fst p < 0 \<or> 10 ^ 15 < fst p \<or> snd p < 0 \<or> 10 ^ 15 < snd p then Inl OverridePriceOutOfRange
      else make_PriceEntry (fst p) (snd p))"

fun merge_prices ::
  "(unicode \<times> int \<times> int) list \<Rightarrow> (unicode \<times> PriceEntry) list
     \<Rightarrow> budget_error + (unicode \<times> PriceEntry) list" where
  "merge_prices [] resolved = Inr resolved"
| "merge_prices ((model, override) # rest) resolved =
     (if strip model = [] then Inl BlankModel
      else bind_result (override_price_entry override) (\<lambda>entry.
             merge_prices rest (AList.update model entry resolved)))"

definition resolve_model_prices ::
  "(unicode \<times> int \<times> int) list \<Rightarrow> budget_error + (unicode \<times> PriceEntry) list" where
  "resolve_model_prices overrides = merge_prices overrides DEFAULT_MODEL_PRICES"

definition require_priced_model :: "unicode \<Rightarrow> (unicode \<times> PriceEntry) list \<Rightarrow> budget_error + unit" where
  "require_priced_model model prices =
     (if strip model = [] then Inl BlankModel
      else if map_of prices model = None then Inl (UnknownModelPrice model)
      else Inr ())"

text \<open>Python's \<open>//\<close> on integers is floor division, as \<open>div\<close> is.\<close>

definition estimate_cost_micros ::
  "unicode \<Rightarrow> ModelUsage \<Rightarrow> (unicode \<times> PriceEntry) list \<Rightarrow> budget_error + int" where
  "estimate_cost_micros model usage prices =
     (if strip model = [] then Inl BlankModel
      else (case map_of prices model of
              None \<Rightarrow> Inl (UnknownModelPrice model)
            | Some entry \<Rightarrow>
                Inr (us_input_tokens usage * pe_input_micros_per_million_tokens entry div 1000000
                     + us_output_tokens usage * pe_output_micros_per_million_tokens entry div 1000000)))"

section \<open>Ledger\<close>

record usage_command =
  uc_tenant_id :: uuid
  uc_process_instance_id :: uuid
  uc_agent_turn_id :: uuid
  uc_attempt_number :: int
  uc_model :: unicode
  uc_usage :: ModelUsage
  uc_cost_micros :: int
  uc_price_table_version :: int
  uc_execution_id :: uuid

text \<open>The identity of \<open>uq_model_usage_turn_attempt\<close>.\<close>

definition usage_key :: "ModelUsageLedger \<Rightarrow> uuid \<times> uuid \<times> uuid \<times> uuid \<times> int" where
  "usage_key r = (ul_tenant_id r, ul_process_instance_id r, ul_agent_turn_id r, ul_execution_id r,
     ul_attempt_number r)"

definition usage_row :: "uuid \<Rightarrow> usage_command \<Rightarrow> ModelUsageLedger" where
  "usage_row new_id c =
     \<lparr>ul_id = new_id, ul_tenant_id = uc_tenant_id c,
      ul_process_instance_id = uc_process_instance_id c, ul_agent_turn_id = uc_agent_turn_id c,
      ul_execution_id = uc_execution_id c, ul_attempt_number = uc_attempt_number c,
      ul_model = uc_model c, ul_input_tokens = us_input_tokens (uc_usage c),
      ul_output_tokens = us_output_tokens (uc_usage c), ul_cost_micros = uc_cost_micros c,
      ul_price_table_version = uc_price_table_version c\<rparr>"

definition same_usage :: "ModelUsageLedger \<Rightarrow> usage_command \<Rightarrow> bool" where
  "same_usage existing c \<longleftrightarrow>
     ul_model existing = uc_model c \<and> ul_input_tokens existing = us_input_tokens (uc_usage c)
     \<and> ul_output_tokens existing = us_output_tokens (uc_usage c)
     \<and> ul_cost_micros existing = uc_cost_micros c
     \<and> ul_price_table_version existing = uc_price_table_version c"

text \<open>\<open>ModelUsageService.record\<close>; \<open>new_id\<close> is the generated key.\<close>

definition record_usage :: "uuid \<Rightarrow> usage_command \<Rightarrow> Database \<Rightarrow> budget_error + uuid \<times> Database" where
  "record_usage new_id c db =
     (if uc_attempt_number c < 1 then Inl BadAttemptNumber
      else if strip (uc_model c) = [] then Inl BlankModel
      else if uc_cost_micros c < 0 then Inl NegativeCost
      else if uc_price_table_version c < 1 then Inl BadPriceTableVersion
      else let row = usage_row new_id c in
        (case insert_ignore (\<lambda>r s. usage_key r = usage_key s) (\<lambda>r s. ul_id r = ul_id s) row (db_usage db) of
           Violation \<Rightarrow> Inl UsageIntegrity
         | Inserted rows \<Rightarrow> Inr (new_id, db\<lparr>db_usage := rows\<rparr>)
         | Ignored \<Rightarrow>
             (case find (\<lambda>r. usage_key r = usage_key row) (db_usage db) of
                None \<Rightarrow> Inl UsageNotReserved
              | Some existing \<Rightarrow>
                  if same_usage existing c then Inr (ul_id existing, db)
                  else Inl UsageLineageChanged)))"

definition sum_usage :: "ModelUsageLedger list \<Rightarrow> budget_error + ModelUsage \<times> int" where
  "sum_usage rows =
     bind_result (make_ModelUsage (sum_list (map ul_input_tokens rows)) (sum_list (map ul_output_tokens rows)))
       (\<lambda>u. Inr (u, sum_list (map ul_cost_micros rows)))"

definition spent :: "uuid \<Rightarrow> uuid \<Rightarrow> Database \<Rightarrow> budget_error + ModelUsage \<times> int" where
  "spent tenant process db =
     sum_usage (filter (\<lambda>r. ul_tenant_id r = tenant \<and> ul_process_instance_id r = process) (db_usage db))"

definition inspect_budget :: "uuid \<Rightarrow> uuid \<Rightarrow> ModelBudget \<Rightarrow> Database \<Rightarrow> budget_error + ModelBudgetSnapshot" where
  "inspect_budget tenant process budget db =
     bind_result (spent tenant process db) (\<lambda>(usage, cost_micros).
       evaluate_model_budget budget usage cost_micros)"

definition tenant_spent :: "uuid \<Rightarrow> Database \<Rightarrow> budget_error + ModelUsage \<times> int" where
  "tenant_spent tenant db = sum_usage (filter (\<lambda>r. ul_tenant_id r = tenant) (db_usage db))"

section \<open>Tenant caps and circuit breakers\<close>

record TenantSpendCaps =
  tc_max_tokens :: int
  tc_max_cost_micros :: int

definition DEFAULT_TENANT_SPEND_CAPS :: TenantSpendCaps where
  "DEFAULT_TENANT_SPEND_CAPS = \<lparr>tc_max_tokens = 100000000, tc_max_cost_micros = 2000000000\<rparr>"

definition evaluate_tenant_spend :: "ModelUsage \<Rightarrow> int \<Rightarrow> TenantSpendCaps \<Rightarrow> ModelBudgetBlock option" where
  "evaluate_tenant_spend usage spent_cost_micros caps =
     (if tc_max_tokens caps \<le> total_tokens usage then Some TENANT_TOKEN_SPEND_LIMIT
      else if tc_max_cost_micros caps \<le> spent_cost_micros then Some TENANT_COST_SPEND_LIMIT
      else None)"

datatype breaker_error =
    BlankCapabilityTarget
  | CapabilityTargetTooLong
  | TargetNotAccepted
  | BreakerReasonMissing
  | BreakerReasonTooLong
  | BreakerConflict bool

definition normalize_breaker_target :: "BreakerScope \<Rightarrow> unicode \<Rightarrow> breaker_error + unicode" where
  "normalize_breaker_target scope target =
     (if scope = CAPABILITY then
        (if strip target = [] then Inl BlankCapabilityTarget
         else if 200 < length (strip target) then Inl CapabilityTargetTooLong
         else Inr (strip target))
      else if target \<noteq> [] then Inl TargetNotAccepted
      else Inr [])"

definition breaker_rows :: "uuid \<Rightarrow> BreakerScope \<Rightarrow> unicode \<Rightarrow> Database \<Rightarrow> CircuitBreaker list" where
  "breaker_rows tenant scope target db =
     filter (\<lambda>r. br_tenant_id r = tenant \<and> br_scope r = scope \<and> br_target r = target) (db_breakers db)"

definition latest_breaker ::
  "uuid \<Rightarrow> BreakerScope \<Rightarrow> unicode \<Rightarrow> Database \<Rightarrow> breaker_error + CircuitBreaker option" where
  "latest_breaker tenant scope target db =
     bind_result (normalize_breaker_target scope target) (\<lambda>normalized.
       Inr (newest_by br_created_at br_id (breaker_rows tenant scope normalized db)))"

definition is_tripped :: "CircuitBreaker option \<Rightarrow> bool" where
  "is_tripped state = (case state of None \<Rightarrow> False | Some r \<Rightarrow> br_tripped r)"

text \<open>The first scope of the list whose breaker is open.\<close>

fun open_breaker :: "uuid \<Rightarrow> (BreakerScope \<times> unicode) list \<Rightarrow> Database \<Rightarrow> breaker_error + CircuitBreaker option" where
  "open_breaker tenant [] db = Inr None"
| "open_breaker tenant ((scope, target) # rest) db =
     bind_result (latest_breaker tenant scope target db) (\<lambda>state.
       if is_tripped state then Inr state else open_breaker tenant rest db)"

definition open_for_model_calls :: "uuid \<Rightarrow> Database \<Rightarrow> breaker_error + CircuitBreaker option" where
  "open_for_model_calls tenant db = open_breaker tenant [(BreakerScope.ALL, []), (MODEL_CALLS, [])] db"

definition open_for_outbound :: "uuid \<Rightarrow> Database \<Rightarrow> breaker_error + CircuitBreaker option" where
  "open_for_outbound tenant db = open_breaker tenant [(BreakerScope.ALL, []), (OUTBOUND_MESSAGES, [])] db"

definition open_for_capability :: "uuid \<Rightarrow> string \<Rightarrow> Database \<Rightarrow> breaker_error + CircuitBreaker option" where
  "open_for_capability tenant action_type db =
     open_breaker tenant [(BreakerScope.ALL, []), (CAPABILITY, ascii action_type)] db"

text \<open>\<open>_transition\<close>: \<open>new_id\<close> and \<open>now\<close> are the generated key and the clock.\<close>

definition breaker_transition ::
  "uuid \<Rightarrow> instant \<Rightarrow> uuid \<Rightarrow> BreakerScope \<Rightarrow> unicode \<Rightarrow> uuid \<Rightarrow> unicode \<Rightarrow> bool \<Rightarrow> Database
     \<Rightarrow> breaker_error + CircuitBreaker \<times> Database" where
  "breaker_transition new_id now tenant scope target actor reason tripped db =
     (let normalized_reason = strip reason in
      if normalized_reason = [] then Inl BreakerReasonMissing
      else if 10000 < length normalized_reason then Inl BreakerReasonTooLong
      else bind_result (normalize_breaker_target scope target) (\<lambda>normalized_target.
           bind_result (latest_breaker tenant scope target db) (\<lambda>current.
             if is_tripped current = tripped then Inl (BreakerConflict tripped)
             else let transitioned_at = (case current of None \<Rightarrow> now | Some c \<Rightarrow> max now (br_created_at c + 1));
                      row = \<lparr>br_id = new_id, br_tenant_id = tenant, br_scope = scope,
                             br_target = normalized_target, br_tripped = tripped,
                             br_reason = normalized_reason, br_actor_id = actor,
                             br_created_at = transitioned_at\<rparr>
                  in Inr (row, db\<lparr>db_breakers := db_breakers db @ [row]\<rparr>))))"

definition trip_breaker where
  "trip_breaker new_id now tenant scope target actor reason db =
     breaker_transition new_id now tenant scope target actor reason True db"

definition reset_breaker where
  "reset_breaker new_id now tenant scope target actor reason db =
     breaker_transition new_id now tenant scope target actor reason False db"

section \<open>The fence\<close>

interpretation model_calls: fence
  "\<lambda>(budget, usage, cost). bs_blocks (assess_budget budget usage cost)"
  "\<lambda>(budget, usage, cost). bs_model_allowed_now (assess_budget budget usage cost)"
  "\<lambda>(budget, usage, cost). budget_require_allowed (assess_budget budget usage cost)"
  by unfold_locales (simp_all add: assess_budget_def budget_require_allowed_def Let_def case_prod_beta)

lemma budget_blocks_Nil:
  "budget_blocks b u cost = [] \<longleftrightarrow>
     us_input_tokens u < mb_max_input_tokens_per_process b
     \<and> us_output_tokens u < mb_max_output_tokens_per_process b
     \<and> total_tokens u < mb_max_total_tokens_per_process b
     \<and> cost < mb_max_cost_micros_per_process b"
  by (simp add: budget_blocks_def not_le)

section \<open>Cost\<close>

lemma estimate_cost_monotone:
  assumes "estimate_cost_micros m u prices = Inr c" "estimate_cost_micros m v prices = Inr c'"
    and "us_input_tokens u \<le> us_input_tokens v" "us_output_tokens u \<le> us_output_tokens v"
    and "\<forall>(k, e) \<in> set prices. 0 \<le> pe_input_micros_per_million_tokens e
           \<and> 0 \<le> pe_output_micros_per_million_tokens e"
  shows "c \<le> c'"
proof -
  obtain e where e: "map_of prices m = Some e"
    using assms(1) by (auto simp: estimate_cost_micros_def split: if_splits option.splits)
  then have "0 \<le> pe_input_micros_per_million_tokens e" "0 \<le> pe_output_micros_per_million_tokens e"
    using assms(5) map_of_SomeD [OF e] by auto
  then show ?thesis
    using assms(1-4) e
    by (auto simp: estimate_cost_micros_def split: if_splits
        intro!: add_mono zdiv_mono1 mult_right_mono)
qed

text \<open>Rounding down loses less than one micro-USD per price component.\<close>

lemma estimate_cost_rounding:
  assumes "estimate_cost_micros m u prices = Inr c" "map_of prices m = Some e"
  shows "1000000 * c \<le> us_input_tokens u * pe_input_micros_per_million_tokens e
             + us_output_tokens u * pe_output_micros_per_million_tokens e"
    and "us_input_tokens u * pe_input_micros_per_million_tokens e
             + us_output_tokens u * pe_output_micros_per_million_tokens e < 1000000 * (c + 2)"
proof -
  let ?x = "us_input_tokens u * pe_input_micros_per_million_tokens e"
    and ?y = "us_output_tokens u * pe_output_micros_per_million_tokens e"
  have c: "c = ?x div 1000000 + ?y div 1000000"
    using assms by (auto simp: estimate_cost_micros_def split: if_splits)
  have "1000000 * (?x div 1000000) \<le> ?x" "?x < 1000000 * (?x div 1000000) + 1000000"
    "1000000 * (?y div 1000000) \<le> ?y" "?y < 1000000 * (?y div 1000000) + 1000000"
    by presburger+
  then show "1000000 * c \<le> ?x + ?y" "?x + ?y < 1000000 * (c + 2)" by (simp_all add: c distrib_left)
qed

section \<open>The ledger\<close>

definition ledger_ok :: "Database \<Rightarrow> bool" where
  "ledger_ok db \<longleftrightarrow>
     distinct (map usage_key (db_usage db)) \<and> distinct (map ul_id (db_usage db))
     \<and> (\<forall>r \<in> set (db_usage db). 1 \<le> ul_attempt_number r \<and> 0 \<le> ul_input_tokens r
          \<and> 0 \<le> ul_output_tokens r \<and> 0 \<le> ul_cost_micros r)"

lemma usage_row_fields [simp]:
  "ul_id (usage_row i c) = i" "ul_tenant_id (usage_row i c) = uc_tenant_id c"
  "ul_process_instance_id (usage_row i c) = uc_process_instance_id c"
  "ul_attempt_number (usage_row i c) = uc_attempt_number c"
  "ul_input_tokens (usage_row i c) = us_input_tokens (uc_usage c)"
  "ul_output_tokens (usage_row i c) = us_output_tokens (uc_usage c)"
  "ul_cost_micros (usage_row i c) = uc_cost_micros c"
  by (simp_all add: usage_row_def)

lemma same_usage_row [simp]: "same_usage (usage_row i c) c"
  by (simp add: same_usage_def usage_row_def)

lemma record_usage_cases:
  assumes "record_usage i c db = Inr (r, db')"
  obtains (appended) "db' = db\<lparr>db_usage := db_usage db @ [usage_row i c]\<rparr>" "r = i"
      "\<forall>x \<in> set (db_usage db). usage_key x \<noteq> usage_key (usage_row i c) \<and> ul_id x \<noteq> i"
    | (known) existing where "db' = db" "r = ul_id existing" "same_usage existing c"
        "find (\<lambda>x. usage_key x = usage_key (usage_row i c)) (db_usage db) = Some existing"
proof (cases "insert_ignore (\<lambda>r s. usage_key r = usage_key s) (\<lambda>r s. ul_id r = ul_id s)
      (usage_row i c) (db_usage db)")
  case (Inserted rows)
  then have "\<forall>x \<in> set (db_usage db). usage_key x \<noteq> usage_key (usage_row i c) \<and> ul_id x \<noteq> i"
    and rows: "rows = db_usage db @ [usage_row i c]" by (auto simp: insert_ignore_Inserted)
  moreover have "db' = db\<lparr>db_usage := rows\<rparr>" "r = i"
    using assms Inserted by (simp_all add: record_usage_def Let_def split: if_splits)
  ultimately show ?thesis using appended by blast
next
  case Ignored
  then obtain existing where "db' = db" "r = ul_id existing" "same_usage existing c"
    "find (\<lambda>x. usage_key x = usage_key (usage_row i c)) (db_usage db) = Some existing"
    using assms by (simp add: record_usage_def Let_def split: if_splits option.splits) blast
  then show ?thesis by (rule known)
next
  case Violation
  then show ?thesis using assms by (simp add: record_usage_def Let_def split: if_splits)
qed

lemma record_usage_valid:
  assumes "record_usage i c db = Inr (r, db')"
  shows "1 \<le> uc_attempt_number c" "strip (uc_model c) \<noteq> []" "0 \<le> uc_cost_micros c"
    "1 \<le> uc_price_table_version c"
  using assms by (auto simp: record_usage_def split: if_splits)

lemma record_usage_replay:
  assumes rec: "record_usage i c db = Inr (r, db')"
  shows "record_usage j c db' = Inr (r, db')"
  using rec
proof (cases rule: record_usage_cases)
  case appended
  have key: "usage_key (usage_row j c) = usage_key (usage_row i c)"
    by (simp add: usage_key_def usage_row_def)
  have "find (\<lambda>x. usage_key x = usage_key (usage_row i c)) (db_usage db) = None"
    using appended(3) by (simp add: find_None)
  then have "find (\<lambda>x. usage_key x = usage_key (usage_row i c)) (db_usage db @ [usage_row i c])
      = Some (usage_row i c)"
    by (simp add: find_append)
  then show ?thesis using record_usage_valid [OF rec] appended
    by (simp add: record_usage_def Let_def insert_ignore_def key)
next
  case (known existing)
  have key: "usage_key (usage_row j c) = usage_key (usage_row i c)"
    by (simp add: usage_key_def usage_row_def)
  have "list_ex (\<lambda>s. usage_key (usage_row i c) = usage_key s) (db_usage db)"
    using find_Some_mem [OF known(4)] by (auto simp: list_ex_iff intro!: bexI [of _ existing])
  then show ?thesis using record_usage_valid [OF rec] known
    by (simp add: record_usage_def Let_def insert_ignore_def key)
qed

interpretation usage: idempotent_command record_usage
  by unfold_locales (rule record_usage_replay)

lemma record_usage_keeps_ledger:
  assumes "ledger_ok db" "record_usage i c db = Inr (r, db')"
    and "0 \<le> us_input_tokens (uc_usage c)" "0 \<le> us_output_tokens (uc_usage c)"
  shows "ledger_ok db'"
  using assms(2)
proof (cases rule: record_usage_cases)
  case appended
  then show ?thesis using assms(1,3,4) record_usage_valid [OF assms(2)]
    by (auto simp: ledger_ok_def)
next
  case (known existing)
  then show ?thesis using assms(1) by simp
qed

text \<open>Spend is the sum of what was accepted: an accepted record adds its usage exactly once.\<close>

lemma spent_defined:
  assumes "ledger_ok db"
  obtains u where "spent t p db = Inr (u, sum_list (map ul_cost_micros
      (filter (\<lambda>r. ul_tenant_id r = t \<and> ul_process_instance_id r = p) (db_usage db))))"
    "us_input_tokens u = sum_list (map ul_input_tokens
      (filter (\<lambda>r. ul_tenant_id r = t \<and> ul_process_instance_id r = p) (db_usage db)))"
    "us_output_tokens u = sum_list (map ul_output_tokens
      (filter (\<lambda>r. ul_tenant_id r = t \<and> ul_process_instance_id r = p) (db_usage db)))"
proof -
  let ?rows = "filter (\<lambda>r. ul_tenant_id r = t \<and> ul_process_instance_id r = p) (db_usage db)"
  have "0 \<le> sum_list (map ul_input_tokens ?rows)" "0 \<le> sum_list (map ul_output_tokens ?rows)"
    using assms by (auto simp: ledger_ok_def intro!: sum_list_nonneg)
  then show ?thesis
    by (intro that [of "\<lparr>us_input_tokens = sum_list (map ul_input_tokens ?rows),
          us_output_tokens = sum_list (map ul_output_tokens ?rows)\<rparr>"])
      (simp_all add: spent_def sum_usage_def make_ModelUsage_def)
qed

lemma record_usage_spent:
  assumes "ledger_ok db" "record_usage i c db = Inr (r, db')" "spent t p db = Inr (u, cost)"
    and "0 \<le> us_input_tokens (uc_usage c)" "0 \<le> us_output_tokens (uc_usage c)"
  shows "\<exists>u' cost'. spent t p db' = Inr (u', cost')
     \<and> (if t = uc_tenant_id c \<and> p = uc_process_instance_id c
           \<and> (\<forall>x \<in> set (db_usage db). usage_key x \<noteq> usage_key (usage_row i c))
        then cost' = cost + uc_cost_micros c
          \<and> us_input_tokens u' = us_input_tokens u + us_input_tokens (uc_usage c)
          \<and> us_output_tokens u' = us_output_tokens u + us_output_tokens (uc_usage c)
        else u' = u \<and> cost' = cost)"
  using assms(2)
proof (cases rule: record_usage_cases)
  case appended
  have "ledger_ok db'" using record_usage_keeps_ledger assms(1,2,4,5) by blast
  then obtain u' where u': "spent t p db' = Inr (u', sum_list (map ul_cost_micros
      (filter (\<lambda>r. ul_tenant_id r = t \<and> ul_process_instance_id r = p) (db_usage db'))))"
    "us_input_tokens u' = sum_list (map ul_input_tokens
      (filter (\<lambda>r. ul_tenant_id r = t \<and> ul_process_instance_id r = p) (db_usage db')))"
    "us_output_tokens u' = sum_list (map ul_output_tokens
      (filter (\<lambda>r. ul_tenant_id r = t \<and> ul_process_instance_id r = p) (db_usage db')))"
    by (rule spent_defined)
  obtain v where v: "spent t p db = Inr (v, sum_list (map ul_cost_micros
      (filter (\<lambda>r. ul_tenant_id r = t \<and> ul_process_instance_id r = p) (db_usage db))))"
    "us_input_tokens v = sum_list (map ul_input_tokens
      (filter (\<lambda>r. ul_tenant_id r = t \<and> ul_process_instance_id r = p) (db_usage db)))"
    "us_output_tokens v = sum_list (map ul_output_tokens
      (filter (\<lambda>r. ul_tenant_id r = t \<and> ul_process_instance_id r = p) (db_usage db)))"
    using assms(1) by (rule spent_defined)
  show ?thesis using appended u' v assms(3) by auto
next
  case (known existing)
  then show ?thesis using assms(3) find_Some_mem [OF known(4)] by auto
qed

section \<open>Breakers\<close>

lemma breaker_transition_latest:
  assumes "breaker_transition i now t scope target actor reason tripped db = Inr (row, db')"
  shows "latest_breaker t scope target db' = Inr (Some row)" "br_tripped row = tripped"
    "\<exists>current. latest_breaker t scope target db = Inr current \<and> is_tripped current = (\<not> tripped)"
proof -
  obtain n where n: "normalize_breaker_target scope target = Inr n"
    using assms by (auto simp: breaker_transition_def Let_def split: if_splits)
  let ?rows = "breaker_rows t scope n db"
  have cur: "latest_breaker t scope target db = Inr (newest_by br_created_at br_id ?rows)"
    by (simp add: latest_breaker_def n)
  have row: "br_created_at row = (case newest_by br_created_at br_id ?rows of None \<Rightarrow> now | Some c \<Rightarrow> max now (br_created_at c + 1))"
    "br_tripped row = tripped" "br_tenant_id row = t" "br_scope row = scope" "br_target row = n"
    "is_tripped (newest_by br_created_at br_id ?rows) \<noteq> tripped" "db' = db\<lparr>db_breakers := db_breakers db @ [row]\<rparr>"
    using assms by (auto simp: breaker_transition_def Let_def n cur split: if_splits)
  have "br_created_at s < br_created_at row" if "s \<in> set ?rows" for s
  proof (cases "newest_by br_created_at br_id ?rows")
    case None
    then show ?thesis using that by (simp add: newest_by_None)
  next
    case (Some c)
    then show ?thesis using row(1) newest_by_ge [OF Some that] by simp
  qed
  moreover have "breaker_rows t scope n db' = ?rows @ [row]"
    using row by (simp add: breaker_rows_def)
  ultimately show "latest_breaker t scope target db' = Inr (Some row)"
    by (simp add: latest_breaker_def n newest_by_snoc)
  show "br_tripped row = tripped" by (rule row(2))
  show "\<exists>current. latest_breaker t scope target db = Inr current \<and> is_tripped current = (\<not> tripped)"
    using cur row(6) by blast
qed

lemma breaker_transition_other:
  assumes "breaker_transition i now t scope target actor reason tripped db = Inr (row, db')"
    and "latest_breaker t' scope' target' db = Inr current"
    and "t' \<noteq> t \<or> scope' \<noteq> scope \<or> normalize_breaker_target scope' target' \<noteq> normalize_breaker_target scope target"
  shows "latest_breaker t' scope' target' db' = Inr current"
proof -
  obtain n n' where n: "normalize_breaker_target scope target = Inr n"
    "normalize_breaker_target scope' target' = Inr n'"
    using assms(1,2) by (auto simp: breaker_transition_def latest_breaker_def Let_def split: if_splits)
  have row: "br_tenant_id row = t" "br_scope row = scope" "br_target row = n"
    "db' = db\<lparr>db_breakers := db_breakers db @ [row]\<rparr>"
    using assms(1) n by (auto simp: breaker_transition_def Let_def split: if_splits)
  then have "breaker_rows t' scope' n' db' = breaker_rows t' scope' n' db"
    using assms(3) n by (auto simp: breaker_rows_def)
  then show ?thesis using assms(2) by (simp add: latest_breaker_def n)
qed

text \<open>A trip of the general breaker stops every guarded operation of the tenant.\<close>

lemma open_breaker_general:
  assumes "latest_breaker t BreakerScope.ALL [] db = Inr (Some row)" "br_tripped row"
  shows "open_for_model_calls t db = Inr (Some row)" "open_for_outbound t db = Inr (Some row)"
    "open_for_capability t action_type db = Inr (Some row)"
  using assms by (simp_all add: open_for_model_calls_def open_for_outbound_def open_for_capability_def
      is_tripped_def)

end
