(* ===== verification/Outbox.thy ===== *)
theory Outbox
  imports Store Mailbox
begin

text \<open>
  The delivery outbox: \<open>temporal/dispatcher.py\<close> (claim a message, send it to the process mailbox
  by Signal-With-Start, record the outcome) and \<open>events/outbox_recovery.py\<close> (an operator
  requeues a dead-lettered message). \<open>enqueue\<close> is the insert every service uses. Between the
  transactions of one dispatch other workers may commit anything: \<open>de_gap\<close> is an arbitrary
  function on the database. What the Temporal client answers is an argument.
\<close>

section \<open>Enqueueing\<close>

definition outbox_key :: "OutboxMessage \<Rightarrow> uuid \<times> unicode" where
  "outbox_key m = (om_tenant_id m, om_deduplication_key m)"

text \<open>A new row with the column defaults.\<close>

definition new_message ::
  "uuid \<Rightarrow> instant \<Rightarrow> uuid \<Rightarrow> uuid \<Rightarrow> uuid option \<Rightarrow> string \<Rightarrow> unicode \<Rightarrow> unicode \<Rightarrow> outbox_payload \<Rightarrow> OutboxMessage" where
  "new_message new_id now tenant process causation message_type destination key payload =
     \<lparr>om_id = new_id, om_tenant_id = tenant, om_process_instance_id = Some process,
      om_causation_event_id = causation, om_message_type = message_type,
      om_destination = destination, om_deduplication_key = key, om_payload = payload,
      om_status = outbox_status.PENDING, om_available_at = now, om_attempt_count = 0,
      om_claimed_at = None, om_claim_token = None, om_last_error = None, om_published_at = None,
      om_dead_lettered_at = None, om_created_at = now\<rparr>"

text \<open>\<open>insert(OutboxMessage)...on_conflict_do_nothing(uq_outbox_messages_dedup)\<close>\<close>

definition enqueue :: "OutboxMessage \<Rightarrow> Database \<Rightarrow> Database option" where
  "enqueue m db =
     (case insert_ignore (\<lambda>r s. outbox_key r = outbox_key s) (\<lambda>r s. om_id r = om_id s) m (db_outbox db) of
        Violation \<Rightarrow> None
      | Ignored \<Rightarrow> Some db
      | Inserted rows \<Rightarrow> Some (db\<lparr>db_outbox := rows\<rparr>))"

section \<open>Signals\<close>

fun review_command_value :: "ReviewCommandType \<Rightarrow> string" where
  "review_command_value APPROVE = ''approve''"
| "review_command_value REJECT = ''reject''"
| "review_command_value REQUEST_REVISION = ''request_revision''"
| "review_command_value COMMENT = ''comment''"
| "review_command_value CORRECT_FACT = ''correct_fact''"
| "review_command_value CANCEL = ''cancel''"

fun control_value :: "ProcessControlType \<Rightarrow> string" where
  "control_value RETRY = ''retry''"
| "control_value WAKE = ''wake''"
| "control_value TAKEOVER = ''takeover''"
| "control_value RESUME = ''resume''"

fun resolution_value :: "ActionResolution \<Rightarrow> string" where
  "resolution_value ActionResolution.SUCCEEDED = ''succeeded''"
| "resolution_value ActionResolution.FAILED = ''failed''"

definition uuid_text :: "uuid \<Rightarrow> string" where
  "uuid_text u = map char_of (uuid_str u)"

text \<open>\<open>f"{type(error).__name__}: {error}"\<close> for a missing payload field.\<close>

definition key_error :: "string \<Rightarrow> unicode" where
  "key_error field = ascii ''KeyError: '' @ ascii (CHR 0x27 # field @ [CHR 0x27])"

definition control_signal :: "uuid \<Rightarrow> string \<Rightarrow> control_sources option \<Rightarrow> signal" where
  "control_signal command_id command_type sources = ReceiveControl
     (case sources of
        None \<Rightarrow> \<lparr>mc_command_id = uuid_text command_id, mc_command_type = command_type,
                 mc_event_ids = [], mc_review_command_ids = [], mc_action_attempt_ids = [],
                 mc_timer_ids = []\<rparr>
      | Some s \<Rightarrow> \<lparr>mc_command_id = uuid_text command_id, mc_command_type = command_type,
                 mc_event_ids = map uuid_text (cs_event_ids s),
                 mc_review_command_ids = map uuid_text (cs_review_command_ids s),
                 mc_action_attempt_ids = map uuid_text (cs_action_attempt_ids s),
                 mc_timer_ids = cs_timer_ids s\<rparr>)"

text \<open>
  The branch on \<open>message_type\<close>. The fields of a payload are read in the order of the code, and
  the first one it lacks raises; the fields of a control are optional apart from the first two.
\<close>

definition message_signal :: "string \<Rightarrow> outbox_payload \<Rightarrow> unicode + signal" where
  "message_signal ty payload =
     (if ty = ''temporal.process_event'' then
        (case payload of
           ProcessEventPayload event_id event_type \<Rightarrow>
             Inr (ReceiveEvent \<lparr>me_event_id = uuid_text event_id, me_event_type = event_type\<rparr>)
         | _ \<Rightarrow> Inl (key_error ''event_id''))
      else if ty = ''temporal.process_review'' then
        (case payload of
           ReviewCommandPayload command_id command_type thread request revision \<Rightarrow>
             Inr (ReceiveReview \<lparr>mr_command_id = uuid_text command_id,
               mr_command_type = review_command_value command_type, mr_review_thread_id = uuid_text thread,
               mr_action_request_id = uuid_text request, mr_proposal_revision = revision\<rparr>)
         | ProcessEventPayload _ _ \<Rightarrow> Inl (key_error ''command_id'')
         | ActionResolutionPayload _ _ _ _ \<Rightarrow> Inl (key_error ''command_type'')
         | ProcessControlPayload _ _ _ \<Rightarrow> Inl (key_error ''review_thread_id''))
      else if ty = ''temporal.action_resolution'' then
        (case payload of
           ActionResolutionPayload command_id request attempt resolution \<Rightarrow>
             Inr (ReceiveActionResolution \<lparr>ma_command_id = uuid_text command_id,
               ma_action_request_id = uuid_text request, ma_action_attempt_id = uuid_text attempt,
               ma_status = resolution_value resolution\<rparr>)
         | ProcessEventPayload _ _ \<Rightarrow> Inl (key_error ''command_id'')
         | ReviewCommandPayload _ _ _ _ _ \<Rightarrow> Inl (key_error ''action_attempt_id'')
         | ProcessControlPayload _ _ _ \<Rightarrow> Inl (key_error ''action_request_id''))
      else if ty = ''temporal.process_control'' then
        (case payload of
           ProcessControlPayload command_id command_type sources \<Rightarrow>
             Inr (control_signal command_id (control_value command_type) sources)
         | ReviewCommandPayload command_id command_type _ _ _ \<Rightarrow>
             Inr (control_signal command_id (review_command_value command_type) None)
         | ProcessEventPayload _ _ \<Rightarrow> Inl (key_error ''command_id'')
         | ActionResolutionPayload _ _ _ _ \<Rightarrow> Inl (key_error ''command_type''))
      else Inl (ascii ''RuntimeError: unsupported Temporal message type: '' @ ascii ty))"

section \<open>Dispatching\<close>

record DeploymentRelease =
  dr_deployment_id :: string
  dr_release_fingerprint :: string
  dr_temporal_task_queue :: string

record Dispatcher =
  ds_deployment_release :: DeploymentRelease
  ds_authorized_tenant_ids :: "uuid set"
  ds_max_attempts :: int
  ds_stale_claim_after :: duration
  ds_retry_base_delay :: duration
  ds_orchestrate_agent_turns :: bool

datatype DispatchStatus = EMPTY | PUBLISHED | RETRY_SCHEDULED | DEAD_LETTERED | CLAIM_LOST

record ClaimedMessage =
  cm_id :: uuid
  cm_tenant_id :: uuid
  cm_process_instance_id :: uuid
  cm_message_type :: string
  cm_destination :: unicode
  cm_payload :: outbox_payload
  cm_attempt_count :: int
  cm_claim_token :: uuid
  cm_process_definition_id :: "string option"
  cm_process_definition_version :: "unicode option"

record DispatchResult =
  dx_status :: DispatchStatus
  dx_message_id :: "uuid option"
  dx_error :: "unicode option"

datatype dispatch_error = MessageWithoutProcess | ProcessUnavailable | DeploymentMismatch

text \<open>\<open>DeploymentRelease.require_process\<close>\<close>

definition release_matches :: "DeploymentRelease \<Rightarrow> ProcessInstance \<Rightarrow> bool" where
  "release_matches r p \<longleftrightarrow>
     pi_deployment_id p = dr_deployment_id r
     \<and> pi_deployment_release_fingerprint p = dr_release_fingerprint r
     \<and> pi_temporal_task_queue p = dr_temporal_task_queue r"

definition process_of_message :: "OutboxMessage \<Rightarrow> Database \<Rightarrow> ProcessInstance option" where
  "process_of_message m db =
     (case om_process_instance_id m of None \<Rightarrow> None | Some p \<Rightarrow> find_process (om_tenant_id m) p db)"

definition dispatchable_types :: "string list" where
  "dispatchable_types = [''temporal.process_event'', ''temporal.process_review'',
     ''temporal.action_resolution'', ''temporal.process_control'']"

definition claimable :: "Dispatcher \<Rightarrow> uuid \<Rightarrow> instant \<Rightarrow> uuid set \<Rightarrow> Database \<Rightarrow> OutboxMessage \<Rightarrow> bool" where
  "claimable d tenant now locked db m \<longleftrightarrow>
     om_tenant_id m = tenant
     \<and> (case process_of_message m db of None \<Rightarrow> False
        | Some p \<Rightarrow> release_matches (ds_deployment_release d) p)
     \<and> om_message_type m \<in> set dispatchable_types
     \<and> om_available_at m \<le> now
     \<and> (om_status m = outbox_status.PENDING
        \<or> om_status m = outbox_status.PUBLISHING
          \<and> (case om_claimed_at m of None \<Rightarrow> False | Some t \<Rightarrow> t < now - ds_stale_claim_after d))
     \<and> om_id m \<notin> locked"

text \<open>\<open>ORDER BY available_at, created_at LIMIT 1\<close> with \<open>SKIP LOCKED\<close>.\<close>

definition next_message ::
  "Dispatcher \<Rightarrow> uuid \<Rightarrow> instant \<Rightarrow> uuid set \<Rightarrow> Database \<Rightarrow> OutboxMessage option" where
  "next_message d tenant now locked db =
     (case sort_key om_available_at (sort_key om_created_at
             (filter (claimable d tenant now locked db) (db_outbox db))) of
        [] \<Rightarrow> None | m # _ \<Rightarrow> Some m)"

definition mark_claimed :: "instant \<Rightarrow> uuid \<Rightarrow> OutboxMessage \<Rightarrow> OutboxMessage" where
  "mark_claimed now token m =
     m\<lparr>om_status := outbox_status.PUBLISHING, om_claimed_at := Some now, om_claim_token := Some token,
       om_attempt_count := om_attempt_count m + 1\<rparr>"

definition claim ::
  "Dispatcher \<Rightarrow> uuid \<Rightarrow> instant \<Rightarrow> uuid \<Rightarrow> uuid set \<Rightarrow> Database
     \<Rightarrow> dispatch_error + ClaimedMessage option \<times> Database" where
  "claim d tenant now token locked db =
     (case find_tenant tenant db of
        None \<Rightarrow> Inr (None, db)
      | Some t \<Rightarrow>
          if tn_status t \<noteq> TenantStatus.ACTIVE
             \<or> tn_deployment_id t \<noteq> dr_deployment_id (ds_deployment_release d) then Inr (None, db)
          else (case next_message d tenant now locked db of
                  None \<Rightarrow> Inr (None, db)
                | Some m \<Rightarrow>
                    (case om_process_instance_id m of
                       None \<Rightarrow> Inl MessageWithoutProcess
                     | Some process \<Rightarrow>
                         bind_result
                           (if ds_orchestrate_agent_turns d
                            then (case find_process tenant process db of
                                    None \<Rightarrow> Inl ProcessUnavailable
                                  | Some p \<Rightarrow>
                                      if release_matches (ds_deployment_release d) p
                                      then Inr (Some (pi_process_type p), Some (pi_definition_version p))
                                      else Inl DeploymentMismatch)
                            else Inr (None, None)) (\<lambda>(definition_id, definition_version).
                         let claimed = mark_claimed now token m in
                         Inr (Some \<lparr>cm_id = om_id m, cm_tenant_id = om_tenant_id m,
                                    cm_process_instance_id = process,
                                    cm_message_type = om_message_type m,
                                    cm_destination = om_destination m, cm_payload = om_payload m,
                                    cm_attempt_count = om_attempt_count claimed,
                                    cm_claim_token = token,
                                    cm_process_definition_id = definition_id,
                                    cm_process_definition_version = definition_version\<rparr>,
                              db\<lparr>db_outbox := update_rows (\<lambda>r. om_id r = om_id m)
                                    (mark_claimed now token) (db_outbox db)\<rparr>)))))"

text \<open>The condition of both final updates: the row is still published under this claim.\<close>

definition holds_claim :: "ClaimedMessage \<Rightarrow> OutboxMessage \<Rightarrow> bool" where
  "holds_claim c m \<longleftrightarrow>
     om_tenant_id m = cm_tenant_id c \<and> om_id m = cm_id c \<and> om_status m = outbox_status.PUBLISHING
     \<and> om_claim_token m = Some (cm_claim_token c)"

definition mark_published :: "instant \<Rightarrow> OutboxMessage \<Rightarrow> OutboxMessage" where
  "mark_published now m =
     m\<lparr>om_status := outbox_status.PUBLISHED, om_published_at := Some now, om_dead_lettered_at := None,
       om_claimed_at := None, om_claim_token := None, om_last_error := None\<rparr>"

definition finish_claim ::
  "ClaimedMessage \<Rightarrow> (OutboxMessage \<Rightarrow> OutboxMessage) \<Rightarrow> Database \<Rightarrow> bool \<times> Database" where
  "finish_claim c mark db =
     (list_ex (holds_claim c) (db_outbox db),
      db\<lparr>db_outbox := update_rows (holds_claim c) mark (db_outbox db)\<rparr>)"

definition is_terminal_failure :: "Dispatcher \<Rightarrow> ClaimedMessage \<Rightarrow> bool" where
  "is_terminal_failure d c \<longleftrightarrow> ds_max_attempts d \<le> cm_attempt_count c"

text \<open>\<open>attempt_count\<close> is at least one here, so the exponent is a natural number.\<close>

definition retry_at :: "Dispatcher \<Rightarrow> ClaimedMessage \<Rightarrow> instant \<Rightarrow> instant" where
  "retry_at d c now =
     (if is_terminal_failure d c then now
      else now + ds_retry_base_delay d * 2 ^ nat (cm_attempt_count c - 1))"

definition mark_failed ::
  "Dispatcher \<Rightarrow> ClaimedMessage \<Rightarrow> instant \<Rightarrow> instant \<Rightarrow> unicode \<Rightarrow> OutboxMessage \<Rightarrow> OutboxMessage" where
  "mark_failed d c now dead_at error m =
     m\<lparr>om_status := (if is_terminal_failure d c then outbox_status.DEAD_LETTER else outbox_status.PENDING),
       om_claimed_at := None, om_claim_token := None, om_last_error := Some (take 2000 error),
       om_available_at := retry_at d c now,
       om_dead_lettered_at := (if is_terminal_failure d c then Some dead_at else None)\<rparr>"

record DispatchEnv =
  de_now :: instant
  de_token :: uuid
  de_locked :: "uuid set"
  de_send :: "ClaimedMessage \<Rightarrow> signal \<Rightarrow> unicode option"
  de_gap :: "Database \<Rightarrow> Database"
  de_later :: instant
  de_dead_at :: instant

text \<open>
  The result: what \<open>dispatch_one\<close> answers, the signal handed to Temporal if there was one, and
  the database. \<open>de_send\<close> answers \<open>None\<close> for success and the error text otherwise;
  \<open>de_later\<close> and \<open>de_dead_at\<close> are the clock readings after the send.
\<close>

definition dispatch_one ::
  "Dispatcher \<Rightarrow> DispatchEnv \<Rightarrow> uuid \<Rightarrow> Database
     \<Rightarrow> dispatch_error + DispatchResult \<times> signal option \<times> Database" where
  "dispatch_one d env tenant db =
     (if tenant \<notin> ds_authorized_tenant_ids d
      then Inr (\<lparr>dx_status = EMPTY, dx_message_id = None, dx_error = None\<rparr>, None, db)
      else bind_result (claim d tenant (de_now env) (de_token env) (de_locked env) db) (\<lambda>(claimed, db1).
        (case claimed of
           None \<Rightarrow> Inr (\<lparr>dx_status = EMPTY, dx_message_id = None, dx_error = None\<rparr>, None, db1)
         | Some c \<Rightarrow>
             let (sent, failure) =
                   (case message_signal (cm_message_type c) (cm_payload c) of
                      Inl error \<Rightarrow> (None, Some error)
                    | Inr s \<Rightarrow> (Some s, de_send env c s));
                 db2 = de_gap env db1
             in (case failure of
                   None \<Rightarrow>
                     (case finish_claim c (mark_published (de_later env)) db2 of
                        (completed, db3) \<Rightarrow>
                          Inr (\<lparr>dx_status = (if completed then DispatchStatus.PUBLISHED else CLAIM_LOST),
                                dx_message_id = Some (cm_id c), dx_error = None\<rparr>, sent, db3))
                 | Some error \<Rightarrow>
                     (case finish_claim c (mark_failed d c (de_later env) (de_dead_at env) error) db2 of
                        (updated, db3) \<Rightarrow>
                          Inr (\<lparr>dx_status =
                                  (if \<not> updated then CLAIM_LOST
                                   else if is_terminal_failure d c then DEAD_LETTERED else RETRY_SCHEDULED),
                                dx_message_id = Some (cm_id c), dx_error = Some (take 2000 error)\<rparr>,
                               sent, db3))))))"

section \<open>Recovery\<close>

record RequeueOutboxInput =
  rq_command_id :: uuid
  rq_tenant_id :: uuid
  rq_outbox_message_id :: uuid
  rq_actor_id :: uuid
  rq_reason :: unicode

datatype recovery_error =
    RequeueReasonInvalid
  | RequeueCommandReused
  | DeadLetterNotFound
  | NotDeadLettered
  | RequeueIntegrity

definition mark_requeued :: "instant \<Rightarrow> OutboxMessage \<Rightarrow> OutboxMessage" where
  "mark_requeued now m =
     m\<lparr>om_status := outbox_status.PENDING, om_available_at := now, om_attempt_count := 0,
       om_claimed_at := None, om_claim_token := None, om_last_error := None, om_published_at := None,
       om_dead_lettered_at := None\<rparr>"

definition requeue ::
  "instant \<Rightarrow> RequeueOutboxInput \<Rightarrow> Database \<Rightarrow> recovery_error + OutboxRecoveryCommand \<times> Database" where
  "requeue now c db =
     (let reason = strip (rq_reason c) in
      if reason = [] \<or> 10000 < length reason then Inl RequeueReasonInvalid
      else (case find (\<lambda>r. oc_tenant_id r = rq_tenant_id c \<and> oc_id r = rq_command_id c) (db_recoveries db) of
              Some existing \<Rightarrow>
                if oc_outbox_message_id existing \<noteq> rq_outbox_message_id c
                   \<or> oc_actor_id existing \<noteq> rq_actor_id c \<or> oc_reason existing \<noteq> reason
                then Inl RequeueCommandReused
                else Inr (existing, db)
            | None \<Rightarrow>
                (case find (\<lambda>m. om_tenant_id m = rq_tenant_id c \<and> om_id m = rq_outbox_message_id c) (db_outbox db) of
                   None \<Rightarrow> Inl DeadLetterNotFound
                 | Some m \<Rightarrow>
                     (case om_dead_lettered_at m of
                        None \<Rightarrow> Inl NotDeadLettered
                      | Some dead_at \<Rightarrow>
                          if om_status m \<noteq> outbox_status.DEAD_LETTER then Inl NotDeadLettered
                          else let stored = \<lparr>oc_id = rq_command_id c, oc_tenant_id = rq_tenant_id c,
                                             oc_outbox_message_id = rq_outbox_message_id c,
                                             oc_actor_id = rq_actor_id c, oc_reason = reason,
                                             oc_previous_attempt_count = om_attempt_count m,
                                             oc_previous_error = om_last_error m,
                                             oc_previous_dead_lettered_at = dead_at\<rparr>
                               in (case insert_row (\<lambda>r s. oc_id r = oc_id s) stored (db_recoveries db) of
                                     None \<Rightarrow> Inl RequeueIntegrity
                                   | Some rows \<Rightarrow>
                                       Inr (stored, db\<lparr>db_recoveries := rows,
                                              db_outbox := update_rows
                                                (\<lambda>r. om_tenant_id r = rq_tenant_id c \<and> om_id r = rq_outbox_message_id c)
                                                (mark_requeued now) (db_outbox db)\<rparr>))))))"

section \<open>The life of a message\<close>

text \<open>The check constraints of the table: claim and dead-letter columns follow the status.\<close>

definition message_ok :: "OutboxMessage \<Rightarrow> bool" where
  "message_ok m \<longleftrightarrow>
     0 \<le> om_attempt_count m
     \<and> (om_status m = outbox_status.PUBLISHING \<longleftrightarrow> om_claimed_at m \<noteq> None)
     \<and> (om_status m = outbox_status.PUBLISHING \<longleftrightarrow> om_claim_token m \<noteq> None)
     \<and> (om_status m = outbox_status.DEAD_LETTER \<longleftrightarrow> om_dead_lettered_at m \<noteq> None)"

definition outbox_ok :: "Database \<Rightarrow> bool" where
  "outbox_ok db \<longleftrightarrow>
     distinct (map om_id (db_outbox db)) \<and> distinct (map outbox_key (db_outbox db))
     \<and> (\<forall>m \<in> set (db_outbox db). message_ok m)"

text \<open>One transition of one row.\<close>

inductive message_step :: "OutboxMessage \<Rightarrow> OutboxMessage \<Rightarrow> bool" where
  step_claim: "om_status m = outbox_status.PENDING \<or> om_status m = outbox_status.PUBLISHING \<Longrightarrow>
    message_step m (mark_claimed now token m)"
| step_publish: "om_status m = outbox_status.PUBLISHING \<Longrightarrow> message_step m (mark_published now m)"
| step_fail: "om_status m = outbox_status.PUBLISHING \<Longrightarrow> message_step m (mark_failed d c now dead_at error m)"
| step_requeue: "om_status m = outbox_status.DEAD_LETTER \<Longrightarrow> message_step m (mark_requeued now m)"

inductive_cases message_stepE: "message_step m m'"

inductive_simps message_step_iff: "message_step m m'"

lemmas mark_defs = mark_claimed_def mark_published_def mark_failed_def mark_requeued_def

lemma message_step_ok: "message_step m m' \<Longrightarrow> message_ok m \<Longrightarrow> message_ok m'"
  by (auto simp: message_ok_def mark_defs elim!: message_stepE split: if_splits)

lemma message_step_identity:
  "message_step m m' \<Longrightarrow> om_id m' = om_id m \<and> outbox_key m' = outbox_key m
     \<and> om_payload m' = om_payload m \<and> om_destination m' = om_destination m
     \<and> om_message_type m' = om_message_type m"
  by (auto simp: outbox_key_def mark_defs elim!: message_stepE)

lemma published_final: "om_status m = outbox_status.PUBLISHED \<Longrightarrow> \<not> message_step m m'"
  by (auto elim!: message_stepE)

text \<open>A table update in which every changed row makes a step.\<close>

definition rows_step :: "OutboxMessage list \<Rightarrow> OutboxMessage list \<Rightarrow> bool" where
  "rows_step rows rows' \<longleftrightarrow> list_all2 (\<lambda>m m'. m' = m \<or> message_step m m') rows rows'"

lemma rows_step_refl: "rows_step rows rows"
  by (simp add: rows_step_def list_all2_refl)

lemma rows_step_update:
  "(\<And>m. m \<in> set rows \<Longrightarrow> p m \<Longrightarrow> message_step m (f m)) \<Longrightarrow> rows_step rows (update_rows p f rows)"
  by (auto simp: rows_step_def update_rows_def list_all2_conv_all_nth)

lemma rows_step_ok:
  assumes "rows_step (db_outbox db) (db_outbox db')" "outbox_ok db"
  shows "outbox_ok db'"
proof -
  let ?rows = "db_outbox db'"
  have "list_all2 (\<lambda>m m'. om_id m' = om_id m \<and> outbox_key m' = outbox_key m
      \<and> (message_ok m \<longrightarrow> message_ok m')) (db_outbox db) ?rows"
    using assms(1) unfolding rows_step_def
    by (rule list_all2_mono) (auto dest: message_step_identity message_step_ok)
  then have "map om_id ?rows = map om_id (db_outbox db)" "map outbox_key ?rows = map outbox_key (db_outbox db)"
    and ok: "\<forall>i < length ?rows. message_ok (db_outbox db ! i) \<longrightarrow> message_ok (?rows ! i)"
    by (auto simp: list_all2_conv_all_nth list_eq_iff_nth_eq)
  moreover have "length ?rows = length (db_outbox db)"
    using assms(1) by (simp add: rows_step_def list_all2_lengthD)
  ultimately show ?thesis
    using assms(2) by (simp add: outbox_ok_def all_set_conv_all_nth)
qed

section \<open>Every operation keeps the outbox consistent\<close>

lemma enqueue_ok:
  assumes "outbox_ok db" "message_ok m" "enqueue m db = Some db'"
  shows "outbox_ok db'"
  using assms
  by (auto simp: enqueue_def insert_ignore_def list_ex_iff outbox_ok_def split: if_splits)

lemma enqueue_frame:
  assumes "enqueue m db = Some db'"
  shows "db_tenants db' = db_tenants db" "db_processes db' = db_processes db"
    "db_approvals db' = db_approvals db" "db_action_requests db' = db_action_requests db"
    "db_review_threads db' = db_review_threads db" "db_review_messages db' = db_review_messages db"
    "db_approval_decisions db' = db_approval_decisions db" "db_attempts db' = db_attempts db"
    "db_events db' = db_events db" "db_controls db' = db_controls db"
    "db_interventions db' = db_interventions db" "db_reconciliations db' = db_reconciliations db"
    "db_action_revisions db' = db_action_revisions db" "db_policy_records db' = db_policy_records db"
    "db_correlations db' = db_correlations db" "db_state_revisions db' = db_state_revisions db"
  using assms by (auto simp: enqueue_def split: insertion.splits)

lemma enqueue_present:
  assumes "enqueue m db = Some db'"
  shows "\<exists>r \<in> set (db_outbox db'). outbox_key r = outbox_key m"
  using assms
  by (auto simp: enqueue_def insert_ignore_Inserted insert_ignore_Ignored split: insertion.splits)

lemma enqueue_new:
  assumes "enqueue m db = Some db'" "\<forall>r \<in> set (db_outbox db). outbox_key r \<noteq> outbox_key m"
  shows "m \<in> set (db_outbox db')"
proof (cases "insert_ignore (\<lambda>r s. outbox_key r = outbox_key s) (\<lambda>r s. om_id r = om_id s) m (db_outbox db)")
  case (Inserted rows)
  then have "db' = db\<lparr>db_outbox := rows\<rparr>" using assms(1) by (simp add: enqueue_def)
  moreover have "rows = db_outbox db @ [m]" using Inserted by (simp add: insert_ignore_Inserted)
  ultimately show ?thesis by simp
qed (use assms in \<open>auto simp: enqueue_def insert_ignore_Ignored\<close>)

lemma new_message_ok: "message_ok (new_message i now t p c ty dest key payload)"
  by (simp add: message_ok_def new_message_def)

lemma next_message_claimable:
  assumes "next_message d tenant now locked db = Some m"
  shows "m \<in> set (db_outbox db)" "claimable d tenant now locked db m"
proof -
  let ?rows = "sort_key om_available_at (sort_key om_created_at
             (filter (claimable d tenant now locked db) (db_outbox db)))"
  obtain rest where "?rows = m # rest"
    using assms by (auto simp: next_message_def split: list.splits)
  then have "m \<in> set ?rows" by (metis list.set_intros(1))
  then show "m \<in> set (db_outbox db)" "claimable d tenant now locked db m" by simp_all
qed

lemma claim_result:
  assumes "claim d tenant now token locked db = Inr (Some c, db')"
  obtains m where "next_message d tenant now locked db = Some m" "cm_id c = om_id m"
    "cm_tenant_id c = om_tenant_id m" "cm_payload c = om_payload m"
    "cm_message_type c = om_message_type m" "cm_claim_token c = token"
    "cm_attempt_count c = om_attempt_count m + 1"
    "db' = db\<lparr>db_outbox := update_rows (\<lambda>r. om_id r = om_id m) (mark_claimed now token) (db_outbox db)\<rparr>"
proof (cases "find_tenant tenant db")
  case None
  then show ?thesis using assms by (simp add: claim_def)
next
  case (Some t)
  show ?thesis
  proof (cases "next_message d tenant now locked db")
    case None
    then show ?thesis using assms Some by (simp add: claim_def split: if_splits)
  next
    case (Some m)
    then show ?thesis using assms \<open>find_tenant tenant db = Some t\<close>
      by (intro that [of m])
        (auto simp: claim_def Let_def mark_claimed_def split: if_splits option.splits)
  qed
qed

lemma claim_none: "claim d tenant now token locked db = Inr (None, db') \<Longrightarrow> db' = db"
  by (auto simp: claim_def Let_def split: if_splits option.splits)

lemma distinct_ids_same:
  "distinct (map om_id rows) \<Longrightarrow> m \<in> set rows \<Longrightarrow> r \<in> set rows \<Longrightarrow> om_id r = om_id m \<Longrightarrow> r = m"
  by (simp add: distinct_map inj_on_def)

lemma claim_step:
  assumes "outbox_ok db" "claim d tenant now token locked db = Inr (c, db')"
  shows "rows_step (db_outbox db) (db_outbox db')"
proof (cases c)
  case None
  then show ?thesis using assms claim_none rows_step_refl by metis
next
  case (Some cm)
  from assms(2) [unfolded Some] show ?thesis
  proof (rule claim_result)
    fix m
    assume m: "next_message d tenant now locked db = Some m"
      and db': "db' = db\<lparr>db_outbox := update_rows (\<lambda>r. om_id r = om_id m) (mark_claimed now token) (db_outbox db)\<rparr>"
    have "om_status m = outbox_status.PENDING \<or> om_status m = outbox_status.PUBLISHING"
      using next_message_claimable [OF m] by (auto simp: claimable_def)
    moreover have "r = m" if "r \<in> set (db_outbox db)" "om_id r = om_id m" for r
      using assms(1) next_message_claimable(1) [OF m] that distinct_ids_same
      by (auto simp: outbox_ok_def)
    ultimately show ?thesis unfolding db'
      by (auto intro!: rows_step_update intro: step_claim)
  qed
qed

lemma claim_ok: "outbox_ok db \<Longrightarrow> claim d tenant now token locked db = Inr (c, db') \<Longrightarrow> outbox_ok db'"
  using claim_step rows_step_ok by blast

lemma finish_claim_step:
  assumes "finish_claim c mark db = (found, db')"
    and "\<And>m. om_status m = outbox_status.PUBLISHING \<Longrightarrow> message_step m (mark m)"
  shows "rows_step (db_outbox db) (db_outbox db')"
  using assms by (auto simp: finish_claim_def holds_claim_def intro!: rows_step_update)

lemma dispatch_one_ok:
  assumes "outbox_ok db" "\<And>x. outbox_ok x \<Longrightarrow> outbox_ok (de_gap env x)"
    and "dispatch_one d env tenant db = Inr (result, sent, db')"
  shows "outbox_ok db'"
proof (cases "tenant \<in> ds_authorized_tenant_ids d")
  case False
  then show ?thesis using assms by (simp add: dispatch_one_def)
next
  case True
  then obtain claimed db1 where cl: "claim d tenant (de_now env) (de_token env) (de_locked env) db = Inr (claimed, db1)"
    using assms(3) by (auto simp: dispatch_one_def)
  have ok2: "outbox_ok (de_gap env db1)" using claim_ok [OF assms(1) cl] assms(2) by blast
  show ?thesis
  proof (cases claimed)
    case None
    then show ?thesis using assms(3) True cl claim_ok [OF assms(1) cl]
      by (simp add: dispatch_one_def)
  next
    case (Some c)
    let ?mark = "case (case message_signal (cm_message_type c) (cm_payload c) of
        Inl error \<Rightarrow> Some error | Inr s \<Rightarrow> de_send env c s) of
          None \<Rightarrow> mark_published (de_later env)
        | Some error \<Rightarrow> mark_failed d c (de_later env) (de_dead_at env) error"
    have "db' = snd (finish_claim c ?mark (de_gap env db1))"
      using assms(3) True cl Some
      by (auto simp: dispatch_one_def Let_def split: option.splits prod.splits sum.splits)
    moreover have "message_step m (?mark m)" if "om_status m = outbox_status.PUBLISHING" for m
      using that by (auto split: option.splits intro: step_publish step_fail)
    ultimately show ?thesis using finish_claim_step [of c ?mark "de_gap env db1"] rows_step_ok ok2
      by (metis prod.collapse)
  qed
qed

section \<open>Recovery is idempotent\<close>

definition find_recovery :: "RequeueOutboxInput \<Rightarrow> Database \<Rightarrow> OutboxRecoveryCommand option" where
  "find_recovery c db =
     find (\<lambda>r. oc_tenant_id r = rq_tenant_id c \<and> oc_id r = rq_command_id c) (db_recoveries db)"

lemma requeue_replay:
  assumes "requeue now c db = Inr (r, db')" "find_recovery c later = find_recovery c db'"
  shows "requeue now' c later = Inr (r, later)"
proof (cases "find (\<lambda>r. oc_tenant_id r = rq_tenant_id c \<and> oc_id r = rq_command_id c) (db_recoveries db)")
  case None
  then have "r \<in> set (db_recoveries db')" "db_recoveries db' = db_recoveries db @ [r]"
    "oc_tenant_id r = rq_tenant_id c" "oc_id r = rq_command_id c"
    "oc_outbox_message_id r = rq_outbox_message_id c" "oc_actor_id r = rq_actor_id c"
    "oc_reason r = strip (rq_reason c)" "strip (rq_reason c) \<noteq> []" "length (strip (rq_reason c)) \<le> 10000"
    using assms(1)
    by (auto simp: requeue_def Let_def insert_row_def split: if_splits option.splits)
  then show ?thesis using None assms(2)
    by (simp add: requeue_def Let_def find_append find_recovery_def)
next
  case (Some existing)
  then show ?thesis using assms
    by (auto simp: requeue_def Let_def find_recovery_def split: if_splits)
qed

interpretation recovery: stored_command requeue find_recovery
  by unfold_locales (rule requeue_replay)

lemma requeue_step:
  assumes "outbox_ok db" "requeue now c db = Inr (r, db')"
  shows "rows_step (db_outbox db) (db_outbox db')"
proof (cases "find (\<lambda>r. oc_tenant_id r = rq_tenant_id c \<and> oc_id r = rq_command_id c) (db_recoveries db)")
  case None
  let ?p = "\<lambda>m. om_tenant_id m = rq_tenant_id c \<and> om_id m = rq_outbox_message_id c"
  from None obtain m where m: "find ?p (db_outbox db) = Some m" "om_status m = outbox_status.DEAD_LETTER"
    and db': "db_outbox db' = update_rows ?p (mark_requeued now) (db_outbox db)"
    using assms(2)
    by (auto simp: requeue_def Let_def insert_row_def split: if_splits option.splits)
  have "x = m" if "x \<in> set (db_outbox db)" "?p x" for x
    using assms(1) find_Some_mem [OF m(1)] that
      distinct_ids_same [of "db_outbox db" m x] by (simp add: outbox_ok_def)
  then show ?thesis unfolding db'
    using m(2) by (intro rows_step_update) (auto intro: step_requeue)
next
  case (Some existing)
  then show ?thesis using assms by (auto simp: requeue_def Let_def rows_step_refl split: if_splits)
qed

lemma requeue_revives:
  assumes "requeue now c db = Inr (r, db')"
    and "find (\<lambda>r. oc_tenant_id r = rq_tenant_id c \<and> oc_id r = rq_command_id c) (db_recoveries db) = None"
  shows "\<exists>m \<in> set (db_outbox db). om_id m = rq_outbox_message_id c \<and> om_status m = outbox_status.DEAD_LETTER
    \<and> oc_previous_error r = om_last_error m \<and> oc_previous_attempt_count r = om_attempt_count m
    \<and> m\<lparr>om_status := outbox_status.PENDING, om_available_at := now, om_attempt_count := 0,
        om_claimed_at := None, om_claim_token := None, om_last_error := None,
        om_published_at := None, om_dead_lettered_at := None\<rparr> \<in> set (db_outbox db')"
proof -
  let ?p = "\<lambda>m. om_tenant_id m = rq_tenant_id c \<and> om_id m = rq_outbox_message_id c"
  from assms obtain m where m: "find ?p (db_outbox db) = Some m" "om_status m = outbox_status.DEAD_LETTER"
    and db': "db_outbox db' = update_rows ?p (mark_requeued now) (db_outbox db)"
    and r: "oc_previous_error r = om_last_error m" "oc_previous_attempt_count r = om_attempt_count m"
    by (auto simp: requeue_def Let_def insert_row_def split: if_splits option.splits)
  have mem: "m \<in> set (db_outbox db)" "?p m" using find_Some_mem [OF m(1)] by auto
  then have "mark_requeued now m \<in> set (db_outbox db')" by (auto simp: db' update_rows_def)
  then show ?thesis using mem m(2) r unfolding mark_requeued_def by blast
qed

section \<open>At-least-once sending, exactly-once receipt\<close>

lemma in_append:
  "events_in (ss @ ts) = events_in ss @ events_in ts"
  "reviews_in (ss @ ts) = reviews_in ss @ reviews_in ts"
  "resolutions_in (ss @ ts) = resolutions_in ss @ resolutions_in ts"
  "controls_in (ss @ ts) = controls_in ss @ controls_in ts"
  by (induction ss rule: events_in.induct) simp_all

lemma signal_seen:
  assumes "message_signal ty payload = Inr s" "s \<in> set ss"
  shows "handle_signal s (deliver ss st) = deliver ss st"
proof -
  obtain us ts where ss: "ss = us @ s # ts" using assms(2) by (meson split_list)
  show ?thesis
    using assms(1) unfolding message_signal_def control_signal_def ss
    by (auto simp: signal_defs deliver_events deliver_reviews deliver_resolutions deliver_controls in_append split: outbox_payload.splits if_splits)
qed

text \<open>A message that is sent again, however late and however often, changes nothing.\<close>

lemma signal_redelivered:
  assumes "message_signal ty payload = Inr s" "s \<in> set ss"
  shows "deliver (ss @ replicate n s) st = deliver ss st"
proof (induction n)
  case (Suc n)
  have last: "replicate (Suc n) s = replicate n s @ [s]" by (simp add: replicate_append_same)
  have "deliver (ss @ replicate (Suc n) s) st = handle_signal s (deliver (ss @ replicate n s) st)"
    by (simp only: last deliver_append deliver_Cons deliver_Nil)
  also have "\<dots> = deliver ss st" using Suc signal_seen [OF assms] by simp
  finally show ?case .
qed simp

section \<open>Histories\<close>

text \<open>
  One committed transaction on the outbox, by any service or worker. The two transactions of a
  dispatch are separate steps, so a history interleaves the workers arbitrarily.
\<close>

inductive outbox_tx :: "Database \<Rightarrow> Database \<Rightarrow> bool" where
  tx_enqueue: "enqueue (new_message i now t p cause ty dest key payload) db = Some db' \<Longrightarrow> outbox_tx db db'"
| tx_claim: "claim d tenant now token locked db = Inr (c, db') \<Longrightarrow> outbox_tx db db'"
| tx_publish: "finish_claim c (mark_published now) db = (found, db') \<Longrightarrow> outbox_tx db db'"
| tx_fail: "finish_claim c (mark_failed d c now dead_at error) db = (found, db') \<Longrightarrow> outbox_tx db db'"
| tx_requeue: "requeue now rc db = Inr (r, db') \<Longrightarrow> outbox_tx db db'"

text \<open>What later rows keep of an earlier one.\<close>

definition succeeds :: "OutboxMessage \<Rightarrow> OutboxMessage \<Rightarrow> bool" where
  "succeeds m m' \<longleftrightarrow> om_id m' = om_id m \<and> outbox_key m' = outbox_key m
     \<and> om_payload m' = om_payload m \<and> om_destination m' = om_destination m
     \<and> om_message_type m' = om_message_type m \<and> (om_status m = outbox_status.PUBLISHED \<longrightarrow> m' = m)"

definition keeps_outbox :: "Database \<Rightarrow> Database \<Rightarrow> bool" where
  "keeps_outbox db db' \<longleftrightarrow> (\<forall>m \<in> set (db_outbox db). \<exists>m' \<in> set (db_outbox db'). succeeds m m')"

lemma succeeds_refl [simp]: "succeeds m m"
  by (simp add: succeeds_def)

lemma succeeds_trans: "succeeds a b \<Longrightarrow> succeeds b c \<Longrightarrow> succeeds a c"
  by (auto simp: succeeds_def)

lemma step_succeeds: "message_step m m' \<Longrightarrow> succeeds m m'"
  using message_step_identity published_final by (auto simp: succeeds_def)

lemma keeps_outbox_trans: "keeps_outbox a b \<Longrightarrow> keeps_outbox b c \<Longrightarrow> keeps_outbox a c"
  unfolding keeps_outbox_def by (meson succeeds_trans)

lemma keeps_subset: "set (db_outbox db) \<subseteq> set (db_outbox db') \<Longrightarrow> keeps_outbox db db'"
  unfolding keeps_outbox_def by (auto intro: succeeds_refl)

lemma rows_step_keeps:
  assumes "rows_step (db_outbox db) (db_outbox db')"
  shows "keeps_outbox db db'"
  unfolding keeps_outbox_def
proof
  fix m
  assume "m \<in> set (db_outbox db)"
  then obtain i where "i < length (db_outbox db)" "m = db_outbox db ! i" by (metis in_set_conv_nth)
  then show "\<exists>m' \<in> set (db_outbox db'). succeeds m m'"
    using assms unfolding rows_step_def list_all2_conv_all_nth
    by (metis nth_mem step_succeeds succeeds_refl)
qed


lemma tx_keeps:
  assumes "outbox_tx db db'" "outbox_ok db"
  shows "outbox_ok db' \<and> keeps_outbox db db'"
  using assms(1)
proof cases
  case (tx_enqueue i now t p cause ty dest key payload)
  then have "outbox_ok db'" using enqueue_ok [OF assms(2) new_message_ok] by blast
  moreover have "set (db_outbox db) \<subseteq> set (db_outbox db')"
    using tx_enqueue by (auto simp: enqueue_def insert_ignore_def split: if_splits)
  ultimately show ?thesis using keeps_subset by blast
next
  case tx_claim
  then show ?thesis using claim_step assms(2) rows_step_ok rows_step_keeps by blast
next
  case tx_publish
  from finish_claim_step [OF this step_publish] show ?thesis
    using assms(2) rows_step_ok rows_step_keeps by blast
next
  case tx_fail
  from finish_claim_step [OF this step_fail] show ?thesis
    using assms(2) rows_step_ok rows_step_keeps by blast
next
  case tx_requeue
  then show ?thesis using requeue_step assms(2) rows_step_ok rows_step_keeps by blast
qed

lemma history_keeps:
  assumes "outbox_tx\<^sup>*\<^sup>* db db'" "outbox_ok db"
  shows "outbox_ok db' \<and> keeps_outbox db db'"
  using assms(1)
proof (induction rule: rtranclp_induct)
  case base
  then show ?case using assms(2) keeps_subset by blast
next
  case (step x y)
  then show ?case using tx_keeps keeps_outbox_trans by blast
qed

text \<open>A dispatch is such a history, if what other workers do in between is.\<close>

lemma dispatch_one_history:
  assumes "dispatch_one d env tenant db = Inr (result, sent, db')" "\<And>x. outbox_tx\<^sup>*\<^sup>* x (de_gap env x)"
  shows "outbox_tx\<^sup>*\<^sup>* db db'"
proof (cases "tenant \<in> ds_authorized_tenant_ids d")
  case True
  then obtain claimed db1 where cl: "claim d tenant (de_now env) (de_token env) (de_locked env) db = Inr (claimed, db1)"
    using assms(1) by (auto simp: dispatch_one_def)
  have first: "outbox_tx\<^sup>*\<^sup>* db db1" using tx_claim [OF cl] by blast
  show ?thesis
  proof (cases claimed)
    case None
    then show ?thesis using assms(1) True cl first by (simp add: dispatch_one_def)
  next
    case (Some c)
    obtain mark found where fin: "finish_claim c mark (de_gap env db1) = (found, db')"
      and mark: "mark = mark_published (de_later env) \<or>
        (\<exists>error. mark = mark_failed d c (de_later env) (de_dead_at env) error)"
      using assms(1) True cl Some
      by (auto simp: dispatch_one_def Let_def split: option.splits prod.splits sum.splits)
    have "outbox_tx (de_gap env db1) db'"
      using fin mark by (auto intro: tx_publish tx_fail)
    then show ?thesis using first assms(2) [of db1] by (meson rtranclp.rtrancl_into_rtrancl rtranclp_trans)
  qed
qed (use assms(1) in \<open>simp add: dispatch_one_def\<close>)

text \<open>What a published dispatch has done, and that a lost claim changes nothing.\<close>

lemma finish_claim_lost: "finish_claim c mark db = (False, db') \<Longrightarrow> db' = db"
  by (auto simp: finish_claim_def update_rows_def list_ex_iff map_idI)

lemma dispatch_one_claimed:
  assumes "dispatch_one d env tenant db = Inr (result, sent, db')" "dx_status result \<noteq> EMPTY"
  obtains c db1 where "claim d tenant (de_now env) (de_token env) (de_locked env) db = Inr (Some c, db1)"
    "dx_message_id result = Some (cm_id c)"
    "dx_status result = CLAIM_LOST \<Longrightarrow> db' = de_gap env db1"
    "dx_status result = DispatchStatus.PUBLISHED \<Longrightarrow>
       \<exists>s. message_signal (cm_message_type c) (cm_payload c) = Inr s \<and> sent = Some s \<and> de_send env c s = None
         \<and> finish_claim c (mark_published (de_later env)) (de_gap env db1) = (True, db')"
proof -
  from assms obtain c db1 where cl: "claim d tenant (de_now env) (de_token env) (de_locked env) db = Inr (Some c, db1)"
    by (auto simp: dispatch_one_def split: if_splits option.splits)
  show ?thesis
    using that [OF cl] assms cl
    by (auto simp: dispatch_one_def Let_def dest: finish_claim_lost
        split: if_splits option.splits prod.splits sum.splits)
qed

end
