(* ===== verification/Execution.thy ===== *)
theory Execution
  imports Communication_Service Budgets Outbox
begin

text \<open>
  \<open>actions/execution.py\<close>: approval-aware, idempotent execution of one action revision against a
  provider, with \<open>processes/compatibility.py\<close> and the process registry it consults. The
  executor runs three transactions; between them other transactions may commit anything
  (\<open>xe_gap1\<close>, \<open>xe_gap2\<close>). The provider adapter is code outside this repository: what its
  \<open>lookup\<close> and \<open>execute\<close> answer are arguments, and the calls made to \<open>execute\<close> are
  returned so that the theorems can speak about them.
\<close>

section \<open>Compatibility and registries\<close>

record DeploymentCompatibility =
  dc_client_pack_fingerprint :: string
  dc_extension_manifest_hash :: string
  dc_definition_fingerprints :: "((string \<times> unicode) \<times> string) list"

definition is_sha256_hex :: "string \<Rightarrow> bool" where
  "is_sha256_hex s \<longleftrightarrow> length s = 64 \<and> list_all (\<lambda>c. c \<in> set ''0123456789abcdef'') s"

datatype compatibility_error =
    FingerprintMalformed
  | DefinitionNotDeployed
  | PinsMismatch "string list"

definition check_DeploymentCompatibility ::
  "DeploymentCompatibility \<Rightarrow> compatibility_error + DeploymentCompatibility" where
  "check_DeploymentCompatibility d =
     (if list_all is_sha256_hex (dc_client_pack_fingerprint d # dc_extension_manifest_hash d
           # map snd (dc_definition_fingerprints d))
      then Inr d else Inl FingerprintMalformed)"

definition compatible_process :: "DeploymentCompatibility \<Rightarrow> ProcessInstance \<Rightarrow> compatibility_error + unit" where
  "compatible_process d p =
     (case map_of (dc_definition_fingerprints d) (pi_process_type p, pi_definition_version p) of
        None \<Rightarrow> Inl DefinitionNotDeployed
      | Some expected \<Rightarrow>
          let mismatches =
            (if pi_client_pack_fingerprint p \<noteq> dc_client_pack_fingerprint d then [''client pack''] else [])
            @ (if pi_extension_manifest_hash p \<noteq> dc_extension_manifest_hash d then [''extension manifest''] else [])
            @ (if pi_process_definition_fingerprint p \<noteq> expected then [''process definition''] else [])
          in if mismatches \<noteq> [] then Inl (PinsMismatch mismatches) else Inr ())"

definition release_require_process :: "DeploymentRelease \<Rightarrow> ProcessInstance \<Rightarrow> compatibility_error + unit" where
  "release_require_process r p =
     (let mismatches =
        (if pi_deployment_id p \<noteq> dr_deployment_id r then [''deployment''] else [])
        @ (if pi_deployment_release_fingerprint p \<noteq> dr_release_fingerprint r then [''deployment release''] else [])
        @ (if pi_temporal_task_queue p \<noteq> dr_temporal_task_queue r then [''Temporal task queue''] else [])
      in if mismatches \<noteq> [] then Inl (PinsMismatch mismatches) else Inr ())"

section \<open>Providers\<close>

record ProviderActionRequest =
  pr_action_type :: string
  pr_parameters :: jobject
  pr_idempotency_key :: unicode
  pr_tenant_id :: "uuid option"
  pr_process_instance_id :: "uuid option"
  pr_authoritative_facts :: jobject

record ProviderActionResult =
  po_provider_reference :: unicode
  po_result :: jobject
  po_facts :: "FactObservation list"

record ActionAdapter =
  al_id :: unicode
  al_guarantees_idempotency :: bool

datatype lookup_answer =
    LookupRaised unicode
  | LookupNothing
  | LookupResult ProviderActionResult
  | LookupConflict ActionConflict

text \<open>
  What \<open>execute\<close> does: return, or raise one of the three declared errors or any other (the text
  is the exception's class name and message).
\<close>

datatype provider_answer =
    ProviderReturned ProviderActionResult
  | ProviderReturnedNone
  | DefinitiveActionConflict ActionConflict
  | DefinitiveActionFailure unicode
  | AmbiguousActionOutcome unicode
  | ProviderRaised unicode

section \<open>Executor\<close>

record ActionExecutor =
  xt_adapters :: "(string \<times> ActionAdapter) list"
  xt_compatibility :: DeploymentCompatibility
  xt_deployment_release :: DeploymentRelease
  xt_registry :: "((string \<times> unicode) \<times> ProcessDefinition) list"
  xt_platform_outbound_paused :: bool
  xt_zones :: "unicode \<Rightarrow> zone"

record ExecutionEnv =
  xe_attempt_id :: uuid
  xe_now1 :: instant
  xe_gap1 :: "Database \<Rightarrow> Database"
  xe_now2 :: instant
  xe_clock :: datetime
  xe_gap2 :: "Database \<Rightarrow> Database"
  xe_completed_at :: instant
  xe_lookup :: "unicode \<Rightarrow> lookup_answer"
  xe_provider :: "ProviderActionRequest \<Rightarrow> provider_answer"

record execution_target =
  et_tenant_id :: uuid
  et_process_instance_id :: uuid
  et_action_request_id :: uuid
  et_revision :: int

datatype execution_error =
    ActionExecutionSuspended
  | ExecutionTenantUnavailable
  | ExecutionTenantNotAssigned
  | ActionRevisionNotFound
  | ExecutionProcessHalted ProcessStatus
  | RevisionNotCurrent
  | ActionNotAllowed
  | PayloadNotApproved
  | ApprovalHasExpired
  | ApprovalDecisionMissing
  | ApprovedActionNotExecutable
  | PolicyDenied
  | IncompatibleProcess compatibility_error
  | DefinitionUnknown
  | AdapterUnknown
  | KeyNotEncodable
  | AttemptIntegrity
  | AttemptNotPersisted
  | AdapterBindingChanged
  | NothingToReconcile
  | ExecutionStateDisappeared
  | ProviderGaveNothing
  | ExecutionTimestamp timestamp_error
  | ExecutionCommunication communication_error
  | ExecutionBreaker breaker_error

record ActionExecutionResult =
  er_action_request_id :: uuid
  er_attempt_id :: uuid
  er_status :: ActionAttemptStatus
  er_idempotency_key :: unicode
  er_provider_reference :: "unicode option"
  er_result :: "jobject option"
  er_facts :: "FactObservation list"
  er_error :: "unicode option"
  er_conflict :: "ActionConflict option"

definition attempt_result :: "ActionAttempt \<Rightarrow> ActionExecutionResult" where
  "attempt_result a =
     \<lparr>er_action_request_id = aa_action_request_id a, er_attempt_id = aa_id a, er_status = aa_status a,
      er_idempotency_key = aa_idempotency_key a, er_provider_reference = aa_provider_reference a,
      er_result = aa_result a, er_facts = aa_facts a, er_error = aa_error a, er_conflict = aa_conflict a\<rparr>"

definition settled_attempt :: "ActionAttemptStatus \<Rightarrow> bool" where
  "settled_attempt s \<longleftrightarrow>
     s \<in> {ActionAttemptStatus.SUCCEEDED, ActionAttemptStatus.FAILED, ActionAttemptStatus.CONFLICT}"

fun request_status_of_attempt :: "ActionAttemptStatus \<Rightarrow> ActionRequestStatus" where
  "request_status_of_attempt ActionAttemptStatus.EXECUTING = ActionRequestStatus.EXECUTING"
| "request_status_of_attempt ActionAttemptStatus.SUCCEEDED = ActionRequestStatus.SUCCEEDED"
| "request_status_of_attempt ActionAttemptStatus.FAILED = ActionRequestStatus.FAILED"
| "request_status_of_attempt ActionAttemptStatus.CONFLICT = ActionRequestStatus.CONFLICT"
| "request_status_of_attempt ActionAttemptStatus.UNKNOWN = ActionRequestStatus.UNKNOWN"
| "request_status_of_attempt ActionAttemptStatus.RECONCILING = ActionRequestStatus.RECONCILING"

section \<open>Authorization\<close>

definition require_execution_enabled :: "ActionExecutor \<Rightarrow> uuid \<Rightarrow> Database \<Rightarrow> execution_error + unit" where
  "require_execution_enabled x tenant db =
     (case require_active_tenant tenant (Some (dr_deployment_id (xt_deployment_release x))) db of
        Inr _ \<Rightarrow> Inr ()
      | Inl TenantSuspended \<Rightarrow> Inl ActionExecutionSuspended
      | Inl TenantNotAuthorized \<Rightarrow> Inl ExecutionTenantNotAssigned
      | Inl _ \<Rightarrow> Inl ExecutionTenantUnavailable)"

definition require_reconciliation_enabled :: "ActionExecutor \<Rightarrow> uuid \<Rightarrow> Database \<Rightarrow> execution_error + unit" where
  "require_reconciliation_enabled x tenant db =
     (case require_tenant_deployment tenant (dr_deployment_id (xt_deployment_release x)) db of
        Inr _ \<Rightarrow> Inr ()
      | Inl TenantNotAuthorized \<Rightarrow> Inl ExecutionTenantNotAssigned
      | Inl _ \<Rightarrow> Inl ExecutionTenantUnavailable)"

definition require_compatible_process :: "ActionExecutor \<Rightarrow> ProcessInstance \<Rightarrow> execution_error + unit" where
  "require_compatible_process x p =
     (case bind_result (compatible_process (xt_compatibility x) p)
             (\<lambda>_. release_require_process (xt_deployment_release x) p) of
        Inl e \<Rightarrow> Inl (IncompatibleProcess e)
      | Inr _ \<Rightarrow> Inr ())"

definition retryable_status :: "ActionRequestStatus \<Rightarrow> bool" where
  "retryable_status s \<longleftrightarrow>
     s \<in> {ActionRequestStatus.EXECUTING, ActionRequestStatus.UNKNOWN, ActionRequestStatus.RECONCILING,
          ActionRequestStatus.SUCCEEDED, ActionRequestStatus.FAILED, ActionRequestStatus.CONFLICT}"

definition target_key :: "execution_target \<Rightarrow> uuid \<times> uuid \<times> uuid" where
  "target_key t = (et_tenant_id t, et_process_instance_id t, et_action_request_id t)"

text \<open>The joined rows; joins are on the action request and the revision within the tenant.\<close>

definition find_revision :: "execution_target \<Rightarrow> Database \<Rightarrow> ActionRevision option" where
  "find_revision t db =
     find (\<lambda>v. av_tenant_id v = et_tenant_id t \<and> av_action_request_id v = et_action_request_id t
             \<and> av_revision v = et_revision t) (db_action_revisions db)"

definition find_policy_record :: "execution_target \<Rightarrow> Database \<Rightarrow> ActionPolicyRecord option" where
  "find_policy_record t db =
     find (\<lambda>v. ay_tenant_id v = et_tenant_id t \<and> ay_action_request_id v = et_action_request_id t
             \<and> ay_revision v = et_revision t) (db_policy_records db)"

definition find_exact_approval :: "execution_target \<Rightarrow> unicode \<Rightarrow> Database \<Rightarrow> ApprovalRequest option" where
  "find_exact_approval t payload_hash db =
     find (\<lambda>a. aq_tenant_id a = et_tenant_id t \<and> aq_process_instance_id a = et_process_instance_id t
             \<and> aq_action_request_id a = et_action_request_id t \<and> aq_revision a = et_revision t
             \<and> aq_payload_hash a = payload_hash) (db_approvals db)"

definition find_approved_decision ::
  "execution_target \<Rightarrow> ApprovalRequest \<Rightarrow> unicode \<Rightarrow> Database \<Rightarrow> ApprovalDecision option" where
  "find_approved_decision t approval payload_hash db =
     find (\<lambda>d. ax_tenant_id d = et_tenant_id t \<and> ax_process_instance_id d = et_process_instance_id t
             \<and> ax_approval_request_id d = aq_id approval
             \<and> ax_decision d = approval_outcome.APPROVED \<and> ax_payload_hash d = payload_hash)
       (db_approval_decisions db)"

definition require_exact_approval ::
  "execution_target \<Rightarrow> instant \<Rightarrow> ActionRequest \<Rightarrow> ActionRevision \<Rightarrow> Database \<Rightarrow> execution_error + unit" where
  "require_exact_approval t now request revision db =
     (case find_exact_approval t (av_payload_hash revision) db of
        None \<Rightarrow> Inl PayloadNotApproved
      | Some approval \<Rightarrow>
          if aq_status approval \<noteq> ApprovalStatus.APPROVED then Inl PayloadNotApproved
          else if (case aq_expires_at approval of None \<Rightarrow> False | Some e \<Rightarrow> e \<le> now) then Inl ApprovalHasExpired
          else if find_approved_decision t approval (av_payload_hash revision) db = None
          then Inl ApprovalDecisionMissing
          else if ar_status request \<noteq> ActionRequestStatus.APPROVED \<and> \<not> retryable_status (ar_status request)
          then Inl ApprovedActionNotExecutable
          else Inr ())"

definition load_authorized_action ::
  "execution_target \<Rightarrow> instant \<Rightarrow> Database
     \<Rightarrow> execution_error + ActionRequest \<times> ActionRevision \<times> ActionPolicyRecord \<times> ProcessInstance" where
  "load_authorized_action t now db =
     (case (find_request (target_key t) db, find_revision t db, find_policy_record t db,
            find_process (et_tenant_id t) (et_process_instance_id t) db) of
        (Some request, Some revision, Some policy, Some process) \<Rightarrow>
          if halted_status (pi_status process) then Inl (ExecutionProcessHalted (pi_status process))
          else if ar_current_revision request \<noteq> et_revision t then Inl RevisionNotCurrent
          else bind_result
            (case ay_outcome policy of
               ALLOW \<Rightarrow>
                 if ar_status request \<noteq> ActionRequestStatus.ALLOWED \<and> \<not> retryable_status (ar_status request)
                 then Inl ActionNotAllowed else Inr ()
             | REQUIRE_APPROVAL \<Rightarrow> require_exact_approval t now request revision db
             | DENY \<Rightarrow> Inl PolicyDenied)
            (\<lambda>_. Inr (request, revision, policy, process))
      | _ \<Rightarrow> Inl ActionRevisionNotFound)"

section \<open>Recording outcomes\<close>

definition attempt_key :: "ActionAttempt \<Rightarrow> uuid \<times> unicode" where
  "attempt_key a = (aa_tenant_id a, aa_idempotency_key a)"

definition find_attempt :: "uuid \<Rightarrow> unicode \<Rightarrow> Database \<Rightarrow> ActionAttempt option" where
  "find_attempt tenant key db = find (\<lambda>a. attempt_key a = (tenant, key)) (db_attempts db)"

definition set_request_status :: "uuid \<Rightarrow> uuid \<Rightarrow> ActionRequestStatus \<Rightarrow> Database \<Rightarrow> Database" where
  "set_request_status tenant request s db =
     db\<lparr>db_action_requests := update_rows (\<lambda>r. ar_tenant_id r = tenant \<and> ar_id r = request)
          (\<lambda>r. r\<lparr>ar_status := s\<rparr>) (db_action_requests db)\<rparr>"

definition update_attempt ::
  "uuid \<Rightarrow> unicode \<Rightarrow> (ActionAttempt \<Rightarrow> ActionAttempt) \<Rightarrow> Database \<Rightarrow> Database" where
  "update_attempt tenant key f db =
     db\<lparr>db_attempts := update_rows (\<lambda>a. attempt_key a = (tenant, key)) f (db_attempts db)\<rparr>"

text \<open>The columns \<open>_record_terminal\<close> writes, apart from the time.\<close>

record attempt_outcome =
  ao_status :: ActionAttemptStatus
  ao_provider_reference :: "unicode option"
  ao_result :: "jobject option"
  ao_facts :: "FactObservation list"
  ao_error :: "unicode option"
  ao_conflict :: "ActionConflict option"

definition success_outcome :: "ProviderActionResult \<Rightarrow> attempt_outcome" where
  "success_outcome r =
     \<lparr>ao_status = ActionAttemptStatus.SUCCEEDED, ao_provider_reference = Some (po_provider_reference r),
      ao_result = Some (po_result r), ao_facts = po_facts r, ao_error = None, ao_conflict = None\<rparr>"

definition error_outcome :: "ActionAttemptStatus \<Rightarrow> unicode \<Rightarrow> attempt_outcome" where
  "error_outcome s error =
     \<lparr>ao_status = s, ao_provider_reference = None, ao_result = None, ao_facts = [],
      ao_error = Some error, ao_conflict = None\<rparr>"

definition conflict_outcome :: "ActionConflict \<Rightarrow> attempt_outcome" where
  "conflict_outcome c =
     \<lparr>ao_status = ActionAttemptStatus.CONFLICT, ao_provider_reference = None, ao_result = None,
      ao_facts = ac_facts c, ao_error = Some (ac_message c), ao_conflict = Some c\<rparr>"

text \<open>\<open>error[:2000] if error else None\<close>\<close>

definition settle_attempt :: "instant \<Rightarrow> attempt_outcome \<Rightarrow> ActionAttempt \<Rightarrow> ActionAttempt" where
  "settle_attempt now outcome a =
     a\<lparr>aa_status := ao_status outcome, aa_provider_reference := ao_provider_reference outcome,
       aa_result := ao_result outcome, aa_conflict := ao_conflict outcome, aa_facts := ao_facts outcome,
       aa_error := (case ao_error outcome of None \<Rightarrow> None | Some e \<Rightarrow> if e = [] then None else Some (take 2000 e)),
       aa_completed_at := Some now\<rparr>"

definition record_terminal ::
  "uuid \<Rightarrow> uuid \<Rightarrow> unicode \<Rightarrow> instant \<Rightarrow> attempt_outcome \<Rightarrow> Database
     \<Rightarrow> execution_error + ActionExecutionResult \<times> Database" where
  "record_terminal tenant action_request key now outcome db =
     (case (find_attempt tenant key db,
            find (\<lambda>r. ar_tenant_id r = tenant \<and> ar_id r = action_request) (db_action_requests db)) of
        (Some attempt, Some request) \<Rightarrow>
          if settled_attempt (aa_status attempt) then Inr (attempt_result attempt, db)
          else Inr (attempt_result (settle_attempt now outcome attempt),
                    set_request_status tenant action_request (request_status_of_attempt (ao_status outcome))
                      (update_attempt tenant key (settle_attempt now outcome) db))
      | _ \<Rightarrow> Inl ExecutionStateDisappeared)"

section \<open>Execution\<close>

text \<open>The result of a run: the value or exception, the provider calls made, the final database.\<close>

record execution_run =
  xo_result :: "execution_error + ActionExecutionResult"
  xo_calls :: "ProviderActionRequest list"
  xo_db :: Database

definition finish_execution ::
  "execution_target \<Rightarrow> unicode \<Rightarrow> instant \<Rightarrow> attempt_outcome \<Rightarrow> ProviderActionRequest list \<Rightarrow> Database \<Rightarrow> execution_run" where
  "finish_execution t key now outcome calls db =
     (case record_terminal (et_tenant_id t) (et_action_request_id t) key now outcome db of
        Inl e \<Rightarrow> \<lparr>xo_result = Inl e, xo_calls = calls, xo_db = db\<rparr>
      | Inr (r, db') \<Rightarrow> \<lparr>xo_result = Inr r, xo_calls = calls, xo_db = db'\<rparr>)"

definition new_attempt ::
  "ExecutionEnv \<Rightarrow> execution_target \<Rightarrow> unicode \<Rightarrow> ActionAdapter \<Rightarrow> ActionAttempt" where
  "new_attempt env t key adapter =
     \<lparr>aa_id = xe_attempt_id env, aa_tenant_id = et_tenant_id t,
      aa_process_instance_id = et_process_instance_id t, aa_action_request_id = et_action_request_id t,
      aa_revision = et_revision t, aa_attempt_number = 1, aa_idempotency_key = key,
      aa_adapter_id = al_id adapter, aa_status = ActionAttemptStatus.EXECUTING,
      aa_provider_reference = None, aa_result = None, aa_conflict = None, aa_facts = [],
      aa_error = None, aa_started_at = xe_now1 env, aa_completed_at = None\<rparr>"

text \<open>\<open>uq_action_attempt_number\<close>, a constraint the insert does not name.\<close>

definition attempt_number_clash :: "ActionAttempt \<Rightarrow> ActionAttempt list \<Rightarrow> bool" where
  "attempt_number_clash a rows \<longleftrightarrow>
     \<not> list_ex (\<lambda>r. attempt_key r = attempt_key a) rows
     \<and> list_ex (\<lambda>r. (aa_tenant_id r, aa_process_instance_id r, aa_action_request_id r, aa_revision r,
                     aa_attempt_number r)
                  = (aa_tenant_id a, aa_process_instance_id a, aa_action_request_id a, aa_revision a,
                     aa_attempt_number a)) rows"

text \<open>The first transaction: authorize, reserve the attempt, mark the request.\<close>

record reserved_attempt =
  ra_key :: unicode
  ra_adapter :: ActionAdapter
  ra_policy :: CommunicationPolicy
  ra_is_new :: bool

datatype reservation_answer =
    AlreadySettled ActionExecutionResult
  | Reserved reserved_attempt

definition reserve_attempt ::
  "ActionExecutor \<Rightarrow> ExecutionEnv \<Rightarrow> execution_target \<Rightarrow> Database
     \<Rightarrow> execution_error + reservation_answer \<times> Database" where
  "reserve_attempt x env t db =
     bind_result (require_execution_enabled x (et_tenant_id t) db) (\<lambda>_.
     bind_result (load_authorized_action t (xe_now1 env) db) (\<lambda>(request, revision, _, process).
     bind_result (require_compatible_process x process) (\<lambda>_.
     (case map_of (xt_registry x) (pi_process_type process, pi_definition_version process) of
        None \<Rightarrow> Inl DefinitionUnknown
      | Some d \<Rightarrow>
        (case map_of (xt_adapters x) (ar_action_type request) of
           None \<Rightarrow> Inl AdapterUnknown
         | Some adapter \<Rightarrow>
           (case execution_idempotency_key (et_tenant_id t) (et_process_instance_id t)
                   (et_action_request_id t) (et_revision t) (av_payload_hash revision) of
              None \<Rightarrow> Inl KeyNotEncodable
            | Some key \<Rightarrow>
              if attempt_number_clash (new_attempt env t key adapter) (db_attempts db) then Inl AttemptIntegrity
              else
              (case insert_select attempt_key aa_id (new_attempt env t key adapter) (db_attempts db) of
                 None \<Rightarrow> Inl AttemptIntegrity
               | Some (inserted, None, rows) \<Rightarrow> Inl AttemptNotPersisted
               | Some (inserted, Some attempt, rows) \<Rightarrow>
                   if aa_adapter_id attempt \<noteq> al_id adapter then Inl AdapterBindingChanged
                   else if settled_attempt (aa_status attempt)
                   then Inr (AlreadySettled (attempt_result attempt), db\<lparr>db_attempts := rows\<rparr>)
                   else Inr (Reserved \<lparr>ra_key = key, ra_adapter = adapter,
                                       ra_policy = communication_policy d, ra_is_new = inserted\<rparr>,
                             set_request_status (et_tenant_id t) (et_action_request_id t)
                               ActionRequestStatus.EXECUTING (db\<lparr>db_attempts := rows\<rparr>)))))))))"

text \<open>\<open>_breaker_message\<close>: \<open>None\<close>, or what stops the call.\<close>

datatype breaker_stop = OpenBreaker BreakerScope unicode | PlatformPaused

definition breaker_message ::
  "ActionExecutor \<Rightarrow> uuid \<Rightarrow> string \<Rightarrow> CommunicationPolicy \<Rightarrow> Database \<Rightarrow> breaker_error + breaker_stop option" where
  "breaker_message x tenant action_type policy db =
     bind_result (open_for_capability tenant action_type db) (\<lambda>opened.
       (case opened of
          Some b \<Rightarrow> Inr (Some (OpenBreaker (br_scope b) (br_reason b)))
        | None \<Rightarrow>
            if action_type \<notin> cp_outbound_action_types policy then Inr None
            else if xt_platform_outbound_paused x then Inr (Some PlatformPaused)
            else bind_result (open_for_outbound tenant db) (\<lambda>outbound.
                   Inr (map_option (\<lambda>b. OpenBreaker (br_scope b) (br_reason b)) outbound))))"

text \<open>The communication block of the second transaction, if there is one.\<close>

definition communication_stop ::
  "ActionExecutor \<Rightarrow> ExecutionEnv \<Rightarrow> execution_target \<Rightarrow> CommunicationPolicy \<Rightarrow> ActionRequest \<Rightarrow> ProcessInstance
     \<Rightarrow> Database \<Rightarrow> execution_error + CommunicationBlock option" where
  "communication_stop x env t policy request process db =
     (case process_lifetime_block process policy (xe_clock env) of
        Inl e \<Rightarrow> Inl (ExecutionTimestamp e)
      | Inr (Some b) \<Rightarrow> Inr (Some b)
      | Inr None \<Rightarrow>
          if ar_action_type request \<in> cp_outbound_action_types policy
          then (case inspect_communication (xt_zones x) (et_tenant_id t) process policy (xe_clock env)
                       (Some (et_action_request_id t)) db of
                  Inl e \<Rightarrow> Inl (ExecutionCommunication e)
                | Inr snapshot \<Rightarrow>
                    (case communication_require_allowed snapshot of Inl b \<Rightarrow> Inr (Some b) | Inr _ \<Rightarrow> Inr None))
          else Inr None)"

datatype execution_gate =
    CommunicationBlocked CommunicationBlock
  | BreakerBlocked breaker_stop
  | CallProvider ProviderActionRequest

definition authorize_call ::
  "ActionExecutor \<Rightarrow> ExecutionEnv \<Rightarrow> execution_target \<Rightarrow> reserved_attempt \<Rightarrow> Database
     \<Rightarrow> execution_error + execution_gate" where
  "authorize_call x env t reserved db =
     bind_result (require_execution_enabled x (et_tenant_id t) db) (\<lambda>_.
     bind_result (load_authorized_action t (xe_now2 env) db) (\<lambda>(request, revision, _, process).
     bind_result (require_compatible_process x process) (\<lambda>_.
     bind_result (communication_stop x env t (ra_policy reserved) request process db) (\<lambda>stop.
       (case stop of
          Some b \<Rightarrow> Inr (CommunicationBlocked b)
        | None \<Rightarrow>
            (case breaker_message x (et_tenant_id t) (ar_action_type request) (ra_policy reserved) db of
               Inl e \<Rightarrow> Inl (ExecutionBreaker e)
             | Inr (Some stop) \<Rightarrow> Inr (BreakerBlocked stop)
             | Inr None \<Rightarrow>
                 Inr (CallProvider
                   \<lparr>pr_action_type = ar_action_type request, pr_parameters = av_parameters revision,
                    pr_idempotency_key = ra_key reserved, pr_tenant_id = Some (et_tenant_id t),
                    pr_process_instance_id = Some (et_process_instance_id t),
                    pr_authoritative_facts = pi_authoritative_facts process\<rparr>)))))))"

section \<open>Texts\<close>

text \<open>
  \<open>datetime.isoformat\<close> of an instant in UTC: the proleptic Gregorian date of the day number (days
  from the first of March of the year 0, in eras of 400 years), the time, and the microseconds
  when there are any.
\<close>

definition civil_date :: "int \<Rightarrow> int \<times> int \<times> int" where
  "civil_date day_number =
     (let z = day_number + 719468;
          era = z div 146097;
          doe = z mod 146097;
          yoe = (doe - doe div 1460 + doe div 36524 - doe div 146096) div 365;
          doy = doe - (365 * yoe + yoe div 4 - yoe div 100);
          mp = (5 * doy + 2) div 153;
          d = doy - (153 * mp + 2) div 5 + 1;
          m = if mp < 10 then mp + 3 else mp - 9
      in (yoe + era * 400 + (if m \<le> 2 then 1 else 0), m, d))"

definition padded :: "nat \<Rightarrow> int \<Rightarrow> unicode" where
  "padded n i = (let t = dump_nat (nat i) in replicate (n - length t) 48 @ t)"

definition isoformat_utc :: "instant \<Rightarrow> unicode" where
  "isoformat_utc t =
     (let (y, m, d) = civil_date (t div 86400000000);
          us = t mod 86400000000;
          fraction = us mod 1000000
      in padded 4 y @ ascii ''-'' @ padded 2 m @ ascii ''-'' @ padded 2 d @ ascii ''T''
         @ padded 2 (us div 3600000000) @ ascii '':'' @ padded 2 (us div 60000000 mod 60)
         @ ascii '':'' @ padded 2 (us div 1000000 mod 60)
         @ (if fraction = 0 then [] else ascii ''.'' @ padded 6 fraction) @ ascii ''+00:00'')"

fun block_text :: "block_message \<Rightarrow> unicode" where
  "block_text (LifetimeEndedAt t) = ascii ''process lifetime ended at '' @ isoformat_utc t"
| "block_text (OptedOutAt t) = ascii ''customer opted out at '' @ isoformat_utc t"
| "block_text LatestContactAutomated =
     ascii ''latest inbound contact was classified as automated; wait for a human reply''"
| "block_text (QuietUntil t) = ascii ''customer quiet hours are active until '' @ isoformat_utc t"
| "block_text ProcessLimitReached = ascii ''process outbound-message limit has been reached''"
| "block_text WindowLimitReached = ascii ''outbound-message rolling-window limit has been reached''"
| "block_text FollowUpLimitReached = ascii ''maximum follow-ups without a human reply has been reached''"
| "block_text (RetryAfter t) =
     ascii ''minimum follow-up interval has not elapsed; retry after '' @ isoformat_utc t"

definition communication_block_text :: "CommunicationBlock \<Rightarrow> unicode" where
  "communication_block_text b = ascii ''communication safety blocked execution: '' @ block_text (cb_message b)"

fun breaker_scope_value :: "BreakerScope \<Rightarrow> string" where
  "breaker_scope_value MODEL_CALLS = ''model_calls''"
| "breaker_scope_value OUTBOUND_MESSAGES = ''outbound_messages''"
| "breaker_scope_value CAPABILITY = ''capability''"
| "breaker_scope_value BreakerScope.ALL = ''all''"

fun breaker_text :: "breaker_stop \<Rightarrow> unicode" where
  "breaker_text (OpenBreaker scope reason) =
     ascii ''circuit breaker open: '' @ ascii (breaker_scope_value scope) @ ascii '': '' @ reason"
| "breaker_text PlatformPaused = ascii ''circuit breaker open: platform outbound messaging is paused''"

section \<open>The executor\<close>

text \<open>The final branches of \<open>execute\<close>.\<close>

fun provider_outcome :: "provider_answer \<Rightarrow> attempt_outcome option" where
  "provider_outcome (ProviderReturned r) = Some (success_outcome r)"
| "provider_outcome ProviderReturnedNone = None"
| "provider_outcome (DefinitiveActionConflict c) = Some (conflict_outcome c)"
| "provider_outcome (DefinitiveActionFailure e) = Some (error_outcome ActionAttemptStatus.FAILED e)"
| "provider_outcome (AmbiguousActionOutcome e) = Some (error_outcome ActionAttemptStatus.UNKNOWN e)"
| "provider_outcome (ProviderRaised e) = Some (error_outcome ActionAttemptStatus.UNKNOWN e)"

definition call_provider ::
  "ActionExecutor \<Rightarrow> ExecutionEnv \<Rightarrow> execution_target \<Rightarrow> reserved_attempt \<Rightarrow> Database \<Rightarrow> execution_run" where
  "call_provider x env t reserved db =
     (case authorize_call x env t reserved db of
        Inl e \<Rightarrow> \<lparr>xo_result = Inl e, xo_calls = [], xo_db = db\<rparr>
      | Inr (CommunicationBlocked b) \<Rightarrow>
          finish_execution t (ra_key reserved) (xe_completed_at env)
            (error_outcome ActionAttemptStatus.FAILED (communication_block_text b)) [] (xe_gap2 env db)
      | Inr (BreakerBlocked stop) \<Rightarrow>
          finish_execution t (ra_key reserved) (xe_completed_at env)
            (error_outcome ActionAttemptStatus.FAILED (breaker_text stop)) [] (xe_gap2 env db)
      | Inr (CallProvider request) \<Rightarrow>
          (case provider_outcome (xe_provider env request) of
             None \<Rightarrow> \<lparr>xo_result = Inl ProviderGaveNothing, xo_calls = [request], xo_db = xe_gap2 env db\<rparr>
           | Some outcome \<Rightarrow>
               finish_execution t (ra_key reserved) (xe_completed_at env) outcome [request] (xe_gap2 env db)))"

definition execute ::
  "ActionExecutor \<Rightarrow> ExecutionEnv \<Rightarrow> execution_target \<Rightarrow> Database \<Rightarrow> execution_run" where
  "execute x env t db =
     (case reserve_attempt x env t db of
        Inl e \<Rightarrow> \<lparr>xo_result = Inl e, xo_calls = [], xo_db = db\<rparr>
      | Inr (AlreadySettled r, db1) \<Rightarrow> \<lparr>xo_result = Inr r, xo_calls = [], xo_db = db1\<rparr>
      | Inr (Reserved reserved, db1) \<Rightarrow>
          let db2 = xe_gap1 env db1 in
          if ra_is_new reserved then call_provider x env t reserved db2
          else (case xe_lookup env (ra_key reserved) of
                  LookupRaised e \<Rightarrow>
                    finish_execution t (ra_key reserved) (xe_completed_at env)
                      (error_outcome ActionAttemptStatus.UNKNOWN (ascii ''lookup failed: '' @ e)) [] db2
                | LookupConflict c \<Rightarrow>
                    finish_execution t (ra_key reserved) (xe_completed_at env) (conflict_outcome c) [] db2
                | LookupResult r \<Rightarrow>
                    finish_execution t (ra_key reserved) (xe_completed_at env) (success_outcome r) [] db2
                | LookupNothing \<Rightarrow>
                    if \<not> al_guarantees_idempotency (ra_adapter reserved)
                    then finish_execution t (ra_key reserved) (xe_completed_at env)
                           (error_outcome ActionAttemptStatus.UNKNOWN
                              (ascii ''provider cannot safely retry an unresolved execution'')) [] db2
                    else call_provider x env t reserved db2))"

section \<open>Reconciliation by lookup\<close>

definition begin_reconciliation ::
  "ActionExecutor \<Rightarrow> ExecutionEnv \<Rightarrow> execution_target \<Rightarrow> Database
     \<Rightarrow> execution_error + (ActionExecutionResult + unicode) \<times> Database" where
  "begin_reconciliation x env t db =
     bind_result (require_reconciliation_enabled x (et_tenant_id t) db) (\<lambda>_.
     bind_result (load_authorized_action t (xe_now1 env) db) (\<lambda>(request, revision, _, process).
     bind_result (require_compatible_process x process) (\<lambda>_.
     (case map_of (xt_adapters x) (ar_action_type request) of
        None \<Rightarrow> Inl AdapterUnknown
      | Some adapter \<Rightarrow>
        (case execution_idempotency_key (et_tenant_id t) (et_process_instance_id t)
                (et_action_request_id t) (et_revision t) (av_payload_hash revision) of
           None \<Rightarrow> Inl KeyNotEncodable
         | Some key \<Rightarrow>
           (case find_attempt (et_tenant_id t) key db of
              None \<Rightarrow> Inl NothingToReconcile
            | Some attempt \<Rightarrow>
                if settled_attempt (aa_status attempt) then Inr (Inl (attempt_result attempt), db)
                else Inr (Inr key,
                       set_request_status (et_tenant_id t) (et_action_request_id t)
                         ActionRequestStatus.RECONCILING
                         (update_attempt (et_tenant_id t) key
                            (\<lambda>a. a\<lparr>aa_status := ActionAttemptStatus.RECONCILING\<rparr>) db))))))))"

definition reconcile ::
  "ActionExecutor \<Rightarrow> ExecutionEnv \<Rightarrow> execution_target \<Rightarrow> Database \<Rightarrow> execution_run" where
  "reconcile x env t db =
     (case begin_reconciliation x env t db of
        Inl e \<Rightarrow> \<lparr>xo_result = Inl e, xo_calls = [], xo_db = db\<rparr>
      | Inr (Inl r, db1) \<Rightarrow> \<lparr>xo_result = Inr r, xo_calls = [], xo_db = db1\<rparr>
      | Inr (Inr key, db1) \<Rightarrow>
          finish_execution t key (xe_completed_at env)
            (case xe_lookup env key of
               LookupRaised e \<Rightarrow>
                 error_outcome ActionAttemptStatus.UNKNOWN (ascii ''reconciliation lookup failed: '' @ e)
             | LookupNothing \<Rightarrow>
                 error_outcome ActionAttemptStatus.UNKNOWN
                   (ascii ''provider lookup could not establish the execution outcome'')
             | LookupConflict c \<Rightarrow> conflict_outcome c
             | LookupResult r \<Rightarrow> success_outcome r) [] (xe_gap1 env db1))"

lemma isoformat_example:
  "isoformat_utc 1709210096000123 = ascii ''2024-02-29T12:34:56.000123+00:00''
   \<and> isoformat_utc 946684799000000 = ascii ''1999-12-31T23:59:59+00:00''"
  by code_simp

end
