(* ===== verification/Execution_Safety.thy ===== *)
theory Execution_Safety
  imports Execution
begin

text \<open>
  What the executor of \<open>Execution\<close> guarantees: a provider call is made only under a full
  authorization read in the transaction that makes it, an action whose outcome is settled is
  never sent again, and with an adapter that cannot deduplicate the provider is called at most
  once however often the activity is retried.
\<close>

section \<open>Authorization of a call\<close>

text \<open>The exact payload was approved, by a recorded decision, and the approval still holds.\<close>

definition payload_approved :: "execution_target \<Rightarrow> instant \<Rightarrow> ActionRevision \<Rightarrow> Database \<Rightarrow> bool" where
  "payload_approved t now revision db \<longleftrightarrow>
     (\<exists>approval \<in> set (db_approvals db).
        aq_tenant_id approval = et_tenant_id t \<and> aq_process_instance_id approval = et_process_instance_id t
        \<and> aq_action_request_id approval = et_action_request_id t \<and> aq_revision approval = et_revision t
        \<and> aq_payload_hash approval = av_payload_hash revision
        \<and> aq_status approval = ApprovalStatus.APPROVED
        \<and> (\<forall>e. aq_expires_at approval = Some e \<longrightarrow> now < e)
        \<and> (\<exists>decision \<in> set (db_approval_decisions db).
             ax_tenant_id decision = et_tenant_id t
             \<and> ax_process_instance_id decision = et_process_instance_id t
             \<and> ax_approval_request_id decision = aq_id approval
             \<and> ax_decision decision = approval_outcome.APPROVED
             \<and> ax_payload_hash decision = av_payload_hash revision))"

definition action_authorized ::
  "execution_target \<Rightarrow> instant \<Rightarrow> Database \<Rightarrow> ActionRequest \<Rightarrow> ActionRevision \<Rightarrow> ProcessInstance \<Rightarrow> bool" where
  "action_authorized t now db request revision process \<longleftrightarrow>
     find_request (target_key t) db = Some request
     \<and> find_revision t db = Some revision
     \<and> find_process (et_tenant_id t) (et_process_instance_id t) db = Some process
     \<and> \<not> halted_status (pi_status process)
     \<and> ar_current_revision request = et_revision t
     \<and> (\<exists>policy. find_policy_record t db = Some policy
          \<and> (ay_outcome policy = ALLOW
               \<and> (ar_status request = ActionRequestStatus.ALLOWED \<or> retryable_status (ar_status request))
             \<or> ay_outcome policy = REQUIRE_APPROVAL \<and> payload_approved t now revision db
               \<and> (ar_status request = ActionRequestStatus.APPROVED \<or> retryable_status (ar_status request))))"

lemma require_exact_approval_ok:
  assumes "require_exact_approval t now request revision db = Inr u"
  shows "payload_approved t now revision db
    \<and> (ar_status request = ActionRequestStatus.APPROVED \<or> retryable_status (ar_status request))"
proof -
  obtain approval where a: "find_exact_approval t (av_payload_hash revision) db = Some approval"
    "aq_status approval = ApprovalStatus.APPROVED" "\<forall>e. aq_expires_at approval = Some e \<longrightarrow> now < e"
    "find_approved_decision t approval (av_payload_hash revision) db \<noteq> None"
    "ar_status request = ActionRequestStatus.APPROVED \<or> retryable_status (ar_status request)"
    using assms by (auto simp: require_exact_approval_def split: option.splits if_splits)
  then obtain decision where
    "find_approved_decision t approval (av_payload_hash revision) db = Some decision" by blast
  then show ?thesis
    using a find_Some_mem [OF a(1) [unfolded find_exact_approval_def]]
    unfolding payload_approved_def find_approved_decision_def
    by (intro conjI bexI [of _ approval] bexI [of _ decision]) (auto dest!: find_Some_mem)
qed

lemma load_authorized_action_ok:
  assumes "load_authorized_action t now db = Inr (request, revision, policy, process)"
  shows "action_authorized t now db request revision process"
  using assms
  by (auto simp: load_authorized_action_def action_authorized_def
      split: option.splits if_splits PermissionOutcome.splits dest: require_exact_approval_ok)

text \<open>No breaker that covers the action is open, and outbound messages are not paused.\<close>

definition breakers_closed ::
  "ActionExecutor \<Rightarrow> uuid \<Rightarrow> string \<Rightarrow> CommunicationPolicy \<Rightarrow> Database \<Rightarrow> bool" where
  "breakers_closed x tenant action_type policy db \<longleftrightarrow>
     open_for_capability tenant action_type db = Inr None
     \<and> (action_type \<in> cp_outbound_action_types policy \<longrightarrow>
          \<not> xt_platform_outbound_paused x \<and> open_for_outbound tenant db = Inr None)"

lemma breaker_message_None:
  "breaker_message x tenant action_type policy db = Inr None \<longleftrightarrow> breakers_closed x tenant action_type policy db"
  by (cases "open_for_capability tenant action_type db"; cases "open_for_outbound tenant db")
    (auto simp: breaker_message_def breakers_closed_def split: option.splits)

text \<open>The process is within its lifetime, and an outbound message may be sent now.\<close>

definition contact_allowed ::
  "ActionExecutor \<Rightarrow> datetime \<Rightarrow> execution_target \<Rightarrow> CommunicationPolicy \<Rightarrow> ActionRequest \<Rightarrow> ProcessInstance
     \<Rightarrow> Database \<Rightarrow> bool" where
  "contact_allowed x clock t policy request process db \<longleftrightarrow>
     (\<exists>now. clock = Aware now \<and> now < pi_created_at process + cp_maximum_process_lifetime policy
        \<and> (ar_action_type request \<in> cp_outbound_action_types policy \<longrightarrow>
             may_contact (xt_zones x) policy
               (communication_evidence (et_tenant_id t) process policy (Some (et_action_request_id t)) db) now))"

lemma communication_stop_None:
  assumes "communication_stop x env t policy request process db = Inr None"
  shows "contact_allowed x (xe_clock env) t policy request process db"
proof (cases "xe_clock env")
  case (Naive n)
  then show ?thesis
    using assms
    by (simp add: communication_stop_def process_lifetime_block_def evaluate_process_lifetime_def)
next
  case (Aware now)
  have life: "lifetime_block (pi_created_at process) policy now = None"
    using assms Aware
    by (auto simp: communication_stop_def process_lifetime_block_def evaluate_process_lifetime_def
        split: option.splits)
  have "may_contact (xt_zones x) policy
      (communication_evidence (et_tenant_id t) process policy (Some (et_action_request_id t)) db) now"
    if out: "ar_action_type request \<in> cp_outbound_action_types policy"
  proof -
    obtain snapshot where s:
      "inspect_communication (xt_zones x) (et_tenant_id t) process policy (xe_clock env)
         (Some (et_action_request_id t)) db = Inr snapshot"
      "communication_require_allowed snapshot = Inr ()"
      using assms out life Aware
      by (auto simp: communication_stop_def process_lifetime_block_def evaluate_process_lifetime_def
          split: sum.splits option.splits)
    show ?thesis using inspect_communication_allowed [OF s] Aware by auto
  qed
  then show ?thesis using life Aware by (auto simp: contact_allowed_def lifetime_block_def Let_def split: if_splits)
qed

text \<open>What a provider call rests on, in the state of the transaction that makes it.\<close>

definition call_authorized ::
  "ActionExecutor \<Rightarrow> ExecutionEnv \<Rightarrow> execution_target \<Rightarrow> reserved_attempt \<Rightarrow> Database
     \<Rightarrow> ProviderActionRequest \<Rightarrow> bool" where
  "call_authorized x env t reserved db call \<longleftrightarrow>
     (\<exists>request revision process tenant.
        find_tenant (et_tenant_id t) db = Some tenant \<and> tn_status tenant = TenantStatus.ACTIVE
        \<and> tn_deployment_id tenant = dr_deployment_id (xt_deployment_release x)
        \<and> action_authorized t (xe_now2 env) db request revision process
        \<and> require_compatible_process x process = Inr ()
        \<and> contact_allowed x (xe_clock env) t (ra_policy reserved) request process db
        \<and> breakers_closed x (et_tenant_id t) (ar_action_type request) (ra_policy reserved) db
        \<and> call = \<lparr>pr_action_type = ar_action_type request, pr_parameters = av_parameters revision,
                  pr_idempotency_key = ra_key reserved, pr_tenant_id = Some (et_tenant_id t),
                  pr_process_instance_id = Some (et_process_instance_id t),
                  pr_authoritative_facts = pi_authoritative_facts process\<rparr>)"

lemma require_execution_enabled_ok:
  "require_execution_enabled x tenant db = Inr u \<Longrightarrow>
   \<exists>t. find_tenant tenant db = Some t \<and> tn_status t = TenantStatus.ACTIVE
     \<and> tn_deployment_id t = dr_deployment_id (xt_deployment_release x)"
  by (auto simp: require_execution_enabled_def require_active_tenant_ok
      split: sum.splits tenancy_error.splits)

lemma authorize_call_ok:
  assumes "authorize_call x env t reserved db = Inr (CallProvider call)"
  shows "call_authorized x env t reserved db call"
proof -
  obtain u where enabled: "require_execution_enabled x (et_tenant_id t) db = Inr u"
    using assms by (auto simp: authorize_call_def)
  obtain tenant where tenant: "find_tenant (et_tenant_id t) db = Some tenant"
      "tn_status tenant = TenantStatus.ACTIVE"
      "tn_deployment_id tenant = dr_deployment_id (xt_deployment_release x)"
    using require_execution_enabled_ok [OF enabled] by blast
  obtain request revision policy process where
    load: "load_authorized_action t (xe_now2 env) db = Inr (request, revision, policy, process)"
    using assms by (auto simp: authorize_call_def)
  have rest: "require_compatible_process x process = Inr ()"
      "communication_stop x env t (ra_policy reserved) request process db = Inr None"
      "breaker_message x (et_tenant_id t) (ar_action_type request) (ra_policy reserved) db = Inr None"
      "call = \<lparr>pr_action_type = ar_action_type request, pr_parameters = av_parameters revision,
               pr_idempotency_key = ra_key reserved, pr_tenant_id = Some (et_tenant_id t),
               pr_process_instance_id = Some (et_process_instance_id t),
               pr_authoritative_facts = pi_authoritative_facts process\<rparr>"
    using assms load by (auto simp: authorize_call_def split: option.splits sum.splits)
  show ?thesis
    unfolding call_authorized_def
    using tenant load_authorized_action_ok [OF load] communication_stop_None [OF rest(2)]
      rest(1,3,4) breaker_message_None by blast
qed

lemma finish_execution_calls [simp]: "xo_calls (finish_execution t key now outcome calls db) = calls"
  by (auto simp: finish_execution_def split: sum.splits prod.splits)

lemma call_provider_calls:
  "xo_calls (call_provider x env t reserved db) =
     (case authorize_call x env t reserved db of Inr (CallProvider call) \<Rightarrow> [call] | _ \<Rightarrow> [])"
  by (auto simp: call_provider_def split: sum.splits execution_gate.splits option.splits)

text \<open>The calls of a run: none, or the one the second transaction authorized.\<close>

lemma execute_calls:
  "xo_calls (execute x env t db) =
     (case reserve_attempt x env t db of
        Inr (Reserved reserved, db1) \<Rightarrow>
          if ra_is_new reserved
             \<or> xe_lookup env (ra_key reserved) = LookupNothing \<and> al_guarantees_idempotency (ra_adapter reserved)
          then xo_calls (call_provider x env t reserved (xe_gap1 env db1)) else []
      | _ \<Rightarrow> [])"
  by (auto simp: execute_def Let_def split: sum.splits prod.splits reservation_answer.splits lookup_answer.splits)

lemma execute_call_cases:
  assumes "xo_calls (execute x env t db) \<noteq> []"
  obtains reserved db1 call where
    "reserve_attempt x env t db = Inr (Reserved reserved, db1)"
    "xo_calls (execute x env t db) = [call]"
    "call_authorized x env t reserved (xe_gap1 env db1) call"
    "ra_is_new reserved
       \<or> xe_lookup env (ra_key reserved) = LookupNothing \<and> al_guarantees_idempotency (ra_adapter reserved)"
proof -
  obtain reserved db1 where r: "reserve_attempt x env t db = Inr (Reserved reserved, db1)"
    and ok: "ra_is_new reserved
       \<or> xe_lookup env (ra_key reserved) = LookupNothing \<and> al_guarantees_idempotency (ra_adapter reserved)"
    using assms
    by (auto simp: execute_calls split: sum.splits prod.splits reservation_answer.splits if_splits)
  then have eq: "xo_calls (execute x env t db) = xo_calls (call_provider x env t reserved (xe_gap1 env db1))"
    by (simp add: execute_calls)
  then obtain call where "authorize_call x env t reserved (xe_gap1 env db1) = Inr (CallProvider call)"
    using assms by (auto simp: call_provider_calls split: sum.splits execution_gate.splits)
  then show ?thesis using that r ok eq by (simp add: call_provider_calls authorize_call_ok)
qed

section \<open>Reservations\<close>

text \<open>What the first transaction establishes.\<close>

lemma reserve_attempt_cases:
  assumes "reserve_attempt x env t db = Inr (answer, db1)"
  obtains request revision process d adapter key inserted attempt rows where
    "action_authorized t (xe_now1 env) db request revision process"
    "map_of (xt_registry x) (pi_process_type process, pi_definition_version process) = Some d"
    "map_of (xt_adapters x) (ar_action_type request) = Some adapter"
    "execution_idempotency_key (et_tenant_id t) (et_process_instance_id t) (et_action_request_id t)
       (et_revision t) (av_payload_hash revision) = Some key"
    "insert_select attempt_key aa_id (new_attempt env t key adapter) (db_attempts db)
       = Some (inserted, Some attempt, rows)"
    "aa_adapter_id attempt = al_id adapter"
    "answer = (if settled_attempt (aa_status attempt) then AlreadySettled (attempt_result attempt)
               else Reserved \<lparr>ra_key = key, ra_adapter = adapter, ra_policy = communication_policy d,
                              ra_is_new = inserted\<rparr>)"
    "db1 = (if settled_attempt (aa_status attempt) then db\<lparr>db_attempts := rows\<rparr>
            else set_request_status (et_tenant_id t) (et_action_request_id t) ActionRequestStatus.EXECUTING
                   (db\<lparr>db_attempts := rows\<rparr>))"
proof -
  obtain request revision policy process where
    load: "load_authorized_action t (xe_now1 env) db = Inr (request, revision, policy, process)"
    using assms by (auto simp: reserve_attempt_def)
  obtain d adapter key inserted attempt rows where
    "map_of (xt_registry x) (pi_process_type process, pi_definition_version process) = Some d"
    "map_of (xt_adapters x) (ar_action_type request) = Some adapter"
    "execution_idempotency_key (et_tenant_id t) (et_process_instance_id t) (et_action_request_id t)
       (et_revision t) (av_payload_hash revision) = Some key"
    "insert_select attempt_key aa_id (new_attempt env t key adapter) (db_attempts db)
       = Some (inserted, Some attempt, rows)"
    "aa_adapter_id attempt = al_id adapter"
    "(answer, db1) = (if settled_attempt (aa_status attempt)
       then (AlreadySettled (attempt_result attempt), db\<lparr>db_attempts := rows\<rparr>)
       else (Reserved \<lparr>ra_key = key, ra_adapter = adapter, ra_policy = communication_policy d,
                       ra_is_new = inserted\<rparr>,
             set_request_status (et_tenant_id t) (et_action_request_id t) ActionRequestStatus.EXECUTING
               (db\<lparr>db_attempts := rows\<rparr>)))"
    using assms load
    by (auto simp: reserve_attempt_def split: option.splits if_splits prod.splits)
  then show ?thesis
    using that load_authorized_action_ok [OF load] by (simp split: if_splits)
qed

lemma insert_select_find:
  assumes "insert_select key ident row rows = Some (inserted, found, rows')"
  shows "(inserted \<longleftrightarrow> find (\<lambda>r. key r = key row) rows = None)
    \<and> found = Some (case find (\<lambda>r. key r = key row) rows of None \<Rightarrow> row | Some r \<Rightarrow> r)
    \<and> rows' = rows @ (if inserted then [row] else [])
    \<and> find (\<lambda>r. key r = key row) rows' = found"
  using assms
proof (cases rule: insert_select_cases)
  case new
  then have "find (\<lambda>r. key r = key row) rows = None" by (simp add: find_None)
  then show ?thesis using new by (simp add: find_append)
next
  case (old r)
  then have "find (\<lambda>r. key r = key row) rows \<noteq> None" by (auto simp: find_None)
  moreover have "found = find (\<lambda>r. key r = key row) rows"
    using assms old by (auto simp: insert_select_def split: insertion.splits)
  ultimately show ?thesis using old by auto
qed

text \<open>The identity of an execution: the key of the exact revision.\<close>

definition execution_key :: "execution_target \<Rightarrow> Database \<Rightarrow> unicode option" where
  "execution_key t db =
     (case find_revision t db of
        None \<Rightarrow> None
      | Some revision \<Rightarrow>
          execution_idempotency_key (et_tenant_id t) (et_process_instance_id t) (et_action_request_id t)
            (et_revision t) (av_payload_hash revision))"

lemma attempt_key_new [simp]: "attempt_key (new_attempt env t key adapter) = (et_tenant_id t, key)"
  by (simp add: attempt_key_def new_attempt_def)

lemma find_attempt_set_request_status [simp]:
  "find_attempt tenant key (set_request_status tenant' request s db) = find_attempt tenant key db"
  by (simp add: find_attempt_def set_request_status_def)

lemma attempt_key_settle [simp]: "attempt_key (settle_attempt now outcome a) = attempt_key a"
  by (simp add: attempt_key_def settle_attempt_def)

lemma find_attempt_update:
  "(\<And>a. attempt_key (f a) = attempt_key a) \<Longrightarrow>
   find_attempt tenant key (update_attempt tenant' key' f db) =
     (if (tenant, key) = (tenant', key') then map_option f (find_attempt tenant key db)
      else find_attempt tenant key db)"
  by (simp add: find_attempt_def update_attempt_def find_update_key)

lemma find_attempt_key: "find_attempt tenant key db = Some a \<Longrightarrow> attempt_key a = (tenant, key)"
  by (auto simp: find_attempt_def dest: find_Some_mem)

lemma find_attempt_result_key:
  "find_attempt tenant key db = Some a \<Longrightarrow> er_idempotency_key (attempt_result a) = key"
  by (drule find_attempt_key) (simp add: attempt_key_def attempt_result_def)

text \<open>After the reservation the attempt of the key exists; before it, a settled one is answered.\<close>

lemma reserve_attempt_attempt:
  assumes "reserve_attempt x env t db = Inr (answer, db1)"
  obtains key attempt where "execution_key t db = Some key"
    "find_attempt (et_tenant_id t) key db1 = Some attempt"
    "\<forall>a. find_attempt (et_tenant_id t) key db = Some a \<longrightarrow> attempt = a"
    "\<forall>r. answer = AlreadySettled r \<longrightarrow> r = attempt_result attempt \<and> settled_attempt (aa_status attempt)"
    "\<forall>reserved. answer = Reserved reserved \<longrightarrow>
       ra_key reserved = key \<and> \<not> settled_attempt (aa_status attempt)
       \<and> (ra_is_new reserved \<longleftrightarrow> find_attempt (et_tenant_id t) key db = None)
       \<and> (\<exists>request. find_request (target_key t) db = Some request
            \<and> map_of (xt_adapters x) (ar_action_type request) = Some (ra_adapter reserved))"
proof -
  from assms obtain request revision process d adapter key inserted attempt rows where
    auth: "action_authorized t (xe_now1 env) db request revision process"
    and "map_of (xt_registry x) (pi_process_type process, pi_definition_version process) = Some d"
    and adapter: "map_of (xt_adapters x) (ar_action_type request) = Some adapter"
    and key: "execution_idempotency_key (et_tenant_id t) (et_process_instance_id t) (et_action_request_id t)
       (et_revision t) (av_payload_hash revision) = Some key"
    and ins: "insert_select attempt_key aa_id (new_attempt env t key adapter) (db_attempts db)
       = Some (inserted, Some attempt, rows)"
    and "aa_adapter_id attempt = al_id adapter"
    and answer: "answer = (if settled_attempt (aa_status attempt) then AlreadySettled (attempt_result attempt)
               else Reserved \<lparr>ra_key = key, ra_adapter = adapter, ra_policy = communication_policy d,
                              ra_is_new = inserted\<rparr>)"
    and db1: "db1 = (if settled_attempt (aa_status attempt) then db\<lparr>db_attempts := rows\<rparr>
            else set_request_status (et_tenant_id t) (et_action_request_id t) ActionRequestStatus.EXECUTING
                   (db\<lparr>db_attempts := rows\<rparr>))"
    by (rule reserve_attempt_cases)
  show ?thesis
  proof (rule that [of key attempt])
    show "execution_key t db = Some key"
      using auth key by (simp add: execution_key_def action_authorized_def)
    show "find_attempt (et_tenant_id t) key db1 = Some attempt"
      unfolding db1 find_attempt_def set_request_status_def
      using insert_select_find [OF ins, THEN conjunct2, THEN conjunct2, THEN conjunct2] by simp
    show "\<forall>a. find_attempt (et_tenant_id t) key db = Some a \<longrightarrow> attempt = a"
      using insert_select_find [OF ins] by (simp add: find_attempt_def)
    show "\<forall>r. answer = AlreadySettled r \<longrightarrow> r = attempt_result attempt \<and> settled_attempt (aa_status attempt)"
      using answer by simp
    have "find_request (target_key t) db = Some request"
      using auth by (simp add: action_authorized_def)
    moreover have "inserted \<longleftrightarrow> find_attempt (et_tenant_id t) key db = None"
      using insert_select_find [OF ins, THEN conjunct1] by (simp add: find_attempt_def)
    ultimately show "\<forall>reserved. answer = Reserved reserved \<longrightarrow>
       ra_key reserved = key \<and> \<not> settled_attempt (aa_status attempt)
       \<and> (ra_is_new reserved \<longleftrightarrow> find_attempt (et_tenant_id t) key db = None)
       \<and> (\<exists>request. find_request (target_key t) db = Some request
            \<and> map_of (xt_adapters x) (ar_action_type request) = Some (ra_adapter reserved))"
      using answer adapter by simp
  qed
qed

section \<open>Results\<close>

lemma record_terminal_cases:
  assumes "record_terminal tenant request key now outcome db = Inr (r, db')"
  obtains a where "find_attempt tenant key db' = Some a" "r = attempt_result a"
    "\<And>b. find_attempt tenant key db = Some b \<Longrightarrow> settled_attempt (aa_status b) \<Longrightarrow> db' = db"
proof -
  obtain b where b: "find_attempt tenant key db = Some b"
    using assms by (auto simp: record_terminal_def split: option.splits)
  show ?thesis
  proof (cases "settled_attempt (aa_status b)")
    case True
    then show ?thesis
      using that assms b by (auto simp: record_terminal_def split: option.splits)
  next
    case False
    then have "r = attempt_result (settle_attempt now outcome b)"
      "db' = set_request_status tenant request (request_status_of_attempt (ao_status outcome))
               (update_attempt tenant key (settle_attempt now outcome) db)"
      using assms b by (auto simp: record_terminal_def split: option.splits)
    then show ?thesis
      using that [of "settle_attempt now outcome b"] b False by (simp add: find_attempt_update)
  qed
qed

lemma finish_execution_result:
  assumes "xo_result (finish_execution t key now outcome calls db) = Inr r"
  obtains a where
    "find_attempt (et_tenant_id t) key (xo_db (finish_execution t key now outcome calls db)) = Some a"
    "r = attempt_result a"
  using assms
  by (auto simp: finish_execution_def split: sum.splits prod.splits elim: record_terminal_cases)

lemma call_provider_result:
  assumes "xo_result (call_provider x env t reserved db) = Inr r"
  obtains a where
    "find_attempt (et_tenant_id t) (ra_key reserved) (xo_db (call_provider x env t reserved db)) = Some a"
    "r = attempt_result a"
  using assms
  by (auto simp: call_provider_def elim: finish_execution_result
      split: sum.splits execution_gate.splits option.splits)

text \<open>The result a run returns is the stored attempt of the execution's key.\<close>

lemma execute_result:
  assumes "xo_result (execute x env t db) = Inr r"
  obtains key a where "execution_key t db = Some key"
    "find_attempt (et_tenant_id t) key (xo_db (execute x env t db)) = Some a" "r = attempt_result a"
proof -
  obtain answer db1 where res: "reserve_attempt x env t db = Inr (answer, db1)"
    using assms by (cases "reserve_attempt x env t db") (auto simp: execute_def)
  from res obtain key attempt where k: "execution_key t db = Some key"
    "find_attempt (et_tenant_id t) key db1 = Some attempt"
    "\<forall>a. find_attempt (et_tenant_id t) key db = Some a \<longrightarrow> attempt = a"
    "\<forall>r. answer = AlreadySettled r \<longrightarrow> r = attempt_result attempt \<and> settled_attempt (aa_status attempt)"
    "\<forall>reserved. answer = Reserved reserved \<longrightarrow>
       ra_key reserved = key \<and> \<not> settled_attempt (aa_status attempt)
       \<and> (ra_is_new reserved \<longleftrightarrow> find_attempt (et_tenant_id t) key db = None)
       \<and> (\<exists>request. find_request (target_key t) db = Some request
            \<and> map_of (xt_adapters x) (ar_action_type request) = Some (ra_adapter reserved))"
    by (rule reserve_attempt_attempt)
  show ?thesis
  proof (cases answer)
    case (AlreadySettled r')
    then show ?thesis using that [OF k(1), of attempt] assms res k by (simp add: execute_def)
  next
    case (Reserved reserved)
    then show ?thesis
      using that [OF k(1)] assms res k(5)
      by (auto simp: execute_def Let_def split: if_splits lookup_answer.splits
          elim!: finish_execution_result call_provider_result)
  qed
qed

section \<open>Settled outcomes are final\<close>

text \<open>A run against a settled attempt makes no call and answers with the stored outcome.\<close>

lemma execute_settled:
  assumes "execution_key t db = Some key" "find_attempt (et_tenant_id t) key db = Some a"
    and "settled_attempt (aa_status a)"
  shows "xo_calls (execute x env t db) = []"
    and "xo_result (execute x env t db) = Inr r \<Longrightarrow> r = attempt_result a"
proof -
  have none: "answer = AlreadySettled (attempt_result a)"
    if res: "reserve_attempt x env t db = Inr (answer, db1)" for answer db1
    using res
  proof (rule reserve_attempt_attempt)
    fix key' attempt
    assume "execution_key t db = Some key'"
      "\<forall>a. find_attempt (et_tenant_id t) key' db = Some a \<longrightarrow> attempt = a"
      "\<forall>r. answer = AlreadySettled r \<longrightarrow> r = attempt_result attempt \<and> settled_attempt (aa_status attempt)"
      "\<forall>reserved. answer = Reserved reserved \<longrightarrow>
       ra_key reserved = key' \<and> \<not> settled_attempt (aa_status attempt)
       \<and> (ra_is_new reserved \<longleftrightarrow> find_attempt (et_tenant_id t) key' db = None)
       \<and> (\<exists>request. find_request (target_key t) db = Some request
            \<and> map_of (xt_adapters x) (ar_action_type request) = Some (ra_adapter reserved))"
    then show ?thesis using assms by (cases answer) auto
  qed
  show "xo_calls (execute x env t db) = []"
    by (auto simp: execute_calls split: sum.splits prod.splits reservation_answer.splits dest: none)
  show "r = attempt_result a" if "xo_result (execute x env t db) = Inr r"
    using that by (auto simp: execute_def Let_def split: sum.splits prod.splits reservation_answer.splits
        dest: none)
qed

text \<open>With an adapter that cannot deduplicate, an existing attempt is never sent again.\<close>

lemma execute_unresolved:
  assumes "execution_key t db = Some key" "find_attempt (et_tenant_id t) key db \<noteq> None"
    and "find_request (target_key t) db = Some request"
    and "map_of (xt_adapters x) (ar_action_type request) = Some adapter" "\<not> al_guarantees_idempotency adapter"
  shows "xo_calls (execute x env t db) = []"
proof (rule ccontr)
  assume "xo_calls (execute x env t db) \<noteq> []"
  then obtain reserved db1 where res: "reserve_attempt x env t db = Inr (Reserved reserved, db1)"
    and ok: "ra_is_new reserved \<or> al_guarantees_idempotency (ra_adapter reserved)"
    by (rule execute_call_cases) blast
  show False
    using res by (rule reserve_attempt_attempt) (use ok assms in auto)
qed

section \<open>At most one call\<close>

text \<open>
  What every transaction of the system keeps: revisions are append-only, the type of an action
  request is never written again, attempts are never deleted.
\<close>

definition keeps_execution :: "execution_target \<Rightarrow> Database \<Rightarrow> Database \<Rightarrow> bool" where
  "keeps_execution t db db' \<longleftrightarrow>
     find_revision t db' = find_revision t db
     \<and> map_option ar_action_type (find_request (target_key t) db')
         = map_option ar_action_type (find_request (target_key t) db)
     \<and> (\<forall>key. find_attempt (et_tenant_id t) key db \<noteq> None \<longrightarrow> find_attempt (et_tenant_id t) key db' \<noteq> None)"

lemma keeps_execution_refl [simp]: "keeps_execution t db db"
  by (simp add: keeps_execution_def)

lemma keeps_execution_trans [trans]:
  "keeps_execution t a b \<Longrightarrow> keeps_execution t b c \<Longrightarrow> keeps_execution t a c"
  by (simp add: keeps_execution_def)

lemma keeps_execution_request_status: "keeps_execution t db (set_request_status tenant request s db)"
proof -
  have "find_request k (set_request_status tenant request s db) =
      map_option (\<lambda>r. if ar_tenant_id r = tenant \<and> ar_id r = request then r\<lparr>ar_status := s\<rparr> else r)
        (find_request k db)" for k
    by (simp add: find_request_def set_request_status_def find_update_rows)
  then have "map_option ar_action_type (find_request k (set_request_status tenant request s db))
      = map_option ar_action_type (find_request k db)" for k
    by (cases "find_request k db") simp_all
  then show ?thesis by (simp add: keeps_execution_def find_revision_def set_request_status_def find_attempt_def)
qed

lemma keeps_execution_attempts:
  assumes "\<And>key. find_attempt (et_tenant_id t) key db \<noteq> None \<Longrightarrow>
      find_attempt (et_tenant_id t) key (db\<lparr>db_attempts := rows\<rparr>) \<noteq> None"
  shows "keeps_execution t db (db\<lparr>db_attempts := rows\<rparr>)"
  using assms by (simp add: keeps_execution_def find_revision_def find_request_def)

lemma keeps_execution_settle: "keeps_execution t db (update_attempt tenant key (settle_attempt now outcome) db)"
proof -
  have "find_attempt tn k db \<noteq> None \<Longrightarrow>
      find_attempt tn k (update_attempt tenant key (settle_attempt now outcome) db) \<noteq> None" for tn k
    by (auto simp: find_attempt_update)
  then show ?thesis unfolding update_attempt_def by (rule keeps_execution_attempts)
qed

lemma keeps_execution_finish: "keeps_execution t db (xo_db (finish_execution t' key now outcome calls db))"
  by (auto simp: finish_execution_def record_terminal_def split: sum.splits prod.splits option.splits if_splits
      intro: keeps_execution_trans [OF keeps_execution_settle keeps_execution_request_status])

lemma keeps_execution_reserve:
  assumes "reserve_attempt x env t' db = Inr (answer, db1)"
  shows "keeps_execution t db db1"
  using assms
proof (cases rule: reserve_attempt_cases)
  case (1 request revision process d adapter key inserted attempt rows)
  have "rows = db_attempts db @ (if inserted then [new_attempt env t' key adapter] else [])"
    using insert_select_find [OF 1(5)] by blast
  then have "keeps_execution t db (db\<lparr>db_attempts := rows\<rparr>)"
    by (intro keeps_execution_attempts) (auto simp: find_attempt_def find_append)
  then show ?thesis
    using 1(8) keeps_execution_trans [OF _ keeps_execution_request_status] by simp
qed

lemma keeps_execution_call_provider:
  assumes "\<And>db. keeps_execution t db (xe_gap2 env db)"
  shows "keeps_execution t db (xo_db (call_provider x env t' reserved db))"
  using keeps_execution_trans [OF assms keeps_execution_finish] assms
  by (auto simp: call_provider_def split: sum.splits execution_gate.splits option.splits)

lemma keeps_execution_execute:
  assumes "\<And>db. keeps_execution t db (xe_gap1 env db)" "\<And>db. keeps_execution t db (xe_gap2 env db)"
  shows "keeps_execution t db (xo_db (execute x env t' db))"
proof (cases "reserve_attempt x env t' db")
  case (Inr p)
  obtain answer db1 where p: "p = (answer, db1)" by (cases p)
  have "keeps_execution t db db1" using keeps_execution_reserve Inr p by blast
  moreover have "keeps_execution t db (xe_gap1 env db1)"
    using keeps_execution_trans [OF calculation assms(1)] .
  ultimately show ?thesis
    using keeps_execution_trans [OF _ keeps_execution_finish]
      keeps_execution_trans [OF _ keeps_execution_call_provider [OF assms(2)]] Inr p
    by (cases answer) (auto simp: execute_def Let_def split: lookup_answer.splits)
qed (simp add: execute_def)

text \<open>Temporal's retries of one activity, in sequence, with other work between and during them.\<close>

fun execute_all ::
  "ActionExecutor \<Rightarrow> execution_target \<Rightarrow> ExecutionEnv list \<Rightarrow> Database \<Rightarrow> ProviderActionRequest list \<times> Database" where
  "execute_all x t [] db = ([], db)"
| "execute_all x t (env # envs) db =
     (let run = execute x env t db;
          rest = execute_all x t envs (xo_db run)
      in (xo_calls run @ fst rest, snd rest))"

definition interference_ok :: "execution_target \<Rightarrow> ExecutionEnv \<Rightarrow> bool" where
  "interference_ok t env \<longleftrightarrow>
     (\<forall>db. keeps_execution t db (xe_gap1 env db)) \<and> (\<forall>db. keeps_execution t db (xe_gap2 env db))"

text \<open>Once the attempt exists, no retry calls the provider.\<close>

lemma execute_all_unresolved:
  assumes "\<forall>env \<in> set envs. interference_ok t env"
    and "execution_key t db = Some key" "find_attempt (et_tenant_id t) key db \<noteq> None"
    and "find_request (target_key t) db = Some request"
    and "map_of (xt_adapters x) (ar_action_type request) = Some adapter" "\<not> al_guarantees_idempotency adapter"
  shows "fst (execute_all x t envs db) = []"
  using assms
proof (induction envs arbitrary: db request)
  case (Cons env envs)
  let ?db = "xo_db (execute x env t db)"
  have keep: "keeps_execution t db ?db"
    using Cons.prems(1) by (intro keeps_execution_execute) (simp_all add: interference_ok_def)
  obtain request' where "find_request (target_key t) ?db = Some request'"
    "ar_action_type request' = ar_action_type request"
    using keep Cons.prems(4) by (auto simp: keeps_execution_def)
  moreover have "execution_key t ?db = Some key" "find_attempt (et_tenant_id t) key ?db \<noteq> None"
    using keep Cons.prems(2,3) by (simp_all add: keeps_execution_def execution_key_def)
  ultimately have "fst (execute_all x t envs ?db) = []"
    using Cons.prems Cons.IH [of ?db request'] by simp
  moreover have "xo_calls (execute x env t db) = []" using Cons.prems by (intro execute_unresolved)
  ultimately show ?case by (simp add: Let_def)
qed simp

text \<open>A run that calls the provider leaves the attempt behind.\<close>

lemma execute_call_leaves_attempt:
  assumes "xo_calls (execute x env t db) \<noteq> []" "interference_ok t env"
  obtains key where "execution_key t db = Some key"
    "find_attempt (et_tenant_id t) key (xo_db (execute x env t db)) \<noteq> None"
proof -
  from assms(1) obtain reserved db1 where res: "reserve_attempt x env t db = Inr (Reserved reserved, db1)"
    and ok: "ra_is_new reserved
       \<or> xe_lookup env (ra_key reserved) = LookupNothing \<and> al_guarantees_idempotency (ra_adapter reserved)"
    by (rule execute_call_cases) blast
  from res obtain key where key: "execution_key t db = Some key" "find_attempt (et_tenant_id t) key db1 \<noteq> None"
    by (rule reserve_attempt_attempt) simp
  have "xo_db (execute x env t db) = xo_db (call_provider x env t reserved (xe_gap1 env db1))"
    using res ok by (auto simp: execute_def Let_def)
  moreover have "keeps_execution t db1 (xo_db (call_provider x env t reserved (xe_gap1 env db1)))"
    using assms(2) keeps_execution_trans [OF _ keeps_execution_call_provider] by (simp add: interference_ok_def)
  ultimately show ?thesis using that key by (simp add: keeps_execution_def)
qed

lemma execute_all_at_most_once:
  assumes "\<forall>env \<in> set envs. interference_ok t env"
    and "find_request (target_key t) db = Some request"
    and "map_of (xt_adapters x) (ar_action_type request) = Some adapter" "\<not> al_guarantees_idempotency adapter"
  shows "length (fst (execute_all x t envs db)) \<le> 1"
  using assms
proof (induction envs arbitrary: db request)
  case (Cons env envs)
  let ?run = "execute x env t db"
  have env: "interference_ok t env" "\<forall>env \<in> set envs. interference_ok t env" using Cons.prems(1) by simp_all
  have keep: "keeps_execution t db (xo_db ?run)"
    using env(1) by (intro keeps_execution_execute) (simp_all add: interference_ok_def)
  obtain request' where r: "find_request (target_key t) (xo_db ?run) = Some request'"
    "ar_action_type request' = ar_action_type request"
    using keep Cons.prems(2) by (auto simp: keeps_execution_def)
  show ?case
  proof (cases "xo_calls ?run = []")
    case True
    then show ?thesis using Cons.IH [of "xo_db ?run" request'] Cons.prems r env by (simp add: Let_def)
  next
    case False
    obtain call where one: "xo_calls ?run = [call]" using False by (rule execute_call_cases)
    obtain key where "execution_key t db = Some key" "find_attempt (et_tenant_id t) key (xo_db ?run) \<noteq> None"
      using False env(1) by (rule execute_call_leaves_attempt)
    then have "fst (execute_all x t envs (xo_db ?run)) = []"
      using keep r Cons.prems(3,4) env(2)
      by (intro execute_all_unresolved [of envs t "xo_db ?run" key request' x adapter])
        (simp_all add: keeps_execution_def execution_key_def)
    then show ?thesis using one by (simp add: Let_def)
  qed
qed simp

section \<open>Stored outcomes are never overwritten\<close>

definition keeps_settled :: "Database \<Rightarrow> Database \<Rightarrow> bool" where
  "keeps_settled db db' \<longleftrightarrow>
     (\<forall>tenant key a. find_attempt tenant key db = Some a \<and> settled_attempt (aa_status a)
        \<longrightarrow> find_attempt tenant key db' = Some a)"

lemma keeps_settled_refl [simp]: "keeps_settled db db"
  by (simp add: keeps_settled_def)

lemma keeps_settled_trans: "keeps_settled a b \<Longrightarrow> keeps_settled b c \<Longrightarrow> keeps_settled a c"
  unfolding keeps_settled_def by blast

lemma keeps_settled_request_status [simp]:
  "keeps_settled db (set_request_status tenant request s db') \<longleftrightarrow> keeps_settled db db'"
  by (simp add: keeps_settled_def)

lemma keeps_settled_update:
  assumes "find_attempt tenant key db = Some a" "\<not> settled_attempt (aa_status a)"
    and "\<And>a. attempt_key (f a) = attempt_key a"
  shows "keeps_settled db (update_attempt tenant key f db)"
  using assms by (auto simp: keeps_settled_def find_attempt_update)

lemma keeps_settled_finish: "keeps_settled db (xo_db (finish_execution t key now outcome calls db))"
  by (auto simp: finish_execution_def record_terminal_def keeps_settled_update
      split: sum.splits prod.splits option.splits if_splits)

lemma keeps_settled_reserve:
  assumes "reserve_attempt x env t db = Inr (answer, db1)"
  shows "keeps_settled db db1"
  using assms
proof (cases rule: reserve_attempt_cases)
  case (1 request revision process d adapter key inserted attempt rows)
  have "rows = db_attempts db @ (if inserted then [new_attempt env t key adapter] else [])"
    using insert_select_find [OF 1(5)] by blast
  then have "keeps_settled db (db\<lparr>db_attempts := rows\<rparr>)"
    by (auto simp: keeps_settled_def find_attempt_def find_append)
  then show ?thesis using 1(8) by simp
qed

lemma keeps_settled_call_provider:
  assumes "\<And>db. keeps_settled db (xe_gap2 env db)"
  shows "keeps_settled db (xo_db (call_provider x env t reserved db))"
  using keeps_settled_trans [OF assms keeps_settled_finish] assms
  by (auto simp: call_provider_def split: sum.splits execution_gate.splits option.splits)

lemma keeps_settled_execute:
  assumes "\<And>db. keeps_settled db (xe_gap1 env db)" "\<And>db. keeps_settled db (xe_gap2 env db)"
  shows "keeps_settled db (xo_db (execute x env t db))"
proof (cases "reserve_attempt x env t db")
  case (Inr p)
  obtain answer db1 where p: "p = (answer, db1)" by (cases p)
  have "keeps_settled db db1" using keeps_settled_reserve Inr p by blast
  moreover have "keeps_settled db (xe_gap1 env db1)" using keeps_settled_trans [OF calculation assms(1)] .
  ultimately show ?thesis
    using keeps_settled_trans [OF _ keeps_settled_finish]
      keeps_settled_trans [OF _ keeps_settled_call_provider [OF assms(2)]] Inr p
    by (cases answer) (auto simp: execute_def Let_def split: lookup_answer.splits)
qed (simp add: execute_def)

lemma begin_reconciliation_settled:
  assumes "begin_reconciliation x env t db = Inr (answer, db1)"
  shows "keeps_settled db db1"
  using assms
  by (auto simp: begin_reconciliation_def attempt_key_def split: option.splits if_splits
      intro!: keeps_settled_update)

lemma keeps_settled_reconcile:
  assumes "\<And>db. keeps_settled db (xe_gap1 env db)"
  shows "keeps_settled db (xo_db (reconcile x env t db))"
proof (cases "begin_reconciliation x env t db")
  case (Inr p)
  obtain answer db1 where p: "p = (answer, db1)" by (cases p)
  have "keeps_settled db db1" using begin_reconciliation_settled Inr p by blast
  moreover have "keeps_settled db (xe_gap1 env db1)" using keeps_settled_trans [OF calculation assms] .
  ultimately show ?thesis
    using keeps_settled_trans [OF _ keeps_settled_finish] Inr p
    by (cases answer) (auto simp: reconcile_def)
qed (simp add: reconcile_def)

end
