(* ===== verification/Execution_Properties.thy ===== *)
theory Execution_Properties
  imports Execution_Safety Decision_Properties
begin

text \<open>
  The guarantees of action execution, with an instance: one allowed look-up of a small process.
\<close>

section \<open>An instance\<close>

definition sample_release :: DeploymentRelease where
  "sample_release = \<lparr>dr_deployment_id = ''dep'', dr_release_fingerprint = ''rel'', dr_temporal_task_queue = ''q''\<rparr>"

definition sample_process :: ProcessInstance where
  "sample_process =
     \<lparr>pi_id = 2, pi_tenant_id = 1, pi_process_type = ''enquiry'', pi_definition_version = ascii ''1'',
      pi_extension_manifest_hash = ''mh'', pi_client_pack_fingerprint = ''cp'',
      pi_process_definition_fingerprint = ''fp'', pi_deployment_id = ''dep'',
      pi_deployment_release_fingerprint = ''rel'', pi_temporal_task_queue = ''q'',
      pi_status = ProcessStatus.ACTIVE, pi_workflow_id = ascii ''wf'', pi_late_event_policy = ''ignore'',
      pi_authoritative_facts = [], pi_customer_claims = [], pi_fact_provenance = [],
      pi_memory_summary = None, pi_memory_summary_source_event_ids = [],
      pi_memory_summary_source_review_command_ids = [], pi_memory_summary_source_action_attempt_ids = [],
      pi_memory_summary_source_timer_ids = [], pi_open_commitments = [], pi_current_wake_conditions = [],
      pi_state_version = 1, pi_created_at = 0\<rparr>"

definition sample_request :: ActionRequest where
  "sample_request =
     \<lparr>ar_id = 3, ar_tenant_id = 1, ar_process_instance_id = 2, ar_agent_turn_id = 9,
      ar_logical_action_key = ascii ''k'', ar_action_type = ''look_up'',
      ar_process_definition_version = ascii ''1'', ar_supersedes_action_request_id = None,
      ar_current_revision = 1, ar_status = ActionRequestStatus.ALLOWED, ar_created_at = 5\<rparr>"

definition sample_revision :: ActionRevision where
  "sample_revision =
     \<lparr>av_id = 4, av_tenant_id = 1, av_process_instance_id = 2, av_action_request_id = 3, av_revision = 1,
      av_parameters = [], av_payload_hash = ascii ''ab'', av_rationale = ascii ''r'', av_based_on_event_ids = [],
      av_based_on_review_command_ids = [], av_based_on_action_attempt_ids = [], av_based_on_timer_ids = []\<rparr>"

definition sample_policy_record :: ActionPolicyRecord where
  "sample_policy_record =
     \<lparr>ay_id = 5, ay_tenant_id = 1, ay_process_instance_id = 2, ay_action_request_id = 3, ay_revision = 1,
      ay_outcome = ALLOW, ay_policy_version = ascii ''1'', ay_reason = ascii ''r''\<rparr>"

definition sample_database :: Database where
  "sample_database =
     empty_database\<lparr>db_tenants := [\<lparr>tn_id = 1, tn_slug = ascii ''acme'', tn_name = ascii ''Acme'', tn_status = TenantStatus.ACTIVE, tn_deployment_id = ''dep''\<rparr>],
       db_processes := [sample_process], db_action_requests := [sample_request],
       db_action_revisions := [sample_revision], db_policy_records := [sample_policy_record]\<rparr>"

definition sample_executor :: ActionExecutor where
  "sample_executor =
     \<lparr>xt_adapters = [(''look_up'', \<lparr>al_id = ascii ''crm'', al_guarantees_idempotency = False\<rparr>)],
      xt_compatibility = \<lparr>dc_client_pack_fingerprint = ''cp'', dc_extension_manifest_hash = ''mh'',
        dc_definition_fingerprints = [((''enquiry'', ascii ''1''), ''fp'')]\<rparr>,
      xt_deployment_release = sample_release, xt_registry = [((''enquiry'', ascii ''1''), sample_definition)],
      xt_platform_outbound_paused = False,
      xt_zones = (\<lambda>_. \<lparr>zone_wall = (\<lambda>t. t), zone_instant = (\<lambda>w fold. w)\<rparr>)\<rparr>"

definition sample_environment :: ExecutionEnv where
  "sample_environment =
     \<lparr>xe_attempt_id = 6, xe_now1 = 10, xe_gap1 = (\<lambda>db. db), xe_now2 = 11, xe_clock = Aware 11,
      xe_gap2 = (\<lambda>db. db), xe_completed_at = 12, xe_lookup = (\<lambda>_. LookupNothing),
      xe_provider = (\<lambda>r. ProviderReturned \<lparr>po_provider_reference = ascii ''ref'', po_result = [], po_facts = []\<rparr>)\<rparr>"

definition sample_target :: execution_target where
  "sample_target = \<lparr>et_tenant_id = 1, et_process_instance_id = 2, et_action_request_id = 3, et_revision = 1\<rparr>"

lemmas sample_defs = sample_release_def sample_process_def sample_request_def sample_revision_def
  sample_policy_record_def sample_database_def sample_executor_def sample_environment_def sample_target_def
  empty_database_def

definition sample_reserved :: "unicode \<Rightarrow> reserved_attempt" where
  "sample_reserved k = \<lparr>ra_key = k, ra_adapter = \<lparr>al_id = ascii ''crm'', al_guarantees_idempotency = False\<rparr>,
     ra_policy = communication_policy sample_definition, ra_is_new = True\<rparr>"

definition sample_reserved_db :: "unicode \<Rightarrow> Database" where
  "sample_reserved_db k =
     sample_database\<lparr>db_attempts := [new_attempt sample_environment sample_target k (ra_adapter (sample_reserved k))],
       db_action_requests := [sample_request\<lparr>ar_status := ActionRequestStatus.EXECUTING\<rparr>]\<rparr>"

lemmas sample_lookups = require_execution_enabled_def require_active_tenant_def find_tenant_def
  load_authorized_action_def find_request_def request_key_def target_key_def find_revision_def find_policy_record_def
  find_process_def halted_status_def terminal_status_def retryable_status_def require_compatible_process_def
  compatible_process_def release_require_process_def

lemma sample_reserve:
  assumes "execution_idempotency_key 1 2 3 1 (ascii ''ab'') = Some k"
  shows "reserve_attempt sample_executor sample_environment sample_target sample_database
    = Inr (Reserved (sample_reserved k), sample_reserved_db k)"
  using assms
  by (simp add: reserve_attempt_def sample_lookups attempt_number_clash_def insert_select_def insert_ignore_def
      new_attempt_def attempt_key_def settled_attempt_def sample_reserved_def sample_reserved_db_def
      set_request_status_def update_rows_def sample_defs)

lemma sample_communication: "communication_stop sample_executor sample_environment sample_target
    (communication_policy sample_definition) (sample_request\<lparr>ar_status := ActionRequestStatus.EXECUTING\<rparr>)
    sample_process db = Inr None"
  by (simp add: communication_stop_def process_lifetime_block_def evaluate_process_lifetime_def
      lifetime_block_def communication_policy_def Let_def sample_definition_def default_ProcessLimits_def
      sample_environment_def sample_process_def sample_request_def)

lemma sample_breakers: "breaker_message sample_executor 1 ''look_up'' (communication_policy sample_definition)
    (sample_reserved_db k) = Inr None"
proof -
  have "normalize_breaker_target CAPABILITY (ascii ''look_up'') = Inr (ascii ''look_up'')" by code_simp
  moreover have "normalize_breaker_target BreakerScope.ALL [] = Inr []" by code_simp
  ultimately show ?thesis
    by (simp add: breaker_message_def open_for_capability_def latest_breaker_def
        breaker_rows_def is_tripped_def communication_policy_def Let_def sample_definition_def
        sample_reserved_db_def sample_database_def empty_database_def)
qed

definition sample_call :: "unicode \<Rightarrow> ProviderActionRequest" where
  "sample_call k = \<lparr>pr_action_type = ''look_up'', pr_parameters = [], pr_idempotency_key = k,
     pr_tenant_id = Some 1, pr_process_instance_id = Some 2, pr_authoritative_facts = []\<rparr>"

lemma sample_authorized:
  "authorize_call sample_executor sample_environment sample_target (sample_reserved k) (sample_reserved_db k)
     = Inr (CallProvider (sample_call k))"
proof -
  have process: "find_process 1 2 (sample_reserved_db k) = Some sample_process"
    by (simp add: find_process_def sample_reserved_db_def sample_defs)
  have load: "load_authorized_action sample_target 11 (sample_reserved_db k) =
      Inr (sample_request\<lparr>ar_status := ActionRequestStatus.EXECUTING\<rparr>, sample_revision, sample_policy_record, sample_process)"
    by (simp add: sample_lookups sample_reserved_db_def sample_defs)
  have "require_execution_enabled sample_executor 1 (sample_reserved_db k) = Inr ()"
    "require_compatible_process sample_executor sample_process = Inr ()"
    by (simp_all add: sample_lookups sample_reserved_db_def sample_defs)
  with load show ?thesis
    using sample_communication [of "sample_reserved_db k"] sample_breakers [of k]
    by (simp add: authorize_call_def sample_reserved_def sample_call_def)
       (simp add: sample_defs)
qed

lemma sample_execution:
  assumes "execution_idempotency_key 1 2 3 1 (ascii ''ab'') = Some k"
  shows "xo_calls (execute sample_executor sample_environment sample_target sample_database) = [sample_call k]"
proof -
  have "xe_gap1 sample_environment db = db" for db by (simp add: sample_environment_def)
  then show ?thesis
    using sample_reserve [OF assms] sample_authorized [of k]
    by (simp add: execute_calls call_provider_calls sample_reserved_def)
qed

lemma sample_execution_result:
  assumes "execution_idempotency_key 1 2 3 1 (ascii ''ab'') = Some k"
  shows "\<exists>r. xo_result (execute sample_executor sample_environment sample_target sample_database) = Inr r
    \<and> settled_attempt (er_status r)"
proof -
  let ?outcome = "success_outcome \<lparr>po_provider_reference = ascii ''ref'', po_result = [], po_facts = []\<rparr>"
  have attempt: "find_attempt 1 k (sample_reserved_db k) =
      Some (new_attempt sample_environment sample_target k (ra_adapter (sample_reserved k)))"
    by (simp add: find_attempt_def sample_reserved_db_def) (simp add: sample_target_def)
  have request: "find (\<lambda>r. ar_tenant_id r = 1 \<and> ar_id r = 3) (db_action_requests (sample_reserved_db k)) \<noteq> None"
    by (simp add: sample_reserved_db_def sample_request_def)
  have "\<exists>r db'. record_terminal 1 3 k 12 ?outcome (sample_reserved_db k) = Inr (r, db') \<and> settled_attempt (er_status r)"
    using attempt request
    by (auto simp: record_terminal_def new_attempt_def settled_attempt_def attempt_result_def settle_attempt_def
        success_outcome_def)
  moreover have "xe_gap1 sample_environment db = db" "xe_gap2 sample_environment db = db"
      "xe_completed_at sample_environment = 12" for db
    by (simp_all add: sample_environment_def)
  moreover have "provider_outcome (xe_provider sample_environment c) = Some ?outcome" for c
    by (simp add: sample_environment_def)
  moreover have "et_tenant_id sample_target = 1" "et_action_request_id sample_target = 3"
    "ra_key (sample_reserved k) = k" "ra_is_new (sample_reserved k)"
    by (simp_all add: sample_target_def sample_reserved_def)
  ultimately show ?thesis
    using sample_reserve [OF assms] sample_authorized [of k]
    by (auto simp: execute_def call_provider_def finish_execution_def Let_def)
qed

lemma sample_key: obtains k where "execution_idempotency_key 1 2 3 1 (ascii ''ab'') = Some k"
proof -
  have "encodable (ascii ''ab'')" by (simp add: encodable_def ascii_def)
  then show ?thesis using that execution_key_defined by blast
qed

section \<open>Properties\<close>

text \<open>
  (C1) A provider is called at most once per run, and only under an authorization read in the very
  transaction that makes the call: the tenant is active and assigned to this deployment, the
  process is neither paused nor ended and pinned to what is deployed, the revision is the
  current one and its policy outcome allows it or an unexpired approval of the exact payload
  hash with its recorded decision exists, the process is within its lifetime, an outbound
  message may be sent now, and no circuit breaker that covers it is open. The call carries the
  parameters of that revision and the key reserved for it.
\<close>

theorem provider_call_authorized:
  assumes "xo_calls (execute x env t db) \<noteq> []"
  shows "\<exists>reserved db1 call. reserve_attempt x env t db = Inr (Reserved reserved, db1)
    \<and> xo_calls (execute x env t db) = [call]
    \<and> call_authorized x env t reserved (xe_gap1 env db1) call"
  using assms by (rule execute_call_cases) blast

theorem provider_call_authorized_witness:
  "\<exists>k reserved db1. execution_idempotency_key 1 2 3 1 (ascii ''ab'') = Some k
     \<and> reserve_attempt sample_executor sample_environment sample_target sample_database = Inr (Reserved reserved, db1)
     \<and> call_authorized sample_executor sample_environment sample_target reserved db1 (sample_call k)"
proof -
  obtain k where k: "execution_idempotency_key 1 2 3 1 (ascii ''ab'') = Some k" by (rule sample_key)
  have "xe_gap1 sample_environment db = db" for db by (simp add: sample_environment_def)
  then show ?thesis
    using provider_call_authorized [of sample_executor sample_environment sample_target sample_database]
      sample_execution [OF k] k by auto
qed

text \<open>
  (C3) With an adapter that cannot deduplicate, the provider is called at most once for an action
  revision, however often the activity is retried and whatever other transactions do in
  between, as long as they keep revisions, action types and attempts.
\<close>

theorem non_idempotent_action_at_most_once:
  assumes "\<forall>env \<in> set envs. interference_ok t env"
    and "find_request (target_key t) db = Some request"
    and "map_of (xt_adapters x) (ar_action_type request) = Some adapter" "\<not> al_guarantees_idempotency adapter"
  shows "length (fst (execute_all x t envs db)) \<le> 1"
  by (rule execute_all_at_most_once [OF assms])

theorem non_idempotent_action_at_most_once_witness:
  "length (fst (execute_all sample_executor sample_target
     [sample_environment, sample_environment, sample_environment] sample_database)) \<le> 1"
proof (rule non_idempotent_action_at_most_once)
  show "\<forall>env \<in> set [sample_environment, sample_environment, sample_environment]. interference_ok sample_target env"
    by (simp add: interference_ok_def sample_environment_def)
  show "find_request (target_key sample_target) sample_database = Some sample_request"
    by (simp add: find_request_def request_key_def target_key_def sample_defs)
  show "map_of (xt_adapters sample_executor) (ar_action_type sample_request)
      = Some \<lparr>al_id = ascii ''crm'', al_guarantees_idempotency = False\<rparr>"
    by (simp add: sample_defs)
qed simp

text \<open>
  (C22) The result a run returns is the stored attempt of the execution key; once it is settled
  (succeeded, failed or conflict), no later run of the same revision calls the provider, and if
  one returns a result it is the same.
\<close>

theorem settled_execution_final:
  assumes "xo_result (execute x env t db) = Inr r" "settled_attempt (er_status r)"
    and "keeps_settled (xo_db (execute x env t db)) db'" "find_revision t db' = find_revision t db"
  shows "xo_calls (execute x' env' t db') = []
    \<and> (\<forall>r'. xo_result (execute x' env' t db') = Inr r' \<longrightarrow> r' = r)"
proof -
  obtain key a where k: "execution_key t db = Some key"
    "find_attempt (et_tenant_id t) key (xo_db (execute x env t db)) = Some a" "r = attempt_result a"
    using execute_result [OF assms(1)] by blast
  have settled: "settled_attempt (aa_status a)" using assms(2) k(3) by (simp add: attempt_result_def)
  have "execution_key t db' = Some key" using k(1) assms(4) by (simp add: execution_key_def)
  moreover have "find_attempt (et_tenant_id t) key db' = Some a"
    using assms(3) k(2) settled by (simp add: keeps_settled_def)
  ultimately show ?thesis
    using execute_settled [of t db' key a x' env'] settled k(3) by blast
qed

theorem settled_execution_final_witness:
  "xo_calls (execute sample_executor sample_environment sample_target
     (xo_db (execute sample_executor sample_environment sample_target sample_database))) = []"
proof -
  obtain k where k: "execution_idempotency_key 1 2 3 1 (ascii ''ab'') = Some k" by (rule sample_key)
  obtain r where "xo_result (execute sample_executor sample_environment sample_target sample_database) = Inr r"
    "settled_attempt (er_status r)" using sample_execution_result [OF k] by blast
  moreover have "find_revision sample_target
      (xo_db (execute sample_executor sample_environment sample_target sample_database))
      = find_revision sample_target sample_database"
    using keeps_execution_execute [of sample_target sample_environment sample_database sample_executor sample_target]
    by (simp add: sample_environment_def keeps_execution_def)
  ultimately show ?thesis
    using settled_execution_final [OF _ _ keeps_settled_refl] by blast
qed

end
