(* ===== verification/Service_Properties.thy ===== *)
theory Service_Properties
  imports Execution_Properties
begin

text \<open>
  The guarantees of the services around a process: customer communication, model spend and
  circuit breakers.
\<close>

section \<open>Customer communication\<close>


text \<open>
  Whenever the customer's clock is inside the configured quiet hours, a send is blocked, also
  across midnight and around changes of the UTC offset, and the block names a later instant.
\<close>

theorem quiet_hours_respected:
  assumes "zone_law (zones (qh_timezone q))" "cp_quiet_hours policy = Some q"
    and "in_quiet_hours q (zone_wall (zones (qh_timezone q)) now)"
    and "0 \<le> clock_micros (qh_start_local q)" "clock_micros (qh_start_local q) < days 1"
    and "0 \<le> clock_micros (qh_end_local q)" "clock_micros (qh_end_local q) < days 1"
  shows "\<exists>until. now < until
    \<and> \<lparr>cb_code = QUIET_HOURS, cb_message = QuietUntil until, cb_next_allowed_at = Some until\<rparr>
        \<in> set (cs_blocks (assess_communication zones policy facts now))
    \<and> communication_require_allowed (assess_communication zones policy facts now) \<noteq> Inr ()"
proof -
  obtain until where u: "quiet_hours_end zones (Some q) now = Some until" "now < until"
    using quiet_hours_blocked [of zones q now] assms by blast
  let ?b = "\<lparr>cb_code = QUIET_HOURS, cb_message = QuietUntil until, cb_next_allowed_at = Some until\<rparr>"
  have mem: "?b \<in> set (cs_blocks (assess_communication zones policy facts now))"
    using u(1) assms(2) by (simp add: assess_communication_def Let_def communication_blocks_def)
  then have "communication_require_allowed (assess_communication zones policy facts now) \<noteq> Inr ()"
    using communication.blocked_fails [of ?b "(zones, policy, facts, now)"] by auto
  then show ?thesis using u(2) mem by blast
qed

definition utc_zone :: zone where
  "utc_zone = \<lparr>zone_wall = (\<lambda>t. t), zone_instant = (\<lambda>w fold. w)\<rparr>"

definition night :: DailyQuietHours where
  "night = \<lparr>qh_timezone = ascii ''UTC'', qh_start_local = LocalClock (hours 22), qh_end_local = LocalClock (hours 7)\<rparr>"

theorem quiet_hours_respected_witness:
  "\<forall>facts. communication_require_allowed (assess_communication (\<lambda>_. utc_zone)
     ((communication_policy sample_definition)\<lparr>cp_quiet_hours := Some night\<rparr>) facts (hours 23)) \<noteq> Inr ()"
proof
  fix facts
  have "zone_law utc_zone" by (simp add: zone_law_def utc_zone_def)
  moreover have "in_quiet_hours night (zone_wall utc_zone (hours 23))"
    by (simp add: in_quiet_hours_def night_def utc_zone_def)
  ultimately show "communication_require_allowed (assess_communication (\<lambda>_. utc_zone)
     ((communication_policy sample_definition)\<lparr>cp_quiet_hours := Some night\<rparr>) facts (hours 23)) \<noteq> Inr ()"
    using quiet_hours_respected [of "\<lambda>_. utc_zone" night
        "(communication_policy sample_definition)\<lparr>cp_quiet_hours := Some night\<rparr>" "hours 23" facts]
    by (simp add: night_def) blast
qed

text \<open>
  Opting out is final: once an opt-out event is matched to the process, every later inspection
  by the communication service that returns refuses to send.
\<close>

theorem opt_out_final:
  assumes "e \<in> set (matched_events tenant (pi_id process) (cp_opt_out_event_types policy) db)"
    and "inspect_communication zones tenant process policy now current db = Inr snapshot"
  shows "communication_require_allowed snapshot \<noteq> Inr ()"
proof
  assume "communication_require_allowed snapshot = Inr ()"
  with assms(2) obtain t where
    "may_contact zones policy (communication_evidence tenant process policy current db) t"
    by (rule inspect_communication_allowed)
  then show False using opted_out_blocks [OF assms(1), of zones current t] by simp
qed

definition sample_opt_out_event :: CanonicalEvent where
  "sample_opt_out_event =
     \<lparr>ce_event_id = 20, ce_tenant_id = 1, ce_process_instance_id = Some 2, ce_event_type = ''customer.opted_out'',
      ce_source = ascii ''crm'', ce_source_event_id = ascii ''x'', ce_occurred_at = Aware 3,
      ce_received_at = Aware 4, ce_schema_version = 1, ce_sensitivity = Sensitivity.INTERNAL,
      ce_external_references = [], ce_facts = [], ce_payload = []\<rparr>"

definition sample_opt_out :: EventInbox where
  "sample_opt_out =
     \<lparr>ei_id = 20, ei_tenant_id = 1, ei_process_instance_id = Some 2, ei_source = ascii ''crm'',
      ei_source_event_id = ascii ''x'', ei_event_type = ''customer.opted_out'',
      ei_event_data = sample_opt_out_event, ei_correlation_status = correlation_status.MATCHED,
      ei_correlation_reason = None, ei_received_at = 4\<rparr>"

definition opted_out_database :: Database where
  "opted_out_database = sample_database\<lparr>db_events := [sample_opt_out]\<rparr>"

theorem opt_out_final_witness:
  "\<exists>snapshot. inspect_communication (\<lambda>_. utc_zone) 1 sample_process (communication_policy sample_definition)
     (Aware 11) None opted_out_database = Inr snapshot \<and> communication_require_allowed snapshot \<noteq> Inr ()"
proof -
  have "sample_opt_out \<in> set (matched_events 1 (pi_id sample_process)
      (cp_opt_out_event_types (communication_policy sample_definition)) opted_out_database)"
    by (simp add: matched_events_def opted_out_database_def sample_opt_out_def sample_process_def
        communication_policy_def Let_def sample_definition_def)
  note final = opt_out_final [OF this, of "\<lambda>_. utc_zone" "Aware 11" None]
  show ?thesis using final by (simp add: inspect_communication_eq)
qed

section \<open>Model spend\<close>


text \<open>
  Usage is charged exactly once: recording the same usage again, however often and with
  whatever generated keys, answers with the row of the first time and changes nothing, and
  an accepted record raises the spend of its process by its cost and tokens if its key is new
  and leaves every spend as it is otherwise.
\<close>

theorem usage_charged_once:
  assumes "ledger_ok db" "record_usage i c db = Inr (r, db')" "spent t p db = Inr (u, cost)"
    and "0 \<le> us_input_tokens (uc_usage c)" "0 \<le> us_output_tokens (uc_usage c)"
  shows "ledger_ok db' \<and> usage.redeliver keys c (r, db') = Inr (r, db')
    \<and> (\<exists>u' cost'. spent t p db' = Inr (u', cost')
       \<and> (if t = uc_tenant_id c \<and> p = uc_process_instance_id c
             \<and> (\<forall>x \<in> set (db_usage db). usage_key x \<noteq> usage_key (usage_row i c))
          then cost' = cost + uc_cost_micros c
            \<and> us_input_tokens u' = us_input_tokens u + us_input_tokens (uc_usage c)
            \<and> us_output_tokens u' = us_output_tokens u + us_output_tokens (uc_usage c)
          else u' = u \<and> cost' = cost))"
  using record_usage_keeps_ledger [OF assms(1,2,4,5)] usage.redeliver_same [OF assms(2)]
    record_usage_spent [OF assms] by blast

definition sample_usage :: usage_command where
  "sample_usage =
     \<lparr>uc_tenant_id = 1, uc_process_instance_id = 2, uc_agent_turn_id = 9, uc_attempt_number = 1,
      uc_model = ascii ''m'', uc_usage = \<lparr>us_input_tokens = 100, us_output_tokens = 10\<rparr>, uc_cost_micros = 7,
      uc_price_table_version = 1, uc_execution_id = 0\<rparr>"

theorem usage_charged_once_witness:
  "\<exists>db' u'. record_usage 30 sample_usage sample_database = Inr (30, db') \<and> spent 1 2 db' = Inr (u', 7)"
proof -
  have "strip (ascii ''m'') \<noteq> []" by code_simp
  then obtain db' where db': "record_usage 30 sample_usage sample_database = Inr (30, db')"
    by (simp add: record_usage_def sample_usage_def Let_def insert_ignore_def sample_database_def empty_database_def)
  have ok: "ledger_ok sample_database" by (simp add: ledger_ok_def sample_database_def empty_database_def)
  have spent: "spent 1 2 sample_database = Inr (\<lparr>us_input_tokens = 0, us_output_tokens = 0\<rparr>, 0)"
    by (simp add: spent_def sum_usage_def make_ModelUsage_def sample_database_def empty_database_def)
  have "db_usage sample_database = []" by (simp add: sample_database_def empty_database_def)
  then show ?thesis
    using usage_charged_once [OF ok db' spent] db' by (auto simp: sample_usage_def)
qed

text \<open>
  The integer cost of a call is within two micro-USD below the exact price and never above it,
  and more tokens never cost less.
\<close>

theorem cost_rounds_down:
  assumes "estimate_cost_micros m u prices = Inr c" "map_of prices m = Some e"
    and "0 \<le> pe_input_micros_per_million_tokens e" "0 \<le> pe_output_micros_per_million_tokens e"
  shows "1000000 * c \<le> us_input_tokens u * pe_input_micros_per_million_tokens e
             + us_output_tokens u * pe_output_micros_per_million_tokens e
    \<and> us_input_tokens u * pe_input_micros_per_million_tokens e
             + us_output_tokens u * pe_output_micros_per_million_tokens e < 1000000 * (c + 2)
    \<and> (\<forall>v c'. estimate_cost_micros m v prices = Inr c' \<and> us_input_tokens u \<le> us_input_tokens v
         \<and> us_output_tokens u \<le> us_output_tokens v \<longrightarrow> c \<le> c')"
proof -
  have "c \<le> c'" if "estimate_cost_micros m v prices = Inr c'" "us_input_tokens u \<le> us_input_tokens v"
    "us_output_tokens u \<le> us_output_tokens v" for v c'
    using that assms
    by (auto simp: estimate_cost_micros_def split: if_splits intro!: add_mono zdiv_mono1 mult_right_mono)
  then show ?thesis using estimate_cost_rounding [OF assms(1,2)] by blast
qed

theorem cost_rounds_down_witness:
  "\<exists>c. estimate_cost_micros (ascii ''m'') \<lparr>us_input_tokens = 3, us_output_tokens = 1\<rparr>
       [(ascii ''m'', \<lparr>pe_input_micros_per_million_tokens = 500000, pe_output_micros_per_million_tokens = 250000\<rparr>)]
     = Inr c \<and> 1000000 * c \<le> 1750000 \<and> 1750000 < 1000000 * (c + 2)"
proof -
  let ?e = "\<lparr>pe_input_micros_per_million_tokens = 500000, pe_output_micros_per_million_tokens = 250000\<rparr>"
  have "strip (ascii ''m'') \<noteq> []" by code_simp
  then obtain c where c: "estimate_cost_micros (ascii ''m'') \<lparr>us_input_tokens = 3, us_output_tokens = 1\<rparr>
       [(ascii ''m'', ?e)] = Inr c"
    by (simp add: estimate_cost_micros_def)
  show ?thesis using cost_rounds_down [OF c, of ?e] c by simp
qed

section \<open>Circuit breakers\<close>

text \<open>
  Tripping or resetting a breaker takes effect at once and on that breaker only: its latest
  state is the new row (also when the clock stands still or runs backwards), it was in the
  opposite state before, every other breaker keeps its state, and a trip of the general breaker
  stops model calls, outbound messages and every capability of the tenant.
\<close>

theorem breaker_takes_effect:
  assumes "breaker_transition i now t scope target actor reason tripped db = Inr (row, db')"
  shows "latest_breaker t scope target db' = Inr (Some row) \<and> br_tripped row = tripped
    \<and> (\<exists>before. latest_breaker t scope target db = Inr before \<and> is_tripped before = (\<not> tripped))
    \<and> (\<forall>t' scope' target' state. latest_breaker t' scope' target' db = Inr state
         \<and> (t' \<noteq> t \<or> scope' \<noteq> scope
            \<or> normalize_breaker_target scope' target' \<noteq> normalize_breaker_target scope target)
         \<longrightarrow> latest_breaker t' scope' target' db' = Inr state)
    \<and> (scope = BreakerScope.ALL \<and> target = [] \<and> tripped \<longrightarrow>
         open_for_model_calls t db' = Inr (Some row) \<and> open_for_outbound t db' = Inr (Some row)
         \<and> (\<forall>action_type. open_for_capability t action_type db' = Inr (Some row)))"
  using breaker_transition_latest [OF assms] breaker_transition_other [OF assms]
    open_breaker_general [of t db' row] by (intro conjI) auto

theorem breaker_takes_effect_witness:
  "\<exists>row db'. breaker_transition 40 5 1 BreakerScope.ALL [] 8 (ascii ''incident'') True sample_database = Inr (row, db')
     \<and> open_for_outbound 1 db' = Inr (Some row)"
proof -
  have n: "normalize_breaker_target BreakerScope.ALL [] = Inr []" and r: "strip (ascii ''incident'') \<noteq> []"
    "length (strip (ascii ''incident'')) \<le> 10000"
    by code_simp+
  then obtain row db' where
    t: "breaker_transition 40 5 1 BreakerScope.ALL [] 8 (ascii ''incident'') True sample_database = Inr (row, db')"
    by (auto simp: breaker_transition_def Let_def latest_breaker_def breaker_rows_def is_tripped_def
        sample_database_def empty_database_def)
  then show ?thesis using breaker_takes_effect [OF t] by blast
qed

end
