(* ===== verification/Reviews.thy ===== *)
theory Reviews
  imports Outbox
begin

text \<open>
  \<open>reviews/service.py\<close>: applying a human review command to a pending approval. A command that
  was already stored is recognised by its id and answered from the current rows; a new one
  decides the approval, the action request and the thread together, keeps an immutable decision
  and message, and schedules the delivery to the process mailbox, all in one transaction.
\<close>

section \<open>Applying a command\<close>

datatype review_error =
    ThreadNotFound
  | ReviewProcessNotFound
  | ReviewProcessHalted ProcessStatus
  | ReviewTargetNotFound
  | StaleProposalRevision
  | ReviewCommandReused
  | ReviewNotPending
  | ApprovalExpired
  | PayloadHashMismatch
  | UnsupportedReview ReviewCommandType
  | ReviewIntegrity

record ReviewResult =
  rr_command_id :: uuid
  rr_thread_status :: thread_status
  rr_approval_status :: ApprovalStatus
  rr_action_status :: ActionRequestStatus

definition find_review_message :: "ReviewCommand \<Rightarrow> Database \<Rightarrow> ReviewMessage option" where
  "find_review_message c db =
     find (\<lambda>m. (rm_tenant_id m, rm_id m) = (rc_tenant_id c, rc_command_id c)) (db_review_messages db)"

text \<open>The three new statuses each decisive command sets; a comment leaves them.\<close>

fun review_outcome ::
  "ReviewCommandType \<Rightarrow> (ApprovalStatus \<times> ActionRequestStatus \<times> thread_status \<times> approval_outcome option) option" where
  "review_outcome APPROVE =
     Some (ApprovalStatus.APPROVED, ActionRequestStatus.APPROVED, thread_status.APPROVED,
           Some approval_outcome.APPROVED)"
| "review_outcome REJECT =
     Some (ApprovalStatus.REJECTED, ActionRequestStatus.REJECTED, thread_status.REJECTED,
           Some approval_outcome.REJECTED)"
| "review_outcome REQUEST_REVISION =
     Some (ApprovalStatus.SUPERSEDED, ActionRequestStatus.SUPERSEDED, thread_status.REVISION_REQUESTED, None)"
| "review_outcome _ = None"

definition set_review_statuses ::
  "ReviewThread \<Rightarrow> ApprovalRequest \<Rightarrow> ActionRequest \<Rightarrow> ApprovalStatus \<Rightarrow> ActionRequestStatus \<Rightarrow> thread_status
     \<Rightarrow> Database \<Rightarrow> Database" where
  "set_review_statuses thread approval request s_approval s_request s_thread db =
     db\<lparr>db_approvals := update_rows (\<lambda>a. approval_key a = approval_key approval)
          (\<lambda>a. a\<lparr>aq_status := s_approval\<rparr>) (db_approvals db),
        db_action_requests := update_rows (\<lambda>r. request_key r = request_key request)
          (\<lambda>r. r\<lparr>ar_status := s_request\<rparr>) (db_action_requests db),
        db_review_threads := update_rows (\<lambda>t. thread_key t = thread_key thread)
          (\<lambda>t. t\<lparr>rt_status := s_thread\<rparr>) (db_review_threads db)\<rparr>"

text \<open>The \<open>ApprovalDecision\<close> row of a decisive command: its id and its approval are unique.\<close>

definition add_approval_decision ::
  "ReviewCommand \<Rightarrow> ApprovalRequest \<Rightarrow> approval_outcome option \<Rightarrow> Database \<Rightarrow> Database option" where
  "add_approval_decision c approval outcome db =
     (case outcome of
        None \<Rightarrow> Some db
      | Some decision \<Rightarrow>
          map_option (\<lambda>rows. db\<lparr>db_approval_decisions := rows\<rparr>)
            (insert_row (\<lambda>r s. ax_id r = ax_id s
                \<or> (ax_tenant_id r, ax_process_instance_id r, ax_approval_request_id r)
                  = (ax_tenant_id s, ax_process_instance_id s, ax_approval_request_id s))
              \<lparr>ax_id = rc_command_id c, ax_tenant_id = rc_tenant_id c,
               ax_process_instance_id = rc_process_instance_id c,
               ax_approval_request_id = aq_id approval, ax_actor_id = rc_actor_id c,
               ax_decision = decision, ax_payload_hash = aq_payload_hash approval,
               ax_reason = rc_message c\<rparr>
              (db_approval_decisions db)))"

definition review_message_row :: "ReviewCommand \<Rightarrow> ReviewMessage" where
  "review_message_row c =
     \<lparr>rm_id = rc_command_id c, rm_tenant_id = rc_tenant_id c,
      rm_process_instance_id = rc_process_instance_id c, rm_review_thread_id = rc_review_thread_id c,
      rm_actor_id = rc_actor_id c, rm_message_type = rc_command_type c, rm_content = rc_message c,
      rm_proposal_revision = rc_proposal_revision c\<rparr>"

definition add_review_message :: "ReviewCommand \<Rightarrow> Database \<Rightarrow> Database option" where
  "add_review_message c db =
     map_option (\<lambda>rows. db\<lparr>db_review_messages := rows\<rparr>)
       (insert_row (\<lambda>r s. rm_id r = rm_id s) (review_message_row c) (db_review_messages db))"

definition review_outbox_message :: "uuid \<Rightarrow> instant \<Rightarrow> ReviewCommand \<Rightarrow> ProcessInstance \<Rightarrow> OutboxMessage" where
  "review_outbox_message new_id now c process =
     new_message new_id now (rc_tenant_id c) (rc_process_instance_id c) None ''temporal.process_review''
       (pi_workflow_id process) (ascii ''process-review:'' @ uuid_str (rc_command_id c))
       (ReviewCommandPayload (rc_command_id c) (rc_command_type c) (rc_review_thread_id c)
          (rc_action_request_id c) (rc_proposal_revision c))"

text \<open>The stored message was written by the same command.\<close>

definition same_review :: "ReviewMessage \<Rightarrow> ApprovalRequest \<Rightarrow> ReviewCommand \<Rightarrow> bool" where
  "same_review existing approval c \<longleftrightarrow>
     rm_review_thread_id existing = rc_review_thread_id c
     \<and> rm_message_type existing = rc_command_type c \<and> rm_actor_id existing = rc_actor_id c
     \<and> rm_content existing = rc_message c \<and> rm_proposal_revision existing = rc_proposal_revision c
     \<and> (rc_command_type c = APPROVE \<longrightarrow> rc_expected_payload_hash c = Some (aq_payload_hash approval))"

definition review_result ::
  "ReviewCommand \<Rightarrow> ReviewThread \<Rightarrow> ApprovalRequest \<Rightarrow> ActionRequest \<Rightarrow> ReviewResult" where
  "review_result c thread approval request =
     \<lparr>rr_command_id = rc_command_id c, rr_thread_status = rt_status thread,
      rr_approval_status = aq_status approval, rr_action_status = ar_status request\<rparr>"

text \<open>The rows a command targets, and the checks on them.\<close>

definition review_targets ::
  "ReviewCommand \<Rightarrow> Database \<Rightarrow> review_error + ReviewThread \<times> ProcessInstance \<times> ApprovalRequest \<times> ActionRequest" where
  "review_targets c db =
     (case find_thread (rc_tenant_id c, rc_process_instance_id c, rc_review_thread_id c) db of
        None \<Rightarrow> Inl ThreadNotFound
      | Some thread \<Rightarrow>
        (case find_process (rc_tenant_id c) (rc_process_instance_id c) db of
           None \<Rightarrow> Inl ReviewProcessNotFound
         | Some process \<Rightarrow>
             if halted_status (pi_status process) then Inl (ReviewProcessHalted (pi_status process))
             else (case (find_approval (rc_tenant_id c, rc_process_instance_id c, rt_approval_request_id thread) db,
                         find_request (rc_tenant_id c, rc_process_instance_id c, rc_action_request_id c) db) of
                     (Some approval, Some request) \<Rightarrow>
                       if aq_action_request_id approval \<noteq> rc_action_request_id c
                          \<or> aq_revision approval \<noteq> rc_proposal_revision c
                          \<or> ar_current_revision request \<noteq> rc_proposal_revision c
                       then Inl StaleProposalRevision
                       else Inr (thread, process, approval, request)
                   | _ \<Rightarrow> Inl ReviewTargetNotFound)))"

text \<open>Everything written for a command that is not yet stored.\<close>

definition store_review ::
  "uuid \<Rightarrow> instant \<Rightarrow> ReviewCommand \<Rightarrow> ReviewThread \<Rightarrow> ProcessInstance \<Rightarrow> ApprovalRequest \<Rightarrow> ActionRequest
     \<Rightarrow> Database \<Rightarrow> review_error + ReviewResult \<times> Database" where
  "store_review new_id now c thread process approval request db =
     (case (case review_outcome (rc_command_type c) of
              None \<Rightarrow>
                if rc_command_type c = COMMENT then Inr (thread, approval, request, Some db)
                else Inl (UnsupportedReview (rc_command_type c))
            | Some (s_approval, s_request, s_thread, outcome) \<Rightarrow>
                if rc_command_type c = APPROVE \<and> rc_expected_payload_hash c \<noteq> Some (aq_payload_hash approval)
                then Inl PayloadHashMismatch
                else Inr (thread\<lparr>rt_status := s_thread\<rparr>, approval\<lparr>aq_status := s_approval\<rparr>,
                          request\<lparr>ar_status := s_request\<rparr>,
                          add_approval_decision c approval outcome
                            (set_review_statuses thread approval request s_approval s_request s_thread db))) of
        Inl e \<Rightarrow> Inl e
      | Inr (thread', approval', request', None) \<Rightarrow> Inl ReviewIntegrity
      | Inr (thread', approval', request', Some db1) \<Rightarrow>
          (case Option.bind (add_review_message c db1) (enqueue (review_outbox_message new_id now c process)) of
             None \<Rightarrow> Inl ReviewIntegrity
           | Some db2 \<Rightarrow> Inr (review_result c thread' approval' request', db2)))"

definition apply_review ::
  "uuid \<times> instant \<Rightarrow> ReviewCommand \<Rightarrow> Database \<Rightarrow> review_error + ReviewResult \<times> Database" where
  "apply_review env c db =
     bind_result (review_targets c db) (\<lambda>(thread, process, approval, request).
       (case find_review_message c db of
          Some existing \<Rightarrow>
            if same_review existing approval c
            then Inr (review_result c thread approval request, db)
            else Inl ReviewCommandReused
        | None \<Rightarrow>
            if aq_status approval \<noteq> ApprovalStatus.PENDING \<or> rt_status thread \<noteq> thread_status.OPEN
            then Inl ReviewNotPending
            else if (case aq_expires_at approval of None \<Rightarrow> False | Some t \<Rightarrow> t \<le> snd env)
            then Inl ApprovalExpired
            else store_review (fst env) (snd env) c thread process approval request db))"

section \<open>Frames\<close>

lemma find_after_statuses:
  "find_thread k (set_review_statuses t a r sa sr st db) =
     (if k = thread_key t then map_option (\<lambda>t. t\<lparr>rt_status := st\<rparr>) (find_thread k db) else find_thread k db)"
  "find_approval k (set_review_statuses t a r sa sr st db) =
     (if k = approval_key a then map_option (\<lambda>a. a\<lparr>aq_status := sa\<rparr>) (find_approval k db) else find_approval k db)"
  "find_request k (set_review_statuses t a r sa sr st db) =
     (if k = request_key r then map_option (\<lambda>r. r\<lparr>ar_status := sr\<rparr>) (find_request k db) else find_request k db)"
  by (simp_all add: find_thread_def find_approval_def find_request_def set_review_statuses_def find_update_key)

lemma review_targets_ok:
  "review_targets c db = Inr (thread, process, approval, request) \<longleftrightarrow>
     find_thread (rc_tenant_id c, rc_process_instance_id c, rc_review_thread_id c) db = Some thread
     \<and> find_process (rc_tenant_id c) (rc_process_instance_id c) db = Some process
     \<and> \<not> halted_status (pi_status process)
     \<and> find_approval (rc_tenant_id c, rc_process_instance_id c, rt_approval_request_id thread) db = Some approval
     \<and> find_request (rc_tenant_id c, rc_process_instance_id c, rc_action_request_id c) db = Some request
     \<and> aq_action_request_id approval = rc_action_request_id c
     \<and> aq_revision approval = rc_proposal_revision c \<and> ar_current_revision request = rc_proposal_revision c"
  by (auto simp: review_targets_def split: option.splits if_splits)

lemma add_approval_decision_rows:
  assumes "add_approval_decision c approval outcome db = Some db'"
  shows "\<exists>rows. db' = db\<lparr>db_approval_decisions := rows\<rparr>"
proof (cases outcome)
  case None
  then have "db' = db\<lparr>db_approval_decisions := db_approval_decisions db\<rparr>"
    using assms by (simp add: add_approval_decision_def)
  then show ?thesis by blast
next
  case (Some d)
  then show ?thesis using assms by (auto simp: add_approval_decision_def)
qed

text \<open>The rows a stored review leaves behind.\<close>

lemma store_review_rows:
  assumes "store_review i now c thread process approval request db = Inr (res, db')"
    and "review_targets c db = Inr (thread, process, approval, request)"
  obtains thread' approval' request' where
    "res = review_result c thread' approval' request'"
    "review_targets c db' = Inr (thread', process, approval', request')"
    "aq_payload_hash approval' = aq_payload_hash approval"
    "db_review_messages db' = db_review_messages db @ [review_message_row c]"
    "rc_command_type c = APPROVE \<Longrightarrow> rc_expected_payload_hash c = Some (aq_payload_hash approval)"
    "\<exists>m \<in> set (db_outbox db'). outbox_key m = (rc_tenant_id c, ascii ''process-review:'' @ uuid_str (rc_command_id c))"
proof (cases "review_outcome (rc_command_type c)")
  case None
  then obtain db1 where comment: "rc_command_type c = COMMENT"
    and msg: "add_review_message c db = Some db1"
    and enq: "enqueue (review_outbox_message i now c process) db1 = Some db'"
    and res: "res = review_result c thread approval request"
    using assms(1) by (auto simp: store_review_def bind_eq_Some_conv split: if_splits option.splits)
  have db1: "db1 = db\<lparr>db_review_messages := db_review_messages db @ [review_message_row c]\<rparr>"
    using msg by (auto simp: add_review_message_def insert_row_Some)
  show ?thesis
  proof (rule that)
    show "review_targets c db' = Inr (thread, process, approval, request)"
      using assms(2) enqueue_frame [OF enq] db1
      by (simp add: review_targets_ok find_thread_def find_process_def find_approval_def find_request_def)
    show "\<exists>m \<in> set (db_outbox db'). outbox_key m = (rc_tenant_id c, ascii ''process-review:'' @ uuid_str (rc_command_id c))"
      using enqueue_present [OF enq] by (simp add: review_outbox_message_def new_message_def outbox_key_def)
  qed (use res comment enqueue_frame [OF enq] db1 in simp_all)
next
  case (Some out)
  obtain sa sr st outcome where out: "out = (sa, sr, st, outcome)" by (cases out)
  define db0 where "db0 = set_review_statuses thread approval request sa sr st db"
  from Some out assms(1) obtain db1 db2
    where hash: "rc_command_type c = APPROVE \<longrightarrow> rc_expected_payload_hash c = Some (aq_payload_hash approval)"
      and dec: "add_approval_decision c approval outcome db0 = Some db1"
      and msg: "add_review_message c db1 = Some db2"
      and enq: "enqueue (review_outbox_message i now c process) db2 = Some db'"
      and res: "res = review_result c (thread\<lparr>rt_status := st\<rparr>) (approval\<lparr>aq_status := sa\<rparr>) (request\<lparr>ar_status := sr\<rparr>)"
    by (auto simp: store_review_def bind_eq_Some_conv db0_def split: if_splits option.splits)
  obtain rows where db1: "db1 = db0\<lparr>db_approval_decisions := rows\<rparr>"
    using add_approval_decision_rows [OF dec] by blast
  have db2: "db2 = db1\<lparr>db_review_messages := db_review_messages db1 @ [review_message_row c]\<rparr>"
    using msg by (auto simp: add_review_message_def insert_row_Some)
  note tg = assms(2) [unfolded review_targets_ok]
  have keys: "thread_key thread = (rc_tenant_id c, rc_process_instance_id c, rc_review_thread_id c)"
    "approval_key approval = (rc_tenant_id c, rc_process_instance_id c, rt_approval_request_id thread)"
    "request_key request = (rc_tenant_id c, rc_process_instance_id c, rc_action_request_id c)"
    using tg find_key_of by blast+
  have same: "db_review_messages db0 = db_review_messages db" "db_processes db0 = db_processes db"
    by (simp_all add: db0_def set_review_statuses_def)
  show ?thesis
  proof (rule that [of "thread\<lparr>rt_status := st\<rparr>" "approval\<lparr>aq_status := sa\<rparr>" "request\<lparr>ar_status := sr\<rparr>"])
    have "find_thread k db' = find_thread k db0" "find_approval k db' = find_approval k db0"
      "find_request k db' = find_request k db0" "find_process tn p db' = find_process tn p db" for k tn p
      using enqueue_frame [OF enq] db1 db2 same
      by (simp_all add: find_thread_def find_approval_def find_request_def find_process_def)
    then show "review_targets c db' =
        Inr (thread\<lparr>rt_status := st\<rparr>, process, approval\<lparr>aq_status := sa\<rparr>, request\<lparr>ar_status := sr\<rparr>)"
      using tg keys by (simp add: review_targets_ok db0_def find_after_statuses)
    show "\<exists>m \<in> set (db_outbox db'). outbox_key m = (rc_tenant_id c, ascii ''process-review:'' @ uuid_str (rc_command_id c))"
      using enqueue_present [OF enq] by (simp add: review_outbox_message_def new_message_def outbox_key_def)
  qed (use res hash enqueue_frame [OF enq] db1 db2 same in simp_all)
qed

section \<open>Replay\<close>

lemma same_review_row:
  "same_review (review_message_row c) approval c \<longleftrightarrow>
     (rc_command_type c = APPROVE \<longrightarrow> rc_expected_payload_hash c = Some (aq_payload_hash approval))"
  by (simp add: same_review_def review_message_row_def)

text \<open>
  The rows a stored review is answered from: its message, the thread, the approval and the
  request with their statuses, and whether the process can be reviewed.
\<close>

definition review_rows ::
  "ReviewCommand \<Rightarrow> Database \<Rightarrow> ReviewMessage option \<times> ReviewThread option \<times> bool option
     \<times> (uuid \<Rightarrow> ApprovalRequest option) \<times> ActionRequest option" where
  "review_rows c db =
     (find_review_message c db,
      find_thread (rc_tenant_id c, rc_process_instance_id c, rc_review_thread_id c) db,
      map_option (\<lambda>p. halted_status (pi_status p)) (find_process (rc_tenant_id c) (rc_process_instance_id c) db),
      (\<lambda>i. if \<exists>t. find_thread (rc_tenant_id c, rc_process_instance_id c, rc_review_thread_id c) db = Some t
                \<and> rt_approval_request_id t = i
           then find_approval (rc_tenant_id c, rc_process_instance_id c, i) db else None),
      find_request (rc_tenant_id c, rc_process_instance_id c, rc_action_request_id c) db)"

lemma review_targets_rows:
  assumes "review_targets c db = Inr (thread, process, approval, request)" "review_rows c later = review_rows c db"
  shows "\<exists>process'. review_targets c later = Inr (thread, process', approval, request)"
proof -
  have "find_approval (rc_tenant_id c, rc_process_instance_id c, rt_approval_request_id thread) later
      = find_approval (rc_tenant_id c, rc_process_instance_id c, rt_approval_request_id thread) db"
    using assms
    by (auto simp: review_targets_ok review_rows_def fun_eq_iff dest!: spec [of _ "rt_approval_request_id thread"])
  then show ?thesis using assms by (auto simp: review_targets_ok review_rows_def)
qed

lemma apply_review_rows:
  assumes "apply_review e c db = Inr (res, db)" "find_review_message c db \<noteq> None"
    and "review_rows c later = review_rows c db"
  shows "apply_review e' c later = Inr (res, later)"
proof -
  obtain thread process approval request where t: "review_targets c db = Inr (thread, process, approval, request)"
    using assms(1) by (auto simp: apply_review_def)
  obtain process' where "review_targets c later = Inr (thread, process', approval, request)"
    using review_targets_rows [OF t assms(3)] by blast
  moreover have "find_review_message c later = find_review_message c db"
    using assms(3) by (simp add: review_rows_def)
  ultimately show ?thesis using assms(1,2) t by (auto simp: apply_review_def split: if_splits)
qed

lemma apply_review_replay:
  assumes "apply_review e c db = Inr (res, db')" "review_rows c later = review_rows c db'"
  shows "apply_review e' c later = Inr (res, later)"
proof -
  obtain thread process approval request
    where targets: "review_targets c db = Inr (thread, process, approval, request)"
    using assms(1) by (auto simp: apply_review_def)
  show ?thesis
  proof (cases "find_review_message c db")
    case (Some existing)
    then have "db' = db" using assms(1) targets by (auto simp: apply_review_def split: if_splits)
    then show ?thesis using apply_review_rows [of e c db' res later] assms Some by simp
  next
    case None
    then have st: "store_review (fst e) (snd e) c thread process approval request db = Inr (res, db')"
      using assms(1) targets by (auto simp: apply_review_def split: if_splits)
    from store_review_rows [OF st targets] obtain thread' approval' request' where
      res: "res = review_result c thread' approval' request'"
      and targets': "review_targets c db' = Inr (thread', process, approval', request')"
      and hash: "aq_payload_hash approval' = aq_payload_hash approval"
      and rows: "db_review_messages db' = db_review_messages db @ [review_message_row c]"
      and approve: "rc_command_type c = APPROVE \<Longrightarrow> rc_expected_payload_hash c = Some (aq_payload_hash approval)"
      by blast
    have "find_review_message c db' = Some (review_message_row c)"
      using None by (simp add: find_review_message_def rows find_append review_message_row_def)
    moreover have "same_review (review_message_row c) approval' c"
      using approve hash by (simp add: same_review_row)
    ultimately have "apply_review e c db' = Inr (res, db')" "find_review_message c db' \<noteq> None"
      using targets' res by (simp_all add: apply_review_def)
    then show ?thesis using assms(2) by (rule apply_review_rows)
  qed
qed

interpretation review: stored_command apply_review review_rows
  by unfold_locales (rule apply_review_replay)

section \<open>Decisions\<close>

lemma apply_review_new:
  assumes "apply_review e c db = Inr (res, db')" "find_review_message c db = None"
  obtains thread process approval request where
    "review_targets c db = Inr (thread, process, approval, request)"
    "aq_status approval = ApprovalStatus.PENDING" "rt_status thread = thread_status.OPEN"
    "\<forall>t. aq_expires_at approval = Some t \<longrightarrow> snd e < t"
    "store_review (fst e) (snd e) c thread process approval request db = Inr (res, db')"
  using assms
  by (auto simp: apply_review_def not_le split: if_splits option.splits)

text \<open>An approval is recorded only for the exact payload hash the reviewer named.\<close>

lemma approval_decision_exact:
  assumes "apply_review e c db = Inr (res, db')" "find_review_message c db = None"
    and "rc_command_type c = APPROVE"
  obtains thread approval request decision where
    "find_thread (rc_tenant_id c, rc_process_instance_id c, rc_review_thread_id c) db = Some thread"
    "rt_status thread = thread_status.OPEN"
    "find_approval (rc_tenant_id c, rc_process_instance_id c, rt_approval_request_id thread) db = Some approval"
    "find_request (rc_tenant_id c, rc_process_instance_id c, rc_action_request_id c) db = Some request"
    "aq_action_request_id approval = rc_action_request_id c" "ar_current_revision request = rc_proposal_revision c"
    "decision \<in> set (db_approval_decisions db')" "ax_id decision = rc_command_id c"
    "ax_decision decision = approval_outcome.APPROVED" "ax_approval_request_id decision = aq_id approval"
    "rc_expected_payload_hash c = Some (ax_payload_hash decision)" "ax_actor_id decision = rc_actor_id c"
    "approval \<in> set (db_approvals db)" "aq_status approval = ApprovalStatus.PENDING"
    "aq_revision approval = rc_proposal_revision c" "\<forall>t. aq_expires_at approval = Some t \<longrightarrow> snd e < t"
    "aq_payload_hash approval = ax_payload_hash decision"
    "rr_approval_status res = ApprovalStatus.APPROVED" "rr_action_status res = ActionRequestStatus.APPROVED"
    "rr_thread_status res = thread_status.APPROVED"
proof -
  obtain thread process approval request where
    targets: "review_targets c db = Inr (thread, process, approval, request)"
    and pending: "aq_status approval = ApprovalStatus.PENDING" and open_thread: "rt_status thread = thread_status.OPEN"
    and unexpired: "\<forall>t. aq_expires_at approval = Some t \<longrightarrow> snd e < t"
    and st: "store_review (fst e) (snd e) c thread process approval request db = Inr (res, db')"
    using apply_review_new [OF assms(1,2)] .
  have mem: "approval \<in> set (db_approvals db)"
    using targets by (auto simp: review_targets_ok dest: find_key_of)
  obtain db1 db2 where dec: "add_approval_decision c approval (Some approval_outcome.APPROVED)
        (set_review_statuses thread approval request ApprovalStatus.APPROVED ActionRequestStatus.APPROVED
           thread_status.APPROVED db) = Some db1"
    and hash: "rc_expected_payload_hash c = Some (aq_payload_hash approval)"
    and msg: "add_review_message c db1 = Some db2"
    and enq: "enqueue (review_outbox_message (fst e) (snd e) c process) db2 = Some db'"
    and res: "res = review_result c (thread\<lparr>rt_status := thread_status.APPROVED\<rparr>)
        (approval\<lparr>aq_status := ApprovalStatus.APPROVED\<rparr>) (request\<lparr>ar_status := ActionRequestStatus.APPROVED\<rparr>)"
    using st assms(3)
    by (auto simp: store_review_def bind_eq_Some_conv split: if_splits option.splits)
  let ?row = "\<lparr>ax_id = rc_command_id c, ax_tenant_id = rc_tenant_id c,
      ax_process_instance_id = rc_process_instance_id c, ax_approval_request_id = aq_id approval,
      ax_actor_id = rc_actor_id c, ax_decision = approval_outcome.APPROVED,
      ax_payload_hash = aq_payload_hash approval, ax_reason = rc_message c\<rparr>"
  have "db_approval_decisions db' = db_approval_decisions db @ [?row]"
    using enqueue_frame [OF enq] msg dec
    by (auto simp: add_review_message_def add_approval_decision_def insert_row_Some set_review_statuses_def)
  then show ?thesis
    using that [of thread approval request ?row] hash res mem pending open_thread unexpired targets
    by (simp add: review_result_def review_targets_ok)
qed

text \<open>After a decisive command the approval is no longer pending, so no later command decides it.\<close>

lemma decided_not_pending:
  assumes "apply_review e c db = Inr (res, db')" "find_review_message c db = None"
    and "review_outcome (rc_command_type c) = Some (sa, sr, st, outcome)"
  shows "\<exists>thread approval. find_thread (rc_tenant_id c, rc_process_instance_id c, rc_review_thread_id c) db' = Some thread
    \<and> find_approval (rc_tenant_id c, rc_process_instance_id c, rt_approval_request_id thread) db' = Some approval
    \<and> aq_status approval = sa \<and> rt_status thread = st"
proof -
  obtain thread process approval request where
    targets: "review_targets c db = Inr (thread, process, approval, request)"
    and stored: "store_review (fst e) (snd e) c thread process approval request db = Inr (res, db')"
    using apply_review_new [OF assms(1,2)] .
  from store_review_rows [OF stored targets] obtain thread' approval' request' where
    res: "res = review_result c thread' approval' request'"
    and targets': "review_targets c db' = Inr (thread', process, approval', request')" by blast
  have "rr_approval_status res = sa" "rr_thread_status res = st"
    using stored assms(3) by (auto simp: store_review_def review_result_def split: if_splits option.splits)
  then show ?thesis using targets' res by (auto simp: review_targets_ok review_result_def)
qed

end
