(* ===== verification/Delivery_Properties.thy ===== *)
theory Delivery_Properties
  imports Execution_Properties Reviews
begin

text \<open>
  The guarantees of the transactional outbox, of its recovery by an operator, and of human
  reviews.
\<close>

section \<open>The outbox\<close>

text \<open>
  (C8) No message is lost, duplicated or altered: through any history of committed transactions,
  with the claims, publications, failures and recoveries of all workers interleaved in any
  way, every message keeps its row, key, destination and payload, keys and ids stay unique,
  claim and dead-letter columns stay consistent with the status, and a published message never
  changes again.
\<close>

theorem outbox_history_sound:
  assumes "outbox_tx\<^sup>*\<^sup>* db db'" "outbox_ok db"
  shows "outbox_ok db' \<and> (\<forall>m \<in> set (db_outbox db). \<exists>m' \<in> set (db_outbox db').
    om_id m' = om_id m \<and> outbox_key m' = outbox_key m \<and> om_payload m' = om_payload m
    \<and> om_destination m' = om_destination m \<and> om_message_type m' = om_message_type m
    \<and> (om_status m = outbox_status.PUBLISHED \<longrightarrow> m' = m))"
  using history_keeps [OF assms] by (simp add: keeps_outbox_def succeeds_def)

definition sample_message :: OutboxMessage where
  "sample_message = new_message 50 1 1 2 None ''temporal.process_event'' (ascii ''w'') (ascii ''k'')
     (ProcessEventPayload 20 ''order.created'')"

theorem outbox_history_sound_witness:
  "\<exists>db'. enqueue sample_message sample_database = Some db' \<and> outbox_tx\<^sup>*\<^sup>* sample_database db' \<and> outbox_ok db'"
proof -
  have ok: "outbox_ok sample_database" by (simp add: outbox_ok_def sample_database_def empty_database_def)
  obtain db' where db': "enqueue sample_message sample_database = Some db'"
    by (simp add: enqueue_def insert_ignore_def sample_database_def empty_database_def)
  then have "outbox_tx sample_database db'" unfolding sample_message_def by (rule tx_enqueue)
  then have "outbox_tx\<^sup>*\<^sup>* sample_database db'" by blast
  then show ?thesis using outbox_history_sound [OF _ ok, of db'] db' by blast
qed

text \<open>
  (C36) A dispatch reports \<open>PUBLISHED\<close> only for a message of its tenant that was due, whose signal was
  handed to Temporal without an error, and that is recorded as published and free of any claim;
  when the claim was lost to another worker in the meantime it leaves the rows exactly as that
  worker left them.
\<close>

theorem dispatch_reports_truth:
  assumes "outbox_ok db" "dispatch_one d env tenant db = Inr (result, sent, db')"
    and "dx_status result = DispatchStatus.PUBLISHED \<or> dx_status result = CLAIM_LOST"
  shows "\<exists>c m db1 s. claim d tenant (de_now env) (de_token env) (de_locked env) db = Inr (Some c, db1)
    \<and> m \<in> set (db_outbox db) \<and> om_tenant_id m = tenant \<and> om_available_at m \<le> de_now env
    \<and> dx_message_id result = Some (om_id m)
    \<and> (if dx_status result = CLAIM_LOST then db' = de_gap env db1
       else message_signal (om_message_type m) (om_payload m) = Inr s \<and> sent = Some s \<and> de_send env c s = None
         \<and> (\<exists>m' \<in> set (db_outbox db'). om_id m' = om_id m \<and> om_status m' = outbox_status.PUBLISHED
              \<and> om_published_at m' = Some (de_later env) \<and> om_claim_token m' = None))"
proof -
  have "dx_status result \<noteq> EMPTY" using assms(3) by auto
  from dispatch_one_claimed [OF assms(2) this] obtain c db1 where
    cl: "claim d tenant (de_now env) (de_token env) (de_locked env) db = Inr (Some c, db1)"
    and mid: "dx_message_id result = Some (cm_id c)"
    and lost: "dx_status result = CLAIM_LOST \<Longrightarrow> db' = de_gap env db1"
    and pub: "dx_status result = DispatchStatus.PUBLISHED \<Longrightarrow>
       \<exists>s. message_signal (cm_message_type c) (cm_payload c) = Inr s \<and> sent = Some s \<and> de_send env c s = None
         \<and> finish_claim c (mark_published (de_later env)) (de_gap env db1) = (True, db')"
    by blast
  from cl obtain m where m: "next_message d tenant (de_now env) (de_locked env) db = Some m"
    "cm_id c = om_id m" "cm_payload c = om_payload m" "cm_message_type c = om_message_type m"
    by (rule claim_result)
  have row: "m \<in> set (db_outbox db)" "om_tenant_id m = tenant" "om_available_at m \<le> de_now env"
    using next_message_claimable [OF m(1)] by (auto simp: claimable_def)
  show ?thesis
  proof (cases "dx_status result = CLAIM_LOST")
    case True
    then show ?thesis using cl row m mid lost by auto
  next
    case False
    then obtain s where s: "message_signal (cm_message_type c) (cm_payload c) = Inr s" "sent = Some s"
      "de_send env c s = None"
      and fin: "finish_claim c (mark_published (de_later env)) (de_gap env db1) = (True, db')"
      using pub assms(3) by blast
    obtain r where "r \<in> set (db_outbox (de_gap env db1))" "holds_claim c r"
      using fin by (auto simp: finish_claim_def list_ex_iff)
    then have "mark_published (de_later env) r \<in> set (db_outbox db')" "om_id r = om_id m"
      using fin m(2) by (auto simp: finish_claim_def update_rows_def holds_claim_def)
    then have "\<exists>m' \<in> set (db_outbox db'). om_id m' = om_id m \<and> om_status m' = outbox_status.PUBLISHED
        \<and> om_published_at m' = Some (de_later env) \<and> om_claim_token m' = None"
      by (intro bexI [of _ "mark_published (de_later env) r"]) (simp_all add: mark_published_def)
    then show ?thesis using False cl row m mid s
      by (intro exI [of _ c] exI [of _ m] exI [of _ db1] exI [of _ s]) simp
  qed
qed

definition sample_dispatcher :: Dispatcher where
  "sample_dispatcher =
     \<lparr>ds_deployment_release = sample_release, ds_authorized_tenant_ids = {1}, ds_max_attempts = 5,
      ds_stale_claim_after = 300000000, ds_retry_base_delay = 5000000, ds_orchestrate_agent_turns = True\<rparr>"

definition sample_dispatch :: DispatchEnv where
  "sample_dispatch =
     \<lparr>de_now = 10, de_token = 77, de_locked = {}, de_send = (\<lambda>c s. None), de_gap = (\<lambda>x. x),
      de_later = 12, de_dead_at = 12\<rparr>"

definition queued_database :: Database where
  "queued_database = sample_database\<lparr>db_outbox := [sample_message]\<rparr>"


theorem dispatch_reports_truth_witness:
  "\<exists>result sent db'. dispatch_one sample_dispatcher sample_dispatch 1 queued_database = Inr (result, sent, db')
     \<and> dx_status result = DispatchStatus.PUBLISHED \<and> dx_message_id result = Some 50
     \<and> (\<exists>m \<in> set (db_outbox db'). om_id m = 50 \<and> om_status m = outbox_status.PUBLISHED)"
proof -
  have ok: "outbox_ok queued_database"
    by (simp add: outbox_ok_def queued_database_def sample_message_def new_message_ok)
  obtain result sent db' where d: "dispatch_one sample_dispatcher sample_dispatch 1 queued_database = Inr (result, sent, db')"
    "dx_status result = DispatchStatus.PUBLISHED"
    by (simp add: dispatch_one_def claim_def next_message_def claimable_def process_of_message_def find_tenant_def
        find_process_def release_matches_def dispatchable_types_def message_signal_def finish_claim_def
        holds_claim_def update_rows_def mark_claimed_def new_message_def Let_def sample_dispatcher_def sample_dispatch_def
        queued_database_def sample_message_def sample_database_def sample_process_def sample_release_def)
  show ?thesis using dispatch_reports_truth [OF ok d(1)] d
    by (auto simp: queued_database_def sample_message_def new_message_def)
qed

text \<open>
  Sending is at least once and receipt exactly once: the signal of a message that the mailbox
  has received before, among any other signals, can be delivered again any number of times
  without changing the mailbox.
\<close>

theorem message_received_once:
  assumes "message_signal ty payload = Inr s" "s \<in> set signals"
  shows "deliver (signals @ replicate n s) st = deliver signals st"
  by (rule signal_redelivered [OF assms])

theorem message_received_once_witness:
  "\<exists>s. message_signal ''temporal.process_event'' (ProcessEventPayload 20 ''order.created'') = Inr s
     \<and> deliver ([s, Close] @ replicate 3 s) init_mailbox = deliver [s, Close] init_mailbox"
proof -
  obtain s where s: "message_signal ''temporal.process_event'' (ProcessEventPayload 20 ''order.created'') = Inr s"
    by (simp add: message_signal_def)
  show ?thesis using message_received_once [OF s, of "[s, Close]" 3 init_mailbox] s by auto
qed

text \<open>
  An operator's recovery command works once and only on a dead-lettered message: a command that
  is not yet stored finds the message dead-lettered and makes it pending, due now, with a fresh
  attempt count and without error, a repeated command changes nothing, and no other message
  is touched.
\<close>

theorem requeue_exact:
  assumes "outbox_ok db" "requeue now c db = Inr (r, db')"
  shows "recovery.redeliver clocks c (r, db') = Inr (r, db') \<and> outbox_ok db'
    \<and> (find (\<lambda>r. oc_tenant_id r = rq_tenant_id c \<and> oc_id r = rq_command_id c) (db_recoveries db) = None \<longrightarrow>
         (\<exists>m \<in> set (db_outbox db). om_id m = rq_outbox_message_id c \<and> om_status m = outbox_status.DEAD_LETTER
            \<and> oc_previous_error r = om_last_error m \<and> oc_previous_attempt_count r = om_attempt_count m
            \<and> m\<lparr>om_status := outbox_status.PENDING, om_available_at := now, om_attempt_count := 0,
                om_claimed_at := None, om_claim_token := None, om_last_error := None,
                om_published_at := None, om_dead_lettered_at := None\<rparr> \<in> set (db_outbox db')))
    \<and> (\<forall>m \<in> set (db_outbox db). om_id m \<noteq> rq_outbox_message_id c \<longrightarrow> m \<in> set (db_outbox db'))"
proof (intro conjI)
  show "recovery.redeliver clocks c (r, db') = Inr (r, db')" by (rule recovery.redeliver_same [OF assms(2)])
  show "outbox_ok db'" using requeue_step [OF assms] assms(1) rows_step_ok by blast
  show "find (\<lambda>r. oc_tenant_id r = rq_tenant_id c \<and> oc_id r = rq_command_id c) (db_recoveries db) = None \<longrightarrow>
         (\<exists>m \<in> set (db_outbox db). om_id m = rq_outbox_message_id c \<and> om_status m = outbox_status.DEAD_LETTER
            \<and> oc_previous_error r = om_last_error m \<and> oc_previous_attempt_count r = om_attempt_count m
            \<and> m\<lparr>om_status := outbox_status.PENDING, om_available_at := now, om_attempt_count := 0,
                om_claimed_at := None, om_claim_token := None, om_last_error := None,
                om_published_at := None, om_dead_lettered_at := None\<rparr> \<in> set (db_outbox db'))"
    using requeue_revives [OF assms(2)] by blast
  show "\<forall>m \<in> set (db_outbox db). om_id m \<noteq> rq_outbox_message_id c \<longrightarrow> m \<in> set (db_outbox db')"
    using assms(2)
    by (auto simp: requeue_def Let_def insert_row_def update_rows_def image_iff split: if_splits option.splits)
qed

definition dead_database :: Database where
  "dead_database = sample_database\<lparr>db_outbox :=
     [sample_message\<lparr>om_status := outbox_status.DEAD_LETTER, om_dead_lettered_at := Some 9, om_attempt_count := 5,
        om_last_error := Some (ascii ''boom'')\<rparr>]\<rparr>"

definition sample_requeue :: RequeueOutboxInput where
  "sample_requeue = \<lparr>rq_command_id = 60, rq_tenant_id = 1, rq_outbox_message_id = 50, rq_actor_id = 8,
     rq_reason = ascii ''fixed''\<rparr>"

theorem requeue_exact_witness:
  "\<exists>r db'. requeue 30 sample_requeue dead_database = Inr (r, db')
     \<and> (\<exists>m \<in> set (db_outbox db'). om_id m = 50 \<and> om_status m = outbox_status.PENDING \<and> om_attempt_count m = 0)"
proof -
  have ok: "outbox_ok dead_database"
    by (simp add: outbox_ok_def message_ok_def dead_database_def sample_message_def new_message_def)
  have "strip (ascii ''fixed'') \<noteq> []" "length (strip (ascii ''fixed'')) \<le> 10000" by code_simp+
  then obtain r db' where q: "requeue 30 sample_requeue dead_database = Inr (r, db')"
    by (simp add: requeue_def Let_def insert_row_def dead_database_def sample_requeue_def sample_message_def
        new_message_def sample_database_def empty_database_def)
  have "db_recoveries dead_database = []" by (simp add: dead_database_def sample_database_def empty_database_def)
  then obtain m where "m \<in> set (db_outbox dead_database)"
    "m\<lparr>om_status := outbox_status.PENDING, om_available_at := 30, om_attempt_count := 0,
       om_claimed_at := None, om_claim_token := None, om_last_error := None,
       om_published_at := None, om_dead_lettered_at := None\<rparr> \<in> set (db_outbox db')"
    using requeue_exact [OF ok q] by auto
  then show ?thesis using q by (force simp: dead_database_def sample_message_def new_message_def)
qed

section \<open>Reviews\<close>

definition sample_review :: ReviewCommand where
  "sample_review =
     \<lparr>rc_command_id = 70, rc_tenant_id = 1, rc_process_instance_id = 2, rc_review_thread_id = 71,
      rc_action_request_id = 3, rc_proposal_revision = 1, rc_command_type = APPROVE, rc_actor_id = 8,
      rc_message = None, rc_expected_payload_hash = Some (ascii ''ab'')\<rparr>"

definition review_database :: Database where
  "review_database = sample_database\<lparr>
     db_action_requests := [sample_request\<lparr>ar_status := ActionRequestStatus.PENDING_APPROVAL\<rparr>],
     db_approvals := [\<lparr>aq_id = 72, aq_tenant_id = 1, aq_process_instance_id = 2, aq_action_request_id = 3,
        aq_revision = 1, aq_payload_hash = ascii ''ab'', aq_status = ApprovalStatus.PENDING, aq_expires_at = Some 100, aq_required_role = None\<rparr>],
     db_review_threads := [\<lparr>rt_id = 71, rt_tenant_id = 1, rt_process_instance_id = 2,
        rt_approval_request_id = 72, rt_status = thread_status.OPEN\<rparr>]\<rparr>"

lemma sample_review_applies:
  "\<exists>result db'. apply_review (80, 50) sample_review review_database = Inr (result, db')"
  "find_review_message sample_review review_database = None"
  by (simp_all add: apply_review_def review_targets_def find_thread_def find_process_def find_approval_def
      find_request_def find_review_message_def thread_key_def approval_key_def request_key_def store_review_def
      add_approval_decision_def add_review_message_def insert_row_def set_review_statuses_def enqueue_def
      insert_ignore_def halted_status_def terminal_status_def sample_review_def review_database_def sample_database_def empty_database_def
      sample_process_def sample_request_def)

text \<open>
  (C37) An approval covers exactly what the reviewer saw: a new approval is recorded only on the open
  thread it names, for the pending and unexpired approval of that thread, which belongs to the
  action request the command names; the revision the reviewer saw is both the revision of the
  approval and the current revision of the request, the payload hash the command names is the one
  of the approval, and the immutable decision carries that hash and the reviewer.
\<close>

theorem approval_covers_reviewed_payload:
  assumes "apply_review e c db = Inr (result, db')" "find_review_message c db = None"
    and "rc_command_type c = APPROVE"
  shows "\<exists>thread approval request decision.
    find_thread (rc_tenant_id c, rc_process_instance_id c, rc_review_thread_id c) db = Some thread
    \<and> rt_status thread = thread_status.OPEN
    \<and> find_approval (rc_tenant_id c, rc_process_instance_id c, rt_approval_request_id thread) db = Some approval
    \<and> aq_status approval = ApprovalStatus.PENDING
    \<and> (\<forall>t. aq_expires_at approval = Some t \<longrightarrow> snd e < t)
    \<and> find_request (rc_tenant_id c, rc_process_instance_id c, rc_action_request_id c) db = Some request
    \<and> aq_action_request_id approval = rc_action_request_id c
    \<and> aq_revision approval = rc_proposal_revision c
    \<and> ar_current_revision request = rc_proposal_revision c
    \<and> decision \<in> set (db_approval_decisions db') \<and> ax_decision decision = approval_outcome.APPROVED
    \<and> ax_approval_request_id decision = aq_id approval \<and> ax_actor_id decision = rc_actor_id c
    \<and> ax_payload_hash decision = aq_payload_hash approval
    \<and> rc_expected_payload_hash c = Some (aq_payload_hash approval)
    \<and> rr_action_status result = ActionRequestStatus.APPROVED"
  by (rule approval_decision_exact [OF assms]) metis

theorem approval_covers_reviewed_payload_witness:
  "\<exists>result db'. apply_review (80, 50) sample_review review_database = Inr (result, db')
     \<and> rr_action_status result = ActionRequestStatus.APPROVED
     \<and> (\<exists>d \<in> set (db_approval_decisions db'). ax_payload_hash d = ascii ''ab'')"
proof -
  obtain result db' where a: "apply_review (80, 50) sample_review review_database = Inr (result, db')"
    using sample_review_applies(1) by blast
  have "rc_command_type sample_review = APPROVE" "rc_expected_payload_hash sample_review = Some (ascii ''ab'')"
    by (simp_all add: sample_review_def)
  then show ?thesis using approval_covers_reviewed_payload [OF a sample_review_applies(2)] a by auto
qed

text \<open>
  (C38) A review is decided once: after an approval, a rejection or a request for revision, every
  other command on the same review thread is refused.
\<close>

theorem review_decided_once:
  assumes "apply_review e c db = Inr (result, db')" "find_review_message c db = None"
    and "review_outcome (rc_command_type c) = Some outcome"
    and "rc_tenant_id c2 = rc_tenant_id c" "rc_process_instance_id c2 = rc_process_instance_id c"
    and "rc_review_thread_id c2 = rc_review_thread_id c" "find_review_message c2 db' = None"
  shows "\<exists>error. apply_review e2 c2 db' = Inl error"
proof (cases "apply_review e2 c2 db'")
  case (Inr p)
  obtain sa sr st d where o: "outcome = (sa, sr, st, d)" by (cases outcome)
  obtain thread process approval request where
    "review_targets c2 db' = Inr (thread, process, approval, request)"
    "aq_status approval = ApprovalStatus.PENDING"
    using Inr assms(7) by (cases p) (metis apply_review_new)
  moreover have "sa \<noteq> ApprovalStatus.PENDING" using assms(3) o by (cases "rc_command_type c") auto
  ultimately show ?thesis
    using decided_not_pending [OF assms(1,2) assms(3) [unfolded o]] assms(4-6)
    by (auto simp: review_targets_ok)
qed simp

theorem review_decided_once_witness:
  "\<exists>result db' error. apply_review (80, 50) sample_review review_database = Inr (result, db')
     \<and> apply_review (83, 52) (sample_review\<lparr>rc_command_id := 73, rc_command_type := REJECT,
         rc_message := Some (ascii ''no'')\<rparr>) db' = Inl error"
proof -
  obtain result db' where a: "apply_review (80, 50) sample_review review_database = Inr (result, db')"
    using sample_review_applies(1) by blast
  let ?c2 = "sample_review\<lparr>rc_command_id := 73, rc_command_type := REJECT, rc_message := Some (ascii ''no'')\<rparr>"
  have o: "\<exists>outcome. review_outcome (rc_command_type sample_review) = Some outcome" by (simp add: sample_review_def)
  have rows: "db_review_messages db' = db_review_messages review_database @ [review_message_row sample_review]"
    using apply_review_new [OF a sample_review_applies(2)] store_review_rows by metis
  have "find_review_message ?c2 db' = None"
    by (simp add: find_review_message_def rows review_message_row_def sample_review_def review_database_def
        sample_database_def empty_database_def)
  then show ?thesis using review_decided_once [OF a sample_review_applies(2), of _ ?c2 "(83, 52)"] o a by auto
qed

end
