(* ===== verification/Process_State.thy ===== *)
theory Process_State
  imports Store
begin

text \<open>
  \<open>processes/state.py\<close>: a validated decision is applied to the stored process. The facts of the
  events and action attempts the decision is based on are projected into the process, the next
  status and wake conditions follow from the decision and the open actions, and an immutable
  revision of the result is kept. Applying the decision of a turn again answers from the
  revision that was kept.
\<close>

section \<open>Applying a decision\<close>

datatype state_error =
    StateProcessNotFound
  | TurnReused
  | DecisionReused
  | TerminalProcess
  | PausedProcess
  | StoredEventInvalid contract_error
  | EventsUnavailable
  | AttemptsUnavailable
  | StoredFactInvalid contract_error
  | FactsTooLarge value_error
  | TransitionRejected transition_error
  | MemoryTooLarge value_error
  | StateIntegrity

record AppliedProcessState =
  ap_process_instance_id :: uuid
  ap_agent_turn_id :: uuid
  ap_decision_id :: uuid
  ap_version :: int
  ap_status :: ProcessStatus
  ap_wake_conditions :: "WakeCondition list"
  ap_pending_action_request_ids :: "uuid list"
  ap_terminal :: bool

text \<open>The keyword arguments of \<open>apply_decision\<close>.\<close>

record StateCommand =
  sc_tenant_id :: uuid
  sc_process_instance_id :: uuid
  sc_agent_turn_id :: uuid
  sc_decision :: AgentDecision
  sc_terminal_states :: "ProcessStatus set option"
  sc_completion_requirements :: "jobject option"

definition revision_of_turn :: "StateCommand \<Rightarrow> ProcessStateRevision \<Rightarrow> bool" where
  "revision_of_turn c r \<longleftrightarrow> sr_tenant_id r = sc_tenant_id c
     \<and> sr_process_instance_id r = sc_process_instance_id c \<and> sr_agent_turn_id r = sc_agent_turn_id c"

definition revision_of_decision :: "StateCommand \<Rightarrow> ProcessStateRevision \<Rightarrow> bool" where
  "revision_of_decision c r \<longleftrightarrow> sr_tenant_id r = sc_tenant_id c
     \<and> sr_process_instance_id r = sc_process_instance_id c
     \<and> sr_decision_id r = ad_decision_id (sc_decision c)"

text \<open>The three unique constraints of the table and its primary key.\<close>

definition revision_clash :: "ProcessStateRevision \<Rightarrow> ProcessStateRevision \<Rightarrow> bool" where
  "revision_clash r s \<longleftrightarrow> sr_id r = sr_id s
     \<or> (sr_tenant_id r = sr_tenant_id s \<and> sr_process_instance_id r = sr_process_instance_id s
        \<and> (sr_agent_turn_id r = sr_agent_turn_id s \<or> sr_version r = sr_version s
           \<or> sr_decision_id r = sr_decision_id s))"

text \<open>
  \<open>CanonicalEvent.model_validate(item.event_data)\<close> validates the stored document again, before
  the ids are compared.
\<close>

definition load_events ::
  "(datetime \<Rightarrow> unicode) \<Rightarrow> (uuid \<Rightarrow> unicode) \<Rightarrow> uuid \<Rightarrow> uuid \<Rightarrow> uuid list \<Rightarrow> Database
     \<Rightarrow> state_error + (uuid \<times> CanonicalEvent) list" where
  "load_events show_time show_uuid tenant process event_ids db =
     (let stored = filter (\<lambda>e. ei_tenant_id e = tenant \<and> ei_id e \<in> set event_ids
            \<and> ei_process_instance_id e = Some process
            \<and> ei_correlation_status e = correlation_status.MATCHED) (db_events db)
      in bind_result (check_all (\<lambda>e. case check_CanonicalEvent show_time show_uuid (ei_event_data e) of
             Inl error \<Rightarrow> Inl (StoredEventInvalid error) | Inr _ \<Rightarrow> Inr ()) stored) (\<lambda>_.
         if set (map ei_id stored) \<noteq> set event_ids then Inl EventsUnavailable
         else Inr (map (\<lambda>e. (ei_id e, (ei_event_data e)\<lparr>ce_process_instance_id := Some process\<rparr>)) stored)))"

definition load_attempts ::
  "uuid \<Rightarrow> uuid \<Rightarrow> uuid list \<Rightarrow> Database \<Rightarrow> state_error + (uuid \<times> ActionAttempt) list" where
  "load_attempts tenant process attempt_ids db =
     (let stored = filter (\<lambda>a. aa_tenant_id a = tenant \<and> aa_id a \<in> set attempt_ids
            \<and> aa_process_instance_id a = process) (db_attempts db)
      in if set (map aa_id stored) \<noteq> set attempt_ids then Inl AttemptsUnavailable
         else Inr (map (\<lambda>a. (aa_id a, a)) stored))"

definition open_request_statuses :: "ActionRequestStatus list" where
  "open_request_statuses =
     [ActionRequestStatus.ALLOWED, ActionRequestStatus.PENDING_APPROVAL, ActionRequestStatus.APPROVED,
      ActionRequestStatus.EXECUTING, ActionRequestStatus.UNKNOWN, ActionRequestStatus.RECONCILING]"

definition load_open_actions :: "uuid \<Rightarrow> uuid \<Rightarrow> Database \<Rightarrow> open_action list" where
  "load_open_actions tenant process db =
     map (\<lambda>r. (ar_id r, ar_status r))
       (filter (\<lambda>r. ar_tenant_id r = tenant \<and> ar_process_instance_id r = process
          \<and> ar_status r \<in> set open_request_statuses) (db_action_requests db))"

definition project_event_facts ::
  "(uuid \<times> CanonicalEvent) list \<Rightarrow> uuid list \<Rightarrow> FactProjection \<Rightarrow> FactProjection" where
  "project_event_facts events event_ids fp =
     fold (\<lambda>i fp. case map_of events i of
         None \<Rightarrow> fp
       | Some e \<Rightarrow> apply_fact_observations (ce_facts e) (ascii ''event'') i fp) event_ids fp"

text \<open>\<open>FactObservation.model_validate\<close> runs on each stored fact of an attempt.\<close>

fun project_attempt_facts ::
  "(uuid \<times> ActionAttempt) list \<Rightarrow> uuid list \<Rightarrow> FactProjection \<Rightarrow> state_error + FactProjection" where
  "project_attempt_facts attempts [] fp = Inr fp"
| "project_attempt_facts attempts (i # ids) fp =
     (case map_of attempts i of
        None \<Rightarrow> project_attempt_facts attempts ids fp
      | Some a \<Rightarrow>
          bind_result (check_all (\<lambda>f. case check_FactObservation f of
              Inl error \<Rightarrow> Inl (StoredFactInvalid error) | Inr _ \<Rightarrow> Inr ()) (aa_facts a)) (\<lambda>_.
          project_attempt_facts attempts ids
            (apply_fact_observations (aa_facts a) (ascii ''action_attempt'') i fp)))"

definition project_facts ::
  "(datetime \<Rightarrow> unicode) \<Rightarrow> (uuid \<Rightarrow> unicode) \<Rightarrow> StateCommand \<Rightarrow> ProcessInstance \<Rightarrow> Database
     \<Rightarrow> state_error + FactProjection" where
  "project_facts show_time show_uuid c process db =
     (let decision = sc_decision c;
          start = \<lparr>fp_authoritative = pi_authoritative_facts process,
                   fp_claims = pi_customer_claims process, fp_provenance = pi_fact_provenance process\<rparr>
      in bind_result (load_events show_time show_uuid (sc_tenant_id c) (sc_process_instance_id c)
           (ad_based_on_event_ids decision) db) (\<lambda>events.
         bind_result (load_attempts (sc_tenant_id c) (sc_process_instance_id c)
           (ad_based_on_action_attempt_ids decision) db) (\<lambda>attempts.
         bind_result (project_attempt_facts attempts (ad_based_on_action_attempt_ids decision)
           (project_event_facts events (ad_based_on_event_ids decision) start)) (\<lambda>fp.
         case require_process_fact_projection (fp_authoritative fp) (fp_claims fp) (fp_provenance fp)
                DEFAULT_PLATFORM_SAFETY_LIMITS of
           Inl error \<Rightarrow> Inl (FactsTooLarge error)
         | Inr _ \<Rightarrow> Inr fp))))"

text \<open>\<open>process.x = ...\<close>: the assignments to the locked row.\<close>

definition updated_process ::
  "MemoryUpdate \<Rightarrow> FactProjection \<Rightarrow> ProjectedProcessTransition \<Rightarrow> ProcessInstance \<Rightarrow> ProcessInstance" where
  "updated_process memory fp transition p =
     (let q = (case mu_summary memory of
                 None \<Rightarrow> p
               | Some summary \<Rightarrow>
                   p\<lparr>pi_memory_summary := Some summary,
                     pi_memory_summary_source_event_ids := mu_summary_source_event_ids memory,
                     pi_memory_summary_source_review_command_ids := mu_summary_source_review_command_ids memory,
                     pi_memory_summary_source_action_attempt_ids := mu_summary_source_action_attempt_ids memory,
                     pi_memory_summary_source_timer_ids := mu_summary_source_timer_ids memory\<rparr>)
      in q\<lparr>pi_open_commitments := mu_open_commitments memory,
           pi_current_wake_conditions := pt_wake_conditions transition,
           pi_authoritative_facts := fp_authoritative fp,
           pi_customer_claims := fp_claims fp,
           pi_fact_provenance := fp_provenance fp,
           pi_status := pt_status transition,
           pi_state_version := pi_state_version q + 1\<rparr>)"

definition state_revision :: "uuid \<Rightarrow> StateCommand \<Rightarrow> ProcessInstance \<Rightarrow> ProcessStateRevision" where
  "state_revision new_id c p =
     \<lparr>sr_id = new_id, sr_tenant_id = sc_tenant_id c, sr_process_instance_id = sc_process_instance_id c,
      sr_agent_turn_id = sc_agent_turn_id c, sr_decision_id = ad_decision_id (sc_decision c),
      sr_version = pi_state_version p, sr_decision_status = ad_status (sc_decision c),
      sr_process_status = pi_status p, sr_authoritative_facts = pi_authoritative_facts p,
      sr_customer_claims = pi_customer_claims p, sr_fact_provenance = pi_fact_provenance p,
      sr_memory_summary = pi_memory_summary p,
      sr_memory_summary_source_event_ids = pi_memory_summary_source_event_ids p,
      sr_memory_summary_source_review_command_ids = pi_memory_summary_source_review_command_ids p,
      sr_memory_summary_source_action_attempt_ids = pi_memory_summary_source_action_attempt_ids p,
      sr_memory_summary_source_timer_ids = pi_memory_summary_source_timer_ids p,
      sr_open_commitments = pi_open_commitments p, sr_wake_conditions = pi_current_wake_conditions p,
      sr_based_on_event_ids = ad_based_on_event_ids (sc_decision c),
      sr_based_on_review_command_ids = ad_based_on_review_command_ids (sc_decision c),
      sr_based_on_action_attempt_ids = ad_based_on_action_attempt_ids (sc_decision c),
      sr_based_on_timer_ids = ad_based_on_timer_ids (sc_decision c)\<rparr>"

definition state_result :: "ProcessStateRevision \<Rightarrow> open_action list \<Rightarrow> AppliedProcessState" where
  "state_result r open_actions =
     \<lparr>ap_process_instance_id = sr_process_instance_id r, ap_agent_turn_id = sr_agent_turn_id r,
      ap_decision_id = sr_decision_id r, ap_version = sr_version r, ap_status = sr_process_status r,
      ap_wake_conditions = sr_wake_conditions r, ap_pending_action_request_ids = map fst open_actions,
      ap_terminal = terminal_status (sr_process_status r)\<rparr>"

text \<open>The part after the replay checks: projection, transition, memory, and the two writes.\<close>

definition store_state ::
  "(datetime \<Rightarrow> unicode) \<Rightarrow> (uuid \<Rightarrow> unicode) \<Rightarrow> uuid \<Rightarrow> StateCommand \<Rightarrow> ProcessInstance \<Rightarrow> Database
     \<Rightarrow> state_error + AppliedProcessState \<times> Database" where
  "store_state show_time show_uuid new_id c process db =
     (let decision = sc_decision c; memory = ad_memory_update decision;
          open_actions = load_open_actions (sc_tenant_id c) (sc_process_instance_id c) db
      in bind_result (project_facts show_time show_uuid c process db) (\<lambda>fp.
         case project_process_transition decision open_actions (sc_terminal_states c)
                (fp_authoritative fp)
                (case sc_completion_requirements c of None \<Rightarrow> [] | Some r \<Rightarrow> r) of
           Inl error \<Rightarrow> Inl (TransitionRejected error)
         | Inr transition \<Rightarrow>
             (case require_memory_content (mu_summary memory) (mu_open_commitments memory)
                     DEFAULT_PLATFORM_SAFETY_LIMITS of
                Inl error \<Rightarrow> Inl (MemoryTooLarge error)
              | Inr _ \<Rightarrow>
                  let process' = updated_process memory fp transition process;
                      revision = state_revision new_id c process'
                  in (case insert_row revision_clash revision (db_state_revisions db) of
                        None \<Rightarrow> Inl StateIntegrity
                      | Some rows \<Rightarrow>
                          Inr (state_result revision open_actions,
                               (update_process (sc_tenant_id c) (sc_process_instance_id c)
                                  (\<lambda>_. process') db)\<lparr>db_state_revisions := rows\<rparr>)))))"

definition apply_decision ::
  "(datetime \<Rightarrow> unicode) \<Rightarrow> (uuid \<Rightarrow> unicode) \<Rightarrow> uuid \<Rightarrow> StateCommand \<Rightarrow> Database
     \<Rightarrow> state_error + AppliedProcessState \<times> Database" where
  "apply_decision show_time show_uuid new_id c db =
     (case find_process (sc_tenant_id c) (sc_process_instance_id c) db of
        None \<Rightarrow> Inl StateProcessNotFound
      | Some process \<Rightarrow>
          (case find (revision_of_turn c) (db_state_revisions db) of
             Some existing \<Rightarrow>
               if sr_decision_id existing \<noteq> ad_decision_id (sc_decision c) then Inl TurnReused
               else Inr (state_result existing
                      (load_open_actions (sc_tenant_id c) (sc_process_instance_id c) db), db)
           | None \<Rightarrow>
               if list_ex (revision_of_decision c) (db_state_revisions db) then Inl DecisionReused
               else if terminal_status (pi_status process) then Inl TerminalProcess
               else if pi_status process = ProcessStatus.PAUSED then Inl PausedProcess
               else store_state show_time show_uuid new_id c process db))"

section \<open>Replay\<close>

lemma store_state_rows:
  assumes "store_state st su i c process db = Inr (res, db')"
  obtains fp transition where
    "project_facts st su c process db = Inr fp"
    "project_process_transition (sc_decision c)
       (load_open_actions (sc_tenant_id c) (sc_process_instance_id c) db) (sc_terminal_states c)
       (fp_authoritative fp) (case sc_completion_requirements c of None \<Rightarrow> [] | Some r \<Rightarrow> r) = Inr transition"
    "require_memory_content (mu_summary (ad_memory_update (sc_decision c)))
       (mu_open_commitments (ad_memory_update (sc_decision c))) DEFAULT_PLATFORM_SAFETY_LIMITS = Inr ()"
    "\<forall>r \<in> set (db_state_revisions db).
       \<not> revision_clash (state_revision i c (updated_process (ad_memory_update (sc_decision c)) fp transition process)) r"
    "res = state_result (state_revision i c (updated_process (ad_memory_update (sc_decision c)) fp transition process))
       (load_open_actions (sc_tenant_id c) (sc_process_instance_id c) db)"
    "db' = (update_process (sc_tenant_id c) (sc_process_instance_id c)
         (\<lambda>_. updated_process (ad_memory_update (sc_decision c)) fp transition process) db)
       \<lparr>db_state_revisions := db_state_revisions db
          @ [state_revision i c (updated_process (ad_memory_update (sc_decision c)) fp transition process)]\<rparr>"
proof -
  obtain fp where fp: "project_facts st su c process db = Inr fp"
    using assms by (auto simp: store_state_def Let_def)
  moreover obtain transition where
    "project_process_transition (sc_decision c)
       (load_open_actions (sc_tenant_id c) (sc_process_instance_id c) db) (sc_terminal_states c)
       (fp_authoritative fp) (case sc_completion_requirements c of None \<Rightarrow> [] | Some r \<Rightarrow> r) = Inr transition"
    using assms fp by (auto simp: store_state_def Let_def split: sum.splits)
  ultimately show ?thesis
    using assms that by (auto simp: store_state_def Let_def insert_row_Some split: sum.splits option.splits)
qed

lemma load_open_actions_frame:
  "db_action_requests db' = db_action_requests db \<Longrightarrow> load_open_actions t p db' = load_open_actions t p db"
  by (simp add: load_open_actions_def)

lemma updated_process_ids [simp]:
  "pi_tenant_id (updated_process m fp t p) = pi_tenant_id p" "pi_id (updated_process m fp t p) = pi_id p"
  "pi_state_version (updated_process m fp t p) = pi_state_version p + 1"
  by (simp_all add: updated_process_def Let_def split: option.splits)

lemma find_process_replaced:
  assumes "find_process t i db = Some p" "pi_tenant_id q = pi_tenant_id p" "pi_id q = pi_id p"
  shows "find_process t' i' (update_process t i (\<lambda>_. q) db) =
    (if t' = t \<and> i' = i then Some q else find_process t' i' db)"
proof -
  have ids: "pi_tenant_id q = t" "pi_id q = i" using assms find_process_ids by metis+
  have "find_process t' i' (update_process t i (\<lambda>_. q) db) =
      map_option (\<lambda>r. if pi_tenant_id r = t \<and> pi_id r = i then q else r) (find_process t' i' db)"
    unfolding find_process_def update_process_def
    by (simp, rule find_update_rows) (use ids in auto)
  then show ?thesis using assms(1) by (cases "find_process t' i' db") (auto dest: find_process_ids)
qed

text \<open>What a stored decision is answered from: its revision, and the actions open now.\<close>

definition decision_rows ::
  "StateCommand \<Rightarrow> Database \<Rightarrow> bool \<times> ProcessStateRevision option \<times> open_action list" where
  "decision_rows c db =
     (find_process (sc_tenant_id c) (sc_process_instance_id c) db \<noteq> None,
      find (revision_of_turn c) (db_state_revisions db),
      load_open_actions (sc_tenant_id c) (sc_process_instance_id c) db)"

lemma apply_decision_rows:
  assumes "apply_decision st su i c db' = Inr (res, db')"
    and "find (revision_of_turn c) (db_state_revisions db') \<noteq> None"
    and "decision_rows c later = decision_rows c db'"
  shows "apply_decision st su i' c later = Inr (res, later)"
  using assms by (auto simp: apply_decision_def decision_rows_def split: option.splits if_splits)

lemma apply_decision_replay:
  assumes "apply_decision st su i c db = Inr (res, db')" "decision_rows c later = decision_rows c db'"
  shows "apply_decision st su i' c later = Inr (res, later)"
proof -
  obtain process where p: "find_process (sc_tenant_id c) (sc_process_instance_id c) db = Some process"
    using assms(1) by (auto simp: apply_decision_def split: option.splits)
  show ?thesis
  proof (cases "find (revision_of_turn c) (db_state_revisions db)")
    case (Some existing)
    then have "db' = db" using assms(1) p by (auto simp: apply_decision_def split: if_splits)
    then show ?thesis using apply_decision_rows [of st su i c db'] assms Some by simp
  next
    case None
    then have "store_state st su i c process db = Inr (res, db')"
      using assms(1) p by (auto simp: apply_decision_def split: if_splits)
    then show ?thesis
    proof (rule store_state_rows)
      fix fp transition
      let ?p = "updated_process (ad_memory_update (sc_decision c)) fp transition process"
      assume res: "res = state_result (state_revision i c ?p)
          (load_open_actions (sc_tenant_id c) (sc_process_instance_id c) db)"
        and db': "db' = (update_process (sc_tenant_id c) (sc_process_instance_id c) (\<lambda>_. ?p) db)
          \<lparr>db_state_revisions := db_state_revisions db @ [state_revision i c ?p]\<rparr>"
      have "find_process (sc_tenant_id c) (sc_process_instance_id c) db' = Some ?p"
        using find_process_replaced [OF p, of ?p] by (simp add: db' find_process_def update_process_def)
      moreover have "find (revision_of_turn c) (db_state_revisions db') = Some (state_revision i c ?p)"
        using None by (simp add: db' find_append revision_of_turn_def state_revision_def)
      ultimately have "apply_decision st su i c db' = Inr (res, db')"
        "find (revision_of_turn c) (db_state_revisions db') \<noteq> None"
        using res by (simp_all add: apply_decision_def state_revision_def db' update_process_def load_open_actions_def)
      then show ?thesis using assms(2) by (rule apply_decision_rows)
    qed
  qed
qed

interpretation decision: stored_command "apply_decision show_time show_uuid" decision_rows for show_time show_uuid
  by unfold_locales (rule apply_decision_replay)

section \<open>The history of a process\<close>

definition revisions_of :: "uuid \<Rightarrow> uuid \<Rightarrow> Database \<Rightarrow> ProcessStateRevision list" where
  "revisions_of tenant process db =
     filter (\<lambda>r. sr_tenant_id r = tenant \<and> sr_process_instance_id r = process) (db_state_revisions db)"

text \<open>The part of a process that only decisions write.\<close>

definition records_knowledge :: "ProcessStateRevision \<Rightarrow> ProcessInstance \<Rightarrow> bool" where
  "records_knowledge r p \<longleftrightarrow>
     sr_authoritative_facts r = pi_authoritative_facts p \<and> sr_customer_claims r = pi_customer_claims p
     \<and> sr_fact_provenance r = pi_fact_provenance p \<and> sr_memory_summary r = pi_memory_summary p
     \<and> sr_open_commitments r = pi_open_commitments p"

text \<open>
  Versions count the revisions without a gap, no turn and no decision is applied twice, and the
  latest revision holds what the process knows.
\<close>

definition history_ok :: "Database \<Rightarrow> bool" where
  "history_ok db \<longleftrightarrow> (\<forall>t i p. find_process t i db = Some p \<longrightarrow>
     (let rs = revisions_of t i db in
      map sr_version rs = map int [1..<Suc (length rs)] \<and> pi_state_version p = int (length rs)
      \<and> distinct (map sr_agent_turn_id rs) \<and> distinct (map sr_decision_id rs)
      \<and> (rs \<noteq> [] \<longrightarrow> records_knowledge (last rs) p)))"

lemma history_ok_frame:
  assumes "history_ok db" "db_state_revisions db' = db_state_revisions db"
    and "\<And>t i p'. find_process t i db' = Some p' \<Longrightarrow> \<exists>p. find_process t i db = Some p
      \<and> pi_state_version p' = pi_state_version p \<and> (\<forall>r. records_knowledge r p \<longrightarrow> records_knowledge r p')"
  shows "history_ok db'"
proof -
  have same: "revisions_of t i db' = revisions_of t i db" for t i
    by (simp add: revisions_of_def assms(2))
  show ?thesis using assms(1,3) unfolding history_ok_def same by (fastforce simp: Let_def)
qed

lemma records_own: "records_knowledge (state_revision i c p) p"
  by (simp add: records_knowledge_def state_revision_def)

lemma apply_decision_history:
  assumes "history_ok db" "apply_decision st su i c db = Inr (res, db')"
  shows "history_ok db'"
proof -
  obtain process where p: "find_process (sc_tenant_id c) (sc_process_instance_id c) db = Some process"
    using assms(2) by (auto simp: apply_decision_def split: option.splits)
  show ?thesis
  proof (cases "find (revision_of_turn c) (db_state_revisions db)")
    case (Some existing)
    then show ?thesis using assms p by (auto simp: apply_decision_def split: if_splits)
  next
    case None
    then have "store_state st su i c process db = Inr (res, db')"
      using assms(2) p by (auto simp: apply_decision_def split: if_splits)
    then show ?thesis
    proof (rule store_state_rows)
      fix fp transition
      let ?p = "updated_process (ad_memory_update (sc_decision c)) fp transition process"
      let ?r = "state_revision i c ?p"
      assume fresh: "\<forall>r \<in> set (db_state_revisions db). \<not> revision_clash ?r r"
        and db': "db' = (update_process (sc_tenant_id c) (sc_process_instance_id c) (\<lambda>_. ?p) db)
          \<lparr>db_state_revisions := db_state_revisions db @ [?r]\<rparr>"
      let ?t = "sc_tenant_id c" and ?i = "sc_process_instance_id c"
      have found: "find_process t j db' = (if t = ?t \<and> j = ?i then Some ?p else find_process t j db)" for t j
        using find_process_replaced [OF p, of ?p] by (simp add: db' find_process_def update_process_def)
      have revs: "revisions_of t j db' = revisions_of t j db @ (if t = ?t \<and> j = ?i then [?r] else [])" for t j
        by (auto simp: db' revisions_of_def update_process_def state_revision_def)
      have new: "sr_agent_turn_id ?r \<notin> set (map sr_agent_turn_id (revisions_of ?t ?i db))"
        "sr_decision_id ?r \<notin> set (map sr_decision_id (revisions_of ?t ?i db))"
        using fresh by (auto simp: revisions_of_def revision_clash_def state_revision_def)
      have own: "map sr_version (revisions_of ?t ?i db) = map int [1..<Suc (length (revisions_of ?t ?i db))]"
        "pi_state_version process = int (length (revisions_of ?t ?i db))"
        "distinct (map sr_agent_turn_id (revisions_of ?t ?i db))"
        "distinct (map sr_decision_id (revisions_of ?t ?i db))"
        using assms(1) p by (simp_all add: history_ok_def Let_def)
      have ver: "sr_version ?r = int (length (revisions_of ?t ?i db)) + 1"
        using own(2) by (simp add: state_revision_def)
      show ?thesis
        unfolding history_ok_def Let_def
      proof (intro allI impI)
        fix t j q
        assume q: "find_process t j db' = Some q"
        show "map sr_version (revisions_of t j db') = map int [1..<Suc (length (revisions_of t j db'))]
          \<and> pi_state_version q = int (length (revisions_of t j db'))
          \<and> distinct (map sr_agent_turn_id (revisions_of t j db'))
          \<and> distinct (map sr_decision_id (revisions_of t j db'))
          \<and> (revisions_of t j db' \<noteq> [] \<longrightarrow> records_knowledge (last (revisions_of t j db')) q)"
        proof (cases "t = ?t \<and> j = ?i")
          case True
          then have "q = ?p" using q found by simp
          then show ?thesis using True revs [of ?t ?i] own new ver records_own [of i c ?p] by simp
        next
          case False
          have "find_process t j db = Some q" "revisions_of t j db' = revisions_of t j db"
            using q found [of t j] revs [of t j] by (simp_all only: if_not_P [OF False] append_Nil2)
          then show ?thesis using assms(1) by (simp add: history_ok_def Let_def)
        qed
      qed
    qed
  qed
qed

end
