(* ===== verification/Control.thy ===== *)
theory Control
  imports Outbox Process_State
begin

text \<open>
  \<open>processes/control.py\<close>: durable interventions and the attributed operator commands retry,
  wake, takeover and resume. A command changes the process, keeps an immutable record of itself
  and enqueues one message to the process mailbox, in one transaction; a stored command is
  recognised by its id.
\<close>

section \<open>Interventions\<close>

datatype control_error =
    ControlProcessNotFound
  | ReasonLength
  | GuidanceTooLarge value_error
  | ControlCommandReused
  | TerminalNotControllable
  | RetryWithoutIntervention
  | InterventionNotOpen
  | AlreadyPaused
  | NotPaused
  | ResumeBeforeWake
  | ControlIntegrity

record InterventionInput =
  iv_intervention_id :: uuid
  iv_tenant_id :: uuid
  iv_process_instance_id :: uuid
  iv_agent_turn_id :: uuid
  iv_kind :: string
  iv_error_type :: unicode
  iv_error :: unicode
  iv_event_ids :: "uuid list"
  iv_review_command_ids :: "uuid list"
  iv_action_attempt_ids :: "uuid list"
  iv_timer_ids :: "string list"

definition operator_wake :: "WakeCondition list" where
  "operator_wake = [HumanWakeCondition Interaction.OPERATOR]"

definition new_intervention :: "InterventionInput \<Rightarrow> ProcessIntervention" where
  "new_intervention v =
     \<lparr>pv_id = iv_intervention_id v, pv_tenant_id = iv_tenant_id v,
      pv_process_instance_id = iv_process_instance_id v, pv_agent_turn_id = iv_agent_turn_id v,
      pv_kind = iv_kind v, pv_status = intervention_status.OPEN, pv_error_type = iv_error_type v,
      pv_error = take 10000 (iv_error v), pv_source_event_ids = iv_event_ids v,
      pv_source_review_command_ids = iv_review_command_ids v,
      pv_source_action_attempt_ids = iv_action_attempt_ids v, pv_source_timer_ids = iv_timer_ids v,
      pv_resolved_by_command_id = None, pv_resolved_at = None\<rparr>"

definition intervention_turn :: "ProcessIntervention \<Rightarrow> uuid \<times> uuid \<times> uuid" where
  "intervention_turn v = (pv_tenant_id v, pv_process_instance_id v, pv_agent_turn_id v)"

text \<open>The insert fails on the check on \<open>kind\<close>, the width of \<open>error_type\<close> and a unique key.\<close>

definition add_intervention :: "ProcessIntervention \<Rightarrow> Database \<Rightarrow> Database option" where
  "add_intervention v db =
     (if pv_kind v \<notin> {''turn_failure'', ''action_chain_limit''} \<or> 150 < length (pv_error_type v) then None
      else map_option (\<lambda>rows. db\<lparr>db_interventions := rows\<rparr>)
        (insert_row (\<lambda>r s. pv_id r = pv_id s \<or> intervention_turn r = intervention_turn s) v (db_interventions db)))"

definition record_process_intervention ::
  "InterventionInput \<Rightarrow> Database \<Rightarrow> control_error + ProcessIntervention \<times> Database" where
  "record_process_intervention v db =
     (case find (\<lambda>r. intervention_turn r = intervention_turn (new_intervention v)) (db_interventions db) of
        Some existing \<Rightarrow> Inr (existing, db)
      | None \<Rightarrow>
          (case find_process (iv_tenant_id v) (iv_process_instance_id v) db of
             None \<Rightarrow> Inl ControlProcessNotFound
           | Some process \<Rightarrow>
               (case add_intervention (new_intervention v) db of
                  None \<Rightarrow> Inl ControlIntegrity
                | Some db1 \<Rightarrow>
                    Inr (new_intervention v,
                      if halted_status (pi_status process) then db1
                      else update_process (iv_tenant_id v) (iv_process_instance_id v)
                        (\<lambda>p. p\<lparr>pi_status := ProcessStatus.REVIEW, pi_current_wake_conditions := operator_wake\<rparr>) db1))))"

section \<open>Operator commands\<close>

record ProcessControlInput =
  ki_command_id :: uuid
  ki_tenant_id :: uuid
  ki_process_instance_id :: uuid
  ki_actor_id :: uuid
  ki_command_type :: ProcessControlType
  ki_reason :: unicode
  ki_intervention_id :: "uuid option"

text \<open>The generated ids and the clock readings of one call.\<close>

record ControlEnv =
  ke_event_id :: uuid
  ke_outbox_id :: uuid
  ke_resolved_at :: instant
  ke_recorded_at :: instant
  ke_now :: instant

definition intervention_key :: "ProcessIntervention \<Rightarrow> uuid \<times> uuid \<times> uuid" where
  "intervention_key v = (pv_tenant_id v, pv_process_instance_id v, pv_id v)"

text \<open>The branch on the command type: the intervention it resolves and the new process row.\<close>

definition control_transition ::
  "ProcessControlInput \<Rightarrow> ProcessInstance \<Rightarrow> Database
     \<Rightarrow> control_error + ProcessIntervention option \<times> ProcessInstance" where
  "control_transition c process db =
     (case ki_command_type c of
        RETRY \<Rightarrow>
          (case ki_intervention_id c of
             None \<Rightarrow> Inl RetryWithoutIntervention
           | Some i \<Rightarrow>
               (case find (\<lambda>v. intervention_key v = (ki_tenant_id c, ki_process_instance_id c, i)) (db_interventions db) of
                  None \<Rightarrow> Inl InterventionNotOpen
                | Some v \<Rightarrow>
                    if pv_status v \<noteq> intervention_status.OPEN then Inl InterventionNotOpen
                    else Inr (Some v, process\<lparr>pi_status := ProcessStatus.ACTIVE, pi_current_wake_conditions := []\<rparr>)))
      | TAKEOVER \<Rightarrow>
          if pi_status process = ProcessStatus.PAUSED then Inl AlreadyPaused
          else Inr (None, process\<lparr>pi_status := ProcessStatus.PAUSED, pi_current_wake_conditions := operator_wake\<rparr>)
      | RESUME \<Rightarrow>
          if pi_status process \<noteq> ProcessStatus.PAUSED then Inl NotPaused
          else Inr (None, process\<lparr>pi_status := ProcessStatus.ACTIVE, pi_current_wake_conditions := []\<rparr>)
      | WAKE \<Rightarrow>
          if pi_status process = ProcessStatus.PAUSED then Inl ResumeBeforeWake
          else Inr (None, process))"

definition intervention_sources :: "ProcessIntervention \<Rightarrow> control_sources" where
  "intervention_sources v =
     \<lparr>cs_event_ids = pv_source_event_ids v, cs_review_command_ids = pv_source_review_command_ids v,
      cs_action_attempt_ids = pv_source_action_attempt_ids v, cs_timer_ids = pv_source_timer_ids v\<rparr>"

definition control_row ::
  "ProcessControlInput \<Rightarrow> unicode \<Rightarrow> ProcessIntervention option \<Rightarrow> ProcessControlCommand" where
  "control_row c reason intervention =
     \<lparr>pc_id = ki_command_id c, pc_tenant_id = ki_tenant_id c,
      pc_process_instance_id = ki_process_instance_id c, pc_actor_id = ki_actor_id c,
      pc_intervention_id = ki_intervention_id c, pc_command_type = ki_command_type c,
      pc_reason = reason, pc_payload = map_option intervention_sources intervention\<rparr>"

definition resolve_intervention ::
  "uuid \<Rightarrow> instant \<Rightarrow> ProcessIntervention option \<Rightarrow> Database \<Rightarrow> Database" where
  "resolve_intervention command_id now intervention db =
     (case intervention of
        None \<Rightarrow> db
      | Some v \<Rightarrow>
          db\<lparr>db_interventions := update_rows (\<lambda>r. intervention_key r = intervention_key v)
               (\<lambda>r. r\<lparr>pv_status := intervention_status.RESOLVED,
                      pv_resolved_by_command_id := Some command_id, pv_resolved_at := Some now\<rparr>)
               (db_interventions db)\<rparr>)"

definition control_key :: "ProcessControlInput \<Rightarrow> unicode" where
  "control_key c = ascii ''process-control:'' @ uuid_str (ki_command_id c)"

text \<open>The stored document of a manual wake, with the defaults of the fields it leaves out.\<close>

definition manual_wake_event :: "ControlEnv \<Rightarrow> ProcessControlInput \<Rightarrow> CanonicalEvent" where
  "manual_wake_event env c =
     \<lparr>ce_event_id = ke_event_id env, ce_tenant_id = ki_tenant_id c,
      ce_process_instance_id = Some (ki_process_instance_id c),
      ce_event_type = OPERATOR_MANUAL_WAKE_EVENT_TYPE, ce_source = ascii ''operator'',
      ce_source_event_id = uuid_str (ki_command_id c), ce_occurred_at = Aware (ke_recorded_at env),
      ce_received_at = Aware (ke_recorded_at env), ce_schema_version = 1,
      ce_sensitivity = Sensitivity.CONFIDENTIAL, ce_external_references = [], ce_facts = [],
      ce_payload = [(ascii ''reason'', JStr (ki_reason c)),
                    (ascii ''actor_id'', JStr (uuid_str (ki_actor_id c))),
                    (ascii ''command_type'', JStr (ascii (control_value (ki_command_type c))))]\<rparr>"

definition manual_wake_row :: "ControlEnv \<Rightarrow> ProcessControlInput \<Rightarrow> EventInbox" where
  "manual_wake_row env c =
     \<lparr>ei_id = ke_event_id env, ei_tenant_id = ki_tenant_id c,
      ei_process_instance_id = Some (ki_process_instance_id c), ei_source = ascii ''operator'',
      ei_source_event_id = uuid_str (ki_command_id c), ei_event_type = OPERATOR_MANUAL_WAKE_EVENT_TYPE,
      ei_event_data = manual_wake_event env c, ei_correlation_status = correlation_status.MATCHED,
      ei_correlation_reason = Some ''operator_manual_wake'', ei_received_at = ke_recorded_at env\<rparr>"

definition event_clash :: "EventInbox \<Rightarrow> EventInbox \<Rightarrow> bool" where
  "event_clash r s \<longleftrightarrow> ei_id r = ei_id s
     \<or> (ei_tenant_id r, ei_source r, ei_source_event_id r) = (ei_tenant_id s, ei_source s, ei_source_event_id s)"

definition enqueue_manual_wake ::
  "ControlEnv \<Rightarrow> ProcessControlInput \<Rightarrow> ProcessInstance \<Rightarrow> Database \<Rightarrow> Database option" where
  "enqueue_manual_wake env c process db =
     (case insert_row event_clash (manual_wake_row env c) (db_events db) of
        None \<Rightarrow> None
      | Some rows \<Rightarrow>
          enqueue (new_message (ke_outbox_id env) (ke_now env) (ki_tenant_id c) (ki_process_instance_id c)
              (Some (ke_event_id env)) ''temporal.process_event'' (pi_workflow_id process) (control_key c)
              (ProcessEventPayload (ke_event_id env) OPERATOR_MANUAL_WAKE_EVENT_TYPE))
            (db\<lparr>db_events := rows\<rparr>))"

definition enqueue_control ::
  "ControlEnv \<Rightarrow> ProcessControlInput \<Rightarrow> ProcessInstance \<Rightarrow> control_sources option \<Rightarrow> Database \<Rightarrow> Database option" where
  "enqueue_control env c process payload db =
     enqueue (new_message (ke_outbox_id env) (ke_now env) (ki_tenant_id c) (ki_process_instance_id c) None
         ''temporal.process_control'' (pi_workflow_id process) (control_key c)
         (ProcessControlPayload (ki_command_id c) (ki_command_type c) payload)) db"

definition same_control :: "ProcessControlCommand \<Rightarrow> ProcessControlInput \<Rightarrow> unicode \<Rightarrow> bool" where
  "same_control existing c reason \<longleftrightarrow>
     pc_process_instance_id existing = ki_process_instance_id c \<and> pc_actor_id existing = ki_actor_id c
     \<and> pc_command_type existing = ki_command_type c \<and> pc_reason existing = reason
     \<and> pc_intervention_id existing = ki_intervention_id c"

text \<open>Everything written for a new command.\<close>

definition store_control ::
  "ControlEnv \<Rightarrow> ProcessControlInput \<Rightarrow> unicode \<Rightarrow> ProcessInstance \<Rightarrow> ProcessIntervention option
     \<Rightarrow> Database \<Rightarrow> Database option" where
  "store_control env c reason process intervention db =
     (let row = control_row c reason intervention;
          db1 = update_process (ki_tenant_id c) (ki_process_instance_id c) (\<lambda>_. process) db
      in case insert_row (\<lambda>r s. pc_id r = pc_id s) row (db_controls db1) of
           None \<Rightarrow> None
         | Some rows \<Rightarrow>
             (let db2 = resolve_intervention (ki_command_id c) (ke_resolved_at env) intervention
                          (db1\<lparr>db_controls := rows\<rparr>)
              in if ki_command_type c = WAKE \<or> ki_command_type c = RESUME
                 then enqueue_manual_wake env c process db2
                 else enqueue_control env c process (pc_payload row) db2))"

definition find_control :: "ProcessControlInput \<Rightarrow> Database \<Rightarrow> ProcessControlCommand option" where
  "find_control c db =
     find (\<lambda>r. pc_tenant_id r = ki_tenant_id c \<and> pc_id r = ki_command_id c) (db_controls db)"

definition apply_control ::
  "ControlEnv \<Rightarrow> ProcessControlInput \<Rightarrow> Database \<Rightarrow> control_error + ProcessControlCommand \<times> Database" where
  "apply_control env c db =
     (let reason = strip (ki_reason c) in
      if reason = [] \<or> 10000 < length reason then Inl ReasonLength
      else (case require_utf8_bytes reason (ascii ''operator guidance'')
                   (max_operator_guidance_bytes DEFAULT_PLATFORM_SAFETY_LIMITS) of
              Inl error \<Rightarrow> Inl (GuidanceTooLarge error)
            | Inr _ \<Rightarrow>
                (case find_control c db of
                   Some existing \<Rightarrow>
                     if same_control existing c reason then Inr (existing, db) else Inl ControlCommandReused
                 | None \<Rightarrow>
                     (case find_process (ki_tenant_id c) (ki_process_instance_id c) db of
                        None \<Rightarrow> Inl ControlProcessNotFound
                      | Some process \<Rightarrow>
                          if terminal_status (pi_status process) then Inl TerminalNotControllable
                          else bind_result (control_transition c process db) (\<lambda>(intervention, process').
                            case store_control env c reason process' intervention db of
                              None \<Rightarrow> Inl ControlIntegrity
                            | Some db' \<Rightarrow> Inr (control_row c reason intervention, db'))))))"

section \<open>What a new command does\<close>

lemma apply_control_new:
  assumes "apply_control env c db = Inr (row, db')" "find_control c db = None"
  obtains process intervention process' where
    "find_process (ki_tenant_id c) (ki_process_instance_id c) db = Some process"
    "\<not> terminal_status (pi_status process)"
    "control_transition c process db = Inr (intervention, process')"
    "store_control env c (strip (ki_reason c)) process' intervention db = Some db'"
    "row = control_row c (strip (ki_reason c)) intervention"
  using assms by (auto simp: apply_control_def Let_def split: if_splits sum.splits option.splits)

lemma control_transition_ids:
  assumes "control_transition c process db = Inr (intervention, process')"
  shows "pi_tenant_id process' = pi_tenant_id process" "pi_id process' = pi_id process"
    "pi_workflow_id process' = pi_workflow_id process" "pi_state_version process' = pi_state_version process"
    "records_knowledge r process' = records_knowledge r process"
  using assms
  by (auto simp: control_transition_def records_knowledge_def
      split: ProcessControlType.splits option.splits if_splits)

lemma resolve_intervention_frame [simp]:
  "db_controls (resolve_intervention i now v db) = db_controls db"
  "db_processes (resolve_intervention i now v db) = db_processes db"
  "db_events (resolve_intervention i now v db) = db_events db"
  "db_outbox (resolve_intervention i now v db) = db_outbox db"
  "db_state_revisions (resolve_intervention i now v db) = db_state_revisions db"
  "db_action_requests (resolve_intervention i now v db) = db_action_requests db"
  by (simp_all add: resolve_intervention_def split: option.splits)

lemma update_process_frame [simp]:
  "db_controls (update_process t i f db) = db_controls db"
  "db_events (update_process t i f db) = db_events db"
  "db_outbox (update_process t i f db) = db_outbox db"
  "db_interventions (update_process t i f db) = db_interventions db"
  "db_state_revisions (update_process t i f db) = db_state_revisions db"
  by (simp_all add: update_process_def)

text \<open>The message a command leaves in the outbox.\<close>

definition control_message :: "ControlEnv \<Rightarrow> ProcessControlInput \<Rightarrow> ProcessInstance \<Rightarrow> control_sources option \<Rightarrow> OutboxMessage" where
  "control_message env c process payload =
     (if ki_command_type c = WAKE \<or> ki_command_type c = RESUME
      then new_message (ke_outbox_id env) (ke_now env) (ki_tenant_id c) (ki_process_instance_id c)
             (Some (ke_event_id env)) ''temporal.process_event'' (pi_workflow_id process) (control_key c)
             (ProcessEventPayload (ke_event_id env) OPERATOR_MANUAL_WAKE_EVENT_TYPE)
      else new_message (ke_outbox_id env) (ke_now env) (ki_tenant_id c) (ki_process_instance_id c) None
             ''temporal.process_control'' (pi_workflow_id process) (control_key c)
             (ProcessControlPayload (ki_command_id c) (ki_command_type c) payload))"

lemma store_control_rows:
  assumes "store_control env c reason process intervention db = Some db'"
  obtains base where
    "enqueue (control_message env c process (map_option intervention_sources intervention)) base = Some db'"
    "db_outbox base = db_outbox db"
    "db_controls base = db_controls db @ [control_row c reason intervention]"
    "db_processes base = db_processes (update_process (ki_tenant_id c) (ki_process_instance_id c) (\<lambda>_. process) db)"
    "db_state_revisions base = db_state_revisions db"
proof -
  let ?row = "control_row c reason intervention"
  let ?db1 = "update_process (ki_tenant_id c) (ki_process_instance_id c) (\<lambda>_. process) db"
  let ?db2 = "resolve_intervention (ki_command_id c) (ke_resolved_at env) intervention
      (?db1\<lparr>db_controls := db_controls db @ [?row]\<rparr>)"
  have payload: "pc_payload ?row = map_option intervention_sources intervention" by (simp add: control_row_def)
  have fin: "(if ki_command_type c = WAKE \<or> ki_command_type c = RESUME
      then enqueue_manual_wake env c process ?db2 else enqueue_control env c process (pc_payload ?row) ?db2) = Some db'"
    using assms by (auto simp: store_control_def Let_def insert_row_Some split: option.splits)
  show ?thesis
  proof (cases "ki_command_type c = WAKE \<or> ki_command_type c = RESUME")
    case True
    let ?base = "?db2\<lparr>db_events := db_events ?db2 @ [manual_wake_row env c]\<rparr>"
    have "enqueue (control_message env c process (map_option intervention_sources intervention)) ?base = Some db'"
      using True fin
      by (auto simp: enqueue_manual_wake_def control_message_def insert_row_Some split: option.splits)
    then show ?thesis by (rule that) simp_all
  next
    case False
    then have "enqueue (control_message env c process (map_option intervention_sources intervention)) ?db2 = Some db'"
      using fin payload by (simp add: enqueue_control_def control_message_def)
    then show ?thesis by (rule that) simp_all
  qed
qed

lemma apply_control_effect:
  assumes "apply_control env c db = Inr (row, db')" "find_control c db = None"
  obtains process intervention process' where
    "find_process (ki_tenant_id c) (ki_process_instance_id c) db = Some process"
    "control_transition c process db = Inr (intervention, process')"
    "row = control_row c (strip (ki_reason c)) intervention"
    "\<And>t i. find_process t i db' = (if t = ki_tenant_id c \<and> i = ki_process_instance_id c
        then Some process' else find_process t i db)"
    "db_controls db' = db_controls db @ [row]"
    "db_state_revisions db' = db_state_revisions db"
    "\<exists>base. enqueue (control_message env c process' (map_option intervention_sources intervention)) base = Some db'
       \<and> db_outbox base = db_outbox db"
proof -
  obtain process intervention process' where
    p: "find_process (ki_tenant_id c) (ki_process_instance_id c) db = Some process"
    and tr: "control_transition c process db = Inr (intervention, process')"
    and st: "store_control env c (strip (ki_reason c)) process' intervention db = Some db'"
    and row: "row = control_row c (strip (ki_reason c)) intervention"
    using apply_control_new [OF assms] .
  from st obtain base where
    enq: "enqueue (control_message env c process' (map_option intervention_sources intervention)) base = Some db'"
    and base: "db_outbox base = db_outbox db"
      "db_controls base = db_controls db @ [control_row c (strip (ki_reason c)) intervention]"
      "db_processes base = db_processes (update_process (ki_tenant_id c) (ki_process_instance_id c) (\<lambda>_. process') db)"
      "db_state_revisions base = db_state_revisions db"
    by (rule store_control_rows)
  show ?thesis
  proof (rule that [OF p tr row])
    fix t i
    have "find_process t i db' = find_process t i
        (update_process (ki_tenant_id c) (ki_process_instance_id c) (\<lambda>_. process') db)"
      by (simp add: find_process_def enqueue_frame(2) [OF enq] base)
    then show "find_process t i db' = (if t = ki_tenant_id c \<and> i = ki_process_instance_id c
        then Some process' else find_process t i db)"
      using find_process_replaced [OF p] control_transition_ids [OF tr] by simp
  qed (use enq base row enqueue_frame [OF enq] in auto)
qed

section \<open>Replay and invariants\<close>

lemma control_row_same: "same_control (control_row c reason intervention) c reason"
  by (simp add: same_control_def control_row_def)

lemma apply_control_replay:
  assumes "apply_control env c db = Inr (row, db')" "find_control c later = find_control c db'"
  shows "apply_control env' c later = Inr (row, later)"
proof (cases "find_control c db")
  case (Some existing)
  then show ?thesis using assms
    by (auto simp: apply_control_def Let_def split: if_splits sum.splits)
next
  case None
  from apply_control_effect [OF assms(1) None] obtain intervention where
    row: "row = control_row c (strip (ki_reason c)) intervention"
    and rows: "db_controls db' = db_controls db @ [row]" by blast
  have "find_control c db' = Some row"
    using None rows by (simp add: find_control_def find_append row control_row_def)
  then show ?thesis using assms row control_row_same
    by (auto simp: apply_control_def Let_def split: if_splits sum.splits)
qed

interpretation control: stored_command apply_control find_control
  by unfold_locales (rule apply_control_replay)

lemma apply_control_history:
  assumes "history_ok db" "apply_control env c db = Inr (row, db')"
  shows "history_ok db'"
proof (cases "find_control c db")
  case (Some existing)
  then show ?thesis using assms by (auto simp: apply_control_def Let_def split: if_splits sum.splits)
next
  case None
  from apply_control_effect [OF assms(2) None] obtain process intervention process' where
    p: "find_process (ki_tenant_id c) (ki_process_instance_id c) db = Some process"
    and tr: "control_transition c process db = Inr (intervention, process')"
    and found: "\<And>t i. find_process t i db' = (if t = ki_tenant_id c \<and> i = ki_process_instance_id c
        then Some process' else find_process t i db)"
    and revs: "db_state_revisions db' = db_state_revisions db" by metis
  show ?thesis
    using assms(1) revs
  proof (rule history_ok_frame)
    fix t i q
    assume "find_process t i db' = Some q"
    then show "\<exists>p. find_process t i db = Some p \<and> pi_state_version q = pi_state_version p
        \<and> (\<forall>r. records_knowledge r p \<longrightarrow> records_knowledge r q)"
      using found [of t i] p control_transition_ids [OF tr] by (auto split: if_splits)
  qed
qed

lemma control_message_ok: "message_ok (control_message env c process payload)"
  by (simp add: control_message_def new_message_ok)

lemma apply_control_outbox:
  assumes "outbox_ok db" "apply_control env c db = Inr (row, db')"
  shows "outbox_ok db'"
proof (cases "find_control c db")
  case (Some existing)
  then show ?thesis using assms by (auto simp: apply_control_def Let_def split: if_splits sum.splits)
next
  case None
  from assms(2) None show ?thesis
  proof (rule apply_control_effect)
    fix process' intervention
    assume "\<exists>base. enqueue (control_message env c process' (map_option intervention_sources intervention)) base = Some db'
       \<and> db_outbox base = db_outbox db"
    then obtain base where base: "db_outbox base = db_outbox db"
      and enq: "enqueue (control_message env c process' (map_option intervention_sources intervention)) base = Some db'"
      by blast
    have "outbox_ok base" using assms(1) base by (simp add: outbox_ok_def)
    then show ?thesis using control_message_ok enq by (rule enqueue_ok)
  qed
qed

section \<open>Interventions are recorded once\<close>

lemma record_intervention_cases:
  assumes "record_process_intervention v db = Inr (r, db')"
  obtains (stored) "find (\<lambda>r. intervention_turn r = intervention_turn (new_intervention v)) (db_interventions db) = Some r"
      "db' = db"
    | (recorded) process where "r = new_intervention v"
      "find (\<lambda>r. intervention_turn r = intervention_turn (new_intervention v)) (db_interventions db) = None"
      "find_process (iv_tenant_id v) (iv_process_instance_id v) db = Some process"
      "db_interventions db' = db_interventions db @ [r]"
      "db_state_revisions db' = db_state_revisions db" "db_outbox db' = db_outbox db"
      "\<And>t i. find_process t i db' = (if t = iv_tenant_id v \<and> i = iv_process_instance_id v \<and> \<not> halted_status (pi_status process)
         then Some (process\<lparr>pi_status := ProcessStatus.REVIEW, pi_current_wake_conditions := operator_wake\<rparr>)
         else find_process t i db)"
proof (cases "find (\<lambda>r. intervention_turn r = intervention_turn (new_intervention v)) (db_interventions db)")
  case (Some existing)
  with assms show ?thesis by (intro stored) (simp_all add: record_process_intervention_def)
next
  case None
  then obtain process where p: "find_process (iv_tenant_id v) (iv_process_instance_id v) db = Some process"
    and r: "r = new_intervention v"
    and db': "db' = (let db1 = db\<lparr>db_interventions := db_interventions db @ [r]\<rparr> in
      if halted_status (pi_status process) then db1
      else update_process (iv_tenant_id v) (iv_process_instance_id v)
        (\<lambda>p. p\<lparr>pi_status := ProcessStatus.REVIEW, pi_current_wake_conditions := operator_wake\<rparr>) db1)"
    using assms
    by (auto simp: record_process_intervention_def add_intervention_def insert_row_Some Let_def
        split: option.splits if_splits)
  have keep: "find_process t i (db\<lparr>db_interventions := rows\<rparr>) = find_process t i db" for t i rows
    by (simp add: find_process_def)
  show ?thesis
    by (rule recorded [OF r None p]) (use p in \<open>auto simp: db' Let_def keep find_update_process\<close>)
qed

definition find_intervention :: "InterventionInput \<Rightarrow> Database \<Rightarrow> ProcessIntervention option" where
  "find_intervention v db =
     find (\<lambda>r. intervention_turn r = intervention_turn (new_intervention v)) (db_interventions db)"

lemma record_intervention_replay:
  assumes "record_process_intervention v db = Inr (r, db')"
    and "find_intervention v later = find_intervention v db'"
  shows "record_process_intervention v later = Inr (r, later)"
  using assms(1)
proof (cases rule: record_intervention_cases)
  case stored
  then show ?thesis using assms(2) by (simp add: record_process_intervention_def find_intervention_def)
next
  case (recorded process)
  then show ?thesis
    using assms(2) by (simp add: record_process_intervention_def find_intervention_def find_append)
qed

interpretation interventions: stored_command "\<lambda>_. record_process_intervention" find_intervention
  by unfold_locales (rule record_intervention_replay)

lemma record_intervention_history:
  assumes "history_ok db" "record_process_intervention v db = Inr (r, db')"
  shows "history_ok db'"
  using assms(2)
proof (cases rule: record_intervention_cases)
  case stored
  then show ?thesis using assms(1) by simp
next
  case (recorded process)
  show ?thesis
    using assms(1) recorded(5)
  proof (rule history_ok_frame)
    fix t i q
    assume "find_process t i db' = Some q"
    then show "\<exists>p. find_process t i db = Some p \<and> pi_state_version q = pi_state_version p
        \<and> (\<forall>r. records_knowledge r p \<longrightarrow> records_knowledge r q)"
      using recorded(7) [of t i] recorded(3) by (auto simp: records_knowledge_def split: if_splits)
  qed
qed

lemma store_control_events:
  assumes "store_control env c reason process intervention db = Some db'"
  shows "db_events db' = db_events db \<or> db_events db' = db_events db @ [manual_wake_row env c]"
proof -
  let ?db1 = "update_process (ki_tenant_id c) (ki_process_instance_id c) (\<lambda>_. process) db"
  let ?row = "control_row c reason intervention"
  obtain rows where fin: "(if ki_command_type c = WAKE \<or> ki_command_type c = RESUME
      then enqueue_manual_wake env c process (resolve_intervention (ki_command_id c) (ke_resolved_at env) intervention
        (?db1\<lparr>db_controls := rows\<rparr>))
      else enqueue_control env c process (pc_payload ?row) (resolve_intervention (ki_command_id c) (ke_resolved_at env)
        intervention (?db1\<lparr>db_controls := rows\<rparr>))) = Some db'"
    using assms by (auto simp: store_control_def Let_def split: option.splits)
  show ?thesis
  proof (cases "ki_command_type c = WAKE \<or> ki_command_type c = RESUME")
    case True
    then show ?thesis using fin
      by (auto simp: enqueue_manual_wake_def insert_row_Some split: option.splits dest!: enqueue_frame(9))
  next
    case False
    then show ?thesis using fin by (auto simp: enqueue_control_def dest!: enqueue_frame(9))
  qed
qed

end
