(* ===== verification/Gateway.thy ===== *)
theory Gateway
  imports Communication_Service Budgets
begin

text \<open>
  \<open>actions/gateway.py\<close>: the proposals of a validated decision are persisted, classified by the
  configured policy, before any side effect is possible. Each action is stored as a request, a
  revision with its payload hash, a policy record and, where the policy asks for it, a pending
  approval with an open review thread. A repeated turn finds the stored rows by their keys.
\<close>

section \<open>Persisting one action\<close>

datatype gateway_error =
    GatewayProcessNotFound
  | GatewayProcessHalted ProcessStatus
  | GatewayTimestamp timestamp_error
  | LifetimeEnded CommunicationBlock
  | GatewayBreakerError breaker_error
  | GatewayBreakerOpen BreakerScope unicode
  | HashNotSerialisable
  | RepeatsConflict
  | GatewayCommunication communication_error
  | GatewayContactBlocked CommunicationBlock
  | OutboundPaused
  | ParametersTooLarge value_error
  | RequestNotReserved
  | LogicalKeyReused
  | LineageChanged
  | RevisionReused
  | PolicyNotPersisted
  | ApprovalNotBound
  | ThreadNotPersisted
  | UnexpectedStatus
  | GatewayIntegrity

record PersistedAction =
  pa_action_request_id :: uuid
  pa_revision :: int
  pa_payload_hash :: unicode
  pa_outcome :: PermissionOutcome
  pa_status :: ActionRequestStatus
  pa_approval_request_id :: "uuid option"
  pa_review_thread_id :: "uuid option"

text \<open>The keyword arguments of \<open>persist_decision\<close>.\<close>

record GatewayCommand =
  gw_tenant_id :: uuid
  gw_process_instance_id :: uuid
  gw_agent_turn_id :: uuid
  gw_process_definition_version :: unicode
  gw_decision :: AgentDecision
  gw_policy :: ConfiguredActionPolicy
  gw_communication_policy :: "CommunicationPolicy option"
  gw_workflow_now :: "datetime option"

record ActionGateway =
  ag_platform_outbound_paused :: bool
  ag_zones :: "unicode \<Rightarrow> zone"

text \<open>The ids the database generates for one action.\<close>

record new_ids =
  ni_revision :: uuid
  ni_policy :: uuid
  ni_approval :: uuid
  ni_thread :: uuid

definition action_payload_hash :: "ActionProposal \<Rightarrow> unicode option" where
  "action_payload_hash action = action_payload_identity (ap_action_type action) (ap_parameters action)"

text \<open>The columns of the named unique constraints.\<close>

definition turn_key :: "ActionRequest \<Rightarrow> uuid \<times> uuid \<times> uuid \<times> unicode" where
  "turn_key r = (ar_tenant_id r, ar_process_instance_id r, ar_agent_turn_id r, ar_logical_action_key r)"

definition revision_key :: "ActionRevision \<Rightarrow> uuid \<times> uuid \<times> uuid \<times> int" where
  "revision_key r = (av_tenant_id r, av_process_instance_id r, av_action_request_id r, av_revision r)"

definition policy_key :: "ActionPolicyRecord \<Rightarrow> uuid \<times> uuid \<times> uuid \<times> int" where
  "policy_key r = (ay_tenant_id r, ay_process_instance_id r, ay_action_request_id r, ay_revision r)"

definition approval_revision_key :: "ApprovalRequest \<Rightarrow> uuid \<times> uuid \<times> uuid \<times> int" where
  "approval_revision_key r = (aq_tenant_id r, aq_process_instance_id r, aq_action_request_id r, aq_revision r)"

definition thread_approval_key :: "ReviewThread \<Rightarrow> uuid \<times> uuid \<times> uuid" where
  "thread_approval_key r = (rt_tenant_id r, rt_process_instance_id r, rt_approval_request_id r)"

definition request_row ::
  "instant \<Rightarrow> GatewayCommand \<Rightarrow> uuid option \<Rightarrow> ActionProposal \<Rightarrow> ActionRequest" where
  "request_row now c supersedes action =
     \<lparr>ar_id = ap_action_request_id action, ar_tenant_id = gw_tenant_id c,
      ar_process_instance_id = gw_process_instance_id c, ar_agent_turn_id = gw_agent_turn_id c,
      ar_logical_action_key = ap_logical_action_key action, ar_action_type = ap_action_type action,
      ar_process_definition_version = gw_process_definition_version c,
      ar_supersedes_action_request_id = supersedes, ar_current_revision = 1,
      ar_status = initial_action_request_status (apd_outcome (evaluate_action (gw_policy c) action)),
      ar_created_at = now\<rparr>"

definition revision_row ::
  "uuid \<Rightarrow> GatewayCommand \<Rightarrow> ActionProposal \<Rightarrow> uuid \<Rightarrow> unicode \<Rightarrow> ActionRevision" where
  "revision_row new_id c action request_id payload_hash =
     \<lparr>av_id = new_id, av_tenant_id = gw_tenant_id c, av_process_instance_id = gw_process_instance_id c,
      av_action_request_id = request_id, av_revision = 1, av_parameters = ap_parameters action,
      av_payload_hash = payload_hash, av_rationale = ap_rationale action,
      av_based_on_event_ids = ad_based_on_event_ids (gw_decision c),
      av_based_on_review_command_ids = ad_based_on_review_command_ids (gw_decision c),
      av_based_on_action_attempt_ids = ad_based_on_action_attempt_ids (gw_decision c),
      av_based_on_timer_ids = ad_based_on_timer_ids (gw_decision c)\<rparr>"

definition policy_row ::
  "uuid \<Rightarrow> GatewayCommand \<Rightarrow> uuid \<Rightarrow> ActionPolicyDecision \<Rightarrow> ActionPolicyRecord" where
  "policy_row new_id c request_id decision =
     \<lparr>ay_id = new_id, ay_tenant_id = gw_tenant_id c, ay_process_instance_id = gw_process_instance_id c,
      ay_action_request_id = request_id, ay_revision = 1, ay_outcome = apd_outcome decision,
      ay_policy_version = apd_policy_version decision, ay_reason = apd_reason decision\<rparr>"

definition approval_row :: "uuid \<Rightarrow> GatewayCommand \<Rightarrow> uuid \<Rightarrow> unicode \<Rightarrow> ApprovalRequest" where
  "approval_row new_id c request_id payload_hash =
     \<lparr>aq_id = new_id, aq_tenant_id = gw_tenant_id c, aq_process_instance_id = gw_process_instance_id c,
      aq_action_request_id = request_id, aq_revision = 1, aq_payload_hash = payload_hash,
      aq_status = ApprovalStatus.PENDING, aq_expires_at = None, aq_required_role = None\<rparr>"

definition thread_row :: "uuid \<Rightarrow> GatewayCommand \<Rightarrow> uuid \<Rightarrow> ReviewThread" where
  "thread_row new_id c approval_id =
     \<lparr>rt_id = new_id, rt_tenant_id = gw_tenant_id c, rt_process_instance_id = gw_process_instance_id c,
      rt_approval_request_id = approval_id, rt_status = thread_status.OPEN\<rparr>"

text \<open>The approval and thread of an action that requires one.\<close>

definition persist_approval ::
  "new_ids \<Rightarrow> GatewayCommand \<Rightarrow> uuid \<Rightarrow> unicode \<Rightarrow> Database
     \<Rightarrow> gateway_error + (uuid \<times> uuid) \<times> Database" where
  "persist_approval ids c request_id payload_hash db =
     (case insert_select approval_revision_key aq_id
             (approval_row (ni_approval ids) c request_id payload_hash) (db_approvals db) of
        None \<Rightarrow> Inl GatewayIntegrity
      | Some (_, None, _) \<Rightarrow> Inl ApprovalNotBound
      | Some (_, Some approval, approvals) \<Rightarrow>
          if aq_payload_hash approval \<noteq> payload_hash then Inl ApprovalNotBound
          else (case insert_select thread_approval_key rt_id (thread_row (ni_thread ids) c (aq_id approval))
                       (db_review_threads db) of
                  None \<Rightarrow> Inl GatewayIntegrity
                | Some (_, None, _) \<Rightarrow> Inl ThreadNotPersisted
                | Some (_, Some thread, threads) \<Rightarrow>
                    Inr ((aq_id approval, rt_id thread),
                         db\<lparr>db_approvals := approvals, db_review_threads := threads\<rparr>)))"

text \<open>
  \<open>_persist_action\<close>. The check that a new request has the expected status comes last in the
  code and needs only the first insert.
\<close>

definition persist_action ::
  "new_ids \<times> instant \<Rightarrow> GatewayCommand \<times> uuid option \<times> ActionProposal \<Rightarrow> Database
     \<Rightarrow> gateway_error + PersistedAction \<times> Database" where
  "persist_action env cmd db =
     (case (env, cmd) of ((ids, now), (c, supersedes, action)) \<Rightarrow>
      (case require_action_parameters (ap_parameters action) (ascii ''action parameters'')
              DEFAULT_PLATFORM_SAFETY_LIMITS of
         Inl error \<Rightarrow> Inl (ParametersTooLarge error)
       | Inr _ \<Rightarrow>
       (case insert_select turn_key ar_id (request_row now c supersedes action) (db_action_requests db) of
          None \<Rightarrow> Inl GatewayIntegrity
        | Some (_, None, _) \<Rightarrow> Inl RequestNotReserved
        | Some (inserted, Some request, requests) \<Rightarrow>
            if ar_action_type request \<noteq> ap_action_type action then Inl LogicalKeyReused
            else if ar_supersedes_action_request_id request \<noteq> supersedes then Inl LineageChanged
            else (case action_payload_hash action of
              None \<Rightarrow> Inl HashNotSerialisable
            | Some payload_hash \<Rightarrow>
              (case insert_select revision_key av_id
                      (revision_row (ni_revision ids) c action (ar_id request) payload_hash) (db_action_revisions db) of
                 None \<Rightarrow> Inl GatewayIntegrity
               | Some (_, None, _) \<Rightarrow> Inl RevisionReused
               | Some (_, Some revision, revisions) \<Rightarrow>
                   if av_payload_hash revision \<noteq> payload_hash then Inl RevisionReused
                   else (case insert_select policy_key ay_id
                           (policy_row (ni_policy ids) c (ar_id request) (evaluate_action (gw_policy c) action))
                           (db_policy_records db) of
                      None \<Rightarrow> Inl GatewayIntegrity
                    | Some (_, None, _) \<Rightarrow> Inl PolicyNotPersisted
                    | Some (_, Some stored, policies) \<Rightarrow>
                        let db1 = db\<lparr>db_action_requests := requests, db_action_revisions := revisions,
                                     db_policy_records := policies\<rparr>
                        in bind_result
                             (if ay_outcome stored = REQUIRE_APPROVAL
                              then bind_result (persist_approval ids c (ar_id request) payload_hash db1)
                                     (\<lambda>((approval, thread), db2). Inr (Some approval, Some thread, db2))
                              else Inr (None, None, db1)) (\<lambda>(approval, thread, db2).
                           if inserted \<and> ar_status request \<noteq>
                                initial_action_request_status (apd_outcome (evaluate_action (gw_policy c) action))
                           then Inl UnexpectedStatus
                           else Inr (\<lparr>pa_action_request_id = ar_id request, pa_revision = 1,
                                      pa_payload_hash = payload_hash, pa_outcome = ay_outcome stored,
                                      pa_status = ar_status request, pa_approval_request_id = approval,
                                      pa_review_thread_id = thread\<rparr>, db2))))))))"

section \<open>Persisting a decision\<close>

text \<open>
  \<open>_revision_targets\<close>: the action requests whose review asked for a revision. The query fixes
  no order; the rows come in the order of the tables here.
\<close>

definition revision_targets :: "uuid \<Rightarrow> uuid \<Rightarrow> uuid list \<Rightarrow> Database \<Rightarrow> (uuid \<times> string) list" where
  "revision_targets tenant process review_command_ids db =
     [(ar_id request, ar_action_type request).
        request \<leftarrow> db_action_requests db, ar_tenant_id request = tenant,
        approval \<leftarrow> db_approvals db,
          aq_tenant_id approval = tenant \<and> aq_action_request_id approval = ar_id request,
        thread \<leftarrow> db_review_threads db,
          rt_tenant_id thread = tenant \<and> rt_approval_request_id thread = aq_id approval,
        message \<leftarrow> db_review_messages db,
          rm_review_thread_id message = rt_id thread \<and> rm_tenant_id message = tenant
          \<and> rm_process_instance_id message = process \<and> rm_id message \<in> set review_command_ids
          \<and> rm_message_type message = REQUEST_REVISION]"

definition conflicted_actions :: "uuid \<Rightarrow> uuid \<Rightarrow> uuid list \<Rightarrow> Database \<Rightarrow> (string \<times> jobject) list" where
  "conflicted_actions tenant process action_attempt_ids db =
     [(ar_action_type request, av_parameters revision).
        request \<leftarrow> db_action_requests db,
        attempt \<leftarrow> db_attempts db,
          aa_action_request_id attempt = ar_id request \<and> aa_tenant_id attempt = ar_tenant_id request
          \<and> aa_process_instance_id attempt = ar_process_instance_id request
          \<and> aa_tenant_id attempt = tenant \<and> aa_process_instance_id attempt = process
          \<and> aa_id attempt \<in> set action_attempt_ids \<and> aa_status attempt = ActionAttemptStatus.CONFLICT,
        revision \<leftarrow> db_action_revisions db,
          av_action_request_id revision = aa_action_request_id attempt \<and> av_revision revision = aa_revision attempt
          \<and> av_tenant_id revision = aa_tenant_id attempt
          \<and> av_process_instance_id revision = aa_process_instance_id attempt]"

definition conflicted_payload_hashes ::
  "uuid \<Rightarrow> uuid \<Rightarrow> uuid list \<Rightarrow> Database \<Rightarrow> gateway_error + unicode set" where
  "conflicted_payload_hashes tenant process action_attempt_ids db =
     (let hashes = map (\<lambda>(t, p). action_payload_identity t p) (conflicted_actions tenant process action_attempt_ids db)
      in if None \<in> set hashes then Inl HashNotSerialisable else Inr (the ` set hashes))"

definition breaker_fence :: "breaker_error + CircuitBreaker option \<Rightarrow> gateway_error + unit" where
  "breaker_fence answer =
     (case answer of
        Inl error \<Rightarrow> Inl (GatewayBreakerError error)
      | Inr (Some b) \<Rightarrow> Inl (GatewayBreakerOpen (br_scope b) (br_reason b))
      | Inr None \<Rightarrow> Inr ())"

definition enforce_communication_policy ::
  "ActionGateway \<Rightarrow> uuid \<Rightarrow> ProcessInstance \<Rightarrow> CommunicationPolicy \<Rightarrow> datetime \<Rightarrow> Database \<Rightarrow> gateway_error + unit" where
  "enforce_communication_policy g tenant process policy now db =
     (case inspect_communication (ag_zones g) tenant process policy now None db of
        Inl error \<Rightarrow> Inl (GatewayCommunication error)
      | Inr snapshot \<Rightarrow>
          (case communication_require_allowed snapshot of
             Inl block \<Rightarrow> Inl (GatewayContactBlocked block) | Inr _ \<Rightarrow> Inr ()))"

definition enforce_outbound_breakers :: "ActionGateway \<Rightarrow> uuid \<Rightarrow> Database \<Rightarrow> gateway_error + unit" where
  "enforce_outbound_breakers g tenant db =
     (if ag_platform_outbound_paused g then Inl OutboundPaused
      else breaker_fence (open_for_outbound tenant db))"

definition enforce_capability_breakers :: "uuid \<Rightarrow> string \<Rightarrow> Database \<Rightarrow> gateway_error + unit" where
  "enforce_capability_breakers tenant action_type db = breaker_fence (open_for_capability tenant action_type db)"

text \<open>The checks on an action that is not stored yet, in the order of the loop body.\<close>

definition admit_action ::
  "ActionGateway \<Rightarrow> GatewayCommand \<Rightarrow> ProcessInstance \<Rightarrow> unicode set \<Rightarrow> ActionProposal \<Rightarrow> Database
     \<Rightarrow> gateway_error + unit" where
  "admit_action g c process conflicted action db =
     (case action_payload_hash action of
        None \<Rightarrow> Inl HashNotSerialisable
      | Some h \<Rightarrow>
          if h \<in> conflicted then Inl RepeatsConflict
          else bind_result (enforce_capability_breakers (gw_tenant_id c) (ap_action_type action) db) (\<lambda>_.
            (case (gw_communication_policy c, gw_workflow_now c) of
               (Some policy, Some now) \<Rightarrow>
                 if ap_action_type action \<in> cp_outbound_action_types policy
                 then bind_result (enforce_communication_policy g (gw_tenant_id c) process policy now db) (\<lambda>_.
                      enforce_outbound_breakers g (gw_tenant_id c) db)
                 else Inr ()
             | _ \<Rightarrow> Inr ())))"

definition action_stored :: "GatewayCommand \<Rightarrow> ActionProposal \<Rightarrow> Database \<Rightarrow> bool" where
  "action_stored c action db \<longleftrightarrow>
     list_ex (\<lambda>r. turn_key r = (gw_tenant_id c, gw_process_instance_id c, gw_agent_turn_id c,
                                ap_logical_action_key action)) (db_action_requests db)"

definition pick_target :: "(uuid \<times> string) list \<Rightarrow> uuid set \<Rightarrow> string \<Rightarrow> uuid option" where
  "pick_target targets used action_type =
     map_option fst (find (\<lambda>(i, t). t = action_type \<and> i \<notin> used) targets)"

fun persist_actions ::
  "ActionGateway \<Rightarrow> (nat \<Rightarrow> new_ids) \<Rightarrow> instant \<Rightarrow> GatewayCommand \<Rightarrow> ProcessInstance \<Rightarrow> unicode set
     \<Rightarrow> (uuid \<times> string) list \<Rightarrow> nat \<Rightarrow> uuid set \<Rightarrow> ActionProposal list \<Rightarrow> Database
     \<Rightarrow> gateway_error + PersistedAction list \<times> Database" where
  "persist_actions g ids now c process conflicted targets n used [] db = Inr ([], db)"
| "persist_actions g ids now c process conflicted targets n used (action # actions) db =
     bind_result (if action_stored c action db then Inr ()
                  else admit_action g c process conflicted action db) (\<lambda>_.
     let supersedes = pick_target targets used (ap_action_type action);
         used' = used \<union> set_option supersedes
     in bind_result (persist_action (ids n, now) (c, supersedes, action) db) (\<lambda>(persisted, db1).
        bind_result (persist_actions g ids now c process conflicted targets (Suc n) used' actions db1)
          (\<lambda>(rest, db2). Inr (persisted # rest, db2))))"

definition persist_decision ::
  "ActionGateway \<Rightarrow> (nat \<Rightarrow> new_ids) \<Rightarrow> instant \<Rightarrow> GatewayCommand \<Rightarrow> Database
     \<Rightarrow> gateway_error + PersistedAction list \<times> Database" where
  "persist_decision g ids now c db =
     (case find_process (gw_tenant_id c) (gw_process_instance_id c) db of
        None \<Rightarrow> Inl GatewayProcessNotFound
      | Some process \<Rightarrow>
          if halted_status (pi_status process) then Inl (GatewayProcessHalted (pi_status process))
          else bind_result
            (case (gw_communication_policy c, gw_workflow_now c) of
               (Some policy, Some workflow_now) \<Rightarrow>
                 (case process_lifetime_block process policy workflow_now of
                    Inl error \<Rightarrow> Inl (GatewayTimestamp error)
                  | Inr (Some block) \<Rightarrow> Inl (LifetimeEnded block)
                  | Inr None \<Rightarrow> Inr ())
             | _ \<Rightarrow> Inr ()) (\<lambda>_.
          bind_result
            (case latest_breaker (gw_tenant_id c) BreakerScope.ALL [] db of
               Inl error \<Rightarrow> Inl (GatewayBreakerError error)
             | Inr state \<Rightarrow>
                 (case state of
                    Some b \<Rightarrow> if br_tripped b then Inl (GatewayBreakerOpen (br_scope b) (br_reason b)) else Inr ()
                  | None \<Rightarrow> Inr ())) (\<lambda>_.
          bind_result (conflicted_payload_hashes (gw_tenant_id c) (gw_process_instance_id c)
              (ad_based_on_action_attempt_ids (gw_decision c)) db) (\<lambda>conflicted.
          persist_actions g ids now c process conflicted
            (revision_targets (gw_tenant_id c) (gw_process_instance_id c)
               (ad_based_on_review_command_ids (gw_decision c)) db)
            0 {} (ad_actions (gw_decision c)) db))))"

section \<open>A repeated action\<close>

lemma persist_approval_result:
  assumes "persist_approval ids c request_id h db = Inr ((approval_id, thread_id), db')"
  obtains a_inserted approval approvals t_inserted thread threads where
    "insert_select approval_revision_key aq_id (approval_row (ni_approval ids) c request_id h) (db_approvals db)
       = Some (a_inserted, Some approval, approvals)"
    "aq_payload_hash approval = h" "approval_id = aq_id approval"
    "insert_select thread_approval_key rt_id (thread_row (ni_thread ids) c (aq_id approval)) (db_review_threads db)
       = Some (t_inserted, Some thread, threads)"
    "thread_id = rt_id thread" "db' = db\<lparr>db_approvals := approvals, db_review_threads := threads\<rparr>"
  using assms by (auto simp: persist_approval_def split: option.splits if_splits)

text \<open>The approval step of \<open>persist_action\<close>.\<close>

definition approval_step ::
  "new_ids \<Rightarrow> GatewayCommand \<Rightarrow> uuid \<Rightarrow> unicode \<Rightarrow> PermissionOutcome \<Rightarrow> Database
     \<Rightarrow> gateway_error + uuid option \<times> uuid option \<times> Database" where
  "approval_step ids c i h outcome db =
     (if outcome = REQUIRE_APPROVAL
      then bind_result (persist_approval ids c i h db)
             (\<lambda>((approval, thread), db2). Inr (Some approval, Some thread, db2))
      else Inr (None, None, db))"

lemma persist_action_result:
  assumes "persist_action (ids, now) (c, supersedes, action) db = Inr (r, db')"
  obtains inserted request requests h v_inserted revision revisions p_inserted stored policies approval thread where
    "require_action_parameters (ap_parameters action) (ascii ''action parameters'') DEFAULT_PLATFORM_SAFETY_LIMITS = Inr ()"
    "insert_select turn_key ar_id (request_row now c supersedes action) (db_action_requests db)
       = Some (inserted, Some request, requests)"
    "ar_action_type request = ap_action_type action" "ar_supersedes_action_request_id request = supersedes"
    "action_payload_hash action = Some h"
    "insert_select revision_key av_id (revision_row (ni_revision ids) c action (ar_id request) h) (db_action_revisions db)
       = Some (v_inserted, Some revision, revisions)"
    "av_payload_hash revision = h"
    "insert_select policy_key ay_id
       (policy_row (ni_policy ids) c (ar_id request) (evaluate_action (gw_policy c) action)) (db_policy_records db)
       = Some (p_inserted, Some stored, policies)"
    "approval_step ids c (ar_id request) h (ay_outcome stored)
       (db\<lparr>db_action_requests := requests, db_action_revisions := revisions, db_policy_records := policies\<rparr>)
       = Inr (approval, thread, db')"
    "r = \<lparr>pa_action_request_id = ar_id request, pa_revision = 1, pa_payload_hash = h, pa_outcome = ay_outcome stored,
          pa_status = ar_status request, pa_approval_request_id = approval, pa_review_thread_id = thread\<rparr>"
  using assms
  by (auto simp: persist_action_def approval_step_def [symmetric] Let_def
      split: option.splits if_splits sum.splits)

text \<open>
  The rows a stored action is answered from: its request with its status, revision 1 of it, the
  policy record, and the approval with its thread.
\<close>

definition action_rows ::
  "GatewayCommand \<times> uuid option \<times> ActionProposal \<Rightarrow> Database \<Rightarrow>
     ActionRequest option \<times> ActionRevision option \<times> ActionPolicyRecord option
       \<times> ApprovalRequest option \<times> ReviewThread option" where
  "action_rows cmd db =
     (let (c, supersedes, action) = cmd;
          request = find (\<lambda>r. turn_key r = turn_key (request_row 0 c supersedes action)) (db_action_requests db);
          first_revision = map_option (\<lambda>q. (gw_tenant_id c, gw_process_instance_id c, ar_id q, 1 :: int)) request;
          approval = Option.bind first_revision
            (\<lambda>k. find (\<lambda>r. approval_revision_key r = k) (db_approvals db))
      in (request,
          Option.bind first_revision (\<lambda>k. find (\<lambda>r. revision_key r = k) (db_action_revisions db)),
          Option.bind first_revision (\<lambda>k. find (\<lambda>r. policy_key r = k) (db_policy_records db)),
          approval,
          Option.bind approval (\<lambda>a. find (\<lambda>r. thread_approval_key r
             = (gw_tenant_id c, gw_process_instance_id c, aq_id a)) (db_review_threads db))))"

lemma insert_select_stored:
  assumes "find (\<lambda>r. key r = key row) rows = Some found"
  shows "insert_select key ident row rows = Some (False, Some found, rows)"
proof -
  have "\<exists>r \<in> set rows. key row = key r"
    using find_Some_mem [OF assms] by (intro bexI [of _ found]) simp_all
  then have "insert_ignore (\<lambda>r s. key r = key s) (\<lambda>r s. ident r = ident s) row rows = Ignored"
    by (simp add: insert_ignore_Ignored)
  then show ?thesis using assms by (simp add: insert_select_def)
qed

lemma insert_select_finds:
  "insert_select key ident row rows = Some (inserted, found, rows') \<Longrightarrow> find (\<lambda>r. key r = key row) rows' = found"
  using insert_select_again [of key ident row rows inserted found rows']
  by (auto simp: insert_select_def split: insertion.splits)

lemmas action_keys = turn_key_def revision_key_def policy_key_def approval_revision_key_def
  thread_approval_key_def request_row_def revision_row_def policy_row_def approval_row_def thread_row_def

lemma approval_step_stored:
  assumes "approval_step ids c i h outcome db = Inr (approval, thread, db')"
  shows "outcome = REQUIRE_APPROVAL \<Longrightarrow> \<exists>a t. approval = Some (aq_id a) \<and> thread = Some (rt_id t) \<and> aq_payload_hash a = h
      \<and> find (\<lambda>r. approval_revision_key r = (gw_tenant_id c, gw_process_instance_id c, i, 1)) (db_approvals db') = Some a
      \<and> find (\<lambda>r. thread_approval_key r = (gw_tenant_id c, gw_process_instance_id c, aq_id a)) (db_review_threads db') = Some t"
    and "outcome \<noteq> REQUIRE_APPROVAL \<Longrightarrow> approval = None \<and> thread = None"
proof -
  assume "outcome = REQUIRE_APPROVAL"
  then obtain ai ti where at: "persist_approval ids c i h db = Inr ((ai, ti), db')" "approval = Some ai" "thread = Some ti"
    using assms by (auto simp: approval_step_def)
  from at(1) show "\<exists>a t. approval = Some (aq_id a) \<and> thread = Some (rt_id t) \<and> aq_payload_hash a = h
      \<and> find (\<lambda>r. approval_revision_key r = (gw_tenant_id c, gw_process_instance_id c, i, 1)) (db_approvals db') = Some a
      \<and> find (\<lambda>r. thread_approval_key r = (gw_tenant_id c, gw_process_instance_id c, aq_id a)) (db_review_threads db') = Some t"
  proof (rule persist_approval_result)
    fix a_inserted a approvals t_inserted t threads
    assume a: "insert_select approval_revision_key aq_id (approval_row (ni_approval ids) c i h) (db_approvals db)
        = Some (a_inserted, Some a, approvals)"
      and t: "insert_select thread_approval_key rt_id (thread_row (ni_thread ids) c (aq_id a)) (db_review_threads db)
        = Some (t_inserted, Some t, threads)"
      and rest: "aq_payload_hash a = h" "ai = aq_id a" "ti = rt_id t"
        "db' = db\<lparr>db_approvals := approvals, db_review_threads := threads\<rparr>"
    have "find (\<lambda>r. approval_revision_key r = (gw_tenant_id c, gw_process_instance_id c, i, 1)) approvals = Some a"
      using insert_select_finds [OF a] by (simp add: action_keys)
    moreover have "find (\<lambda>r. thread_approval_key r = (gw_tenant_id c, gw_process_instance_id c, aq_id a)) threads = Some t"
      using insert_select_finds [OF t] by (simp add: action_keys)
    ultimately show ?thesis using rest at(2,3) by auto
  qed
qed (use assms in \<open>auto simp: approval_step_def\<close>)

lemma approval_step_again:
  assumes "outcome = REQUIRE_APPROVAL \<Longrightarrow> \<exists>a t. approval = Some (aq_id a) \<and> thread = Some (rt_id t) \<and> aq_payload_hash a = h
      \<and> find (\<lambda>r. approval_revision_key r = (gw_tenant_id c, gw_process_instance_id c, i, 1)) (db_approvals db) = Some a
      \<and> find (\<lambda>r. thread_approval_key r = (gw_tenant_id c, gw_process_instance_id c, aq_id a)) (db_review_threads db) = Some t"
    and "outcome \<noteq> REQUIRE_APPROVAL \<Longrightarrow> approval = None \<and> thread = None"
  shows "approval_step ids c i h outcome db = Inr (approval, thread, db)"
proof (cases "outcome = REQUIRE_APPROVAL")
  case True
  then obtain a t where at: "approval = Some (aq_id a)" "thread = Some (rt_id t)" "aq_payload_hash a = h"
    and a: "find (\<lambda>r. approval_revision_key r = (gw_tenant_id c, gw_process_instance_id c, i, 1)) (db_approvals db) = Some a"
    and t: "find (\<lambda>r. thread_approval_key r = (gw_tenant_id c, gw_process_instance_id c, aq_id a)) (db_review_threads db) = Some t"
    using assms(1) by blast
  have "insert_select approval_revision_key aq_id (approval_row (ni_approval ids) c i h) (db_approvals db)
      = Some (False, Some a, db_approvals db)"
    by (rule insert_select_stored) (use a in \<open>simp add: approval_revision_key_def approval_row_def\<close>)
  moreover have "insert_select thread_approval_key rt_id (thread_row (ni_thread ids) c (aq_id a)) (db_review_threads db)
      = Some (False, Some t, db_review_threads db)"
    by (rule insert_select_stored) (use t in \<open>simp add: thread_approval_key_def thread_row_def\<close>)
  ultimately show ?thesis using True at by (simp add: approval_step_def persist_approval_def)
qed (use assms(2) in \<open>simp add: approval_step_def\<close>)

lemma persist_action_again:
  assumes "require_action_parameters (ap_parameters action) (ascii ''action parameters'') DEFAULT_PLATFORM_SAFETY_LIMITS = Inr ()"
    and "find (\<lambda>r. turn_key r = turn_key (request_row 0 c supersedes action)) (db_action_requests db) = Some request"
    and "ar_action_type request = ap_action_type action" "ar_supersedes_action_request_id request = supersedes"
    and "action_payload_hash action = Some h"
    and "find (\<lambda>r. revision_key r = (gw_tenant_id c, gw_process_instance_id c, ar_id request, 1)) (db_action_revisions db)
      = Some revision" "av_payload_hash revision = h"
    and "find (\<lambda>r. policy_key r = (gw_tenant_id c, gw_process_instance_id c, ar_id request, 1)) (db_policy_records db)
      = Some stored"
    and "\<And>ids. approval_step ids c (ar_id request) h (ay_outcome stored) db = Inr (approval, thread, db)"
  shows "persist_action e (c, supersedes, action) db
    = Inr (\<lparr>pa_action_request_id = ar_id request, pa_revision = 1, pa_payload_hash = h, pa_outcome = ay_outcome stored,
          pa_status = ar_status request, pa_approval_request_id = approval, pa_review_thread_id = thread\<rparr>, db)"
proof -
  obtain ids now where e: "e = (ids, now)" by (cases e)
  have "insert_select turn_key ar_id (request_row now c supersedes action) (db_action_requests db)
      = Some (False, Some request, db_action_requests db)"
    by (rule insert_select_stored) (use assms(2) in \<open>simp add: turn_key_def request_row_def\<close>)
  moreover have "insert_select revision_key av_id (revision_row (ni_revision ids) c action (ar_id request) h)
      (db_action_revisions db) = Some (False, Some revision, db_action_revisions db)"
    by (rule insert_select_stored) (use assms(6) in \<open>simp add: revision_key_def revision_row_def\<close>)
  moreover have "insert_select policy_key ay_id
      (policy_row (ni_policy ids) c (ar_id request) (evaluate_action (gw_policy c) action)) (db_policy_records db)
      = Some (False, Some stored, db_policy_records db)"
    by (rule insert_select_stored) (use assms(8) in \<open>simp add: policy_key_def policy_row_def\<close>)
  ultimately show ?thesis
    using assms(1,3-5,7,9) by (simp add: e persist_action_def approval_step_def [symmetric] Let_def)
qed

lemma persist_action_replay:
  assumes "persist_action e cmd db = Inr (r, db')" "action_rows cmd later = action_rows cmd db'"
  shows "persist_action e' cmd later = Inr (r, later)"
proof -
  obtain ids now where e: "e = (ids, now)" by (cases e)
  obtain c supersedes action where cmd: "cmd = (c, supersedes, action)" by (cases cmd)
  from assms(1) [unfolded e cmd] show ?thesis
  proof (rule persist_action_result)
    fix inserted and request :: ActionRequest and requests h v_inserted revision revisions p_inserted stored policies approval thread
    let ?k = "(gw_tenant_id c, gw_process_instance_id c, ar_id request, 1)"
    assume params: "require_action_parameters (ap_parameters action) (ascii ''action parameters'') DEFAULT_PLATFORM_SAFETY_LIMITS = Inr ()"
      and q: "insert_select turn_key ar_id (request_row now c supersedes action) (db_action_requests db)
        = Some (inserted, Some request, requests)"
      and same: "ar_action_type request = ap_action_type action" "ar_supersedes_action_request_id request = supersedes"
        "action_payload_hash action = Some h"
      and v: "insert_select revision_key av_id (revision_row (ni_revision ids) c action (ar_id request) h) (db_action_revisions db)
        = Some (v_inserted, Some revision, revisions)"
      and hash: "av_payload_hash revision = h"
      and p: "insert_select policy_key ay_id
         (policy_row (ni_policy ids) c (ar_id request) (evaluate_action (gw_policy c) action)) (db_policy_records db)
         = Some (p_inserted, Some stored, policies)"
      and st: "approval_step ids c (ar_id request) h (ay_outcome stored)
         (db\<lparr>db_action_requests := requests, db_action_revisions := revisions, db_policy_records := policies\<rparr>)
         = Inr (approval, thread, db')"
      and r: "r = \<lparr>pa_action_request_id = ar_id request, pa_revision = 1, pa_payload_hash = h, pa_outcome = ay_outcome stored,
          pa_status = ar_status request, pa_approval_request_id = approval, pa_review_thread_id = thread\<rparr>"
    have rows: "db_action_requests db' = requests" "db_action_revisions db' = revisions" "db_policy_records db' = policies"
      using st by (auto simp: approval_step_def split: if_splits elim!: persist_approval_result)
    have fq: "find (\<lambda>r. turn_key r = turn_key (request_row 0 c supersedes action)) (db_action_requests db') = Some request"
      using insert_select_finds [OF q] by (simp add: rows turn_key_def request_row_def)
    have fv: "find (\<lambda>r. revision_key r = ?k) (db_action_revisions db') = Some revision"
      using insert_select_finds [OF v] by (simp add: rows revision_key_def revision_row_def)
    have fp: "find (\<lambda>r. policy_key r = ?k) (db_policy_records db') = Some stored"
      using insert_select_finds [OF p] by (simp add: rows policy_key_def policy_row_def)
    have fq': "find (\<lambda>r. turn_key r = turn_key (request_row 0 c supersedes action)) (db_action_requests later) = Some request"
      using assms(2) fq by (simp add: cmd action_rows_def Let_def)
    note later' = assms(2) [unfolded cmd action_rows_def Let_def, simplified, unfolded fq fq' fv fp, simplified]
    have again: "approval_step ids c (ar_id request) h (ay_outcome stored) later = Inr (approval, thread, later)" for ids
    proof (rule approval_step_again)
      assume "ay_outcome stored = REQUIRE_APPROVAL"
      from approval_step_stored(1) [OF st this] show "\<exists>a t. approval = Some (aq_id a) \<and> thread = Some (rt_id t)
          \<and> aq_payload_hash a = h \<and> find (\<lambda>r. approval_revision_key r = ?k) (db_approvals later) = Some a
          \<and> find (\<lambda>r. thread_approval_key r = (gw_tenant_id c, gw_process_instance_id c, aq_id a)) (db_review_threads later) = Some t"
        using later' by (elim exE) auto
    qed (use approval_step_stored(2) [OF st] in blast)
    show ?thesis
      unfolding r cmd
      by (rule persist_action_again [OF params fq' same _ hash _ again]) (simp_all add: later' fv fp)
  qed
qed

interpretation action: stored_command persist_action action_rows
  by unfold_locales (rule persist_action_replay)

section \<open>A new action\<close>

text \<open>The foreign keys between the action tables, and their primary keys.\<close>

definition references_ok :: "Database \<Rightarrow> bool" where
  "references_ok db \<longleftrightarrow>
     distinct (map ar_id (db_action_requests db)) \<and> distinct (map aq_id (db_approvals db))
     \<and> (\<forall>v \<in> set (db_action_revisions db). av_action_request_id v \<in> ar_id ` set (db_action_requests db))
     \<and> (\<forall>p \<in> set (db_policy_records db). ay_action_request_id p \<in> ar_id ` set (db_action_requests db))
     \<and> (\<forall>a \<in> set (db_approvals db). aq_action_request_id a \<in> ar_id ` set (db_action_requests db))
     \<and> (\<forall>t \<in> set (db_review_threads db). rt_approval_request_id t \<in> aq_id ` set (db_approvals db))"

text \<open>Everything a new action leaves in the database.\<close>

definition stored_action ::
  "new_ids \<Rightarrow> instant \<Rightarrow> GatewayCommand \<Rightarrow> uuid option \<Rightarrow> ActionProposal \<Rightarrow> unicode \<Rightarrow> Database \<Rightarrow> Database" where
  "stored_action ids now c supersedes action h db =
     (let i = ap_action_request_id action; decision = evaluate_action (gw_policy c) action;
          db1 = db\<lparr>db_action_requests := db_action_requests db @ [request_row now c supersedes action],
                   db_action_revisions := db_action_revisions db @ [revision_row (ni_revision ids) c action i h],
                   db_policy_records := db_policy_records db @ [policy_row (ni_policy ids) c i decision]\<rparr>
      in if apd_outcome decision = REQUIRE_APPROVAL
         then db1\<lparr>db_approvals := db_approvals db @ [approval_row (ni_approval ids) c i h],
                  db_review_threads := db_review_threads db @ [thread_row (ni_thread ids) c (ni_approval ids)]\<rparr>
         else db1)"

lemma persist_action_new:
  assumes "references_ok db" "\<not> action_stored c action db"
    and "persist_action (ids, now) (c, supersedes, action) db = Inr (r, db')"
  obtains h where "action_payload_hash action = Some h" "db' = stored_action ids now c supersedes action h db"
    "ap_action_request_id action \<notin> ar_id ` set (db_action_requests db)"
    "apd_outcome (evaluate_action (gw_policy c) action) = REQUIRE_APPROVAL \<Longrightarrow> ni_approval ids \<notin> aq_id ` set (db_approvals db)"
    "r = \<lparr>pa_action_request_id = ap_action_request_id action, pa_revision = 1, pa_payload_hash = h,
          pa_outcome = apd_outcome (evaluate_action (gw_policy c) action),
          pa_status = initial_action_request_status (apd_outcome (evaluate_action (gw_policy c) action)),
          pa_approval_request_id = (if apd_outcome (evaluate_action (gw_policy c) action) = REQUIRE_APPROVAL
            then Some (ni_approval ids) else None),
          pa_review_thread_id = (if apd_outcome (evaluate_action (gw_policy c) action) = REQUIRE_APPROVAL
            then Some (ni_thread ids) else None)\<rparr>"
  using assms(3)
proof (rule persist_action_result)
  fix inserted request requests h v_inserted revision revisions p_inserted stored policies approval thread
  let ?i = "ap_action_request_id action" and ?d = "evaluate_action (gw_policy c) action"
  let ?db1 = "db\<lparr>db_action_requests := requests, db_action_revisions := revisions, db_policy_records := policies\<rparr>"
  assume q: "insert_select turn_key ar_id (request_row now c supersedes action) (db_action_requests db)
      = Some (inserted, Some request, requests)"
    and hash: "action_payload_hash action = Some h"
    and v: "insert_select revision_key av_id (revision_row (ni_revision ids) c action (ar_id request) h) (db_action_revisions db)
      = Some (v_inserted, Some revision, revisions)"
    and p: "insert_select policy_key ay_id (policy_row (ni_policy ids) c (ar_id request) ?d) (db_policy_records db)
      = Some (p_inserted, Some stored, policies)"
    and st: "approval_step ids c (ar_id request) h (ay_outcome stored) ?db1 = Inr (approval, thread, db')"
    and r: "r = \<lparr>pa_action_request_id = ar_id request, pa_revision = 1, pa_payload_hash = h, pa_outcome = ay_outcome stored,
        pa_status = ar_status request, pa_approval_request_id = approval, pa_review_thread_id = thread\<rparr>"
  have "\<forall>x \<in> set (db_action_requests db). turn_key x \<noteq> turn_key (request_row now c supersedes action)"
    using assms(2) by (auto simp: action_stored_def list_ex_iff turn_key_def request_row_def)
  from insert_select_fresh [OF q this] have req: "request = request_row now c supersedes action"
    "requests = db_action_requests db @ [request]" and fresh: "?i \<notin> ar_id ` set (db_action_requests db)"
    by (auto simp: request_row_def)
  have i: "ar_id request = ?i" by (simp add: req request_row_def)
  have unused: "\<forall>x \<in> set (db_action_revisions db). av_action_request_id x \<noteq> ?i"
    "\<forall>x \<in> set (db_policy_records db). ay_action_request_id x \<noteq> ?i"
    "\<forall>x \<in> set (db_approvals db). aq_action_request_id x \<noteq> ?i"
    using assms(1) fresh unfolding references_ok_def by metis+
  have "\<forall>x \<in> set (db_action_revisions db). revision_key x \<noteq> revision_key (revision_row (ni_revision ids) c action (ar_id request) h)"
    using unused i by (auto simp: revision_key_def revision_row_def)
  from insert_select_fresh [OF v this] have rev: "revisions = db_action_revisions db @ [revision_row (ni_revision ids) c action ?i h]"
    by (simp add: i)
  have "\<forall>x \<in> set (db_policy_records db). policy_key x \<noteq> policy_key (policy_row (ni_policy ids) c (ar_id request) ?d)"
    using unused i by (auto simp: policy_key_def policy_row_def)
  from insert_select_fresh [OF p this] have pol: "stored = policy_row (ni_policy ids) c ?i ?d"
    "policies = db_policy_records db @ [policy_row (ni_policy ids) c ?i ?d]" by (simp_all add: i)
  have out: "ay_outcome stored = apd_outcome ?d" by (simp add: pol policy_row_def)
  have base: "?db1 = db\<lparr>db_action_requests := db_action_requests db @ [request_row now c supersedes action],
      db_action_revisions := db_action_revisions db @ [revision_row (ni_revision ids) c action ?i h],
      db_policy_records := db_policy_records db @ [policy_row (ni_policy ids) c ?i ?d]\<rparr>"
    by (simp add: req rev pol)
  show ?thesis
  proof (cases "apd_outcome ?d = REQUIRE_APPROVAL")
    case False
    then have "db' = ?db1" "approval = None" "thread = None" using st out by (simp_all add: approval_step_def)
    then show ?thesis
      by (intro that [OF hash]) (use False fresh r base out i req in \<open>simp_all add: stored_action_def Let_def request_row_def\<close>)
  next
    case True
    then obtain approval_id thread_id where pa: "persist_approval ids c ?i h ?db1 = Inr ((approval_id, thread_id), db')"
      "approval = Some approval_id" "thread = Some thread_id"
      using st out i by (auto simp: approval_step_def)
    have same: "db_approvals ?db1 = db_approvals db" "db_review_threads ?db1 = db_review_threads db" by simp_all
    obtain a_inserted row approvals t_inserted trow threads where
      a: "insert_select approval_revision_key aq_id (approval_row (ni_approval ids) c ?i h) (db_approvals db)
        = Some (a_inserted, Some row, approvals)"
      and "aq_payload_hash row = h" and ids: "approval_id = aq_id row"
      and t: "insert_select thread_approval_key rt_id (thread_row (ni_thread ids) c (aq_id row)) (db_review_threads db)
        = Some (t_inserted, Some trow, threads)"
      and idt: "thread_id = rt_id trow"
      and db': "db' = ?db1\<lparr>db_approvals := approvals, db_review_threads := threads\<rparr>"
      by (rule persist_approval_result [OF pa(1), unfolded same])
    have "\<forall>x \<in> set (db_approvals db). approval_revision_key x \<noteq> approval_revision_key (approval_row (ni_approval ids) c ?i h)"
      using unused by (auto simp: approval_revision_key_def approval_row_def)
    from insert_select_fresh [OF a this] have row: "row = approval_row (ni_approval ids) c ?i h"
      "approvals = db_approvals db @ [approval_row (ni_approval ids) c ?i h]"
      and fresh_a: "ni_approval ids \<notin> aq_id ` set (db_approvals db)" by (auto simp: approval_row_def)
    have unused_t: "\<forall>x \<in> set (db_review_threads db). rt_approval_request_id x \<noteq> ni_approval ids"
    proof
      fix x
      assume "x \<in> set (db_review_threads db)"
      then have "rt_approval_request_id x \<in> aq_id ` set (db_approvals db)"
        using assms(1) by (simp add: references_ok_def)
      then show "rt_approval_request_id x \<noteq> ni_approval ids" using fresh_a by metis
    qed
    have "\<forall>x \<in> set (db_review_threads db). thread_approval_key x \<noteq> thread_approval_key (thread_row (ni_thread ids) c (aq_id row))"
      using unused_t row by (auto simp: thread_approval_key_def thread_row_def approval_row_def)
    from insert_select_fresh [OF t this] have trow: "trow = thread_row (ni_thread ids) c (ni_approval ids)"
      "threads = db_review_threads db @ [thread_row (ni_thread ids) c (ni_approval ids)]"
      by (simp_all add: row approval_row_def)
    have "db' = stored_action ids now c supersedes action h db"
      unfolding db' base row(2) trow(2) stored_action_def Let_def using True by simp
    moreover have "approval = Some (ni_approval ids)" "thread = Some (ni_thread ids)"
      using pa(2,3) ids idt row(1) trow(1) by (simp_all add: approval_row_def thread_row_def)
    moreover have "ar_status request = initial_action_request_status (apd_outcome ?d)"
      unfolding req(1) by (simp add: request_row_def)
    ultimately show ?thesis
      by (intro that [OF hash]) (use True fresh fresh_a r i out in simp_all)
  qed
qed

lemma stored_action_references:
  assumes "references_ok db" "ap_action_request_id action \<notin> ar_id ` set (db_action_requests db)"
    and "apd_outcome (evaluate_action (gw_policy c) action) = REQUIRE_APPROVAL \<Longrightarrow> ni_approval ids \<notin> aq_id ` set (db_approvals db)"
  shows "references_ok (stored_action ids now c supersedes action h db)"
  using assms
  by (auto simp: references_ok_def stored_action_def Let_def request_row_def revision_row_def policy_row_def
      approval_row_def thread_row_def)

end
