(* ===== verification/Reconciliation.thy ===== *)
theory Reconciliation
  imports Execution_Safety
begin

text \<open>
  \<open>actions/reconciliation.py\<close>: an operator resolves, with evidence, one attempt whose outcome
  the provider could not establish. The decision is immutable; the attempt and its request take
  the resolution, and the process mailbox is told through the outbox.
\<close>

section \<open>Resolving an unknown outcome\<close>

datatype resolution_error =
    DifferentResolution
  | ResolvedAttemptUnavailable
  | ResolvedAttemptNotFound
  | OutcomeNotUnknown
  | ResolutionProcessMissing
  | ResolutionIntegrity

definition find_resolution :: "OperatorActionResolution \<Rightarrow> Database \<Rightarrow> ActionReconciliationDecision option" where
  "find_resolution c db =
     find (\<lambda>d. (rd_tenant_id d, rd_process_instance_id d, rd_action_attempt_id d)
             = (oar_tenant_id c, oar_process_instance_id c, oar_action_attempt_id c)) (db_reconciliations db)"

definition same_resolution :: "ActionReconciliationDecision \<Rightarrow> OperatorActionResolution \<Rightarrow> bool" where
  "same_resolution stored c \<longleftrightarrow>
     rd_id stored = oar_decision_id c \<and> rd_actor_id stored = oar_actor_id c
     \<and> rd_resolution stored = oar_resolution c \<and> rd_evidence stored = oar_evidence c
     \<and> rd_provider_reference stored = oar_provider_reference c
     \<and> same_object (rd_result stored) (oar_result c)"

fun attempt_status_of_resolution :: "ActionResolution \<Rightarrow> ActionAttemptStatus" where
  "attempt_status_of_resolution ActionResolution.SUCCEEDED = ActionAttemptStatus.SUCCEEDED"
| "attempt_status_of_resolution ActionResolution.FAILED = ActionAttemptStatus.FAILED"

definition resolution_result :: "ActionAttempt \<Rightarrow> ActionExecutionResult" where
  "resolution_result a = (attempt_result a)\<lparr>er_conflict := None\<rparr>"

definition unknown_status :: "ActionAttemptStatus \<Rightarrow> bool" where
  "unknown_status s \<longleftrightarrow> s = ActionAttemptStatus.UNKNOWN \<or> s = ActionAttemptStatus.RECONCILING"

definition resolved_attempt ::
  "OperatorActionResolution \<Rightarrow> instant \<Rightarrow> ActionAttempt \<Rightarrow> ActionAttempt" where
  "resolved_attempt c now a =
     a\<lparr>aa_status := attempt_status_of_resolution (oar_resolution c),
       aa_provider_reference :=
         (case oar_provider_reference c of None \<Rightarrow> aa_provider_reference a | Some p \<Rightarrow> Some p),
       aa_result := (case oar_result c of None \<Rightarrow> aa_result a | Some r \<Rightarrow> Some r),
       aa_completed_at := Some now\<rparr>"

definition resolution_row :: "OperatorActionResolution \<Rightarrow> ActionAttempt \<Rightarrow> ActionReconciliationDecision" where
  "resolution_row c a =
     \<lparr>rd_id = oar_decision_id c, rd_tenant_id = oar_tenant_id c,
      rd_process_instance_id = oar_process_instance_id c,
      rd_action_request_id = aa_action_request_id a, rd_action_attempt_id = aa_id a,
      rd_actor_id = oar_actor_id c, rd_previous_status = aa_status a, rd_resolution = oar_resolution c,
      rd_evidence = oar_evidence c, rd_provider_reference = oar_provider_reference c,
      rd_result = oar_result c\<rparr>"

definition find_attempt_by_id :: "uuid \<Rightarrow> uuid \<Rightarrow> Database \<Rightarrow> ActionAttempt option" where
  "find_attempt_by_id tenant i db = find (\<lambda>a. aa_tenant_id a = tenant \<and> aa_id a = i) (db_attempts db)"

text \<open>The attempt joined with its request.\<close>

definition attempt_and_request ::
  "OperatorActionResolution \<Rightarrow> Database \<Rightarrow> (ActionAttempt \<times> ActionRequest) option" where
  "attempt_and_request c db =
     (case find (\<lambda>a. aa_tenant_id a = oar_tenant_id c \<and> aa_process_instance_id a = oar_process_instance_id c
                  \<and> aa_id a = oar_action_attempt_id c) (db_attempts db) of
        None \<Rightarrow> None
      | Some a \<Rightarrow>
          map_option (Pair a) (find (\<lambda>r. ar_tenant_id r = oar_tenant_id c \<and> ar_id r = aa_action_request_id a)
            (db_action_requests db)))"

definition resolution_message ::
  "uuid \<Rightarrow> instant \<Rightarrow> OperatorActionResolution \<Rightarrow> unicode \<Rightarrow> ActionAttempt \<Rightarrow> OutboxMessage" where
  "resolution_message new_id now c workflow_id a =
     new_message new_id now (oar_tenant_id c) (oar_process_instance_id c) None ''temporal.action_resolution''
       workflow_id (ascii ''action-resolution:'' @ uuid_str (oar_decision_id c))
       (ActionResolutionPayload (oar_decision_id c) (aa_action_request_id a) (aa_id a) (oar_resolution c))"

record ResolutionEnv =
  rn_outbox_id :: uuid
  rn_completed_at :: instant
  rn_now :: instant

text \<open>
  The second look for a stored decision only matters when another transaction commits between
  the two queries; within one state it finds what the first one found.
\<close>

definition resolve_unknown ::
  "ResolutionEnv \<Rightarrow> OperatorActionResolution \<Rightarrow> Database \<Rightarrow> resolution_error + ActionExecutionResult \<times> Database" where
  "resolve_unknown env c db =
     (case find_resolution c db of
        Some existing \<Rightarrow>
          if \<not> same_resolution existing c then Inl DifferentResolution
          else (case find_attempt_by_id (oar_tenant_id c) (oar_action_attempt_id c) db of
                  None \<Rightarrow> Inl ResolvedAttemptUnavailable
                | Some attempt \<Rightarrow> Inr (resolution_result attempt, db))
      | None \<Rightarrow>
          (case attempt_and_request c db of
             None \<Rightarrow> Inl ResolvedAttemptNotFound
           | Some (attempt, request) \<Rightarrow>
               if \<not> unknown_status (aa_status attempt) then Inl OutcomeNotUnknown
               else (case insert_row (\<lambda>r s. rd_id r = rd_id s
                         \<or> (rd_tenant_id r, rd_process_instance_id r, rd_action_attempt_id r)
                           = (rd_tenant_id s, rd_process_instance_id s, rd_action_attempt_id s))
                       (resolution_row c attempt) (db_reconciliations db) of
                       None \<Rightarrow> Inl ResolutionIntegrity
                     | Some rows \<Rightarrow>
                         (case find_process (oar_tenant_id c) (oar_process_instance_id c) db of
                            None \<Rightarrow> Inl ResolutionProcessMissing
                          | Some process \<Rightarrow>
                              let db1 = db\<lparr>db_reconciliations := rows,
                                    db_attempts := update_rows
                                      (\<lambda>a. aa_tenant_id a = oar_tenant_id c \<and> aa_id a = aa_id attempt)
                                      (resolved_attempt c (rn_completed_at env)) (db_attempts db)\<rparr>;
                                  db2 = set_request_status (oar_tenant_id c) (ar_id request)
                                    (request_status_of_attempt (attempt_status_of_resolution (oar_resolution c))) db1
                              in (case enqueue (resolution_message (rn_outbox_id env) (rn_now env) c
                                          (pi_workflow_id process) attempt) db2 of
                                    None \<Rightarrow> Inl ResolutionIntegrity
                                  | Some db3 \<Rightarrow>
                                      Inr (resolution_result (resolved_attempt c (rn_completed_at env) attempt), db3))))))"

section \<open>Replay, and what a resolution leaves alone\<close>

lemma resolved_attempt_fields [simp]:
  "aa_id (resolved_attempt c now a) = aa_id a" "aa_tenant_id (resolved_attempt c now a) = aa_tenant_id a"
  "attempt_key (resolved_attempt c now a) = attempt_key a"
  "aa_action_request_id (resolved_attempt c now a) = aa_action_request_id a"
  "aa_process_instance_id (resolved_attempt c now a) = aa_process_instance_id a"
  by (simp_all add: resolved_attempt_def attempt_key_def)

lemma resolved_is_settled: "settled_attempt (aa_status (resolved_attempt c now a))"
  by (cases "oar_resolution c") (simp_all add: resolved_attempt_def settled_attempt_def)

text \<open>The primary key of the attempts.\<close>

definition attempts_ok :: "Database \<Rightarrow> bool" where
  "attempts_ok db \<longleftrightarrow> distinct (map aa_id (db_attempts db))"

lemma resolve_unknown_new:
  assumes "resolve_unknown env c db = Inr (r, db')" "find_resolution c db = None"
  obtains attempt request process base where
    "attempt_and_request c db = Some (attempt, request)" "unknown_status (aa_status attempt)"
    "find_process (oar_tenant_id c) (oar_process_instance_id c) db = Some process"
    "r = resolution_result (resolved_attempt c (rn_completed_at env) attempt)"
    "db_reconciliations db' = db_reconciliations db @ [resolution_row c attempt]"
    "db_attempts db' = update_rows (\<lambda>a. aa_tenant_id a = oar_tenant_id c \<and> aa_id a = aa_id attempt)
       (resolved_attempt c (rn_completed_at env)) (db_attempts db)"
    "db_action_requests db' = update_rows (\<lambda>r. ar_tenant_id r = oar_tenant_id c \<and> ar_id r = ar_id request)
       (\<lambda>r. r\<lparr>ar_status := request_status_of_attempt (attempt_status_of_resolution (oar_resolution c))\<rparr>)
       (db_action_requests db)"
    "enqueue (resolution_message (rn_outbox_id env) (rn_now env) c (pi_workflow_id process) attempt) base = Some db'"
    "db_outbox base = db_outbox db"
proof -
  obtain attempt request process where
    ar: "attempt_and_request c db = Some (attempt, request)" and u: "unknown_status (aa_status attempt)"
    and p: "find_process (oar_tenant_id c) (oar_process_instance_id c) db = Some process"
    using assms by (auto simp: resolve_unknown_def Let_def split: option.splits if_splits)
  define db1 where "db1 = db\<lparr>db_reconciliations := db_reconciliations db @ [resolution_row c attempt],
      db_attempts := update_rows (\<lambda>a. aa_tenant_id a = oar_tenant_id c \<and> aa_id a = aa_id attempt)
        (resolved_attempt c (rn_completed_at env)) (db_attempts db)\<rparr>"
  define base where "base = set_request_status (oar_tenant_id c) (ar_id request)
      (request_status_of_attempt (attempt_status_of_resolution (oar_resolution c))) db1"
  have enq: "enqueue (resolution_message (rn_outbox_id env) (rn_now env) c (pi_workflow_id process) attempt) base = Some db'"
    and r: "r = resolution_result (resolved_attempt c (rn_completed_at env) attempt)"
    using assms ar u p
    by (auto simp: resolve_unknown_def Let_def insert_row_Some db1_def base_def split: option.splits if_splits)
  show ?thesis
    by (rule that [OF ar u p r _ _ _ enq])
      (simp_all add: enqueue_frame [OF enq] base_def db1_def set_request_status_def)
qed

lemma attempt_and_request_Some:
  assumes "attempt_and_request c db = Some (attempt, request)"
  shows "attempt \<in> set (db_attempts db)" "aa_tenant_id attempt = oar_tenant_id c"
    "aa_process_instance_id attempt = oar_process_instance_id c" "aa_id attempt = oar_action_attempt_id c"
    "request \<in> set (db_action_requests db)" "ar_id request = aa_action_request_id attempt"
    "ar_tenant_id request = oar_tenant_id c"
  using assms by (auto simp: attempt_and_request_def split: option.splits dest!: find_Some_mem)

lemma find_attempt_resolved:
  assumes "attempt_and_request c db = Some (attempt, request)" "attempts_ok db"
    and "db_attempts db' = update_rows (\<lambda>a. aa_tenant_id a = oar_tenant_id c \<and> aa_id a = aa_id attempt)
       (resolved_attempt c now) (db_attempts db)"
  shows "find_attempt_by_id (oar_tenant_id c) (oar_action_attempt_id c) db' = Some (resolved_attempt c now attempt)"
proof -
  note mem = attempt_and_request_Some [OF assms(1)]
  have "find (\<lambda>a. aa_tenant_id a = oar_tenant_id c \<and> aa_id a = oar_action_attempt_id c) (db_attempts db) = Some attempt"
  proof (cases "find (\<lambda>a. aa_tenant_id a = oar_tenant_id c \<and> aa_id a = oar_action_attempt_id c) (db_attempts db)")
    case None
    then show ?thesis using mem by (auto simp: find_None)
  next
    case (Some a)
    then have "a \<in> set (db_attempts db)" "aa_id a = aa_id attempt" using mem find_Some_mem [OF Some] by auto
    then show ?thesis using Some mem(1) assms(2) by (auto simp: attempts_ok_def distinct_map inj_on_def)
  qed
  then show ?thesis
    unfolding find_attempt_by_id_def assms(3) using mem
    by (subst find_update_rows) simp_all
qed

text \<open>The rows a stored resolution is answered from.\<close>

definition resolution_rows ::
  "OperatorActionResolution \<Rightarrow> Database \<Rightarrow> ActionReconciliationDecision option \<times> ActionAttempt option" where
  "resolution_rows c db =
     (find_resolution c db, find_attempt_by_id (oar_tenant_id c) (oar_action_attempt_id c) db)"

lemma resolve_unknown_replay:
  assumes "attempts_ok db" "resolve_unknown env c db = Inr (r, db')"
    and "\<And>a. oar_result c = Some a \<Longrightarrow> document (JObj a)"
    and "resolution_rows c later = resolution_rows c db'"
  shows "resolve_unknown env' c later = Inr (r, later)"
proof (cases "find_resolution c db")
  case (Some existing)
  then show ?thesis using assms(2,4)
    by (auto simp: resolve_unknown_def resolution_rows_def split: if_splits option.splits)
next
  case None
  from assms(2) None show ?thesis
  proof (rule resolve_unknown_new)
    fix attempt request
    assume ar: "attempt_and_request c db = Some (attempt, request)"
      and r: "r = resolution_result (resolved_attempt c (rn_completed_at env) attempt)"
      and rows: "db_reconciliations db' = db_reconciliations db @ [resolution_row c attempt]"
      and attempts: "db_attempts db' = update_rows (\<lambda>a. aa_tenant_id a = oar_tenant_id c \<and> aa_id a = aa_id attempt)
        (resolved_attempt c (rn_completed_at env)) (db_attempts db)"
    have "find_resolution c db' = Some (resolution_row c attempt)"
      using None attempt_and_request_Some(4) [OF ar]
      by (simp add: find_resolution_def rows find_append resolution_row_def)
    moreover have "same_resolution (resolution_row c attempt) c"
      using assms(3) by (simp add: same_resolution_def resolution_row_def same_object_self)
    ultimately show ?thesis
      using find_attempt_resolved [OF ar assms(1) attempts] r assms(4)
      by (simp add: resolve_unknown_def resolution_rows_def)
  qed
qed

lemma resolve_unknown_attempts_ok:
  assumes "attempts_ok db" "resolve_unknown env c db = Inr (r, db')"
  shows "attempts_ok db'"
proof (cases "find_resolution c db")
  case (Some existing)
  then show ?thesis using assms by (auto simp: resolve_unknown_def split: if_splits option.splits)
next
  case None
  from assms(2) None show ?thesis
  proof (rule resolve_unknown_new)
    fix attempt
    assume "db_attempts db' = update_rows (\<lambda>a. aa_tenant_id a = oar_tenant_id c \<and> aa_id a = aa_id attempt)
        (resolved_attempt c (rn_completed_at env)) (db_attempts db)"
    then show ?thesis using assms(1) by (simp add: attempts_ok_def map_update_rows)
  qed
qed

text \<open>A resolution changes no attempt that is settled.\<close>

lemma resolve_unknown_settled:
  assumes "attempts_ok db" "resolve_unknown env c db = Inr (r, db')"
  shows "keeps_settled db db'"
proof (cases "find_resolution c db")
  case (Some existing)
  then show ?thesis using assms by (auto simp: resolve_unknown_def split: if_splits option.splits)
next
  case None
  from assms(2) None show ?thesis
  proof (rule resolve_unknown_new)
    fix attempt :: ActionAttempt and request
    let ?p = "\<lambda>a. aa_tenant_id a = oar_tenant_id c \<and> aa_id a = aa_id attempt"
    assume ar: "attempt_and_request c db = Some (attempt, request)" and u: "unknown_status (aa_status attempt)"
      and attempts: "db_attempts db' = update_rows ?p (resolved_attempt c (rn_completed_at env)) (db_attempts db)"
    have untouched: "\<not> ?p a" if "a \<in> set (db_attempts db)" "settled_attempt (aa_status a)" for a
    proof
      assume "?p a"
      then have "a = attempt"
        using that(1) attempt_and_request_Some(1) [OF ar] assms(1) by (auto simp: attempts_ok_def distinct_map inj_on_def)
      then show False using that(2) u by (auto simp: settled_attempt_def unknown_status_def)
    qed
    have "find_attempt tenant key db' =
        map_option (\<lambda>a. if ?p a then resolved_attempt c (rn_completed_at env) a else a) (find_attempt tenant key db)"
      for tenant key
      unfolding find_attempt_def attempts by (rule find_update_rows) simp
    then show ?thesis
      using untouched by (auto simp: keeps_settled_def find_attempt_def dest: find_Some_mem)
  qed
qed

end
