(* ===== verification/Ingestion.thy ===== *)
theory Ingestion
  imports Outbox Process_State "HOL-Library.Product_Lexorder" "HOL-Library.List_Lexorder"
begin

text \<open>
  \<open>events/ingestion.py\<close>, \<open>events/quarantine.py\<close> and \<open>processes/registry.py\<close>: an event is
  recorded once per source identity, correlated with a process by its explicit id and its
  external references, may start a process, and is handed to the process mailbox through the
  outbox; an operator resolves an event that was not correlated. The advisory locks make each
  operation atomic, as a transaction is here.
\<close>

section \<open>Registered definitions\<close>

datatype registry_error =
    DuplicateProcessDefinition "string \<times> unicode"
  | UnknownProcessDefinition "string \<times> unicode"
  | AmbiguousTrigger "(string \<times> unicode) list"

definition definition_key :: "ProcessDefinition \<Rightarrow> string \<times> unicode" where
  "definition_key d = (pd_id d, pd_version d)"

fun register_definitions ::
  "ProcessDefinition list \<Rightarrow> ((string \<times> unicode) \<times> ProcessDefinition) list
     \<Rightarrow> registry_error + ((string \<times> unicode) \<times> ProcessDefinition) list" where
  "register_definitions [] registered = Inr registered"
| "register_definitions (d # ds) registered =
     (if definition_key d \<in> fst ` set registered then Inl (DuplicateProcessDefinition (definition_key d))
      else register_definitions ds (registered @ [(definition_key d, d)]))"

definition make_registry :: "ProcessDefinition list \<Rightarrow> registry_error + ((string \<times> unicode) \<times> ProcessDefinition) list" where
  "make_registry definitions = register_definitions definitions []"

definition get_definition ::
  "((string \<times> unicode) \<times> ProcessDefinition) list \<Rightarrow> string \<Rightarrow> unicode \<Rightarrow> registry_error + ProcessDefinition" where
  "get_definition registry definition_id version =
     (case map_of registry (definition_id, version) of
        None \<Rightarrow> Inl (UnknownProcessDefinition (definition_id, version)) | Some d \<Rightarrow> Inr d)"

definition triggered_by :: "bool \<Rightarrow> string \<Rightarrow> ProcessDefinition \<Rightarrow> bool" where
  "triggered_by include_drafts event_type d \<longleftrightarrow>
     (pd_status d = DefinitionStatus.PUBLISHED \<or> include_drafts \<and> pd_status d = DefinitionStatus.DRAFT)
     \<and> event_type \<in> set (pd_trigger_events d)"

definition resolve_trigger ::
  "((string \<times> unicode) \<times> ProcessDefinition) list \<Rightarrow> string \<Rightarrow> bool \<Rightarrow> registry_error + ProcessDefinition option" where
  "resolve_trigger registry event_type include_drafts =
     (case filter (triggered_by include_drafts event_type) (map snd registry) of
        [] \<Rightarrow> Inr None
      | [d] \<Rightarrow> Inr (Some d)
      | ds \<Rightarrow> Inl (AmbiguousTrigger (sort (map definition_key ds))))"

section \<open>Intake\<close>

record ProcessBootstrap =
  pb_process_type :: string
  pb_definition_version :: unicode
  pb_extension_manifest_hash :: string
  pb_client_pack_fingerprint :: string
  pb_process_definition_fingerprint :: string
  pb_deployment_id :: string
  pb_deployment_release_fingerprint :: string
  pb_temporal_task_queue :: string
  pb_late_event_policy :: string

record IngestionResult =
  ig_event_id :: uuid
  ig_created :: bool
  ig_correlation_status :: correlation_status
  ig_correlation_reason :: "string option"
  ig_process_instance_id :: "uuid option"
  ig_outbox_message_id :: "uuid option"

datatype ingestion_error =
    ReservedKernelEventType string
  | IngressTenantNotFound
  | IngressTenantNotAuthorized
  | IngressTenantSuspended
  | TriggerReferenceRequired
  | MatchedProcessUnavailable
  | UnsupportedLatePolicy string
  | ReferenceOwnershipChanged
  | EventIdConflict
  | NoWorkflowIdentity
  | DeliveryConflict
  | SeveralRows
  | IngestionIntegrity

record IngestEnv =
  ng_process_id :: uuid
  ng_correlation_ids :: "nat \<Rightarrow> uuid"
  ng_outbox_id :: uuid
  ng_now :: instant

text \<open>The arguments of \<open>ingest\<close>.\<close>

record IngestCommand =
  nc_event :: CanonicalEvent
  nc_bootstrap :: "ProcessBootstrap option"
  nc_deployment_id :: "string option"

definition require_ingress_tenant :: "uuid \<Rightarrow> string option \<Rightarrow> Database \<Rightarrow> ingestion_error + string" where
  "require_ingress_tenant tenant deployment_id db =
     (case find_tenant tenant db of
        None \<Rightarrow> Inl IngressTenantNotFound
      | Some t \<Rightarrow>
          if deployment_id \<noteq> None \<and> deployment_id \<noteq> Some (tn_deployment_id t) then Inl IngressTenantNotAuthorized
          else if tn_status t \<noteq> TenantStatus.ACTIVE then Inl IngressTenantSuspended
          else Inr (tn_deployment_id t))"

definition source_key :: "EventInbox \<Rightarrow> uuid \<times> unicode \<times> unicode" where
  "source_key e = (ei_tenant_id e, ei_source e, ei_source_event_id e)"

definition event_source_key :: "CanonicalEvent \<Rightarrow> uuid \<times> unicode \<times> unicode" where
  "event_source_key e = (ce_tenant_id e, ce_source e, ce_source_event_id e)"

text \<open>The outer join with the outbox; more than one row raises.\<close>

definition event_deliveries :: "Database \<Rightarrow> EventInbox \<Rightarrow> (EventInbox \<times> uuid option) list" where
  "event_deliveries db e =
     (case filter (\<lambda>m. om_tenant_id m = ei_tenant_id e \<and> om_causation_event_id m = Some (ei_id e)) (db_outbox db) of
        [] \<Rightarrow> [(e, None)]
      | ms \<Rightarrow> map (\<lambda>m. (e, Some (om_id m))) ms)"

definition existing_rows :: "CanonicalEvent \<Rightarrow> Database \<Rightarrow> (EventInbox \<times> uuid option) list" where
  "existing_rows event db =
     concat (map (event_deliveries db) (filter (\<lambda>e. source_key e = event_source_key event) (db_events db)))"

definition existing_result :: "CanonicalEvent \<Rightarrow> Database \<Rightarrow> ingestion_error + IngestionResult option" where
  "existing_result event db =
     (case existing_rows event db of
        [] \<Rightarrow> Inr None
      | [(e, outbox_id)] \<Rightarrow>
          Inr (Some \<lparr>ig_event_id = ei_id e, ig_created = False, ig_correlation_status = ei_correlation_status e,
                     ig_correlation_reason = ei_correlation_reason e,
                     ig_process_instance_id = ei_process_instance_id e, ig_outbox_message_id = outbox_id\<rparr>)
      | _ \<Rightarrow> Inl SeveralRows)"

definition reference_key :: "ExternalReference \<Rightarrow> unicode \<times> unicode \<times> unicode" where
  "reference_key r = (er_provider r, er_resource_type r, er_external_id r)"

definition correlation_key :: "ExternalCorrelation \<Rightarrow> unicode \<times> unicode \<times> unicode" where
  "correlation_key x = (xc_provider x, xc_resource_type x, xc_external_id x)"

text \<open>The dictionary keeps each key at its first position.\<close>

definition unique_references :: "ExternalReference list \<Rightarrow> ExternalReference list" where
  "unique_references refs = rev (remdups (rev refs))"

definition referenced_processes :: "uuid \<Rightarrow> ExternalReference list \<Rightarrow> Database \<Rightarrow> uuid list" where
  "referenced_processes tenant refs db =
     map xc_process_instance_id (filter (\<lambda>x. xc_tenant_id x = tenant
       \<and> correlation_key x \<in> reference_key ` set (unique_references refs)) (db_correlations db))"

definition resolve_process ::
  "CanonicalEvent \<Rightarrow> Database \<Rightarrow> uuid option \<times> correlation_status \<times> string" where
  "resolve_process event db =
     (let explicit = (case ce_process_instance_id event of
            None \<Rightarrow> Some []
          | Some i \<Rightarrow> (case find_process (ce_tenant_id event) i db of None \<Rightarrow> None | Some p \<Rightarrow> Some [pi_id p]))
      in case explicit of
           None \<Rightarrow> (None, correlation_status.REJECTED, ''explicit_process_not_found'')
         | Some ids \<Rightarrow>
             (case remdups (ids @ referenced_processes (ce_tenant_id event) (ce_external_references event) db) of
                [] \<Rightarrow> (None, correlation_status.PENDING, ''no_process_match'')
              | [i] \<Rightarrow> (Some i, correlation_status.MATCHED, ''single_process_match'')
              | _ \<Rightarrow> (None, correlation_status.PENDING, ''ambiguous_external_references'')))"

definition workflow_identity :: "uuid \<Rightarrow> uuid \<Rightarrow> unicode" where
  "workflow_identity tenant process =
     ascii ''tenant/'' @ uuid_str tenant @ ascii ''/process/'' @ uuid_str process"

text \<open>The new row with the server defaults of the columns that are not set.\<close>

definition new_process :: "uuid \<Rightarrow> instant \<Rightarrow> uuid \<Rightarrow> ProcessBootstrap \<Rightarrow> ProcessInstance" where
  "new_process process_id now tenant b =
     \<lparr>pi_id = process_id, pi_tenant_id = tenant, pi_process_type = pb_process_type b,
      pi_definition_version = pb_definition_version b,
      pi_extension_manifest_hash = pb_extension_manifest_hash b,
      pi_client_pack_fingerprint = pb_client_pack_fingerprint b,
      pi_process_definition_fingerprint = pb_process_definition_fingerprint b,
      pi_deployment_id = pb_deployment_id b,
      pi_deployment_release_fingerprint = pb_deployment_release_fingerprint b,
      pi_temporal_task_queue = pb_temporal_task_queue b, pi_status = ProcessStatus.ACTIVE,
      pi_workflow_id = workflow_identity tenant process_id,
      pi_late_event_policy = pb_late_event_policy b, pi_authoritative_facts = [],
      pi_customer_claims = [], pi_fact_provenance = [], pi_memory_summary = None,
      pi_memory_summary_source_event_ids = [], pi_memory_summary_source_review_command_ids = [],
      pi_memory_summary_source_action_attempt_ids = [], pi_memory_summary_source_timer_ids = [],
      pi_open_commitments = [], pi_current_wake_conditions = [], pi_state_version = 0,
      pi_created_at = now\<rparr>"

definition create_process :: "uuid \<Rightarrow> instant \<Rightarrow> uuid \<Rightarrow> ProcessBootstrap \<Rightarrow> Database \<Rightarrow> Database option" where
  "create_process process_id now tenant b db =
     map_option (\<lambda>rows. db\<lparr>db_processes := rows\<rparr>)
       (insert_row (\<lambda>r s. pi_id r = pi_id s \<or> (pi_tenant_id r, pi_workflow_id r) = (pi_tenant_id s, pi_workflow_id s))
         (new_process process_id now tenant b) (db_processes db))"

definition correlation_row :: "uuid \<Rightarrow> uuid \<Rightarrow> uuid \<Rightarrow> ExternalReference \<Rightarrow> ExternalCorrelation" where
  "correlation_row new_id tenant process r =
     \<lparr>xc_id = new_id, xc_tenant_id = tenant, xc_process_instance_id = process, xc_provider = er_provider r,
      xc_resource_type = er_resource_type r, xc_external_id = er_external_id r\<rparr>"

definition reference_owner :: "uuid \<Rightarrow> ExternalReference \<Rightarrow> ExternalCorrelation list \<Rightarrow> uuid option" where
  "reference_owner tenant r rows =
     map_option xc_process_instance_id
       (find (\<lambda>x. xc_tenant_id x = tenant \<and> correlation_key x = reference_key r) rows)"

definition correlation_clash :: "ExternalCorrelation \<Rightarrow> ExternalCorrelation \<Rightarrow> bool" where
  "correlation_clash r s \<longleftrightarrow> xc_id r = xc_id s
     \<or> xc_tenant_id r = xc_tenant_id s \<and> correlation_key r = correlation_key s"

text \<open>The owners are read before any row is added; the references are distinct.\<close>

fun add_references ::
  "(nat \<Rightarrow> uuid) \<Rightarrow> nat \<Rightarrow> uuid \<Rightarrow> uuid \<Rightarrow> ExternalReference list \<Rightarrow> ExternalCorrelation list
     \<Rightarrow> ExternalCorrelation list option" where
  "add_references ids n tenant process [] rows = Some rows"
| "add_references ids n tenant process (r # refs) rows =
     (if reference_owner tenant r rows \<noteq> None then add_references ids n tenant process refs rows
      else Option.bind (insert_row correlation_clash (correlation_row (ids n) tenant process r) rows)
             (add_references ids (Suc n) tenant process refs))"

definition persist_references ::
  "(nat \<Rightarrow> uuid) \<Rightarrow> uuid \<Rightarrow> uuid \<Rightarrow> ExternalReference list \<Rightarrow> Database \<Rightarrow> ingestion_error + Database" where
  "persist_references ids tenant process refs db =
     (if \<exists>r \<in> set (unique_references refs).
           (case reference_owner tenant r (db_correlations db) of None \<Rightarrow> False | Some owner \<Rightarrow> owner \<noteq> process)
      then Inl ReferenceOwnershipChanged
      else (case add_references ids 0 tenant process (unique_references refs) (db_correlations db) of
              None \<Rightarrow> Inl IngestionIntegrity
            | Some rows \<Rightarrow> Inr (db\<lparr>db_correlations := rows\<rparr>)))"

definition delivery_key :: "CanonicalEvent \<Rightarrow> unicode" where
  "delivery_key event = ascii ''process-event:'' @ uuid_str (ce_event_id event)"

definition schedule_delivery ::
  "uuid \<Rightarrow> instant \<Rightarrow> CanonicalEvent \<Rightarrow> uuid \<Rightarrow> Database \<Rightarrow> ingestion_error + uuid \<times> Database" where
  "schedule_delivery new_id now event process db =
     (case find_process (ce_tenant_id event) process db of
        None \<Rightarrow> Inl NoWorkflowIdentity
      | Some p \<Rightarrow>
          (case insert_ignore (\<lambda>r s. outbox_key r = outbox_key s) (\<lambda>r s. om_id r = om_id s)
                  (new_message new_id now (ce_tenant_id event) process (Some (ce_event_id event))
                     ''temporal.process_event'' (pi_workflow_id p) (delivery_key event)
                     (ProcessEventPayload (ce_event_id event) (ce_event_type event))) (db_outbox db) of
             Violation \<Rightarrow> Inl IngestionIntegrity
           | Inserted rows \<Rightarrow> Inr (new_id, db\<lparr>db_outbox := rows\<rparr>)
           | Ignored \<Rightarrow>
               (case find (\<lambda>m. outbox_key m = (ce_tenant_id event, delivery_key event)) (db_outbox db) of
                  None \<Rightarrow> Inl DeliveryConflict
                | Some m \<Rightarrow>
                    if om_process_instance_id m \<noteq> Some process then Inl DeliveryConflict
                    else Inr (om_id m, db))))"

fun event_instant :: "datetime \<Rightarrow> instant" where
  "event_instant (Naive t) = t"
| "event_instant (Aware t) = t"

definition inbox_row ::
  "CanonicalEvent \<Rightarrow> uuid option \<Rightarrow> correlation_status \<Rightarrow> string \<Rightarrow> EventInbox" where
  "inbox_row event process status reason =
     \<lparr>ei_id = ce_event_id event, ei_tenant_id = ce_tenant_id event, ei_process_instance_id = process,
      ei_source = ce_source event, ei_source_event_id = ce_source_event_id event,
      ei_event_type = ce_event_type event, ei_event_data = event, ei_correlation_status = status,
      ei_correlation_reason = Some reason, ei_received_at = event_instant (ce_received_at event)\<rparr>"

text \<open>Correlation, with the process a trigger may start.\<close>

definition correlate ::
  "IngestEnv \<Rightarrow> IngestCommand \<Rightarrow> Database
     \<Rightarrow> ingestion_error + (uuid option \<times> correlation_status \<times> string) \<times> Database" where
  "correlate env c db =
     (case resolve_process (nc_event c) db of (process, status, reason) \<Rightarrow>
        (case nc_bootstrap c of
           Some b \<Rightarrow>
             if process = None \<and> reason = ''no_process_match''
             then (case create_process (ng_process_id env) (ng_now env) (ce_tenant_id (nc_event c)) b db of
                     None \<Rightarrow> Inl IngestionIntegrity
                   | Some db1 \<Rightarrow>
                       Inr ((Some (ng_process_id env), correlation_status.MATCHED, ''process_created_from_trigger''), db1))
             else Inr ((process, status, reason), db)
         | None \<Rightarrow> Inr ((process, status, reason), db)))"

text \<open>The branch for a matched process: whether to deliver, the reason, and its references.\<close>

definition bind_matched ::
  "IngestEnv \<Rightarrow> CanonicalEvent \<Rightarrow> uuid option \<times> correlation_status \<times> string \<Rightarrow> Database
     \<Rightarrow> ingestion_error + (bool \<times> string) \<times> Database" where
  "bind_matched env event outcome db =
     (case outcome of
        (Some i, correlation_status.MATCHED, reason) \<Rightarrow>
          (case find_process (ce_tenant_id event) i db of
             None \<Rightarrow> Inl MatchedProcessUnavailable
           | Some p \<Rightarrow>
               if terminal_status (pi_status p) \<and> pi_late_event_policy p \<noteq> ''record_only''
               then Inl (UnsupportedLatePolicy (pi_late_event_policy p))
               else bind_result (persist_references (ng_correlation_ids env) (ce_tenant_id event) i
                        (ce_external_references event) db) (\<lambda>db1.
                      Inr (if terminal_status (pi_status p) then (False, ''terminal_process_record_only'')
                           else (True, reason), db1)))
      | (_, _, reason) \<Rightarrow> Inr ((True, reason), db))"

definition deliver_matched ::
  "IngestEnv \<Rightarrow> CanonicalEvent \<Rightarrow> uuid option \<Rightarrow> correlation_status \<Rightarrow> bool \<Rightarrow> Database
     \<Rightarrow> ingestion_error + uuid option \<times> Database" where
  "deliver_matched env event process status deliver_to_workflow db =
     (case process of
        Some i \<Rightarrow>
          if status = correlation_status.MATCHED \<and> deliver_to_workflow
          then bind_result (schedule_delivery (ng_outbox_id env) (ng_now env) event i db)
                 (\<lambda>(m, db1). Inr (Some m, db1))
          else Inr (None, db)
      | None \<Rightarrow> Inr (None, db))"

definition ingest ::
  "IngestEnv \<Rightarrow> IngestCommand \<Rightarrow> Database \<Rightarrow> ingestion_error + IngestionResult \<times> Database" where
  "ingest env c db =
     (let event = nc_event c in
      if ce_event_type event \<in> set RESERVED_KERNEL_EVENT_TYPES then Inl (ReservedKernelEventType (ce_event_type event))
      else
      bind_result (require_ingress_tenant (ce_tenant_id event) (nc_deployment_id c) db) (\<lambda>_.
      bind_result (existing_result event db) (\<lambda>existing.
      case existing of
        Some r \<Rightarrow> Inr (r, db)
      | None \<Rightarrow>
          if nc_bootstrap c \<noteq> None \<and> ce_external_references event = [] then Inl TriggerReferenceRequired
          else
          bind_result (correlate env c db) (\<lambda>((process, status, reason), db1).
          bind_result (bind_matched env event (process, status, reason) db1) (\<lambda>((deliver_to_workflow, reason), db2).
          case insert_ignore (\<lambda>r s. source_key r = source_key s) (\<lambda>r s. ei_id r = ei_id s)
                 (inbox_row event process status reason) (db_events db2) of
            Violation \<Rightarrow> Inl IngestionIntegrity
          | Ignored \<Rightarrow>
              bind_result (existing_result event db2) (\<lambda>existing.
                case existing of None \<Rightarrow> Inl EventIdConflict | Some r \<Rightarrow> Inr (r, db2))
          | Inserted rows \<Rightarrow>
              let db3 = db2\<lparr>db_events := rows\<rparr> in
              bind_result (deliver_matched env event process status deliver_to_workflow db3) (\<lambda>(outbox_id, db4).
              Inr (\<lparr>ig_event_id = ce_event_id event, ig_created = True, ig_correlation_status = status,
                    ig_correlation_reason = Some reason, ig_process_instance_id = process,
                    ig_outbox_message_id = outbox_id\<rparr>, db4)))))))"

section \<open>Quarantine\<close>

record ResolveQuarantineInput =
  qi_command_id :: uuid
  qi_tenant_id :: uuid
  qi_event_id :: uuid
  qi_process_instance_id :: uuid
  qi_actor_id :: uuid
  qi_reason :: unicode
  qi_bind_references :: "ExternalReference list"

datatype quarantine_error =
    QuarantineReason
  | QuarantineIngress ingestion_error
  | ResolutionReused
  | QuarantinedEventNotFound
  | QuarantinedEventInvalid contract_error
  | KernelEvent
  | ForeignReference
  | AlreadyCorrelated
  | DestinationNotFound
  | OtherDeployment
  | QuarantineLatePolicy
  | ReferenceOwned
  | QuarantineDelivery ingestion_error
  | QuarantineIntegrity

definition bound_references :: "ResolveQuarantineInput \<Rightarrow> ExternalReference list" where
  "bound_references c = sort_key reference_key (remdups (qi_bind_references c))"

definition find_event :: "uuid \<Rightarrow> uuid \<Rightarrow> Database \<Rightarrow> EventInbox option" where
  "find_event tenant i db = find (\<lambda>e. ei_tenant_id e = tenant \<and> ei_id e = i) (db_events db)"

definition find_event_resolution :: "ResolveQuarantineInput \<Rightarrow> Database \<Rightarrow> EventResolutionCommand option" where
  "find_event_resolution c db =
     find (\<lambda>r. eq_tenant_id r = qi_tenant_id c \<and> eq_id r = qi_command_id c) (db_resolutions db)"

definition same_event_resolution :: "EventResolutionCommand \<Rightarrow> ResolveQuarantineInput \<Rightarrow> bool" where
  "same_event_resolution existing c \<longleftrightarrow>
     eq_event_id existing = qi_event_id c \<and> eq_process_instance_id existing = qi_process_instance_id c
     \<and> eq_actor_id existing = qi_actor_id c \<and> eq_reason existing = strip (qi_reason c)
     \<and> eq_bound_references existing = bound_references c"

definition event_resolution_row :: "ResolveQuarantineInput \<Rightarrow> EventInbox \<Rightarrow> bool \<Rightarrow> EventResolutionCommand" where
  "event_resolution_row c row terminal =
     \<lparr>eq_id = qi_command_id c, eq_tenant_id = qi_tenant_id c, eq_event_id = qi_event_id c,
      eq_process_instance_id = qi_process_instance_id c, eq_actor_id = qi_actor_id c,
      eq_reason = strip (qi_reason c), eq_previous_status = ei_correlation_status row,
      eq_previous_reason = ei_correlation_reason row, eq_bound_references = bound_references c,
      eq_delivery_scheduled = (\<not> terminal)\<rparr>"

definition correlated_row :: "ResolveQuarantineInput \<Rightarrow> bool \<Rightarrow> EventInbox \<Rightarrow> EventInbox" where
  "correlated_row c terminal e =
     e\<lparr>ei_process_instance_id := Some (qi_process_instance_id c), ei_correlation_status := correlation_status.MATCHED,
       ei_correlation_reason := Some (if terminal then ''terminal_process_record_only''
                                      else ''operator_quarantine_resolution'')\<rparr>"

text \<open>Everything written for a new command, once the event and the process are known.\<close>

definition store_resolution ::
  "IngestEnv \<Rightarrow> ResolveQuarantineInput \<Rightarrow> EventInbox \<Rightarrow> ProcessInstance \<Rightarrow> Database
     \<Rightarrow> quarantine_error + EventResolutionCommand \<times> Database" where
  "store_resolution env c row process db =
     (let terminal = terminal_status (pi_status process) in
      case persist_references (ng_correlation_ids env) (qi_tenant_id c) (pi_id process) (bound_references c) db of
        Inl ReferenceOwnershipChanged \<Rightarrow> Inl ReferenceOwned
      | Inl error \<Rightarrow> Inl QuarantineIntegrity
      | Inr db1 \<Rightarrow>
          (let stored = event_resolution_row c row terminal in
           case insert_row (\<lambda>r s. eq_id r = eq_id s \<or> (eq_tenant_id r, eq_event_id r) = (eq_tenant_id s, eq_event_id s))
                  stored (db_resolutions db1) of
             None \<Rightarrow> Inl QuarantineIntegrity
           | Some rows \<Rightarrow>
               (let db2 = db1\<lparr>db_resolutions := rows,
                      db_events := update_rows (\<lambda>e. ei_tenant_id e = qi_tenant_id c \<and> ei_id e = qi_event_id c)
                        (correlated_row c terminal) (db_events db1)\<rparr>
                in if terminal then Inr (stored, db2)
                   else (case schedule_delivery (ng_outbox_id env) (ng_now env) (ei_event_data row) (pi_id process) db2 of
                           Inl error \<Rightarrow> Inl (QuarantineDelivery error)
                         | Inr (_, db3) \<Rightarrow> Inr (stored, db3)))))"

definition resolve_quarantine ::
  "(datetime \<Rightarrow> unicode) \<Rightarrow> (uuid \<Rightarrow> unicode) \<Rightarrow> string option \<Rightarrow> IngestEnv \<Rightarrow> ResolveQuarantineInput \<Rightarrow> Database
     \<Rightarrow> quarantine_error + EventResolutionCommand \<times> Database" where
  "resolve_quarantine show_time show_uuid deployment_id env c db =
     (let reason = strip (qi_reason c) in
      if reason = [] \<or> 10000 < length reason then Inl QuarantineReason
      else (case require_ingress_tenant (qi_tenant_id c) deployment_id db of
              Inl error \<Rightarrow> Inl (QuarantineIngress error)
            | Inr assigned \<Rightarrow>
                (case find_event_resolution c db of
                   Some existing \<Rightarrow> if same_event_resolution existing c then Inr (existing, db) else Inl ResolutionReused
                 | None \<Rightarrow>
                     (case find_event (qi_tenant_id c) (qi_event_id c) db of
                        None \<Rightarrow> Inl QuarantinedEventNotFound
                      | Some row \<Rightarrow>
                          (case check_CanonicalEvent show_time show_uuid (ei_event_data row) of
                             Inl error \<Rightarrow> Inl (QuarantinedEventInvalid error)
                           | Inr event \<Rightarrow>
                               if ce_event_type event \<in> set RESERVED_KERNEL_EVENT_TYPES then Inl KernelEvent
                               else if \<not> reference_key ` set (bound_references c)
                                         \<subseteq> reference_key ` set (ce_external_references event) then Inl ForeignReference
                               else if ei_correlation_status row = correlation_status.MATCHED
                                       \<or> ei_process_instance_id row \<noteq> None then Inl AlreadyCorrelated
                               else (case find_process (qi_tenant_id c) (qi_process_instance_id c) db of
                                       None \<Rightarrow> Inl DestinationNotFound
                                     | Some process \<Rightarrow>
                                         if pi_deployment_id process \<noteq> assigned then Inl OtherDeployment
                                         else if terminal_status (pi_status process)
                                                 \<and> pi_late_event_policy process \<noteq> ''record_only''
                                         then Inl QuarantineLatePolicy
                                         else store_resolution env c row process db))))))"

section \<open>References keep their owner\<close>

definition correlations_unique :: "ExternalCorrelation list \<Rightarrow> bool" where
  "correlations_unique rows \<longleftrightarrow> distinct (map (\<lambda>x. (xc_tenant_id x, correlation_key x)) rows)"

lemma correlation_row_key [simp]:
  "correlation_key (correlation_row i t p r) = reference_key r" "xc_tenant_id (correlation_row i t p r) = t"
  "xc_process_instance_id (correlation_row i t p r) = p"
  by (simp_all add: correlation_row_def correlation_key_def reference_key_def)

lemma add_references_rows:
  assumes "add_references ids n t p refs rows = Some rows'"
  shows "(\<exists>new. rows' = rows @ new \<and> (\<forall>x \<in> set new. xc_tenant_id x = t \<and> xc_process_instance_id x = p))
    \<and> (correlations_unique rows \<longrightarrow> correlations_unique rows')"
  using assms
proof (induction refs arbitrary: n rows)
  case (Cons r refs)
  show ?case
  proof (cases "reference_owner t r rows")
    case None
    let ?x = "correlation_row (ids n) t p r"
    have rest: "add_references ids (Suc n) t p refs (rows @ [?x]) = Some rows'"
      and fresh: "\<forall>y \<in> set rows. \<not> correlation_clash ?x y"
      using Cons.prems None by (auto simp: bind_eq_Some_conv insert_row_Some)
    have "correlations_unique rows \<longrightarrow> correlations_unique (rows @ [?x])"
      using fresh by (auto simp: correlations_unique_def correlation_clash_def)
    moreover obtain new where "rows' = (rows @ [?x]) @ new"
      "\<forall>x \<in> set new. xc_tenant_id x = t \<and> xc_process_instance_id x = p"
      using Cons.IH [OF rest] by blast
    ultimately show ?thesis using Cons.IH [OF rest] by auto
  next
    case (Some owner)
    then show ?thesis using Cons by simp
  qed
qed simp

lemma persist_references_rows:
  assumes "persist_references ids t p refs db = Inr db'"
  obtains new where "db' = db\<lparr>db_correlations := db_correlations db @ new\<rparr>"
    "\<forall>x \<in> set new. xc_tenant_id x = t \<and> xc_process_instance_id x = p"
    "correlations_unique (db_correlations db) \<longrightarrow> correlations_unique (db_correlations db')"
proof -
  obtain rows where rows: "add_references ids 0 t p (unique_references refs) (db_correlations db) = Some rows"
    "db' = db\<lparr>db_correlations := rows\<rparr>"
    using assms by (auto simp: persist_references_def split: if_splits option.splits)
  then show ?thesis using add_references_rows [OF rows(1)] that by auto
qed

section \<open>What an intake leaves\<close>

lemma correlate_frame:
  assumes "correlate env c db = Inr (outcome, db1)"
  shows "db_events db1 = db_events db" "db_outbox db1 = db_outbox db" "db_correlations db1 = db_correlations db"
    "db_state_revisions db1 = db_state_revisions db"
    "db_processes db1 = db_processes db \<or> (\<exists>b. nc_bootstrap c = Some b
       \<and> db_processes db1 = db_processes db @ [new_process (ng_process_id env) (ng_now env) (ce_tenant_id (nc_event c)) b]
       \<and> (\<forall>p \<in> set (db_processes db). pi_id p \<noteq> ng_process_id env))"
  using assms
  by (auto simp: correlate_def create_process_def insert_row_Some new_process_def
      split: prod.splits option.splits if_splits)

lemma bind_matched_rows:
  assumes "bind_matched env event outcome db = Inr (answer, db1)"
  obtains new where "db1 = db\<lparr>db_correlations := db_correlations db @ new\<rparr>"
    "correlations_unique (db_correlations db) \<longrightarrow> correlations_unique (db_correlations db1)"
proof (cases "db1 = db")
  case True
  then show ?thesis by (intro that [of "[]"]) simp_all
next
  case False
  then obtain i where "persist_references (ng_correlation_ids env) (ce_tenant_id event) i
      (ce_external_references event) db = Inr db1"
    using assms
    by (auto simp: bind_matched_def split: prod.splits option.splits correlation_status.splits if_splits)
  then show ?thesis by (rule persist_references_rows) (rule that)
qed

lemma schedule_delivery_rows:
  assumes "schedule_delivery i now event p db = Inr (m, db')"
  obtains msgs message where "db' = db\<lparr>db_outbox := db_outbox db @ msgs\<rparr>"
    "message \<in> set (db_outbox db')" "om_id message = m"
    "outbox_key message = (ce_tenant_id event, delivery_key event)" "om_process_instance_id message = Some p"
    "msgs = [] \<or> (\<exists>w. msgs = [new_message i now (ce_tenant_id event) p (Some (ce_event_id event))
       ''temporal.process_event'' w (delivery_key event) (ProcessEventPayload (ce_event_id event) (ce_event_type event))])"
proof -
  obtain w where w: "find_process (ce_tenant_id event) p db = Some w"
    using assms by (auto simp: schedule_delivery_def split: option.splits)
  let ?m = "new_message i now (ce_tenant_id event) p (Some (ce_event_id event)) ''temporal.process_event''
      (pi_workflow_id w) (delivery_key event) (ProcessEventPayload (ce_event_id event) (ce_event_type event))"
  let ?insert = "insert_ignore (\<lambda>r s. outbox_key r = outbox_key s) (\<lambda>r s. om_id r = om_id s) ?m (db_outbox db)"
  show ?thesis
  proof (cases ?insert)
    case Ignored
    then obtain stored where "find (\<lambda>m. outbox_key m = (ce_tenant_id event, delivery_key event)) (db_outbox db) = Some stored"
      "om_process_instance_id stored = Some p" "m = om_id stored" "db' = db"
      using assms w by (auto simp: schedule_delivery_def split: option.splits if_splits)
    then show ?thesis by (intro that [of "[]" stored]) (auto dest!: find_Some_mem)
  next
    case (Inserted rows)
    then have "m = i" "db' = db\<lparr>db_outbox := rows\<rparr>" using assms w by (simp_all add: schedule_delivery_def)
    moreover have "rows = db_outbox db @ [?m]" using Inserted by (simp add: insert_ignore_Inserted)
    ultimately have "m = i" "db' = db\<lparr>db_outbox := db_outbox db @ [?m]\<rparr>" by simp_all
    then show ?thesis by (intro that [of "[?m]" ?m]) (auto simp: new_message_def outbox_key_def)
  next
    case Violation
    then show ?thesis using assms w by (simp add: schedule_delivery_def)
  qed
qed

lemma existing_rows_Nil:
  "existing_rows event db = [] \<longleftrightarrow> (\<forall>e \<in> set (db_events db). source_key e \<noteq> event_source_key event)"
proof -
  have "event_deliveries db e \<noteq> []" for e by (simp add: event_deliveries_def split: list.splits)
  then show ?thesis by (auto simp: existing_rows_def filter_empty_conv)
qed

lemma existing_result_None:
  "existing_result event db = Inr None \<Longrightarrow> \<forall>e \<in> set (db_events db). source_key e \<noteq> event_source_key event"
  by (auto simp: existing_result_def existing_rows_Nil [symmetric] split: list.splits prod.splits)

lemma source_key_row [simp]: "source_key (inbox_row event p s r) = event_source_key event"
  by (simp add: inbox_row_def source_key_def event_source_key_def)

text \<open>The rows an intake adds for an event it has not seen.\<close>

lemma ingest_cases:
  assumes "ingest env c db = Inr (r, db')"
  obtains (known) "existing_result (nc_event c) db = Inr (Some r)" "db' = db"
    | (recorded) process status reason msgs new where
      "\<forall>e \<in> set (db_events db). source_key e \<noteq> event_source_key (nc_event c) \<and> ei_id e \<noteq> ce_event_id (nc_event c)"
      "db_events db' = db_events db @ [inbox_row (nc_event c) process status reason]"
      "db_correlations db' = db_correlations db @ new"
      "correlations_unique (db_correlations db) \<Longrightarrow> correlations_unique (db_correlations db')"
      "db_outbox db' = db_outbox db @ msgs"
      "msgs = [] \<or> (\<exists>i w. process = Some i \<and> msgs = [new_message (ng_outbox_id env) (ng_now env) (ce_tenant_id (nc_event c)) i
         (Some (ce_event_id (nc_event c))) ''temporal.process_event'' w (delivery_key (nc_event c))
         (ProcessEventPayload (ce_event_id (nc_event c)) (ce_event_type (nc_event c)))])"
      "ig_event_id r = ce_event_id (nc_event c)" "ig_created r" "ig_correlation_status r = status"
      "ig_correlation_reason r = Some reason" "ig_process_instance_id r = process"
      "db_tenants db' = db_tenants db"
proof -
  let ?event = "nc_event c"
  obtain existing where ex: "existing_result ?event db = Inr existing"
    using assms by (auto simp: ingest_def Let_def split: if_splits)
  show ?thesis
  proof (cases existing)
    case (Some r')
    then show ?thesis using assms ex by (intro known) (auto simp: ingest_def Let_def split: if_splits)
  next
    case None
    note unseen = existing_result_None [OF ex [unfolded None]]
    obtain process status reason0 db1 where co: "correlate env c db = Inr ((process, status, reason0), db1)"
      using assms ex None by (auto simp: ingest_def Let_def split: if_splits)
    obtain deliver reason db2 where bm: "bind_matched env ?event (process, status, reason0) db1 = Inr ((deliver, reason), db2)"
      using assms ex None co by (auto simp: ingest_def Let_def split: if_splits)
    obtain new where db2: "db2 = db1\<lparr>db_correlations := db_correlations db1 @ new\<rparr>"
      "correlations_unique (db_correlations db1) \<longrightarrow> correlations_unique (db_correlations db2)"
      using bm by (rule bind_matched_rows)
    have frame: "db_events db2 = db_events db" "db_outbox db2 = db_outbox db" "db_correlations db2 = db_correlations db @ new"
      "db_correlations db1 = db_correlations db"
      using correlate_frame [OF co] db2 by simp_all
    let ?row = "inbox_row ?event process status reason"
    let ?insert = "insert_ignore (\<lambda>r s. source_key r = source_key s) (\<lambda>r s. ei_id r = ei_id s) ?row (db_events db2)"
    have "?insert \<noteq> Ignored" using unseen frame by (auto simp: insert_ignore_Ignored)
    moreover have "?insert \<noteq> Violation"
      using assms ex None co bm by (auto simp: ingest_def Let_def split: if_splits)
    ultimately obtain rows where ins: "?insert = Inserted rows" by (cases ?insert) auto
    then have rows: "rows = db_events db @ [?row]" and fresh: "\<forall>e \<in> set (db_events db). ei_id e \<noteq> ce_event_id ?event"
      using frame by (auto simp: insert_ignore_Inserted inbox_row_def)
    let ?db3 = "db2\<lparr>db_events := rows\<rparr>"
    have tenants: "db_tenants ?db3 = db_tenants db"
      using co db2 by (auto simp: correlate_def create_process_def split: prod.splits option.splits if_splits)
    obtain outbox_id where last: "deliver_matched env ?event process status deliver ?db3 = Inr (outbox_id, db')"
      and r: "r = \<lparr>ig_event_id = ce_event_id ?event, ig_created = True, ig_correlation_status = status,
            ig_correlation_reason = Some reason, ig_process_instance_id = process, ig_outbox_message_id = outbox_id\<rparr>"
      using assms ex None co bm ins by (auto simp: ingest_def Let_def split: if_splits)
    have "\<exists>msgs. db' = ?db3\<lparr>db_outbox := db_outbox ?db3 @ msgs\<rparr>
        \<and> (msgs = [] \<or> (\<exists>i w. process = Some i \<and> msgs = [new_message (ng_outbox_id env) (ng_now env) (ce_tenant_id ?event) i
         (Some (ce_event_id ?event)) ''temporal.process_event'' w (delivery_key ?event)
         (ProcessEventPayload (ce_event_id ?event) (ce_event_type ?event))]))"
    proof (cases "outbox_id")
      case None
      then have "db' = ?db3" using last by (auto simp: deliver_matched_def split: option.splits if_splits)
      then show ?thesis by (intro exI [of _ "[]"]) simp
    next
      case (Some m)
      then obtain i where "process = Some i" "schedule_delivery (ng_outbox_id env) (ng_now env) ?event i ?db3 = Inr (m, db')"
        using last by (auto simp: deliver_matched_def split: option.splits if_splits)
      then show ?thesis by (metis schedule_delivery_rows)
    qed
    then obtain msgs where db': "db' = ?db3\<lparr>db_outbox := db_outbox ?db3 @ msgs\<rparr>" and
      msgs: "msgs = [] \<or> (\<exists>i w. process = Some i \<and> msgs = [new_message (ng_outbox_id env) (ng_now env) (ce_tenant_id ?event) i
         (Some (ce_event_id ?event)) ''temporal.process_event'' w (delivery_key ?event)
         (ProcessEventPayload (ce_event_id ?event) (ce_event_type ?event))])" by blast
    have after: "db_events db' = db_events db @ [?row]" "db_correlations db' = db_correlations db @ new"
      "db_outbox db' = db_outbox db @ msgs" "db_tenants db' = db_tenants db"
      using frame rows tenants by (simp_all add: db')
    have uni: "correlations_unique (db_correlations db')" if "correlations_unique (db_correlations db)"
      using that db2(2) frame after by simp
    show ?thesis
      by (rule recorded [OF _ after(1,2) uni after(3) msgs]) (use unseen fresh r after in auto)
  qed
qed

section \<open>An event is recorded once\<close>

text \<open>
  Source identities and event ids are unique, and a message caused by an event refers to a stored
  one and is the only one.
\<close>

definition intake_ok :: "Database \<Rightarrow> bool" where
  "intake_ok db \<longleftrightarrow>
     distinct (map source_key (db_events db)) \<and> distinct (map ei_id (db_events db))
     \<and> (\<forall>m \<in> set (db_outbox db). \<forall>i. om_causation_event_id m = Some i \<longrightarrow> i \<in> ei_id ` set (db_events db))
     \<and> distinct (map om_causation_event_id (filter (\<lambda>m. om_causation_event_id m \<noteq> None) (db_outbox db)))"

lemma ingest_intake:
  assumes "intake_ok db" "ingest env c db = Inr (r, db')"
  shows "intake_ok db'"
  using assms(2)
proof (cases rule: ingest_cases)
  case known
  then show ?thesis using assms(1) by simp
next
  case (recorded process status reason msgs new)
  have id: "ei_id (inbox_row (nc_event c) process status reason) = ce_event_id (nc_event c)"
    by (simp add: inbox_row_def)
  have unused: "\<forall>m \<in> set (db_outbox db). om_causation_event_id m \<noteq> Some (ce_event_id (nc_event c))"
    using assms(1) recorded(1) by (fastforce simp: intake_ok_def)
  have cause: "\<forall>m \<in> set msgs. om_causation_event_id m = Some (ce_event_id (nc_event c))" "length msgs \<le> 1"
    using recorded(6) by (auto simp: new_message_def)
  then have "distinct (map om_causation_event_id (filter (\<lambda>m. om_causation_event_id m \<noteq> None) (db_outbox db @ msgs)))"
    using assms(1) unused by (cases msgs) (auto simp: intake_ok_def)
  then show ?thesis
    using assms(1) recorded(1,2,5) cause id unfolding intake_ok_def by auto
qed

text \<open>The join with the outbox has one row.\<close>

lemma distinct_constant_length: "distinct (map f xs) \<Longrightarrow> \<forall>x \<in> set xs. f x = c \<Longrightarrow> length xs \<le> 1"
  by (cases xs; cases "tl xs") auto

lemma existing_rows_single:
  assumes "intake_ok db" "e \<in> set (db_events db)" "source_key e = event_source_key event"
  shows "\<exists>m. existing_rows event db = [(e, m)]"
proof -
  have "filter (\<lambda>e. source_key e = event_source_key event) (db_events db) = [e]"
  proof -
    obtain us ts where split: "db_events db = us @ e # ts" using assms(2) by (meson split_list)
    then have "source_key e \<notin> source_key ` (set us \<union> set ts)"
      using assms(1) by (auto simp: intake_ok_def)
    then have "\<forall>x \<in> set us \<union> set ts. source_key x \<noteq> source_key e" by (metis image_eqI)
    then show ?thesis using assms(3) by (simp add: split filter_empty_conv)
  qed
  moreover have "\<exists>m. event_deliveries db e = [(e, m)]"
  proof -
    let ?p = "\<lambda>m. om_tenant_id m = ei_tenant_id e \<and> om_causation_event_id m = Some (ei_id e)"
    let ?all = "filter (\<lambda>m. om_causation_event_id m \<noteq> None) (db_outbox db)"
    have eq: "filter ?p (db_outbox db) = filter ?p ?all" by (auto intro: filter_cong)
    have "distinct (map om_causation_event_id (filter ?p (db_outbox db)))"
      unfolding eq by (rule distinct_map_filter) (use assms(1) in \<open>simp add: intake_ok_def\<close>)
    moreover have "\<forall>m \<in> set (filter ?p (db_outbox db)). om_causation_event_id m = Some (ei_id e)" by simp
    ultimately have "length (filter ?p (db_outbox db)) \<le> 1" by (rule distinct_constant_length)
    then consider "filter ?p (db_outbox db) = []" | m where "filter ?p (db_outbox db) = [m]"
      by (cases "filter ?p (db_outbox db)") auto
    then show ?thesis by cases (simp_all add: event_deliveries_def)
  qed
  ultimately show ?thesis by (auto simp: existing_rows_def)
qed

lemma existing_result_known:
  assumes "existing_result event db = Inr (Some r)"
  obtains e where "e \<in> set (db_events db)" "source_key e = event_source_key event" "ig_event_id r = ei_id e"
    "ig_correlation_status r = ei_correlation_status e" "ig_correlation_reason r = ei_correlation_reason e"
    "ig_process_instance_id r = ei_process_instance_id e" "\<not> ig_created r"
proof -
  obtain e m where rows: "existing_rows event db = [(e, m)]" and r: "r = \<lparr>ig_event_id = ei_id e, ig_created = False,
      ig_correlation_status = ei_correlation_status e, ig_correlation_reason = ei_correlation_reason e,
      ig_process_instance_id = ei_process_instance_id e, ig_outbox_message_id = m\<rparr>"
    using assms by (auto simp: existing_result_def split: list.splits prod.splits)
  have "fst x = d" if "x \<in> set (event_deliveries db d)" for x d
    using that by (cases "filter (\<lambda>m. om_tenant_id m = ei_tenant_id d \<and> om_causation_event_id m = Some (ei_id d)) (db_outbox db)")
      (auto simp: event_deliveries_def)
  moreover have "(e, m) \<in> set (existing_rows event db)" by (simp add: rows)
  ultimately have "e \<in> set (db_events db)" "source_key e = event_source_key event"
    by (fastforce simp: existing_rows_def)+
  then show ?thesis using r that by simp
qed

text \<open>The row of an ingested event, whether this call recorded it or an earlier one.\<close>

lemma ingest_row:
  assumes "ingest env c db = Inr (r, db')"
  obtains e where "e \<in> set (db_events db')" "source_key e = event_source_key (nc_event c)" "ig_event_id r = ei_id e"
    "ig_correlation_status r = ei_correlation_status e" "ig_correlation_reason r = ei_correlation_reason e"
    "ig_process_instance_id r = ei_process_instance_id e"
  using assms
proof (cases rule: ingest_cases)
  case known
  from known(1) show ?thesis
  proof (rule existing_result_known)
    fix e
    assume "e \<in> set (db_events db)" "source_key e = event_source_key (nc_event c)" "ig_event_id r = ei_id e"
      "ig_correlation_status r = ei_correlation_status e" "ig_correlation_reason r = ei_correlation_reason e"
      "ig_process_instance_id r = ei_process_instance_id e"
    then show ?thesis using known(2) by (intro that) simp_all
  qed
next
  case (recorded process status reason msgs new)
  show ?thesis
    by (rule that [of "inbox_row (nc_event c) process status reason"])
      (use recorded in \<open>simp_all add: inbox_row_def event_source_key_def source_key_def\<close>)
qed

lemma ingest_again:
  assumes "intake_ok db" "ingest env c db = Inr (r, db')"
    and "event_source_key (nc_event c') = event_source_key (nc_event c)"
    and "ce_event_type (nc_event c') \<notin> set RESERVED_KERNEL_EVENT_TYPES"
    and "require_ingress_tenant (ce_tenant_id (nc_event c')) (nc_deployment_id c') db' = Inr d"
  shows "\<exists>m. ingest env' c' db' = Inr (r\<lparr>ig_created := False, ig_outbox_message_id := m\<rparr>, db')"
  using assms(2)
proof (rule ingest_row)
  fix e
  assume e: "e \<in> set (db_events db')" "source_key e = event_source_key (nc_event c)"
    and r: "ig_event_id r = ei_id e" "ig_correlation_status r = ei_correlation_status e"
      "ig_correlation_reason r = ei_correlation_reason e" "ig_process_instance_id r = ei_process_instance_id e"
  obtain m where "existing_rows (nc_event c') db' = [(e, m)]"
    using existing_rows_single [OF ingest_intake [OF assms(1,2)] e(1), of "nc_event c'"] e(2) assms(3) by auto
  then have "existing_result (nc_event c') db' = Inr (Some (r\<lparr>ig_created := False, ig_outbox_message_id := m\<rparr>))"
    using r by (simp add: existing_result_def)
  then show ?thesis using assms(4,5) by (intro exI [of _ m]) (simp add: ingest_def)
qed

section \<open>Resolutions\<close>

lemma resolve_quarantine_new:
  assumes "resolve_quarantine st su dep env c db = Inr (stored, db')" "find_event_resolution c db = None"
  obtains row process where "find_event (qi_tenant_id c) (qi_event_id c) db = Some row"
    "ei_correlation_status row \<noteq> correlation_status.MATCHED" "ei_process_instance_id row = None"
    "find_process (qi_tenant_id c) (qi_process_instance_id c) db = Some process"
    "store_resolution env c row process db = Inr (stored, db')"
  using assms
  by (auto simp: resolve_quarantine_def Let_def split: if_splits sum.splits option.splits)

lemma store_resolution_rows:
  assumes "store_resolution env c row process db = Inr (stored, db')"
  obtains new msgs where "stored = event_resolution_row c row (terminal_status (pi_status process))"
    "db_correlations db' = db_correlations db @ new"
    "correlations_unique (db_correlations db) \<longrightarrow> correlations_unique (db_correlations db')"
    "db_resolutions db' = db_resolutions db @ [stored]"
    "db_events db' = update_rows (\<lambda>e. ei_tenant_id e = qi_tenant_id c \<and> ei_id e = qi_event_id c)
       (correlated_row c (terminal_status (pi_status process))) (db_events db)"
    "db_outbox db' = db_outbox db @ msgs" "db_tenants db' = db_tenants db"
proof -
  let ?t = "terminal_status (pi_status process)"
  let ?stored = "event_resolution_row c row ?t"
  obtain db1 where refs: "persist_references (ng_correlation_ids env) (qi_tenant_id c) (pi_id process) (bound_references c) db = Inr db1"
    using assms by (auto simp: store_resolution_def Let_def split: sum.splits ingestion_error.splits)
  from refs obtain new where db1: "db1 = db\<lparr>db_correlations := db_correlations db @ new\<rparr>"
    "correlations_unique (db_correlations db) \<longrightarrow> correlations_unique (db_correlations db1)"
    by (rule persist_references_rows)
  let ?db2 = "db1\<lparr>db_resolutions := db_resolutions db1 @ [?stored],
      db_events := update_rows (\<lambda>e. ei_tenant_id e = qi_tenant_id c \<and> ei_id e = qi_event_id c)
        (correlated_row c ?t) (db_events db1)\<rparr>"
  have stored: "stored = ?stored" and last: "db' = ?db2
      \<or> (\<exists>m. schedule_delivery (ng_outbox_id env) (ng_now env) (ei_event_data row) (pi_id process) ?db2 = Inr (m, db'))"
    using assms refs by (auto simp: store_resolution_def Let_def insert_row_Some split: option.splits sum.splits if_splits)
  obtain msgs where db': "db' = ?db2\<lparr>db_outbox := db_outbox ?db2 @ msgs\<rparr>"
  proof (cases "db' = ?db2")
    case True
    then show ?thesis by (intro that [of "[]"]) simp
  next
    case False
    then obtain m where "schedule_delivery (ng_outbox_id env) (ng_now env) (ei_event_data row) (pi_id process) ?db2 = Inr (m, db')"
      using last by blast
    then show ?thesis by (rule schedule_delivery_rows) (rule that)
  qed
  show ?thesis
    by (rule that [of new msgs]) (use db1 in \<open>simp_all add: stored db'\<close>)
qed

text \<open>What a stored resolution is answered from: the tenant's admission, and the stored command.\<close>

definition quarantine_rows ::
  "string option \<Rightarrow> ResolveQuarantineInput \<Rightarrow> Database
     \<Rightarrow> (ingestion_error + string) \<times> EventResolutionCommand option" where
  "quarantine_rows dep c db = (require_ingress_tenant (qi_tenant_id c) dep db, find_event_resolution c db)"

lemma resolve_quarantine_replay:
  assumes "resolve_quarantine st su dep env c db = Inr (stored, db')"
    and "quarantine_rows dep c later = quarantine_rows dep c db'"
  shows "resolve_quarantine st su dep env' c later = Inr (stored, later)"
proof (cases "find_event_resolution c db")
  case (Some existing)
  then show ?thesis using assms
    by (auto simp: resolve_quarantine_def quarantine_rows_def Let_def split: if_splits sum.splits)
next
  case None
  from assms(1) None show ?thesis
  proof (rule resolve_quarantine_new)
    fix row process
    assume "store_resolution env c row process db = Inr (stored, db')"
    then show ?thesis
    proof (rule store_resolution_rows)
      fix new msgs
      assume stored: "stored = event_resolution_row c row (terminal_status (pi_status process))"
        and rows: "db_resolutions db' = db_resolutions db @ [stored]" and tenants: "db_tenants db' = db_tenants db"
      have "find_event_resolution c db' = Some stored"
        using None by (simp add: find_event_resolution_def rows find_append stored event_resolution_row_def)
      moreover have "same_event_resolution stored c"
        by (simp add: stored same_event_resolution_def event_resolution_row_def)
      moreover have "require_ingress_tenant (qi_tenant_id c) dep db' = require_ingress_tenant (qi_tenant_id c) dep db"
        by (simp add: require_ingress_tenant_def find_tenant_def tenants)
      ultimately show ?thesis using assms
        by (auto simp: resolve_quarantine_def quarantine_rows_def Let_def split: if_splits sum.splits)
    qed
  qed
qed

interpretation quarantine: stored_command "resolve_quarantine show_time show_uuid deployment"
    "quarantine_rows deployment"
  for show_time show_uuid deployment
  by unfold_locales (rule resolve_quarantine_replay)

lemma resolve_quarantine_correlations:
  assumes "resolve_quarantine st su dep env c db = Inr (stored, db')"
  shows "\<exists>new. db_correlations db' = db_correlations db @ new"
    "correlations_unique (db_correlations db) \<Longrightarrow> correlations_unique (db_correlations db')"
proof -
  have "(\<exists>new. db_correlations db' = db_correlations db @ new)
    \<and> (correlations_unique (db_correlations db) \<longrightarrow> correlations_unique (db_correlations db'))"
  proof (cases "find_event_resolution c db")
    case (Some existing)
    then have "db' = db" using assms by (auto simp: resolve_quarantine_def Let_def split: if_splits sum.splits)
    then show ?thesis by simp
  next
    case None
    from assms None show ?thesis
      by (rule resolve_quarantine_new) (erule store_resolution_rows, blast)
  qed
  then show "\<exists>new. db_correlations db' = db_correlations db @ new"
    "correlations_unique (db_correlations db) \<Longrightarrow> correlations_unique (db_correlations db')" by blast+
qed

section \<open>Triggers\<close>

lemma register_definitions_ok:
  assumes "register_definitions ds registered = Inr registry" "distinct (map fst registered)"
  shows "registry = registered @ map (\<lambda>d. (definition_key d, d)) ds \<and> distinct (map fst registry)"
  using assms
proof (induction ds arbitrary: registered)
  case (Cons d ds)
  then have "register_definitions ds (registered @ [(definition_key d, d)]) = Inr registry"
    "distinct (map fst (registered @ [(definition_key d, d)]))" by (simp_all split: if_splits)
  from Cons.IH [OF this] show ?case by (elim conjE) (intro conjI, simp_all only: append_assoc append_Cons append_Nil list.map)
qed simp

text \<open>A trigger is taken by the only enabled definition that claims it, or by none.\<close>

lemma resolve_trigger_unique:
  assumes "make_registry ds = Inr registry" "resolve_trigger registry event_type drafts = Inr answer"
  shows "(case answer of
            None \<Rightarrow> \<forall>d \<in> set ds. \<not> triggered_by drafts event_type d
          | Some d \<Rightarrow> d \<in> set ds \<and> triggered_by drafts event_type d
              \<and> (\<forall>d' \<in> set ds. triggered_by drafts event_type d' \<longrightarrow> d' = d)
              \<and> get_definition registry (pd_id d) (pd_version d) = Inr d)"
proof -
  have reg: "registry = map (\<lambda>d. (definition_key d, d)) ds" "distinct (map fst registry)"
    using register_definitions_ok [of ds "[]" registry] assms(1) by (auto simp: make_registry_def)
  let ?f = "filter (triggered_by drafts event_type) (map snd registry)"
  have f: "set ?f = {d \<in> set ds. triggered_by drafts event_type d}" by (auto simp: reg)
  show ?thesis
  proof (cases answer)
    case None
    then have "?f = []" using assms(2) by (auto simp: resolve_trigger_def split: list.splits)
    then show ?thesis using f None by auto
  next
    case (Some d)
    then have "?f = [d]" using assms(2) by (auto simp: resolve_trigger_def split: list.splits)
    then have d: "{d \<in> set ds. triggered_by drafts event_type d} = {d}" using f by simp
    then have mem: "d \<in> set ds" "triggered_by drafts event_type d"
      and only: "\<forall>d' \<in> set ds. triggered_by drafts event_type d' \<longrightarrow> d' = d" by blast+
    have "(definition_key d, d) \<in> set registry" using mem(1) by (simp add: reg)
    then have "map_of registry (definition_key d) = Some d" using reg(2) by simp
    then have get: "get_definition registry (pd_id d) (pd_version d) = Inr d"
      by (simp add: get_definition_def definition_key_def)
    show ?thesis unfolding Some option.case by (intro conjI mem only get)
  qed
qed

end
