(* ===== verification/Operator_Properties.thy ===== *)
theory Operator_Properties
  imports Delivery_Properties Control Gateway Reconciliation Ingestion
begin

text \<open>
  The guarantees of the stores and operator commands, and of their composition with the mailbox
  and the executor: takeover, the history of a process, permission before execution, intake of
  events, and the resolution of unknown outcomes.
\<close>

section \<open>Takeover\<close>

lemma halted_not_executed:
  assumes "find_process (et_tenant_id t) (et_process_instance_id t) db = Some p" "halted_status (pi_status p)"
  shows "xo_calls (execute x env t db) = []"
proof (rule ccontr)
  assume "xo_calls (execute x env t db) \<noteq> []"
  then obtain reserved db1 where "reserve_attempt x env t db = Inr (Reserved reserved, db1)"
    by (rule execute_call_cases)
  then obtain request revision process where "action_authorized t (xe_now1 env) db request revision process"
    by (rule reserve_attempt_cases)
  then show False using assms by (simp add: action_authorized_def)
qed

lemma takeover_preempts:
  "uuid_text i \<notin> seen_control_command_ids box \<Longrightarrow>
     lifecycle_preemption_pending (handle_signal (control_signal i ''takeover'' sources) box)"
  by (cases sources) (simp_all add: control_signal_def receive_control_def lifecycle_preemption_pending_def)

text \<open>
  What can commit while a process is in the operator's hands: decisions, interventions and operator
  commands of any process, except that the process itself is not resumed or retried, and every
  write that leaves the stored processes as they are and at most adds new ones (intake, reviews,
  the gateway, executions and their resolution, the outbox).
\<close>

inductive taken_over_step :: "uuid \<Rightarrow> uuid \<Rightarrow> Database \<Rightarrow> Database \<Rightarrow> bool" for tenant process where
  step_decision: "apply_decision st su i sc db = Inr (r, db') \<Longrightarrow> taken_over_step tenant process db db'"
| step_intervention: "record_process_intervention v db = Inr (r, db') \<Longrightarrow> taken_over_step tenant process db db'"
| step_control: "apply_control env c db = Inr (row, db') \<Longrightarrow>
    \<not> (ki_tenant_id c = tenant \<and> ki_process_instance_id c = process \<and> ki_command_type c \<in> {RESUME, RETRY}) \<Longrightarrow>
    taken_over_step tenant process db db'"
| step_elsewhere: "db_processes db' = db_processes db @ new \<Longrightarrow> taken_over_step tenant process db db'"

definition paused_process :: "uuid \<Rightarrow> uuid \<Rightarrow> Database \<Rightarrow> bool" where
  "paused_process tenant process db \<longleftrightarrow>
     (\<exists>p. find_process tenant process db = Some p \<and> pi_status p = ProcessStatus.PAUSED)"

lemma paused_decision:
  assumes "paused_process tenant process db" "apply_decision st su i c db = Inr (r, db')"
  shows "paused_process tenant process db'"
proof (cases "find (revision_of_turn c) (db_state_revisions db)")
  case (Some existing)
  then show ?thesis using assms by (auto simp: apply_decision_def split: option.splits if_splits)
next
  case None
  then obtain p where p: "find_process (sc_tenant_id c) (sc_process_instance_id c) db = Some p"
    and active: "pi_status p \<noteq> ProcessStatus.PAUSED" and st: "store_state st su i c p db = Inr (r, db')"
    using assms by (auto simp: apply_decision_def split: option.splits if_splits)
  from st show ?thesis
  proof (rule store_state_rows)
    fix fp transition
    let ?q = "updated_process (ad_memory_update (sc_decision c)) fp transition p"
    assume "db' = (update_process (sc_tenant_id c) (sc_process_instance_id c) (\<lambda>_. ?q) db)
        \<lparr>db_state_revisions := db_state_revisions db @ [state_revision i c ?q]\<rparr>"
    then have "find_process t j db' = (if t = sc_tenant_id c \<and> j = sc_process_instance_id c then Some ?q else find_process t j db)"
      for t j
      using find_process_replaced [OF p, of ?q] by (simp add: find_process_def update_process_def)
    then show ?thesis using assms(1) p active by (auto simp: paused_process_def)
  qed
qed

lemma paused_control:
  assumes "paused_process tenant process db" "apply_control env c db = Inr (row, db')"
    and "\<not> (ki_tenant_id c = tenant \<and> ki_process_instance_id c = process \<and> ki_command_type c \<in> {RESUME, RETRY})"
  shows "paused_process tenant process db'"
proof (cases "find_control c db")
  case (Some existing)
  then show ?thesis using assms by (auto simp: apply_control_def Let_def split: if_splits sum.splits)
next
  case None
  from assms(2) None show ?thesis
  proof (rule apply_control_effect)
    fix p intervention p'
    assume "find_process (ki_tenant_id c) (ki_process_instance_id c) db = Some p"
      "control_transition c p db = Inr (intervention, p')"
      "\<And>t i. find_process t i db' = (if t = ki_tenant_id c \<and> i = ki_process_instance_id c
        then Some p' else find_process t i db)"
    then show ?thesis using assms(1,3)
      by (auto simp: paused_process_def control_transition_def split: ProcessControlType.splits if_splits)
  qed
qed

lemma paused_intervention:
  assumes "paused_process tenant process db" "record_process_intervention v db = Inr (r, db')"
  shows "paused_process tenant process db'"
  using assms(2)
proof (cases rule: record_intervention_cases)
  case (recorded p)
  then show ?thesis using assms(1) by (auto simp: paused_process_def halted_status_def)
qed (use assms(1) in simp)

lemma paused_until_resumed:
  assumes "(taken_over_step tenant process)\<^sup>*\<^sup>* db later" "paused_process tenant process db"
  shows "paused_process tenant process later"
  using assms(1)
proof (induction rule: rtranclp_induct)
  case (step y z)
  from step(2) show ?case
  proof cases
    case step_decision
    then show ?thesis using step.IH paused_decision by blast
  next
    case step_intervention
    then show ?thesis using step.IH paused_intervention by blast
  next
    case step_control
    then show ?thesis using paused_control [OF step.IH] by blast
  next
    case (step_elsewhere new)
    then show ?thesis using step.IH by (auto simp: paused_process_def find_process_def find_append)
  qed
qed (rule assms(2))

lemma paused_refuses:
  assumes "paused_process tenant process db"
  shows "sc_tenant_id sc = tenant \<Longrightarrow> sc_process_instance_id sc = process
      \<Longrightarrow> find (revision_of_turn sc) (db_state_revisions db) = None \<Longrightarrow> \<exists>e. apply_decision st su i sc db = Inl e"
    and "rc_tenant_id rc = tenant \<Longrightarrow> rc_process_instance_id rc = process \<Longrightarrow> \<exists>error. apply_review e rc db = Inl error"
    and "gw_tenant_id gc = tenant \<Longrightarrow> gw_process_instance_id gc = process
      \<Longrightarrow> persist_decision g ids now gc db = Inl (GatewayProcessHalted ProcessStatus.PAUSED)"
    and "et_tenant_id t = tenant \<Longrightarrow> et_process_instance_id t = process \<Longrightarrow> xo_calls (execute x xenv t db) = []"
proof -
  obtain p where p: "find_process tenant process db = Some p" "pi_status p = ProcessStatus.PAUSED"
    "halted_status (pi_status p)"
    using assms by (auto simp: paused_process_def halted_status_def)
  show "sc_tenant_id sc = tenant \<Longrightarrow> sc_process_instance_id sc = process
      \<Longrightarrow> find (revision_of_turn sc) (db_state_revisions db) = None \<Longrightarrow> \<exists>e. apply_decision st su i sc db = Inl e"
    using p by (auto simp: apply_decision_def)
  show "rc_tenant_id rc = tenant \<Longrightarrow> rc_process_instance_id rc = process \<Longrightarrow> \<exists>error. apply_review e rc db = Inl error"
    using p by (auto simp: apply_review_def review_targets_def split: option.splits)
  show "gw_tenant_id gc = tenant \<Longrightarrow> gw_process_instance_id gc = process
      \<Longrightarrow> persist_decision g ids now gc db = Inl (GatewayProcessHalted ProcessStatus.PAUSED)"
    using p by (simp add: persist_decision_def halted_status_def)
  show "et_tenant_id t = tenant \<Longrightarrow> et_process_instance_id t = process \<Longrightarrow> xo_calls (execute x xenv t db) = []"
    using p halted_not_executed by blast
qed

text \<open>
  (C6) A takeover stops automation at once and keeps it stopped: in the database it commits and in
  every later one, whatever decisions, interventions, operator commands and other writes commit in
  between, until a command resumes or retries this process, the process stays paused, no decision
  of a new turn is applied to it, no review decision and no new action is accepted, and no
  execution calls a provider. The message the takeover leaves in the outbox makes the mailbox
  preempt the turn in progress when it is delivered.
\<close>

theorem takeover_stops_automation:
  assumes "apply_control env c db = Inr (row, db')" "find_control c db = None" "ki_command_type c = TAKEOVER"
    and "(taken_over_step (ki_tenant_id c) (ki_process_instance_id c))\<^sup>*\<^sup>* db' later"
  shows "(\<exists>p. find_process (ki_tenant_id c) (ki_process_instance_id c) later = Some p \<and> pi_status p = ProcessStatus.PAUSED)
    \<and> (\<forall>st su i sc. sc_tenant_id sc = ki_tenant_id c \<and> sc_process_instance_id sc = ki_process_instance_id c
           \<and> find (revision_of_turn sc) (db_state_revisions later) = None \<longrightarrow> (\<exists>e. apply_decision st su i sc later = Inl e))
    \<and> (\<forall>e rc. rc_tenant_id rc = ki_tenant_id c \<and> rc_process_instance_id rc = ki_process_instance_id c
           \<longrightarrow> (\<exists>error. apply_review e rc later = Inl error))
    \<and> (\<forall>g ids now gc. gw_tenant_id gc = ki_tenant_id c \<and> gw_process_instance_id gc = ki_process_instance_id c
           \<longrightarrow> persist_decision g ids now gc later = Inl (GatewayProcessHalted ProcessStatus.PAUSED))
    \<and> (\<forall>x xenv t. et_tenant_id t = ki_tenant_id c \<and> et_process_instance_id t = ki_process_instance_id c
           \<longrightarrow> xo_calls (execute x xenv t later) = [])
    \<and> ((\<forall>m \<in> set (db_outbox db). outbox_key m \<noteq> (ki_tenant_id c, control_key c)) \<longrightarrow>
         (\<exists>m \<in> set (db_outbox db'). \<exists>s. om_process_instance_id m = Some (ki_process_instance_id c)
            \<and> message_signal (om_message_type m) (om_payload m) = Inr s
            \<and> (\<forall>box. uuid_text (ki_command_id c) \<notin> seen_control_command_ids box
                 \<longrightarrow> lifecycle_preemption_pending (handle_signal s box))))"
  using assms(1,2)
proof (rule apply_control_effect)
  fix process intervention process'
  assume tr: "control_transition c process db = Inr (intervention, process')"
    and found: "\<And>t i. find_process t i db' = (if t = ki_tenant_id c \<and> i = ki_process_instance_id c
        then Some process' else find_process t i db)"
    and enq: "\<exists>base. enqueue (control_message env c process' (map_option intervention_sources intervention)) base = Some db'
       \<and> db_outbox base = db_outbox db"
  have "pi_status process' = ProcessStatus.PAUSED"
    using tr assms(3) by (auto simp: control_transition_def split: if_splits)
  then have "paused_process (ki_tenant_id c) (ki_process_instance_id c) db'"
    by (simp add: paused_process_def found)
  with assms(4) have paused: "paused_process (ki_tenant_id c) (ki_process_instance_id c) later"
    by (rule paused_until_resumed)
  have msg: "\<exists>m \<in> set (db_outbox db'). \<exists>s. om_process_instance_id m = Some (ki_process_instance_id c)
            \<and> message_signal (om_message_type m) (om_payload m) = Inr s
            \<and> (\<forall>box. uuid_text (ki_command_id c) \<notin> seen_control_command_ids box
                 \<longrightarrow> lifecycle_preemption_pending (handle_signal s box))"
    if fresh: "\<forall>m \<in> set (db_outbox db). outbox_key m \<noteq> (ki_tenant_id c, control_key c)"
  proof -
    let ?m = "control_message env c process' (map_option intervention_sources intervention)"
    have "outbox_key ?m = (ki_tenant_id c, control_key c)"
      by (simp add: control_message_def outbox_key_def new_message_def)
    then have "?m \<in> set (db_outbox db')"
      using enq fresh enqueue_new by metis
    moreover have "om_process_instance_id ?m = Some (ki_process_instance_id c)"
      "message_signal (om_message_type ?m) (om_payload ?m)
         = Inr (control_signal (ki_command_id c) (control_value TAKEOVER) (map_option intervention_sources intervention))"
      using assms(3) by (simp_all add: control_message_def new_message_def message_signal_def)
    moreover have "control_value TAKEOVER = ''takeover''" by simp
    ultimately show ?thesis using takeover_preempts by metis
  qed
  show ?thesis
    using paused_refuses [OF paused] paused msg by (simp add: paused_process_def)
qed

definition sample_takeover_command :: ProcessControlInput where
  "sample_takeover_command =
     \<lparr>ki_command_id = 90, ki_tenant_id = 1, ki_process_instance_id = 2, ki_actor_id = 8,
      ki_command_type = TAKEOVER, ki_reason = ascii ''check'', ki_intervention_id = None\<rparr>"

definition sample_control_env :: ControlEnv where
  "sample_control_env = \<lparr>ke_event_id = 91, ke_outbox_id = 92, ke_resolved_at = 20, ke_recorded_at = 20, ke_now = 20\<rparr>"

definition fresh_database :: Database where
  "fresh_database = sample_database\<lparr>db_processes := [sample_process\<lparr>pi_state_version := 0\<rparr>]\<rparr>"

lemma sample_takeover_applies:
  "\<exists>row db'. apply_control sample_control_env sample_takeover_command fresh_database = Inr (row, db')"
  "find_control sample_takeover_command fresh_database = None"
proof -
  let ?r = "ascii ''check''" and ?c = sample_takeover_command
  have r: "strip ?r = ?r" "?r \<noteq> []" "\<not> 10000 < length ?r" by code_simp+
  have "(case require_utf8_bytes ?r (ascii ''operator guidance'')
      (max_operator_guidance_bytes DEFAULT_PLATFORM_SAFETY_LIMITS) of Inl _ \<Rightarrow> False | Inr _ \<Rightarrow> True)" by code_simp
  then obtain n where n: "require_utf8_bytes ?r (ascii ''operator guidance'')
      (max_operator_guidance_bytes DEFAULT_PLATFORM_SAFETY_LIMITS) = Inr n" by (auto split: sum.splits)
  have c: "ki_reason ?c = ?r" "ki_command_type ?c = TAKEOVER" "ki_tenant_id ?c = 1" "ki_process_instance_id ?c = 2"
    by (simp_all add: sample_takeover_command_def)
  let ?p = "sample_process\<lparr>pi_state_version := 0\<rparr>"
  have p: "find_process 1 2 fresh_database = Some ?p" "\<not> terminal_status (pi_status ?p)" "pi_status ?p = ProcessStatus.ACTIVE"
    by (simp_all add: find_process_def terminal_status_def fresh_database_def sample_process_def)
  have none: "find_control ?c fresh_database = None" "db_controls fresh_database = []" "db_outbox fresh_database = []"
    by (simp_all add: find_control_def fresh_database_def sample_database_def empty_database_def)
  have "\<exists>db'. store_control sample_control_env ?c ?r q None fresh_database = Some db'" for q
    by (simp add: store_control_def c none Let_def insert_row_def resolve_intervention_def enqueue_control_def
        enqueue_def insert_ignore_def update_process_def)
  then obtain db' where "store_control sample_control_env ?c ?r
      (?p\<lparr>pi_status := ProcessStatus.PAUSED, pi_current_wake_conditions := operator_wake\<rparr>) None fresh_database = Some db'"
    by blast
  then have "apply_control sample_control_env ?c fresh_database = Inr (control_row ?c ?r None, db')"
    using r n p none by (simp add: apply_control_def c Let_def control_transition_def)
  then show "\<exists>row db'. apply_control sample_control_env ?c fresh_database = Inr (row, db')" by blast
  show "find_control sample_takeover_command fresh_database = None"
    by (simp add: find_control_def fresh_database_def sample_database_def empty_database_def)
qed

definition sample_failure :: InterventionInput where
  "sample_failure =
     \<lparr>iv_intervention_id = 95, iv_tenant_id = 1, iv_process_instance_id = 2, iv_agent_turn_id = 96,
      iv_kind = ''turn_failure'', iv_error_type = ascii ''boom'', iv_error = ascii ''boom'', iv_event_ids = [],
      iv_review_command_ids = [], iv_action_attempt_ids = [], iv_timer_ids = []\<rparr>"

lemma sample_takeover_interventions:
  assumes "apply_control sample_control_env sample_takeover_command fresh_database = Inr (row, db')"
  shows "db_interventions db' = []"
  using assms sample_takeover_applies(2)
proof (rule apply_control_new)
  fix process intervention process'
  assume "control_transition sample_takeover_command process fresh_database = Inr (intervention, process')"
    "store_control sample_control_env sample_takeover_command (strip (ki_reason sample_takeover_command)) process'
       intervention fresh_database = Some db'"
  then show ?thesis
    by (auto simp: control_transition_def store_control_def resolve_intervention_def enqueue_control_def Let_def
        insert_row_Some sample_takeover_command_def fresh_database_def sample_database_def empty_database_def
        enqueue_def insert_ignore_def update_process_def split: if_splits option.splits)
qed

theorem takeover_stops_automation_witness:
  "\<exists>row db' r later. apply_control sample_control_env sample_takeover_command fresh_database = Inr (row, db')
     \<and> record_process_intervention sample_failure db' = Inr (r, later) \<and> db_interventions later \<noteq> []
     \<and> xo_calls (execute sample_executor sample_environment sample_target later) = []
     \<and> (\<exists>p. find_process 1 2 later = Some p \<and> pi_status p = ProcessStatus.PAUSED)
     \<and> (\<exists>m \<in> set (db_outbox db'). om_process_instance_id m = Some 2)"
proof -
  obtain row db' where a: "apply_control sample_control_env sample_takeover_command fresh_database = Inr (row, db')"
    using sample_takeover_applies(1) by blast
  have ty: "ki_command_type sample_takeover_command = TAKEOVER" by (simp add: sample_takeover_command_def)
  note takeover = takeover_stops_automation [OF a sample_takeover_applies(2) ty]
  from takeover [OF rtranclp.rtrancl_refl] obtain p where "find_process 1 2 db' = Some p"
    by (auto simp: sample_takeover_command_def)
  moreover have "db_interventions db' = []"
    using a by (rule sample_takeover_interventions)
  moreover have "length (ascii ''boom'') \<le> 150" by code_simp
  ultimately obtain r later where i: "record_process_intervention sample_failure db' = Inr (r, later)"
    by (auto simp: record_process_intervention_def add_intervention_def new_intervention_def sample_failure_def
        insert_row_def Let_def)
  have row: "db_interventions later \<noteq> []"
    using i \<open>db_interventions db' = []\<close> by (cases rule: record_intervention_cases) simp_all
  have later: "(taken_over_step (ki_tenant_id sample_takeover_command) (ki_process_instance_id sample_takeover_command))\<^sup>*\<^sup>* db' later"
    using step_intervention [OF i] by blast
  have keys: "ki_tenant_id sample_takeover_command = 1" "ki_process_instance_id sample_takeover_command = 2"
    "et_tenant_id sample_target = 1" "et_process_instance_id sample_target = 2" "db_outbox fresh_database = []"
    by (simp_all add: sample_takeover_command_def sample_target_def fresh_database_def sample_database_def empty_database_def)
  from takeover [OF later, unfolded keys]
  have "\<exists>p. find_process 1 2 later = Some p \<and> pi_status p = ProcessStatus.PAUSED"
    "xo_calls (execute sample_executor sample_environment sample_target later) = []"
    "\<exists>m \<in> set (db_outbox db'). om_process_instance_id m = Some 2"
    using keys by (auto simp del: split_paired_Ex)
  then show ?thesis using a i row by blast
qed

section \<open>The history of a process\<close>

text \<open>One committed change of a process: a decision, an operator command or an intervention.\<close>

inductive process_tx :: "Database \<Rightarrow> Database \<Rightarrow> bool" where
  tx_decision: "apply_decision st su i sc db = Inr (r, db') \<Longrightarrow> process_tx db db'"
| tx_control: "apply_control env c db = Inr (row, db') \<Longrightarrow> process_tx db db'"
| tx_intervention: "record_process_intervention v db = Inr (r, db') \<Longrightarrow> process_tx db db'"

definition terminal_kept :: "Database \<Rightarrow> Database \<Rightarrow> bool" where
  "terminal_kept db db' \<longleftrightarrow> (\<exists>new. db_state_revisions db' = db_state_revisions db @ new)
     \<and> (\<forall>t i p. find_process t i db = Some p \<and> terminal_status (pi_status p) \<longrightarrow> find_process t i db' = Some p)"

lemma terminal_kept_refl [simp]: "terminal_kept db db"
  by (simp add: terminal_kept_def)

lemma terminal_kept_trans: "terminal_kept a b \<Longrightarrow> terminal_kept b c \<Longrightarrow> terminal_kept a c"
  unfolding terminal_kept_def by (metis append.assoc)

lemma decision_terminal_kept:
  assumes "apply_decision st su i c db = Inr (r, db')"
  shows "terminal_kept db db'"
proof (cases "find (revision_of_turn c) (db_state_revisions db)")
  case (Some existing)
  then show ?thesis using assms by (auto simp: apply_decision_def split: option.splits if_splits)
next
  case None
  then obtain process where p: "find_process (sc_tenant_id c) (sc_process_instance_id c) db = Some process"
    and live: "\<not> terminal_status (pi_status process)"
    and st: "store_state st su i c process db = Inr (r, db')"
    using assms by (auto simp: apply_decision_def split: option.splits if_splits)
  from st show ?thesis
  proof (rule store_state_rows)
    fix fp transition
    let ?q = "updated_process (ad_memory_update (sc_decision c)) fp transition process"
    assume db': "db' = (update_process (sc_tenant_id c) (sc_process_instance_id c) (\<lambda>_. ?q) db)
        \<lparr>db_state_revisions := db_state_revisions db @ [state_revision i c ?q]\<rparr>"
    have "find_process t j db' = (if t = sc_tenant_id c \<and> j = sc_process_instance_id c then Some ?q else find_process t j db)"
      for t j
      using find_process_replaced [OF p, of ?q] by (simp add: db' find_process_def update_process_def)
    then show ?thesis using p live by (auto simp: terminal_kept_def db')
  qed
qed

lemma control_terminal_kept:
  assumes "apply_control env c db = Inr (row, db')"
  shows "terminal_kept db db'"
proof (cases "find_control c db")
  case (Some existing)
  then show ?thesis using assms by (auto simp: apply_control_def Let_def split: if_splits sum.splits)
next
  case None
  have live: "\<not> terminal_status (pi_status process)"
    if "find_process (ki_tenant_id c) (ki_process_instance_id c) db = Some process" for process
    using assms None that by (auto simp: apply_control_def Let_def split: if_splits sum.splits option.splits)
  from assms None show ?thesis
  proof (rule apply_control_effect)
    fix process intervention process'
    assume "find_process (ki_tenant_id c) (ki_process_instance_id c) db = Some process"
      "\<And>t i. find_process t i db' = (if t = ki_tenant_id c \<and> i = ki_process_instance_id c
        then Some process' else find_process t i db)" "db_state_revisions db' = db_state_revisions db"
    then show ?thesis using live by (auto simp: terminal_kept_def)
  qed
qed

lemma intervention_terminal_kept:
  assumes "record_process_intervention v db = Inr (r, db')"
  shows "terminal_kept db db'"
  using assms
proof (cases rule: record_intervention_cases)
  case (recorded process)
  then show ?thesis by (auto simp: terminal_kept_def halted_status_def)
qed simp

text \<open>
  (C10) The history of a process is sound through any sequence of decisions, operator commands and
  interventions: revisions are only added, their versions count up from one without a gap, no turn and
  no decision is applied twice, the latest revision holds the facts, claims, provenance, memory and commitments of the
  process, and a completed, cancelled or failed process never changes again.
\<close>

theorem process_history_sound:
  assumes "process_tx\<^sup>*\<^sup>* db db'" "history_ok db"
  shows "history_ok db' \<and> (\<exists>new. db_state_revisions db' = db_state_revisions db @ new)
    \<and> (\<forall>t i p. find_process t i db = Some p \<and> terminal_status (pi_status p) \<longrightarrow> find_process t i db' = Some p)"
proof -
  have "history_ok db' \<and> terminal_kept db db'"
    using assms(1)
  proof (induction rule: rtranclp_induct)
    case base
    then show ?case using assms(2) by simp
  next
    case (step y z)
    then have "history_ok y" "terminal_kept db y" by simp_all
    from step(2) show ?case
    proof cases
      case tx_decision
      then show ?thesis using apply_decision_history decision_terminal_kept terminal_kept_trans \<open>history_ok y\<close> \<open>terminal_kept db y\<close>
        by metis
    next
      case tx_control
      then show ?thesis using apply_control_history control_terminal_kept terminal_kept_trans \<open>history_ok y\<close> \<open>terminal_kept db y\<close>
        by metis
    next
      case tx_intervention
      then show ?thesis using record_intervention_history intervention_terminal_kept terminal_kept_trans
          \<open>history_ok y\<close> \<open>terminal_kept db y\<close> by metis
    qed
  qed
  then show ?thesis by (simp add: terminal_kept_def)
qed

theorem process_history_sound_witness:
  "\<exists>db'. process_tx\<^sup>*\<^sup>* fresh_database db' \<and> fresh_database \<noteq> db' \<and> history_ok db'"
proof -
  obtain row db' where a: "apply_control sample_control_env sample_takeover_command fresh_database = Inr (row, db')"
    using sample_takeover_applies(1) by blast
  then have tx: "process_tx\<^sup>*\<^sup>* fresh_database db'" by (auto intro: tx_control)
  have ok: "history_ok fresh_database"
    by (auto simp: history_ok_def Let_def revisions_of_def find_process_def fresh_database_def sample_database_def
        empty_database_def dest!: find_Some_mem split: if_splits)
  obtain r where "db_controls db' = db_controls fresh_database @ [r]"
    using apply_control_effect [OF a sample_takeover_applies(2)] by metis
  then have "fresh_database \<noteq> db'" by auto
  then show ?thesis using process_history_sound [OF tx ok] tx by blast
qed

end
