(* ===== verification/Composition_Properties.thy ===== *)
theory Composition_Properties
  imports Operator_Properties
begin

text \<open>
  The guarantees that span the gateway and the executor, the intake of events and its quarantine,
  and the writers of outcomes.
\<close>

section \<open>Permission before execution\<close>

lemma stored_action_found:
  assumes "references_ok db" "ap_action_request_id action \<notin> ar_id ` set (db_action_requests db)"
    and "et_tenant_id t = gw_tenant_id c" "et_action_request_id t = ap_action_request_id action" "et_revision t = 1"
  shows "find_policy_record t (stored_action ids now c supersedes action h db)
      = Some (policy_row (ni_policy ids) c (ap_action_request_id action) (evaluate_action (gw_policy c) action))"
    and "\<forall>a \<in> set (db_approvals (stored_action ids now c supersedes action h db)).
      aq_action_request_id a = ap_action_request_id action \<longrightarrow> aq_status a = ApprovalStatus.PENDING"
proof -
  have "\<forall>p \<in> set (db_policy_records db). ay_action_request_id p \<noteq> ap_action_request_id action"
    "\<forall>a \<in> set (db_approvals db). aq_action_request_id a \<noteq> ap_action_request_id action"
    using assms(1,2) unfolding references_ok_def by metis+
  then have none: "find (\<lambda>v. ay_tenant_id v = et_tenant_id t \<and> ay_action_request_id v = et_action_request_id t
      \<and> ay_revision v = et_revision t) (db_policy_records db) = None"
    and old: "\<forall>a \<in> set (db_approvals db). aq_action_request_id a \<noteq> ap_action_request_id action"
    using assms(4) by (auto simp: find_None)
  show "find_policy_record t (stored_action ids now c supersedes action h db)
      = Some (policy_row (ni_policy ids) c (ap_action_request_id action) (evaluate_action (gw_policy c) action))"
    using none assms(3-5) by (simp add: find_policy_record_def stored_action_def Let_def find_append policy_row_def)
  show "\<forall>a \<in> set (db_approvals (stored_action ids now c supersedes action h db)).
      aq_action_request_id a = ap_action_request_id action \<longrightarrow> aq_status a = ApprovalStatus.PENDING"
    using old by (simp add: stored_action_def Let_def approval_row_def)
qed

text \<open>A run that reaches the provider found the recorded permission, and the approval it asks for.\<close>

lemma execute_permitted:
  assumes "xo_calls (execute x env t db) \<noteq> []" "find_policy_record t db = Some policy"
  shows "ay_outcome policy = ALLOW
    \<or> ay_outcome policy = REQUIRE_APPROVAL
      \<and> (\<exists>revision. find_revision t db = Some revision \<and> payload_approved t (xe_now1 env) revision db)"
proof -
  obtain reserved db1 where "reserve_attempt x env t db = Inr (Reserved reserved, db1)"
    using assms(1) by (rule execute_call_cases)
  then obtain request revision process where "action_authorized t (xe_now1 env) db request revision process"
    by (rule reserve_attempt_cases)
  then show ?thesis using assms(2) by (auto simp: action_authorized_def)
qed

text \<open>
  (C7) Permission comes before execution. Persisting a new action records the outcome the configured
  policy gives it, and a pending approval with its payload hash and an open review thread when
  that outcome asks for one. From then on, as long as that record stands, a denied action never
  reaches a provider and one that needs approval reaches it only when its exact payload was
  approved; at the moment it is persisted neither does.
\<close>

theorem permission_before_execution:
  assumes "references_ok db" "\<not> action_stored c action db"
    and "persist_action (ids, now) (c, supersedes, action) db = Inr (r, db')"
    and "t = \<lparr>et_tenant_id = gw_tenant_id c, et_process_instance_id = gw_process_instance_id c,
              et_action_request_id = pa_action_request_id r, et_revision = pa_revision r\<rparr>"
  shows "references_ok db' \<and> pa_outcome r = apd_outcome (evaluate_action (gw_policy c) action)
    \<and> (\<exists>policy. find_policy_record t db' = Some policy \<and> ay_outcome policy = pa_outcome r)
    \<and> (pa_outcome r = REQUIRE_APPROVAL \<longrightarrow>
         (\<exists>a \<in> set (db_approvals db'). \<exists>th \<in> set (db_review_threads db').
            pa_approval_request_id r = Some (aq_id a) \<and> aq_action_request_id a = pa_action_request_id r
            \<and> aq_status a = ApprovalStatus.PENDING \<and> Some (aq_payload_hash a) = action_payload_hash action
            \<and> pa_review_thread_id r = Some (rt_id th) \<and> rt_approval_request_id th = aq_id a
            \<and> rt_status th = thread_status.OPEN))
    \<and> (\<forall>x env later. find_policy_record t later = find_policy_record t db' \<and> xo_calls (execute x env t later) \<noteq> [] \<longrightarrow>
         pa_outcome r = ALLOW \<or> pa_outcome r = REQUIRE_APPROVAL
           \<and> (\<exists>revision. find_revision t later = Some revision \<and> payload_approved t (xe_now1 env) revision later))
    \<and> (pa_outcome r \<noteq> ALLOW \<longrightarrow> (\<forall>x env. xo_calls (execute x env t db') = []))"
  using assms(1-3)
proof (rule persist_action_new)
  fix h
  let ?d = "evaluate_action (gw_policy c) action"
  assume hash: "action_payload_hash action = Some h" and db': "db' = stored_action ids now c supersedes action h db"
    and fresh: "ap_action_request_id action \<notin> ar_id ` set (db_action_requests db)"
    and fresh_a: "apd_outcome ?d = REQUIRE_APPROVAL \<Longrightarrow> ni_approval ids \<notin> aq_id ` set (db_approvals db)"
    and r: "r = \<lparr>pa_action_request_id = ap_action_request_id action, pa_revision = 1, pa_payload_hash = h,
          pa_outcome = apd_outcome ?d, pa_status = initial_action_request_status (apd_outcome ?d),
          pa_approval_request_id = (if apd_outcome ?d = REQUIRE_APPROVAL then Some (ni_approval ids) else None),
          pa_review_thread_id = (if apd_outcome ?d = REQUIRE_APPROVAL then Some (ni_thread ids) else None)\<rparr>"
  have refs: "references_ok db'" unfolding db' using assms(1) fresh fresh_a by (rule stored_action_references)
  let ?row = "policy_row (ni_policy ids) c (ap_action_request_id action) ?d"
  have t: "et_tenant_id t = gw_tenant_id c" "et_action_request_id t = ap_action_request_id action" "et_revision t = 1"
    by (simp_all add: assms(4) r)
  note found = stored_action_found [OF assms(1) fresh t, of ids now supersedes h, folded db']
  have out: "ay_outcome ?row = pa_outcome r" "pa_outcome r = apd_outcome ?d" by (simp_all add: policy_row_def r)
  have asked: "\<exists>a \<in> set (db_approvals db'). \<exists>th \<in> set (db_review_threads db').
            pa_approval_request_id r = Some (aq_id a) \<and> aq_action_request_id a = pa_action_request_id r
            \<and> aq_status a = ApprovalStatus.PENDING \<and> Some (aq_payload_hash a) = action_payload_hash action
            \<and> pa_review_thread_id r = Some (rt_id th) \<and> rt_approval_request_id th = aq_id a
            \<and> rt_status th = thread_status.OPEN" if "pa_outcome r = REQUIRE_APPROVAL"
  proof -
    have "apd_outcome ?d = REQUIRE_APPROVAL" using that out(2) by simp
    then show ?thesis
      by (intro bexI [of _ "approval_row (ni_approval ids) c (ap_action_request_id action) h"]
          bexI [of _ "thread_row (ni_thread ids) c (ni_approval ids)"])
        (simp_all add: db' r hash stored_action_def Let_def approval_row_def thread_row_def)
  qed
  have later: "pa_outcome r = ALLOW \<or> pa_outcome r = REQUIRE_APPROVAL
      \<and> (\<exists>revision. find_revision t db2 = Some revision \<and> payload_approved t (xe_now1 env) revision db2)"
    if "find_policy_record t db2 = find_policy_record t db'" "xo_calls (execute x env t db2) \<noteq> []" for x env db2
    using execute_permitted [OF that(2)] that(1) found(1) out(1) by simp
  have "\<not> payload_approved t time revision db'" for time revision
    using found(2) t(2) by (fastforce simp: payload_approved_def)
  then have "xo_calls (execute x env t db') = []" if "pa_outcome r \<noteq> ALLOW" for x env
    using later [OF refl, of x env] that by metis
  then have now: "pa_outcome r \<noteq> ALLOW \<longrightarrow> (\<forall>x env. xo_calls (execute x env t db') = [])" by blast
  have recorded: "\<exists>policy. find_policy_record t db' = Some policy \<and> ay_outcome policy = pa_outcome r"
    using found(1) out(1) by blast
  show ?thesis by (intro conjI refs out(2) recorded impI asked allI now) (use later in blast)+
qed


definition sample_proposal :: ActionProposal where
  "sample_proposal =
     \<lparr>ap_action_request_id = 30, ap_logical_action_key = ascii ''k'', ap_action_type = ''look_up'', ap_parameters = [],
      ap_rationale = ascii ''r''\<rparr>"

definition sample_gateway_command :: GatewayCommand where
  "sample_gateway_command =
     \<lparr>gw_tenant_id = 1, gw_process_instance_id = 2, gw_agent_turn_id = 31, gw_process_definition_version = ascii ''1'',
      gw_decision = \<lparr>ad_decision_id = 32, ad_based_on_event_ids = [], ad_based_on_review_command_ids = [],
        ad_based_on_action_attempt_ids = [], ad_based_on_timer_ids = [''t''], ad_status = DecisionStatus.ACTIVE,
        ad_actions = [sample_proposal], ad_wake_conditions = [],
        ad_memory_update = empty_MemoryUpdate\<rparr>,
      gw_policy = \<lparr>cap_permissions = [(''look_up'', REQUIRE_APPROVAL)], cap_version = ascii ''1''\<rparr>,
      gw_communication_policy = None, gw_workflow_now = None\<rparr>"

definition sample_ids :: new_ids where
  "sample_ids = \<lparr>ni_revision = 33, ni_policy = 34, ni_approval = 35, ni_thread = 36\<rparr>"

definition process_database :: Database where
  "process_database = empty_database\<lparr>db_tenants := db_tenants sample_database, db_processes := [sample_process]\<rparr>"

lemma sample_action_persists:
  "\<exists>r db'. persist_action (sample_ids, 5) (sample_gateway_command, None, sample_proposal) process_database = Inr (r, db')"
  "references_ok process_database" "\<not> action_stored sample_gateway_command sample_proposal process_database"
  "apd_outcome (evaluate_action (gw_policy sample_gateway_command) sample_proposal) = REQUIRE_APPROVAL"
proof -
  have params: "require_action_parameters (ap_parameters sample_proposal) (ascii ''action parameters'')
      DEFAULT_PLATFORM_SAFETY_LIMITS = Inr ()" by code_simp
  have "fits (json_size (JObj (ap_parameters sample_proposal))) 1000" by code_simp
  then have "\<exists>h. action_payload_hash sample_proposal = Some h"
    unfolding action_payload_hash_def by (rule action_payload_identity_defined)
  then obtain h where h: "action_payload_hash sample_proposal = Some h" by blast
  have rows: "db_action_requests process_database = []" "db_action_revisions process_database = []"
    "db_policy_records process_database = []" "db_approvals process_database = []" "db_review_threads process_database = []"
    by (simp_all add: process_database_def empty_database_def)
  show out: "apd_outcome (evaluate_action (gw_policy sample_gateway_command) sample_proposal) = REQUIRE_APPROVAL"
    by (simp add: evaluate_action_def sample_gateway_command_def sample_proposal_def)
  have fields: "ar_action_type (request_row 5 sample_gateway_command None sample_proposal) = ap_action_type sample_proposal"
    "ar_supersedes_action_request_id (request_row 5 sample_gateway_command None sample_proposal) = None"
    "ar_status (request_row 5 sample_gateway_command None sample_proposal)
       = initial_action_request_status (apd_outcome (evaluate_action (gw_policy sample_gateway_command) sample_proposal))"
    by (simp_all add: request_row_def)
  show "\<exists>r db'. persist_action (sample_ids, 5) (sample_gateway_command, None, sample_proposal) process_database = Inr (r, db')"
    using h params out
    by (simp add: persist_action_def insert_select_def insert_ignore_def rows fields revision_row_def policy_row_def
        persist_approval_def approval_row_def thread_row_def Let_def)
  show "references_ok process_database" by (simp add: references_ok_def rows)
  show "\<not> action_stored sample_gateway_command sample_proposal process_database" by (simp add: action_stored_def rows)
qed

theorem permission_before_execution_witness:
  "\<exists>r db'. persist_action (sample_ids, 5) (sample_gateway_command, None, sample_proposal) process_database = Inr (r, db')
     \<and> pa_outcome r = REQUIRE_APPROVAL \<and> db_approvals db' \<noteq> []"
proof -
  obtain r db' where p: "persist_action (sample_ids, 5) (sample_gateway_command, None, sample_proposal) process_database = Inr (r, db')"
    using sample_action_persists(1) by blast
  from permission_before_execution [OF sample_action_persists(2,3) p refl] show ?thesis
    using p sample_action_persists(4) by force
qed

section \<open>Intake of events\<close>

text \<open>
  (C18) An event enters the system once. Ingesting it records exactly one row for its source
  identity, keeps every unique key, and lets at most one message be caused by it; delivering the
  same source event again, whatever its generated ids, finds that row, returns its correlation
  and changes nothing.
\<close>

theorem event_recorded_once:
  assumes "intake_ok db" "ingest env c db = Inr (r, db')"
    and "event_source_key (nc_event c') = event_source_key (nc_event c)"
    and "ce_event_type (nc_event c') \<notin> set RESERVED_KERNEL_EVENT_TYPES"
    and "require_ingress_tenant (ce_tenant_id (nc_event c')) (nc_deployment_id c') db' = Inr d"
  shows "intake_ok db'
    \<and> (\<exists>!e. e \<in> set (db_events db') \<and> source_key e = event_source_key (nc_event c))
    \<and> (\<forall>e \<in> set (db_events db'). source_key e = event_source_key (nc_event c) \<longrightarrow>
         ei_id e = ig_event_id r \<and> ei_process_instance_id e = ig_process_instance_id r
         \<and> ei_correlation_status e = ig_correlation_status r)
    \<and> (\<exists>m. ingest env' c' db' = Inr (r\<lparr>ig_created := False, ig_outbox_message_id := m\<rparr>, db'))"
proof -
  have ok: "intake_ok db'" by (rule ingest_intake [OF assms(1,2)])
  from assms(2) obtain e where e: "e \<in> set (db_events db')" "source_key e = event_source_key (nc_event c)"
    "ig_event_id r = ei_id e" "ig_correlation_status r = ei_correlation_status e"
    "ig_process_instance_id r = ei_process_instance_id e" by (rule ingest_row)
  have only: "e' = e" if "e' \<in> set (db_events db')" "source_key e' = event_source_key (nc_event c)" for e'
    using that e(1,2) ok by (auto simp: intake_ok_def distinct_map inj_on_def)
  have row: "\<exists>!e. e \<in> set (db_events db') \<and> source_key e = event_source_key (nc_event c)"
    using e(1,2) only by blast
  have same: "\<forall>e \<in> set (db_events db'). source_key e = event_source_key (nc_event c) \<longrightarrow>
      ei_id e = ig_event_id r \<and> ei_process_instance_id e = ig_process_instance_id r
      \<and> ei_correlation_status e = ig_correlation_status r"
    using only e(3-5) by metis
  show ?thesis by (intro conjI ok row same ingest_again [OF assms])
qed

definition sample_event :: CanonicalEvent where
  "sample_event =
     \<lparr>ce_event_id = 20, ce_tenant_id = 1, ce_process_instance_id = None, ce_event_type = ''order.created'',
      ce_source = ascii ''crm'', ce_source_event_id = ascii ''e1'', ce_occurred_at = Aware 3, ce_received_at = Aware 4,
      ce_schema_version = 1, ce_sensitivity = Sensitivity.CONFIDENTIAL,
      ce_external_references = [\<lparr>er_provider = ascii ''crm'', er_resource_type = ascii ''order'', er_external_id = ascii ''7''\<rparr>],
      ce_facts = [], ce_payload = []\<rparr>"

definition sample_bootstrap :: ProcessBootstrap where
  "sample_bootstrap =
     \<lparr>pb_process_type = ''enquiry'', pb_definition_version = ascii ''1'', pb_extension_manifest_hash = ''mh'',
      pb_client_pack_fingerprint = ''cp'', pb_process_definition_fingerprint = ''fp'', pb_deployment_id = ''dep'',
      pb_deployment_release_fingerprint = ''rel'', pb_temporal_task_queue = ''q'', pb_late_event_policy = ''record_only''\<rparr>"

definition sample_ingest_env :: IngestEnv where
  "sample_ingest_env = \<lparr>ng_process_id = 21, ng_correlation_ids = (\<lambda>n. 22), ng_outbox_id = 23, ng_now = 5\<rparr>"

definition sample_ingest :: IngestCommand where
  "sample_ingest = \<lparr>nc_event = sample_event, nc_bootstrap = Some sample_bootstrap, nc_deployment_id = Some ''dep''\<rparr>"

definition tenant_database :: Database where
  "tenant_database = empty_database\<lparr>db_tenants := db_tenants sample_database\<rparr>"

lemmas ingest_sample_defs = sample_event_def sample_bootstrap_def sample_ingest_env_def sample_ingest_def
  tenant_database_def sample_database_def empty_database_def

text \<open>The first event of an empty intake starts the process of its rule.\<close>

lemma first_event_ingested:
  fixes e :: CanonicalEvent
  defines "t \<equiv> ce_tenant_id e"
  assumes db: "db_events db = []" "db_outbox db = []" "db_correlations db = []" "db_processes db = []"
    and tenant: "require_ingress_tenant t d db = Inr dep"
    and e: "ce_process_instance_id e = None" "ce_external_references e = [r]" "ce_event_type e \<notin> set RESERVED_KERNEL_EVENT_TYPES"
  shows "\<exists>res db'. ingest env \<lparr>nc_event = e, nc_bootstrap = Some b, nc_deployment_id = d\<rparr> db = Inr (res, db')
    \<and> ig_created res \<and> ig_process_instance_id res = Some (ng_process_id env)
    \<and> db_processes db' = [new_process (ng_process_id env) (ng_now env) t b]
    \<and> length (db_correlations db') = 1 \<and> db_tenants db' = db_tenants db"
proof -
  let ?i = "ng_process_id env" and ?c = "\<lparr>nc_event = e, nc_bootstrap = Some b, nc_deployment_id = d\<rparr>"
  let ?p = "new_process ?i (ng_now env) t b"
  let ?db1 = "db\<lparr>db_processes := [?p]\<rparr>"
  have unseen: "existing_result e db = Inr None" by (simp add: existing_result_def existing_rows_def db)
  have co: "correlate env ?c db = Inr ((Some ?i, correlation_status.MATCHED, ''process_created_from_trigger''), ?db1)"
    by (simp add: correlate_def resolve_process_def referenced_processes_def create_process_def insert_row_def db e t_def)
  have p: "find_process t ?i ?db1 = Some ?p" "\<not> terminal_status (pi_status ?p)"
    by (simp_all add: find_process_def new_process_def terminal_status_def)
  let ?db2 = "?db1\<lparr>db_correlations := [correlation_row (ng_correlation_ids env 0) t ?i r]\<rparr>"
  have "persist_references (ng_correlation_ids env) t ?i [r] ?db1 = Inr ?db2"
    by (simp add: persist_references_def unique_references_def reference_owner_def insert_row_def db)
  then have bm: "bind_matched env e (Some ?i, correlation_status.MATCHED, ''process_created_from_trigger'') ?db1
      = Inr ((True, ''process_created_from_trigger''), ?db2)"
    using p by (simp add: bind_matched_def e flip: t_def)
  let ?db3 = "?db2\<lparr>db_events := [inbox_row e (Some ?i) correlation_status.MATCHED ''process_created_from_trigger'']\<rparr>"
  have "find_process t ?i ?db3 = Some ?p" using p(1) by (simp add: find_process_def)
  then obtain m where "deliver_matched env e (Some ?i) correlation_status.MATCHED True ?db3
      = Inr (Some (ng_outbox_id env), ?db3\<lparr>db_outbox := [m]\<rparr>)"
    by (simp add: deliver_matched_def schedule_delivery_def insert_ignore_def db flip: t_def)
  then have "ingest env ?c db =
      Inr (\<lparr>ig_event_id = ce_event_id e, ig_created = True, ig_correlation_status = correlation_status.MATCHED,
            ig_correlation_reason = Some ''process_created_from_trigger'', ig_process_instance_id = Some ?i,
            ig_outbox_message_id = Some (ng_outbox_id env)\<rparr>, ?db3\<lparr>db_outbox := [m]\<rparr>)"
    using tenant unseen co bm by (simp add: ingest_def insert_ignore_def db e flip: t_def)
  then show ?thesis by (intro exI conjI) (assumption | simp)+
qed

lemma sample_ingested:
  obtains r db' where "ingest sample_ingest_env sample_ingest tenant_database = Inr (r, db')"
    "ig_process_instance_id r = Some 21" "ig_created r"
    "require_ingress_tenant (ce_tenant_id sample_event) (Some ''dep'') db' = Inr ''dep''"
    "length (db_correlations db') = 1"
proof -
  have tenants: "db_tenants tenant_database = db_tenants sample_database" by (simp add: tenant_database_def)
  have assigned: "require_ingress_tenant (ce_tenant_id sample_event) (Some ''dep'') db = Inr ''dep''"
    if "db_tenants db = db_tenants tenant_database" for db
    by (simp add: require_ingress_tenant_def find_tenant_def that tenants sample_database_def sample_event_def)
  have empty: "db_events tenant_database = []" "db_outbox tenant_database = []" "db_correlations tenant_database = []"
    "db_processes tenant_database = []" by (simp_all add: tenant_database_def empty_database_def)
  have e: "ce_process_instance_id sample_event = None" "ce_event_type sample_event \<notin> set RESERVED_KERNEL_EVENT_TYPES"
    and refs: "ce_external_references sample_event = [\<lparr>er_provider = ascii ''crm'', er_resource_type = ascii ''order'', er_external_id = ascii ''7''\<rparr>]"
    by (simp_all add: sample_event_def RESERVED_KERNEL_EVENT_TYPES_def)
  obtain r db' where "ingest sample_ingest_env \<lparr>nc_event = sample_event, nc_bootstrap = Some sample_bootstrap, nc_deployment_id = Some ''dep''\<rparr>
      tenant_database = Inr (r, db')" "ig_created r" "ig_process_instance_id r = Some (ng_process_id sample_ingest_env)"
    "length (db_correlations db') = 1" "db_tenants db' = db_tenants tenant_database"
    using first_event_ingested [OF empty assigned [OF refl] e(1) refs e(2), of sample_ingest_env sample_bootstrap] by blast
  then show ?thesis using assigned [of db'] by (intro that [of r db']) (simp_all add: sample_ingest_def sample_ingest_env_def)
qed

theorem event_recorded_once_witness:
  "\<exists>r db'. ingest sample_ingest_env sample_ingest tenant_database = Inr (r, db') \<and> ig_created r
     \<and> (\<exists>r'. ingest sample_ingest_env (sample_ingest\<lparr>nc_event := sample_event\<lparr>ce_event_id := 99\<rparr>\<rparr>) db' = Inr (r', db')
             \<and> ig_event_id r' = ig_event_id r)"
proof -
  obtain r db' where i: "ingest sample_ingest_env sample_ingest tenant_database = Inr (r, db')" and created: "ig_created r"
    and tenant: "require_ingress_tenant (ce_tenant_id sample_event) (Some ''dep'') db' = Inr ''dep''"
    by (rule sample_ingested)
  let ?c = "sample_ingest\<lparr>nc_event := sample_event\<lparr>ce_event_id := 99\<rparr>\<rparr>"
  have ok: "intake_ok tenant_database"
    by (simp add: intake_ok_def tenant_database_def empty_database_def)
  have key: "event_source_key (nc_event ?c) = event_source_key (nc_event sample_ingest)"
    by (simp add: event_source_key_def sample_ingest_def)
  have type: "ce_event_type (nc_event ?c) \<notin> set RESERVED_KERNEL_EVENT_TYPES"
    by (simp add: sample_event_def RESERVED_KERNEL_EVENT_TYPES_def)
  have dep: "require_ingress_tenant (ce_tenant_id (nc_event ?c)) (nc_deployment_id ?c) db' = Inr ''dep''"
    using tenant by (simp add: sample_ingest_def)
  from event_recorded_once [OF ok i key type dep, of sample_ingest_env] obtain m where
    "ingest sample_ingest_env ?c db' = Inr (r\<lparr>ig_created := False, ig_outbox_message_id := m\<rparr>, db')" by blast
  then show ?thesis using i created by (intro exI conjI) (assumption | simp)+
qed

text \<open>One committed change of the correlations: an intake or the resolution of a quarantined event.\<close>

inductive intake_tx :: "Database \<Rightarrow> Database \<Rightarrow> bool" where
  tx_ingest: "ingest env c db = Inr (r, db') \<Longrightarrow> intake_tx db db'"
| tx_resolve: "resolve_quarantine st su deployment env q db = Inr (stored, db') \<Longrightarrow> intake_tx db db'"

lemma ingest_correlations:
  assumes "ingest env c db = Inr (r, db')"
  shows "\<exists>new. db_correlations db' = db_correlations db @ new"
    "correlations_unique (db_correlations db) \<Longrightarrow> correlations_unique (db_correlations db')"
proof -
  show "\<exists>new. db_correlations db' = db_correlations db @ new"
    using assms by (cases rule: ingest_cases) auto
  show "correlations_unique (db_correlations db')" if "correlations_unique (db_correlations db)"
    using assms that by (cases rule: ingest_cases) auto
qed

lemma intake_tx_correlations:
  assumes "intake_tx db db'"
  shows "(\<exists>new. db_correlations db' = db_correlations db @ new)
    \<and> (correlations_unique (db_correlations db) \<longrightarrow> correlations_unique (db_correlations db'))"
  using assms
proof cases
  case (tx_ingest env c r)
  then show ?thesis using ingest_correlations by blast
next
  case (tx_resolve st su deployment env q stored)
  then show ?thesis using resolve_quarantine_correlations by blast
qed

text \<open>
  (C24) An external reference belongs to one process for ever: through any sequence of intakes and
  operator resolutions, a reference that is bound to a process stays bound to that process, and
  no reference is bound twice.
\<close>

theorem reference_ownership_permanent:
  assumes "intake_tx\<^sup>*\<^sup>* db db'" "correlations_unique (db_correlations db)"
  shows "correlations_unique (db_correlations db')
    \<and> (\<forall>tenant ref owner. reference_owner tenant ref (db_correlations db) = Some owner
         \<longrightarrow> reference_owner tenant ref (db_correlations db') = Some owner)"
  using assms(1)
proof (induction rule: rtranclp_induct)
  case (step y z)
  from intake_tx_correlations [OF step(2)] obtain new where "db_correlations z = db_correlations y @ new"
    "correlations_unique (db_correlations y) \<longrightarrow> correlations_unique (db_correlations z)" by blast
  moreover have "reference_owner tenant ref (db_correlations z) = Some owner"
    if "reference_owner tenant ref (db_correlations y) = Some owner" for tenant ref owner
    using that calculation(1) by (auto simp: reference_owner_def find_append)
  ultimately show ?case using step(3) by blast
qed (use assms(2) in simp)

theorem reference_ownership_permanent_witness:
  "\<exists>db'. intake_tx\<^sup>*\<^sup>* tenant_database db' \<and> length (db_correlations db') = 1 \<and> correlations_unique (db_correlations db')"
proof -
  obtain r db' where i: "ingest sample_ingest_env sample_ingest tenant_database = Inr (r, db')"
    and one: "length (db_correlations db') = 1" by (rule sample_ingested)
  have tx: "intake_tx\<^sup>*\<^sup>* tenant_database db'" using tx_ingest [OF i] by blast
  have "correlations_unique (db_correlations tenant_database)"
    by (simp add: correlations_unique_def tenant_database_def empty_database_def)
  from reference_ownership_permanent [OF tx this] show ?thesis using tx one by blast
qed

section \<open>Redelivered commands\<close>



section \<open>Recorded outcomes\<close>

text \<open>
  (C23) A recorded outcome is final: neither an execution nor a reconciliation, whatever the
  provider answers and whatever other writers that respect outcomes do in between, nor the resolution of an unknown
  outcome by an operator changes an attempt that succeeded, failed or conflicted.
\<close>

theorem settled_outcomes_kept:
  assumes "\<And>db. keeps_settled db (xe_gap1 env db)" "\<And>db. keeps_settled db (xe_gap2 env db)" "attempts_ok db"
    and "find_attempt tenant key db = Some a" "settled_attempt (aa_status a)"
  shows "find_attempt tenant key (xo_db (execute x env t db)) = Some a
    \<and> find_attempt tenant key (xo_db (reconcile x env t db)) = Some a
    \<and> (\<forall>e c r db'. resolve_unknown e c db = Inr (r, db') \<longrightarrow> find_attempt tenant key db' = Some a)"
  using keeps_settled_execute [OF assms(1,2)] keeps_settled_reconcile [OF assms(1)]
    resolve_unknown_settled [OF assms(3)] assms(4,5)
  unfolding keeps_settled_def by blast

definition settled_database :: Database where
  "settled_database = sample_database\<lparr>db_attempts := [(new_attempt sample_environment sample_target (ascii ''k'')
     \<lparr>al_id = ascii ''crm'', al_guarantees_idempotency = False\<rparr>)\<lparr>aa_status := ActionAttemptStatus.SUCCEEDED\<rparr>]\<rparr>"

theorem settled_outcomes_kept_witness:
  "\<exists>a. find_attempt 1 (ascii ''k'') (xo_db (execute sample_executor sample_environment sample_target settled_database)) = Some a
     \<and> aa_status a = ActionAttemptStatus.SUCCEEDED"
proof -
  have gaps: "keeps_settled db (xe_gap1 sample_environment db)" "keeps_settled db (xe_gap2 sample_environment db)" for db
    by (simp_all add: sample_environment_def)
  have ok: "attempts_ok settled_database" by (simp add: attempts_ok_def settled_database_def)
  obtain a where "find_attempt 1 (ascii ''k'') settled_database = Some a" "aa_status a = ActionAttemptStatus.SUCCEEDED"
    by (simp add: find_attempt_def attempt_key_def settled_database_def new_attempt_def sample_target_def)
  then show ?thesis
    using settled_outcomes_kept [OF gaps ok, of 1 "ascii ''k''" a sample_executor sample_target]
    by (simp add: settled_attempt_def)
qed

end
