(* ===== verification/Agent_Context.thy ===== *)
theory Agent_Context
  imports Execution Process_State
begin

text \<open>
  \<open>agents/context.py\<close>: the input of one agent turn is assembled from stored rows only. The ids of
  the command select the matched events, the review commands and the action attempts of the
  process; everything is bounded, each list by a count, each text by its bytes, and the whole
  input by the bytes of its JSON form. The text of the instructions, which
  \<open>compile_instructions\<close> writes from the definition, is an argument.
\<close>

section \<open>The input of a turn\<close>

record ReviewTurnContext =
  rx_command_id :: uuid
  rx_command_type :: ReviewCommandType
  rx_review_thread_id :: uuid
  rx_action_request_id :: uuid
  rx_proposal_revision :: int
  rx_actor_id :: uuid
  rx_message :: "unicode option"
  rx_action_type :: string
  rx_proposal_parameters :: jobject
  rx_proposal_payload_hash :: unicode
  rx_proposal_rationale :: unicode

record ActionResultContext =
  rs_attempt_id :: uuid
  rs_action_request_id :: uuid
  rs_revision :: int
  rs_action_type :: string
  rs_parameters :: jobject
  rs_status :: ActionAttemptStatus
  rs_adapter_id :: unicode
  rs_idempotency_key :: unicode
  rs_provider_reference :: "unicode option"
  rs_result :: "jobject option"
  rs_facts :: "FactObservation list"
  rs_error :: "unicode option"
  rs_conflict :: "ActionConflict option"
  rs_operator_resolution_id :: "uuid option"
  rs_operator_actor_id :: "uuid option"
  rs_operator_evidence :: "unicode option"

record AgentTurnInput =
  ti_turn_id :: uuid
  ti_workflow_now :: "datetime option"
  ti_process :: ProcessSnapshot
  ti_events :: "CanonicalEvent list"
  ti_reviews :: "ReviewTurnContext list"
  ti_action_results :: "ActionResultContext list"
  ti_timer_ids :: "string list"
  ti_instructions :: unicode

datatype context_error =
    LoaderBoundNotPositive string
  | LoaderBoundAbovePlatform string
  | NoWakeSource
  | TooManyTurnEvents
  | DuplicateTurnEvents
  | TooManyTurnReviews
  | DuplicateTurnReviews
  | TooManyTurnResults
  | DuplicateTurnResults
  | TooManyTurnTimers
  | BadTurnTimers
  | ContextProcessNotFound
  | DefinitionIdentityMismatch
  | ContextIncompatible compatibility_error
  | TurnEventsUnavailable
  | TurnDocumentInvalid contract_error
  | TurnReviewsUnavailable
  | TurnAttemptsUnavailable
  | TurnContentTooLarge value_error
  | TurnProjectionRejected value_error
  | TurnContextRejected value_error

section \<open>The JSON form\<close>

definition json_option :: "('a \<Rightarrow> json) \<Rightarrow> 'a option \<Rightarrow> json" where
  "json_option f x = (case x of None \<Rightarrow> JNull | Some v \<Rightarrow> f v)"

fun interaction_value :: "Interaction \<Rightarrow> string" where
  "interaction_value Interaction.APPROVAL = ''approval''"
| "interaction_value Interaction.REVIEW = ''review''"
| "interaction_value Interaction.OPERATOR = ''operator''"

fun dump_WakeCondition :: "(datetime \<Rightarrow> unicode) \<Rightarrow> WakeCondition \<Rightarrow> json" where
  "dump_WakeCondition show_time (EventWakeCondition t) =
     JObj [(ascii ''type'', JStr (ascii ''event'')), (ascii ''event_type'', JStr (ascii t))]"
| "dump_WakeCondition show_time (TimerWakeCondition at) =
     JObj [(ascii ''type'', JStr (ascii ''timer'')), (ascii ''at'', JStr (show_time (Aware at)))]"
| "dump_WakeCondition show_time (HumanWakeCondition i) =
     JObj [(ascii ''type'', JStr (ascii ''human'')), (ascii ''interaction'', JStr (ascii (interaction_value i)))]"

fun process_status_value :: "ProcessStatus \<Rightarrow> string" where
  "process_status_value ProcessStatus.ACTIVE = ''active''"
| "process_status_value ProcessStatus.WAITING = ''waiting''"
| "process_status_value ProcessStatus.REVIEW = ''review''"
| "process_status_value ProcessStatus.PAUSED = ''paused''"
| "process_status_value ProcessStatus.COMPLETED = ''completed''"
| "process_status_value ProcessStatus.CANCELLED = ''cancelled''"
| "process_status_value ProcessStatus.FAILED = ''failed''"

fun attempt_status_value :: "ActionAttemptStatus \<Rightarrow> string" where
  "attempt_status_value ActionAttemptStatus.EXECUTING = ''executing''"
| "attempt_status_value ActionAttemptStatus.SUCCEEDED = ''succeeded''"
| "attempt_status_value ActionAttemptStatus.FAILED = ''failed''"
| "attempt_status_value ActionAttemptStatus.CONFLICT = ''conflict''"
| "attempt_status_value ActionAttemptStatus.UNKNOWN = ''unknown''"
| "attempt_status_value ActionAttemptStatus.RECONCILING = ''reconciling''"

definition dump_ProcessSnapshot ::
  "(datetime \<Rightarrow> unicode) \<Rightarrow> (uuid \<Rightarrow> unicode) \<Rightarrow> ProcessSnapshot \<Rightarrow> json" where
  "dump_ProcessSnapshot show_time show_uuid p =
     JObj [(ascii ''tenant_id'', JStr (show_uuid (ps_tenant_id p))),
           (ascii ''process_instance_id'', JStr (show_uuid (ps_process_instance_id p))),
           (ascii ''process_type'', JStr (ps_process_type p)),
           (ascii ''process_definition_version'', JStr (ps_process_definition_version p)),
           (ascii ''status'', JStr (ascii (process_status_value (ps_status p)))),
           (ascii ''authoritative_facts'', JObj (ps_authoritative_facts p)),
           (ascii ''customer_claims'', JObj (ps_customer_claims p)),
           (ascii ''fact_provenance'', JObj (ps_fact_provenance p)),
           (ascii ''memory_summary'', json_option JStr (ps_memory_summary p)),
           (ascii ''memory_summary_source_event_ids'',
             JArr (map (\<lambda>u. JStr (show_uuid u)) (ps_memory_summary_source_event_ids p))),
           (ascii ''memory_summary_source_review_command_ids'',
             JArr (map (\<lambda>u. JStr (show_uuid u)) (ps_memory_summary_source_review_command_ids p))),
           (ascii ''memory_summary_source_action_attempt_ids'',
             JArr (map (\<lambda>u. JStr (show_uuid u)) (ps_memory_summary_source_action_attempt_ids p))),
           (ascii ''memory_summary_source_timer_ids'',
             JArr (map (\<lambda>t. JStr (ascii t)) (ps_memory_summary_source_timer_ids p))),
           (ascii ''open_commitments'', JArr (map JStr (ps_open_commitments p))),
           (ascii ''current_wake_conditions'',
             JArr (map (dump_WakeCondition show_time) (ps_current_wake_conditions p))),
           (ascii ''state_version'', JInt (ps_state_version p))]"

definition dump_ReviewTurnContext :: "(uuid \<Rightarrow> unicode) \<Rightarrow> ReviewTurnContext \<Rightarrow> json" where
  "dump_ReviewTurnContext show_uuid r =
     JObj [(ascii ''command_id'', JStr (show_uuid (rx_command_id r))),
           (ascii ''command_type'', JStr (ascii (review_command_value (rx_command_type r)))),
           (ascii ''review_thread_id'', JStr (show_uuid (rx_review_thread_id r))),
           (ascii ''action_request_id'', JStr (show_uuid (rx_action_request_id r))),
           (ascii ''proposal_revision'', JInt (rx_proposal_revision r)),
           (ascii ''actor_id'', JStr (show_uuid (rx_actor_id r))),
           (ascii ''message'', json_option JStr (rx_message r)),
           (ascii ''action_type'', JStr (ascii (rx_action_type r))),
           (ascii ''proposal_parameters'', JObj (rx_proposal_parameters r)),
           (ascii ''proposal_payload_hash'', JStr (rx_proposal_payload_hash r)),
           (ascii ''proposal_rationale'', JStr (rx_proposal_rationale r))]"

definition dump_ActionResultContext :: "(uuid \<Rightarrow> unicode) \<Rightarrow> ActionResultContext \<Rightarrow> json" where
  "dump_ActionResultContext show_uuid r =
     JObj [(ascii ''attempt_id'', JStr (show_uuid (rs_attempt_id r))),
           (ascii ''action_request_id'', JStr (show_uuid (rs_action_request_id r))),
           (ascii ''revision'', JInt (rs_revision r)),
           (ascii ''action_type'', JStr (ascii (rs_action_type r))),
           (ascii ''parameters'', JObj (rs_parameters r)),
           (ascii ''status'', JStr (ascii (attempt_status_value (rs_status r)))),
           (ascii ''adapter_id'', JStr (rs_adapter_id r)),
           (ascii ''idempotency_key'', JStr (rs_idempotency_key r)),
           (ascii ''provider_reference'', json_option JStr (rs_provider_reference r)),
           (ascii ''result'', json_option JObj (rs_result r)),
           (ascii ''facts'', JArr (map dump_FactObservation (rs_facts r))),
           (ascii ''error'', json_option JStr (rs_error r)),
           (ascii ''conflict'', json_option dump_ActionConflict (rs_conflict r)),
           (ascii ''operator_resolution_id'', json_option (\<lambda>u. JStr (show_uuid u)) (rs_operator_resolution_id r)),
           (ascii ''operator_actor_id'', json_option (\<lambda>u. JStr (show_uuid u)) (rs_operator_actor_id r)),
           (ascii ''operator_evidence'', json_option JStr (rs_operator_evidence r))]"

definition dump_AgentTurnInput ::
  "(datetime \<Rightarrow> unicode) \<Rightarrow> (uuid \<Rightarrow> unicode) \<Rightarrow> AgentTurnInput \<Rightarrow> json" where
  "dump_AgentTurnInput show_time show_uuid t =
     JObj [(ascii ''turn_id'', JStr (show_uuid (ti_turn_id t))),
           (ascii ''workflow_now'', json_option (\<lambda>d. JStr (show_time d)) (ti_workflow_now t)),
           (ascii ''process'', dump_ProcessSnapshot show_time show_uuid (ti_process t)),
           (ascii ''events'', JArr (map (dump_CanonicalEvent show_time show_uuid) (ti_events t))),
           (ascii ''reviews'', JArr (map (dump_ReviewTurnContext show_uuid) (ti_reviews t))),
           (ascii ''action_results'', JArr (map (dump_ActionResultContext show_uuid) (ti_action_results t))),
           (ascii ''timer_ids'', JArr (map (\<lambda>i. JStr (ascii i)) (ti_timer_ids t))),
           (ascii ''instructions'', JStr (ti_instructions t))]"

section \<open>The loader\<close>

record ContextLoader =
  cl_max_events_per_turn :: int
  cl_max_reviews_per_turn :: int
  cl_max_action_results_per_turn :: int
  cl_max_timers_per_turn :: int
  cl_max_agent_context_bytes :: int
  cl_limits :: PlatformSafetyLimits

definition loader_bound :: "string \<Rightarrow> int option \<Rightarrow> int \<Rightarrow> context_error + int" where
  "loader_bound name chosen platform =
     (let bound = (case chosen of None \<Rightarrow> platform | Some v \<Rightarrow> v) in
      if bound < 1 then Inl (LoaderBoundNotPositive name)
      else if platform < bound then Inl (LoaderBoundAbovePlatform name)
      else Inr bound)"

definition make_ContextLoader ::
  "PlatformSafetyLimits \<Rightarrow> int option \<Rightarrow> int option \<Rightarrow> int option \<Rightarrow> int option \<Rightarrow> int option
     \<Rightarrow> context_error + ContextLoader" where
  "make_ContextLoader limits events reviews results timers context_bytes =
     bind_result (loader_bound ''max_events_per_turn'' events (max_events_per_turn limits)) (\<lambda>e.
     bind_result (loader_bound ''max_reviews_per_turn'' reviews (max_reviews_per_turn limits)) (\<lambda>r.
     bind_result (loader_bound ''max_action_results_per_turn'' results (max_action_results_per_turn limits)) (\<lambda>a.
     bind_result (loader_bound ''max_timers_per_turn'' timers (max_timers_per_turn limits)) (\<lambda>t.
     bind_result (loader_bound ''max_agent_context_bytes'' context_bytes (max_agent_context_bytes limits)) (\<lambda>b.
     Inr \<lparr>cl_max_events_per_turn = e, cl_max_reviews_per_turn = r, cl_max_action_results_per_turn = a,
           cl_max_timers_per_turn = t, cl_max_agent_context_bytes = b, cl_limits = limits\<rparr>)))))"

text \<open>The keyword arguments of \<open>load\<close>.\<close>

record LoadCommand =
  lc_tenant_id :: uuid
  lc_process_instance_id :: uuid
  lc_turn_id :: uuid
  lc_workflow_now :: "datetime option"
  lc_event_ids :: "uuid list"
  lc_review_command_ids :: "uuid list"
  lc_action_attempt_ids :: "uuid list"
  lc_timer_ids :: "string list"
  lc_definition :: ProcessDefinition
  lc_compatibility :: DeploymentCompatibility
  lc_deployment_release :: DeploymentRelease

definition check_turn_ids :: "ContextLoader \<Rightarrow> LoadCommand \<Rightarrow> context_error + unit" where
  "check_turn_ids l c =
     bind_result (require (\<not> (lc_event_ids c = [] \<and> lc_review_command_ids c = [] \<and> lc_action_attempt_ids c = []
         \<and> lc_timer_ids c = [])) NoWakeSource) (\<lambda>_.
     bind_result (require (int (length (lc_event_ids c)) \<le> cl_max_events_per_turn l) TooManyTurnEvents) (\<lambda>_.
     bind_result (require (distinct (lc_event_ids c)) DuplicateTurnEvents) (\<lambda>_.
     bind_result (require (int (length (lc_review_command_ids c)) \<le> cl_max_reviews_per_turn l) TooManyTurnReviews) (\<lambda>_.
     bind_result (require (distinct (lc_review_command_ids c)) DuplicateTurnReviews) (\<lambda>_.
     bind_result (require (int (length (lc_action_attempt_ids c)) \<le> cl_max_action_results_per_turn l)
       TooManyTurnResults) (\<lambda>_.
     bind_result (require (distinct (lc_action_attempt_ids c)) DuplicateTurnResults) (\<lambda>_.
     bind_result (require (int (length (lc_timer_ids c)) \<le> cl_max_timers_per_turn l) TooManyTurnTimers) (\<lambda>_.
     require (\<not> list_ex (\<lambda>t. strip (ascii t) = []) (lc_timer_ids c) \<and> distinct (lc_timer_ids c)) BadTurnTimers))))))))"

text \<open>
  The rows of a query in the order of the ids of the command, from the dictionary the code makes
  of them; none when a row is missing.
\<close>

definition rows_in_order :: "(uuid \<times> 'r) list \<Rightarrow> uuid list \<Rightarrow> 'r list option" where
  "rows_in_order rows ids =
     (if set (map fst rows) \<noteq> set ids then None else Some (List.map_filter (map_of (rev rows)) ids))"

definition turn_event_rows :: "LoadCommand \<Rightarrow> Database \<Rightarrow> (uuid \<times> EventInbox) list" where
  "turn_event_rows c db =
     map (\<lambda>e. (ei_id e, e)) (filter (\<lambda>e. ei_tenant_id e = lc_tenant_id c \<and> ei_id e \<in> set (lc_event_ids c)
       \<and> ei_process_instance_id e = Some (lc_process_instance_id c)
       \<and> ei_correlation_status e = correlation_status.MATCHED) (db_events db))"

text \<open>The joins of a review command with its thread, approval, request and revision.\<close>

definition turn_review_rows :: "LoadCommand \<Rightarrow> Database \<Rightarrow> (uuid \<times> ReviewTurnContext) list" where
  "turn_review_rows c db =
     [(rm_id m,
       \<lparr>rx_command_id = rm_id m, rx_command_type = rm_message_type m, rx_review_thread_id = rt_id th,
        rx_action_request_id = ar_id r, rx_proposal_revision = av_revision v, rx_actor_id = rm_actor_id m,
        rx_message = rm_content m, rx_action_type = ar_action_type r, rx_proposal_parameters = av_parameters v,
        rx_proposal_payload_hash = av_payload_hash v, rx_proposal_rationale = av_rationale v\<rparr>).
      m \<leftarrow> db_review_messages db, rm_tenant_id m = lc_tenant_id c \<and> rm_id m \<in> set (lc_review_command_ids c)
        \<and> rm_process_instance_id m = lc_process_instance_id c,
      th \<leftarrow> db_review_threads db, rt_tenant_id th = lc_tenant_id c \<and> rt_id th = rm_review_thread_id m,
      a \<leftarrow> db_approvals db, aq_tenant_id a = lc_tenant_id c \<and> aq_id a = rt_approval_request_id th,
      r \<leftarrow> db_action_requests db, ar_tenant_id r = lc_tenant_id c \<and> ar_id r = aq_action_request_id a,
      v \<leftarrow> db_action_revisions db, av_tenant_id v = lc_tenant_id c
        \<and> av_action_request_id v = aq_action_request_id a \<and> av_revision v = aq_revision a]"

definition outer_join :: "'a list \<Rightarrow> 'a option list" where
  "outer_join rows = (if rows = [] then [None] else map Some rows)"

definition turn_action_rows :: "LoadCommand \<Rightarrow> Database \<Rightarrow> (uuid \<times> ActionResultContext) list" where
  "turn_action_rows c db =
     [(aa_id a,
       \<lparr>rs_attempt_id = aa_id a, rs_action_request_id = ar_id r, rs_revision = aa_revision a,
        rs_action_type = ar_action_type r, rs_parameters = av_parameters v, rs_status = aa_status a,
        rs_adapter_id = aa_adapter_id a, rs_idempotency_key = aa_idempotency_key a,
        rs_provider_reference = aa_provider_reference a, rs_result = aa_result a, rs_facts = aa_facts a,
        rs_error = aa_error a, rs_conflict = aa_conflict a, rs_operator_resolution_id = map_option rd_id d,
        rs_operator_actor_id = map_option rd_actor_id d, rs_operator_evidence = map_option rd_evidence d\<rparr>).
      a \<leftarrow> db_attempts db, aa_tenant_id a = lc_tenant_id c \<and> aa_id a \<in> set (lc_action_attempt_ids c)
        \<and> aa_process_instance_id a = lc_process_instance_id c,
      r \<leftarrow> db_action_requests db, ar_tenant_id r = lc_tenant_id c \<and> ar_id r = aa_action_request_id a,
      v \<leftarrow> db_action_revisions db, av_tenant_id v = lc_tenant_id c
        \<and> av_action_request_id v = aa_action_request_id a \<and> av_revision v = aa_revision a,
      d \<leftarrow> outer_join (filter (\<lambda>d. rd_action_attempt_id d = aa_id a \<and> rd_tenant_id d = aa_tenant_id a
        \<and> rd_process_instance_id d = aa_process_instance_id a) (db_reconciliations db))]"

text \<open>The validation that building each part runs.\<close>

definition valid_document :: "contract_error + 'a \<Rightarrow> context_error + unit" where
  "valid_document answer = (case answer of Inl e \<Rightarrow> Inl (TurnDocumentInvalid e) | Inr _ \<Rightarrow> Inr ())"

definition valid_field :: "bool \<Rightarrow> string \<Rightarrow> context_error + unit" where
  "valid_field ok name = require ok (TurnDocumentInvalid (InvalidField name))"

definition check_review_context :: "ReviewTurnContext \<Rightarrow> context_error + unit" where
  "check_review_context r = valid_field (1 \<le> rx_proposal_revision r) ''proposal_revision''"

definition check_result_context :: "ActionResultContext \<Rightarrow> context_error + unit" where
  "check_result_context r =
     bind_result (check_all (\<lambda>f. valid_document (check_FactObservation f)) (rs_facts r)) (\<lambda>_.
     bind_result (case rs_conflict r of None \<Rightarrow> Inr () | Some k \<Rightarrow> valid_document (check_ActionConflict k)) (\<lambda>_.
     bind_result (valid_field (1 \<le> rs_revision r) ''revision'') (\<lambda>_.
     bind_result (valid_field (is_identifier (rs_action_type r)) ''action_type'') (\<lambda>_.
     bind_result (valid_field (between_lengths 1 150 (rs_adapter_id r)) ''adapter_id'') (\<lambda>_.
     valid_field (length (rs_idempotency_key r) = 64) ''idempotency_key'')))))"

definition check_turn_content ::
  "PlatformSafetyLimits \<Rightarrow> ProcessInstance \<Rightarrow> ReviewTurnContext list \<Rightarrow> ActionResultContext list
     \<Rightarrow> value_error + unit" where
  "check_turn_content limits p reviews results =
     bind_result (require_memory_content (pi_memory_summary p) (pi_open_commitments p) limits) (\<lambda>_.
     bind_result (check_all (\<lambda>r.
         bind_result (case rx_message r of None \<Rightarrow> Inr 0
           | Some m \<Rightarrow> require_utf8_bytes m (ascii ''review message'') (max_review_message_bytes limits)) (\<lambda>_.
         require_action_parameters (rx_proposal_parameters r) (ascii ''review proposal parameters'') limits)) reviews) (\<lambda>_.
     check_all (\<lambda>r. require_action_parameters (rs_parameters r) (ascii ''action result parameters'') limits) results))"

text \<open>\<open>_require_safe_fact_projection\<close>, whose loop is that of \<open>apply_fact_observations\<close>.\<close>

definition turn_projection ::
  "ProcessInstance \<Rightarrow> CanonicalEvent list \<Rightarrow> ActionResultContext list \<Rightarrow> FactProjection" where
  "turn_projection p events results =
     fold (\<lambda>r. apply_fact_observations (rs_facts r) (ascii ''action_attempt'') (rs_attempt_id r)) results
       (fold (\<lambda>e. apply_fact_observations (ce_facts e) (ascii ''event'') (ce_event_id e)) events
          \<lparr>fp_authoritative = pi_authoritative_facts p, fp_claims = pi_customer_claims p,
           fp_provenance = pi_fact_provenance p\<rparr>)"

definition require_safe_fact_projection ::
  "PlatformSafetyLimits \<Rightarrow> ProcessInstance \<Rightarrow> CanonicalEvent list \<Rightarrow> ActionResultContext list \<Rightarrow> value_error + unit" where
  "require_safe_fact_projection limits p events results =
     (let fp = turn_projection p events results in
      require_process_fact_projection (fp_authoritative fp) (fp_claims fp) (fp_provenance fp) limits)"

definition process_snapshot :: "LoadCommand \<Rightarrow> ProcessInstance \<Rightarrow> ProcessSnapshot" where
  "process_snapshot c p =
     \<lparr>ps_tenant_id = lc_tenant_id c, ps_process_instance_id = lc_process_instance_id c,
      ps_process_type = ascii (pi_process_type p), ps_process_definition_version = pi_definition_version p,
      ps_status = pi_status p, ps_authoritative_facts = pi_authoritative_facts p,
      ps_customer_claims = pi_customer_claims p, ps_fact_provenance = pi_fact_provenance p,
      ps_memory_summary = pi_memory_summary p,
      ps_memory_summary_source_event_ids = pi_memory_summary_source_event_ids p,
      ps_memory_summary_source_review_command_ids = pi_memory_summary_source_review_command_ids p,
      ps_memory_summary_source_action_attempt_ids = pi_memory_summary_source_action_attempt_ids p,
      ps_memory_summary_source_timer_ids = pi_memory_summary_source_timer_ids p,
      ps_open_commitments = pi_open_commitments p,
      ps_current_wake_conditions = pi_current_wake_conditions p, ps_state_version = pi_state_version p\<rparr>"

definition check_turn_input :: "AgentTurnInput \<Rightarrow> context_error + unit" where
  "check_turn_input t =
     bind_result (valid_field (between_lengths 1 100 (ps_process_type (ti_process t))) ''process_type'') (\<lambda>_.
     bind_result (valid_field (between_lengths 1 100 (ps_process_definition_version (ti_process t)))
       ''process_definition_version'') (\<lambda>_.
     bind_result (valid_field (0 \<le> ps_state_version (ti_process t)) ''state_version'') (\<lambda>_.
     bind_result (case ti_workflow_now t of
         Some (Naive _) \<Rightarrow> Inl (TurnDocumentInvalid (NaiveTimestamp ''workflow_now'')) | _ \<Rightarrow> Inr ()) (\<lambda>_.
     valid_field (ti_instructions t \<noteq> []) ''instructions''))))"

text \<open>The rows of the command, in order and validated.\<close>

definition load_turn_events ::
  "(datetime \<Rightarrow> unicode) \<Rightarrow> (uuid \<Rightarrow> unicode) \<Rightarrow> LoadCommand \<Rightarrow> Database \<Rightarrow> context_error + CanonicalEvent list" where
  "load_turn_events show_time show_uuid c db =
     (case rows_in_order (turn_event_rows c db) (lc_event_ids c) of
        None \<Rightarrow> Inl TurnEventsUnavailable
      | Some rows \<Rightarrow>
          bind_result (check_all (\<lambda>e. valid_document (check_CanonicalEvent show_time show_uuid (ei_event_data e))) rows) (\<lambda>_.
          Inr (map (\<lambda>e. (ei_event_data e)\<lparr>ce_process_instance_id := Some (lc_process_instance_id c)\<rparr>) rows)))"

definition load_turn_reviews :: "LoadCommand \<Rightarrow> Database \<Rightarrow> context_error + ReviewTurnContext list" where
  "load_turn_reviews c db =
     (case rows_in_order (turn_review_rows c db) (lc_review_command_ids c) of
        None \<Rightarrow> Inl TurnReviewsUnavailable
      | Some rows \<Rightarrow> bind_result (check_all check_review_context rows) (\<lambda>_. Inr rows))"

definition load_turn_results :: "LoadCommand \<Rightarrow> Database \<Rightarrow> context_error + ActionResultContext list" where
  "load_turn_results c db =
     (case rows_in_order (turn_action_rows c db) (lc_action_attempt_ids c) of
        None \<Rightarrow> Inl TurnAttemptsUnavailable
      | Some rows \<Rightarrow> bind_result (check_all check_result_context rows) (\<lambda>_. Inr rows))"

definition load_process :: "LoadCommand \<Rightarrow> Database \<Rightarrow> context_error + ProcessInstance" where
  "load_process c db =
     (case find_process (lc_tenant_id c) (lc_process_instance_id c) db of
        None \<Rightarrow> Inl ContextProcessNotFound
      | Some p \<Rightarrow>
          if pi_process_type p \<noteq> pd_id (lc_definition c) \<or> pi_definition_version p \<noteq> pd_version (lc_definition c)
          then Inl DefinitionIdentityMismatch
          else (case bind_result (compatible_process (lc_compatibility c) p)
                       (\<lambda>_. release_require_process (lc_deployment_release c) p) of
                  Inl e \<Rightarrow> Inl (ContextIncompatible e) | Inr _ \<Rightarrow> Inr p))"

text \<open>\<open>show_time\<close> and \<open>show_uuid\<close> are the renderings of pydantic, \<open>instructions\<close> the compiled text.\<close>

definition load_context ::
  "(datetime \<Rightarrow> unicode) \<Rightarrow> (uuid \<Rightarrow> unicode) \<Rightarrow> (ProcessDefinition \<Rightarrow> unicode) \<Rightarrow> ContextLoader \<Rightarrow> LoadCommand
     \<Rightarrow> Database \<Rightarrow> context_error + AgentTurnInput" where
  "load_context show_time show_uuid instructions l c db =
     bind_result (check_turn_ids l c) (\<lambda>_.
     bind_result (load_process c db) (\<lambda>p.
     bind_result (load_turn_events show_time show_uuid c db) (\<lambda>events.
     bind_result (load_turn_reviews c db) (\<lambda>reviews.
     bind_result (load_turn_results c db) (\<lambda>results.
     case check_turn_content (cl_limits l) p reviews results of
       Inl e \<Rightarrow> Inl (TurnContentTooLarge e)
     | Inr _ \<Rightarrow>
     (case require_safe_fact_projection (cl_limits l) p events results of
       Inl e \<Rightarrow> Inl (TurnProjectionRejected e)
     | Inr _ \<Rightarrow>
     (let turn = \<lparr>ti_turn_id = lc_turn_id c, ti_workflow_now = lc_workflow_now c, ti_process = process_snapshot c p,
                  ti_events = events, ti_reviews = reviews, ti_action_results = results,
                  ti_timer_ids = lc_timer_ids c, ti_instructions = instructions (lc_definition c)\<rparr>
      in bind_result (check_turn_input turn) (\<lambda>_.
         case require_json_bytes (dump_AgentTurnInput show_time show_uuid turn) (ascii ''agent turn context'')
                (cl_max_agent_context_bytes l) of
           Inl e \<Rightarrow> Inl (TurnContextRejected e)
         | Inr _ \<Rightarrow> Inr turn))))))))"

section \<open>What a loaded context holds\<close>

lemma map_filter_total:
  assumes "\<forall>i \<in> set ids. \<exists>r. f i = Some r \<and> key r = i \<and> P r"
  shows "map key (List.map_filter f ids) = ids \<and> (\<forall>r \<in> set (List.map_filter f ids). P r)"
  using assms by (induction ids) (auto simp: map_filter_simps)

lemma rows_in_order_keys:
  assumes "rows_in_order rows ids = Some rs" "\<forall>(i, r) \<in> set rows. key r = i"
  shows "map key rs = ids" "\<forall>r \<in> set rs. (key r, r) \<in> set rows"
proof -
  have rs: "rs = List.map_filter (map_of (rev rows)) ids" and ids: "set ids = fst ` set rows"
    using assms(1) by (auto simp: rows_in_order_def split: if_splits)
  have "\<forall>i \<in> set ids. \<exists>r. map_of (rev rows) i = Some r \<and> key r = i \<and> (key r, r) \<in> set rows"
  proof
    fix i
    assume "i \<in> set ids"
    then have "i \<in> fst ` set (rev rows)" using ids by simp
    then obtain r where r: "map_of (rev rows) i = Some r" by (metis map_of_eq_None_iff not_None_eq)
    then have "(i, r) \<in> set rows" by (auto dest: map_of_SomeD)
    then show "\<exists>r. map_of (rev rows) i = Some r \<and> key r = i \<and> (key r, r) \<in> set rows"
      using r assms(2) by auto
  qed
  then show "map key rs = ids" "\<forall>r \<in> set rs. (key r, r) \<in> set rows"
    unfolding rs using map_filter_total [of ids "map_of (rev rows)" key "\<lambda>r. (key r, r) \<in> set rows"] by blast+
qed

lemma load_context_parts:
  assumes "load_context st su ins l c db = Inr turn"
  obtains p n where "check_turn_ids l c = Inr ()" "load_process c db = Inr p"
    "load_turn_events st su c db = Inr (ti_events turn)" "load_turn_reviews c db = Inr (ti_reviews turn)"
    "load_turn_results c db = Inr (ti_action_results turn)" "ti_process turn = process_snapshot c p"
    "ti_timer_ids turn = lc_timer_ids c" "ti_workflow_now turn = lc_workflow_now c"
    "ti_turn_id turn = lc_turn_id c" "ti_instructions turn = ins (lc_definition c)"
    "require_json_bytes (dump_AgentTurnInput st su turn) (ascii ''agent turn context'') (cl_max_agent_context_bytes l) = Inr n"
proof -
  obtain p events reviews results where parts: "check_turn_ids l c = Inr ()" "load_process c db = Inr p"
    "load_turn_events st su c db = Inr events" "load_turn_reviews c db = Inr reviews"
    "load_turn_results c db = Inr results"
    using assms by (auto simp: load_context_def)
  let ?turn = "\<lparr>ti_turn_id = lc_turn_id c, ti_workflow_now = lc_workflow_now c, ti_process = process_snapshot c p,
      ti_events = events, ti_reviews = reviews, ti_action_results = results,
      ti_timer_ids = lc_timer_ids c, ti_instructions = ins (lc_definition c)\<rparr>"
  have fin: "turn = ?turn" "\<exists>n. require_json_bytes (dump_AgentTurnInput st su ?turn) (ascii ''agent turn context'')
      (cl_max_agent_context_bytes l) = Inr n"
    using assms parts by (auto simp: load_context_def Let_def split: sum.splits)
  then obtain n where "require_json_bytes (dump_AgentTurnInput st su ?turn) (ascii ''agent turn context'')
      (cl_max_agent_context_bytes l) = Inr n" by blast
  then show ?thesis using parts by (intro that) (simp_all add: fin(1))
qed

lemma load_turn_events_rows:
  assumes "load_turn_events st su c db = Inr events"
  obtains rows where "map ei_id rows = lc_event_ids c"
    "events = map (\<lambda>e. (ei_event_data e)\<lparr>ce_process_instance_id := Some (lc_process_instance_id c)\<rparr>) rows"
    "\<forall>e \<in> set rows. e \<in> set (db_events db) \<and> ei_tenant_id e = lc_tenant_id c
       \<and> ei_process_instance_id e = Some (lc_process_instance_id c)
       \<and> ei_correlation_status e = correlation_status.MATCHED"
proof -
  obtain rows where rows: "rows_in_order (turn_event_rows c db) (lc_event_ids c) = Some rows"
    and events: "events = map (\<lambda>e. (ei_event_data e)\<lparr>ce_process_instance_id := Some (lc_process_instance_id c)\<rparr>) rows"
    using assms by (auto simp: load_turn_events_def split: option.splits)
  have "\<forall>(i, e) \<in> set (turn_event_rows c db). ei_id e = i" by (auto simp: turn_event_rows_def)
  note ordered = rows_in_order_keys [OF rows this]
  show ?thesis by (rule that [OF ordered(1) events]) (use ordered(2) in \<open>auto simp: turn_event_rows_def\<close>)
qed

text \<open>
  What a review in a context may be made of: a command of the process, and the thread, approval, request
  and revision it leads to, each a row of the same tenant.
\<close>

definition review_from_rows :: "uuid \<Rightarrow> uuid \<Rightarrow> Database \<Rightarrow> ReviewTurnContext \<Rightarrow> bool" where
  "review_from_rows tenant process db x \<longleftrightarrow>
     (\<exists>m \<in> set (db_review_messages db). \<exists>th \<in> set (db_review_threads db). \<exists>a \<in> set (db_approvals db).
      \<exists>r \<in> set (db_action_requests db). \<exists>v \<in> set (db_action_revisions db).
        rm_tenant_id m = tenant \<and> rt_tenant_id th = tenant \<and> aq_tenant_id a = tenant \<and> ar_tenant_id r = tenant
        \<and> av_tenant_id v = tenant \<and> rm_process_instance_id m = process
        \<and> rm_review_thread_id m = rt_id th \<and> rt_approval_request_id th = aq_id a \<and> aq_action_request_id a = ar_id r
        \<and> av_action_request_id v = ar_id r \<and> av_revision v = aq_revision a
        \<and> rx_command_id x = rm_id m \<and> rx_command_type x = rm_message_type m \<and> rx_actor_id x = rm_actor_id m
        \<and> rx_message x = rm_content m \<and> rx_review_thread_id x = rt_id th \<and> rx_action_request_id x = ar_id r
        \<and> rx_action_type x = ar_action_type r \<and> rx_proposal_revision x = aq_revision a
        \<and> rx_proposal_parameters x = av_parameters v \<and> rx_proposal_payload_hash x = av_payload_hash v
        \<and> rx_proposal_rationale x = av_rationale v)"

text \<open>The same for an action result, which may have an operator's resolution of the same attempt.\<close>

definition resolution_from_rows :: "uuid \<Rightarrow> uuid \<Rightarrow> Database \<Rightarrow> ActionResultContext \<Rightarrow> bool" where
  "resolution_from_rows tenant process db x \<longleftrightarrow>
     (if \<exists>d \<in> set (db_reconciliations db). rd_tenant_id d = tenant \<and> rd_process_instance_id d = process
         \<and> rd_action_attempt_id d = rs_attempt_id x
      then \<exists>d \<in> set (db_reconciliations db). rd_tenant_id d = tenant \<and> rd_process_instance_id d = process
         \<and> rd_action_attempt_id d = rs_attempt_id x \<and> rs_operator_resolution_id x = Some (rd_id d)
         \<and> rs_operator_actor_id x = Some (rd_actor_id d) \<and> rs_operator_evidence x = Some (rd_evidence d)
      else rs_operator_resolution_id x = None \<and> rs_operator_actor_id x = None \<and> rs_operator_evidence x = None)"

definition result_from_rows :: "uuid \<Rightarrow> uuid \<Rightarrow> Database \<Rightarrow> ActionResultContext \<Rightarrow> bool" where
  "result_from_rows tenant process db x \<longleftrightarrow>
     (\<exists>a \<in> set (db_attempts db). \<exists>r \<in> set (db_action_requests db). \<exists>v \<in> set (db_action_revisions db).
        aa_tenant_id a = tenant \<and> ar_tenant_id r = tenant \<and> av_tenant_id v = tenant \<and> aa_process_instance_id a = process
        \<and> aa_action_request_id a = ar_id r \<and> av_action_request_id v = ar_id r \<and> av_revision v = aa_revision a
        \<and> rs_attempt_id x = aa_id a \<and> rs_action_request_id x = ar_id r \<and> rs_revision x = aa_revision a
        \<and> rs_action_type x = ar_action_type r \<and> rs_parameters x = av_parameters v \<and> rs_status x = aa_status a
        \<and> rs_adapter_id x = aa_adapter_id a \<and> rs_idempotency_key x = aa_idempotency_key a
        \<and> rs_provider_reference x = aa_provider_reference a \<and> rs_result x = aa_result a \<and> rs_facts x = aa_facts a
        \<and> rs_error x = aa_error a \<and> rs_conflict x = aa_conflict a)
     \<and> resolution_from_rows tenant process db x"

lemma set_outer_join: "d \<in> set (outer_join rows) \<longleftrightarrow> (if rows = [] then d = None else d \<in> Some ` set rows)"
  by (simp add: outer_join_def)

lemma turn_review_row_sources:
  assumes "(i, x) \<in> set (turn_review_rows c db)"
  shows "review_from_rows (lc_tenant_id c) (lc_process_instance_id c) db x"
proof -
  from assms obtain m th a r v where rows:
    "m \<in> set (db_review_messages db)" "th \<in> set (db_review_threads db)" "a \<in> set (db_approvals db)"
    "r \<in> set (db_action_requests db)" "v \<in> set (db_action_revisions db)"
    and joins: "rm_tenant_id m = lc_tenant_id c" "rm_process_instance_id m = lc_process_instance_id c"
      "rt_tenant_id th = lc_tenant_id c" "rt_id th = rm_review_thread_id m"
      "aq_tenant_id a = lc_tenant_id c" "aq_id a = rt_approval_request_id th"
      "ar_tenant_id r = lc_tenant_id c" "ar_id r = aq_action_request_id a"
      "av_tenant_id v = lc_tenant_id c" "av_action_request_id v = aq_action_request_id a" "av_revision v = aq_revision a"
    and x: "x = \<lparr>rx_command_id = rm_id m, rx_command_type = rm_message_type m, rx_review_thread_id = rt_id th,
        rx_action_request_id = ar_id r, rx_proposal_revision = av_revision v, rx_actor_id = rm_actor_id m,
        rx_message = rm_content m, rx_action_type = ar_action_type r, rx_proposal_parameters = av_parameters v,
        rx_proposal_payload_hash = av_payload_hash v, rx_proposal_rationale = av_rationale v\<rparr>"
    unfolding turn_review_rows_def by (auto split: if_splits)
  show ?thesis
    unfolding review_from_rows_def x
    by (rule bexI [OF _ rows(1)], rule bexI [OF _ rows(2)], rule bexI [OF _ rows(3)], rule bexI [OF _ rows(4)],
        rule bexI [OF _ rows(5)]) (simp add: joins)
qed

lemma turn_action_row_sources:
  assumes "(i, x) \<in> set (turn_action_rows c db)"
  shows "result_from_rows (lc_tenant_id c) (lc_process_instance_id c) db x"
proof -
  let ?resolutions = "\<lambda>a. filter (\<lambda>d. rd_action_attempt_id d = aa_id a \<and> rd_tenant_id d = aa_tenant_id a
    \<and> rd_process_instance_id d = aa_process_instance_id a) (db_reconciliations db)"
  from assms obtain a r v d where rows:
    "a \<in> set (db_attempts db)" "r \<in> set (db_action_requests db)" "v \<in> set (db_action_revisions db)"
    and joins: "aa_tenant_id a = lc_tenant_id c" "aa_process_instance_id a = lc_process_instance_id c"
      "ar_tenant_id r = lc_tenant_id c" "ar_id r = aa_action_request_id a"
      "av_tenant_id v = lc_tenant_id c" "av_action_request_id v = aa_action_request_id a" "av_revision v = aa_revision a"
    and d: "d \<in> set (outer_join (?resolutions a))"
    and x: "x = \<lparr>rs_attempt_id = aa_id a, rs_action_request_id = ar_id r, rs_revision = aa_revision a,
        rs_action_type = ar_action_type r, rs_parameters = av_parameters v, rs_status = aa_status a,
        rs_adapter_id = aa_adapter_id a, rs_idempotency_key = aa_idempotency_key a,
        rs_provider_reference = aa_provider_reference a, rs_result = aa_result a, rs_facts = aa_facts a,
        rs_error = aa_error a, rs_conflict = aa_conflict a, rs_operator_resolution_id = map_option rd_id d,
        rs_operator_actor_id = map_option rd_actor_id d, rs_operator_evidence = map_option rd_evidence d\<rparr>"
    unfolding turn_action_rows_def by (auto split: if_splits)
  have "resolution_from_rows (lc_tenant_id c) (lc_process_instance_id c) db x"
  proof (cases "?resolutions a = []")
    case True
    then have "\<not> (\<exists>d \<in> set (db_reconciliations db). rd_tenant_id d = lc_tenant_id c
        \<and> rd_process_instance_id d = lc_process_instance_id c \<and> rd_action_attempt_id d = aa_id a)"
      using joins(1,2) by (auto simp: filter_empty_conv)
    then show ?thesis using d True by (simp add: resolution_from_rows_def x set_outer_join)
  next
    case False
    then obtain d' where "d = Some d'" "d' \<in> set (db_reconciliations db)" "rd_action_attempt_id d' = aa_id a"
      "rd_tenant_id d' = lc_tenant_id c" "rd_process_instance_id d' = lc_process_instance_id c"
      using d joins(1,2) by (auto simp: set_outer_join)
    then show ?thesis by (auto simp: resolution_from_rows_def x)
  qed
  moreover have "\<exists>a \<in> set (db_attempts db). \<exists>r \<in> set (db_action_requests db). \<exists>v \<in> set (db_action_revisions db).
        aa_tenant_id a = lc_tenant_id c \<and> ar_tenant_id r = lc_tenant_id c \<and> av_tenant_id v = lc_tenant_id c
        \<and> aa_process_instance_id a = lc_process_instance_id c
        \<and> aa_action_request_id a = ar_id r \<and> av_action_request_id v = ar_id r \<and> av_revision v = aa_revision a
        \<and> rs_attempt_id x = aa_id a \<and> rs_action_request_id x = ar_id r \<and> rs_revision x = aa_revision a
        \<and> rs_action_type x = ar_action_type r \<and> rs_parameters x = av_parameters v \<and> rs_status x = aa_status a
        \<and> rs_adapter_id x = aa_adapter_id a \<and> rs_idempotency_key x = aa_idempotency_key a
        \<and> rs_provider_reference x = aa_provider_reference a \<and> rs_result x = aa_result a \<and> rs_facts x = aa_facts a
        \<and> rs_error x = aa_error a \<and> rs_conflict x = aa_conflict a"
    unfolding x
    by (rule bexI [OF _ rows(1)], rule bexI [OF _ rows(2)], rule bexI [OF _ rows(3)]) (simp add: joins)
  ultimately show ?thesis unfolding result_from_rows_def by blast
qed

lemma load_turn_reviews_rows:
  assumes "load_turn_reviews c db = Inr reviews"
  shows "map rx_command_id reviews = lc_review_command_ids c"
    "\<forall>r \<in> set reviews. review_from_rows (lc_tenant_id c) (lc_process_instance_id c) db r"
proof -
  have rows: "rows_in_order (turn_review_rows c db) (lc_review_command_ids c) = Some reviews"
    using assms by (auto simp: load_turn_reviews_def split: option.splits)
  have "\<forall>(i, r) \<in> set (turn_review_rows c db). rx_command_id r = i" by (auto simp: turn_review_rows_def)
  note ordered = rows_in_order_keys [OF rows this]
  show "map rx_command_id reviews = lc_review_command_ids c" by (rule ordered(1))
  show "\<forall>r \<in> set reviews. review_from_rows (lc_tenant_id c) (lc_process_instance_id c) db r"
    using ordered(2) turn_review_row_sources by blast
qed

lemma load_turn_results_rows:
  assumes "load_turn_results c db = Inr results"
  shows "map rs_attempt_id results = lc_action_attempt_ids c"
    "\<forall>r \<in> set results. result_from_rows (lc_tenant_id c) (lc_process_instance_id c) db r"
proof -
  have rows: "rows_in_order (turn_action_rows c db) (lc_action_attempt_ids c) = Some results"
    using assms by (auto simp: load_turn_results_def split: option.splits)
  have "\<forall>(i, r) \<in> set (turn_action_rows c db). rs_attempt_id r = i" by (auto simp: turn_action_rows_def)
  note ordered = rows_in_order_keys [OF rows this]
  show "map rs_attempt_id results = lc_action_attempt_ids c" by (rule ordered(1))
  show "\<forall>r \<in> set results. result_from_rows (lc_tenant_id c) (lc_process_instance_id c) db r"
    using ordered(2) turn_action_row_sources by blast
qed

text \<open>The process of a context is the one stored for the tenant, of the definition the worker runs.\<close>

lemma load_process_row:
  assumes "load_process c db = Inr p"
  shows "p \<in> set (db_processes db)" "pi_tenant_id p = lc_tenant_id c" "pi_id p = lc_process_instance_id c"
    "pi_process_type p = pd_id (lc_definition c)" "pi_definition_version p = pd_version (lc_definition c)"
proof -
  have p: "find_process (lc_tenant_id c) (lc_process_instance_id c) db = Some p"
    "pi_process_type p = pd_id (lc_definition c)" "pi_definition_version p = pd_version (lc_definition c)"
    using assms by (auto simp: load_process_def split: option.splits if_splits sum.splits)
  show "p \<in> set (db_processes db)" "pi_tenant_id p = lc_tenant_id c" "pi_id p = lc_process_instance_id c"
    using p(1) by (auto simp: find_process_def dest: find_Some_mem)
  show "pi_process_type p = pd_id (lc_definition c)" "pi_definition_version p = pd_version (lc_definition c)"
    using p by blast+
qed

lemma loader_bound_ok: "loader_bound name chosen platform = Inr v \<Longrightarrow> 1 \<le> v \<and> v \<le> platform"
  by (auto simp: loader_bound_def Let_def split: if_splits)

lemma make_ContextLoader_ok:
  assumes "make_ContextLoader limits a b r t s = Inr l"
  shows "cl_max_events_per_turn l \<le> max_events_per_turn limits"
    "cl_max_reviews_per_turn l \<le> max_reviews_per_turn limits"
    "cl_max_action_results_per_turn l \<le> max_action_results_per_turn limits"
    "cl_max_timers_per_turn l \<le> max_timers_per_turn limits"
    "cl_max_agent_context_bytes l \<le> max_agent_context_bytes limits"
  using assms by (auto simp: make_ContextLoader_def dest!: loader_bound_ok)

end
