(* ===== verification/Activities.thy ===== *)
theory Activities
  imports Agent_Context Control Gateway Ingestion
begin

text \<open>
  \<open>temporal/activities\<close>: the boundary between the workflow and the services. An agent turn loads
  its context, and asks the model for a proposal at most three times, checking the safety
  controls before each call and charging its usage after it; a rejected proposal is sent back
  with the reason. The other activities validate a decision again and hand it to the gateway and
  to the state store, record interventions, and run the executor. The ids the workflow passes as
  text are read back as ids; a decision is passed as the value its JSON stands for.
\<close>

section \<open>An agent turn\<close>

definition MAX_SEMANTIC_CORRECTIONS :: nat where
  "MAX_SEMANTIC_CORRECTIONS = 2"

record ModelTurnOutcome =
  mo_decision :: AgentDecision
  mo_usage :: ModelUsage
  mo_model :: unicode

record ProposalCorrection =
  px_correction_attempt :: nat
  px_rejected_decision :: AgentDecision
  px_validation_error :: decision_error

record AgentTurnCommand =
  ac_tenant_id :: uuid
  ac_process_instance_id :: uuid
  ac_process_definition_id :: string
  ac_process_definition_version :: unicode
  ac_turn_id :: uuid
  ac_event_ids :: "uuid list"
  ac_workflow_now :: datetime
  ac_review_command_ids :: "uuid list"
  ac_action_attempt_ids :: "uuid list"
  ac_timer_ids :: "string list"

record AgentTurnActivities =
  aw_registry :: "((string \<times> unicode) \<times> ProcessDefinition) list"
  aw_compatibility :: DeploymentCompatibility
  aw_deployment_release :: DeploymentRelease
  aw_context_loader :: ContextLoader
  aw_authorized_tenant_ids :: "uuid set option"
  aw_model_prices :: "(unicode \<times> PriceEntry) list"
  aw_tenant_spend_caps :: TenantSpendCaps
  aw_platform_model_paused :: bool

datatype turn_error =
    WorkerNotAuthorized
  | DefinitionNotInPack
  | TurnTenantBlocked tenancy_error
  | TurnContext context_error
  | TurnProcessUnavailable
  | TurnTimestamp timestamp_error
  | ProcessLifetimeExceeded CommunicationBlock
  | BudgetUnreadable budget_error
  | ModelBudgetExceeded ModelBudgetBlock
  | PlatformModelPaused
  | TurnBreakerError breaker_error
  | ModelCircuitOpen BreakerScope unicode
  | TurnIncompatible compatibility_error
  | RunnerFailed unicode
  | UnpricedUsage budget_error
  | UsageNotRecorded budget_error
  | ConflictNotSerialisable
  | TurnDecisionRejected decision_error
  | ValidationFailed decision_error
  | ProposalLoopExited

text \<open>
  What the code does not decide: the generated ids, what other workers commit before each of its
  transactions, and the answers of the model.
\<close>

record TurnEnv =
  tv_execution_id :: uuid
  tv_usage_id :: "nat \<Rightarrow> uuid"
  tv_before_load :: "Database \<Rightarrow> Database"
  tv_before_fence :: "nat \<Rightarrow> Database \<Rightarrow> Database"
  tv_before_record :: "nat \<Rightarrow> Database \<Rightarrow> Database"
  tv_runner :: "nat \<Rightarrow> AgentTurnInput \<Rightarrow> ProposalCorrection option \<Rightarrow> unicode + ModelTurnOutcome"
  tv_show_time :: "datetime \<Rightarrow> unicode"
  tv_show_uuid :: "uuid \<Rightarrow> unicode"
  tv_instructions :: "ProcessDefinition \<Rightarrow> unicode"

text \<open>One call of the model, with the database of the transaction that admitted it.\<close>

record model_call =
  mc_attempt :: nat
  mc_input :: AgentTurnInput
  mc_correction :: "ProposalCorrection option"
  mc_admitted :: Database

record turn_run =
  tr_result :: "turn_error + AgentDecision \<times> nat"
  tr_calls :: "model_call list"
  tr_db :: Database

text \<open>\<open>_require_model_execution_allowed\<close>, one transaction that only reads.\<close>

definition require_model_execution_allowed ::
  "AgentTurnActivities \<Rightarrow> AgentTurnCommand \<Rightarrow> ProcessDefinition \<Rightarrow> Database \<Rightarrow> turn_error + unit" where
  "require_model_execution_allowed w c d db =
     (case require_active_tenant (ac_tenant_id c) (Some (dr_deployment_id (aw_deployment_release w))) db of
        Inl e \<Rightarrow> Inl (TurnTenantBlocked e)
      | Inr _ \<Rightarrow>
      (case find_process (ac_tenant_id c) (ac_process_instance_id c) db of
         None \<Rightarrow> Inl TurnProcessUnavailable
       | Some p \<Rightarrow>
       (case process_lifetime_block p (communication_policy d) (ac_workflow_now c) of
          Inl e \<Rightarrow> Inl (TurnTimestamp e)
        | Inr (Some block) \<Rightarrow> Inl (ProcessLifetimeExceeded block)
        | Inr None \<Rightarrow>
        (case inspect_budget (ac_tenant_id c) (ac_process_instance_id c) (model_budget d) db of
           Inl e \<Rightarrow> Inl (BudgetUnreadable e)
         | Inr snapshot \<Rightarrow>
         (case budget_require_allowed snapshot of
            Inl block \<Rightarrow> Inl (ModelBudgetExceeded block)
          | Inr _ \<Rightarrow>
          (case tenant_spent (ac_tenant_id c) db of
             Inl e \<Rightarrow> Inl (BudgetUnreadable e)
           | Inr (usage, cost) \<Rightarrow>
           (case evaluate_tenant_spend usage cost (aw_tenant_spend_caps w) of
              Some block \<Rightarrow> Inl (ModelBudgetExceeded block)
            | None \<Rightarrow>
              if aw_platform_model_paused w then Inl PlatformModelPaused
              else
              (case open_for_model_calls (ac_tenant_id c) db of
                 Inl e \<Rightarrow> Inl (TurnBreakerError e)
               | Inr (Some b) \<Rightarrow> Inl (ModelCircuitOpen (br_scope b) (br_reason b))
               | Inr None \<Rightarrow>
               (case bind_result (compatible_process (aw_compatibility w) p)
                       (\<lambda>_. release_require_process (aw_deployment_release w) p) of
                  Inl e \<Rightarrow> Inl (TurnIncompatible e)
                | Inr _ \<Rightarrow> Inr ())))))))))"

definition usage_of_call ::
  "TurnEnv \<Rightarrow> AgentTurnCommand \<Rightarrow> nat \<Rightarrow> ModelTurnOutcome \<Rightarrow> int \<Rightarrow> usage_command" where
  "usage_of_call env c n outcome cost =
     \<lparr>uc_tenant_id = ac_tenant_id c, uc_process_instance_id = ac_process_instance_id c,
      uc_agent_turn_id = ac_turn_id c, uc_attempt_number = int n, uc_model = mo_model outcome,
      uc_usage = mo_usage outcome, uc_cost_micros = cost, uc_price_table_version = PRICE_TABLE_VERSION,
      uc_execution_id = tv_execution_id env\<rparr>"

definition record_model_usage ::
  "AgentTurnActivities \<Rightarrow> TurnEnv \<Rightarrow> AgentTurnCommand \<Rightarrow> nat \<Rightarrow> ModelTurnOutcome \<Rightarrow> Database
     \<Rightarrow> turn_error + Database" where
  "record_model_usage w env c n outcome db =
     (case estimate_cost_micros (mo_model outcome) (mo_usage outcome) (aw_model_prices w) of
        Inl e \<Rightarrow> Inl (UnpricedUsage e)
      | Inr cost \<Rightarrow>
          (case record_usage (tv_usage_id env n) (usage_of_call env c n outcome cost) db of
             Inl e \<Rightarrow> Inl (UsageNotRecorded e) | Inr (_, db') \<Rightarrow> Inr db'))"

text \<open>The value errors of validation that are no rejection of the proposal.\<close>

definition is_rejection :: "decision_error \<Rightarrow> bool" where
  "is_rejection e \<longleftrightarrow> e \<noteq> NaiveWorkflowNow \<and> e \<noteq> PayloadNotSerialisable"

fun propose ::
  "AgentTurnActivities \<Rightarrow> TurnEnv \<Rightarrow> AgentTurnCommand \<Rightarrow> ProcessDefinition \<Rightarrow> AgentTurnInput \<Rightarrow> TurnExpectation
     \<Rightarrow> nat list \<Rightarrow> ProposalCorrection option \<Rightarrow> model_call list \<Rightarrow> Database \<Rightarrow> turn_run" where
  "propose w env c d turn expected [] correction calls db =
     \<lparr>tr_result = Inl ProposalLoopExited, tr_calls = calls, tr_db = db\<rparr>"
| "propose w env c d turn expected (n # ns) correction calls db =
     (let db1 = tv_before_fence env n db in
      case require_model_execution_allowed w c d db1 of
        Inl e \<Rightarrow> \<lparr>tr_result = Inl e, tr_calls = calls, tr_db = db1\<rparr>
      | Inr _ \<Rightarrow>
      (let calls' = calls @ [\<lparr>mc_attempt = n, mc_input = turn, mc_correction = correction, mc_admitted = db1\<rparr>] in
       case tv_runner env n turn correction of
         Inl e \<Rightarrow> \<lparr>tr_result = Inl (RunnerFailed e), tr_calls = calls', tr_db = db1\<rparr>
       | Inr outcome \<Rightarrow>
       (let db2 = tv_before_record env n db1 in
        case record_model_usage w env c n outcome db2 of
          Inl e \<Rightarrow> \<lparr>tr_result = Inl e, tr_calls = calls', tr_db = db2\<rparr>
        | Inr db3 \<Rightarrow>
        (case validate_decision (mo_decision outcome) (decision_policy d) expected of
           Inr validated \<Rightarrow> \<lparr>tr_result = Inr (validated, n), tr_calls = calls', tr_db = db3\<rparr>
         | Inl e \<Rightarrow>
             if \<not> is_rejection e then \<lparr>tr_result = Inl (ValidationFailed e), tr_calls = calls', tr_db = db3\<rparr>
             else if MAX_SEMANTIC_CORRECTIONS < n
             then \<lparr>tr_result = Inl (TurnDecisionRejected e), tr_calls = calls', tr_db = db3\<rparr>
             else propose w env c d turn expected ns
                    (Some \<lparr>px_correction_attempt = n, px_rejected_decision = mo_decision outcome,
                           px_validation_error = e\<rparr>) calls' db3))))"

text \<open>The authoritative facts after the sources of the turn.\<close>

definition observe_authoritative :: "FactObservation \<Rightarrow> jobject \<Rightarrow> jobject" where
  "observe_authoritative f facts =
     (if fo_kind f = AUTHORITATIVE then AList.update (ascii (fo_key f)) (fo_value f) facts else facts)"

definition prospective_facts :: "AgentTurnInput \<Rightarrow> jobject" where
  "prospective_facts turn =
     fold observe_authoritative
       (concat (map ce_facts (ti_events turn)) @ concat (map rs_facts (ti_action_results turn)))
       (ps_authoritative_facts (ti_process turn))"

definition conflicted_hashes :: "AgentTurnInput \<Rightarrow> unicode option list" where
  "conflicted_hashes turn =
     map (\<lambda>r. action_payload_identity (rs_action_type r) (rs_parameters r))
       (filter (\<lambda>r. rs_status r = ActionAttemptStatus.CONFLICT) (ti_action_results turn))"

definition turn_expectation :: "AgentTurnCommand \<Rightarrow> AgentTurnInput \<Rightarrow> TurnExpectation" where
  "turn_expectation c turn =
     \<lparr>tx_workflow_now = ac_workflow_now c,
      tx_event_ids = Some (ce_event_id ` set (ti_events turn)),
      tx_review_command_ids = Some (rx_command_id ` set (ti_reviews turn)),
      tx_action_attempt_ids = Some (rs_attempt_id ` set (ti_action_results turn)),
      tx_timer_ids = Some (set (ti_timer_ids turn)),
      tx_conflicted_action_payload_hashes = set (List.map_filter id (conflicted_hashes turn)),
      tx_current_authoritative_facts = Some (prospective_facts turn),
      tx_enforce_completion_requirements = True\<rparr>"

definition load_command :: "AgentTurnActivities \<Rightarrow> AgentTurnCommand \<Rightarrow> ProcessDefinition \<Rightarrow> LoadCommand" where
  "load_command w c d =
     \<lparr>lc_tenant_id = ac_tenant_id c, lc_process_instance_id = ac_process_instance_id c,
      lc_turn_id = ac_turn_id c, lc_workflow_now = Some (ac_workflow_now c), lc_event_ids = ac_event_ids c,
      lc_review_command_ids = ac_review_command_ids c, lc_action_attempt_ids = ac_action_attempt_ids c,
      lc_timer_ids = ac_timer_ids c, lc_definition = d, lc_compatibility = aw_compatibility w,
      lc_deployment_release = aw_deployment_release w\<rparr>"

definition load_turn ::
  "AgentTurnActivities \<Rightarrow> TurnEnv \<Rightarrow> AgentTurnCommand \<Rightarrow> ProcessDefinition \<Rightarrow> Database
     \<Rightarrow> turn_error + AgentTurnInput" where
  "load_turn w env c d db =
     (case require_active_tenant (ac_tenant_id c) (Some (dr_deployment_id (aw_deployment_release w))) db of
        Inl e \<Rightarrow> Inl (TurnTenantBlocked e)
      | Inr _ \<Rightarrow>
          (case load_context (tv_show_time env) (tv_show_uuid env) (tv_instructions env) (aw_context_loader w)
                  (load_command w c d) db of
             Inl e \<Rightarrow> Inl (TurnContext e) | Inr turn \<Rightarrow> Inr turn))"

definition run_agent_turn ::
  "AgentTurnActivities \<Rightarrow> TurnEnv \<Rightarrow> AgentTurnCommand \<Rightarrow> Database \<Rightarrow> turn_run" where
  "run_agent_turn w env c db =
     (case require_authorized_tenant (ac_tenant_id c) (aw_authorized_tenant_ids w) of
        Inl _ \<Rightarrow> \<lparr>tr_result = Inl WorkerNotAuthorized, tr_calls = [], tr_db = db\<rparr>
      | Inr _ \<Rightarrow>
      (case get_definition (aw_registry w) (ac_process_definition_id c) (ac_process_definition_version c) of
         Inl _ \<Rightarrow> \<lparr>tr_result = Inl DefinitionNotInPack, tr_calls = [], tr_db = db\<rparr>
       | Inr d \<Rightarrow>
       (let db1 = tv_before_load env db in
        case load_turn w env c d db1 of
          Inl e \<Rightarrow> \<lparr>tr_result = Inl e, tr_calls = [], tr_db = db1\<rparr>
        | Inr turn \<Rightarrow>
            if None \<in> set (conflicted_hashes turn)
            then \<lparr>tr_result = Inl ConflictNotSerialisable, tr_calls = [], tr_db = db1\<rparr>
            else propose w env c d turn (turn_expectation c turn) [1..<MAX_SEMANTIC_CORRECTIONS + 2] None [] db1)))"

section \<open>Persisting and executing\<close>

text \<open>\<open>PersistActionsCommand\<close> and \<open>PersistProcessStateCommand\<close>, which have the same fields.\<close>

record DecisionCommand =
  dm_tenant_id :: uuid
  dm_process_instance_id :: uuid
  dm_process_definition_id :: string
  dm_process_definition_version :: unicode
  dm_agent_turn_id :: uuid
  dm_event_ids :: "uuid list"
  dm_workflow_now :: datetime
  dm_decision :: AgentDecision
  dm_review_command_ids :: "uuid list"
  dm_action_attempt_ids :: "uuid list"
  dm_timer_ids :: "string list"

record ActivityWorker =
  vw_registry :: "((string \<times> unicode) \<times> ProcessDefinition) list"
  vw_deployment_release :: "DeploymentRelease option"
  vw_authorized_tenant_ids :: "uuid set option"

datatype activity_error =
    ActivityNotAuthorized
  | ActivityDefinitionUnknown
  | ActivityDocumentInvalid contract_error
  | ActivityTenant tenancy_error
  | ActivityProcessNotFound
  | ActivityRejected decision_error
  | ActivityGateway gateway_error
  | ActivityState state_error
  | ActivityControl control_error

definition authorize_worker :: "ActivityWorker \<Rightarrow> uuid \<Rightarrow> activity_error + unit" where
  "authorize_worker w tenant =
     (case require_authorized_tenant tenant (vw_authorized_tenant_ids w) of
        Inl _ \<Rightarrow> Inl ActivityNotAuthorized | Inr _ \<Rightarrow> Inr ())"

definition worker_definition :: "ActivityWorker \<Rightarrow> DecisionCommand \<Rightarrow> activity_error + ProcessDefinition" where
  "worker_definition w c =
     (case get_definition (vw_registry w) (dm_process_definition_id c) (dm_process_definition_version c) of
        Inl _ \<Rightarrow> Inl ActivityDefinitionUnknown | Inr d \<Rightarrow> Inr d)"

definition worker_active_tenant :: "ActivityWorker \<Rightarrow> uuid \<Rightarrow> Database \<Rightarrow> activity_error + unit" where
  "worker_active_tenant w tenant db =
     (case vw_deployment_release w of
        None \<Rightarrow> Inr ()
      | Some r \<Rightarrow>
          (case require_active_tenant tenant (Some (dr_deployment_id r)) db of
             Inl e \<Rightarrow> Inl (ActivityTenant e) | Inr _ \<Rightarrow> Inr ()))"

definition activity_document :: "contract_error + 'a \<Rightarrow> activity_error + 'a" where
  "activity_document answer = (case answer of Inl e \<Rightarrow> Inl (ActivityDocumentInvalid e) | Inr v \<Rightarrow> Inr v)"

definition activity_validated :: "decision_error + 'a \<Rightarrow> activity_error + 'a" where
  "activity_validated answer = (case answer of Inl e \<Rightarrow> Inl (ActivityRejected e) | Inr v \<Rightarrow> Inr v)"

definition decision_expectation :: "DecisionCommand \<Rightarrow> jobject option \<Rightarrow> bool \<Rightarrow> TurnExpectation" where
  "decision_expectation c facts enforce =
     \<lparr>tx_workflow_now = dm_workflow_now c, tx_event_ids = Some (set (dm_event_ids c)),
      tx_review_command_ids = Some (set (dm_review_command_ids c)),
      tx_action_attempt_ids = Some (set (dm_action_attempt_ids c)), tx_timer_ids = Some (set (dm_timer_ids c)),
      tx_conflicted_action_payload_hashes = {}, tx_current_authoritative_facts = facts,
      tx_enforce_completion_requirements = enforce\<rparr>"

text \<open>
  \<open>_completion_facts\<close>. The queries fix no order; the rows come in the order of the tables here.
\<close>

definition completion_facts ::
  "(datetime \<Rightarrow> unicode) \<Rightarrow> (uuid \<Rightarrow> unicode) \<Rightarrow> DecisionCommand \<Rightarrow> Database \<Rightarrow> activity_error + jobject" where
  "completion_facts show_time show_uuid c db =
     (case find_process (dm_tenant_id c) (dm_process_instance_id c) db of
        None \<Rightarrow> Inl ActivityProcessNotFound
      | Some p \<Rightarrow>
          (let documents = map ei_event_data (filter (\<lambda>e. ei_tenant_id e = dm_tenant_id c
                 \<and> ei_process_instance_id e = Some (dm_process_instance_id c) \<and> ei_id e \<in> set (dm_event_ids c)
                 \<and> ei_correlation_status e = correlation_status.MATCHED) (db_events db));
               observed = concat (map aa_facts (filter (\<lambda>a. aa_tenant_id a = dm_tenant_id c
                 \<and> aa_process_instance_id a = dm_process_instance_id c
                 \<and> aa_id a \<in> set (dm_action_attempt_ids c)) (db_attempts db)))
           in bind_result (check_all (\<lambda>e. bind_result (activity_document (check_CanonicalEvent show_time show_uuid e))
                (\<lambda>_. Inr ())) documents) (\<lambda>_.
              bind_result (check_all (\<lambda>f. bind_result (activity_document (check_FactObservation f))
                (\<lambda>_. Inr ())) observed) (\<lambda>_.
              Inr (fold observe_authoritative (concat (map ce_facts documents) @ observed) (pi_authoritative_facts p))))))"

definition gateway_command :: "(ProcessDefinition \<Rightarrow> unicode) \<Rightarrow> DecisionCommand \<Rightarrow> ProcessDefinition \<Rightarrow> GatewayCommand" where
  "gateway_command fingerprint c d =
     \<lparr>gw_tenant_id = dm_tenant_id c, gw_process_instance_id = dm_process_instance_id c,
      gw_agent_turn_id = dm_agent_turn_id c, gw_process_definition_version = pd_version d,
      gw_decision = dm_decision c, gw_policy = action_policy fingerprint d,
      gw_communication_policy = Some (communication_policy d), gw_workflow_now = Some (dm_workflow_now c)\<rparr>"

record GatewayEnv =
  gv_show_time :: "datetime \<Rightarrow> unicode"
  gv_show_uuid :: "uuid \<Rightarrow> unicode"
  gv_fingerprint :: "ProcessDefinition \<Rightarrow> unicode"
  gv_new_ids :: "nat \<Rightarrow> new_ids"
  gv_now :: instant

definition persist_agent_actions ::
  "ActivityWorker \<Rightarrow> ActionGateway \<Rightarrow> GatewayEnv \<Rightarrow> DecisionCommand \<Rightarrow> Database
     \<Rightarrow> activity_error + PersistedAction list \<times> Database" where
  "persist_agent_actions w g env c db =
     bind_result (authorize_worker w (dm_tenant_id c)) (\<lambda>_.
     bind_result (worker_definition w c) (\<lambda>d.
     bind_result (activity_document (check_AgentDecision (dm_decision c))) (\<lambda>decision.
     bind_result (worker_active_tenant w (dm_tenant_id c) db) (\<lambda>_.
     bind_result (if ad_status decision = DecisionStatus.COMPLETED
                  then completion_facts (gv_show_time env) (gv_show_uuid env) c db else Inr []) (\<lambda>facts.
     bind_result (activity_validated (validate_decision decision (decision_policy d)
         (decision_expectation c (Some facts) True))) (\<lambda>_.
     case persist_decision g (gv_new_ids env) (gv_now env) (gateway_command (gv_fingerprint env) c d) db of
       Inl e \<Rightarrow> Inl (ActivityGateway e) | Inr r \<Rightarrow> Inr r))))))"

definition state_command :: "DecisionCommand \<Rightarrow> ProcessDefinition \<Rightarrow> StateCommand" where
  "state_command c d =
     \<lparr>sc_tenant_id = dm_tenant_id c, sc_process_instance_id = dm_process_instance_id c,
      sc_agent_turn_id = dm_agent_turn_id c, sc_decision = dm_decision c,
      sc_terminal_states = Some (set (pd_terminal_states d)),
      sc_completion_requirements = Some (dp_completion_requirements (decision_policy d))\<rparr>"

definition persist_process_state ::
  "ActivityWorker \<Rightarrow> (datetime \<Rightarrow> unicode) \<Rightarrow> (uuid \<Rightarrow> unicode) \<Rightarrow> uuid \<Rightarrow> DecisionCommand \<Rightarrow> Database
     \<Rightarrow> activity_error + AppliedProcessState \<times> Database" where
  "persist_process_state w show_time show_uuid new_id c db =
     bind_result (authorize_worker w (dm_tenant_id c)) (\<lambda>_.
     bind_result (worker_definition w c) (\<lambda>d.
     bind_result (activity_document (check_AgentDecision (dm_decision c))) (\<lambda>decision.
     bind_result (activity_validated (validate_decision decision (decision_policy d)
         (decision_expectation c None False))) (\<lambda>_.
     bind_result (worker_active_tenant w (dm_tenant_id c) db) (\<lambda>_.
     case apply_decision show_time show_uuid new_id (state_command c d) db of
       Inl e \<Rightarrow> Inl (ActivityState e) | Inr r \<Rightarrow> Inr r)))))"

definition record_intervention_activity ::
  "ActivityWorker \<Rightarrow> InterventionInput \<Rightarrow> Database \<Rightarrow> activity_error + Database" where
  "record_intervention_activity w v db =
     bind_result (authorize_worker w (iv_tenant_id v)) (\<lambda>_.
     bind_result (case vw_deployment_release w of
         None \<Rightarrow> Inr ()
       | Some r \<Rightarrow>
           (case require_tenant_deployment (iv_tenant_id v) (dr_deployment_id r) db of
              Inl e \<Rightarrow> Inl (ActivityTenant e) | Inr _ \<Rightarrow> Inr ())) (\<lambda>_.
     case record_process_intervention v db of
       Inl e \<Rightarrow> Inl (ActivityControl e) | Inr (_, db') \<Rightarrow> Inr db'))"

text \<open>\<open>execute_action\<close> and \<open>reconcile_action\<close>.\<close>

definition run_action ::
  "bool \<Rightarrow> uuid set option \<Rightarrow> ActionExecutor \<Rightarrow> ExecutionEnv \<Rightarrow> execution_target \<Rightarrow> Database
     \<Rightarrow> activity_error + execution_run" where
  "run_action use_reconcile authorized x env t db =
     (case require_authorized_tenant (et_tenant_id t) authorized of
        Inl _ \<Rightarrow> Inl ActivityNotAuthorized
      | Inr _ \<Rightarrow> Inr (if use_reconcile then reconcile x env t db else execute x env t db))"

section \<open>The proposal loop\<close>

text \<open>When a call of the model is permitted, condition by condition.\<close>

definition model_call_permitted ::
  "AgentTurnActivities \<Rightarrow> AgentTurnCommand \<Rightarrow> ProcessDefinition \<Rightarrow> Database \<Rightarrow> bool" where
  "model_call_permitted w c d db \<longleftrightarrow>
     require_active_tenant (ac_tenant_id c) (Some (dr_deployment_id (aw_deployment_release w))) db = Inr ()
     \<and> \<not> aw_platform_model_paused w
     \<and> open_for_model_calls (ac_tenant_id c) db = Inr None
     \<and> (\<exists>p. find_process (ac_tenant_id c) (ac_process_instance_id c) db = Some p
          \<and> process_lifetime_block p (communication_policy d) (ac_workflow_now c) = Inr None
          \<and> compatible_process (aw_compatibility w) p = Inr ()
          \<and> release_require_process (aw_deployment_release w) p = Inr ())
     \<and> (\<exists>snapshot. inspect_budget (ac_tenant_id c) (ac_process_instance_id c) (model_budget d) db = Inr snapshot
          \<and> budget_require_allowed snapshot = Inr ())
     \<and> (\<exists>usage cost. tenant_spent (ac_tenant_id c) db = Inr (usage, cost)
          \<and> evaluate_tenant_spend usage cost (aw_tenant_spend_caps w) = None)"

lemma require_model_execution_allowed_ok:
  "require_model_execution_allowed w c d db = Inr u \<longleftrightarrow> model_call_permitted w c d db"
  unfolding require_model_execution_allowed_def model_call_permitted_def
  by (auto split: sum.splits option.splits prod.splits)

text \<open>One round of the loop.\<close>

fun uncharged_end :: "turn_error + 'a \<Rightarrow> bool" where
  "uncharged_end (Inl (RunnerFailed _)) \<longleftrightarrow> True"
| "uncharged_end (Inl (UnpricedUsage _)) \<longleftrightarrow> True"
| "uncharged_end (Inl (UsageNotRecorded _)) \<longleftrightarrow> True"
| "uncharged_end _ \<longleftrightarrow> False"

definition admitted_call ::
  "TurnEnv \<Rightarrow> AgentTurnInput \<Rightarrow> nat \<Rightarrow> ProposalCorrection option \<Rightarrow> Database \<Rightarrow> model_call" where
  "admitted_call env turn n correction db =
     \<lparr>mc_attempt = n, mc_input = turn, mc_correction = correction, mc_admitted = tv_before_fence env n db\<rparr>"

lemma propose_round:
  obtains (blocked) e where
      "propose w env c d turn expected (n # ns) correction calls db
         = \<lparr>tr_result = Inl e, tr_calls = calls, tr_db = tv_before_fence env n db\<rparr>"
    | (uncharged) e db2 where "model_call_permitted w c d (tv_before_fence env n db)" "uncharged_end (Inl e :: turn_error + unit)"
      "db2 = tv_before_fence env n db \<or> db2 = tv_before_record env n (tv_before_fence env n db)"
      "propose w env c d turn expected (n # ns) correction calls db
         = \<lparr>tr_result = Inl e, tr_calls = calls @ [admitted_call env turn n correction db], tr_db = db2\<rparr>"
    | (charged) outcome db3 where "model_call_permitted w c d (tv_before_fence env n db)"
      "tv_runner env n turn correction = Inr outcome"
      "record_model_usage w env c n outcome (tv_before_record env n (tv_before_fence env n db)) = Inr db3"
      "(\<exists>r. propose w env c d turn expected (n # ns) correction calls db
           = \<lparr>tr_result = r, tr_calls = calls @ [admitted_call env turn n correction db], tr_db = db3\<rparr>
         \<and> (case r of
              Inr (v, m) \<Rightarrow> m = n \<and> v = mo_decision outcome \<and> validate_decision v (decision_policy d) expected = Inr v
            | Inl _ \<Rightarrow> True))
       \<or> (\<exists>correction'. propose w env c d turn expected (n # ns) correction calls db
           = propose w env c d turn expected ns (Some correction')
               (calls @ [admitted_call env turn n correction db]) db3)"
proof (cases "require_model_execution_allowed w c d (tv_before_fence env n db)")
  case (Inl e)
  then show ?thesis by (intro blocked [of e]) (simp add: Let_def)
next
  case allowed: (Inr u)
  then have permitted: "model_call_permitted w c d (tv_before_fence env n db)"
    by (simp add: require_model_execution_allowed_ok)
  let ?db2 = "tv_before_record env n (tv_before_fence env n db)"
  show ?thesis
  proof (cases "tv_runner env n turn correction")
    case (Inl e)
    show ?thesis
      by (rule uncharged [OF permitted, of "RunnerFailed e" "tv_before_fence env n db"])
        (use allowed Inl in \<open>simp_all add: Let_def admitted_call_def\<close>)
  next
    case answer: (Inr outcome)
    show ?thesis
    proof (cases "record_model_usage w env c n outcome ?db2")
      case (Inl e)
      have e: "uncharged_end (Inl e :: turn_error + unit)"
        using Inl by (auto simp: record_model_usage_def split: sum.splits)
      show ?thesis
        by (rule uncharged [OF permitted e, of ?db2]) (use allowed answer Inl in \<open>simp_all add: Let_def admitted_call_def\<close>)
    next
      case (Inr db3)
      show ?thesis
      proof (rule charged [OF permitted answer Inr], cases "validate_decision (mo_decision outcome) (decision_policy d) expected")
        case (Inl e)
        then show "(\<exists>r. propose w env c d turn expected (n # ns) correction calls db
           = \<lparr>tr_result = r, tr_calls = calls @ [admitted_call env turn n correction db], tr_db = db3\<rparr>
         \<and> (case r of
              Inr (v, m) \<Rightarrow> m = n \<and> v = mo_decision outcome \<and> validate_decision v (decision_policy d) expected = Inr v
            | Inl _ \<Rightarrow> True))
       \<or> (\<exists>correction'. propose w env c d turn expected (n # ns) correction calls db
           = propose w env c d turn expected ns (Some correction')
               (calls @ [admitted_call env turn n correction db]) db3)"
          using allowed answer Inr by (simp add: Let_def admitted_call_def) blast
      next
        case accepted: (Inr v)
        then have "v = mo_decision outcome" by (simp add: validate_decision_admissible)
        then show "(\<exists>r. propose w env c d turn expected (n # ns) correction calls db
           = \<lparr>tr_result = r, tr_calls = calls @ [admitted_call env turn n correction db], tr_db = db3\<rparr>
         \<and> (case r of
              Inr (v, m) \<Rightarrow> m = n \<and> v = mo_decision outcome \<and> validate_decision v (decision_policy d) expected = Inr v
            | Inl _ \<Rightarrow> True))
       \<or> (\<exists>correction'. propose w env c d turn expected (n # ns) correction calls db
           = propose w env c d turn expected ns (Some correction')
               (calls @ [admitted_call env turn n correction db]) db3)"
          using allowed answer Inr accepted by (simp add: Let_def admitted_call_def)
      qed
    qed
  qed
qed

text \<open>Every call was admitted, and the calls use up the attempts that are left in their order.\<close>

lemma propose_calls:
  assumes "\<forall>call \<in> set calls. model_call_permitted w c d (mc_admitted call) \<and> mc_input call = turn"
  shows "(\<forall>call \<in> set (tr_calls (propose w env c d turn expected ns correction calls db)).
      model_call_permitted w c d (mc_admitted call) \<and> mc_input call = turn)
    \<and> (\<exists>k. map mc_attempt (tr_calls (propose w env c d turn expected ns correction calls db)) = map mc_attempt calls @ take k ns)"
  using assms
proof (induction ns arbitrary: correction calls db)
  case (Cons n ns)
  let ?calls = "calls @ [admitted_call env turn n correction db]"
  have next_calls: "\<forall>call \<in> set ?calls. model_call_permitted w c d (mc_admitted call) \<and> mc_input call = turn"
    if "model_call_permitted w c d (tv_before_fence env n db)"
    using that Cons.prems by (simp add: admitted_call_def)
  show ?case
  proof (cases rule: propose_round [of w env c d turn expected n ns correction calls db])
    case (blocked e)
    then show ?thesis using Cons.prems by (auto intro: exI [of _ 0])
  next
    case (uncharged e db2)
    then show ?thesis using next_calls by (auto simp: admitted_call_def intro: exI [of _ 1])
  next
    case (charged outcome db3)
    from charged(4) show ?thesis
    proof (elim disjE exE conjE)
      fix r
      assume "propose w env c d turn expected (n # ns) correction calls db = \<lparr>tr_result = r, tr_calls = ?calls, tr_db = db3\<rparr>"
      then show ?thesis using next_calls [OF charged(1)] by (auto simp: admitted_call_def intro: exI [of _ 1])
    next
      fix correction'
      assume later: "propose w env c d turn expected (n # ns) correction calls db
          = propose w env c d turn expected ns (Some correction') ?calls db3"
      note rest = Cons.IH [OF next_calls [OF charged(1)], of "Some correction'" db3]
      then obtain k where "map mc_attempt (tr_calls (propose w env c d turn expected ns (Some correction') ?calls db3))
          = map mc_attempt ?calls @ take k ns" by blast
      then have "map mc_attempt (tr_calls (propose w env c d turn expected ns (Some correction') ?calls db3))
          = map mc_attempt calls @ take (Suc k) (n # ns)" by (simp add: admitted_call_def)
      then show ?thesis using rest unfolding later by blast
    qed
  qed
qed auto

text \<open>A returned decision is the answer to the last call made, and validation accepts it.\<close>

definition answered_by :: "TurnEnv \<Rightarrow> model_call \<Rightarrow> AgentTurnInput \<Rightarrow> nat \<Rightarrow> AgentDecision \<Rightarrow> bool" where
  "answered_by env call turn n decision \<longleftrightarrow>
     mc_attempt call = n \<and> mc_input call = turn
     \<and> (\<exists>outcome. tv_runner env n turn (mc_correction call) = Inr outcome \<and> mo_decision outcome = decision)"

lemma propose_result:
  assumes "tr_result (propose w env c d turn expected ns correction calls db) = Inr (decision, n)"
  shows "n \<in> set ns \<and> validate_decision decision (decision_policy d) expected = Inr decision
    \<and> tr_calls (propose w env c d turn expected ns correction calls db) \<noteq> []
    \<and> answered_by env (last (tr_calls (propose w env c d turn expected ns correction calls db))) turn n decision"
  using assms
proof (induction ns arbitrary: correction calls db)
  case (Cons m ns)
  show ?case
  proof (cases rule: propose_round [of w env c d turn expected m ns correction calls db])
    case (charged outcome db3)
    from charged(4) show ?thesis
    proof (elim disjE exE conjE)
      fix r
      assume "propose w env c d turn expected (m # ns) correction calls db
          = \<lparr>tr_result = r, tr_calls = calls @ [admitted_call env turn m correction db], tr_db = db3\<rparr>"
        and r: "case r of Inr (v, k) \<Rightarrow> k = m \<and> v = mo_decision outcome \<and> validate_decision v (decision_policy d) expected = Inr v
          | Inl _ \<Rightarrow> True"
      moreover from this have "r = Inr (decision, n)" using Cons.prems by simp
      ultimately show ?thesis using r charged(2) by (simp add: answered_by_def admitted_call_def)
    next
      fix correction'
      assume later: "propose w env c d turn expected (m # ns) correction calls db
          = propose w env c d turn expected ns (Some correction') (calls @ [admitted_call env turn m correction db]) db3"
      then have "tr_result (propose w env c d turn expected ns (Some correction')
          (calls @ [admitted_call env turn m correction db]) db3) = Inr (decision, n)" using Cons.prems by simp
      from Cons.IH [OF this] show ?thesis unfolding later by simp
    qed
  qed (use Cons.prems in simp_all)
qed simp

text \<open>
  The ledger row of an answered call: it has the identity of the call and the model, the tokens and the
  price of the answer.
\<close>

definition call_charged ::
  "AgentTurnActivities \<Rightarrow> TurnEnv \<Rightarrow> AgentTurnCommand \<Rightarrow> model_call \<Rightarrow> Database \<Rightarrow> bool" where
  "call_charged w env c call db \<longleftrightarrow>
     (\<exists>outcome. tv_runner env (mc_attempt call) (mc_input call) (mc_correction call) = Inr outcome
        \<and> (\<exists>row \<in> set (db_usage db).
             usage_key row = (ac_tenant_id c, ac_process_instance_id c, ac_turn_id c, tv_execution_id env, int (mc_attempt call))
             \<and> ul_model row = mo_model outcome
             \<and> ul_input_tokens row = us_input_tokens (mo_usage outcome)
             \<and> ul_output_tokens row = us_output_tokens (mo_usage outcome)
             \<and> estimate_cost_micros (mo_model outcome) (mo_usage outcome) (aw_model_prices w) = Inr (ul_cost_micros row)))"

definition keeps_ledger :: "(Database \<Rightarrow> Database) \<Rightarrow> bool" where
  "keeps_ledger gap \<longleftrightarrow> (\<forall>db. set (db_usage db) \<subseteq> set (db_usage (gap db)))"

lemma record_usage_row:
  assumes "record_usage new_id c db = Inr (i, db')"
  shows "(\<exists>row \<in> set (db_usage db'). usage_key row = usage_key (usage_row new_id c) \<and> same_usage row c)
    \<and> set (db_usage db) \<subseteq> set (db_usage db')"
  using assms
  by (auto simp: record_usage_def Let_def insert_ignore_Inserted same_usage_def usage_row_def
      split: if_splits insertion.splits option.splits dest: find_Some_mem)

lemma record_model_usage_charged:
  assumes "record_model_usage w env c (mc_attempt call) outcome db = Inr db'"
    and "tv_runner env (mc_attempt call) (mc_input call) (mc_correction call) = Inr outcome"
  shows "call_charged w env c call db' \<and> set (db_usage db) \<subseteq> set (db_usage db')"
proof -
  obtain cost i where cost: "estimate_cost_micros (mo_model outcome) (mo_usage outcome) (aw_model_prices w) = Inr cost"
    and r: "record_usage (tv_usage_id env (mc_attempt call)) (usage_of_call env c (mc_attempt call) outcome cost) db = Inr (i, db')"
    using assms(1) by (auto simp: record_model_usage_def split: sum.splits)
  from record_usage_row [OF r] show ?thesis
    using assms(2) cost
    by (auto simp: call_charged_def usage_key_def usage_row_def usage_of_call_def same_usage_def)
qed

lemma call_charged_mono: "call_charged w env c call db \<Longrightarrow> set (db_usage db) \<subseteq> set (db_usage db') \<Longrightarrow> call_charged w env c call db'"
  unfolding call_charged_def by blast

text \<open>
  A call is charged before the next is admitted, and in the end, unless the turn ends because it could
  not be charged.
\<close>

definition charged_in_order :: "AgentTurnActivities \<Rightarrow> TurnEnv \<Rightarrow> AgentTurnCommand \<Rightarrow> model_call list \<Rightarrow> bool" where
  "charged_in_order w env c calls \<longleftrightarrow>
     sorted_wrt (\<lambda>earlier later. call_charged w env c earlier (mc_admitted later)) calls"

lemma charged_in_order_snoc:
  "charged_in_order w env c (calls @ [call])
     \<longleftrightarrow> charged_in_order w env c calls \<and> (\<forall>earlier \<in> set calls. call_charged w env c earlier (mc_admitted call))"
  by (simp add: charged_in_order_def sorted_wrt_append)

lemma propose_charged:
  assumes "\<And>n. keeps_ledger (tv_before_fence env n)" "\<And>n. keeps_ledger (tv_before_record env n)"
    and "charged_in_order w env c calls" "\<forall>call \<in> set calls. call_charged w env c call db"
    and "run = propose w env c d turn expected ns correction calls db"
  shows "charged_in_order w env c (tr_calls run)
    \<and> (uncharged_end (tr_result run) \<or> (\<forall>call \<in> set (tr_calls run). call_charged w env c call (tr_db run)))"
  using assms(3,4,5)
proof (induction ns arbitrary: correction calls db)
  case (Cons n ns)
  let ?db1 = "tv_before_fence env n db" and ?db2 = "tv_before_record env n (tv_before_fence env n db)"
  let ?call = "admitted_call env turn n correction db"
  have sub: "set (db_usage db) \<subseteq> set (db_usage ?db1)" "set (db_usage ?db1) \<subseteq> set (db_usage ?db2)"
    using assms(1,2) by (simp_all add: keeps_ledger_def)
  have at1: "\<forall>call \<in> set calls. call_charged w env c call ?db1"
    using Cons.prems(2) call_charged_mono sub(1) by blast
  have at2: "\<forall>call \<in> set calls. call_charged w env c call ?db2"
    using at1 call_charged_mono sub(2) by blast
  have order: "charged_in_order w env c (calls @ [?call])"
    using Cons.prems(1) at1 by (simp add: charged_in_order_snoc admitted_call_def)
  show ?case
  proof (cases rule: propose_round [of w env c d turn expected n ns correction calls db])
    case (blocked e)
    then show ?thesis using at1 Cons.prems(1,3) by simp
  next
    case (uncharged e db2)
    then show ?thesis using order Cons.prems(3) by (cases e) simp_all
  next
    case (charged outcome db3)
    have "call_charged w env c ?call db3 \<and> set (db_usage ?db2) \<subseteq> set (db_usage db3)"
      using record_model_usage_charged [of w env c ?call outcome ?db2 db3] charged(2,3) by (simp add: admitted_call_def)
    then have stored: "\<forall>call \<in> set (calls @ [?call]). call_charged w env c call db3"
      using at2 call_charged_mono by (metis Un_iff empty_iff insert_iff list.set set_append)
    from charged(4) show ?thesis
    proof (elim disjE exE conjE)
      fix r
      assume "propose w env c d turn expected (n # ns) correction calls db
          = \<lparr>tr_result = r, tr_calls = calls @ [?call], tr_db = db3\<rparr>"
      then show ?thesis using stored order Cons.prems(3) by simp
    next
      fix correction'
      assume "propose w env c d turn expected (n # ns) correction calls db
          = propose w env c d turn expected ns (Some correction') (calls @ [?call]) db3"
      then show ?thesis using Cons.IH [OF order stored] Cons.prems(3) by simp
    qed
  qed
qed simp

end
