(* ===== verification/Turn_Properties.thy ===== *)
theory Turn_Properties
  imports Composition_Properties Activities
begin

text \<open>
  The guarantees of the agent turn: what reaches the model, when it may be called and how it is
  charged, and what happens to the decision that comes back.
\<close>

section \<open>The context\<close>

text \<open>
  (C20) The model sees only what it may see, and only so much: a loaded context is made of stored rows of the
  tenant. Its process is the stored process of the command, field by field, of the definition the
  worker runs. Its events are the matched events of that process with the ids of the command, in
  their order, each with that process in its document. Its reviews and action results are, in the order
  of the command, commands and attempts of that process, and every field of them comes from that row or from the
  thread, approval, request, revision and resolution it leads to, all of the same tenant. The counts stay
  within the platform's limits and so do the bytes of the JSON form of the whole context.
\<close>

theorem turn_context_isolated:
  assumes "make_ContextLoader limits a b r t s = Inr l" "load_context st su ins l c db = Inr turn"
  shows "(\<exists>p \<in> set (db_processes db). pi_tenant_id p = lc_tenant_id c \<and> pi_id p = lc_process_instance_id c
        \<and> pi_process_type p = pd_id (lc_definition c) \<and> pi_definition_version p = pd_version (lc_definition c)
        \<and> ti_process turn =
           \<lparr>ps_tenant_id = pi_tenant_id p, ps_process_instance_id = pi_id p,
            ps_process_type = ascii (pi_process_type p), ps_process_definition_version = pi_definition_version p,
            ps_status = pi_status p, ps_authoritative_facts = pi_authoritative_facts p,
            ps_customer_claims = pi_customer_claims p, ps_fact_provenance = pi_fact_provenance p,
            ps_memory_summary = pi_memory_summary p,
            ps_memory_summary_source_event_ids = pi_memory_summary_source_event_ids p,
            ps_memory_summary_source_review_command_ids = pi_memory_summary_source_review_command_ids p,
            ps_memory_summary_source_action_attempt_ids = pi_memory_summary_source_action_attempt_ids p,
            ps_memory_summary_source_timer_ids = pi_memory_summary_source_timer_ids p,
            ps_open_commitments = pi_open_commitments p,
            ps_current_wake_conditions = pi_current_wake_conditions p, ps_state_version = pi_state_version p\<rparr>)
    \<and> (\<exists>rows. map ei_id rows = lc_event_ids c
        \<and> ti_events turn = map (\<lambda>e. (ei_event_data e)\<lparr>ce_process_instance_id := Some (lc_process_instance_id c)\<rparr>) rows
        \<and> (\<forall>e \<in> set rows. e \<in> set (db_events db) \<and> ei_tenant_id e = lc_tenant_id c
             \<and> ei_process_instance_id e = Some (lc_process_instance_id c)
             \<and> ei_correlation_status e = correlation_status.MATCHED))
    \<and> map rx_command_id (ti_reviews turn) = lc_review_command_ids c
    \<and> (\<forall>x \<in> set (ti_reviews turn). review_from_rows (lc_tenant_id c) (lc_process_instance_id c) db x)
    \<and> map rs_attempt_id (ti_action_results turn) = lc_action_attempt_ids c
    \<and> (\<forall>x \<in> set (ti_action_results turn). result_from_rows (lc_tenant_id c) (lc_process_instance_id c) db x)
    \<and> ti_timer_ids turn = lc_timer_ids c \<and> ti_turn_id turn = lc_turn_id c \<and> ti_workflow_now turn = lc_workflow_now c
    \<and> ti_instructions turn = ins (lc_definition c)
    \<and> int (length (ti_events turn)) \<le> max_events_per_turn limits
    \<and> int (length (ti_reviews turn)) \<le> max_reviews_per_turn limits
    \<and> int (length (ti_action_results turn)) \<le> max_action_results_per_turn limits
    \<and> int (length (ti_timer_ids turn)) \<le> max_timers_per_turn limits
    \<and> (\<exists>bytes. canonical_json_bytes (dump_AgentTurnInput st su turn) (ascii ''agent turn context'') = Inr bytes
         \<and> int (length bytes) \<le> max_agent_context_bytes limits)"
  using assms(2)
proof (rule load_context_parts)
  fix p n
  assume ids: "check_turn_ids l c = Inr ()" and process: "load_process c db = Inr p" "ti_process turn = process_snapshot c p"
    and rest: "ti_workflow_now turn = lc_workflow_now c" "ti_turn_id turn = lc_turn_id c"
      "ti_instructions turn = ins (lc_definition c)"
    and events: "load_turn_events st su c db = Inr (ti_events turn)"
    and reviews: "load_turn_reviews c db = Inr (ti_reviews turn)"
    and results: "load_turn_results c db = Inr (ti_action_results turn)"
    and timers: "ti_timer_ids turn = lc_timer_ids c"
    and size: "require_json_bytes (dump_AgentTurnInput st su turn) (ascii ''agent turn context'')
      (cl_max_agent_context_bytes l) = Inr n"
  note bounds = make_ContextLoader_ok [OF assms(1)]
  from events obtain rows where rows: "map ei_id rows = lc_event_ids c"
    "ti_events turn = map (\<lambda>e. (ei_event_data e)\<lparr>ce_process_instance_id := Some (lc_process_instance_id c)\<rparr>) rows"
    "\<forall>e \<in> set rows. e \<in> set (db_events db) \<and> ei_tenant_id e = lc_tenant_id c
       \<and> ei_process_instance_id e = Some (lc_process_instance_id c)
       \<and> ei_correlation_status e = correlation_status.MATCHED"
    by (rule load_turn_events_rows)
  have lengths: "length (ti_events turn) = length (lc_event_ids c)"
    "length (ti_reviews turn) = length (lc_review_command_ids c)"
    "length (ti_action_results turn) = length (lc_action_attempt_ids c)"
    using rows(1,2) load_turn_reviews_rows(1) [OF reviews] load_turn_results_rows(1) [OF results]
    by (metis length_map)+
  have counts: "int (length (lc_event_ids c)) \<le> cl_max_events_per_turn l"
    "int (length (lc_review_command_ids c)) \<le> cl_max_reviews_per_turn l"
    "int (length (lc_action_attempt_ids c)) \<le> cl_max_action_results_per_turn l"
    "int (length (lc_timer_ids c)) \<le> cl_max_timers_per_turn l"
    using ids by (simp_all add: check_turn_ids_def)
  have "\<exists>bytes. canonical_json_bytes (dump_AgentTurnInput st su turn) (ascii ''agent turn context'') = Inr bytes
      \<and> int (length bytes) \<le> max_agent_context_bytes limits"
    using size bounds(5) by (auto simp: require_json_bytes_def Let_def split: if_splits)
  moreover have "int (length (ti_events turn)) \<le> max_events_per_turn limits"
    "int (length (ti_reviews turn)) \<le> max_reviews_per_turn limits"
    "int (length (ti_action_results turn)) \<le> max_action_results_per_turn limits"
    "int (length (ti_timer_ids turn)) \<le> max_timers_per_turn limits"
    unfolding lengths timers using counts bounds(1-4) by linarith+
  moreover note row = load_process_row [OF process(1)]
  have "ti_process turn =
     \<lparr>ps_tenant_id = pi_tenant_id p, ps_process_instance_id = pi_id p,
      ps_process_type = ascii (pi_process_type p), ps_process_definition_version = pi_definition_version p,
      ps_status = pi_status p, ps_authoritative_facts = pi_authoritative_facts p,
      ps_customer_claims = pi_customer_claims p, ps_fact_provenance = pi_fact_provenance p,
      ps_memory_summary = pi_memory_summary p,
      ps_memory_summary_source_event_ids = pi_memory_summary_source_event_ids p,
      ps_memory_summary_source_review_command_ids = pi_memory_summary_source_review_command_ids p,
      ps_memory_summary_source_action_attempt_ids = pi_memory_summary_source_action_attempt_ids p,
      ps_memory_summary_source_timer_ids = pi_memory_summary_source_timer_ids p,
      ps_open_commitments = pi_open_commitments p,
      ps_current_wake_conditions = pi_current_wake_conditions p, ps_state_version = pi_state_version p\<rparr>"
    using process(2) row(2,3) by (simp add: process_snapshot_def)
  ultimately show ?thesis
    using rows load_turn_reviews_rows [OF reviews] load_turn_results_rows [OF results] row timers rest
    by (intro conjI bexI [OF _ row(1)] exI [of _ rows])
qed

section \<open>Calls of the model\<close>

lemma run_agent_turn_calls:
  assumes "tr_calls (run_agent_turn w env c db) \<noteq> [] \<or> (\<exists>r. tr_result (run_agent_turn w env c db) = Inr r)"
  obtains d turn where
    "require_authorized_tenant (ac_tenant_id c) (aw_authorized_tenant_ids w) = Inr ()"
    "get_definition (aw_registry w) (ac_process_definition_id c) (ac_process_definition_version c) = Inr d"
    "load_turn w env c d (tv_before_load env db) = Inr turn"
    "run_agent_turn w env c db = propose w env c d turn (turn_expectation c turn)
       [1..<MAX_SEMANTIC_CORRECTIONS + 2] None [] (tv_before_load env db)"
  using assms by (auto simp: run_agent_turn_def Let_def split: sum.splits if_splits)



section \<open>The decision of a turn\<close>

text \<open>The id of a stored event is the one in its document.\<close>

definition documents_ok :: "Database \<Rightarrow> bool" where
  "documents_ok db \<longleftrightarrow> (\<forall>e \<in> set (db_events db). ce_event_id (ei_event_data e) = ei_id e)"

lemma ingest_documents:
  assumes "documents_ok db" "ingest env c db = Inr (r, db')"
  shows "documents_ok db'"
  using assms(2,1) by (cases rule: ingest_cases) (auto simp: documents_ok_def inbox_row_def)

lemma resolve_quarantine_documents:
  assumes "documents_ok db" "resolve_quarantine st su deployment env c db = Inr (stored, db')"
  shows "documents_ok db'"
proof (cases "find_event_resolution c db")
  case (Some existing)
  then have "db' = db" using assms(2) by (auto simp: resolve_quarantine_def Let_def split: if_splits sum.splits)
  then show ?thesis using assms(1) by simp
next
  case None
  from assms(2) None show ?thesis
  proof (rule resolve_quarantine_new)
    fix row process
    assume "store_resolution env c row process db = Inr (stored, db')"
    then show ?thesis
    proof (rule store_resolution_rows)
      assume "db_events db' = update_rows (\<lambda>e. ei_tenant_id e = qi_tenant_id c \<and> ei_id e = qi_event_id c)
          (correlated_row c (terminal_status (pi_status process))) (db_events db)"
      then show ?thesis using assms(1) by (auto simp: documents_ok_def update_rows_def correlated_row_def)
    qed
  qed
qed

lemma apply_control_documents:
  assumes "documents_ok db" "apply_control env c db = Inr (row, db')"
  shows "documents_ok db'"
proof (cases "find_control c db")
  case (Some existing)
  then show ?thesis using assms by (auto simp: apply_control_def Let_def split: if_splits sum.splits)
next
  case None
  from assms(2) None show ?thesis
  proof (rule apply_control_new)
    fix intervention process'
    assume "store_control env c (strip (ki_reason c)) process' intervention db = Some db'"
    from store_control_events [OF this] show ?thesis
      using assms(1) by (auto simp: documents_ok_def manual_wake_row_def manual_wake_event_def)
  qed
qed

text \<open>The command the workflow sends for the decision of a turn.\<close>

definition decision_command :: "AgentTurnCommand \<Rightarrow> AgentDecision \<Rightarrow> DecisionCommand" where
  "decision_command c decision =
     \<lparr>dm_tenant_id = ac_tenant_id c, dm_process_instance_id = ac_process_instance_id c,
      dm_process_definition_id = ac_process_definition_id c,
      dm_process_definition_version = ac_process_definition_version c, dm_agent_turn_id = ac_turn_id c,
      dm_event_ids = ac_event_ids c, dm_workflow_now = ac_workflow_now c, dm_decision = decision,
      dm_review_command_ids = ac_review_command_ids c, dm_action_attempt_ids = ac_action_attempt_ids c,
      dm_timer_ids = ac_timer_ids c\<rparr>"

lemma turn_expectation_sources:
  assumes "load_turn w env c d db = Inr turn" "documents_ok db"
  shows "tx_event_ids (turn_expectation c turn) = Some (set (ac_event_ids c))"
    "tx_review_command_ids (turn_expectation c turn) = Some (set (ac_review_command_ids c))"
    "tx_action_attempt_ids (turn_expectation c turn) = Some (set (ac_action_attempt_ids c))"
    "tx_timer_ids (turn_expectation c turn) = Some (set (ac_timer_ids c))"
proof -
  have "load_context (tv_show_time env) (tv_show_uuid env) (tv_instructions env) (aw_context_loader w)
      (load_command w c d) db = Inr turn"
    using assms(1) by (auto simp: load_turn_def split: sum.splits)
  then have *: "tx_event_ids (turn_expectation c turn) = Some (set (ac_event_ids c))
    \<and> tx_review_command_ids (turn_expectation c turn) = Some (set (ac_review_command_ids c))
    \<and> tx_action_attempt_ids (turn_expectation c turn) = Some (set (ac_action_attempt_ids c))
    \<and> tx_timer_ids (turn_expectation c turn) = Some (set (ac_timer_ids c))"
  proof (rule load_context_parts)
    assume events: "load_turn_events (tv_show_time env) (tv_show_uuid env) (load_command w c d) db = Inr (ti_events turn)"
      and reviews: "load_turn_reviews (load_command w c d) db = Inr (ti_reviews turn)"
      and results: "load_turn_results (load_command w c d) db = Inr (ti_action_results turn)"
      and timers: "ti_timer_ids turn = lc_timer_ids (load_command w c d)"
    from events obtain rows where rows: "map ei_id rows = ac_event_ids c"
      "ti_events turn = map (\<lambda>e. (ei_event_data e)\<lparr>ce_process_instance_id := Some (ac_process_instance_id c)\<rparr>) rows"
      "\<forall>e \<in> set rows. e \<in> set (db_events db)"
      by (rule load_turn_events_rows) (simp add: load_command_def)
    have "ce_event_id ` set (ti_events turn) = ei_id ` set rows"
      using rows(2,3) assms(2) by (auto simp: documents_ok_def image_image)
    then have "ce_event_id ` set (ti_events turn) = set (ac_event_ids c)" using rows(1) by (metis set_map)
    moreover have "rx_command_id ` set (ti_reviews turn) = set (ac_review_command_ids c)"
      using load_turn_reviews_rows(1) [OF reviews] by (simp add: load_command_def flip: set_map)
    moreover have "rs_attempt_id ` set (ti_action_results turn) = set (ac_action_attempt_ids c)"
      using load_turn_results_rows(1) [OF results] by (simp add: load_command_def flip: set_map)
    ultimately show ?thesis using timers by (simp add: turn_expectation_def load_command_def)
  qed
  then show "tx_event_ids (turn_expectation c turn) = Some (set (ac_event_ids c))"
    "tx_review_command_ids (turn_expectation c turn) = Some (set (ac_review_command_ids c))"
    "tx_action_attempt_ids (turn_expectation c turn) = Some (set (ac_action_attempt_ids c))"
    "tx_timer_ids (turn_expectation c turn) = Some (set (ac_timer_ids c))" by blast+
qed

text \<open>Validation without the conflicts, and without the completion facts where they do not matter, accepts no less.\<close>

lemma validate_again:
  assumes "validate_decision decision p turn = Inr decision"
    and "tx_workflow_now turn' = tx_workflow_now turn" "tx_event_ids turn' = tx_event_ids turn"
    "tx_review_command_ids turn' = tx_review_command_ids turn"
    "tx_action_attempt_ids turn' = tx_action_attempt_ids turn" "tx_timer_ids turn' = tx_timer_ids turn"
    and "tx_conflicted_action_payload_hashes turn' = {}"
    and "tx_enforce_completion_requirements turn' \<longrightarrow> ad_status decision \<noteq> DecisionStatus.COMPLETED"
  shows "validate_decision decision p turn' = Inr decision"
proof -
  obtain now where now: "tx_workflow_now turn = Aware now" and ok: "admissible p turn now decision"
    using assms(1) by (auto simp: validate_decision_admissible)
  have "uses_turn_sources turn' decision = uses_turn_sources turn decision"
    using assms(3-6) by (simp add: uses_turn_sources_def)
  moreover have "completion_allowed p turn' decision"
    using ok assms(8) by (auto simp: admissible_def completion_allowed_def)
  moreover have "actions_allowed p turn' decision"
    using ok assms(7) by (auto simp: admissible_def actions_allowed_def)
  ultimately have "admissible p turn' now decision" using ok by (simp add: admissible_def)
  then show ?thesis using now assms(2) by (simp add: validate_decision_admissible)
qed

text \<open>
  (C21) What the model decides is decided by the checked turn alone: a decision that a turn returns is the answer of the
  provider to the last of at most three calls, made with the context loaded from the database, and passes
  validation against exactly the events, reviews, attempts and timers of the command, all of which it
  cites; handed on with that command, it is never rejected again by the validation of the state
  activity, nor, unless it completes the process, by that of the gateway activity, whatever has
  been committed in between. This assumes that the id of each stored event is the one in its document, which
  is how events are stored and which every operation keeps.
\<close>

theorem turn_decision_stays_valid:
  assumes "run = run_agent_turn w env c db" "tr_result run = Inr (decision, n)"
    and "documents_ok (tv_before_load env db)" "vw_registry v = aw_registry w"
  shows "1 \<le> n \<and> n \<le> 3
    \<and> (\<exists>d turn. get_definition (aw_registry w) (ac_process_definition_id c) (ac_process_definition_version c) = Inr d
         \<and> load_turn w env c d (tv_before_load env db) = Inr turn
         \<and> tr_calls run \<noteq> [] \<and> mc_attempt (last (tr_calls run)) = n \<and> mc_input (last (tr_calls run)) = turn
         \<and> (\<exists>outcome. tv_runner env n turn (mc_correction (last (tr_calls run))) = Inr outcome \<and> mo_decision outcome = decision)
         \<and> validate_decision decision (decision_policy d)
             \<lparr>tx_workflow_now = ac_workflow_now c, tx_event_ids = Some (set (ac_event_ids c)),
              tx_review_command_ids = Some (set (ac_review_command_ids c)),
              tx_action_attempt_ids = Some (set (ac_action_attempt_ids c)), tx_timer_ids = Some (set (ac_timer_ids c)),
              tx_conflicted_action_payload_hashes = set (List.map_filter id (conflicted_hashes turn)),
              tx_current_authoritative_facts = Some (prospective_facts turn),
              tx_enforce_completion_requirements = True\<rparr> = Inr decision)
    \<and> set (ad_based_on_event_ids decision) = set (ac_event_ids c)
    \<and> set (ad_based_on_review_command_ids decision) = set (ac_review_command_ids c)
    \<and> set (ad_based_on_action_attempt_ids decision) = set (ac_action_attempt_ids c)
    \<and> set (ad_based_on_timer_ids decision) = set (ac_timer_ids c)
    \<and> (\<forall>st su i later e. persist_process_state v st su i (decision_command c decision) later \<noteq> Inl (ActivityRejected e))
    \<and> (ad_status decision \<noteq> DecisionStatus.COMPLETED \<longrightarrow>
         (\<forall>g genv later e. persist_agent_actions v g genv (decision_command c decision) later \<noteq> Inl (ActivityRejected e)))"
proof -
  have "tr_calls (run_agent_turn w env c db) \<noteq> [] \<or> (\<exists>r. tr_result (run_agent_turn w env c db) = Inr r)"
    using assms(1,2) by blast
  then show ?thesis
  proof (rule run_agent_turn_calls)
    fix d turn
    assume d: "get_definition (aw_registry w) (ac_process_definition_id c) (ac_process_definition_version c) = Inr d"
      and load: "load_turn w env c d (tv_before_load env db) = Inr turn"
      and "run_agent_turn w env c db = propose w env c d turn (turn_expectation c turn)
        [1..<MAX_SEMANTIC_CORRECTIONS + 2] None [] (tv_before_load env db)"
    then have run: "run = propose w env c d turn (turn_expectation c turn)
        [1..<MAX_SEMANTIC_CORRECTIONS + 2] None [] (tv_before_load env db)" using assms(1) by simp
    let ?m = "decision_command c decision"
    from propose_result [of w env c d turn "turn_expectation c turn" "[1..<MAX_SEMANTIC_CORRECTIONS + 2]" None "[]"
        "tv_before_load env db" decision n]
    have n: "1 \<le> n" "n \<le> 3" and valid: "validate_decision decision (decision_policy d) (turn_expectation c turn) = Inr decision"
      and answer: "tr_calls run \<noteq> []" "answered_by env (last (tr_calls run)) turn n decision"
      using assms(2) unfolding run [symmetric] by (auto simp: MAX_SEMANTIC_CORRECTIONS_def)
    note sources = turn_expectation_sources [OF load assms(3)]
    let ?expected = "\<lparr>tx_workflow_now = ac_workflow_now c, tx_event_ids = Some (set (ac_event_ids c)),
        tx_review_command_ids = Some (set (ac_review_command_ids c)),
        tx_action_attempt_ids = Some (set (ac_action_attempt_ids c)), tx_timer_ids = Some (set (ac_timer_ids c)),
        tx_conflicted_action_payload_hashes = set (List.map_filter id (conflicted_hashes turn)),
        tx_current_authoritative_facts = Some (prospective_facts turn),
        tx_enforce_completion_requirements = True\<rparr>"
    have "turn_expectation c turn = ?expected"
      using sources by (simp add: turn_expectation_def)
    with valid have checked: "validate_decision decision (decision_policy d) ?expected = Inr decision" by simp
    then have cited: "set (ad_based_on_event_ids decision) = set (ac_event_ids c)"
      "set (ad_based_on_review_command_ids decision) = set (ac_review_command_ids c)"
      "set (ad_based_on_action_attempt_ids decision) = set (ac_action_attempt_ids c)"
      "set (ad_based_on_timer_ids decision) = set (ac_timer_ids c)"
      by (auto simp: validate_decision_admissible admissible_def uses_turn_sources_def expected_sources_def)
    have again: "validate_decision decision (decision_policy d) (decision_expectation ?m facts enforce) = Inr decision"
      if "enforce \<longrightarrow> ad_status decision \<noteq> DecisionStatus.COMPLETED" for facts enforce
      using that by (intro validate_again [OF valid])
        (simp_all add: decision_expectation_def decision_command_def sources, simp add: turn_expectation_def)
    have found: "worker_definition v ?m = Inr d"
      using d assms(4) by (simp add: worker_definition_def decision_command_def)
    have m: "dm_decision ?m = decision" by (simp add: decision_command_def)
    have state: "persist_process_state v st su i ?m later \<noteq> Inl (ActivityRejected e)" for st su i later e
      using again [of False None] found m
      by (auto simp: persist_process_state_def authorize_worker_def worker_active_tenant_def activity_document_def
          activity_validated_def check_AgentDecision_ok bind_result_Inl split: sum.splits option.splits)
    have gateway: "persist_agent_actions v g genv ?m later \<noteq> Inl (ActivityRejected e)"
      if "ad_status decision \<noteq> DecisionStatus.COMPLETED" for g genv later e
      using again [of True "Some []"] found m that
      by (auto simp: persist_agent_actions_def authorize_worker_def worker_active_tenant_def activity_document_def
          activity_validated_def check_AgentDecision_ok bind_result_Inl split: sum.splits option.splits)
    have called: "mc_attempt (last (tr_calls run)) = n" "mc_input (last (tr_calls run)) = turn"
      "\<exists>outcome. tv_runner env n turn (mc_correction (last (tr_calls run))) = Inr outcome \<and> mo_decision outcome = decision"
      using answer(2) by (simp_all add: answered_by_def)
    show ?thesis
      using n state gateway cited by (intro conjI exI [of _ d] exI [of _ turn] d load answer(1) called checked) blast+
  qed
qed

section \<open>The size of plain text\<close>

text \<open>The JSON form of values whose strings need no escapes, without sorting or encoding them.\<close>

definition plain :: "unicode \<Rightarrow> bool" where
  "plain s \<longleftrightarrow> list_all (\<lambda>c. 32 \<le> c \<and> c < 127 \<and> c \<noteq> 34 \<and> c \<noteq> 92) s"

fun plain_json :: "json \<Rightarrow> bool" where
  "plain_json JNull = True"
| "plain_json (JBool b) = True"
| "plain_json (JInt i) = (0 \<le> i \<and> i < 10)"
| "plain_json (JStr s) = plain s"
| "plain_json (JArr xs) = list_all plain_json xs"
| "plain_json (JObj kvs) = list_all (\<lambda>(k, v). plain k \<and> plain_json v) kvs"
| "plain_json (JFloat m k t) = False"
| "plain_json JUnsupported = False"

fun plain_size :: "json \<Rightarrow> nat" where
  "plain_size JNull = 4"
| "plain_size (JBool b) = 5"
| "plain_size (JInt i) = 1"
| "plain_size (JStr s) = length s + 2"
| "plain_size (JArr xs) = 2 + sum_list (map (\<lambda>x. Suc (plain_size x)) xs)"
| "plain_size (JObj kvs) = 2 + sum_list (map (\<lambda>(k, v). length k + 4 + plain_size v) kvs)"
| "plain_size (JFloat m k t) = length t"
| "plain_size JUnsupported = 0"

lemma dump_plain:
  assumes "plain s"
  shows "dump_string False s = [34] @ s @ [34]"
proof -
  have "concat (map (escape_char False) s) = s"
    using assms by (induction s) (simp_all add: plain_def escape_char_def)
  then show ?thesis by (simp add: dump_string_def)
qed

lemma plain_ascii: "plain s \<Longrightarrow> list_all (\<lambda>c. c < 128) s"
  by (auto simp: plain_def list_all_iff)

lemma join_with_size: "length (join_with [x] ts) \<le> sum_list (map (\<lambda>t. Suc (length t)) ts)"
  by (induction "[x]" ts rule: join_with.induct) simp_all

lemma join_with_ascii: "(\<forall>t \<in> set ts. list_all P t) \<Longrightarrow> list_all P sep \<Longrightarrow> list_all P (join_with sep ts)"
  by (induction sep ts rule: join_with.induct) simp_all

lemma utf8_ascii: "list_all (\<lambda>c. c < 128) t \<Longrightarrow> utf8_encode t = Some t"
  by (induction t) (simp_all add: utf8_char_def)

lemma sum_list_insort: "sum_list (map f (insort_key key x xs)) = f x + (sum_list (map f xs) :: nat)"
  by (induction xs) simp_all

lemma sum_list_sort: "sum_list (map f (sort_fields ts)) = (sum_list (map f ts) :: nat)"
  unfolding sort_fields_def by (induction ts) (simp_all add: sum_list_insort)

lemma dump_plain_json:
  "\<not> ea \<Longrightarrow> plain_json j \<Longrightarrow> \<exists>t. dump_json ea j = Some t \<and> length t \<le> plain_size j \<and> list_all (\<lambda>c. c < 128) t"
  "\<not> ea \<Longrightarrow> list_all plain_json xs \<Longrightarrow> \<exists>ts. dump_items ea xs = Some ts
     \<and> sum_list (map (\<lambda>t. Suc (length t)) ts) \<le> sum_list (map (\<lambda>x. Suc (plain_size x)) xs)
     \<and> (\<forall>t \<in> set ts. list_all (\<lambda>c. c < 128) t)"
  "\<not> ea \<Longrightarrow> list_all (\<lambda>(k, v). plain k \<and> plain_json v) kvs \<Longrightarrow> \<exists>ts. dump_fields ea kvs = Some ts
     \<and> sum_list (map (\<lambda>(k, t). length k + 4 + length t) ts) \<le> sum_list (map (\<lambda>(k, v). length k + 4 + plain_size v) kvs)
     \<and> (\<forall>(k, t) \<in> set ts. plain k \<and> list_all (\<lambda>c. c < 128) t)"
proof (induction ea j and ea xs and ea kvs rule: dump_json_dump_items_dump_fields.induct)
  case (3 ea i)
  then have "dump_int i = [48 + nat i]" by (simp add: dump_int_def dump_nat.simps nat_less_iff)
  moreover have "nat i < 80" using 3 by auto
  ultimately show ?case by simp
next
  case (5 ea s)
  then show ?case using plain_ascii by (simp add: dump_plain)
next
  case (7 ea xs)
  then obtain ts where ts: "dump_items ea xs = Some ts"
    "sum_list (map (\<lambda>t. Suc (length t)) ts) \<le> sum_list (map (\<lambda>x. Suc (plain_size x)) xs)"
    "\<forall>t \<in> set ts. list_all (\<lambda>c. c < 128) t" by auto
  then show ?case using join_with_size [of 44 ts] join_with_ascii [of ts "\<lambda>c. c < 128" "[44]"] by simp
next
  case (8 ea kvs)
  then obtain ts where ts: "dump_fields ea kvs = Some ts"
    "sum_list (map (\<lambda>(k, t). length k + 4 + length t) ts) \<le> sum_list (map (\<lambda>(k, v). length k + 4 + plain_size v) kvs)"
    "\<forall>(k, t) \<in> set ts. plain k \<and> list_all (\<lambda>c. c < 128) t" by auto
  let ?fs = "map (\<lambda>(k, t). dump_string ea k @ [58] @ t) (sort_fields ts)"
  have plain: "\<forall>(k, t) \<in> set (sort_fields ts). plain k \<and> list_all (\<lambda>c. c < 128) t"
    using ts(3) by (simp add: sort_fields_def)
  then have "map (\<lambda>t. Suc (length t)) ?fs = map (\<lambda>(k, t). length k + 4 + length t) (sort_fields ts)"
    using 8 by (auto simp: dump_plain)
  then have "length (join_with [44] ?fs) \<le> sum_list (map (\<lambda>(k, t). length k + 4 + length t) ts)"
    using join_with_size [of 44 ?fs] by (simp only: sum_list_sort)
  moreover have "list_all (\<lambda>c. c < 128) (join_with [44] ?fs)"
  proof (rule join_with_ascii)
    show "\<forall>f \<in> set ?fs. list_all (\<lambda>c. c < 128) f"
      using plain 8(2) by (fastforce simp: dump_plain plain_ascii)
  qed simp
  ultimately show ?case using ts(1,2) by simp
qed (auto simp: ascii_def)

lemma plain_fits:
  assumes "plain_json j" "int (plain_size j) \<le> limit"
  shows "\<exists>n. require_json_bytes j label limit = Inr n"
proof -
  obtain t where "dump_json False j = Some t" "length t \<le> plain_size j" "list_all (\<lambda>c. c < 128) t"
    using dump_plain_json(1) [of False j] assms(1) by auto
  then show ?thesis using assms(2) by (simp add: require_json_bytes_ok json_size_def utf8_ascii fits_def)
qed
section \<open>Instances\<close>

text \<open>A turn woken by a timer.\<close>

definition turn_decision :: AgentDecision where
  "turn_decision =
     \<lparr>ad_decision_id = 40, ad_based_on_event_ids = [], ad_based_on_review_command_ids = [],
      ad_based_on_action_attempt_ids = [], ad_based_on_timer_ids = [''t''], ad_status = DecisionStatus.WAITING,
      ad_actions = [], ad_wake_conditions = [EventWakeCondition ''customer.replied''],
      ad_memory_update = empty_MemoryUpdate\<rparr>"

definition sample_loader :: ContextLoader where
  "sample_loader =
     \<lparr>cl_max_events_per_turn = 1, cl_max_reviews_per_turn = 1, cl_max_action_results_per_turn = 1,
      cl_max_timers_per_turn = 1, cl_max_agent_context_bytes = 5000, cl_limits = DEFAULT_PLATFORM_SAFETY_LIMITS\<rparr>"

definition sample_worker :: AgentTurnActivities where
  "sample_worker =
     \<lparr>aw_registry = [((''enquiry'', ascii ''1''), sample_definition)],
      aw_compatibility = xt_compatibility sample_executor, aw_deployment_release = sample_release,
      aw_context_loader = sample_loader, aw_authorized_tenant_ids = None, aw_model_prices = DEFAULT_MODEL_PRICES,
      aw_tenant_spend_caps = DEFAULT_TENANT_SPEND_CAPS, aw_platform_model_paused = False\<rparr>"

definition sample_turn_command :: AgentTurnCommand where
  "sample_turn_command =
     \<lparr>ac_tenant_id = 1, ac_process_instance_id = 2, ac_process_definition_id = ''enquiry'',
      ac_process_definition_version = ascii ''1'', ac_turn_id = 41, ac_event_ids = [], ac_workflow_now = Aware 7,
      ac_review_command_ids = [], ac_action_attempt_ids = [], ac_timer_ids = [''t'']\<rparr>"

text \<open>The first answer of this provider cites no timer and is rejected; the second is accepted.\<close>

definition sample_turn_env :: TurnEnv where
  "sample_turn_env =
     \<lparr>tv_execution_id = 42, tv_usage_id = (\<lambda>n. 43 + n), tv_before_load = (\<lambda>db. db), tv_before_fence = (\<lambda>n db. db),
      tv_before_record = (\<lambda>n db. db),
      tv_runner = (\<lambda>n turn correction. Inr \<lparr>mo_decision =
        (if correction = None then turn_decision\<lparr>ad_based_on_timer_ids := []\<rparr> else turn_decision),
        mo_usage = \<lparr>us_input_tokens = 100, us_output_tokens = 10\<rparr>, mo_model = ascii ''gpt-4o''\<rparr>),
      tv_show_time = (\<lambda>_. ascii ''t''), tv_show_uuid = (\<lambda>_. ascii ''u''), tv_instructions = (\<lambda>_. ascii ''i'')\<rparr>"

definition sample_turn_input :: AgentTurnInput where
  "sample_turn_input =
     \<lparr>ti_turn_id = 41, ti_workflow_now = Some (Aware 7),
      ti_process = process_snapshot (load_command sample_worker sample_turn_command sample_definition) sample_process,
      ti_events = [], ti_reviews = [], ti_action_results = [], ti_timer_ids = [''t''], ti_instructions = ascii ''i''\<rparr>"


lemma sample_context_plain: "plain_json (dump_AgentTurnInput (\<lambda>_. ascii ''t'') (\<lambda>_. ascii ''u'') sample_turn_input)"
  by code_simp
lemma sample_context_size: "plain_size (dump_AgentTurnInput (\<lambda>_. ascii ''t'') (\<lambda>_. ascii ''u'') sample_turn_input) \<le> 5000"
  by code_simp

lemma sample_loader_made:
  "make_ContextLoader DEFAULT_PLATFORM_SAFETY_LIMITS (Some 1) (Some 1) (Some 1) (Some 1) (Some 5000) = Inr sample_loader"
  by code_simp

lemma sample_context:
  "load_context (\<lambda>_. ascii ''t'') (\<lambda>_. ascii ''u'') (\<lambda>_. ascii ''i'') sample_loader
     (load_command sample_worker sample_turn_command sample_definition) sample_database = Inr sample_turn_input"
proof -
  let ?c = "load_command sample_worker sample_turn_command sample_definition"
  have "check_turn_ids sample_loader ?c = Inr ()" by code_simp
  moreover have "load_process ?c sample_database = Inr sample_process" by code_simp
  moreover have "load_turn_events (\<lambda>_. ascii ''t'') (\<lambda>_. ascii ''u'') ?c sample_database = Inr []" by code_simp
  moreover have "load_turn_reviews ?c sample_database = Inr []" by code_simp
  moreover have "load_turn_results ?c sample_database = Inr []" by code_simp
  moreover have "cl_limits sample_loader = DEFAULT_PLATFORM_SAFETY_LIMITS" "cl_max_agent_context_bytes sample_loader = 5000"
    by (simp_all add: sample_loader_def)
  moreover have "check_turn_content DEFAULT_PLATFORM_SAFETY_LIMITS sample_process [] [] = Inr ()" by code_simp
  moreover have "require_safe_fact_projection DEFAULT_PLATFORM_SAFETY_LIMITS sample_process [] [] = Inr ()" by code_simp
  moreover have "check_turn_input sample_turn_input = Inr ()" by code_simp
  moreover obtain n where "require_json_bytes (dump_AgentTurnInput (\<lambda>_. ascii ''t'') (\<lambda>_. ascii ''u'') sample_turn_input)
      (ascii ''agent turn context'') 5000 = Inr n"
    using plain_fits [OF sample_context_plain, of 5000] sample_context_size by auto
  moreover have "\<lparr>ti_turn_id = lc_turn_id ?c, ti_workflow_now = lc_workflow_now ?c, ti_process = process_snapshot ?c sample_process,
      ti_events = [], ti_reviews = [], ti_action_results = [], ti_timer_ids = lc_timer_ids ?c,
      ti_instructions = ascii ''i''\<rparr> = sample_turn_input"
    by (simp add: sample_turn_input_def load_command_def sample_turn_command_def)
  ultimately show ?thesis by (simp add: load_context_def)
qed

lemma sample_first_fence:
  "require_model_execution_allowed sample_worker sample_turn_command sample_definition sample_database = Inr ()"
  by code_simp

definition sample_outcome :: "AgentDecision \<Rightarrow> ModelTurnOutcome" where
  "sample_outcome decision =
     \<lparr>mo_decision = decision, mo_usage = \<lparr>us_input_tokens = 100, us_output_tokens = 10\<rparr>, mo_model = ascii ''gpt-4o''\<rparr>"

definition citing_nothing :: AgentDecision where
  "citing_nothing = turn_decision\<lparr>ad_based_on_timer_ids := []\<rparr>"


text \<open>The ledger rows of the calls.\<close>

definition sample_row :: "nat \<Rightarrow> ModelUsageLedger" where
  "sample_row n =
     \<lparr>ul_id = 43 + n, ul_tenant_id = 1, ul_process_instance_id = 2, ul_agent_turn_id = 41, ul_execution_id = 42,
      ul_attempt_number = int n, ul_model = ascii ''gpt-4o'', ul_input_tokens = 100, ul_output_tokens = 10,
      ul_cost_micros = 350, ul_price_table_version = PRICE_TABLE_VERSION\<rparr>"

lemma sample_row_id: "ul_id (sample_row n) = 43 + n" "ul_attempt_number (sample_row n) = int n"
  by (simp_all add: sample_row_def)

lemma sample_charge:
  assumes "1 \<le> n" "\<forall>r \<in> set (db_usage db). ul_id r \<noteq> 43 + n \<and> ul_attempt_number r \<noteq> int n"
  shows "record_model_usage sample_worker sample_turn_env sample_turn_command n (sample_outcome decision) db
    = Inr (db\<lparr>db_usage := db_usage db @ [sample_row n]\<rparr>)"
proof -
  have cost: "estimate_cost_micros (ascii ''gpt-4o'') \<lparr>us_input_tokens = 100, us_output_tokens = 10\<rparr> DEFAULT_MODEL_PRICES = Inr 350"
    by code_simp
  have row: "usage_row (43 + n) (usage_of_call sample_turn_env sample_turn_command n (sample_outcome decision) 350) = sample_row n"
    by (simp add: usage_row_def usage_of_call_def sample_row_def sample_outcome_def sample_turn_env_def sample_turn_command_def)
  have name: "strip (ascii ''gpt-4o'') \<noteq> []" by code_simp
  have ins: "insert_ignore (\<lambda>r s. usage_key r = usage_key s) (\<lambda>r s. ul_id r = ul_id s) (sample_row n) (db_usage db)
      = Inserted (db_usage db @ [sample_row n])"
    unfolding insert_ignore_Inserted using assms(2) by (auto simp: usage_key_def sample_row_def)
  have "uc_attempt_number (usage_of_call sample_turn_env sample_turn_command n (sample_outcome decision) 350) = int n"
    "uc_model (usage_of_call sample_turn_env sample_turn_command n (sample_outcome decision) 350) = ascii ''gpt-4o''"
    "uc_cost_micros (usage_of_call sample_turn_env sample_turn_command n (sample_outcome decision) 350) = 350"
    "uc_price_table_version (usage_of_call sample_turn_env sample_turn_command n (sample_outcome decision) 350) = PRICE_TABLE_VERSION"
    by (simp_all add: usage_of_call_def sample_outcome_def)
  moreover have "mo_model (sample_outcome decision) = ascii ''gpt-4o''"
    "mo_usage (sample_outcome decision) = \<lparr>us_input_tokens = 100, us_output_tokens = 10\<rparr>"
    "aw_model_prices sample_worker = DEFAULT_MODEL_PRICES" "tv_usage_id sample_turn_env n = 43 + n"
    by (simp_all add: sample_outcome_def sample_worker_def sample_turn_env_def)
  ultimately show ?thesis
    using assms(1) by (simp add: record_model_usage_def record_usage_def cost row name ins PRICE_TABLE_VERSION_def)
qed

lemma sample_second_fence:
  "require_model_execution_allowed sample_worker sample_turn_command sample_definition
     (sample_database\<lparr>db_usage := [sample_row 1]\<rparr>) = Inr ()"
  by code_simp

lemma sample_usage_empty: "db_usage sample_database = []"
  by (simp add: sample_database_def empty_database_def)

lemma sample_rejected: "validate_decision citing_nothing (decision_policy sample_definition)
   (turn_expectation sample_turn_command sample_turn_input) = Inl TimersMismatch"
  by code_simp

lemma sample_accepted: "validate_decision turn_decision (decision_policy sample_definition)
   (turn_expectation sample_turn_command sample_turn_input) = Inr turn_decision"
  by code_simp

lemma sample_provider:
  "tv_runner sample_turn_env n turn None = Inr (sample_outcome citing_nothing)"
  "tv_runner sample_turn_env n turn (Some x) = Inr (sample_outcome turn_decision)"
  "tv_before_load sample_turn_env db = db" "tv_before_fence sample_turn_env n db = db" "tv_before_record sample_turn_env n db = db"
  by (simp_all add: sample_turn_env_def sample_outcome_def citing_nothing_def)

lemma sample_decision: "mo_decision (sample_outcome decision) = decision"
  by (simp add: sample_outcome_def)

lemma sample_turn_run:
  "tr_result (run_agent_turn sample_worker sample_turn_env sample_turn_command sample_database) = Inr (turn_decision, 2)
   \<and> map mc_attempt (tr_calls (run_agent_turn sample_worker sample_turn_env sample_turn_command sample_database)) = [1, 2]"
proof -
  have load: "load_turn sample_worker sample_turn_env sample_turn_command sample_definition sample_database = Inr sample_turn_input"
  proof -
    have "require_active_tenant (ac_tenant_id sample_turn_command)
        (Some (dr_deployment_id (aw_deployment_release sample_worker))) sample_database = Inr ()" by code_simp
    then show ?thesis using sample_context by (simp add: load_turn_def sample_turn_env_def sample_worker_def)
  qed
  have "require_authorized_tenant (ac_tenant_id sample_turn_command) (aw_authorized_tenant_ids sample_worker) = Inr ()"
    by code_simp
  moreover have "get_definition (aw_registry sample_worker) (ac_process_definition_id sample_turn_command)
      (ac_process_definition_version sample_turn_command) = Inr sample_definition" by code_simp
  moreover have "conflicted_hashes sample_turn_input = []" by (simp add: conflicted_hashes_def sample_turn_input_def)
  moreover have "[1..<(2::nat) + 2] = [1, 2, 3]" by (simp add: MAX_SEMANTIC_CORRECTIONS_def upt_rec)
  ultimately show ?thesis
    by (simp add: run_agent_turn_def Let_def sample_provider load sample_first_fence sample_charge sample_usage_empty
        sample_second_fence sample_row_id sample_rejected sample_accepted is_rejection_def
        MAX_SEMANTIC_CORRECTIONS_def sample_decision del: One_nat_def)
qed


theorem turn_context_isolated_witness:
  "int (length (ti_timer_ids sample_turn_input)) \<le> max_timers_per_turn DEFAULT_PLATFORM_SAFETY_LIMITS
    \<and> ps_tenant_id (ti_process sample_turn_input) = 1 \<and> ps_process_instance_id (ti_process sample_turn_input) = 2
    \<and> map rs_attempt_id (ti_action_results sample_turn_input) = []
    \<and> (\<exists>bytes. canonical_json_bytes (dump_AgentTurnInput (\<lambda>_. ascii ''t'') (\<lambda>_. ascii ''u'') sample_turn_input)
           (ascii ''agent turn context'') = Inr bytes
         \<and> int (length bytes) \<le> max_agent_context_bytes DEFAULT_PLATFORM_SAFETY_LIMITS)"
proof -
  have "lc_action_attempt_ids (load_command sample_worker sample_turn_command sample_definition) = []"
    "lc_tenant_id (load_command sample_worker sample_turn_command sample_definition) = 1"
    "lc_process_instance_id (load_command sample_worker sample_turn_command sample_definition) = 2"
    by (simp_all add: load_command_def sample_turn_command_def)
  then show ?thesis using turn_context_isolated [OF sample_loader_made sample_context] by auto
qed


theorem turn_decision_stays_valid_witness:
  "set (ad_based_on_timer_ids turn_decision) = {''t''}
   \<and> mc_attempt (last (tr_calls (run_agent_turn sample_worker sample_turn_env sample_turn_command sample_database))) = 2
   \<and> (\<forall>st su i later e. persist_process_state
     \<lparr>vw_registry = aw_registry sample_worker, vw_deployment_release = None, vw_authorized_tenant_ids = None\<rparr>
     st su i (decision_command sample_turn_command turn_decision) later \<noteq> Inl (ActivityRejected e))"
proof -
  have "documents_ok (tv_before_load sample_turn_env sample_database)"
    by (simp add: documents_ok_def sample_provider sample_database_def empty_database_def)
  moreover have "set (ac_timer_ids sample_turn_command) = {''t''}" by (simp add: sample_turn_command_def)
  ultimately show ?thesis
    using sample_turn_run turn_decision_stays_valid [OF refl, of sample_worker sample_turn_env sample_turn_command sample_database
      turn_decision 2 "\<lparr>vw_registry = aw_registry sample_worker, vw_deployment_release = None,
        vw_authorized_tenant_ids = None\<rparr>"] by auto
qed

end
