(* ===== verification/Access.thy ===== *)
theory Access
  imports Identity Outbox
begin

text \<open>
  \<open>security\<close> and \<open>api/operator_auth.py\<close>: who may act for a tenant. Bearer credentials are issued
  and revoked, tenants created and assigned to a deployment, each change by one audited
  transaction; a request is authenticated by the credential in its header and bound to the
  tenant of that credential.
\<close>

section \<open>Text\<close>

text \<open>
  \<open>str.lower\<close> as far as the patterns below can see it: besides the capital letters of ASCII only
  the Kelvin sign becomes an ASCII letter, and every other code point stays outside of ASCII.
\<close>

definition lower_char :: "nat \<Rightarrow> nat" where
  "lower_char c = (if 65 \<le> c \<and> c \<le> 90 then c + 32 else if c = 8490 then 107 else c)"

definition lower :: "unicode \<Rightarrow> unicode" where
  "lower s = map lower_char s"

definition is_lower :: "nat \<Rightarrow> bool" where
  "is_lower c \<longleftrightarrow> 97 \<le> c \<and> c \<le> 122"

definition is_digit :: "nat \<Rightarrow> bool" where
  "is_digit c \<longleftrightarrow> 48 \<le> c \<and> c \<le> 57"

text \<open>\<open>_DEPLOYMENT_ID_PATTERN\<close> and \<open>_SLUG_PATTERN\<close>, which are the same.\<close>

definition slug_matches :: "unicode \<Rightarrow> bool" where
  "slug_matches s \<longleftrightarrow>
     s \<noteq> [] \<and> length s \<le> 63 \<and> is_lower (hd s) \<and> list_all (\<lambda>c. is_lower c \<or> is_digit c \<or> c = 45) (tl s)"

definition role_matches :: "unicode \<Rightarrow> bool" where
  "role_matches s \<longleftrightarrow>
     s \<noteq> [] \<and> length s \<le> 100 \<and> is_lower (hd s)
     \<and> list_all (\<lambda>c. is_lower c \<or> is_digit c \<or> c \<in> {95, 46, 58, 45}) (tl s)"

definition secret_matches :: "unicode \<Rightarrow> bool" where
  "secret_matches s \<longleftrightarrow>
     43 \<le> length s \<and> length s \<le> 128
     \<and> list_all (\<lambda>c. is_lower c \<or> is_digit c \<or> (65 \<le> c \<and> c \<le> 90) \<or> c = 95 \<or> c = 45) s"

fun split_on :: "'a \<Rightarrow> 'a list \<Rightarrow> 'a list list" where
  "split_on sep [] = [[]]"
| "split_on sep (c # cs) =
     (if c = sep then [] # split_on sep cs
      else (case split_on sep cs of [] \<Rightarrow> [[c]] | part # parts \<Rightarrow> (c # part) # parts))"

section \<open>\<open>UUID(text)\<close>\<close>

text \<open>\<open>str.replace(old, '')\<close>.\<close>

fun remove_text :: "'a list \<Rightarrow> 'a list \<Rightarrow> 'a list" where
  "remove_text old [] = []"
| "remove_text old (c # cs) =
     (if old \<noteq> [] \<and> take (length old) (c # cs) = old then remove_text old (drop (length old - 1) cs)
      else c # remove_text old cs)"

definition strip_braces :: "unicode \<Rightarrow> unicode" where
  "strip_braces s = (let brace = (\<lambda>c. c = 123 \<or> c = 125) in rev (dropWhile brace (rev (dropWhile brace s))))"

text \<open>The zeros of the decimal digits of Unicode 15.1 beyond ASCII, which is what Python 3.13 knows.\<close>

definition decimal_zeros :: "nat list" where
  "decimal_zeros =
     [1632, 1776, 1984, 2406, 2534, 2662, 2790, 2918, 3046, 3174, 3302, 3430, 3558, 3664, 3792, 3872,
      4160, 4240, 6112, 6160, 6470, 6608, 6784, 6800, 6992, 7088, 7232, 7248, 42528, 43216, 43264, 43472,
      43504, 43600, 44016, 65296, 66720, 68912, 69734, 69872, 69942, 70096, 70384, 70736, 70864, 71248,
      71360, 71472, 71904, 72016, 72784, 73040, 73120, 73552, 92768, 92864, 93008, 120782, 120792, 120802,
      120812, 120822, 123200, 123632, 124144, 125264, 130032]"

text \<open>The text \<open>int\<close> reads: other digits and blanks in their ASCII form.\<close>

definition numeric_char :: "nat \<Rightarrow> nat" where
  "numeric_char c =
     (if c < 127 then c
      else if is_space c then 32
      else (case find (\<lambda>z. z \<le> c \<and> c < z + 10) decimal_zeros of None \<Rightarrow> 63 | Some z \<Rightarrow> 48 + (c - z)))"

definition blank_char :: "nat \<Rightarrow> bool" where
  "blank_char c \<longleftrightarrow> (9 \<le> c \<and> c \<le> 13) \<or> c = 32"

definition digit_value :: "nat \<Rightarrow> nat option" where
  "digit_value c =
     (if is_digit c then Some (c - 48)
      else if 97 \<le> c \<and> c \<le> 102 then Some (c - 87)
      else if 65 \<le> c \<and> c \<le> 70 then Some (c - 55)
      else None)"

text \<open>The digits, with single underscores between them; \<open>needs_digit\<close> where a digit must follow.\<close>

fun hex_body :: "bool \<Rightarrow> nat \<Rightarrow> unicode \<Rightarrow> nat option" where
  "hex_body needs_digit acc [] = (if needs_digit then None else Some acc)"
| "hex_body needs_digit acc (c # cs) =
     (if c = 95 then (if needs_digit then None else hex_body True acc cs)
      else (case digit_value c of
              Some d \<Rightarrow> hex_body False (16 * acc + d) cs
            | None \<Rightarrow> if \<not> needs_digit \<and> list_all blank_char (c # cs) then Some acc else None))"

definition skip_plus :: "unicode \<Rightarrow> unicode" where
  "skip_plus s = (case s of [] \<Rightarrow> [] | c # cs \<Rightarrow> if c = 43 then cs else s)"

definition skip_base :: "unicode \<Rightarrow> unicode" where
  "skip_base s =
     (case s of
        a # b # cs \<Rightarrow>
          if a = 48 \<and> (b = 120 \<or> b = 88)
          then (case cs of [] \<Rightarrow> [] | u # rest \<Rightarrow> if u = 95 then rest else cs)
          else s
      | _ \<Rightarrow> s)"

text \<open>\<open>int(text, 16)\<close> on a text without minus signs.\<close>

definition int_base16 :: "unicode \<Rightarrow> nat option" where
  "int_base16 s = hex_body True 0 (skip_base (skip_plus (dropWhile blank_char (map numeric_char s))))"

definition uuid_of_text :: "unicode \<Rightarrow> uuid option" where
  "uuid_of_text text =
     (let hex = remove_text [45] (strip_braces (remove_text (ascii ''uuid:'') (remove_text (ascii ''urn:'') text)))
      in if length hex \<noteq> 32 then None else int_base16 hex)"

section \<open>Credentials\<close>

datatype CredentialScope =
    EVENTS_INGEST | QUARANTINE_READ | QUARANTINE_RESOLVE | PROCESSES_READ | REVIEWS_READ
  | REVIEWS_COMMENT | REVIEWS_DECIDE | PROCESSES_CONTROL | OUTBOX_READ | OUTBOX_REQUEUE

fun scope_value :: "CredentialScope \<Rightarrow> unicode" where
  "scope_value EVENTS_INGEST = ascii ''events:ingest''"
| "scope_value QUARANTINE_READ = ascii ''quarantine:read''"
| "scope_value QUARANTINE_RESOLVE = ascii ''quarantine:resolve''"
| "scope_value PROCESSES_READ = ascii ''processes:read''"
| "scope_value REVIEWS_READ = ascii ''reviews:read''"
| "scope_value REVIEWS_COMMENT = ascii ''reviews:comment''"
| "scope_value REVIEWS_DECIDE = ascii ''reviews:decide''"
| "scope_value PROCESSES_CONTROL = ascii ''processes:control''"
| "scope_value OUTBOX_READ = ascii ''outbox:read''"
| "scope_value OUTBOX_REQUEUE = ascii ''outbox:requeue''"

record ParsedCredential =
  pc_tenant :: uuid
  pc_credential_id :: uuid
  pc_secret :: unicode

record IssuedCredential =
  ic_tenant_id :: uuid
  ic_credential_id :: uuid
  ic_actor_id :: uuid
  ic_token :: unicode
  ic_secret_hash :: unicode

definition TOKEN_PREFIX :: unicode where
  "TOKEN_PREFIX = ascii ''tiramisu_v1''"

definition hash_secret :: "unicode \<Rightarrow> unicode option" where
  "hash_secret secret = map_option (\<lambda>bytes. hexdigest (sha256 bytes)) (utf8_encode secret)"

text \<open>\<open>secret\<close> is the answer of \<open>secrets.token_urlsafe(32)\<close>.\<close>

definition issue_credential :: "uuid \<Rightarrow> uuid \<Rightarrow> uuid \<Rightarrow> unicode \<Rightarrow> IssuedCredential option" where
  "issue_credential tenant actor resolved_id secret =
     map_option (\<lambda>h. \<lparr>ic_tenant_id = tenant, ic_credential_id = resolved_id, ic_actor_id = actor,
         ic_token = TOKEN_PREFIX @ [46] @ uuid_str tenant @ [46] @ uuid_str resolved_id @ [46] @ secret,
         ic_secret_hash = h\<rparr>)
       (hash_secret secret)"

text \<open>\<open>None\<close> is the single error \<open>credential is malformed\<close>.\<close>

definition parse_credential :: "unicode \<Rightarrow> ParsedCredential option" where
  "parse_credential token =
     (if 512 < length token then None
      else (case split_on 46 token of
              [prefix, tenant, credential, secret] \<Rightarrow>
                if prefix \<noteq> TOKEN_PREFIX then None
                else (case (uuid_of_text tenant, uuid_of_text credential) of
                        (Some t, Some c) \<Rightarrow>
                          if secret_matches secret
                          then Some \<lparr>pc_tenant = t, pc_credential_id = c, pc_secret = secret\<rparr>
                          else None
                      | _ \<Rightarrow> None)
            | _ \<Rightarrow> None))"

definition credential_secret_matches :: "unicode \<Rightarrow> unicode \<Rightarrow> bool" where
  "credential_secret_matches secret expected = (hash_secret secret = Some expected)"

section \<open>Services\<close>

datatype access_error =
    BadDeploymentId
  | ReservedDeployment
  | AssignmentReasonMissing
  | AssignmentReasonTooLong
  | AccessTenantUnavailable
  | ActiveProcesses
  | OutstandingDeliveries
  | BadTenantSlug
  | BadTenantName
  | TenantExists
  | LocalTenantConflict
  | BadCredentialName
  | NoScope
  | DuplicateScopes
  | DuplicateRoles
  | BadRole
  | NaiveExpiry
  | PastExpiry
  | SecretNotEncodable
  | CredentialIdTaken
  | CredentialUnavailable
  | RevocationUnrecorded

definition UNASSIGNED :: string where
  "UNASSIGNED = ''unassigned''"

definition normalize_deployment_id :: "unicode \<Rightarrow> access_error + string" where
  "normalize_deployment_id text =
     (let normalized = lower (strip text) in
      if slug_matches normalized then Inr (map (\<lambda>c. char_of c) normalized) else Inl BadDeploymentId)"

record TenantDeploymentResult =
  td_tenant_id :: uuid
  td_previous_deployment_id :: string
  td_deployment_id :: string
  td_changed :: bool
  td_event_id :: "uuid option"

record AssignCommand =
  an_tenant_id :: uuid
  an_deployment_id :: unicode
  an_actor_id :: uuid
  an_reason :: unicode

definition live_processes :: "uuid \<Rightarrow> Database \<Rightarrow> ProcessInstance list" where
  "live_processes tenant db =
     filter (\<lambda>p. pi_tenant_id p = tenant \<and> \<not> terminal_status (pi_status p)) (db_processes db)"

definition outstanding_deliveries :: "uuid \<Rightarrow> string \<Rightarrow> Database \<Rightarrow> (OutboxMessage \<times> ProcessInstance) list" where
  "outstanding_deliveries tenant previous db =
     filter (\<lambda>(m, p). pi_tenant_id p = om_tenant_id m \<and> om_process_instance_id m = Some (pi_id p)
         \<and> om_tenant_id m = tenant \<and> pi_deployment_id p = previous \<and> om_status m \<noteq> outbox_status.PUBLISHED)
       (List.product (db_outbox db) (db_processes db))"

definition move_tenant :: "uuid \<Rightarrow> AssignCommand \<Rightarrow> unicode \<Rightarrow> string \<Rightarrow> string \<Rightarrow> Database \<Rightarrow> Database" where
  "move_tenant new_id c reason previous target db =
     db\<lparr>db_tenants := update_rows (\<lambda>t. tn_id t = an_tenant_id c) (\<lambda>t. t\<lparr>tn_deployment_id := target\<rparr>) (db_tenants db),
        db_deployment_events := db_deployment_events db @
          [\<lparr>te_id = new_id, te_tenant_id = an_tenant_id c, te_actor_id = an_actor_id c,
            te_previous_deployment_id = previous, te_new_deployment_id = target, te_reason = reason\<rparr>]\<rparr>"

text \<open>\<open>TenantDeploymentService.assign\<close>; its lock makes it exclude the start of new processes.\<close>

definition assign_deployment ::
  "uuid \<Rightarrow> AssignCommand \<Rightarrow> Database \<Rightarrow> access_error + TenantDeploymentResult \<times> Database" where
  "assign_deployment new_id c db =
     bind_result (normalize_deployment_id (an_deployment_id c)) (\<lambda>target.
     let reason = strip (an_reason c) in
     if target = UNASSIGNED then Inl ReservedDeployment
     else if reason = [] then Inl AssignmentReasonMissing
     else if 10000 < length reason then Inl AssignmentReasonTooLong
     else (case find_tenant (an_tenant_id c) db of
             None \<Rightarrow> Inl AccessTenantUnavailable
           | Some t \<Rightarrow>
               (let previous = tn_deployment_id t;
                    answer = \<lparr>td_tenant_id = an_tenant_id c, td_previous_deployment_id = previous,
                              td_deployment_id = target, td_changed = True, td_event_id = Some new_id\<rparr> in
                if previous = target then Inr (answer\<lparr>td_changed := False, td_event_id := None\<rparr>, db)
                else if previous \<noteq> UNASSIGNED \<and> live_processes (an_tenant_id c) db \<noteq> [] then Inl ActiveProcesses
                else if previous \<noteq> UNASSIGNED \<and> outstanding_deliveries (an_tenant_id c) previous db \<noteq> []
                then Inl OutstandingDeliveries
                else Inr (answer, move_tenant new_id c reason previous target db))))"

record ProvisionedTenant =
  pt_tenant_id :: uuid
  pt_slug :: unicode
  pt_name :: unicode
  pt_created :: bool

definition normalize_tenant_values :: "unicode \<Rightarrow> unicode \<Rightarrow> access_error + unicode \<times> unicode" where
  "normalize_tenant_values slug name =
     (let normalized_slug = lower (strip slug); normalized_name = strip name in
      if \<not> slug_matches normalized_slug then Inl BadTenantSlug
      else if normalized_name = [] \<or> 255 < length normalized_name then Inl BadTenantName
      else Inr (normalized_slug, normalized_name))"

text \<open>The row level security of \<open>tenants\<close> shows the tenant of the context only.\<close>

definition find_existing :: "uuid \<Rightarrow> unicode \<Rightarrow> Database \<Rightarrow> Tenant option" where
  "find_existing tenant slug db = find (\<lambda>t. tn_id t = tenant \<and> (tn_slug t = slug \<or> tn_id t = tenant)) (db_tenants db)"

definition new_tenant :: "uuid \<Rightarrow> unicode \<Rightarrow> unicode \<Rightarrow> Tenant" where
  "new_tenant tenant slug name =
     \<lparr>tn_id = tenant, tn_slug = slug, tn_name = name, tn_status = TenantStatus.ACTIVE, tn_deployment_id = UNASSIGNED\<rparr>"

definition create_tenant ::
  "uuid \<Rightarrow> unicode \<Rightarrow> unicode \<Rightarrow> uuid option \<Rightarrow> Database \<Rightarrow> access_error + ProvisionedTenant \<times> Database" where
  "create_tenant generated slug name given db =
     bind_result (normalize_tenant_values slug name) (\<lambda>(slug', name').
     let tenant = (case given of Some t \<Rightarrow> t | None \<Rightarrow> generated) in
     if find_existing tenant slug' db \<noteq> None then Inl TenantExists
     else (case insert_row (\<lambda>r s. tn_id r = tn_id s \<or> tn_slug r = tn_slug s) (new_tenant tenant slug' name') (db_tenants db) of
             None \<Rightarrow> Inl TenantExists
           | Some rows \<Rightarrow>
               Inr (\<lparr>pt_tenant_id = tenant, pt_slug = slug', pt_name = name', pt_created = True\<rparr>,
                    db\<lparr>db_tenants := rows\<rparr>)))"

definition LOCAL_DEVELOPMENT_TENANT_SLUG :: unicode where
  "LOCAL_DEVELOPMENT_TENANT_SLUG = ascii ''local-fictional''"

definition LOCAL_DEVELOPMENT_TENANT_NAME :: unicode where
  "LOCAL_DEVELOPMENT_TENANT_NAME = ascii ''Local Fictional Tenant''"

definition ensure_local_development_tenant ::
  "uuid \<Rightarrow> uuid \<Rightarrow> Database \<Rightarrow> access_error + ProvisionedTenant \<times> Database" where
  "ensure_local_development_tenant generated tenant db =
     (case find_existing tenant LOCAL_DEVELOPMENT_TENANT_SLUG db of
        Some t \<Rightarrow>
          if tn_id t \<noteq> tenant \<or> tn_slug t \<noteq> LOCAL_DEVELOPMENT_TENANT_SLUG \<or> tn_name t \<noteq> LOCAL_DEVELOPMENT_TENANT_NAME
          then Inl LocalTenantConflict
          else Inr (\<lparr>pt_tenant_id = tn_id t, pt_slug = tn_slug t, pt_name = tn_name t, pt_created = False\<rparr>, db)
      | None \<Rightarrow>
          create_tenant generated LOCAL_DEVELOPMENT_TENANT_SLUG LOCAL_DEVELOPMENT_TENANT_NAME (Some tenant) db)"

record IssueCommand =
  ik_tenant_id :: uuid
  ik_actor_id :: uuid
  ik_name :: unicode
  ik_scopes :: "CredentialScope list"
  ik_roles :: "unicode list"
  ik_expires_at :: "datetime option"

definition check_expiry :: "instant \<Rightarrow> datetime option \<Rightarrow> access_error + instant option" where
  "check_expiry now expires =
     (case expires of
        None \<Rightarrow> Inr None
      | Some (Naive _) \<Rightarrow> Inl NaiveExpiry
      | Some (Aware i) \<Rightarrow> if i \<le> now then Inl PastExpiry else Inr (Some i))"

definition credential_row :: "IssueCommand \<Rightarrow> instant option \<Rightarrow> IssuedCredential \<Rightarrow> TenantCredential" where
  "credential_row c expires issued =
     \<lparr>tc_id = ic_credential_id issued, tc_tenant_id = ik_tenant_id c, tc_actor_id = ik_actor_id c,
      tc_name = strip (ik_name c), tc_secret_hash = ic_secret_hash issued,
      tc_scopes = map scope_value (ik_scopes c), tc_roles = map strip (ik_roles c),
      tc_status = credential_status.ACTIVE, tc_expires_at = expires, tc_revoked_at = None,
      tc_revoked_by_actor_id = None\<rparr>"

text \<open>\<open>TenantCredentialService.issue\<close>.\<close>

definition issue ::
  "instant \<Rightarrow> uuid \<Rightarrow> unicode \<Rightarrow> IssueCommand \<Rightarrow> Database \<Rightarrow> access_error + IssuedCredential \<times> Database" where
  "issue now new_id secret c db =
     (let name = strip (ik_name c); roles = map strip (ik_roles c) in
      if name = [] \<or> 255 < length name then Inl BadCredentialName
      else if ik_scopes c = [] then Inl NoScope
      else if \<not> distinct (ik_scopes c) then Inl DuplicateScopes
      else if \<not> distinct roles then Inl DuplicateRoles
      else if \<not> list_all role_matches roles then Inl BadRole
      else bind_result (check_expiry now (ik_expires_at c)) (\<lambda>expires.
        if find_tenant (ik_tenant_id c) db = None then Inl AccessTenantUnavailable
        else (case issue_credential (ik_tenant_id c) (ik_actor_id c) new_id secret of
                None \<Rightarrow> Inl SecretNotEncodable
              | Some issued \<Rightarrow>
                  (case insert_row (\<lambda>r s. tc_id r = tc_id s) (credential_row c expires issued) (db_credentials db) of
                     None \<Rightarrow> Inl CredentialIdTaken
                   | Some rows \<Rightarrow> Inr (issued, db\<lparr>db_credentials := rows\<rparr>)))))"

definition find_credential :: "uuid \<Rightarrow> uuid \<Rightarrow> Database \<Rightarrow> TenantCredential option" where
  "find_credential tenant credential db =
     find (\<lambda>c. tc_tenant_id c = tenant \<and> tc_id c = credential) (db_credentials db)"

text \<open>\<open>TenantCredentialService.revoke\<close>; the result is the time of the revocation.\<close>

definition revoke :: "instant \<Rightarrow> uuid \<Rightarrow> uuid \<Rightarrow> uuid \<Rightarrow> Database \<Rightarrow> access_error + instant \<times> Database" where
  "revoke now tenant credential actor db =
     (case find_credential tenant credential db of
        None \<Rightarrow> Inl CredentialUnavailable
      | Some c \<Rightarrow>
          if tc_status c = REVOKED
          then (case tc_revoked_at c of None \<Rightarrow> Inl RevocationUnrecorded | Some t \<Rightarrow> Inr (t, db))
          else Inr (now, db\<lparr>db_credentials := update_rows (\<lambda>r. tc_tenant_id r = tenant \<and> tc_id r = credential)
                 (\<lambda>r. r\<lparr>tc_status := REVOKED, tc_revoked_at := Some now, tc_revoked_by_actor_id := Some actor\<rparr>)
                 (db_credentials db)\<rparr>))"

section \<open>Authentication\<close>

text \<open>An answer of the API other than success: its status, with a text of its own or that of an error.\<close>

datatype 'e http_error = Http nat unicode | HttpError nat 'e | ServerError 'e

record OperatorIdentity =
  oi_tenant_id :: uuid
  oi_actor_id :: uuid
  oi_scopes :: "unicode set"
  oi_roles :: "unicode set"
  oi_credential_id :: "uuid option"
  oi_authentication_method :: string

definition wildcard :: unicode where
  "wildcard = ascii ''*''"

definition require_scope :: "CredentialScope \<Rightarrow> OperatorIdentity \<Rightarrow> 'e http_error + unit" where
  "require_scope scope i =
     require (wildcard \<in> oi_scopes i \<or> scope_value scope \<in> oi_scopes i)
       (Http 403 (ascii ''credential lacks required scope: '' @ scope_value scope))"

definition has_role :: "unicode \<Rightarrow> OperatorIdentity \<Rightarrow> bool" where
  "has_role role i \<longleftrightarrow> wildcard \<in> oi_roles i \<or> role \<in> oi_roles i"

definition bearer_token :: "unicode \<Rightarrow> unicode option" where
  "bearer_token authorization =
     (let scheme = takeWhile (\<lambda>c. c \<noteq> 32) authorization; rest = dropWhile (\<lambda>c. c \<noteq> 32) authorization;
          token = tl rest
      in if rest = [] \<or> lower scheme \<noteq> ascii ''bearer'' \<or> token = [] \<or> 32 \<in> set token then None else Some token)"

definition DUMMY_SECRET_HASH :: unicode where
  "DUMMY_SECRET_HASH = replicate 64 48"

definition credential_identity :: "TenantCredential \<Rightarrow> OperatorIdentity" where
  "credential_identity c =
     \<lparr>oi_tenant_id = tc_tenant_id c, oi_actor_id = tc_actor_id c, oi_scopes = set (tc_scopes c),
      oi_roles = set (tc_roles c), oi_credential_id = Some (tc_id c), oi_authentication_method = ''tenant_bearer''\<rparr>"

definition credential_with_tenant :: "ParsedCredential \<Rightarrow> Database \<Rightarrow> (TenantCredential \<times> TenantStatus) option" where
  "credential_with_tenant p db =
     (case (find_credential (pc_tenant p) (pc_credential_id p) db, find_tenant (pc_tenant p) db) of
        (Some c, Some t) \<Rightarrow> Some (c, tn_status t) | _ \<Rightarrow> None)"

definition expired :: "instant \<Rightarrow> TenantCredential \<Rightarrow> bool" where
  "expired now c = (case tc_expires_at c of None \<Rightarrow> False | Some t \<Rightarrow> t \<le> now)"

definition authenticate_bearer :: "instant \<Rightarrow> unicode \<Rightarrow> Database \<Rightarrow> 'e http_error + OperatorIdentity" where
  "authenticate_bearer now authorization db =
     (case bearer_token authorization of
        None \<Rightarrow> Inl (Http 401 (ascii ''bearer credential is malformed''))
      | Some token \<Rightarrow>
      (case parse_credential token of
         None \<Rightarrow> Inl (Http 401 (ascii ''bearer credential is invalid''))
       | Some p \<Rightarrow>
         (let row = credential_with_tenant p db;
              secret_valid = credential_secret_matches (pc_secret p)
                (case row of None \<Rightarrow> DUMMY_SECRET_HASH | Some (c, _) \<Rightarrow> tc_secret_hash c) in
          case row of
            None \<Rightarrow> Inl (Http 401 (ascii ''bearer credential is invalid''))
          | Some (c, status) \<Rightarrow>
              if \<not> secret_valid then Inl (Http 401 (ascii ''bearer credential is invalid''))
              else if tc_status c \<noteq> credential_status.ACTIVE then Inl (Http 401 (ascii ''bearer credential is inactive''))
              else if expired now c then Inl (Http 401 (ascii ''bearer credential has expired''))
              else if status \<noteq> TenantStatus.ACTIVE then Inl (Http 403 (ascii ''tenant is suspended''))
              else Inr (credential_identity c))))"

text \<open>The parts of the application and of a request that authentication reads.\<close>

record AppState =
  as_environment :: string
  as_allow_unsafe_headers :: bool
  as_deployment_release :: "DeploymentRelease option"
  as_deployment_tenant_ids :: "uuid set"

record ApiRequest =
  rq_authorization :: "unicode option"
  rq_tenant_header :: "unicode option"
  rq_actor_header :: "unicode option"

definition unsafe_headers_enabled :: "AppState \<Rightarrow> bool" where
  "unsafe_headers_enabled a \<longleftrightarrow> as_environment a = ''development'' \<and> as_allow_unsafe_headers a"

definition require_deployment_assignment ::
  "AppState \<Rightarrow> OperatorIdentity \<Rightarrow> Database \<Rightarrow> 'e http_error + OperatorIdentity" where
  "require_deployment_assignment a i db =
     (case as_deployment_release a of
        None \<Rightarrow> Inr i
      | Some release \<Rightarrow>
          if oi_tenant_id i \<notin> as_deployment_tenant_ids a
          then Inl (Http 403 (ascii ''tenant is not in this deployment's allow-list''))
          else (case require_tenant_deployment (oi_tenant_id i) (dr_deployment_id release) db of
                  Inl _ \<Rightarrow> Inl (Http 403 (ascii ''tenant is not assigned to this deployment''))
                | Inr _ \<Rightarrow> Inr i))"

definition header_identity :: "uuid \<Rightarrow> uuid \<Rightarrow> unicode set \<Rightarrow> OperatorIdentity" where
  "header_identity tenant actor roles =
     \<lparr>oi_tenant_id = tenant, oi_actor_id = actor, oi_scopes = {wildcard}, oi_roles = roles, oi_credential_id = None,
      oi_authentication_method = ''unsafe_development_headers''\<rparr>"

text \<open>\<open>gap\<close> is what is committed between the two transactions of a request's authentication.\<close>

definition require_operator_identity ::
  "AppState \<Rightarrow> instant \<Rightarrow> (Database \<Rightarrow> Database) \<Rightarrow> ApiRequest \<Rightarrow> Database \<Rightarrow> 'e http_error + OperatorIdentity" where
  "require_operator_identity a now gap r db =
     (case rq_authorization r of
        Some authorization \<Rightarrow>
          bind_result (authenticate_bearer now authorization db) (\<lambda>i. require_deployment_assignment a i (gap db))
      | None \<Rightarrow>
          if unsafe_headers_enabled a
          then (case (rq_tenant_header r, rq_actor_header r) of
                  (Some tenant, Some actor) \<Rightarrow>
                    (case (uuid_of_text tenant, uuid_of_text actor) of
                       (Some t, Some u) \<Rightarrow> require_deployment_assignment a (header_identity t u {wildcard}) (gap db)
                     | _ \<Rightarrow> Inl (Http 400 (ascii ''operator identity headers must be UUIDs'')))
                | _ \<Rightarrow> Inl (Http 400 (ascii ''X-Tiramisu-Tenant-ID and X-Tiramisu-Actor-ID are required'')))
          else if rq_tenant_header r \<noteq> None \<or> rq_actor_header r \<noteq> None
          then Inl (Http 403 (ascii ''development identity headers are disabled''))
          else Inl (Http 401 (ascii ''bearer credential is required'')))"

definition require_event_ingress_identity ::
  "AppState \<Rightarrow> instant \<Rightarrow> (Database \<Rightarrow> Database) \<Rightarrow> ApiRequest \<Rightarrow> Database \<Rightarrow> 'e http_error + OperatorIdentity" where
  "require_event_ingress_identity a now gap r db =
     bind_result
       (case rq_authorization r of
          Some authorization \<Rightarrow> authenticate_bearer now authorization db
        | None \<Rightarrow>
            if \<not> unsafe_headers_enabled a
            then (if rq_tenant_header r \<noteq> None
                  then Inl (Http 403 (ascii ''development identity headers are disabled''))
                  else Inl (Http 401 (ascii ''bearer credential is required'')))
            else (case rq_tenant_header r of
                    None \<Rightarrow> Inl (Http 400 (ascii ''X-Tiramisu-Tenant-ID is required''))
                  | Some tenant \<Rightarrow>
                      (case uuid_of_text tenant of
                         None \<Rightarrow> Inl (Http 400 (ascii ''X-Tiramisu-Tenant-ID must be a UUID''))
                       | Some t \<Rightarrow> Inr (header_identity t 0 {}))))
       (\<lambda>i. bind_result (require_scope EVENTS_INGEST i) (\<lambda>_. require_deployment_assignment a i (gap db)))"

section \<open>Tokens\<close>

lemma remove_text_absent: "old \<noteq> [] \<Longrightarrow> hd old \<notin> set s \<Longrightarrow> remove_text old s = s"
proof (induction s)
  case (Cons c cs)
  then have "take (length old) (c # cs) \<noteq> old" by (cases old) auto
  then show ?case using Cons by auto
qed simp

lemma remove_char: "remove_text [x] s = filter (\<lambda>c. c \<noteq> x) s"
  by (induction s) auto

lemma dropWhile_none: "\<forall>c \<in> set s. \<not> P c \<Longrightarrow> dropWhile P s = s"
  by (cases s) auto

lemma digit_value_hex: "d < 16 \<Longrightarrow> digit_value (hex_digit d) = Some d"
  by (auto simp: digit_value_def hex_digit_def is_digit_def)

lemma hex_digit_range: "d < 16 \<Longrightarrow> hex_digit d \<in> {48..57} \<union> {97..102}"
  by (auto simp: hex_digit_def)

lemma hex_digits_range: "set (hex_digits count n) \<subseteq> {48..57} \<union> {97..102}"
proof
  fix c
  assume "c \<in> set (hex_digits count n)"
  then obtain i where "c = hex_digit (n div 16 ^ i mod 16)" by (auto simp: hex_digits_def)
  then show "c \<in> {48..57} \<union> {97..102}" using hex_digit_range [of "n div 16 ^ i mod 16"] by simp
qed

lemma hex_body_digits:
  "0 < count \<or> \<not> b \<Longrightarrow> hex_body b acc (hex_digits count n) = Some (acc * 16 ^ count + n mod 16 ^ count)"
proof (induction count arbitrary: b acc)
  case (Suc k)
  let ?d = "n div 16 ^ k mod 16"
  have d: "?d < 16" by simp
  then have "hex_digit ?d \<noteq> 95" using hex_digit_range [of ?d] by auto
  then have "hex_body b acc (hex_digits (Suc k) n) = Some ((16 * acc + ?d) * 16 ^ k + n mod 16 ^ k)"
    using Suc.IH [of False "16 * acc + ?d"] digit_value_hex [OF d] by (simp add: hex_digits_Suc)
  moreover have "n mod 16 ^ Suc k = 16 ^ k * ?d + n mod 16 ^ k" by (metis mod_mult2_eq mult.commute power_Suc)
  ultimately show ?case by (simp add: algebra_simps)
qed (simp add: hex_digits_def)

lemma uuid_str_digits: "filter (\<lambda>c. c \<noteq> 45) (uuid_str u) = hex_digits 32 u"
proof -
  let ?h = "hex_digits 32 u"
  have no_dash: "45 \<notin> set ?h" using hex_digits_range [of 32 u] by auto
  have "filter (\<lambda>c. c \<noteq> 45) (take k (drop j ?h)) = take k (drop j ?h)" for j k
    using no_dash by (auto intro!: filter_True dest!: in_set_takeD in_set_dropD)
  moreover have "filter (\<lambda>c. c \<noteq> 45) (take 8 ?h) = take 8 ?h" "filter (\<lambda>c. c \<noteq> 45) (drop 20 ?h) = drop 20 ?h"
    using no_dash by (auto intro!: filter_True dest!: in_set_takeD in_set_dropD)
  moreover have "take 8 ?h @ take 4 (drop 8 ?h) @ take 4 (drop 12 ?h) @ take 4 (drop 16 ?h) @ drop 20 ?h = ?h"
    using append_take_drop_id [of 8 ?h] append_take_drop_id [of 4 "drop 8 ?h"]
      append_take_drop_id [of 4 "drop 12 ?h"] append_take_drop_id [of 4 "drop 16 ?h"] by simp
  ultimately show ?thesis by (simp add: uuid_str_def Let_def)
qed

lemma uuid_str_range: "set (uuid_str u) \<subseteq> {45} \<union> {48..57} \<union> {97..102}"
proof -
  have "set (uuid_str u) \<subseteq> {45} \<union> set (hex_digits 32 u)"
    by (auto simp: uuid_str_def Let_def dest!: in_set_takeD in_set_dropD)
  then show ?thesis using hex_digits_range [of 32 u] by blast
qed

lemma uuid_of_text_uuid_str:
  assumes "u < 2 ^ 128"
  shows "uuid_of_text (uuid_str u) = Some u"
proof -
  let ?s = "uuid_str u" and ?h = "hex_digits 32 u"
  note range = uuid_str_range [of u] and digits = hex_digits_range [of 32 u]
  have "remove_text (ascii ''urn:'') ?s = ?s" "remove_text (ascii ''uuid:'') ?s = ?s"
    using range by (auto intro!: remove_text_absent simp: ascii_def)
  moreover have "strip_braces ?s = ?s"
  proof -
    have *: "\<forall>c \<in> set ?s. \<not> (c = 123 \<or> c = 125)" "\<forall>c \<in> set (rev ?s). \<not> (c = 123 \<or> c = 125)"
      using range by auto
    show ?thesis by (simp add: strip_braces_def dropWhile_none [OF *(1)] dropWhile_none [OF *(2)])
  qed
  moreover have "remove_text [45] ?s = ?h" by (simp add: remove_char uuid_str_digits)
  moreover have "map numeric_char ?h = ?h"
    using digits by (auto intro!: map_idI simp: numeric_char_def)
  moreover have "dropWhile blank_char ?h = ?h"
    using digits by (intro dropWhile_none) (auto simp: blank_char_def)
  moreover have "skip_plus ?h = ?h"
    using digits by (auto simp: skip_plus_def split: list.splits)
  moreover have "skip_base ?h = ?h"
  proof (cases ?h)
    case (Cons a as)
    show ?thesis
    proof (cases as)
      case (Cons b cs)
      then have "b \<in> {48..57} \<union> {97..102}" using digits \<open>?h = a # as\<close> by auto
      then show ?thesis using \<open>?h = a # as\<close> Cons by (auto simp: skip_base_def)
    qed (simp add: \<open>?h = a # as\<close> skip_base_def)
  qed (simp add: skip_base_def)
  moreover have "hex_body True 0 ?h = Some u" using assms by (simp add: hex_body_digits)
  ultimately show ?thesis by (simp add: uuid_of_text_def int_base16_def Let_def)
qed

lemma split_on_absent: "sep \<notin> set s \<Longrightarrow> split_on sep s = [s]"
  by (induction s) auto

lemma split_on_part: "sep \<notin> set s \<Longrightarrow> split_on sep (s @ sep # rest) = s # split_on sep rest"
  by (induction s) auto

text \<open>The form of \<open>secrets.token_urlsafe(32)\<close>: 43 characters of the URL-safe alphabet.\<close>

lemma parse_issued:
  assumes "issue_credential tenant actor new_id secret = Some issued" "tenant < 2 ^ 128" "new_id < 2 ^ 128"
    "secret_matches secret"
  shows "parse_credential (ic_token issued) = Some \<lparr>pc_tenant = tenant, pc_credential_id = new_id, pc_secret = secret\<rparr>"
proof -
  have token: "ic_token issued = TOKEN_PREFIX @ 46 # uuid_str tenant @ 46 # uuid_str new_id @ 46 # secret"
    using assms(1) by (auto simp: issue_credential_def)
  have "46 \<notin> set TOKEN_PREFIX" by (simp add: TOKEN_PREFIX_def ascii_def)
  moreover have "46 \<notin> set (uuid_str u)" for u using uuid_str_range [of u] by auto
  moreover have "46 \<notin> set secret"
    using assms(4) by (auto simp: secret_matches_def list_all_iff is_lower_def is_digit_def)
  ultimately have "split_on 46 (ic_token issued) = [TOKEN_PREFIX, uuid_str tenant, uuid_str new_id, secret]"
    unfolding token by (simp add: split_on_part split_on_absent)
  moreover have "length (ic_token issued) \<le> 512"
    using assms(4) unfolding token by (simp add: TOKEN_PREFIX_def ascii_def secret_matches_def)
  ultimately show ?thesis using assms(2-4) by (simp add: parse_credential_def uuid_of_text_uuid_str)
qed

section \<open>What authentication establishes\<close>

lemma authenticate_bearer_ok:
  "authenticate_bearer now h db = Inr i \<longleftrightarrow>
     (\<exists>token p c t. bearer_token h = Some token \<and> parse_credential token = Some p
        \<and> find_credential (pc_tenant p) (pc_credential_id p) db = Some c \<and> find_tenant (pc_tenant p) db = Some t
        \<and> hash_secret (pc_secret p) = Some (tc_secret_hash c) \<and> tc_status c = credential_status.ACTIVE
        \<and> \<not> expired now c \<and> tn_status t = TenantStatus.ACTIVE \<and> i = credential_identity c)"
proof (cases "bearer_token h")
  case None
  then show ?thesis by (simp add: authenticate_bearer_def)
next
  case token: (Some token)
  show ?thesis
  proof (cases "parse_credential token")
    case None
    then show ?thesis using token by (simp add: authenticate_bearer_def)
  next
    case p: (Some p)
    show ?thesis
      by (cases "find_credential (pc_tenant p) (pc_credential_id p) db"; cases "find_tenant (pc_tenant p) db")
        (auto simp: authenticate_bearer_def token p credential_with_tenant_def credential_secret_matches_def)
  qed
qed

lemma find_credential_ids:
  "find_credential tenant credential db = Some c \<Longrightarrow> tc_tenant_id c = tenant \<and> tc_id c = credential \<and> c \<in> set (db_credentials db)"
  by (auto simp: find_credential_def find_Some_iff)

lemma require_deployment_assignment_ok:
  "require_deployment_assignment a i db = Inr j \<longleftrightarrow>
     j = i \<and> (\<forall>release. as_deployment_release a = Some release \<longrightarrow> oi_tenant_id i \<in> as_deployment_tenant_ids a
        \<and> require_tenant_deployment (oi_tenant_id i) (dr_deployment_id release) db = Inr ())"
  by (auto simp: require_deployment_assignment_def split: option.splits sum.splits)

end
