(* ===== verification/Api.thy ===== *)
theory Api
  imports Access Budgets Reviews Control Ingestion
begin

text \<open>
  \<open>api\<close>: the requests that change something. Each is authenticated, its body validated, and
  handed to one service in one transaction under the tenant and the actor of the credential; the
  errors of the service become status codes. What other workers commit between the
  transactions of a request is given by the environment. Parsing of bodies and the views are
  left to the framework.
\<close>

record ApiApp = AppState +
  ax_process_registry :: "((string \<times> unicode) \<times> ProcessDefinition) list option"
  ax_trigger_rules :: "(string \<times> ProcessBootstrap) list"

record ApiEnv =
  ae_authenticated_at :: instant
  ae_before_assignment :: "Database \<Rightarrow> Database"
  ae_before_command :: "Database \<Rightarrow> Database"
  ae_now :: instant
  ae_new_id :: uuid
  ae_received_at :: datetime
  ae_show_time :: "datetime \<Rightarrow> unicode"
  ae_show_uuid :: "uuid \<Rightarrow> unicode"
  ae_ingest :: IngestEnv
  ae_control :: ControlEnv

datatype api_error =
    ApiContract contract_error
  | ApiValue value_error
  | ApiBody string
  | ApiIngestion ingestion_error
  | ApiReview review_error
  | ApiControl control_error
  | ApiBreaker breaker_error
  | ApiQuarantine quarantine_error
  | ApiRecovery recovery_error
  | ApiDefinition registry_error

type_synonym api_failure = "api_error http_error"

definition app_state :: "ApiApp \<Rightarrow> AppState" where
  "app_state a =
     \<lparr>as_environment = as_environment a, as_allow_unsafe_headers = as_allow_unsafe_headers a,
      as_deployment_release = as_deployment_release a, as_deployment_tenant_ids = as_deployment_tenant_ids a\<rparr>"

definition release_id :: "ApiApp \<Rightarrow> string option" where
  "release_id a = map_option dr_deployment_id (as_deployment_release a)"

definition operator_identity :: "ApiApp \<Rightarrow> ApiEnv \<Rightarrow> ApiRequest \<Rightarrow> Database \<Rightarrow> api_failure + OperatorIdentity" where
  "operator_identity a env r db =
     require_operator_identity (app_state a) (ae_authenticated_at env) (ae_before_assignment env) r db"

definition command_database :: "ApiEnv \<Rightarrow> Database \<Rightarrow> Database" where
  "command_database env db = ae_before_command env (ae_before_assignment env db)"

text \<open>A body that does not validate is answered with 422.\<close>

definition unprocessable :: "('e \<Rightarrow> api_error) \<Rightarrow> 'e + 'a \<Rightarrow> api_failure + 'a" where
  "unprocessable wrap answer = (case answer of Inl e \<Rightarrow> Inl (HttpError 422 (wrap e)) | Inr v \<Rightarrow> Inr v)"

section \<open>\<open>api/events.py\<close>\<close>

record IngestEventRequest =
  ib_event_id :: uuid
  ib_process_instance_id :: "uuid option"
  ib_event_type :: string
  ib_source :: unicode
  ib_source_event_id :: unicode
  ib_occurred_at :: datetime
  ib_schema_version :: int
  ib_sensitivity :: Sensitivity
  ib_external_references :: "ExternalReference list"
  ib_facts :: "FactObservation list"
  ib_payload :: jobject

definition dump_IngestEventRequest ::
  "(datetime \<Rightarrow> unicode) \<Rightarrow> (uuid \<Rightarrow> unicode) \<Rightarrow> IngestEventRequest \<Rightarrow> json" where
  "dump_IngestEventRequest show_time show_uuid b =
     JObj [(ascii ''event_id'', JStr (show_uuid (ib_event_id b))),
           (ascii ''process_instance_id'',
             case ib_process_instance_id b of None \<Rightarrow> JNull | Some u \<Rightarrow> JStr (show_uuid u)),
           (ascii ''event_type'', JStr (ascii (ib_event_type b))),
           (ascii ''source'', JStr (ib_source b)),
           (ascii ''source_event_id'', JStr (ib_source_event_id b)),
           (ascii ''occurred_at'', JStr (show_time (ib_occurred_at b))),
           (ascii ''schema_version'', JInt (ib_schema_version b)),
           (ascii ''sensitivity'', JStr (ascii (sensitivity_value (ib_sensitivity b)))),
           (ascii ''external_references'', JArr (map (\<lambda>r.
              JObj [(ascii ''provider'', JStr (er_provider r)),
                    (ascii ''resource_type'', JStr (er_resource_type r)),
                    (ascii ''external_id'', JStr (er_external_id r))]) (ib_external_references b))),
           (ascii ''facts'', JArr (map dump_FactObservation (ib_facts b))),
           (ascii ''payload'', JObj (ib_payload b))]"

definition check_IngestEventRequest ::
  "(datetime \<Rightarrow> unicode) \<Rightarrow> (uuid \<Rightarrow> unicode) \<Rightarrow> IngestEventRequest \<Rightarrow> contract_error + unit" where
  "check_IngestEventRequest show_time show_uuid b =
     (let limits = DEFAULT_PLATFORM_SAFETY_LIMITS in
     bind_result (require (is_dotted_name (ib_event_type b) \<and> length (ib_event_type b) \<le> 150)
       (InvalidField ''event_type'')) (\<lambda>_.
     bind_result (require (between_lengths 1 100 (ib_source b)) (InvalidField ''source'')) (\<lambda>_.
     bind_result (require (between_lengths 1 500 (ib_source_event_id b)) (InvalidField ''source_event_id'')) (\<lambda>_.
     bind_result (require_timezone ''occurred_at'' (ib_occurred_at b)) (\<lambda>_.
     bind_result (require (1 \<le> ib_schema_version b) (InvalidField ''schema_version'')) (\<lambda>_.
     bind_result (check_all (\<lambda>r. bind_result (check_ExternalReference r) (\<lambda>_. Inr ()))
       (ib_external_references b)) (\<lambda>_.
     bind_result (check_all (\<lambda>f. bind_result (check_FactObservation f) (\<lambda>_. Inr ())) (ib_facts b)) (\<lambda>_.
     bind_result (content_limit (require_event_content (ib_payload b) (ib_external_references b)
       (ib_facts b) limits)) (\<lambda>_.
     content_limit (require_json_bytes (dump_IngestEventRequest show_time show_uuid b)
       (ascii ''event input'') (max_event_input_bytes limits)))))))))))"

definition event_of_request :: "ApiEnv \<Rightarrow> OperatorIdentity \<Rightarrow> IngestEventRequest \<Rightarrow> CanonicalEvent" where
  "event_of_request env i b =
     \<lparr>ce_event_id = ib_event_id b, ce_tenant_id = oi_tenant_id i, ce_process_instance_id = ib_process_instance_id b,
      ce_event_type = ib_event_type b, ce_source = ib_source b, ce_source_event_id = ib_source_event_id b,
      ce_occurred_at = ib_occurred_at b, ce_received_at = ae_received_at env, ce_schema_version = ib_schema_version b,
      ce_sensitivity = ib_sensitivity b, ce_external_references = ib_external_references b, ce_facts = ib_facts b,
      ce_payload = ib_payload b\<rparr>"

fun ingestion_failure :: "ingestion_error \<Rightarrow> api_failure" where
  "ingestion_failure IngressTenantNotFound = Http 404 (ascii ''tenant not found'')"
| "ingestion_failure IngressTenantSuspended = Http 403 (ascii ''tenant is suspended'')"
| "ingestion_failure IngressTenantNotAuthorized = Http 403 (ascii ''tenant is not assigned to this deployment'')"
| "ingestion_failure (ReservedKernelEventType t) = HttpError 422 (ApiIngestion (ReservedKernelEventType t))"
| "ingestion_failure TriggerReferenceRequired = HttpError 422 (ApiIngestion TriggerReferenceRequired)"
| "ingestion_failure e = ServerError (ApiIngestion e)"

definition ingest_event ::
  "ApiApp \<Rightarrow> ApiEnv \<Rightarrow> ApiRequest \<Rightarrow> IngestEventRequest \<Rightarrow> Database \<Rightarrow> api_failure + IngestionResult \<times> Database" where
  "ingest_event a env r b db =
     bind_result (require_event_ingress_identity (app_state a) (ae_authenticated_at env) (ae_before_assignment env) r db) (\<lambda>i.
     bind_result (unprocessable ApiContract (check_IngestEventRequest (ae_show_time env) (ae_show_uuid env) b)) (\<lambda>_.
     case check_CanonicalEvent (ae_show_time env) (ae_show_uuid env) (event_of_request env i b) of
       Inl e \<Rightarrow> Inl (ServerError (ApiContract e))
     | Inr event \<Rightarrow>
         (case ingest (ae_ingest env) \<lparr>nc_event = event, nc_bootstrap = map_of (ax_trigger_rules a) (ce_event_type event),
                  nc_deployment_id = release_id a\<rparr> (command_database env db) of
            Inl e \<Rightarrow> Inl (ingestion_failure e) | Inr answer \<Rightarrow> Inr answer)))"

section \<open>\<open>api/processes.py\<close>\<close>

record ReviewCommandRequest =
  rb_command_id :: uuid
  rb_command_type :: ReviewCommandType
  rb_message :: "unicode option"
  rb_expected_payload_hash :: "unicode option"

definition check_ReviewCommandRequest :: "ReviewCommandRequest \<Rightarrow> api_error + unit" where
  "check_ReviewCommandRequest b =
     bind_result (require (case rb_message b of None \<Rightarrow> True | Some m \<Rightarrow> length m \<le> 10000)
       (ApiContract (InvalidField ''message''))) (\<lambda>_.
     bind_result (case rb_message b of
         None \<Rightarrow> Inr ()
       | Some m \<Rightarrow>
           (case require_utf8_bytes m (ascii ''review message'')
                   (max_review_message_bytes DEFAULT_PLATFORM_SAFETY_LIMITS) of
              Inl e \<Rightarrow> Inl (ApiValue e) | Inr _ \<Rightarrow> Inr ())) (\<lambda>_.
     bind_result (require (case rb_expected_payload_hash b of None \<Rightarrow> True | Some h \<Rightarrow> between_lengths 32 128 h)
       (ApiContract (InvalidField ''expected_payload_hash''))) (\<lambda>_.
     bind_result (require (\<not> (rb_command_type b = APPROVE \<and> rb_expected_payload_hash b \<in> {None, Some []}))
       (ApiContract ApprovalWithoutHash)) (\<lambda>_.
     bind_result (require (\<not> (rb_command_type b \<in> {REJECT, REQUEST_REVISION, COMMENT} \<and> rb_message b \<in> {None, Some []}))
       (ApiContract (MessageRequired (rb_command_type b)))) (\<lambda>_.
     require (rb_command_type b \<in> {APPROVE, REJECT, REQUEST_REVISION, COMMENT})
       (ApiBody ''unsupported operator command''))))))"

definition find_review_target :: "uuid \<Rightarrow> uuid \<Rightarrow> Database \<Rightarrow> (ReviewThread \<times> ApprovalRequest) option" where
  "find_review_target tenant thread_id db =
     find (\<lambda>(t, q). rt_tenant_id t = tenant \<and> aq_tenant_id q = tenant \<and> rt_id t = thread_id
         \<and> aq_id q = rt_approval_request_id t)
       (List.product (db_review_threads db) (db_approvals db))"

definition review_scope :: "ReviewCommandType \<Rightarrow> CredentialScope" where
  "review_scope t = (if t = COMMENT then REVIEWS_COMMENT else REVIEWS_DECIDE)"

definition review_command ::
  "OperatorIdentity \<Rightarrow> ReviewThread \<Rightarrow> ApprovalRequest \<Rightarrow> ReviewCommandRequest \<Rightarrow> ReviewCommand" where
  "review_command i thread approval b =
     \<lparr>rc_command_id = rb_command_id b, rc_tenant_id = oi_tenant_id i, rc_process_instance_id = rt_process_instance_id thread,
      rc_review_thread_id = rt_id thread, rc_action_request_id = aq_action_request_id approval,
      rc_proposal_revision = aq_revision approval, rc_command_type = rb_command_type b, rc_actor_id = oi_actor_id i,
      rc_message = rb_message b, rc_expected_payload_hash = rb_expected_payload_hash b\<rparr>"

definition reviewed_definition :: "ApiApp \<Rightarrow> ProcessInstance \<Rightarrow> api_failure + ProcessDefinition" where
  "reviewed_definition a p =
     (case ax_process_registry a of
        None \<Rightarrow> Inl (Http 409 (ascii ''process definition registry is unavailable''))
      | Some registry \<Rightarrow>
          (case get_definition registry (pi_process_type p) (pi_definition_version p) of
             Inl e \<Rightarrow> Inl (ServerError (ApiDefinition e)) | Inr d \<Rightarrow> Inr d))"

definition lacks_role :: "OperatorIdentity \<Rightarrow> ReviewCommandType \<Rightarrow> ApprovalRequest \<Rightarrow> bool" where
  "lacks_role i t approval \<longleftrightarrow>
     t = APPROVE \<and> (case aq_required_role approval of None \<Rightarrow> False | Some role \<Rightarrow> \<not> has_role role i)"

fun review_failure :: "review_error \<Rightarrow> api_failure" where
  "review_failure ReviewIntegrity = ServerError (ApiReview ReviewIntegrity)"
| "review_failure e = HttpError 409 (ApiReview e)"

definition submit_review_command ::
  "ApiApp \<Rightarrow> ApiEnv \<Rightarrow> ApiRequest \<Rightarrow> uuid \<Rightarrow> ReviewCommandRequest \<Rightarrow> Database \<Rightarrow> api_failure + ReviewResult \<times> Database" where
  "submit_review_command a env r thread_id b db =
     bind_result (operator_identity a env r db) (\<lambda>i.
     bind_result (unprocessable id (check_ReviewCommandRequest b)) (\<lambda>_.
     let now_db = command_database env db in
     case find_review_target (oi_tenant_id i) thread_id now_db of
       None \<Rightarrow> Inl (Http 404 (ascii ''review thread not found''))
     | Some (thread, approval) \<Rightarrow>
     (case find_process (oi_tenant_id i) (rt_process_instance_id thread) now_db of
        None \<Rightarrow> Inl (Http 404 (ascii ''process not found''))
      | Some p \<Rightarrow>
        bind_result (reviewed_definition a p) (\<lambda>d.
        if rb_command_type b \<notin> set (pd_review d)
        then Inl (Http 422 (ascii ''review command is not enabled by the process definition''))
        else bind_result (require_scope (review_scope (rb_command_type b)) i) (\<lambda>_.
        if lacks_role i (rb_command_type b) approval
        then Inl (Http 403 (ascii ''approval requires role: '' @ the (aq_required_role approval)))
        else (case check_ReviewCommand (review_command i thread approval b) of
                Inl e \<Rightarrow> Inl (ServerError (ApiContract e))
              | Inr c \<Rightarrow>
                  (case apply_review (ae_new_id env, ae_now env) c now_db of
                     Inl e \<Rightarrow> Inl (review_failure e)
                   | Inr answer \<Rightarrow> Inr answer)))))))"

record ProcessControlRequest =
  kb_command_id :: uuid
  kb_command_type :: ProcessControlType
  kb_reason :: unicode
  kb_intervention_id :: "uuid option"

definition check_ProcessControlRequest :: "ProcessControlRequest \<Rightarrow> api_error + unit" where
  "check_ProcessControlRequest b =
     bind_result (require (between_lengths 1 10000 (kb_reason b)) (ApiContract (InvalidField ''reason''))) (\<lambda>_.
     bind_result (case require_utf8_bytes (kb_reason b) (ascii ''operator guidance'')
           (max_operator_guidance_bytes DEFAULT_PLATFORM_SAFETY_LIMITS) of
         Inl e \<Rightarrow> Inl (ApiValue e) | Inr _ \<Rightarrow> Inr ()) (\<lambda>_.
     bind_result (require (\<not> (kb_command_type b = RETRY \<and> kb_intervention_id b = None))
       (ApiBody ''retry requires intervention_id'')) (\<lambda>_.
     require (\<not> (kb_command_type b \<noteq> RETRY \<and> kb_intervention_id b \<noteq> None))
       (ApiBody ''intervention_id is only valid for retry''))))"

definition control_input :: "OperatorIdentity \<Rightarrow> uuid \<Rightarrow> ProcessControlRequest \<Rightarrow> ProcessControlInput" where
  "control_input i process b =
     \<lparr>ki_command_id = kb_command_id b, ki_tenant_id = oi_tenant_id i, ki_process_instance_id = process,
      ki_actor_id = oi_actor_id i, ki_command_type = kb_command_type b, ki_reason = kb_reason b,
      ki_intervention_id = kb_intervention_id b\<rparr>"

fun control_failure :: "control_error \<Rightarrow> api_failure" where
  "control_failure ControlIntegrity = ServerError (ApiControl ControlIntegrity)"
| "control_failure e = HttpError 409 (ApiControl e)"

definition submit_process_control ::
  "ApiApp \<Rightarrow> ApiEnv \<Rightarrow> ApiRequest \<Rightarrow> uuid \<Rightarrow> ProcessControlRequest \<Rightarrow> Database
     \<Rightarrow> api_failure + ProcessControlCommand \<times> Database" where
  "submit_process_control a env r process b db =
     bind_result (operator_identity a env r db) (\<lambda>i.
     bind_result (unprocessable id (check_ProcessControlRequest b)) (\<lambda>_.
     bind_result (require_scope PROCESSES_CONTROL i) (\<lambda>_.
     case apply_control (ae_control env) (control_input i process b) (command_database env db) of
       Inl e \<Rightarrow> Inl (control_failure e)
     | Inr answer \<Rightarrow> Inr answer)))"

record BreakerTransitionRequest =
  bb_scope :: unicode
  bb_target :: unicode
  bb_reason :: unicode

fun breaker_scope_value :: "BreakerScope \<Rightarrow> string" where
  "breaker_scope_value MODEL_CALLS = ''model_calls''"
| "breaker_scope_value OUTBOUND_MESSAGES = ''outbound_messages''"
| "breaker_scope_value CAPABILITY = ''capability''"
| "breaker_scope_value BreakerScope.ALL = ''all''"

definition breaker_scope_of :: "unicode \<Rightarrow> BreakerScope option" where
  "breaker_scope_of text =
     find (\<lambda>s. ascii (breaker_scope_value s) = text) [MODEL_CALLS, OUTBOUND_MESSAGES, CAPABILITY, BreakerScope.ALL]"

fun breaker_failure :: "breaker_error \<Rightarrow> api_failure" where
  "breaker_failure (BreakerConflict t) = HttpError 409 (ApiBreaker (BreakerConflict t))"
| "breaker_failure e = HttpError 422 (ApiBreaker e)"

text \<open>\<open>trip_breaker\<close> and \<open>reset_breaker\<close>.\<close>

definition apply_breaker_transition ::
  "ApiApp \<Rightarrow> ApiEnv \<Rightarrow> ApiRequest \<Rightarrow> BreakerTransitionRequest \<Rightarrow> bool \<Rightarrow> Database \<Rightarrow> api_failure + CircuitBreaker \<times> Database" where
  "apply_breaker_transition a env r b tripped db =
     bind_result (operator_identity a env r db) (\<lambda>i.
     bind_result (unprocessable ApiContract (require (between_lengths 1 10000 (bb_reason b)) (InvalidField ''reason''))) (\<lambda>_.
     bind_result (require_scope PROCESSES_CONTROL i) (\<lambda>_.
     case breaker_scope_of (bb_scope b) of
       None \<Rightarrow> Inl (Http 422 (ascii ''unknown breaker scope: '' @ bb_scope b))
     | Some scope \<Rightarrow>
         (case breaker_transition (ae_new_id env) (ae_now env) (oi_tenant_id i) scope (bb_target b) (oi_actor_id i)
                 (bb_reason b) tripped (command_database env db) of
            Inl e \<Rightarrow> Inl (breaker_failure e) | Inr answer \<Rightarrow> Inr answer))))"

section \<open>\<open>api/quarantine.py\<close> and \<open>api/outbox.py\<close>\<close>

record ResolveRequest =
  qb_command_id :: uuid
  qb_process_instance_id :: uuid
  qb_reason :: unicode
  qb_bind_references :: "ExternalReference list"

definition check_ResolveRequest :: "ResolveRequest \<Rightarrow> contract_error + unit" where
  "check_ResolveRequest b =
     bind_result (require (between_lengths 1 10000 (qb_reason b)) (InvalidField ''reason'')) (\<lambda>_.
     bind_result (require (length (qb_bind_references b) \<le> 100) (InvalidField ''bind_references'')) (\<lambda>_.
     check_all (\<lambda>r. bind_result (check_ExternalReference r) (\<lambda>_. Inr ())) (qb_bind_references b)))"

fun quarantine_failure :: "quarantine_error \<Rightarrow> api_failure" where
  "quarantine_failure QuarantinedEventNotFound = HttpError 404 (ApiQuarantine QuarantinedEventNotFound)"
| "quarantine_failure DestinationNotFound = HttpError 404 (ApiQuarantine DestinationNotFound)"
| "quarantine_failure (QuarantineIngress IngressTenantNotFound) = HttpError 404 (ApiIngestion IngressTenantNotFound)"
| "quarantine_failure (QuarantineIngress IngressTenantSuspended) = Http 403 (ascii ''tenant cannot resolve events here'')"
| "quarantine_failure (QuarantineIngress IngressTenantNotAuthorized) = Http 403 (ascii ''tenant cannot resolve events here'')"
| "quarantine_failure (QuarantineIngress e) = ServerError (ApiIngestion e)"
| "quarantine_failure (QuarantineDelivery e) = ServerError (ApiIngestion e)"
| "quarantine_failure (QuarantinedEventInvalid e) = ServerError (ApiContract e)"
| "quarantine_failure QuarantineIntegrity = Http 409 (ascii ''resolution identity conflicts'')"
| "quarantine_failure e = HttpError 409 (ApiQuarantine e)"

definition resolve_input :: "OperatorIdentity \<Rightarrow> uuid \<Rightarrow> ResolveRequest \<Rightarrow> ResolveQuarantineInput" where
  "resolve_input i event b =
     \<lparr>qi_command_id = qb_command_id b, qi_tenant_id = oi_tenant_id i, qi_event_id = event,
      qi_process_instance_id = qb_process_instance_id b, qi_actor_id = oi_actor_id i, qi_reason = qb_reason b,
      qi_bind_references = qb_bind_references b\<rparr>"

definition submit_resolution ::
  "ApiApp \<Rightarrow> ApiEnv \<Rightarrow> ApiRequest \<Rightarrow> uuid \<Rightarrow> ResolveRequest \<Rightarrow> Database \<Rightarrow> api_failure + EventResolutionCommand \<times> Database" where
  "submit_resolution a env r event b db =
     bind_result (operator_identity a env r db) (\<lambda>i.
     bind_result (unprocessable ApiContract (check_ResolveRequest b)) (\<lambda>_.
     bind_result (require_scope QUARANTINE_RESOLVE i) (\<lambda>_.
     case resolve_quarantine (ae_show_time env) (ae_show_uuid env) (release_id a) (ae_ingest env) (resolve_input i event b)
            (command_database env db) of
       Inl e \<Rightarrow> Inl (quarantine_failure e) | Inr answer \<Rightarrow> Inr answer)))"

record RequeueRequest =
  ob_command_id :: uuid
  ob_reason :: unicode

definition requeue_input :: "OperatorIdentity \<Rightarrow> uuid \<Rightarrow> RequeueRequest \<Rightarrow> RequeueOutboxInput" where
  "requeue_input i message b =
     \<lparr>rq_command_id = ob_command_id b, rq_tenant_id = oi_tenant_id i, rq_outbox_message_id = message,
      rq_actor_id = oi_actor_id i, rq_reason = ob_reason b\<rparr>"

fun recovery_failure :: "recovery_error \<Rightarrow> api_failure" where
  "recovery_failure RequeueIntegrity = ServerError (ApiRecovery RequeueIntegrity)"
| "recovery_failure e = HttpError 409 (ApiRecovery e)"

definition requeue_dead_letter ::
  "ApiApp \<Rightarrow> ApiEnv \<Rightarrow> ApiRequest \<Rightarrow> uuid \<Rightarrow> RequeueRequest \<Rightarrow> Database \<Rightarrow> api_failure + OutboxRecoveryCommand \<times> Database" where
  "requeue_dead_letter a env r message b db =
     bind_result (operator_identity a env r db) (\<lambda>i.
     bind_result (unprocessable ApiContract (require (between_lengths 1 10000 (ob_reason b)) (InvalidField ''reason''))) (\<lambda>_.
     bind_result (require_scope OUTBOX_REQUEUE i) (\<lambda>_.
     case requeue (ae_now env) (requeue_input i message b) (command_database env db) of
       Inl e \<Rightarrow> Inl (recovery_failure e)
     | Inr answer \<Rightarrow> Inr answer)))"

end
