(* ===== verification/Isolation.thy ===== *)
theory Isolation
  imports Api
begin

text \<open>
  What a command of one tenant can touch. \<open>rows_of P\<close> keeps of every table the rows of the
  tenants that satisfy \<open>P\<close>; a service is confined when a command of a tenant leaves the rows of
  all other tenants as they were. The services behind the API are confined.
\<close>

definition rows_of :: "(uuid \<Rightarrow> bool) \<Rightarrow> Database \<Rightarrow> Database" where
  "rows_of P db =
     \<lparr>db_tenants = filter (\<lambda>r. P (tn_id r)) (db_tenants db),
      db_safety_events = filter (\<lambda>r. P (ts_tenant_id r)) (db_safety_events db),
      db_deployment_events = filter (\<lambda>r. P (te_tenant_id r)) (db_deployment_events db),
      db_credentials = filter (\<lambda>r. P (tc_tenant_id r)) (db_credentials db),
      db_processes = filter (\<lambda>r. P (pi_tenant_id r)) (db_processes db),
      db_state_revisions = filter (\<lambda>r. P (sr_tenant_id r)) (db_state_revisions db),
      db_interventions = filter (\<lambda>r. P (pv_tenant_id r)) (db_interventions db),
      db_controls = filter (\<lambda>r. P (pc_tenant_id r)) (db_controls db),
      db_action_requests = filter (\<lambda>r. P (ar_tenant_id r)) (db_action_requests db),
      db_action_revisions = filter (\<lambda>r. P (av_tenant_id r)) (db_action_revisions db),
      db_policy_records = filter (\<lambda>r. P (ay_tenant_id r)) (db_policy_records db),
      db_approvals = filter (\<lambda>r. P (aq_tenant_id r)) (db_approvals db),
      db_attempts = filter (\<lambda>r. P (aa_tenant_id r)) (db_attempts db),
      db_reconciliations = filter (\<lambda>r. P (rd_tenant_id r)) (db_reconciliations db),
      db_review_threads = filter (\<lambda>r. P (rt_tenant_id r)) (db_review_threads db),
      db_review_messages = filter (\<lambda>r. P (rm_tenant_id r)) (db_review_messages db),
      db_approval_decisions = filter (\<lambda>r. P (ax_tenant_id r)) (db_approval_decisions db),
      db_events = filter (\<lambda>r. P (ei_tenant_id r)) (db_events db),
      db_correlations = filter (\<lambda>r. P (xc_tenant_id r)) (db_correlations db),
      db_outbox = filter (\<lambda>r. P (om_tenant_id r)) (db_outbox db),
      db_recoveries = filter (\<lambda>r. P (oc_tenant_id r)) (db_recoveries db),
      db_resolutions = filter (\<lambda>r. P (eq_tenant_id r)) (db_resolutions db),
      db_usage = filter (\<lambda>r. P (ul_tenant_id r)) (db_usage db),
      db_breakers = filter (\<lambda>r. P (br_tenant_id r)) (db_breakers db)\<rparr>"

definition foreign :: "uuid \<Rightarrow> Database \<Rightarrow> Database" where
  "foreign tenant db = rows_of (\<lambda>t. t \<noteq> tenant) db"

text \<open>The stored document of an event names the tenant of its row.\<close>

definition documents_owned :: "Database \<Rightarrow> bool" where
  "documents_owned db \<longleftrightarrow> (\<forall>e \<in> set (db_events db). ce_tenant_id (ei_event_data e) = ei_tenant_id e)"

section \<open>Confined services\<close>

locale confined_service =
  fixes serve :: "'c \<Rightarrow> Database \<Rightarrow> 'e + 'r \<times> Database"
    and tenant_of :: "'c \<Rightarrow> uuid"
  assumes confined: "documents_owned db \<Longrightarrow> serve c db = Inr (r, db') \<Longrightarrow>
      foreign (tenant_of c) db' = foreign (tenant_of c) db"
    and documents: "documents_owned db \<Longrightarrow> serve c db = Inr (r, db') \<Longrightarrow> documents_owned db'"
begin

text \<open>Requests one after the other, those that fail changing nothing.\<close>

fun serve_all :: "'c list \<Rightarrow> Database \<Rightarrow> Database" where
  "serve_all [] db = db"
| "serve_all (c # cs) db = serve_all cs (case serve c db of Inl _ \<Rightarrow> db | Inr (_, db') \<Rightarrow> db')"

lemma others_untouched:
  assumes "documents_owned db" "\<forall>c \<in> set cs. tenant_of c \<noteq> u"
  shows "rows_of (\<lambda>t. t = u) (serve_all cs db) = rows_of (\<lambda>t. t = u) db"
  using assms
proof (induction cs arbitrary: db)
  case (Cons c cs)
  have twice: "rows_of (\<lambda>t. t = u) x = rows_of (\<lambda>t. t = u) (foreign (tenant_of c) x)" for x
    using Cons.prems(2) by (auto simp: rows_of_def foreign_def intro!: filter_cong)
  show ?case
  proof (cases "serve c db")
    case (Inr answer)
    obtain r db' where answer: "answer = (r, db')" by (cases answer)
    have "rows_of (\<lambda>t. t = u) db' = rows_of (\<lambda>t. t = u) db"
      using confined [OF Cons.prems(1)] Inr answer twice by metis
    moreover have "documents_owned db'" using documents [OF Cons.prems(1)] Inr answer by blast
    ultimately show ?thesis using Cons Inr answer by simp
  qed (use Cons in simp)
qed simp

end

section \<open>Writing rows of one tenant\<close>

named_theorems confinement

lemma filter_update_rows:
  "(\<And>r. p r \<Longrightarrow> \<not> P (k r) \<and> \<not> P (k (f r))) \<Longrightarrow> filter (\<lambda>r. P (k r)) (update_rows p f rows) = filter (\<lambda>r. P (k r)) rows"
  by (induction rows) (auto simp: update_rows_def)

lemma filter_insert_row:
  "insert_row clash row rows = Some rows' \<Longrightarrow> \<not> P (k row) \<Longrightarrow> filter (\<lambda>r. P (k r)) rows' = filter (\<lambda>r. P (k r)) rows"
  by (auto simp: insert_row_Some)

lemma filter_insert_ignore:
  "insert_ignore same clash row rows = Inserted rows' \<Longrightarrow> \<not> P (k row) \<Longrightarrow>
   filter (\<lambda>r. P (k r)) rows' = filter (\<lambda>r. P (k r)) rows"
  by (auto simp: insert_ignore_Inserted)

lemma foreign_update [confinement]:
  "filter (\<lambda>r. pi_tenant_id r \<noteq> t) ps = filter (\<lambda>r. pi_tenant_id r \<noteq> t) (db_processes db) \<Longrightarrow>
   foreign t (db\<lparr>db_processes := ps\<rparr>) = foreign t db"
  "filter (\<lambda>r. pv_tenant_id r \<noteq> t) vs = filter (\<lambda>r. pv_tenant_id r \<noteq> t) (db_interventions db) \<Longrightarrow>
   foreign t (db\<lparr>db_interventions := vs\<rparr>) = foreign t db"
  "filter (\<lambda>r. pc_tenant_id r \<noteq> t) cs = filter (\<lambda>r. pc_tenant_id r \<noteq> t) (db_controls db) \<Longrightarrow>
   foreign t (db\<lparr>db_controls := cs\<rparr>) = foreign t db"
  "filter (\<lambda>r. ar_tenant_id r \<noteq> t) ars = filter (\<lambda>r. ar_tenant_id r \<noteq> t) (db_action_requests db) \<Longrightarrow>
   foreign t (db\<lparr>db_action_requests := ars\<rparr>) = foreign t db"
  "filter (\<lambda>r. aq_tenant_id r \<noteq> t) aqs = filter (\<lambda>r. aq_tenant_id r \<noteq> t) (db_approvals db) \<Longrightarrow>
   foreign t (db\<lparr>db_approvals := aqs\<rparr>) = foreign t db"
  "filter (\<lambda>r. rt_tenant_id r \<noteq> t) ths = filter (\<lambda>r. rt_tenant_id r \<noteq> t) (db_review_threads db) \<Longrightarrow>
   foreign t (db\<lparr>db_review_threads := ths\<rparr>) = foreign t db"
  "filter (\<lambda>r. rm_tenant_id r \<noteq> t) rms = filter (\<lambda>r. rm_tenant_id r \<noteq> t) (db_review_messages db) \<Longrightarrow>
   foreign t (db\<lparr>db_review_messages := rms\<rparr>) = foreign t db"
  "filter (\<lambda>r. ax_tenant_id r \<noteq> t) axs = filter (\<lambda>r. ax_tenant_id r \<noteq> t) (db_approval_decisions db) \<Longrightarrow>
   foreign t (db\<lparr>db_approval_decisions := axs\<rparr>) = foreign t db"
  "filter (\<lambda>r. ei_tenant_id r \<noteq> t) es = filter (\<lambda>r. ei_tenant_id r \<noteq> t) (db_events db) \<Longrightarrow>
   foreign t (db\<lparr>db_events := es\<rparr>) = foreign t db"
  "filter (\<lambda>r. xc_tenant_id r \<noteq> t) xcs = filter (\<lambda>r. xc_tenant_id r \<noteq> t) (db_correlations db) \<Longrightarrow>
   foreign t (db\<lparr>db_correlations := xcs\<rparr>) = foreign t db"
  "filter (\<lambda>r. om_tenant_id r \<noteq> t) ms = filter (\<lambda>r. om_tenant_id r \<noteq> t) (db_outbox db) \<Longrightarrow>
   foreign t (db\<lparr>db_outbox := ms\<rparr>) = foreign t db"
  "filter (\<lambda>r. oc_tenant_id r \<noteq> t) ocs = filter (\<lambda>r. oc_tenant_id r \<noteq> t) (db_recoveries db) \<Longrightarrow>
   foreign t (db\<lparr>db_recoveries := ocs\<rparr>) = foreign t db"
  "filter (\<lambda>r. eq_tenant_id r \<noteq> t) eqs = filter (\<lambda>r. eq_tenant_id r \<noteq> t) (db_resolutions db) \<Longrightarrow>
   foreign t (db\<lparr>db_resolutions := eqs\<rparr>) = foreign t db"
  "filter (\<lambda>r. br_tenant_id r \<noteq> t) brs = filter (\<lambda>r. br_tenant_id r \<noteq> t) (db_breakers db) \<Longrightarrow>
   foreign t (db\<lparr>db_breakers := brs\<rparr>) = foreign t db"
  by (simp_all add: foreign_def rows_of_def)

lemma enqueue_confined:
  "enqueue m db = Some db' \<Longrightarrow> om_tenant_id m = t \<Longrightarrow> foreign t db' = foreign t db \<and> db_events db' = db_events db"
  by (auto simp: enqueue_def insert_ignore_Inserted split: insertion.splits intro!: confinement)

lemma new_message_tenant [simp]: "om_tenant_id (new_message i now t p ca ty d k pl) = t"
  by (simp add: new_message_def)

lemma add_references_confined:
  "add_references ids n t process refs rows = Some rows' \<Longrightarrow>
   filter (\<lambda>r. xc_tenant_id r \<noteq> t) rows' = filter (\<lambda>r. xc_tenant_id r \<noteq> t) rows"
proof (induction refs arbitrary: n rows)
  case (Cons r refs)
  show ?case
  proof (cases "reference_owner t r rows")
    case None
    then obtain rows1 where "insert_row correlation_clash (correlation_row (ids n) t process r) rows = Some rows1"
      "add_references ids (Suc n) t process refs rows1 = Some rows'"
      using Cons.prems by (auto simp: bind_eq_Some_conv)
    then show ?thesis using Cons.IH [of "Suc n" rows1] by (auto simp: insert_row_Some correlation_row_def)
  qed (use Cons in simp)
qed simp

lemma persist_references_confined:
  "persist_references ids t process refs db = Inr db' \<Longrightarrow> foreign t db' = foreign t db \<and> db_events db' = db_events db"
  by (auto simp: persist_references_def split: if_splits option.splits intro!: confinement dest!: add_references_confined)

lemma schedule_delivery_confined:
  "schedule_delivery i now event process db = Inr (m, db') \<Longrightarrow>
   foreign (ce_tenant_id event) db' = foreign (ce_tenant_id event) db \<and> db_events db' = db_events db"
  by (auto simp: schedule_delivery_def insert_ignore_Inserted split: option.splits insertion.splits if_splits intro!: confinement)

section \<open>The services\<close>

lemma correlate_confined:
  "correlate env c db = Inr (outcome, db') \<Longrightarrow>
   foreign (ce_tenant_id (nc_event c)) db' = foreign (ce_tenant_id (nc_event c)) db \<and> db_events db' = db_events db"
  by (auto simp: correlate_def create_process_def insert_row_Some new_process_def
      split: prod.splits option.splits if_splits intro!: confinement)

lemma bind_matched_confined:
  "bind_matched env event outcome db = Inr (x, db') \<Longrightarrow>
   foreign (ce_tenant_id event) db' = foreign (ce_tenant_id event) db \<and> db_events db' = db_events db"
  by (auto simp: bind_matched_def split: prod.splits option.splits correlation_status.splits if_splits
      dest!: persist_references_confined)

lemma deliver_matched_confined:
  "deliver_matched env event process status go db = Inr (x, db') \<Longrightarrow>
   foreign (ce_tenant_id event) db' = foreign (ce_tenant_id event) db \<and> db_events db' = db_events db"
  by (auto simp: deliver_matched_def split: option.splits if_splits dest!: schedule_delivery_confined)

lemma ingest_confined:
  assumes "ingest env c db = Inr (r, db')"
  shows "foreign (ce_tenant_id (nc_event c)) db' = foreign (ce_tenant_id (nc_event c)) db"
proof -
  let ?e = "nc_event c"
  obtain existing where ex: "existing_result ?e db = Inr existing"
    using assms by (auto simp: ingest_def Let_def split: if_splits)
  show ?thesis
  proof (cases existing)
    case (Some r')
    then show ?thesis using assms ex by (auto simp: ingest_def Let_def split: if_splits)
  next
    case None
    obtain process status reason db1 where co: "correlate env c db = Inr ((process, status, reason), db1)"
      using assms ex None by (auto simp: ingest_def Let_def split: if_splits)
    obtain go reason' db2 where bm: "bind_matched env ?e (process, status, reason) db1 = Inr ((go, reason'), db2)"
      using assms ex None co by (auto simp: ingest_def Let_def split: if_splits)
    let ?ins = "insert_ignore (\<lambda>r s. source_key r = source_key s) (\<lambda>r s. ei_id r = ei_id s)
      (inbox_row ?e process status reason') (db_events db2)"
    note first = correlate_confined [OF co] bind_matched_confined [OF bm]
    show ?thesis
    proof (cases ?ins)
      case (Inserted rows)
      obtain x where deliver: "deliver_matched env ?e process status go (db2\<lparr>db_events := rows\<rparr>) = Inr (x, db')"
        using assms ex None co bm Inserted by (auto simp: ingest_def Let_def split: if_splits)
      have "foreign (ce_tenant_id ?e) (db2\<lparr>db_events := rows\<rparr>) = foreign (ce_tenant_id ?e) db2"
        using Inserted by (intro confinement) (auto simp: insert_ignore_Inserted inbox_row_def)
      then show ?thesis using first deliver_matched_confined [OF deliver] by simp
    next
      case Ignored
      then have "db' = db2"
        using assms ex None co bm by (auto simp: ingest_def Let_def split: if_splits option.splits)
      then show ?thesis using first by simp
    next
      case Violation
      then show ?thesis using assms ex None co bm by (auto simp: ingest_def Let_def split: if_splits)
    qed
  qed
qed

lemma ingest_documents_owned: "ingest env c db = Inr (r, db') \<Longrightarrow> documents_owned db \<Longrightarrow> documents_owned db'"
  by (erule ingest_cases) (auto simp: documents_owned_def inbox_row_def)

lemma store_resolution_confined:
  assumes "store_resolution env c row process db = Inr (stored, db')" "ce_tenant_id (ei_event_data row) = qi_tenant_id c"
  shows "foreign (qi_tenant_id c) db' = foreign (qi_tenant_id c) db
    \<and> db_events db' = update_rows (\<lambda>e. ei_tenant_id e = qi_tenant_id c \<and> ei_id e = qi_event_id c)
         (correlated_row c (terminal_status (pi_status process))) (db_events db)"
proof -
  let ?t = "qi_tenant_id c"
  let ?es = "update_rows (\<lambda>e. ei_tenant_id e = ?t \<and> ei_id e = qi_event_id c)
    (correlated_row c (terminal_status (pi_status process))) (db_events db)"
  obtain db1 rows where refs: "persist_references (ng_correlation_ids env) ?t (pi_id process) (bound_references c) db = Inr db1"
    and ins: "insert_row (\<lambda>r s. eq_id r = eq_id s \<or> (eq_tenant_id r, eq_event_id r) = (eq_tenant_id s, eq_event_id s))
      (event_resolution_row c row (terminal_status (pi_status process))) (db_resolutions db1) = Some rows"
    and fin: "db' = db1\<lparr>db_resolutions := rows, db_events := ?es\<rparr>
      \<or> (\<exists>m. schedule_delivery (ng_outbox_id env) (ng_now env) (ei_event_data row) (pi_id process)
           (db1\<lparr>db_resolutions := rows, db_events := ?es\<rparr>) = Inr (m, db'))"
    using assms(1) persist_references_confined
    by (fastforce simp: store_resolution_def Let_def split: sum.splits ingestion_error.splits option.splits if_splits)
  have "foreign ?t (db1\<lparr>db_resolutions := rows, db_events := ?es\<rparr>) = foreign ?t (db1\<lparr>db_resolutions := rows\<rparr>)"
  proof (rule foreign_update)
    have "filter (\<lambda>r. ei_tenant_id r \<noteq> ?t) ?es = filter (\<lambda>r. ei_tenant_id r \<noteq> ?t) (db_events db)"
      by (rule filter_update_rows) (simp add: correlated_row_def)
    then show "filter (\<lambda>r. ei_tenant_id r \<noteq> ?t) ?es = filter (\<lambda>r. ei_tenant_id r \<noteq> ?t) (db_events (db1\<lparr>db_resolutions := rows\<rparr>))"
      using persist_references_confined [OF refs] by simp
  qed
  moreover have "foreign ?t (db1\<lparr>db_resolutions := rows\<rparr>) = foreign ?t db1"
    using ins by (intro confinement) (auto simp: insert_row_Some event_resolution_row_def)
  ultimately show ?thesis
    using fin persist_references_confined [OF refs] assms(2)
    by (auto dest!: schedule_delivery_confined)
qed

lemma resolve_quarantine_confined:
  assumes "documents_owned db" "resolve_quarantine st su deployment env c db = Inr (stored, db')"
  shows "foreign (qi_tenant_id c) db' = foreign (qi_tenant_id c) db \<and> documents_owned db'"
proof (cases "find_event_resolution c db")
  case (Some existing)
  then have "db' = db" using assms(2) by (auto simp: resolve_quarantine_def Let_def split: if_splits sum.splits)
  then show ?thesis using assms(1) by simp
next
  case None
  then obtain row process where row: "find_event (qi_tenant_id c) (qi_event_id c) db = Some row"
    and store: "store_resolution env c row process db = Inr (stored, db')"
    using assms(2) by (auto simp: resolve_quarantine_def Let_def split: if_splits sum.splits option.splits)
  have "ce_tenant_id (ei_event_data row) = qi_tenant_id c"
    using row assms(1) by (auto simp: find_event_def documents_owned_def dest: find_Some_mem)
  from store_resolution_confined [OF store this] show ?thesis
    using assms(1) by (auto simp: documents_owned_def set_update_rows correlated_row_def)
qed

lemma requeue_confined:
  "requeue now c db = Inr (r, db') \<Longrightarrow>
   foreign (rq_tenant_id c) db' = foreign (rq_tenant_id c) db \<and> db_events db' = db_events db"
  by (auto simp: requeue_def Let_def insert_row_Some mark_requeued_def split: if_splits option.splits
      intro!: foreign_update [THEN trans] filter_update_rows [where P = "\<lambda>x. x \<noteq> rq_tenant_id c" and k = om_tenant_id])

lemma breaker_transition_confined:
  "breaker_transition i now t scope target actor reason tripped db = Inr (r, db') \<Longrightarrow>
   foreign t db' = foreign t db \<and> db_events db' = db_events db"
  by (auto simp: breaker_transition_def Let_def split: if_splits intro!: confinement)

lemma set_review_statuses_confined:
  assumes "aq_tenant_id approval = t" "ar_tenant_id request = t" "rt_tenant_id thread = t"
  shows "foreign t (set_review_statuses thread approval request a b s db) = foreign t db"
proof -
  have "filter (\<lambda>r. aq_tenant_id r \<noteq> t) (update_rows (\<lambda>x. approval_key x = approval_key approval)
      (\<lambda>x. x\<lparr>aq_status := a\<rparr>) rows) = filter (\<lambda>r. aq_tenant_id r \<noteq> t) rows" for rows
    by (rule filter_update_rows) (use assms in \<open>auto simp: approval_key_def\<close>)
  moreover have "filter (\<lambda>r. ar_tenant_id r \<noteq> t) (update_rows (\<lambda>x. request_key x = request_key request)
      (\<lambda>x. x\<lparr>ar_status := b\<rparr>) rows) = filter (\<lambda>r. ar_tenant_id r \<noteq> t) rows" for rows
    by (rule filter_update_rows) (use assms in \<open>auto simp: request_key_def\<close>)
  moreover have "filter (\<lambda>r. rt_tenant_id r \<noteq> t) (update_rows (\<lambda>x. thread_key x = thread_key thread)
      (\<lambda>x. x\<lparr>rt_status := s\<rparr>) rows) = filter (\<lambda>r. rt_tenant_id r \<noteq> t) rows" for rows
    by (rule filter_update_rows) (use assms in \<open>auto simp: thread_key_def\<close>)
  ultimately show ?thesis by (simp add: set_review_statuses_def foreign_def rows_of_def)
qed

lemma add_approval_decision_confined:
  "add_approval_decision c approval outcome db = Some db' \<Longrightarrow>
   foreign (rc_tenant_id c) db' = foreign (rc_tenant_id c) db \<and> db_events db' = db_events db"
  by (auto simp: add_approval_decision_def insert_row_Some split: option.splits intro!: confinement)

lemma add_review_message_confined:
  "add_review_message c db = Some db' \<Longrightarrow>
   foreign (rc_tenant_id c) db' = foreign (rc_tenant_id c) db \<and> db_events db' = db_events db"
  by (auto simp: add_review_message_def insert_row_Some review_message_row_def intro!: confinement)

lemma store_review_confined:
  assumes "store_review i now c thread process approval request db = Inr (res, db')"
    and "aq_tenant_id approval = rc_tenant_id c" "ar_tenant_id request = rc_tenant_id c" "rt_tenant_id thread = rc_tenant_id c"
  shows "foreign (rc_tenant_id c) db' = foreign (rc_tenant_id c) db \<and> db_events db' = db_events db"
proof -
  let ?t = "rc_tenant_id c"
  obtain db1 db2 where first: "foreign ?t db1 = foreign ?t db \<and> db_events db1 = db_events db"
    and message: "add_review_message c db1 = Some db2"
    and enq: "enqueue (review_outbox_message i now c process) db2 = Some db'"
  proof (cases "review_outcome (rc_command_type c)")
    case None
    then obtain db2 where "add_review_message c db = Some db2" "enqueue (review_outbox_message i now c process) db2 = Some db'"
      using assms(1) by (auto simp: store_review_def bind_eq_Some_conv split: if_splits option.splits)
    then show ?thesis using that [of db] by blast
  next
    case (Some out)
    obtain sa sr st outcome where out: "out = (sa, sr, st, outcome)" by (cases out)
    define db0 where "db0 = set_review_statuses thread approval request sa sr st db"
    from Some out assms(1) obtain db1 db2 where dec: "add_approval_decision c approval outcome db0 = Some db1"
      and "add_review_message c db1 = Some db2" "enqueue (review_outbox_message i now c process) db2 = Some db'"
      by (auto simp: store_review_def bind_eq_Some_conv db0_def split: if_splits option.splits)
    moreover have "foreign ?t db0 = foreign ?t db \<and> db_events db0 = db_events db"
      unfolding db0_def using set_review_statuses_confined [OF assms(2-4)] by (simp add: set_review_statuses_def)
    ultimately show ?thesis using add_approval_decision_confined [OF dec] that by simp
  qed
  have "foreign ?t db' = foreign ?t db2 \<and> db_events db' = db_events db2"
    by (rule enqueue_confined [OF enq]) (simp add: review_outbox_message_def)
  then show ?thesis using first add_review_message_confined [OF message] by simp
qed

lemma apply_review_confined:
  assumes "apply_review e c db = Inr (res, db')"
  shows "foreign (rc_tenant_id c) db' = foreign (rc_tenant_id c) db \<and> db_events db' = db_events db"
proof (cases "find_review_message c db")
  case (Some existing)
  then show ?thesis using assms by (auto simp: apply_review_def split: if_splits)
next
  case None
  from assms None show ?thesis
  proof (rule apply_review_new)
    fix thread process approval request
    assume targets: "review_targets c db = Inr (thread, process, approval, request)"
      and store: "store_review (fst e) (snd e) c thread process approval request db = Inr (res, db')"
    have "aq_tenant_id approval = rc_tenant_id c" "ar_tenant_id request = rc_tenant_id c" "rt_tenant_id thread = rc_tenant_id c"
      using targets by (auto simp: review_targets_ok approval_key_def request_key_def thread_key_def dest!: find_key_of)
    from store_review_confined [OF store this] show ?thesis .
  qed
qed

lemma resolve_intervention_confined:
  "(\<And>v. intervention = Some v \<Longrightarrow> pv_tenant_id v = t) \<Longrightarrow>
   foreign t (resolve_intervention i now intervention db) = foreign t db"
  by (auto simp: resolve_intervention_def intervention_key_def split: option.splits
      intro!: confinement filter_update_rows [where k = pv_tenant_id])

lemma update_process_confined:
  "(\<And>p. pi_tenant_id (f p) = t) \<Longrightarrow> foreign t (update_process t i f db) = foreign t db"
  by (auto simp: update_process_def intro!: confinement filter_update_rows [where k = pi_tenant_id])

lemma control_transition_intervention:
  "control_transition c process db = Inr (Some v, process') \<Longrightarrow> pv_tenant_id v = ki_tenant_id c"
  by (auto simp: control_transition_def intervention_key_def split: ProcessControlType.splits option.splits if_splits
      dest!: find_Some_mem)

lemma enqueue_manual_wake_confined:
  assumes "enqueue_manual_wake env c process db = Some db'"
  shows "foreign (ki_tenant_id c) db' = foreign (ki_tenant_id c) db"
proof (cases "insert_row event_clash (manual_wake_row env c) (db_events db)")
  case (Some es)
  then have "foreign (ki_tenant_id c) (db\<lparr>db_events := es\<rparr>) = foreign (ki_tenant_id c) db"
    by (intro confinement) (auto simp: insert_row_Some manual_wake_row_def)
  then show ?thesis using assms Some by (auto simp: enqueue_manual_wake_def dest!: enqueue_confined)
qed (use assms in \<open>simp add: enqueue_manual_wake_def\<close>)

lemma store_control_confined:
  assumes "store_control env c reason process intervention db = Some db'"
    and "pi_tenant_id process = ki_tenant_id c" "\<And>v. intervention = Some v \<Longrightarrow> pv_tenant_id v = ki_tenant_id c"
  shows "foreign (ki_tenant_id c) db' = foreign (ki_tenant_id c) db"
proof -
  let ?t = "ki_tenant_id c"
  let ?db1 = "update_process ?t (ki_process_instance_id c) (\<lambda>_. process) db"
  obtain rows where ins: "insert_row (\<lambda>r s. pc_id r = pc_id s) (control_row c reason intervention) (db_controls ?db1) = Some rows"
    using assms(1) by (auto simp: store_control_def Let_def split: option.splits)
  let ?db2 = "resolve_intervention (ki_command_id c) (ke_resolved_at env) intervention (?db1\<lparr>db_controls := rows\<rparr>)"
  have "foreign ?t ?db2 = foreign ?t (?db1\<lparr>db_controls := rows\<rparr>)"
    using assms(3) by (rule resolve_intervention_confined)
  moreover have "foreign ?t (?db1\<lparr>db_controls := rows\<rparr>) = foreign ?t ?db1"
    using ins by (intro confinement) (auto simp: insert_row_Some control_row_def)
  moreover have "foreign ?t ?db1 = foreign ?t db" by (rule update_process_confined) (rule assms(2))
  ultimately have db2: "foreign ?t ?db2 = foreign ?t db" by simp
  show ?thesis
  proof (cases "ki_command_type c = WAKE \<or> ki_command_type c = RESUME")
    case True
    then have "enqueue_manual_wake env c process ?db2 = Some db'"
      using assms(1) ins by (simp add: store_control_def Let_def)
    then show ?thesis using enqueue_manual_wake_confined db2 by simp
  next
    case False
    then have "enqueue_control env c process (pc_payload (control_row c reason intervention)) ?db2 = Some db'"
      using assms(1) ins by (simp add: store_control_def Let_def)
    then show ?thesis using db2 by (auto simp: enqueue_control_def dest!: enqueue_confined)
  qed
qed

lemma apply_control_confined:
  assumes "apply_control env c db = Inr (row, db')"
  shows "foreign (ki_tenant_id c) db' = foreign (ki_tenant_id c) db"
proof (cases "find_control c db")
  case (Some existing)
  then show ?thesis using assms by (auto simp: apply_control_def Let_def split: if_splits sum.splits)
next
  case None
  from assms None show ?thesis
  proof (rule apply_control_new)
    fix process intervention process'
    assume p: "find_process (ki_tenant_id c) (ki_process_instance_id c) db = Some process"
      and tr: "control_transition c process db = Inr (intervention, process')"
      and store: "store_control env c (strip (ki_reason c)) process' intervention db = Some db'"
    have "pi_tenant_id process' = ki_tenant_id c"
      using control_transition_ids(1) [OF tr] find_process_ids [OF p] by simp
    with store show ?thesis
      by (rule store_control_confined) (use tr control_transition_intervention in blast)
  qed
qed

lemma apply_control_documents_owned:
  assumes "documents_owned db" "apply_control env c db = Inr (row, db')"
  shows "documents_owned db'"
proof (cases "find_control c db")
  case (Some existing)
  then show ?thesis using assms by (auto simp: apply_control_def Let_def split: if_splits sum.splits)
next
  case None
  from assms(2) None show ?thesis
  proof (rule apply_control_new)
    fix process' intervention
    assume "store_control env c (strip (ki_reason c)) process' intervention db = Some db'"
    from store_control_events [OF this] show ?thesis
      using assms(1) by (auto simp: documents_owned_def manual_wake_row_def manual_wake_event_def)
  qed
qed

section \<open>The interface met\<close>

interpretation confined_ingest: confined_service "\<lambda>(env, c). ingest env c" "\<lambda>(env, c). ce_tenant_id (nc_event c)"
  by unfold_locales (auto dest: ingest_confined ingest_documents_owned)

interpretation confined_resolution: confined_service
  "\<lambda>(st, su, deployment, env, c). resolve_quarantine st su deployment env c" "\<lambda>(st, su, deployment, env, c). qi_tenant_id c"
  by unfold_locales (auto dest: resolve_quarantine_confined)

interpretation confined_review: confined_service "\<lambda>(e, c). apply_review e c" "\<lambda>(e, c). rc_tenant_id c"
  by unfold_locales (auto simp: documents_owned_def dest: apply_review_confined)

interpretation confined_control: confined_service "\<lambda>(env, c). apply_control env c" "\<lambda>(env, c). ki_tenant_id c"
  by unfold_locales (auto dest: apply_control_confined apply_control_documents_owned)

interpretation confined_requeue: confined_service "\<lambda>(now, c). requeue now c" "\<lambda>(now, c). rq_tenant_id c"
  by unfold_locales (auto simp: documents_owned_def dest: requeue_confined)

interpretation confined_breaker: confined_service
  "\<lambda>(i, now, t, scope, target, actor, reason, tripped). breaker_transition i now t scope target actor reason tripped"
  "\<lambda>(i, now, t, rest). t"
  by unfold_locales (auto simp: documents_owned_def dest: breaker_transition_confined)

end
