(* ===== verification/Access_Properties.thy ===== *)
theory Access_Properties
  imports Isolation Operator_Properties
begin

text \<open>
  The guarantees at the boundary of the platform: what a credential opens, that a revoked one stays
  shut, that a request reaches the rows of its own tenant only, and that a tenant is moved
  between deployments only when nothing of it is left behind.
\<close>

section \<open>Requests\<close>

text \<open>The routes that write, and the scope each of them asks for.\<close>

datatype ApiCall =
    IngestCall IngestEventRequest
  | ReviewCall uuid ReviewCommandRequest
  | ControlCall uuid ProcessControlRequest
  | BreakerCall bool BreakerTransitionRequest
  | ResolveCall uuid ResolveRequest
  | RequeueCall uuid RequeueRequest

fun required_scope :: "ApiCall \<Rightarrow> CredentialScope" where
  "required_scope (IngestCall b) = EVENTS_INGEST"
| "required_scope (ReviewCall t b) = review_scope (rb_command_type b)"
| "required_scope (ControlCall p b) = PROCESSES_CONTROL"
| "required_scope (BreakerCall tripped b) = PROCESSES_CONTROL"
| "required_scope (ResolveCall e b) = QUARANTINE_RESOLVE"
| "required_scope (RequeueCall m b) = OUTBOX_REQUEUE"

definition committed :: "api_failure + 'r \<times> Database \<Rightarrow> Database option" where
  "committed answer = (case answer of Inl _ \<Rightarrow> None | Inr (_, db) \<Rightarrow> Some db)"

text \<open>The database a request leaves; \<open>None\<close> when it is refused.\<close>

fun serve_api :: "ApiApp \<Rightarrow> ApiEnv \<Rightarrow> ApiRequest \<Rightarrow> ApiCall \<Rightarrow> Database \<Rightarrow> Database option" where
  "serve_api a env r (IngestCall b) db = committed (ingest_event a env r b db)"
| "serve_api a env r (ReviewCall t b) db = committed (submit_review_command a env r t b db)"
| "serve_api a env r (ControlCall p b) db = committed (submit_process_control a env r p b db)"
| "serve_api a env r (BreakerCall tripped b) db = committed (apply_breaker_transition a env r b tripped db)"
| "serve_api a env r (ResolveCall e b) db = committed (submit_resolution a env r e b db)"
| "serve_api a env r (RequeueCall m b) db = committed (requeue_dead_letter a env r m b db)"

text \<open>
  A credential of the database speaks for the identity: its secret was presented, it is active and
  not expired, and its tenant is active.
\<close>

definition vouched :: "instant \<Rightarrow> unicode \<Rightarrow> Database \<Rightarrow> OperatorIdentity \<Rightarrow> bool" where
  "vouched now header db i \<longleftrightarrow>
     (\<exists>token p c t. bearer_token header = Some token \<and> parse_credential token = Some p
        \<and> c \<in> set (db_credentials db) \<and> tc_id c = pc_credential_id p \<and> tc_tenant_id c = pc_tenant p
        \<and> hash_secret (pc_secret p) = Some (tc_secret_hash c) \<and> tc_status c = credential_status.ACTIVE \<and> \<not> expired now c
        \<and> find_tenant (tc_tenant_id c) db = Some t \<and> tn_status t = TenantStatus.ACTIVE \<and> i = credential_identity c)"

definition identified :: "ApiApp \<Rightarrow> ApiEnv \<Rightarrow> ApiRequest \<Rightarrow> Database \<Rightarrow> OperatorIdentity \<Rightarrow> bool" where
  "identified a env r db i \<longleftrightarrow>
     (case rq_authorization r of
        Some header \<Rightarrow> vouched (ae_authenticated_at env) header db i
      | None \<Rightarrow> as_environment a = ''development'' \<and> as_allow_unsafe_headers a
          \<and> (\<exists>h. rq_tenant_header r = Some h \<and> uuid_of_text h = Some (oi_tenant_id i)))
     \<and> (\<forall>release. as_deployment_release a = Some release \<longrightarrow> oi_tenant_id i \<in> as_deployment_tenant_ids a
          \<and> require_tenant_deployment (oi_tenant_id i) (dr_deployment_id release) (ae_before_assignment env db) = Inr ())"

definition granted :: "CredentialScope \<Rightarrow> OperatorIdentity \<Rightarrow> bool" where
  "granted scope i \<longleftrightarrow> wildcard \<in> oi_scopes i \<or> scope_value scope \<in> oi_scopes i"

lemma require_scope_granted [simp]: "require_scope scope i = Inr u \<longleftrightarrow> granted scope i"
  by (simp add: require_scope_def granted_def)

lemma authenticate_bearer_vouched:
  assumes "authenticate_bearer now h db = Inr i"
  shows "vouched now h db i"
  using assms
  unfolding authenticate_bearer_ok
proof (elim exE conjE)
  fix token p c t
  assume *: "bearer_token h = Some token" "parse_credential token = Some p"
    "find_credential (pc_tenant p) (pc_credential_id p) db = Some c" "find_tenant (pc_tenant p) db = Some t"
    "hash_secret (pc_secret p) = Some (tc_secret_hash c)" "tc_status c = credential_status.ACTIVE"
    "\<not> expired now c" "tn_status t = TenantStatus.ACTIVE" "i = credential_identity c"
  note ids = find_credential_ids [OF *(3)]
  show ?thesis unfolding vouched_def
    by (rule exI [of _ token], rule exI [of _ p], rule exI [of _ c], rule exI [of _ t]) (simp add: * ids)
qed

lemma operator_identity_identified:
  assumes "operator_identity a env r db = Inr i"
  shows "identified a env r db i"
  using assms
  by (auto simp: operator_identity_def require_operator_identity_def identified_def app_state_def
      require_deployment_assignment_ok unsafe_headers_enabled_def header_identity_def
      split: option.splits if_splits dest!: authenticate_bearer_vouched)

lemma ingress_identity_identified:
  assumes "require_event_ingress_identity (app_state a) (ae_authenticated_at env) (ae_before_assignment env) r db = Inr i"
  shows "identified a env r db i \<and> granted EVENTS_INGEST i"
  using assms
  by (auto simp: require_event_ingress_identity_def identified_def app_state_def
      require_deployment_assignment_ok unsafe_headers_enabled_def header_identity_def
      split: option.splits if_splits dest!: authenticate_bearer_vouched)

text \<open>What one request has done: it had an identity with the scope, and its service was confined.\<close>

definition confined_write :: "ApiApp \<Rightarrow> ApiEnv \<Rightarrow> ApiRequest \<Rightarrow> CredentialScope \<Rightarrow> Database \<Rightarrow> Database \<Rightarrow> bool" where
  "confined_write a env r scope db db' \<longleftrightarrow>
     (\<exists>i. identified a env r db i \<and> granted scope i
        \<and> foreign (oi_tenant_id i) db' = foreign (oi_tenant_id i) (command_database env db) \<and> documents_owned db')"

lemma confined_writeI:
  assumes "identified a env r db i" "granted scope i"
    and "foreign (oi_tenant_id i) db' = foreign (oi_tenant_id i) (command_database env db)" "documents_owned db'"
  shows "confined_write a env r scope db db'"
  unfolding confined_write_def using assms by blast

lemma failure_Inr [simp]: "(case x of Inl e \<Rightarrow> Inl (f e) | Inr v \<Rightarrow> Inr v) = Inr y \<longleftrightarrow> x = Inr y"
  by (cases x) simp_all

lemma checked_unchanged:
  "check_CanonicalEvent st su e = Inr e' \<Longrightarrow> e' = e" "check_ReviewCommand c = Inr c' \<Longrightarrow> c' = c"
  by (auto simp: check_CanonicalEvent_def check_ReviewCommand_def Let_def)

lemma ingest_event_confined:
  assumes "ingest_event a env r b db = Inr (res, db')" "documents_owned (command_database env db)"
  shows "confined_write a env r EVENTS_INGEST db db'"
proof -
  obtain i where i: "require_event_ingress_identity (app_state a) (ae_authenticated_at env) (ae_before_assignment env) r db
      = (Inr i :: api_failure + OperatorIdentity)"
    using assms(1) by (auto simp: ingest_event_def)
  let ?c = "\<lparr>nc_event = event_of_request env i b, nc_bootstrap = map_of (ax_trigger_rules a) (ce_event_type (event_of_request env i b)),
      nc_deployment_id = release_id a\<rparr>"
  have served: "ingest (ae_ingest env) ?c (command_database env db) = Inr (res, db')"
    using assms(1) i by (auto simp: ingest_event_def split: sum.splits dest: checked_unchanged)
  have "foreign (oi_tenant_id i) db' = foreign (oi_tenant_id i) (command_database env db)"
    using ingest_confined [OF served] by (simp add: event_of_request_def)
  then show ?thesis
    using ingress_identity_identified [OF i] ingest_documents_owned [OF served assms(2)] by (blast intro: confined_writeI)
qed

lemma submit_review_confined:
  assumes "submit_review_command a env r t b db = Inr (res, db')" "documents_owned (command_database env db)"
  shows "confined_write a env r (review_scope (rb_command_type b)) db db'"
proof -
  let ?db = "command_database env db"
  obtain i where i: "operator_identity a env r db = Inr i" using assms(1) by (auto simp: submit_review_command_def)
  obtain thread approval where target: "find_review_target (oi_tenant_id i) t ?db = Some (thread, approval)"
    using assms(1) i by (auto simp: submit_review_command_def Let_def split: option.splits)
  obtain p d where p: "find_process (oi_tenant_id i) (rt_process_instance_id thread) ?db = Some p"
    and d: "reviewed_definition a p = Inr d"
    using assms(1) i target by (auto simp: submit_review_command_def Let_def split: option.splits)
  have scope: "granted (review_scope (rb_command_type b)) i"
    using assms(1) i target p d by (auto simp: submit_review_command_def Let_def split: if_splits)
  have allowed: "rb_command_type b \<in> set (pd_review d)" "\<not> lacks_role i (rb_command_type b) approval"
    using assms(1) i target p d by (auto simp: submit_review_command_def Let_def split: if_splits)
  obtain c where c: "check_ReviewCommand (review_command i thread approval b) = Inr c"
    using assms(1) i target p d scope allowed by (auto simp: submit_review_command_def Let_def split: sum.splits)
  have "apply_review (ae_new_id env, ae_now env) c ?db = Inr (res, db')"
    using assms(1) i target p d scope allowed c by (simp add: submit_review_command_def Let_def)
  then have served: "apply_review (ae_new_id env, ae_now env) (review_command i thread approval b) ?db = Inr (res, db')"
    using checked_unchanged(2) [OF c] by simp
  have "foreign (oi_tenant_id i) db' = foreign (oi_tenant_id i) ?db" "db_events db' = db_events ?db"
    using apply_review_confined [OF served] by (simp_all add: review_command_def)
  then show ?thesis
    using operator_identity_identified [OF i] scope assms(2) by (auto simp: documents_owned_def intro: confined_writeI)
qed

lemma submit_control_confined:
  assumes "submit_process_control a env r p b db = Inr (res, db')" "documents_owned (command_database env db)"
  shows "confined_write a env r PROCESSES_CONTROL db db'"
proof -
  obtain i where i: "operator_identity a env r db = Inr i" "granted PROCESSES_CONTROL i"
    and served: "apply_control (ae_control env) (control_input i p b) (command_database env db) = Inr (res, db')"
    using assms(1) by (auto simp: submit_process_control_def)
  have "foreign (oi_tenant_id i) db' = foreign (oi_tenant_id i) (command_database env db)"
    using apply_control_confined [OF served] by (simp add: control_input_def)
  then show ?thesis
    using operator_identity_identified [OF i(1)] i(2) apply_control_documents_owned [OF assms(2) served]
    by (blast intro: confined_writeI)
qed

lemma breaker_call_confined:
  assumes "apply_breaker_transition a env r b tripped db = Inr (res, db')" "documents_owned (command_database env db)"
  shows "confined_write a env r PROCESSES_CONTROL db db'"
proof -
  obtain i scope where i: "operator_identity a env r db = Inr i" "granted PROCESSES_CONTROL i"
    and served: "breaker_transition (ae_new_id env) (ae_now env) (oi_tenant_id i) scope (bb_target b) (oi_actor_id i)
      (bb_reason b) tripped (command_database env db) = Inr (res, db')"
    using assms(1) by (auto simp: apply_breaker_transition_def split: option.splits)
  then show ?thesis
    using operator_identity_identified [OF i(1)] breaker_transition_confined [OF served] assms(2)
    by (auto simp: documents_owned_def intro: confined_writeI)
qed

lemma submit_resolution_confined:
  assumes "submit_resolution a env r e b db = Inr (res, db')" "documents_owned (command_database env db)"
  shows "confined_write a env r QUARANTINE_RESOLVE db db'"
proof -
  obtain i where i: "operator_identity a env r db = Inr i" "granted QUARANTINE_RESOLVE i"
    and served: "resolve_quarantine (ae_show_time env) (ae_show_uuid env) (release_id a) (ae_ingest env)
      (resolve_input i e b) (command_database env db) = Inr (res, db')"
    using assms(1) by (auto simp: submit_resolution_def)
  have "foreign (oi_tenant_id i) db' = foreign (oi_tenant_id i) (command_database env db)" "documents_owned db'"
    using resolve_quarantine_confined [OF assms(2) served] by (simp_all add: resolve_input_def)
  then show ?thesis using operator_identity_identified [OF i(1)] i(2) by (blast intro: confined_writeI)
qed

lemma requeue_call_confined:
  assumes "requeue_dead_letter a env r m b db = Inr (res, db')" "documents_owned (command_database env db)"
  shows "confined_write a env r OUTBOX_REQUEUE db db'"
proof -
  obtain i where i: "operator_identity a env r db = Inr i" "granted OUTBOX_REQUEUE i"
    and served: "requeue (ae_now env) (requeue_input i m b) (command_database env db) = Inr (res, db')"
    using assms(1) by (auto simp: requeue_dead_letter_def)
  have "foreign (oi_tenant_id i) db' = foreign (oi_tenant_id i) (command_database env db)"
    "db_events db' = db_events (command_database env db)"
    using requeue_confined [OF served] by (simp_all add: requeue_input_def)
  then show ?thesis
    using operator_identity_identified [OF i(1)] i(2) assms(2) by (auto simp: documents_owned_def intro: confined_writeI)
qed

text \<open>
  (C5) A request writes for its own tenant only: whatever the route, a request that changes the
  database was made with an active, unexpired credential of an active tenant that holds the scope of
  the route (or with the development headers where they are switched on), for a tenant this
  deployment serves, and leaves every row of every other tenant, in all tables, as it was.
\<close>

theorem api_writes_confined:
  assumes "serve_api a env r call db = Some db'" "documents_owned (command_database env db)"
  shows "\<exists>i. identified a env r db i \<and> granted (required_scope call) i
    \<and> rows_of (\<lambda>t. t \<noteq> oi_tenant_id i) db' = rows_of (\<lambda>t. t \<noteq> oi_tenant_id i) (command_database env db)
    \<and> documents_owned db'"
proof -
  have "confined_write a env r (required_scope call) db db'"
    using assms
    by (cases call) (auto simp: committed_def split: sum.splits intro: ingest_event_confined submit_review_confined
        submit_control_confined breaker_call_confined submit_resolution_confined requeue_call_confined)
  then show ?thesis by (simp add: confined_write_def foreign_def)
qed

definition sample_secret :: unicode where
  "sample_secret = replicate 43 97"

definition sample_credential :: TenantCredential where
  "sample_credential =
     \<lparr>tc_id = 9, tc_tenant_id = 1, tc_actor_id = 3, tc_name = ascii ''ops'', tc_secret_hash = the (hash_secret sample_secret),
      tc_scopes = [scope_value PROCESSES_CONTROL, scope_value EVENTS_INGEST], tc_roles = [], tc_status = credential_status.ACTIVE,
      tc_expires_at = None, tc_revoked_at = None, tc_revoked_by_actor_id = None\<rparr>"

definition credential_database :: Database where
  "credential_database = sample_database\<lparr>db_credentials := [sample_credential]\<rparr>"

definition sample_app :: ApiApp where
  "sample_app =
     \<lparr>as_environment = ''production'', as_allow_unsafe_headers = False, as_deployment_release = Some sample_release,
      as_deployment_tenant_ids = {1}, ax_process_registry = None, ax_trigger_rules = []\<rparr>"

definition sample_api_env :: ApiEnv where
  "sample_api_env =
     \<lparr>ae_authenticated_at = 5, ae_before_assignment = (\<lambda>db. db), ae_before_command = (\<lambda>db. db), ae_now = 6, ae_new_id = 40,
      ae_received_at = Aware 5, ae_show_time = (\<lambda>_. []), ae_show_uuid = uuid_str,
      ae_ingest = \<lparr>ng_process_id = 41, ng_correlation_ids = (\<lambda>n. 50 + n), ng_outbox_id = 42, ng_now = 6\<rparr>,
      ae_control = sample_control_env\<rparr>"

definition sample_token :: unicode where
  "sample_token = TOKEN_PREFIX @ [46] @ uuid_str 1 @ [46] @ uuid_str 9 @ [46] @ sample_secret"

definition sample_api_request :: ApiRequest where
  "sample_api_request =
     \<lparr>rq_authorization = Some (ascii ''Bearer '' @ sample_token), rq_tenant_header = None, rq_actor_header = None\<rparr>"

definition sample_api_call :: ApiCall where
  "sample_api_call = BreakerCall True \<lparr>bb_scope = ascii ''all'', bb_target = [], bb_reason = ascii ''incident''\<rparr>"

lemma bearer_header:
  assumes "token \<noteq> []" "32 \<notin> set token"
  shows "bearer_token (ascii ''Bearer '' @ token) = Some token"
proof -
  have "ascii ''Bearer '' = [66, 101, 97, 114, 101, 114, 32]" by (simp add: ascii_def)
  then show ?thesis using assms by (simp add: bearer_token_def lower_def lower_char_def ascii_def)
qed

lemma sample_bearer:
  assumes "db_credentials db = [sample_credential]" "db_tenants db = db_tenants sample_database"
  shows "authenticate_bearer 5 (ascii ''Bearer '' @ sample_token) db
    = (Inr (credential_identity sample_credential) :: api_failure + OperatorIdentity)"
proof -
  have "utf8_encode sample_secret \<noteq> None" by code_simp
  then obtain issued where issued: "issue_credential 1 3 9 sample_secret = Some issued" "ic_token issued = sample_token"
    by (auto simp: issue_credential_def hash_secret_def sample_token_def)
  have "secret_matches sample_secret" by code_simp
  with parse_issued [OF issued(1)]
  have "parse_credential sample_token = Some \<lparr>pc_tenant = 1, pc_credential_id = 9, pc_secret = sample_secret\<rparr>"
    using issued(2) by simp
  moreover have "bearer_token (ascii ''Bearer '' @ sample_token) = Some sample_token"
  proof (rule bearer_header)
    show "sample_token \<noteq> []" by (simp add: sample_token_def)
    show "32 \<notin> set sample_token"
      using uuid_str_range [of 1] uuid_str_range [of 9]
      by (auto simp: sample_token_def sample_secret_def TOKEN_PREFIX_def ascii_def)
  qed
  moreover have "find_credential 1 9 db = Some sample_credential"
    by (simp add: find_credential_def assms(1) sample_credential_def)
  moreover have "hash_secret sample_secret = Some (tc_secret_hash sample_credential)"
    using \<open>utf8_encode sample_secret \<noteq> None\<close> by (auto simp: hash_secret_def sample_credential_def)
  moreover obtain t where "find_tenant 1 db = Some t" "tn_status t = TenantStatus.ACTIVE"
    by (simp add: find_tenant_def assms(2) sample_database_def)
  moreover have "tc_status sample_credential = credential_status.ACTIVE" "\<not> expired 5 sample_credential"
    by (simp_all add: sample_credential_def expired_def)
  ultimately show ?thesis by (simp add: authenticate_bearer_ok)
qed

lemma sample_authenticated:
  "operator_identity sample_app sample_api_env sample_api_request credential_database = Inr (credential_identity sample_credential)"
proof -
  have "authenticate_bearer 5 (ascii ''Bearer '' @ sample_token) credential_database
      = (Inr (credential_identity sample_credential) :: api_failure + OperatorIdentity)"
    by (rule sample_bearer) (simp_all add: credential_database_def)
  moreover have "require_deployment_assignment (app_state sample_app) (credential_identity sample_credential) credential_database
      = (Inr (credential_identity sample_credential) :: api_failure + OperatorIdentity)"
    by (simp add: require_deployment_assignment_ok app_state_def sample_app_def credential_identity_def sample_credential_def
        require_tenant_deployment_def find_tenant_def credential_database_def sample_database_def sample_release_def)
  ultimately show ?thesis
    by (simp add: operator_identity_def require_operator_identity_def sample_api_request_def sample_api_env_def)
qed

lemma sample_api_call_served:
  "\<exists>db'. serve_api sample_app sample_api_env sample_api_request sample_api_call credential_database = Some db'
     \<and> length (db_breakers db') = 1"
proof -
  have "granted PROCESSES_CONTROL (credential_identity sample_credential)"
    by (simp add: granted_def credential_identity_def sample_credential_def)
  moreover have "breaker_scope_of (ascii ''all'') = Some BreakerScope.ALL" by code_simp
  moreover have "between_lengths 1 10000 (ascii ''incident'')" by code_simp
  moreover have target: "normalize_breaker_target BreakerScope.ALL [] = Inr []"
    and "strip (ascii ''incident'') = ascii ''incident''"
    and "ascii ''incident'' \<noteq> []" "length (ascii ''incident'') = 8" by code_simp+
  moreover have rows: "db_breakers credential_database = []"
    by (simp add: credential_database_def sample_database_def empty_database_def)
  moreover have "latest_breaker 1 BreakerScope.ALL [] credential_database = Inr None"
    by (simp add: latest_breaker_def target breaker_rows_def rows)
  moreover have "command_database sample_api_env credential_database = credential_database"
    by (simp add: command_database_def sample_api_env_def)
  moreover have "require_scope PROCESSES_CONTROL (credential_identity sample_credential) = (Inr () :: api_failure + unit)"
    using calculation(1) by simp
  moreover have "oi_tenant_id (credential_identity sample_credential) = 1"
    by (simp add: credential_identity_def sample_credential_def)
  ultimately show ?thesis
    by (simp add: sample_api_call_def apply_breaker_transition_def sample_authenticated unprocessable_def committed_def
        breaker_transition_def is_tripped_def Let_def del: require_scope_granted)
qed

theorem api_writes_confined_witness:
  "\<exists>i db'. serve_api sample_app sample_api_env sample_api_request sample_api_call credential_database = Some db'
     \<and> length (db_breakers db') = 1 \<and> identified sample_app sample_api_env sample_api_request credential_database i
     \<and> granted PROCESSES_CONTROL i
     \<and> rows_of (\<lambda>t. t \<noteq> oi_tenant_id i) db' = rows_of (\<lambda>t. t \<noteq> oi_tenant_id i) credential_database"
proof -
  obtain db' where served: "serve_api sample_app sample_api_env sample_api_request sample_api_call credential_database = Some db'"
    "length (db_breakers db') = 1" using sample_api_call_served by blast
  have same: "command_database sample_api_env credential_database = credential_database"
    by (simp add: command_database_def sample_api_env_def)
  have "documents_owned credential_database"
    by (simp add: documents_owned_def credential_database_def sample_database_def empty_database_def)
  with api_writes_confined [OF served(1)] show ?thesis
    using served by (auto simp: same sample_api_call_def)
qed

section \<open>Credentials\<close>

lemma issue_row:
  assumes "issue now new_id secret c db = Inr (issued, db')"
  obtains expires where "issue_credential (ik_tenant_id c) (ik_actor_id c) new_id secret = Some issued"
    "check_expiry now (ik_expires_at c) = Inr expires"
    "\<forall>r \<in> set (db_credentials db). tc_id r \<noteq> new_id"
    "db' = db\<lparr>db_credentials := db_credentials db @ [credential_row c expires issued]\<rparr>"
proof -
  obtain expires where expires: "check_expiry now (ik_expires_at c) = Inr expires"
    using assms by (auto simp: issue_def Let_def split: if_splits)
  obtain i where i: "issue_credential (ik_tenant_id c) (ik_actor_id c) new_id secret = Some i"
    using assms expires by (auto simp: issue_def Let_def split: if_splits option.splits)
  obtain rows where rows: "insert_row (\<lambda>r s. tc_id r = tc_id s) (credential_row c expires i) (db_credentials db) = Some rows"
    "issued = i" "db' = db\<lparr>db_credentials := rows\<rparr>"
    using assms expires i by (auto simp: issue_def Let_def split: if_splits option.splits)
  have "ic_credential_id i = new_id" using i by (auto simp: issue_credential_def)
  then show ?thesis using rows i expires by (intro that [of expires]) (auto simp: insert_row_Some credential_row_def)
qed

text \<open>
  (C14) A credential works as issued: the token handed out at issue, sent back as a bearer header,
  is parsed to the same tenant, credential and secret and authenticates the actor with exactly
  the scopes and the trimmed roles of the command, as long as it has not expired and its tenant is
  active.
\<close>

theorem credential_roundtrip:
  assumes "issue now new_id secret c db = Inr (issued, db')"
    and "ik_tenant_id c < 2 ^ 128" "new_id < 2 ^ 128" "secret_matches secret"
    and "find_tenant (ik_tenant_id c) db = Some t" "tn_status t = TenantStatus.ACTIVE"
    and "\<And>e. ik_expires_at c = Some (Aware e) \<Longrightarrow> later < e"
  shows "parse_credential (ic_token issued)
        = Some \<lparr>pc_tenant = ik_tenant_id c, pc_credential_id = new_id, pc_secret = secret\<rparr>
    \<and> authenticate_bearer later (ascii ''Bearer '' @ ic_token issued) db'
        = (Inr \<lparr>oi_tenant_id = ik_tenant_id c, oi_actor_id = ik_actor_id c, oi_scopes = scope_value ` set (ik_scopes c),
             oi_roles = strip ` set (ik_roles c), oi_credential_id = Some new_id,
             oi_authentication_method = ''tenant_bearer''\<rparr> :: api_failure + OperatorIdentity)"
  using assms(1)
proof (rule issue_row)
  fix expires
  assume ic: "issue_credential (ik_tenant_id c) (ik_actor_id c) new_id secret = Some issued"
    and expires: "check_expiry now (ik_expires_at c) = Inr expires"
    and fresh: "\<forall>r \<in> set (db_credentials db). tc_id r \<noteq> new_id"
    and db': "db' = db\<lparr>db_credentials := db_credentials db @ [credential_row c expires issued]\<rparr>"
  let ?row = "credential_row c expires issued"
  have parsed: "parse_credential (ic_token issued)
      = Some \<lparr>pc_tenant = ik_tenant_id c, pc_credential_id = new_id, pc_secret = secret\<rparr>"
    using ic assms(2-4) by (rule parse_issued)
  have token: "ic_token issued = TOKEN_PREFIX @ 46 # uuid_str (ik_tenant_id c) @ 46 # uuid_str new_id @ 46 # secret"
    and hash: "hash_secret secret = Some (ic_secret_hash issued)" and id: "ic_credential_id issued = new_id"
    using ic by (auto simp: issue_credential_def)
  have "32 \<notin> set TOKEN_PREFIX" by (simp add: TOKEN_PREFIX_def ascii_def)
  moreover have "32 \<notin> set (uuid_str u)" for u using uuid_str_range [of u] by auto
  moreover have "32 \<notin> set secret"
    using assms(4) by (auto simp: secret_matches_def list_all_iff is_lower_def is_digit_def)
  ultimately have header: "bearer_token (ascii ''Bearer '' @ ic_token issued) = Some (ic_token issued)"
    unfolding token by (intro bearer_header) (auto simp: TOKEN_PREFIX_def ascii_def)
  have found: "find_credential (ik_tenant_id c) new_id db' = Some ?row"
    using fresh id by (auto simp: find_credential_def db' find_append credential_row_def find_None split: option.splits
        dest!: find_Some_mem)
  have live: "\<not> expired later ?row"
    using expires assms(7) by (auto simp: expired_def credential_row_def check_expiry_def split: option.splits datetime.splits if_splits)
  have "find_tenant (ik_tenant_id c) db' = Some t" using assms(5) by (simp add: find_tenant_def db')
  then have "authenticate_bearer later (ascii ''Bearer '' @ ic_token issued) db' = (Inr (credential_identity ?row) :: api_failure + OperatorIdentity)"
    using header parsed found hash live assms(6) by (simp add: authenticate_bearer_ok credential_row_def)
  then show ?thesis using parsed id by (simp add: credential_identity_def credential_row_def)
qed

definition sample_issue :: IssueCommand where
  "sample_issue =
     \<lparr>ik_tenant_id = 1, ik_actor_id = 3, ik_name = ascii ''ops'', ik_scopes = [PROCESSES_CONTROL, OUTBOX_REQUEUE],
      ik_roles = [ascii ''manager''], ik_expires_at = Some (Aware 100)\<rparr>"

theorem credential_roundtrip_witness:
  "\<exists>issued db'. issue 5 9 sample_secret sample_issue sample_database = Inr (issued, db')
     \<and> authenticate_bearer 6 (ascii ''Bearer '' @ ic_token issued) db'
        = (Inr \<lparr>oi_tenant_id = 1, oi_actor_id = 3, oi_scopes = {scope_value PROCESSES_CONTROL, scope_value OUTBOX_REQUEUE},
             oi_roles = {ascii ''manager''}, oi_credential_id = Some 9,
             oi_authentication_method = ''tenant_bearer''\<rparr> :: api_failure + OperatorIdentity)"
proof -
  have "utf8_encode sample_secret \<noteq> None" by code_simp
  then obtain issued where ic: "issue_credential 1 3 9 sample_secret = Some issued"
    by (auto simp: issue_credential_def hash_secret_def)
  have facts: "strip (ascii ''ops'') = ascii ''ops''" "ascii ''ops'' \<noteq> []" "length (ascii ''ops'') = 3"
    "strip (ascii ''manager'') = ascii ''manager''" "role_matches (ascii ''manager'')" "find_tenant 1 sample_database \<noteq> None"
    "db_credentials sample_database = []" "secret_matches sample_secret" by code_simp+
  obtain db' where db': "issue 5 9 sample_secret sample_issue sample_database = Inr (issued, db')"
    using facts ic by (simp add: issue_def sample_issue_def Let_def check_expiry_def insert_row_def)
  obtain t where t: "find_tenant 1 sample_database = Some t" "tn_status t = TenantStatus.ACTIVE"
    by (simp add: find_tenant_def sample_database_def)
  from credential_roundtrip [OF db', of t 6] t facts show ?thesis
    using db' by (auto simp: sample_issue_def)
qed

text \<open>
  What happens to the credentials: they are issued and revoked, and every other transaction leaves
  their table alone.
\<close>

inductive credential_step :: "Database \<Rightarrow> Database \<Rightarrow> bool" where
  step_issue: "issue now new_id secret c db = Inr (issued, db') \<Longrightarrow> credential_step db db'"
| step_revoke: "revoke now tenant credential actor db = Inr (t, db') \<Longrightarrow> credential_step db db'"
| step_other: "db_credentials db' = db_credentials db \<Longrightarrow> credential_step db db'"

definition shut :: "uuid \<Rightarrow> uuid \<Rightarrow> instant \<Rightarrow> Database \<Rightarrow> bool" where
  "shut tenant credential at db \<longleftrightarrow>
     distinct (map tc_id (db_credentials db))
     \<and> (\<exists>c. find_credential tenant credential db = Some c \<and> tc_status c = REVOKED \<and> tc_revoked_at c = Some at)"

lemma find_credential_issue:
  "find_credential tenant credential db = Some c \<Longrightarrow>
   find_credential tenant credential (db\<lparr>db_credentials := db_credentials db @ rows\<rparr>) = Some c"
  by (simp add: find_credential_def find_append)

lemma revoke_row:
  assumes "revoke now tenant credential actor db = Inr (t, db')"
  obtains (again) c where "db' = db" "find_credential tenant credential db = Some c" "tc_status c = REVOKED" "tc_revoked_at c = Some t"
    | (new) c where "find_credential tenant credential db = Some c" "tc_status c \<noteq> REVOKED" "t = now"
      "db' = db\<lparr>db_credentials := update_rows (\<lambda>r. tc_tenant_id r = tenant \<and> tc_id r = credential)
         (\<lambda>r. r\<lparr>tc_status := REVOKED, tc_revoked_at := Some now, tc_revoked_by_actor_id := Some actor\<rparr>) (db_credentials db)\<rparr>"
  using assms by (auto simp: revoke_def split: option.splits if_splits)

lemma find_credential_revoked:
  "find_credential t i (db\<lparr>db_credentials := update_rows (\<lambda>r. tc_tenant_id r = tenant \<and> tc_id r = credential)
     (\<lambda>r. r\<lparr>tc_status := REVOKED, tc_revoked_at := Some now, tc_revoked_by_actor_id := Some actor\<rparr>) (db_credentials db)\<rparr>)
   = map_option (\<lambda>r. if tc_tenant_id r = tenant \<and> tc_id r = credential
       then r\<lparr>tc_status := REVOKED, tc_revoked_at := Some now, tc_revoked_by_actor_id := Some actor\<rparr> else r)
     (find_credential t i db)"
  unfolding find_credential_def by (simp, rule find_update_rows) auto

lemma revoke_ids: "revoke now tenant credential actor db = Inr (t, db') \<Longrightarrow>
   map tc_id (db_credentials db') = map tc_id (db_credentials db)"
  by (erule revoke_row) (simp_all add: map_update_rows)

lemma credential_step_distinct:
  assumes "credential_step db db'" "distinct (map tc_id (db_credentials db))"
  shows "distinct (map tc_id (db_credentials db'))"
  using assms
proof cases
  case (step_issue now new_id secret c issued)
  then show ?thesis
  proof (rule_tac issue_row [OF step_issue])
    fix expires
    assume "issue_credential (ik_tenant_id c) (ik_actor_id c) new_id secret = Some issued"
      "\<forall>r \<in> set (db_credentials db). tc_id r \<noteq> new_id"
      "db' = db\<lparr>db_credentials := db_credentials db @ [credential_row c expires issued]\<rparr>"
    then show ?thesis using assms(2) by (auto simp: credential_row_def issue_credential_def)
  qed
qed (use assms(2) revoke_ids in auto)

lemma credential_step_shut:
  assumes "credential_step db db'" "shut tenant credential at db"
  shows "shut tenant credential at db'"
proof -
  have ids: "distinct (map tc_id (db_credentials db'))"
    using credential_step_distinct [OF assms(1)] assms(2) by (simp add: shut_def)
  obtain c where c: "find_credential tenant credential db = Some c" "tc_status c = REVOKED" "tc_revoked_at c = Some at"
    using assms(2) by (auto simp: shut_def)
  from assms(1) have "\<exists>c. find_credential tenant credential db' = Some c \<and> tc_status c = REVOKED \<and> tc_revoked_at c = Some at"
  proof cases
    case (step_issue now new_id secret ik issued)
    show ?thesis by (rule issue_row [OF step_issue]) (use c find_credential_issue in auto)
  next
    case (step_revoke now tenant' credential' actor t)
    from step_revoke show ?thesis
    proof (cases rule: revoke_row)
      case (new c')
      have "tc_tenant_id c \<noteq> tenant' \<or> tc_id c \<noteq> credential'"
        using new(1,2) c find_credential_ids [OF c(1)] by auto
      then show ?thesis using c unfolding new(4) find_credential_revoked by auto
    qed (use c in auto)
  next
    case step_other
    then show ?thesis using c by (simp add: find_credential_def)
  qed
  then show ?thesis using ids by (simp add: shut_def)
qed

text \<open>
  (C13) A revoked credential stays revoked: whatever is issued, revoked or otherwise committed
  afterwards, no request is ever authenticated by it again, and revoking it once more changes
  nothing and reports the time of the first revocation.
\<close>

theorem revocation_final:
  assumes "revoke now tenant credential actor db = Inr (at, db1)" "distinct (map tc_id (db_credentials db))"
    and "credential_step\<^sup>*\<^sup>* db1 db2"
  shows "(\<forall>later header i. authenticate_bearer later header db2 = (Inr i :: api_failure + OperatorIdentity) \<longrightarrow>
        oi_credential_id i \<noteq> Some credential)
    \<and> (\<forall>later actor'. revoke later tenant credential actor' db2 = Inr (at, db2))"
proof -
  have "shut tenant credential at db1"
    using assms(1)
  proof (cases rule: revoke_row)
    case (new c)
    then show ?thesis
      using assms(2) find_credential_ids [OF new(1)]
      by (simp add: shut_def find_credential_revoked map_update_rows)
  qed (use assms(2) in \<open>auto simp: shut_def\<close>)
  with assms(3) have shut: "shut tenant credential at db2"
    by (induction rule: rtranclp_induct) (auto intro: credential_step_shut)
  then obtain c where c: "find_credential tenant credential db2 = Some c" "tc_status c = REVOKED" "tc_revoked_at c = Some at"
    and ids: "distinct (map tc_id (db_credentials db2))" by (auto simp: shut_def)
  have "oi_credential_id i \<noteq> Some credential"
    if auth: "authenticate_bearer later header db2 = (Inr i :: api_failure + OperatorIdentity)" for later header i
  proof
    assume same: "oi_credential_id i = Some credential"
    from auth obtain p :: ParsedCredential and c' where c': "find_credential (pc_tenant p) (pc_credential_id p) db2 = Some c'"
      "tc_status c' = credential_status.ACTIVE" "i = credential_identity c'"
      unfolding authenticate_bearer_ok by blast
    have "tc_id c' = tc_id c" using same c'(3) find_credential_ids [OF c(1)] by (simp add: credential_identity_def)
    moreover have "c' \<in> set (db_credentials db2)" "c \<in> set (db_credentials db2)"
      using find_credential_ids [OF c(1)] find_credential_ids [OF c'(1)] by blast+
    ultimately have "c' = c" using ids by (auto simp: distinct_map dest: inj_onD)
    then show False using c c' by simp
  qed
  then show ?thesis using c by (simp add: revoke_def)
qed

theorem revocation_final_witness:
  "\<exists>db1. revoke 7 1 9 3 credential_database = Inr (7, db1) \<and> revoke 8 1 9 4 db1 = Inr (7, db1)
     \<and> \<not> (\<exists>later header i. authenticate_bearer later header db1 = (Inr i :: api_failure + OperatorIdentity)
          \<and> oi_credential_id i = Some 9)"
proof -
  have "find_credential 1 9 credential_database = Some sample_credential" "tc_status sample_credential \<noteq> REVOKED"
    by (simp_all add: find_credential_def credential_database_def sample_credential_def)
  then obtain db1 where r: "revoke 7 1 9 3 credential_database = Inr (7, db1)" by (auto simp: revoke_def)
  have "distinct (map tc_id (db_credentials credential_database))" by (simp add: credential_database_def)
  from revocation_final [OF r this rtranclp.rtrancl_refl] show ?thesis using r by blast
qed

section \<open>Deployments\<close>

text \<open>
  The transactions that place processes and tenants. The trigger rules of an application are made
  for the release it runs, so a process is started for the deployment its request was checked
  against, and no release is called \<open>unassigned\<close>.
\<close>

inductive placement_step :: "Database \<Rightarrow> Database \<Rightarrow> bool" where
  place_ingest: "ingest env c db = Inr (r, db') \<Longrightarrow>
    \<forall>b. nc_bootstrap c = Some b \<longrightarrow> nc_deployment_id c = Some (pb_deployment_id b) \<and> pb_deployment_id b \<noteq> UNASSIGNED \<Longrightarrow>
    placement_step db db'"
| place_assign: "assign_deployment new_id ac db = Inr (res, db') \<Longrightarrow> placement_step db db'"
| place_create: "create_tenant generated slug name given db = Inr (pr, db') \<Longrightarrow> placement_step db db'"
| place_status: "set_tenant_status new_id tenant actor status reason db = Inr (ev, db') \<Longrightarrow> placement_step db db'"
| place_process: "process_tx db db' \<Longrightarrow> placement_step db db'"
| place_other: "db_processes db' = db_processes db \<Longrightarrow> db_tenants db' = db_tenants db \<Longrightarrow> placement_step db db'"

text \<open>A process that is not finished is pinned to the deployment its tenant is assigned to.\<close>

definition placed :: "Database \<Rightarrow> bool" where
  "placed db \<longleftrightarrow>
     (\<forall>u i p. find_process u i db = Some p \<and> \<not> terminal_status (pi_status p) \<longrightarrow>
        (\<exists>t. find_tenant u db = Some t \<and> tn_deployment_id t = pi_deployment_id p
           \<and> pi_deployment_id p \<noteq> UNASSIGNED))"

lemma placed_mono:
  assumes "placed db"
    and "\<And>u i p. find_process u i db' = Some p \<Longrightarrow> \<not> terminal_status (pi_status p) \<Longrightarrow>
      \<exists>q. find_process u i db = Some q \<and> \<not> terminal_status (pi_status q) \<and> pi_deployment_id q = pi_deployment_id p"
    and "\<And>u t. find_tenant u db = Some t \<Longrightarrow> \<exists>t'. find_tenant u db' = Some t' \<and> tn_deployment_id t' = tn_deployment_id t"
  shows "placed db'"
  unfolding placed_def
proof (intro allI impI, elim conjE)
  fix u i p
  assume "find_process u i db' = Some p" "\<not> terminal_status (pi_status p)"
  then obtain q where q: "find_process u i db = Some q" "\<not> terminal_status (pi_status q)"
    "pi_deployment_id q = pi_deployment_id p" using assms(2) by blast
  then obtain t where "find_tenant u db = Some t" "tn_deployment_id t = pi_deployment_id p"
    "pi_deployment_id p \<noteq> UNASSIGNED" using assms(1) unfolding placed_def by metis
  then show "\<exists>t. find_tenant u db' = Some t \<and> tn_deployment_id t = pi_deployment_id p
      \<and> pi_deployment_id p \<noteq> UNASSIGNED" using assms(3) by metis
qed

text \<open>One process is written, and it was not finished before.\<close>

lemma placed_write:
  assumes "placed db" "find_process t i db = Some p" "\<not> terminal_status (pi_status p)"
    and "pi_deployment_id q = pi_deployment_id p"
    and "\<And>u j. find_process u j db' = (if u = t \<and> j = i then Some q else find_process u j db)"
    and "db_tenants db' = db_tenants db"
  shows "placed db'"
  using assms(1)
proof (rule placed_mono)
  show "\<exists>r. find_process u j db = Some r \<and> \<not> terminal_status (pi_status r) \<and> pi_deployment_id r = pi_deployment_id x"
    if "find_process u j db' = Some x" "\<not> terminal_status (pi_status x)" for u j x
    using that assms by (auto split: if_splits)
  show "\<exists>t'. find_tenant u db' = Some t' \<and> tn_deployment_id t' = tn_deployment_id x" if "find_tenant u db = Some x" for u x
    using that assms(6) by (simp add: find_tenant_def)
qed

lemma intake_frames:
  "persist_references ids t process refs db = Inr db1 \<Longrightarrow> db_processes db1 = db_processes db \<and> db_tenants db1 = db_tenants db"
  "bind_matched env event outcome db = Inr (x, db1) \<Longrightarrow> db_processes db1 = db_processes db \<and> db_tenants db1 = db_tenants db"
  "deliver_matched env event i status go db = Inr (y, db1) \<Longrightarrow> db_processes db1 = db_processes db \<and> db_tenants db1 = db_tenants db"
proof -
  show refs: "db_processes db1 = db_processes db \<and> db_tenants db1 = db_tenants db"
    if "persist_references ids t process refs db = Inr db1" for ids t process refs db db1
    using that by (auto simp: persist_references_def split: if_splits option.splits)
  show "db_processes db1 = db_processes db \<and> db_tenants db1 = db_tenants db"
    if "bind_matched env event outcome db = Inr (x, db1)"
    using that by (auto simp: bind_matched_def split: prod.splits option.splits correlation_status.splits if_splits dest!: refs)
  show "db_processes db1 = db_processes db \<and> db_tenants db1 = db_tenants db"
    if "deliver_matched env event i status go db = Inr (y, db1)"
    using that by (auto simp: deliver_matched_def schedule_delivery_def split: option.splits if_splits insertion.splits)
qed

lemma ingest_processes:
  assumes "ingest env c db = Inr (r, db')"
  shows "db_tenants db' = db_tenants db
    \<and> (db_processes db' = db_processes db \<or> (\<exists>b dep. nc_bootstrap c = Some b
         \<and> require_ingress_tenant (ce_tenant_id (nc_event c)) (nc_deployment_id c) db = Inr dep
         \<and> db_processes db' = db_processes db @ [new_process (ng_process_id env) (ng_now env) (ce_tenant_id (nc_event c)) b]))"
proof -
  let ?e = "nc_event c"
  obtain existing dep where ex: "existing_result ?e db = Inr existing"
    and dep: "require_ingress_tenant (ce_tenant_id ?e) (nc_deployment_id c) db = Inr dep"
    using assms by (auto simp: ingest_def Let_def split: if_splits)
  show ?thesis
  proof (cases existing)
    case (Some r')
    then show ?thesis using assms ex by (auto simp: ingest_def Let_def split: if_splits)
  next
    case None
    obtain process status reason db1 where co: "correlate env c db = Inr ((process, status, reason), db1)"
      using assms ex None by (auto simp: ingest_def Let_def split: if_splits)
    obtain go reason' db2 where bm: "bind_matched env ?e (process, status, reason) db1 = Inr ((go, reason'), db2)"
      using assms ex None co by (auto simp: ingest_def Let_def split: if_splits)
    have "db_tenants db1 = db_tenants db"
      using co by (auto simp: correlate_def create_process_def split: prod.splits option.splits if_splits)
    moreover have "db_processes db' = db_processes db2 \<and> db_tenants db' = db_tenants db2"
      using assms ex None co bm
      by (auto simp: ingest_def Let_def split: if_splits insertion.splits option.splits dest!: intake_frames(3))
    ultimately show ?thesis using correlate_frame(5) [OF co] intake_frames(2) [OF bm] dep by auto
  qed
qed

lemma ingest_placed:
  assumes "ingest env c db = Inr (r, db')" "placed db"
    and "\<forall>b. nc_bootstrap c = Some b \<longrightarrow> nc_deployment_id c = Some (pb_deployment_id b) \<and> pb_deployment_id b \<noteq> UNASSIGNED"
  shows "placed db'"
proof -
  from ingest_processes [OF assms(1)] have tenants: "find_tenant u db' = find_tenant u db" for u
    by (simp add: find_tenant_def)
  from ingest_processes [OF assms(1)] show ?thesis
  proof (elim conjE disjE exE)
    fix b dep
    assume b: "nc_bootstrap c = Some b"
      and dep: "require_ingress_tenant (ce_tenant_id (nc_event c)) (nc_deployment_id c) db = Inr dep"
      and rows: "db_processes db' = db_processes db @ [new_process (ng_process_id env) (ng_now env) (ce_tenant_id (nc_event c)) b]"
    obtain t where "find_tenant (ce_tenant_id (nc_event c)) db = Some t" "tn_deployment_id t = pb_deployment_id b"
      using dep b assms(3) by (auto simp: require_ingress_tenant_def split: option.splits if_splits)
    moreover have "find_process u i db' = Some p \<Longrightarrow> find_process u i db = Some p
        \<or> u = ce_tenant_id (nc_event c) \<and> p = new_process (ng_process_id env) (ng_now env) (ce_tenant_id (nc_event c)) b" for u i p
      by (auto simp: find_process_def rows find_append new_process_def split: option.splits if_splits)
    ultimately show ?thesis using assms(2,3) b unfolding placed_def tenants by (fastforce simp: new_process_def)
  qed (use assms(2) in \<open>auto simp: placed_def tenants find_process_def\<close>)
qed

lemma updated_process_deployment [simp]: "pi_deployment_id (updated_process m fp t p) = pi_deployment_id p"
  by (simp add: updated_process_def Let_def split: option.splits)

lemma decision_placed:
  assumes "apply_decision st su i c db = Inr (r, db')" "placed db"
  shows "placed db'"
proof (cases "find (revision_of_turn c) (db_state_revisions db)")
  case (Some existing)
  then show ?thesis using assms by (auto simp: apply_decision_def split: option.splits if_splits)
next
  case None
  then obtain process where p: "find_process (sc_tenant_id c) (sc_process_instance_id c) db = Some process"
    and live: "\<not> terminal_status (pi_status process)"
    and st: "store_state st su i c process db = Inr (r, db')"
    using assms by (auto simp: apply_decision_def split: option.splits if_splits)
  from st show ?thesis
  proof (rule store_state_rows)
    fix fp transition
    let ?q = "updated_process (ad_memory_update (sc_decision c)) fp transition process"
    assume db': "db' = (update_process (sc_tenant_id c) (sc_process_instance_id c) (\<lambda>_. ?q) db)
        \<lparr>db_state_revisions := db_state_revisions db @ [state_revision i c ?q]\<rparr>"
    show ?thesis
      using assms(2) p live
    proof (rule placed_write [where q = ?q])
      show "find_process u j db' = (if u = sc_tenant_id c \<and> j = sc_process_instance_id c then Some ?q else find_process u j db)"
        for u j
        using find_process_replaced [OF p, of ?q] by (simp add: db' find_process_def update_process_def)
      show "db_tenants db' = db_tenants db" by (simp add: db' update_process_def)
    qed simp
  qed
qed

lemma store_control_tenants:
  assumes "store_control env c reason process v db = Some db'"
  shows "db_tenants db' = db_tenants db"
  using assms
  by (auto simp: store_control_def Let_def insert_row_Some enqueue_manual_wake_def enqueue_control_def enqueue_def
      resolve_intervention_def update_process_def split: option.splits if_splits insertion.splits)

lemma control_placed:
  assumes "apply_control env c db = Inr (row, db')" "placed db"
  shows "placed db'"
proof (cases "find_control c db")
  case (Some existing)
  then show ?thesis using assms by (auto simp: apply_control_def Let_def split: if_splits sum.splits)
next
  case None
  from assms(1) None obtain p where live: "find_process (ki_tenant_id c) (ki_process_instance_id c) db = Some p"
      "\<not> terminal_status (pi_status p)" and tenants: "db_tenants db' = db_tenants db"
    by (rule apply_control_new) (blast dest: store_control_tenants)
  from assms(1) None show ?thesis
  proof (rule apply_control_effect)
    fix process v process'
    assume *: "find_process (ki_tenant_id c) (ki_process_instance_id c) db = Some process"
      "control_transition c process db = Inr (v, process')"
      "\<And>t i. find_process t i db' = (if t = ki_tenant_id c \<and> i = ki_process_instance_id c
        then Some process' else find_process t i db)"
    have "pi_deployment_id process' = pi_deployment_id process"
      using *(2) by (auto simp: control_transition_def split: ProcessControlType.splits option.splits if_splits)
    then show ?thesis using placed_write [OF assms(2) *(1) _ _ *(3) tenants] live *(1) by simp
  qed
qed

lemma intervention_placed:
  assumes "record_process_intervention v db = Inr (r, db')" "placed db"
  shows "placed db'"
  using assms(1)
proof (cases rule: record_intervention_cases)
  case (recorded process)
  have tenants: "db_tenants db' = db_tenants db"
    using assms(1)
    by (auto simp: record_process_intervention_def add_intervention_def update_process_def Let_def split: option.splits if_splits)
  show ?thesis
  proof (cases "halted_status (pi_status process)")
    case True
    then show ?thesis using assms(2) recorded(7) tenants by (auto simp: placed_def find_tenant_def)
  next
    case False
    then show ?thesis
      using placed_write [OF assms(2) recorded(3), where db' = db' and
          q = "process\<lparr>pi_status := ProcessStatus.REVIEW, pi_current_wake_conditions := operator_wake\<rparr>"]
        recorded(7) tenants by (simp add: halted_status_def)
  qed
qed (use assms(2) in simp)

text \<open>A tenant that leaves a deployment has no process in progress; one that has none yet is not assigned.\<close>

lemma assign_placed:
  assumes "assign_deployment new_id ac db = Inr (res, db')" "placed db"
  shows "placed db'"
proof -
  obtain target t where norm: "normalize_deployment_id (an_deployment_id ac) = Inr target" "target \<noteq> UNASSIGNED"
    and t: "find_tenant (an_tenant_id ac) db = Some t"
    using assms(1) by (auto simp: assign_deployment_def Let_def split: if_splits option.splits)
  show ?thesis
  proof (cases "tn_deployment_id t = target")
    case True
    then show ?thesis using assms norm t by (auto simp: assign_deployment_def Let_def split: if_splits)
  next
    case False
    then have moved: "db' = move_tenant new_id ac (strip (an_reason ac)) (tn_deployment_id t) target db"
      and free: "tn_deployment_id t = UNASSIGNED \<or> live_processes (an_tenant_id ac) db = []"
      using assms(1) norm t by (auto simp: assign_deployment_def Let_def split: if_splits)
    have tenants: "find_tenant u db' = (if u = an_tenant_id ac then map_option (\<lambda>t. t\<lparr>tn_deployment_id := target\<rparr>) (find_tenant u db)
        else find_tenant u db)" for u
      by (simp add: moved move_tenant_def find_tenant_def find_update_key)
    have procs: "find_process u i db' = find_process u i db" for u i
      by (simp add: moved move_tenant_def find_process_def)
    have none: "terminal_status (pi_status p)" if p: "find_process (an_tenant_id ac) i db = Some p" for i p
    proof (rule ccontr)
      assume live: "\<not> terminal_status (pi_status p)"
      then have "tn_deployment_id t \<noteq> UNASSIGNED" using assms(2) p t unfolding placed_def by fastforce
      moreover have "p \<in> set (live_processes (an_tenant_id ac) db)"
        using p live by (auto simp: live_processes_def find_process_def dest: find_Some_mem)
      ultimately show False using free by auto
    qed
    show ?thesis using assms(2) none unfolding placed_def procs tenants by (metis (no_types, lifting))
  qed
qed

lemma create_placed:
  assumes "create_tenant generated slug name given db = Inr (pr, db')" "placed db"
  shows "placed db'"
proof -
  obtain row where "db' = db\<lparr>db_tenants := db_tenants db @ [row]\<rparr>"
    using assms(1) by (auto simp: create_tenant_def Let_def insert_row_Some split: if_splits option.splits)
  then show ?thesis
    by (intro placed_mono [OF assms(2)]) (auto simp: find_process_def find_tenant_def find_append)
qed

lemma status_placed:
  assumes "set_tenant_status new_id tenant actor status reason db = Inr (ev, db')" "placed db"
  shows "placed db'"
proof -
  have procs: "db_processes db' = db_processes db"
    using assms(1) by (auto simp: set_tenant_status_def Let_def split: if_splits option.splits)
  show ?thesis
    using assms(2)
    by (rule placed_mono) (auto simp: find_process_def procs find_tenant_set_status [OF assms(1)] split: if_splits)
qed

lemma placement_step_placed:
  assumes "placement_step db db'" "placed db"
  shows "placed db'"
  using assms
proof cases
  case place_process
  then show ?thesis
    by cases (use assms(2) in \<open>auto intro: decision_placed control_placed intervention_placed\<close>)
next
  case place_other
  then show ?thesis by (intro placed_mono [OF assms(2)]) (auto simp: find_process_def find_tenant_def)
qed (auto intro: ingest_placed assign_placed create_placed status_placed)

text \<open>
  (C12) A tenant is moved between deployments only when it takes nothing along: through every sequence
  of intake, assignment, provisioning, suspension, decision, operator command and intervention, each
  process that is not finished is pinned to the deployment its tenant is assigned to, so no
  process is run by a deployment its tenant has left, and a tenant without a deployment has no running process.
\<close>

theorem tenant_moves_safely:
  assumes "placement_step\<^sup>*\<^sup>* db db'" "placed db" "find_process u i db' = Some p" "\<not> terminal_status (pi_status p)"
  shows "require_tenant_deployment u (pi_deployment_id p) db' = Inr () \<and> pi_deployment_id p \<noteq> UNASSIGNED
    \<and> (\<forall>new_id ac res db''. assign_deployment new_id ac db' = Inr (res, db'') \<and> an_tenant_id ac = u \<longrightarrow>
         db'' = db' \<and> td_deployment_id res = pi_deployment_id p)"
proof -
  have placed: "placed db'"
    using assms(1,2) by (induction rule: rtranclp_induct) (auto intro: placement_step_placed)
  then obtain t where t: "find_tenant u db' = Some t" "tn_deployment_id t = pi_deployment_id p" "pi_deployment_id p \<noteq> UNASSIGNED"
    using assms(3,4) unfolding placed_def by blast
  have "p \<in> set (live_processes u db')"
    using assms(3,4) by (auto simp: live_processes_def find_process_def dest: find_Some_mem)
  then have live: "live_processes u db' \<noteq> []" by auto
  have "db'' = db' \<and> td_deployment_id res = pi_deployment_id p"
    if "assign_deployment new_id ac db' = Inr (res, db'')" "an_tenant_id ac = u" for new_id ac res db''
    using that live t by (auto simp: assign_deployment_def Let_def split: if_splits option.splits)
  then show ?thesis using t by (auto simp: require_tenant_deployment_def)
qed

theorem tenant_moves_safely_witness:
  "\<exists>db' p. placement_step\<^sup>*\<^sup>* sample_database db' \<and> length (db_safety_events db') = 1
     \<and> find_process 1 2 db' = Some p \<and> require_tenant_deployment 1 (pi_deployment_id p) db' = Inr ()"
proof -
  let ?r = "ascii ''audit''"
  have reason: "strip ?r = ?r" "?r \<noteq> []" "length ?r = 5" by code_simp+
  obtain ev db' where st: "set_tenant_status 50 1 3 TenantStatus.SUSPENDED ?r sample_database = Inr (ev, db')"
    and procs: "db_processes db' = [sample_process]" "length (db_safety_events db') = 1"
    using reason by (simp add: set_tenant_status_def Let_def find_tenant_def sample_database_def empty_database_def)
  have live: "\<not> terminal_status (pi_status sample_process)" by code_simp
  have "placed sample_database"
    by (auto simp: placed_def find_process_def find_tenant_def sample_database_def sample_process_def UNASSIGNED_def split: if_splits)
  moreover have "find_process 1 2 db' = Some sample_process" by (simp add: find_process_def procs sample_process_def)
  moreover have "placement_step\<^sup>*\<^sup>* sample_database db'" using place_status [OF st] by blast
  ultimately show ?thesis using tenant_moves_safely [of sample_database db' 1 2 sample_process] live procs by blast
qed

end
