(* ===== verification/Deployment.thy ===== *)
theory Deployment
  imports Api Execution Agent_Context
begin

text \<open>
  \<open>extensions\<close>, \<open>api/settings.py\<close>, \<open>api/deployment.py\<close> and the composition in \<open>api/main.py\<close>: a client
  pack is checked as a whole before anything is served, its content and the release it runs in
  are identified by fingerprints, and the trigger rules of the API pin every process to them. Whether
  a version matches a specifier, the schema of the output type and the text of times come
  from third-party packages and are arguments.
\<close>

section \<open>Fingerprints\<close>

text \<open>\<open>sha256(json.dumps(value, sort_keys=True, separators=(',', ':')).encode()).hexdigest()\<close>\<close>

definition text_fingerprint :: "unicode \<Rightarrow> string option" where
  "text_fingerprint text = map_option (\<lambda>bytes. map (\<lambda>c. char_of c) (hexdigest (sha256 bytes))) (utf8_encode text)"

definition json_fingerprint :: "json \<Rightarrow> string option" where
  "json_fingerprint value = (case dump_json True value of None \<Rightarrow> None | Some text \<Rightarrow> text_fingerprint text)"

definition text_json :: "string \<Rightarrow> json" where
  "text_json s = JStr (ascii s)"

fun definition_status_value :: "DefinitionStatus \<Rightarrow> string" where
  "definition_status_value DefinitionStatus.DRAFT = ''draft''"
| "definition_status_value DefinitionStatus.PUBLISHED = ''published''"
| "definition_status_value DefinitionStatus.RETIRED = ''retired''"

definition dump_ProcessLimits :: "ProcessLimits \<Rightarrow> json" where
  "dump_ProcessLimits l =
     JObj [(ascii ''max_actions_per_turn'', JInt (pl_max_actions_per_turn l)),
           (ascii ''max_follow_ups_without_reply'', JInt (pl_max_follow_ups_without_reply l)),
           (ascii ''minimum_follow_up_interval_hours'', JInt (pl_minimum_follow_up_interval_hours l)),
           (ascii ''maximum_timer_horizon_days'', JInt (pl_maximum_timer_horizon_days l)),
           (ascii ''max_outbound_messages_per_process'', JInt (pl_max_outbound_messages_per_process l)),
           (ascii ''max_outbound_messages_per_window'', JInt (pl_max_outbound_messages_per_window l)),
           (ascii ''outbound_message_window_hours'', JInt (pl_outbound_message_window_hours l)),
           (ascii ''maximum_process_lifetime_days'', JInt (pl_maximum_process_lifetime_days l)),
           (ascii ''max_model_input_tokens_per_process'', JInt (pl_max_model_input_tokens_per_process l)),
           (ascii ''max_model_output_tokens_per_process'', JInt (pl_max_model_output_tokens_per_process l)),
           (ascii ''max_model_total_tokens_per_process'', JInt (pl_max_model_total_tokens_per_process l)),
           (ascii ''max_model_cost_micros_per_process'', JInt (pl_max_model_cost_micros_per_process l))]"

definition dump_DailyQuietHours :: "(clock \<Rightarrow> unicode) \<Rightarrow> DailyQuietHours \<Rightarrow> json" where
  "dump_DailyQuietHours show_clock q =
     JObj [(ascii ''timezone'', JStr (qh_timezone q)), (ascii ''start_local'', JStr (show_clock (qh_start_local q))),
           (ascii ''end_local'', JStr (show_clock (qh_end_local q)))]"

definition dump_CommunicationConfiguration :: "(clock \<Rightarrow> unicode) \<Rightarrow> CommunicationConfiguration \<Rightarrow> json" where
  "dump_CommunicationConfiguration show_clock c =
     JObj [(ascii ''outbound_action_types'', JArr (map text_json (cc_outbound_action_types c))),
           (ascii ''reply_event_types'', JArr (map text_json (cc_reply_event_types c))),
           (ascii ''opt_out_event_types'', JArr (map text_json (cc_opt_out_event_types c))),
           (ascii ''automated_response_event_types'', JArr (map text_json (cc_automated_response_event_types c))),
           (ascii ''quiet_hours'',
             case cc_quiet_hours c of None \<Rightarrow> JNull | Some q \<Rightarrow> dump_DailyQuietHours show_clock q)]"

definition dump_FactDefinition :: "FactDefinition \<Rightarrow> json" where
  "dump_FactDefinition f =
     JObj [(ascii ''key'', text_json (fd_key f)), (ascii ''title'', JStr (fd_title f)),
           (ascii ''description'', JStr (fd_description f)),
           (ascii ''kinds'', JArr (map (\<lambda>k. text_json (fact_kind_value k)) (fd_kinds f))),
           (ascii ''value_schema'', JObj (fd_value_schema f)),
           (ascii ''operator_editable'', JBool (fd_operator_editable f))]"

definition dump_permissions :: "(string \<times> PermissionOutcome) list \<Rightarrow> json" where
  "dump_permissions ps = JObj (map (\<lambda>(a, p). (ascii a, text_json (outcome_value p))) ps)"

definition dump_requirements :: "(string \<times> json) list \<Rightarrow> json" where
  "dump_requirements rs = JObj (map (\<lambda>(k, v). (ascii k, v)) rs)"

definition dump_ProcessDefinition :: "(clock \<Rightarrow> unicode) \<Rightarrow> ProcessDefinition \<Rightarrow> json" where
  "dump_ProcessDefinition show_clock d =
     JObj [(ascii ''id'', text_json (pd_id d)), (ascii ''version'', JStr (pd_version d)),
           (ascii ''status'', text_json (definition_status_value (pd_status d))),
           (ascii ''trigger_events'', JArr (map text_json (pd_trigger_events d))),
           (ascii ''goals'', JArr (map JStr (pd_goals d))),
           (ascii ''terminal_states'', JArr (map (\<lambda>s. text_json (process_status_value s)) (pd_terminal_states d))),
           (ascii ''allowed_actions'', JArr (map text_json (pd_allowed_actions d))),
           (ascii ''action_permissions'', dump_permissions (pd_action_permissions d)),
           (ascii ''action_guidance'', JObj (map (\<lambda>(a, g). (ascii a, JStr g)) (pd_action_guidance d))),
           (ascii ''decision_guidance'', JArr (map JStr (pd_decision_guidance d))),
           (ascii ''allowed_wake_events'', JArr (map text_json (pd_allowed_wake_events d))),
           (ascii ''limits'', dump_ProcessLimits (pd_limits d)),
           (ascii ''review'', JObj [(ascii ''commands'', JArr (map (\<lambda>c. text_json (review_command_value c)) (pd_review d)))]),
           (ascii ''communications'', dump_CommunicationConfiguration show_clock (pd_communications d)),
           (ascii ''integrations'', JObj (map (\<lambda>(a, i). (a, JStr i)) (pd_integrations d))),
           (ascii ''facts'', JArr (map dump_FactDefinition (pd_facts d))),
           (ascii ''completion_requirements'', dump_requirements (pd_completion_requirements d))]"

definition definition_fingerprint :: "(clock \<Rightarrow> unicode) \<Rightarrow> ProcessDefinition \<Rightarrow> string option" where
  "definition_fingerprint show_clock d = json_fingerprint (dump_ProcessDefinition show_clock d)"

section \<open>\<open>extensions/manifest.py\<close>\<close>

record ExtensionManifest =
  em_extension_id :: string
  em_extension_version :: unicode
  em_tiramisu_compatibility :: unicode
  em_process_definitions :: "unicode list"
  em_adapters :: "unicode list"
  em_policies :: "unicode list"
  em_activities :: "unicode list"

datatype manifest_error =
    ManifestField string
  | BlankIdentifier
  | RepeatedIdentifier
  | SharedIdentifier

definition identifier_categories :: "ExtensionManifest \<Rightarrow> unicode list list" where
  "identifier_categories e = [em_process_definitions e, em_adapters e, em_policies e, em_activities e]"

definition check_identifiers :: "unicode list \<Rightarrow> manifest_error + unit" where
  "check_identifiers values =
     bind_result (require (\<not> list_ex (\<lambda>v. strip v = []) values) BlankIdentifier) (\<lambda>_.
     require (distinct values) RepeatedIdentifier)"

definition check_ExtensionManifest :: "ExtensionManifest \<Rightarrow> manifest_error + ExtensionManifest" where
  "check_ExtensionManifest e =
     bind_result (require (is_identifier (em_extension_id e)) (ManifestField ''extension_id'')) (\<lambda>_.
     bind_result (require (between_lengths 1 100 (em_extension_version e)) (ManifestField ''extension_version'')) (\<lambda>_.
     bind_result (require (between_lengths 1 100 (em_tiramisu_compatibility e))
       (ManifestField ''tiramisu_compatibility'')) (\<lambda>_.
     bind_result (check_all check_identifiers (identifier_categories e)) (\<lambda>_.
     bind_result (require (distinct (concat (identifier_categories e))) SharedIdentifier) (\<lambda>_. Inr e)))))"

definition registered_identifiers :: "ExtensionManifest \<Rightarrow> unicode set" where
  "registered_identifiers e = set (concat (identifier_categories e))"

definition dump_ExtensionManifest :: "ExtensionManifest \<Rightarrow> json" where
  "dump_ExtensionManifest e =
     JObj [(ascii ''extension_id'', text_json (em_extension_id e)),
           (ascii ''extension_version'', JStr (em_extension_version e)),
           (ascii ''tiramisu_compatibility'', JStr (em_tiramisu_compatibility e)),
           (ascii ''process_definitions'', JArr (map JStr (em_process_definitions e))),
           (ascii ''adapters'', JArr (map JStr (em_adapters e))),
           (ascii ''policies'', JArr (map JStr (em_policies e))),
           (ascii ''activities'', JArr (map JStr (em_activities e)))]"

definition manifest_fingerprint :: "ExtensionManifest \<Rightarrow> string option" where
  "manifest_fingerprint e = json_fingerprint (dump_ExtensionManifest e)"

section \<open>\<open>extensions/runtime.py\<close>\<close>

record Release = DeploymentRelease +
  rl_build_id :: unicode
  rl_client_pack_fingerprint :: string
  rl_model_id :: unicode

datatype release_error =
    ReleaseDeploymentId access_error
  | ReleaseReserved
  | BadBuildId
  | BadModelId
  | BadPackFingerprint
  | ReleaseNotEncodable

text \<open>\<open>__version__\<close> of the package.\<close>

definition TIRAMISU_VERSION :: unicode where
  "TIRAMISU_VERSION = ascii ''0.1.0''"

definition release_document :: "string \<Rightarrow> unicode \<Rightarrow> string \<Rightarrow> unicode \<Rightarrow> json" where
  "release_document deployment_id build_id fingerprint model_id =
     JObj [(ascii ''schema_version'', JInt 1), (ascii ''deployment_id'', text_json deployment_id),
           (ascii ''build_id'', JStr build_id), (ascii ''client_pack_fingerprint'', text_json fingerprint),
           (ascii ''model_id'', JStr model_id), (ascii ''tiramisu_version'', JStr TIRAMISU_VERSION)]"

definition make_release :: "unicode \<Rightarrow> unicode \<Rightarrow> string \<Rightarrow> unicode \<Rightarrow> release_error + Release" where
  "make_release deployment build pack_fingerprint model =
     (case normalize_deployment_id deployment of
        Inl e \<Rightarrow> Inl (ReleaseDeploymentId e)
      | Inr deployment_id \<Rightarrow>
          (let build_id = strip build; model_id = strip model in
           if deployment_id = UNASSIGNED then Inl ReleaseReserved
           else if build_id = [] \<or> 200 < length build_id then Inl BadBuildId
           else if model_id = [] \<or> 200 < length model_id then Inl BadModelId
           else if \<not> is_sha256_hex pack_fingerprint then Inl BadPackFingerprint
           else (case json_fingerprint (release_document deployment_id build_id pack_fingerprint model_id) of
                   None \<Rightarrow> Inl ReleaseNotEncodable
                 | Some fingerprint \<Rightarrow>
                     Inr \<lparr>dr_deployment_id = deployment_id, dr_release_fingerprint = fingerprint,
                       dr_temporal_task_queue = ''tiramisu.'' @ deployment_id @ ''.'' @ fingerprint,
                       rl_build_id = build_id, rl_client_pack_fingerprint = pack_fingerprint, rl_model_id = model_id\<rparr>)))"

section \<open>\<open>extensions/project_metadata.py\<close>\<close>

record FactDescription =
  fx_key :: string
  fx_title :: unicode
  fx_description :: unicode
  fx_kinds :: "FactKind list"
  fx_value_schema :: jobject
  fx_operator_editable :: bool

record CapabilityDescription =
  kx_action_type :: string
  kx_title :: unicode
  kx_description :: unicode
  kx_adapter_id :: unicode
  kx_default_permission :: PermissionOutcome
  kx_parameters_schema :: jobject
  kx_produces_fact_keys :: "string list"

datatype RouteKind = START_ROUTE | WAKE_ROUTE

fun route_kind_value :: "RouteKind \<Rightarrow> string" where
  "route_kind_value START_ROUTE = ''start''"
| "route_kind_value WAKE_ROUTE = ''wake''"

record RouteDescription =
  rx_kind :: RouteKind
  rx_event_type :: string
  rx_title :: unicode
  rx_description :: unicode
  rx_provides_fact_keys :: "string list"

datatype StepKind = EVENT_STEP | ACTION_STEP | WAIT_STEP | FACT_STEP | COMPLETE_STEP

fun step_kind_value :: "StepKind \<Rightarrow> string" where
  "step_kind_value EVENT_STEP = ''event''"
| "step_kind_value ACTION_STEP = ''action''"
| "step_kind_value WAIT_STEP = ''wait''"
| "step_kind_value FACT_STEP = ''fact''"
| "step_kind_value COMPLETE_STEP = ''complete''"

record ScenarioStepDescription =
  sx_kind :: StepKind
  sx_description :: unicode
  sx_reference :: "unicode option"
  sx_value :: json

record ScenarioDescription =
  zx_id :: string
  zx_title :: unicode
  zx_description :: unicode
  zx_steps :: "ScenarioStepDescription list"
  zx_started_at :: datetime

record JourneyDescription =
  jx_id :: string
  jx_version :: unicode
  jx_title :: unicode
  jx_description :: unicode
  jx_status :: string
  jx_goals :: "unicode list"
  jx_routes :: "RouteDescription list"
  jx_capabilities :: "CapabilityDescription list"
  jx_facts :: "FactDescription list"
  jx_permissions :: "(string \<times> PermissionOutcome) list"
  jx_limits :: ProcessLimits
  jx_communications :: CommunicationConfiguration
  jx_completion_requirements :: "(string \<times> json) list"
  jx_scenarios :: "ScenarioDescription list"

record ProjectDescription =
  px_id :: string
  px_version :: unicode
  px_title :: unicode
  px_description :: unicode
  px_journeys :: "JourneyDescription list"

definition dump_FactDescription :: "FactDescription \<Rightarrow> json" where
  "dump_FactDescription f =
     JObj [(ascii ''key'', text_json (fx_key f)), (ascii ''title'', JStr (fx_title f)),
           (ascii ''description'', JStr (fx_description f)),
           (ascii ''kinds'', JArr (map (\<lambda>k. text_json (fact_kind_value k)) (fx_kinds f))),
           (ascii ''value_schema'', JObj (fx_value_schema f)),
           (ascii ''operator_editable'', JBool (fx_operator_editable f))]"

definition dump_CapabilityDescription :: "CapabilityDescription \<Rightarrow> json" where
  "dump_CapabilityDescription k =
     JObj [(ascii ''action_type'', text_json (kx_action_type k)), (ascii ''title'', JStr (kx_title k)),
           (ascii ''description'', JStr (kx_description k)), (ascii ''adapter_id'', JStr (kx_adapter_id k)),
           (ascii ''default_permission'', text_json (outcome_value (kx_default_permission k))),
           (ascii ''parameters_schema'', JObj (kx_parameters_schema k)),
           (ascii ''produces_fact_keys'', JArr (map text_json (kx_produces_fact_keys k)))]"

definition dump_RouteDescription :: "RouteDescription \<Rightarrow> json" where
  "dump_RouteDescription r =
     JObj [(ascii ''kind'', text_json (route_kind_value (rx_kind r))), (ascii ''event_type'', text_json (rx_event_type r)),
           (ascii ''title'', JStr (rx_title r)), (ascii ''description'', JStr (rx_description r)),
           (ascii ''provides_fact_keys'', JArr (map text_json (rx_provides_fact_keys r)))]"

definition dump_ScenarioStepDescription :: "ScenarioStepDescription \<Rightarrow> json" where
  "dump_ScenarioStepDescription s =
     JObj [(ascii ''kind'', text_json (step_kind_value (sx_kind s))), (ascii ''description'', JStr (sx_description s)),
           (ascii ''reference'', case sx_reference s of None \<Rightarrow> JNull | Some r \<Rightarrow> JStr r), (ascii ''value'', sx_value s)]"

definition dump_ScenarioDescription :: "(datetime \<Rightarrow> unicode) \<Rightarrow> ScenarioDescription \<Rightarrow> json" where
  "dump_ScenarioDescription show_time z =
     JObj [(ascii ''id'', text_json (zx_id z)), (ascii ''title'', JStr (zx_title z)),
           (ascii ''description'', JStr (zx_description z)),
           (ascii ''steps'', JArr (map dump_ScenarioStepDescription (zx_steps z))),
           (ascii ''started_at'', JStr (show_time (zx_started_at z)))]"

text \<open>How pydantic writes times; the version test of \<open>packaging\<close> (\<open>None\<close> for an invalid specifier).\<close>

record PackEnv =
  pe_show_clock :: "clock \<Rightarrow> unicode"
  pe_show_time :: "datetime \<Rightarrow> unicode"
  pe_supports :: "unicode \<Rightarrow> unicode \<Rightarrow> bool option"

definition dump_JourneyDescription :: "PackEnv \<Rightarrow> JourneyDescription \<Rightarrow> json" where
  "dump_JourneyDescription env j =
     JObj [(ascii ''id'', text_json (jx_id j)), (ascii ''version'', JStr (jx_version j)),
           (ascii ''title'', JStr (jx_title j)), (ascii ''description'', JStr (jx_description j)),
           (ascii ''status'', text_json (jx_status j)), (ascii ''goals'', JArr (map JStr (jx_goals j))),
           (ascii ''routes'', JArr (map dump_RouteDescription (jx_routes j))),
           (ascii ''capabilities'', JArr (map dump_CapabilityDescription (jx_capabilities j))),
           (ascii ''facts'', JArr (map dump_FactDescription (jx_facts j))),
           (ascii ''permissions'', dump_permissions (jx_permissions j)),
           (ascii ''limits'', dump_ProcessLimits (jx_limits j)),
           (ascii ''communications'', dump_CommunicationConfiguration (pe_show_clock env) (jx_communications j)),
           (ascii ''completion_requirements'', dump_requirements (jx_completion_requirements j)),
           (ascii ''scenarios'', JArr (map (dump_ScenarioDescription (pe_show_time env)) (jx_scenarios j)))]"

definition dump_ProjectDescription :: "PackEnv \<Rightarrow> ProjectDescription \<Rightarrow> json" where
  "dump_ProjectDescription env x =
     JObj [(ascii ''id'', text_json (px_id x)), (ascii ''version'', JStr (px_version x)),
           (ascii ''title'', JStr (px_title x)), (ascii ''description'', JStr (px_description x)),
           (ascii ''journeys'', JArr (map (dump_JourneyDescription env) (px_journeys x)))]"

section \<open>\<open>extensions/deployment.py\<close>\<close>

text \<open>
  An adapter is any object; what the checks see of it: its \<open>id\<close> and \<open>guarantees_idempotency\<close> when
  they are a string and a boolean, whether \<open>execute\<close> and \<open>lookup\<close> are callable, and the mark of
  a simulation adapter.
\<close>

record AdapterObject =
  ao_id :: "unicode option"
  ao_guarantees_idempotency :: "bool option"
  ao_callable :: bool
  ao_is_simulation :: bool

record OutputType =
  ot_name :: unicode
  ot_json_schema :: json
  ot_converts :: bool

record PackContents =
  cp_manifest :: ExtensionManifest
  cp_definitions :: "ProcessDefinition list"
  cp_bindings :: "(string \<times> AdapterObject) list"
  cp_output_type :: OutputType
  cp_policy_ids :: "unicode list"
  cp_project :: "ProjectDescription option"
  cp_simulation_bindings :: "(string \<times> AdapterObject) list"

record ClientPack = PackContents +
  cp_registry :: "((string \<times> unicode) \<times> ProcessDefinition) list"
  cp_compatibility :: DeploymentCompatibility
  cp_manifest_fingerprint :: string
  cp_fingerprint :: string

datatype pack_error =
    NoDefinitions
  | InvalidCompatibility
  | UnsupportedVersion
  | CustomActivities
  | ManifestDefinitionsDisagree
  | ProjectIdentityDisagrees
  | ProjectJourneysDisagree
  | RoutesDisagree
  | JourneyDisagrees
  | CapabilitiesDisagree
  | AdaptersDisagree
  | PermissionsDisagree
  | CompletionDisagrees
  | FactsDisagree
  | SimulationBindingsIncomplete
  | SimulationNotSafe
  | SimulationNotAdapter
  | ManifestAdaptersDisagree
  | BindingsDoNotCoverManifest
  | BindingsDoNotCoverActions
  | PoliciesDoNotCoverManifest
  | OutputNotConvertible
  | PackNotSerialisable
  | PackCompatibility compatibility_error
  | PackRegistry registry_error
  | AmbiguousRule string
  | ReleaseForOtherPack

text \<open>\<open>==\<close> of dictionaries built by a comprehension: of two entries with one key the later counts.\<close>

definition same_dict :: "('v \<Rightarrow> 'v \<Rightarrow> bool) \<Rightarrow> ('k \<times> 'v) list \<Rightarrow> ('k \<times> 'v) list \<Rightarrow> bool" where
  "same_dict same xs ys \<longleftrightarrow>
     fst ` set xs = fst ` set ys
     \<and> list_all (\<lambda>k. case (map_of (rev xs) k, map_of (rev ys) k) of (Some v, Some w) \<Rightarrow> same v w | _ \<Rightarrow> False) (map fst xs)"

definition definition_name :: "ProcessDefinition \<Rightarrow> unicode" where
  "definition_name d = ascii (pd_id d) @ ascii ''.v'' @ pd_version d"

definition journey_events :: "RouteKind \<Rightarrow> JourneyDescription \<Rightarrow> string set" where
  "journey_events kind j = set (map rx_event_type (filter (\<lambda>r. rx_kind r = kind) (jx_routes j)))"

definition check_journey :: "ProcessDefinition \<Rightarrow> JourneyDescription \<Rightarrow> pack_error + unit" where
  "check_journey d j =
     bind_result (require (journey_events START_ROUTE j = set (pd_trigger_events d)
         \<and> journey_events WAKE_ROUTE j = set (pd_allowed_wake_events d)) RoutesDisagree) (\<lambda>_.
     bind_result (require (jx_status j = definition_status_value (pd_status d) \<and> jx_goals j = pd_goals d) JourneyDisagrees) (\<lambda>_.
     bind_result (require (kx_action_type ` set (jx_capabilities j) = set (pd_allowed_actions d)) CapabilitiesDisagree) (\<lambda>_.
     bind_result (require (same_dict (=) (map (\<lambda>k. (ascii (kx_action_type k), kx_adapter_id k)) (jx_capabilities j))
         (pd_integrations d)) AdaptersDisagree) (\<lambda>_.
     bind_result (require (same_dict (=) (jx_permissions j) (pd_action_permissions d)) PermissionsDisagree) (\<lambda>_.
     bind_result (require (same_dict py_eq (jx_completion_requirements j) (pd_completion_requirements d)) CompletionDisagrees) (\<lambda>_.
     require (py_eq_items (map dump_FactDescription (jx_facts j)) (map dump_FactDefinition (pd_facts d))) FactsDisagree))))))"

definition scenario_actions :: "ProjectDescription \<Rightarrow> unicode option list" where
  "scenario_actions x =
     map sx_reference (filter (\<lambda>s. sx_kind s = ACTION_STEP)
       (concat (map zx_steps (concat (map jx_scenarios (px_journeys x))))))"

definition check_project :: "PackContents \<Rightarrow> ProjectDescription \<Rightarrow> pack_error + unit" where
  "check_project c x =
     (let journeys = map (\<lambda>j. ((jx_id j, jx_version j), j)) (px_journeys x) in
     bind_result (require (px_id x = em_extension_id (cp_manifest c) \<and> px_version x = em_extension_version (cp_manifest c))
       ProjectIdentityDisagrees) (\<lambda>_.
     bind_result (require (fst ` set journeys = definition_key ` set (cp_definitions c)) ProjectJourneysDisagree) (\<lambda>_.
     bind_result (check_all (\<lambda>d. case map_of (rev journeys) (definition_key d) of
         None \<Rightarrow> Inl ProjectJourneysDisagree | Some j \<Rightarrow> check_journey d j) (cp_definitions c)) (\<lambda>_.
     bind_result (require ((\<lambda>(a, _). Some (ascii a)) ` set (cp_simulation_bindings c) = set (scenario_actions x))
       SimulationBindingsIncomplete) (\<lambda>_.
     bind_result (require (list_all (\<lambda>(_, o'). ao_is_simulation o') (cp_simulation_bindings c)) SimulationNotSafe) (\<lambda>_.
     require (list_all (\<lambda>(_, o'). ao_id o' \<noteq> None \<and> ao_guarantees_idempotency o' \<noteq> None \<and> ao_callable o')
       (cp_simulation_bindings c)) SimulationNotAdapter))))))"

definition check_contents :: "PackEnv \<Rightarrow> PackContents \<Rightarrow> pack_error + unit" where
  "check_contents env c =
     (let e = cp_manifest c; ds = cp_definitions c in
     bind_result (require (ds \<noteq> []) NoDefinitions) (\<lambda>_.
     bind_result (case pe_supports env TIRAMISU_VERSION (em_tiramisu_compatibility e) of
         None \<Rightarrow> Inl InvalidCompatibility | Some yes \<Rightarrow> require yes UnsupportedVersion) (\<lambda>_.
     bind_result (require (em_activities e = []) CustomActivities) (\<lambda>_.
     bind_result (require (set (em_process_definitions e) = definition_name ` set ds) ManifestDefinitionsDisagree) (\<lambda>_.
     bind_result (case cp_project c of None \<Rightarrow> Inr () | Some x \<Rightarrow> check_project c x) (\<lambda>_.
     bind_result (require (set (em_adapters e) = snd ` set (concat (map pd_integrations ds))) ManifestAdaptersDisagree) (\<lambda>_.
     bind_result (require ((\<lambda>(_, o'). ao_id o') ` set (cp_bindings c) = Some ` set (em_adapters e)) BindingsDoNotCoverManifest) (\<lambda>_.
     bind_result (require (fst ` set (cp_bindings c) = set (concat (map pd_allowed_actions ds))) BindingsDoNotCoverActions) (\<lambda>_.
     bind_result (require (set (cp_policy_ids c) = set (em_policies e)) PoliciesDoNotCoverManifest) (\<lambda>_.
     require (ot_converts (cp_output_type c)) OutputNotConvertible))))))))))"

definition dump_binding :: "string \<times> AdapterObject \<Rightarrow> unicode \<times> json" where
  "dump_binding b =
     (ascii (fst b), JObj [(ascii ''adapter_id'', case ao_id (snd b) of None \<Rightarrow> JUnsupported | Some i \<Rightarrow> JStr i),
        (ascii ''guarantees_idempotency'',
          case ao_guarantees_idempotency (snd b) of None \<Rightarrow> JUnsupported | Some g \<Rightarrow> JBool g)])"

definition canonical_composition :: "PackEnv \<Rightarrow> PackContents \<Rightarrow> json" where
  "canonical_composition env c =
     JObj [(ascii ''schema_version'', JInt 3), (ascii ''manifest'', dump_ExtensionManifest (cp_manifest c)),
           (ascii ''definitions'',
             JArr (map (dump_ProcessDefinition (pe_show_clock env)) (sort_key definition_key (cp_definitions c)))),
           (ascii ''agent_decision_output'', JObj [(ascii ''type'', JStr (ot_name (cp_output_type c))),
              (ascii ''json_schema'', ot_json_schema (cp_output_type c))]),
           (ascii ''policy_ids'', JArr (map JStr (sort (cp_policy_ids c)))),
           (ascii ''action_bindings'', JObj (map dump_binding (cp_bindings c))),
           (ascii ''simulation_bindings'', JObj (map dump_binding (cp_simulation_bindings c))),
           (ascii ''project'', case cp_project c of None \<Rightarrow> JNull | Some x \<Rightarrow> dump_ProjectDescription env x)]"

fun all_some :: "'a option list \<Rightarrow> 'a list option" where
  "all_some [] = Some []"
| "all_some (x # xs) = (case (x, all_some xs) of (Some v, Some vs) \<Rightarrow> Some (v # vs) | _ \<Rightarrow> None)"

definition pack_compatibility :: "PackEnv \<Rightarrow> PackContents \<Rightarrow> DeploymentCompatibility option" where
  "pack_compatibility env c =
     (case (json_fingerprint (canonical_composition env c), manifest_fingerprint (cp_manifest c),
            all_some (map (definition_fingerprint (pe_show_clock env)) (cp_definitions c))) of
        (Some fingerprint, Some manifest, Some prints) \<Rightarrow>
          Some \<lparr>dc_client_pack_fingerprint = fingerprint, dc_extension_manifest_hash = manifest,
            dc_definition_fingerprints = zip (map definition_key (cp_definitions c)) prints\<rparr>
      | _ \<Rightarrow> None)"

definition published_events :: "ProcessDefinition list \<Rightarrow> string list" where
  "published_events ds = remdups (concat (map pd_trigger_events (filter (\<lambda>d. pd_status d = DefinitionStatus.PUBLISHED) ds)))"

definition resolve_all :: "((string \<times> unicode) \<times> ProcessDefinition) list \<Rightarrow> string list \<Rightarrow> registry_error + unit" where
  "resolve_all registry events =
     check_all (\<lambda>e. bind_result (resolve_trigger registry e False) (\<lambda>_. Inr ())) events"

text \<open>\<open>ClientPack.__post_init__\<close>\<close>

definition make_ClientPack :: "PackEnv \<Rightarrow> PackContents \<Rightarrow> pack_error + ClientPack" where
  "make_ClientPack env c =
     bind_result (check_contents env c) (\<lambda>_.
     case pack_compatibility env c of
       None \<Rightarrow> Inl PackNotSerialisable
     | Some compatibility \<Rightarrow>
         (case check_DeploymentCompatibility compatibility of
            Inl e \<Rightarrow> Inl (PackCompatibility e)
          | Inr _ \<Rightarrow>
              (case make_registry (cp_definitions c) of
                 Inl e \<Rightarrow> Inl (PackRegistry e)
               | Inr registry \<Rightarrow>
                   (case resolve_all registry (published_events (cp_definitions c)) of
                      Inl e \<Rightarrow> Inl (PackRegistry e)
                    | Inr _ \<Rightarrow>
                        Inr (PackContents.extend c
                          (ClientPack.fields registry compatibility (dc_extension_manifest_hash compatibility)
                             (dc_client_pack_fingerprint compatibility)))))))"

definition require_client_pack :: "Release \<Rightarrow> string \<Rightarrow> pack_error + unit" where
  "require_client_pack r fingerprint = require (fingerprint = rl_client_pack_fingerprint r) ReleaseForOtherPack"

definition bootstrap_of :: "ClientPack \<Rightarrow> Release \<Rightarrow> ProcessDefinition \<Rightarrow> string \<Rightarrow> ProcessBootstrap" where
  "bootstrap_of pack r d print =
     \<lparr>pb_process_type = pd_id d, pb_definition_version = pd_version d,
      pb_extension_manifest_hash = cp_manifest_fingerprint pack, pb_client_pack_fingerprint = cp_fingerprint pack,
      pb_process_definition_fingerprint = print, pb_deployment_id = dr_deployment_id r,
      pb_deployment_release_fingerprint = dr_release_fingerprint r,
      pb_temporal_task_queue = dr_temporal_task_queue r, pb_late_event_policy = ''record_only''\<rparr>"

fun add_rules :: "string list \<Rightarrow> ProcessBootstrap \<Rightarrow> (string \<times> ProcessBootstrap) list
    \<Rightarrow> pack_error + (string \<times> ProcessBootstrap) list" where
  "add_rules [] b rules = Inr rules"
| "add_rules (e # es) b rules =
     (if e \<in> fst ` set rules then Inl (AmbiguousRule e) else add_rules es b (rules @ [(e, b)]))"

fun collect_rules :: "PackEnv \<Rightarrow> ClientPack \<Rightarrow> Release \<Rightarrow> ProcessDefinition list \<Rightarrow> (string \<times> ProcessBootstrap) list
    \<Rightarrow> pack_error + (string \<times> ProcessBootstrap) list" where
  "collect_rules env pack r [] rules = Inr rules"
| "collect_rules env pack r (d # ds) rules =
     (if pd_status d \<noteq> DefinitionStatus.PUBLISHED then collect_rules env pack r ds rules
      else (case definition_fingerprint (pe_show_clock env) d of
              None \<Rightarrow> Inl PackNotSerialisable
            | Some print \<Rightarrow>
                bind_result (add_rules (pd_trigger_events d) (bootstrap_of pack r d print) rules) (collect_rules env pack r ds)))"

definition trigger_rules :: "PackEnv \<Rightarrow> ClientPack \<Rightarrow> Release \<Rightarrow> pack_error + (string \<times> ProcessBootstrap) list" where
  "trigger_rules env pack r =
     bind_result (require_client_pack r (cp_fingerprint pack)) (\<lambda>_. collect_rules env pack r (cp_definitions pack) [])"

section \<open>\<open>api/settings.py\<close>\<close>

record Settings =
  st_environment :: string
  st_log_level :: unicode
  st_database_url :: unicode
  st_migration_database_url :: unicode
  st_temporal_target :: unicode
  st_temporal_namespace :: unicode
  st_deployment_id :: "unicode option"
  st_deployment_build_id :: "unicode option"
  st_deployment_tenant_ids :: "uuid list"
  st_openai_model :: "unicode option"
  st_openai_api_key :: "unicode option"
  st_max_model_tokens_per_tenant :: int
  st_max_model_cost_micros_per_tenant :: int
  st_platform_model_calls_paused :: bool
  st_platform_outbound_messages_paused :: bool
  st_api_host :: unicode
  st_api_port :: int
  st_allow_unsafe_development_tenant_header :: bool
  st_load_fictional_example_processes :: bool
  st_client_pack_factory :: "unicode option"

datatype settings_error =
    SettingsField string
  | BadLogLevel
  | BadDatabaseUrl
  | BlankRuntimeValue
  | DuplicateDeploymentTenants
  | UnsafeHeadersOutsideDevelopment
  | FictionalPackRestricted
  | PackAndFictional

text \<open>\<open>str.upper\<close> as far as the names below can see it.\<close>

definition upper_char :: "nat \<Rightarrow> nat" where
  "upper_char c = (if 97 \<le> c \<and> c \<le> 122 then c - 32 else if c = 305 then 73 else if c = 383 then 83 else c)"

definition LOG_LEVELS :: "unicode list" where
  "LOG_LEVELS = map ascii [''DEBUG'', ''INFO'', ''WARNING'', ''ERROR'', ''CRITICAL'']"

definition optional_text :: "unicode option \<Rightarrow> unicode option" where
  "optional_text value =
     (case value of None \<Rightarrow> None | Some s \<Rightarrow> (let stripped = strip s in if stripped = [] then None else Some stripped))"

definition normalized_settings :: "Settings \<Rightarrow> Settings" where
  "normalized_settings s =
     s\<lparr>st_log_level := map upper_char (strip (st_log_level s)), st_temporal_target := strip (st_temporal_target s),
       st_temporal_namespace := strip (st_temporal_namespace s), st_api_host := strip (st_api_host s),
       st_deployment_id := optional_text (st_deployment_id s),
       st_deployment_build_id := optional_text (st_deployment_build_id s),
       st_openai_model := optional_text (st_openai_model s),
       st_openai_api_key := (case st_openai_api_key s of None \<Rightarrow> None | Some k \<Rightarrow> if strip k = [] then None else Some k),
       st_client_pack_factory := optional_text (st_client_pack_factory s)\<rparr>"

definition asyncpg_url :: "unicode \<Rightarrow> bool" where
  "asyncpg_url url \<longleftrightarrow> take 21 url = ascii ''postgresql+asyncpg://''"

definition check_Settings :: "Settings \<Rightarrow> settings_error + Settings" where
  "check_Settings given =
     (let s = normalized_settings given in
     bind_result (require (st_environment s \<in> {''development'', ''test'', ''staging'', ''production''})
       (SettingsField ''environment'')) (\<lambda>_.
     bind_result (require (st_log_level s \<in> set LOG_LEVELS) BadLogLevel) (\<lambda>_.
     bind_result (require (asyncpg_url (st_database_url s) \<and> asyncpg_url (st_migration_database_url s)) BadDatabaseUrl) (\<lambda>_.
     bind_result (require (st_temporal_target s \<noteq> [] \<and> st_temporal_namespace s \<noteq> []) BlankRuntimeValue) (\<lambda>_.
     bind_result (require (distinct (st_deployment_tenant_ids s)) DuplicateDeploymentTenants) (\<lambda>_.
     bind_result (require (0 \<le> st_max_model_tokens_per_tenant s) (SettingsField ''max_model_tokens_per_tenant'')) (\<lambda>_.
     bind_result (require (0 \<le> st_max_model_cost_micros_per_tenant s) (SettingsField ''max_model_cost_micros_per_tenant'')) (\<lambda>_.
     bind_result (require (st_api_host s \<noteq> []) BlankRuntimeValue) (\<lambda>_.
     bind_result (require (1 \<le> st_api_port s \<and> st_api_port s \<le> 65535) (SettingsField ''api_port'')) (\<lambda>_.
     bind_result (require (st_environment s = ''development'' \<or> \<not> st_allow_unsafe_development_tenant_header s)
       UnsafeHeadersOutsideDevelopment) (\<lambda>_.
     bind_result (require (st_environment s \<in> {''development'', ''test''} \<or> \<not> st_load_fictional_example_processes s)
       FictionalPackRestricted) (\<lambda>_.
     bind_result (require (st_client_pack_factory s = None \<or> \<not> st_load_fictional_example_processes s) PackAndFictional)
       (\<lambda>_. Inr s)))))))))))))"

section \<open>\<open>extensions/loader.py\<close> and \<open>api/deployment.py\<close>\<close>

datatype app_error =
    AppPack pack_error
  | AppRelease release_error
  | AppCompatibility compatibility_error
  | AppRegistry registry_error
  | FactoryConflict
  | FactoryForm
  | FactorySeparators
  | FactoryImport unicode
  | FactoryAttribute unicode unicode
  | FactoryNotCallable
  | FactoryResult
  | DeploymentIdMissing
  | BuildIdMissing
  | NoTenants
  | ModelMissing
  | RuleNotPublished
  | RuleDisagrees
  | ReleaseWithoutPack

text \<open>
  What \<open>getattr\<close> finds in an imported module: something that cannot be called, or a factory with the
  outcome of its call (an error of the pack, a pack, or something else).
\<close>

datatype factory = NotCallable | Factory "pack_error + ClientPack option"

type_synonym importer = "unicode \<Rightarrow> (unicode \<Rightarrow> factory option) option"

definition FICTIONAL_CLIENT_PACK_FACTORY :: unicode where
  "FICTIONAL_CLIENT_PACK_FACTORY = ascii ''tiramisu_agents.builtin:load_fictional_deployment''"

definition configured_client_pack_factory :: "unicode option \<Rightarrow> bool \<Rightarrow> app_error + unicode option" where
  "configured_client_pack_factory path fictional =
     (if path \<notin> {None, Some []} \<and> fictional then Inl FactoryConflict
      else Inr (if fictional then Some FICTIONAL_CLIENT_PACK_FACTORY else path))"

definition load_client_pack :: "importer \<Rightarrow> unicode \<Rightarrow> app_error + ClientPack" where
  "load_client_pack import_module path =
     (let module_name = takeWhile (\<lambda>c. c \<noteq> 58) path; rest = dropWhile (\<lambda>c. c \<noteq> 58) path; attribute = tl rest in
      if rest = [] \<or> strip module_name = [] \<or> strip attribute = [] then Inl FactoryForm
      else if 58 \<in> set attribute then Inl FactorySeparators
      else (case import_module module_name of
              None \<Rightarrow> Inl (FactoryImport module_name)
            | Some module \<Rightarrow>
                (case module attribute of
                   None \<Rightarrow> Inl (FactoryAttribute module_name attribute)
                 | Some NotCallable \<Rightarrow> Inl FactoryNotCallable
                 | Some (Factory (Inl e)) \<Rightarrow> Inl (AppPack e)
                 | Some (Factory (Inr None)) \<Rightarrow> Inl FactoryResult
                 | Some (Factory (Inr (Some pack))) \<Rightarrow> Inr pack)))"

definition load_configured_client_pack :: "importer \<Rightarrow> unicode option \<Rightarrow> bool \<Rightarrow> app_error + ClientPack option" where
  "load_configured_client_pack import_module path fictional =
     bind_result (configured_client_pack_factory path fictional) (\<lambda>resolved.
     case resolved of
       None \<Rightarrow> Inr None
     | Some p \<Rightarrow> bind_result (load_client_pack import_module p) (\<lambda>pack. Inr (Some pack)))"

definition compose_deployment_release :: "Settings \<Rightarrow> ClientPack \<Rightarrow> uuid list option \<Rightarrow> app_error + Release" where
  "compose_deployment_release s pack tenant_ids =
     (case (st_deployment_id s, st_deployment_build_id s) of
        (None, _) \<Rightarrow> Inl DeploymentIdMissing
      | (_, None) \<Rightarrow> Inl BuildIdMissing
      | (Some deployment, Some build) \<Rightarrow>
          if (case tenant_ids of None \<Rightarrow> st_deployment_tenant_ids s | Some ids \<Rightarrow> ids) = [] then Inl NoTenants
          else (case st_openai_model s of
                  None \<Rightarrow> Inl ModelMissing
                | Some model \<Rightarrow>
                    (case make_release deployment build (cp_fingerprint pack) model of
                       Inl e \<Rightarrow> Inl (AppRelease e) | Inr r \<Rightarrow> Inr r)))"

section \<open>\<open>create_app\<close>\<close>

record AppArguments =
  aa_trigger_rules :: "(string \<times> ProcessBootstrap) list option"
  aa_process_registry :: "((string \<times> unicode) \<times> ProcessDefinition) list option"
  aa_client_pack :: "ClientPack option"
  aa_deployment_release :: "Release option"

text \<open>The two \<open>require_process\<close> checks read the pins of the bootstrap, as they do those of its process.\<close>

definition check_rule :: "ClientPack \<Rightarrow> Release \<Rightarrow> string \<times> ProcessBootstrap \<Rightarrow> app_error + unit" where
  "check_rule pack r rule =
     (let b = snd rule; pinned = new_process 0 0 0 b in
      case resolve_trigger (cp_registry pack) (fst rule) False of
        Inl e \<Rightarrow> Inl (AppRegistry e)
      | Inr None \<Rightarrow> Inl RuleNotPublished
      | Inr (Some d) \<Rightarrow>
          if pb_process_type b \<noteq> pd_id d \<or> pb_definition_version b \<noteq> pd_version d then Inl RuleDisagrees
          else (case bind_result (compatible_process (cp_compatibility pack) pinned)
                       (\<lambda>_. release_require_process (DeploymentRelease.truncate r) pinned) of
                  Inl e \<Rightarrow> Inl (AppCompatibility e) | Inr _ \<Rightarrow> Inr ()))"

definition app_release :: "Settings \<Rightarrow> AppArguments \<Rightarrow> ClientPack \<Rightarrow> app_error + Release" where
  "app_release s args pack =
     (case aa_deployment_release args of
        None \<Rightarrow> compose_deployment_release s pack None
      | Some r \<Rightarrow> (case require_client_pack r (cp_fingerprint pack) of Inl e \<Rightarrow> Inl (AppPack e) | Inr _ \<Rightarrow> Inr r))"

definition app_rules :: "PackEnv \<Rightarrow> AppArguments \<Rightarrow> ClientPack \<Rightarrow> Release \<Rightarrow> app_error + (string \<times> ProcessBootstrap) list" where
  "app_rules env args pack r =
     (case aa_trigger_rules args of
        None \<Rightarrow> (case trigger_rules env pack r of Inl e \<Rightarrow> Inl (AppPack e) | Inr rules \<Rightarrow> Inr rules)
      | Some rules \<Rightarrow> bind_result (check_all (check_rule pack r) rules) (\<lambda>_. Inr rules))"

definition make_app :: "Settings \<Rightarrow> Release option \<Rightarrow> (string \<times> ProcessBootstrap) list
    \<Rightarrow> ((string \<times> unicode) \<times> ProcessDefinition) list option \<Rightarrow> ApiApp" where
  "make_app s r rules registry =
     \<lparr>as_environment = st_environment s, as_allow_unsafe_headers = st_allow_unsafe_development_tenant_header s,
      as_deployment_release = map_option DeploymentRelease.truncate r,
      as_deployment_tenant_ids = set (st_deployment_tenant_ids s),
      ax_process_registry = registry, ax_trigger_rules = rules\<rparr>"

definition app_pack :: "importer \<Rightarrow> Settings \<Rightarrow> AppArguments \<Rightarrow> app_error + ClientPack option" where
  "app_pack import_module s args =
     (if aa_client_pack args = None \<and> (aa_trigger_rules args = None \<or> aa_process_registry args = None)
      then load_configured_client_pack import_module (st_client_pack_factory s) (st_load_fictional_example_processes s)
      else Inr (aa_client_pack args))"

definition create_app :: "importer \<Rightarrow> PackEnv \<Rightarrow> Settings \<Rightarrow> AppArguments \<Rightarrow> app_error + ApiApp" where
  "create_app import_module env s args =
     bind_result (app_pack import_module s args) (\<lambda>loaded.
     case loaded of
       Some pack \<Rightarrow>
         bind_result (app_release s args pack) (\<lambda>r.
         bind_result (app_rules env args pack r) (\<lambda>rules.
         Inr (make_app s (Some r) rules
           (Some (case aa_process_registry args of None \<Rightarrow> cp_registry pack | Some g \<Rightarrow> g)))))
     | None \<Rightarrow>
         if aa_deployment_release args \<noteq> None then Inl ReleaseWithoutPack
         else Inr (make_app s None (case aa_trigger_rules args of None \<Rightarrow> [] | Some rules \<Rightarrow> rules)
           (aa_process_registry args)))"

section \<open>Fingerprints are well formed\<close>

lemma hex_chars: "list_all (\<lambda>c. char_of c \<in> set ''0123456789abcdef'') [48::nat,49,50,51,52,53,54,55,56,57,97,98,99,100,101,102]"
  by code_simp

lemma hex_char: "c \<in> {48..57} \<union> {97..102::nat} \<Longrightarrow> char_of c \<in> set ''0123456789abcdef''"
proof -
  assume "c \<in> {48..57} \<union> {97..102}"
  then have "c \<in> set [48,49,50,51,52,53,54,55,56,57,97,98,99,100,101,102]" by (auto simp: numeral_eq_Suc le_Suc_eq)
  then show ?thesis using hex_chars unfolding list_all_iff by blast
qed

lemma text_fingerprint_hex:
  assumes "text_fingerprint t = Some f"
  shows "is_sha256_hex f"
proof -
  obtain bytes where f: "f = map (\<lambda>c. char_of c) (hexdigest (sha256 bytes))"
    using assms by (auto simp: text_fingerprint_def)
  have "set (hexdigest (sha256 bytes)) \<subseteq> {48..57} \<union> {97..102}"
    using hex_digits_range by (fastforce simp: hexdigest_def)
  then have "char_of ` set (hexdigest (sha256 bytes)) \<subseteq> set ''0123456789abcdef''"
    by (intro image_subsetI hex_char) (erule subsetD)
  then have "\<forall>x \<in> set f. x \<in> set ''0123456789abcdef''" unfolding f set_map by (rule subsetD [THEN ballI])
  then show ?thesis unfolding is_sha256_hex_def list_all_iff by (simp only: f length_map length_sha256_hexdigest)
qed

lemma json_fingerprint_hex: "json_fingerprint v = Some f \<Longrightarrow> is_sha256_hex f"
  by (auto simp: json_fingerprint_def dest: text_fingerprint_hex split: option.splits)

text \<open>A value that \<open>json.dumps\<close> accepts has a fingerprint.\<close>

primrec writable :: "json \<Rightarrow> bool" where
  "writable JNull = True"
| "writable (JBool b) = True"
| "writable (JInt i) = True"
| "writable (JFloat m k t) = encodable t"
| "writable (JStr s) = True"
| "writable (JArr xs) = list_all id (map writable xs)"
| "writable (JObj kvs) = list_all snd (map (map_prod id writable) kvs)"
| "writable JUnsupported = False"

lemma dump_items_writable:
  "(\<And>x. x \<in> set xs \<Longrightarrow> \<exists>t. dump_json True x = Some t \<and> encodable t)
    \<Longrightarrow> \<exists>ts. dump_items True xs = Some ts \<and> (\<forall>t \<in> set ts. encodable t)"
proof (induction xs)
  case (Cons x xs)
  obtain t ts where "dump_json True x = Some t" "encodable t" "dump_items True xs = Some ts" "\<forall>t \<in> set ts. encodable t"
    using Cons.IH Cons.prems by (meson list.set_intros)
  then show ?case by simp
qed simp

lemma dump_fields_writable:
  "(\<And>k x. (k, x) \<in> set kvs \<Longrightarrow> \<exists>t. dump_json True x = Some t \<and> encodable t)
    \<Longrightarrow> \<exists>fs. dump_fields True kvs = Some fs \<and> (\<forall>f \<in> set fs. encodable (snd f))"
proof (induction kvs)
  case (Cons kv kvs)
  obtain k x where kv: "kv = (k, x)" by (cases kv)
  obtain t fs where "dump_json True x = Some t" "encodable t" "dump_fields True kvs = Some fs" "\<forall>f \<in> set fs. encodable (snd f)"
    using Cons.IH Cons.prems kv by (meson list.set_intros)
  then show ?case by (simp add: kv)
qed simp

lemma dump_json_writable: "writable v \<Longrightarrow> \<exists>t. dump_json True v = Some t \<and> encodable t"
proof (induction v)
  case (JArr xs)
  then have "\<exists>ts. dump_items True xs = Some ts \<and> (\<forall>t \<in> set ts. encodable t)"
    by (intro dump_items_writable) (auto simp: list_all_iff)
  then show ?case by (auto simp: encodable_join)
next
  case (JObj kvs)
  have "\<exists>t. dump_json True x = Some t \<and> encodable t" if "(k, x) \<in> set kvs" for k x
    using JObj.IH [OF that] JObj.prems that by (auto simp: list_all_iff)
  then have "\<exists>fs. dump_fields True kvs = Some fs \<and> (\<forall>f \<in> set fs. encodable (snd f))"
    by (rule dump_fields_writable)
  then show ?case by (force intro!: encodable_join)
qed auto

lemma json_fingerprint_writable: "writable v \<Longrightarrow> \<exists>f. json_fingerprint v = Some f"
  using dump_json_writable [of v] utf8_encode_defined by (auto simp: json_fingerprint_def text_fingerprint_def)

lemma all_some_dest: "all_some xs = Some ys \<Longrightarrow> xs = map Some ys"
  by (induction xs arbitrary: ys) (auto split: option.splits)

lemma pack_compatibility_parts:
  assumes "pack_compatibility env c = Some k"
  shows "json_fingerprint (canonical_composition env c) = Some (dc_client_pack_fingerprint k)"
    "manifest_fingerprint (cp_manifest c) = Some (dc_extension_manifest_hash k)"
    "\<exists>prints. map (definition_fingerprint (pe_show_clock env)) (cp_definitions c) = map Some prints
       \<and> dc_definition_fingerprints k = zip (map definition_key (cp_definitions c)) prints"
  using assms by (auto simp: pack_compatibility_def dest!: all_some_dest split: option.splits)

lemma pack_compatibility_checked:
  assumes "pack_compatibility env c = Some k"
  shows "check_DeploymentCompatibility k = Inr k"
proof -
  obtain prints where prints: "map (definition_fingerprint (pe_show_clock env)) (cp_definitions c) = map Some prints"
    "dc_definition_fingerprints k = zip (map definition_key (cp_definitions c)) prints"
    using pack_compatibility_parts(3) [OF assms] by blast
  have "is_sha256_hex f" if "f \<in> set prints" for f
  proof -
    have "Some f \<in> set (map (definition_fingerprint (pe_show_clock env)) (cp_definitions c))" using that prints(1) by simp
    then obtain d where "definition_fingerprint (pe_show_clock env) d = Some f" by (metis ex_map_conv list.set_map imageE)
    then show ?thesis using json_fingerprint_hex by (simp add: definition_fingerprint_def)
  qed
  then have "list_all is_sha256_hex (map snd (dc_definition_fingerprints k))"
    by (auto simp: prints(2) list_all_iff dest: set_zip_rightD)
  then show ?thesis
    using pack_compatibility_parts(1,2) [OF assms] json_fingerprint_hex
    by (auto simp: check_DeploymentCompatibility_def manifest_fingerprint_def)
qed

section \<open>A client pack\<close>

lemma make_ClientPack_parts:
  assumes "make_ClientPack env c = Inr pack"
  shows "check_contents env c = Inr ()" "cp_definitions pack = cp_definitions c"
    "make_registry (cp_definitions c) = Inr (cp_registry pack)"
    "pack_compatibility env c = Some (cp_compatibility pack)"
    "cp_fingerprint pack = dc_client_pack_fingerprint (cp_compatibility pack)"
    "cp_manifest_fingerprint pack = dc_extension_manifest_hash (cp_compatibility pack)"
    "resolve_all (cp_registry pack) (published_events (cp_definitions c)) = Inr ()"
  using assms
  by (auto simp: make_ClientPack_def PackContents.defs ClientPack.defs split: option.splits sum.splits)

lemma registry_of:
  assumes "make_registry ds = Inr registry"
  shows "registry = map (\<lambda>d. (definition_key d, d)) ds" "distinct (map definition_key ds)"
  using register_definitions_ok [of ds "[]" registry] assms by (auto simp: make_registry_def comp_def)

lemma pack_definition_print:
  assumes "make_ClientPack env c = Inr pack" "d \<in> set (cp_definitions c)"
  shows "\<exists>f. definition_fingerprint (pe_show_clock env) d = Some f
    \<and> map_of (dc_definition_fingerprints (cp_compatibility pack)) (definition_key d) = Some f"
proof -
  note parts = make_ClientPack_parts [OF assms(1)]
  obtain prints where prints: "map (definition_fingerprint (pe_show_clock env)) (cp_definitions c) = map Some prints"
    "dc_definition_fingerprints (cp_compatibility pack) = zip (map definition_key (cp_definitions c)) prints"
    using pack_compatibility_parts(3) [OF parts(4)] by blast
  have len: "length prints = length (cp_definitions c)" using prints(1) by (metis length_map)
  obtain i where i: "i < length (cp_definitions c)" "cp_definitions c ! i = d" using assms(2) by (metis in_set_conv_nth)
  have "map (definition_fingerprint (pe_show_clock env)) (cp_definitions c) ! i = map Some prints ! i" by (simp add: prints(1))
  then have "definition_fingerprint (pe_show_clock env) d = Some (prints ! i)" using i len by simp
  moreover have "map_of (zip (map definition_key (cp_definitions c)) prints) (map definition_key (cp_definitions c) ! i) = Some (prints ! i)"
    using map_of_zip_nth [of "map definition_key (cp_definitions c)" prints i] registry_of(2) [OF parts(3)] len i by simp
  ultimately show ?thesis using i by (auto simp: prints(2))
qed

text \<open>No event starts two processes of a pack.\<close>

lemma published_event:
  "e \<in> set (published_events ds) \<longleftrightarrow> (\<exists>d \<in> set ds. triggered_by False e d)"
  by (auto simp: published_events_def triggered_by_def)

lemma pack_trigger:
  assumes "make_ClientPack env c = Inr pack"
  obtains (none) "resolve_trigger (cp_registry pack) e False = Inr None" "\<forall>d \<in> set (cp_definitions c). \<not> triggered_by False e d"
    | (one) d where "resolve_trigger (cp_registry pack) e False = Inr (Some d)" "d \<in> set (cp_definitions c)" "triggered_by False e d"
        "\<forall>d' \<in> set (cp_definitions c). triggered_by False e d' \<longrightarrow> d' = d"
proof -
  note parts = make_ClientPack_parts [OF assms]
  have "\<exists>a. resolve_trigger (cp_registry pack) e False = Inr a"
  proof (cases "e \<in> set (published_events (cp_definitions c))")
    case True
    then show ?thesis using parts(7) by (auto simp: resolve_all_def)
  next
    case False
    then have "filter (triggered_by False e) (map snd (cp_registry pack)) = []"
      using registry_of(1) [OF parts(3)] by (auto simp: published_event filter_empty_conv)
    then show ?thesis by (simp add: resolve_trigger_def)
  qed
  then obtain a where a: "resolve_trigger (cp_registry pack) e False = Inr a" by blast
  note unique = resolve_trigger_unique [OF parts(3) a]
  show ?thesis
  proof (cases a)
    case None
    then show ?thesis using unique a by (intro none) simp_all
  next
    case (Some d)
    then show ?thesis using unique a by (intro one [of d]) simp_all
  qed
qed

section \<open>Trigger rules\<close>

lemma add_rules_fresh:
  "distinct es \<Longrightarrow> set es \<inter> fst ` set rules = {} \<Longrightarrow> add_rules es b rules = Inr (rules @ map (\<lambda>e. (e, b)) es)"
  by (induction es arbitrary: rules) auto

definition pack_rules :: "(ProcessDefinition \<Rightarrow> ProcessBootstrap) \<Rightarrow> ProcessDefinition list \<Rightarrow> (string \<times> ProcessBootstrap) list" where
  "pack_rules boot ds =
     concat (map (\<lambda>d. map (\<lambda>e. (e, boot d)) (pd_trigger_events d)) (filter (\<lambda>d. pd_status d = DefinitionStatus.PUBLISHED) ds))"

lemma collect_rules_fresh:
  assumes "\<And>d. d \<in> set ds \<Longrightarrow> definition_fingerprint (pe_show_clock env) d = Some (print d)"
    and "distinct (map fst rules @ map fst (pack_rules (\<lambda>d. bootstrap_of pack r d (print d)) ds))"
  shows "collect_rules env pack r ds rules = Inr (rules @ pack_rules (\<lambda>d. bootstrap_of pack r d (print d)) ds)"
  using assms
proof (induction ds arbitrary: rules)
  case Nil
  then show ?case by (simp add: pack_rules_def)
next
  case (Cons d ds)
  let ?boot = "\<lambda>d. bootstrap_of pack r d (print d)"
  let ?rest = "rules @ map (\<lambda>e. (e, ?boot d)) (pd_trigger_events d)"
  show ?case
  proof (cases "pd_status d = DefinitionStatus.PUBLISHED")
    case True
    have fresh: "distinct (pd_trigger_events d)" "set (pd_trigger_events d) \<inter> fst ` set rules = {}"
      using Cons.prems(2) True by (auto simp: pack_rules_def comp_def)
    have "collect_rules env pack r ds ?rest = Inr (?rest @ pack_rules ?boot ds)"
      using Cons.prems True by (intro Cons.IH) (auto simp: pack_rules_def comp_def)
    then show ?thesis using True add_rules_fresh [OF fresh] Cons.prems(1) [of d] by (simp add: pack_rules_def)
  next
    case False
    then show ?thesis using Cons.IH [of rules] Cons.prems by (simp add: pack_rules_def)
  qed
qed

lemma pack_rules_events:
  "map fst (pack_rules boot ds) = concat (map pd_trigger_events (filter (\<lambda>d. pd_status d = DefinitionStatus.PUBLISHED) ds))"
  by (induction ds) (auto simp: pack_rules_def comp_def)

lemma distinct_triggers:
  assumes "distinct ds" "\<And>d. d \<in> set ds \<Longrightarrow> distinct (f d)"
    and "\<And>d d' e. d \<in> set ds \<Longrightarrow> d' \<in> set ds \<Longrightarrow> e \<in> set (f d) \<Longrightarrow> e \<in> set (f d') \<Longrightarrow> d = d'"
  shows "distinct (concat (map f ds))"
  using assms
proof (induction ds)
  case (Cons d ds)
  have "distinct (concat (map f ds))" using Cons by (intro Cons.IH) auto
  moreover have "set (f d) \<inter> set (concat (map f ds)) = {}"
  proof (rule ccontr)
    assume "set (f d) \<inter> set (concat (map f ds)) \<noteq> {}"
    then obtain e d' where "e \<in> set (f d)" "d' \<in> set ds" "e \<in> set (f d')" by auto
    then show False using Cons.prems(1) Cons.prems(3) [of d d' e] by auto
  qed
  ultimately show ?case using Cons.prems(2) [of d] by simp
qed simp

text \<open>A definition is always validated when it is built.\<close>

definition made_pack :: "PackEnv \<Rightarrow> (unicode \<Rightarrow> bool) \<Rightarrow> ClientPack \<Rightarrow> bool" where
  "made_pack env known_zone pack \<longleftrightarrow>
     (\<exists>c. make_ClientPack env c = Inr pack \<and> (\<forall>d \<in> set (cp_definitions c). check_ProcessDefinition known_zone d = Inr d))"

lemma pack_rules_distinct:
  assumes "make_ClientPack env c = Inr pack" "\<And>d. d \<in> set (cp_definitions c) \<Longrightarrow> distinct (pd_trigger_events d)"
  shows "distinct (map fst (pack_rules boot (cp_definitions c)))"
  unfolding pack_rules_events
proof (rule distinct_triggers)
  have "distinct (map definition_key (cp_definitions c))"
    using registry_of(2) make_ClientPack_parts(3) [OF assms(1)] by blast
  then show "distinct (filter (\<lambda>d. pd_status d = DefinitionStatus.PUBLISHED) (cp_definitions c))"
    by (simp add: distinct_map)
next
  fix d d' e
  assume "d \<in> set (filter (\<lambda>d. pd_status d = DefinitionStatus.PUBLISHED) (cp_definitions c))"
    "d' \<in> set (filter (\<lambda>d. pd_status d = DefinitionStatus.PUBLISHED) (cp_definitions c))"
    "e \<in> set (pd_trigger_events d)" "e \<in> set (pd_trigger_events d')"
  then have "d \<in> set (cp_definitions c)" "d' \<in> set (cp_definitions c)" "triggered_by False e d" "triggered_by False e d'"
    by (auto simp: triggered_by_def)
  then show "d = d'" by (cases rule: pack_trigger [OF assms(1), of e]) auto
qed (use assms(2) in auto)

lemma trigger_rules_made:
  assumes "make_ClientPack env c = Inr pack" "\<forall>d \<in> set (cp_definitions c). check_ProcessDefinition known_zone d = Inr d"
    and "rl_client_pack_fingerprint r = cp_fingerprint pack"
  obtains print where "\<And>d. d \<in> set (cp_definitions c) \<Longrightarrow> definition_fingerprint (pe_show_clock env) d = Some (print d)"
    "trigger_rules env pack r = Inr (pack_rules (\<lambda>d. bootstrap_of pack r d (print d)) (cp_definitions c))"
    "distinct (map fst (pack_rules (\<lambda>d. bootstrap_of pack r d (print d)) (cp_definitions c)))"
proof -
  define print where "print d = the (definition_fingerprint (pe_show_clock env) d)" for d
  have prints: "definition_fingerprint (pe_show_clock env) d = Some (print d)" if "d \<in> set (cp_definitions c)" for d
    using pack_definition_print [OF assms(1) that] by (auto simp: print_def)
  have "distinct (pd_trigger_events d)" if "d \<in> set (cp_definitions c)" for d
  proof -
    have "check_ProcessDefinition known_zone d = Inr d" using assms(2) that by blast
    then show ?thesis using checked_event_types(2) by (auto simp: check_event_types_def)
  qed
  then have distinct: "distinct (map fst (pack_rules (\<lambda>d. bootstrap_of pack r d (print d)) (cp_definitions c)))"
    by (rule pack_rules_distinct [OF assms(1)])
  have "collect_rules env pack r (cp_definitions c) [] = Inr ([] @ pack_rules (\<lambda>d. bootstrap_of pack r d (print d)) (cp_definitions c))"
    by (rule collect_rules_fresh) (use prints distinct in auto)
  then have "trigger_rules env pack r = Inr (pack_rules (\<lambda>d. bootstrap_of pack r d (print d)) (cp_definitions c))"
    using assms(3) make_ClientPack_parts(2) [OF assms(1)] by (simp add: trigger_rules_def require_client_pack_def)
  then show ?thesis using prints distinct that by blast
qed

lemma map_of_pack_rules:
  assumes "distinct (map fst (pack_rules boot ds))"
  shows "map_of (pack_rules boot ds) e = Some b \<longleftrightarrow> (\<exists>d \<in> set ds. triggered_by False e d \<and> b = boot d)"
  using assms by (auto simp: map_of_eq_Some_iff pack_rules_def triggered_by_def)

section \<open>Pins\<close>

text \<open>A process started by a rule of a pack and its release is one the release and the pack run.\<close>

definition runs_here :: "ClientPack \<Rightarrow> DeploymentRelease \<Rightarrow> ProcessInstance \<Rightarrow> bool" where
  "runs_here pack r p \<longleftrightarrow> compatible_process (cp_compatibility pack) p = Inr () \<and> release_require_process r p = Inr ()"

lemma runs_here_new: "runs_here pack r (new_process i now t b) \<longleftrightarrow> runs_here pack r (new_process 0 0 0 b)"
  by (simp add: runs_here_def compatible_process_def release_require_process_def new_process_def Let_def split: option.split)

lemma bootstrap_runs_here:
  assumes "make_ClientPack env c = Inr pack" "d \<in> set (cp_definitions c)"
    "definition_fingerprint (pe_show_clock env) d = Some f"
  shows "runs_here pack (DeploymentRelease.truncate r) (new_process i now t (bootstrap_of pack r d f))"
  using pack_definition_print [OF assms(1,2)] assms(3) make_ClientPack_parts(5,6) [OF assms(1)]
  by (auto simp: runs_here_def compatible_process_def release_require_process_def new_process_def bootstrap_of_def
      definition_key_def DeploymentRelease.defs)

end
