(* ===== verification/Projects.thy ===== *)
theory Projects
  imports Deployment
begin

text \<open>
  \<open>projects/contracts.py\<close> and \<open>projects/compiler.py\<close>: an author describes a client project by facts,
  capabilities, routes, journeys and scenarios; each part is checked when it is built, and the whole is
  compiled into a client pack. What pydantic derives from a type (its schema, its validation
  and encoding of values, the generated output type) is an argument; the decision transformers of
  the journeys only change what that type does with an answer and are left out.
\<close>

section \<open>Contracts\<close>

datatype project_error =
    Misconfigured string string
  | UnknownCapabilities string "string list"
  | UnknownCompletionFacts string "string list"
  | CapabilitiesUnused "string list"
  | RequirementInvalid string value_error
  | StepNotJson value_error
  | DefinitionRejected definition_error
  | ManifestRejected manifest_error
  | PackRejected pack_error

text \<open>\<open>Misconfigured\<close> names the rule that is broken and the fact, capability, journey or scenario that breaks it.\<close>

definition require_identifier :: "string \<Rightarrow> string \<Rightarrow> project_error + unit" where
  "require_identifier value label = require (is_identifier value) (Misconfigured ''not identifier'' label)"

definition require_nonblank :: "unicode \<Rightarrow> string \<Rightarrow> project_error + unit" where
  "require_nonblank value label = require (strip value \<noteq> []) (Misconfigured ''blank'' label)"

record Fact =
  fa_key :: string
  fa_title :: unicode
  fa_description :: unicode
  fa_value_schema :: "jobject option"
  fa_encode :: "json \<Rightarrow> json option"
  fa_kinds :: "FactKind list"
  fa_operator_editable :: bool

definition check_Fact :: "Fact \<Rightarrow> project_error + unit" where
  "check_Fact f =
     bind_result (require (is_dotted_name (fa_key f)) (Misconfigured ''fact key invalid'' [])) (\<lambda>_.
     bind_result (require_nonblank (fa_title f) ''fact title'') (\<lambda>_.
     bind_result (require_nonblank (fa_description f) ''fact description'') (\<lambda>_.
     bind_result (require (fa_kinds f \<noteq> [] \<and> distinct (fa_kinds f)) (Misconfigured ''fact kinds invalid'' (fa_key f))) (\<lambda>_.
     bind_result (require (\<not> (fa_operator_editable f \<and> AUTHORITATIVE \<notin> set (fa_kinds f)))
       (Misconfigured ''editable not authoritative'' (fa_key f))) (\<lambda>_.
     require (fa_value_schema f \<noteq> None) (Misconfigured ''fact without schema'' (fa_key f)))))))"

text \<open>\<open>FactRequirement\<close>: a fact key with the encoded value it must have.\<close>

definition make_FactRequirement :: "string \<Rightarrow> json \<Rightarrow> project_error + string \<times> json" where
  "make_FactRequirement key value =
     (case canonical_json_bytes value (ascii (''completion value for '' @ key)) of
        Inl e \<Rightarrow> Inl (RequirementInvalid key e) | Inr _ \<Rightarrow> Inr (key, value))"

definition fact_equals :: "Fact \<Rightarrow> json \<Rightarrow> project_error + string \<times> json" where
  "fact_equals f value =
     (case fa_encode f value of
        None \<Rightarrow> Inl (Misconfigured ''fact value invalid'' (fa_key f)) | Some encoded \<Rightarrow> make_FactRequirement (fa_key f) encoded)"

text \<open>A \<open>ScenarioValue\<close> inside a value is represented by its JSON form, which is read the same way.\<close>

definition dump_ScenarioValue :: "string \<Rightarrow> json list \<Rightarrow> json" where
  "dump_ScenarioValue fact_key path =
     JObj [(ascii ''type'', text_json ''fact''), (ascii ''fact_key'', text_json fact_key), (ascii ''path'', JArr path)]"

record ScenarioFact =
  sf_key :: string
  sf_kind :: FactKind
  sf_value :: json

datatype observed_value = Literal json | FactPath string "json list"

definition fact_observed :: "Fact \<Rightarrow> observed_value \<Rightarrow> FactKind \<Rightarrow> project_error + ScenarioFact" where
  "fact_observed f value kind =
     (if kind \<notin> set (fa_kinds f) then Inl (Misconfigured ''fact kind not permitted'' (fa_key f))
      else (case value of
              FactPath key path \<Rightarrow> Inr \<lparr>sf_key = fa_key f, sf_kind = kind, sf_value = dump_ScenarioValue key path\<rparr>
            | Literal v \<Rightarrow>
                (case fa_encode f v of
                   None \<Rightarrow> Inl (Misconfigured ''fact value invalid'' (fa_key f))
                 | Some encoded \<Rightarrow> Inr \<lparr>sf_key = fa_key f, sf_kind = kind, sf_value = encoded\<rparr>)))"

record ParameterModel =
  pm_is_model :: bool
  pm_schema :: jobject
  pm_accepts :: "jobject \<Rightarrow> bool"

record Capability =
  ca_action_type :: string
  ca_title :: unicode
  ca_description :: unicode
  ca_parameters_model :: ParameterModel
  ca_adapter :: AdapterObject
  ca_guidance :: unicode
  ca_default_permission :: PermissionOutcome
  ca_produces :: "Fact list"
  ca_simulation_adapter :: "AdapterObject option"

definition has_id :: "AdapterObject \<Rightarrow> bool" where
  "has_id a \<longleftrightarrow> (case ao_id a of None \<Rightarrow> False | Some i \<Rightarrow> strip i \<noteq> [])"

definition check_simulation_adapter :: "string \<Rightarrow> AdapterObject \<Rightarrow> project_error + unit" where
  "check_simulation_adapter action_type a =
     bind_result (require (has_id a) (Misconfigured ''simulation without id'' action_type)) (\<lambda>_.
     bind_result (require (ao_is_simulation a) (Misconfigured ''simulation unmarked'' action_type)) (\<lambda>_.
     require (ao_callable a) (Misconfigured ''simulation not callable'' action_type)))"

definition check_Capability :: "Capability \<Rightarrow> project_error + unit" where
  "check_Capability c =
     (let action_type = ca_action_type c in
     bind_result (require_identifier action_type ''capability action type'') (\<lambda>_.
     bind_result (require_nonblank (ca_title c) ''capability title'') (\<lambda>_.
     bind_result (require_nonblank (ca_description c) ''capability description'') (\<lambda>_.
     bind_result (require_nonblank (ca_guidance c) ''capability guidance'') (\<lambda>_.
     bind_result (require (pm_is_model (ca_parameters_model c)) (Misconfigured ''parameters not model'' action_type)) (\<lambda>_.
     bind_result (require (map_of (pm_schema (ca_parameters_model c)) (ascii ''additionalProperties'') = Some (JBool False))
       (Misconfigured ''parameters open'' action_type)) (\<lambda>_.
     bind_result (require (has_id (ca_adapter c)) (Misconfigured ''adapter without id'' action_type)) (\<lambda>_.
     bind_result (require (ao_guarantees_idempotency (ca_adapter c) \<noteq> None) (Misconfigured ''adapter without idempotency'' action_type)) (\<lambda>_.
     bind_result (require (ao_callable (ca_adapter c)) (Misconfigured ''adapter not callable'' action_type)) (\<lambda>_.
     bind_result (case ca_simulation_adapter c of None \<Rightarrow> Inr () | Some a \<Rightarrow> check_simulation_adapter action_type a) (\<lambda>_.
     require (distinct (map fa_key (ca_produces c))) (Misconfigured ''produces repeated'' action_type))))))))))))"

record Route =
  ro_kind :: RouteKind
  ro_event_type :: string
  ro_journey_id :: string
  ro_title :: unicode
  ro_description :: unicode
  ro_provides :: "Fact list"

definition check_Route :: "Route \<Rightarrow> project_error + unit" where
  "check_Route r =
     bind_result (require (is_dotted_name (ro_event_type r)) (Misconfigured ''route event invalid'' [])) (\<lambda>_.
     bind_result (require_identifier (ro_journey_id r) ''route journey ID'') (\<lambda>_.
     bind_result (require_nonblank (ro_title r) ''route title'') (\<lambda>_.
     bind_result (require_nonblank (ro_description r) ''route description'') (\<lambda>_.
     require (distinct (map fa_key (ro_provides r))) (Misconfigured ''provides repeated'' (ro_event_type r))))))"

definition make_Route :: "RouteKind \<Rightarrow> string \<Rightarrow> string \<Rightarrow> unicode \<Rightarrow> unicode \<Rightarrow> Fact list \<Rightarrow> project_error + Route" where
  "make_Route kind event_type journey title description provides =
     (let r = \<lparr>ro_kind = kind, ro_event_type = event_type, ro_journey_id = journey, ro_title = title,
        ro_description = description, ro_provides = provides\<rparr> in
      bind_result (check_Route r) (\<lambda>_. Inr r))"

definition route_start :: "string \<Rightarrow> string \<Rightarrow> unicode \<Rightarrow> unicode \<Rightarrow> Fact list \<Rightarrow> project_error + Route" where
  "route_start = make_Route START_ROUTE"

definition route_wake :: "string \<Rightarrow> string \<Rightarrow> unicode \<Rightarrow> unicode \<Rightarrow> Fact list \<Rightarrow> project_error + Route" where
  "route_wake = make_Route WAKE_ROUTE"

record ScenarioEvent =
  sv_source :: unicode
  sv_external_references :: "ExternalReference list"
  sv_facts :: "ScenarioFact list"
  sv_payload :: jobject

record ScenarioAction =
  sc_logical_action_key :: unicode
  sc_parameters :: jobject
  sc_rationale :: unicode
  sc_approve :: bool

datatype step_value =
    EventValue ScenarioEvent
  | ActionValue ScenarioAction
  | EventWait string
  | TimerWait unicode int
  | PlainValue json

text \<open>The field rules of the four models, which hold of every value that is built.\<close>

fun check_step_value :: "step_value \<Rightarrow> project_error + unit" where
  "check_step_value (EventValue e) =
     bind_result (require (between_lengths 1 100 (sv_source e)) (Misconfigured ''scenario field'' ''source'')) (\<lambda>_.
     require (list_all (\<lambda>f. is_dotted_name (sf_key f)) (sv_facts e)) (Misconfigured ''scenario field'' ''key''))"
| "check_step_value (ActionValue a) =
     bind_result (require (between_lengths 1 200 (sc_logical_action_key a)) (Misconfigured ''scenario field'' ''logical_action_key'')) (\<lambda>_.
     require (between_lengths 1 1000 (sc_rationale a)) (Misconfigured ''scenario field'' ''rationale''))"
| "check_step_value (EventWait e) = require (is_dotted_name e) (Misconfigured ''scenario field'' ''event_type'')"
| "check_step_value (TimerWait t d) =
     bind_result (require (between_lengths 1 200 t) (Misconfigured ''scenario field'' ''timer_id'')) (\<lambda>_.
     require (1 \<le> d) (Misconfigured ''scenario field'' ''delay_seconds''))"
| "check_step_value (PlainValue v) = Inr ()"

record ScenarioStep =
  ss_kind :: StepKind
  ss_description :: unicode
  ss_reference :: "unicode option"
  ss_value :: step_value

text \<open>\<open>model_dump(mode='json')\<close> of the value of a step.\<close>

definition dump_ScenarioFact :: "ScenarioFact \<Rightarrow> json" where
  "dump_ScenarioFact f =
     JObj [(ascii ''key'', text_json (sf_key f)), (ascii ''kind'', text_json (fact_kind_value (sf_kind f))),
           (ascii ''value'', sf_value f)]"

fun dump_step_value :: "step_value \<Rightarrow> json" where
  "dump_step_value (EventValue e) =
     JObj [(ascii ''source'', JStr (sv_source e)),
           (ascii ''external_references'', JArr (map (\<lambda>r.
              JObj [(ascii ''provider'', JStr (er_provider r)), (ascii ''resource_type'', JStr (er_resource_type r)),
                    (ascii ''external_id'', JStr (er_external_id r))]) (sv_external_references e))),
           (ascii ''facts'', JArr (map dump_ScenarioFact (sv_facts e))),
           (ascii ''payload'', JObj (sv_payload e))]"
| "dump_step_value (ActionValue a) =
     JObj [(ascii ''logical_action_key'', JStr (sc_logical_action_key a)), (ascii ''parameters'', JObj (sc_parameters a)),
           (ascii ''rationale'', JStr (sc_rationale a)), (ascii ''approve'', JBool (sc_approve a))]"
| "dump_step_value (EventWait e) = JObj [(ascii ''type'', text_json ''event''), (ascii ''event_type'', text_json e)]"
| "dump_step_value (TimerWait t d) =
     JObj [(ascii ''type'', text_json ''timer''), (ascii ''timer_id'', JStr t), (ascii ''delay_seconds'', JInt d)]"
| "dump_step_value (PlainValue v) = v"

definition check_ScenarioStep :: "ScenarioStep \<Rightarrow> project_error + unit" where
  "check_ScenarioStep s =
     (let kind = ss_kind s; value = ss_value s in
     bind_result (require_nonblank (ss_description s) ''scenario step description'') (\<lambda>_.
     bind_result (require (kind = COMPLETE_STEP \<or> ss_reference s \<notin> {None, Some []}) (Misconfigured ''step without reference'' [])) (\<lambda>_.
     bind_result (require (kind \<noteq> EVENT_STEP \<or> (case value of EventValue _ \<Rightarrow> True | _ \<Rightarrow> False)) (Misconfigured ''step not executable'' [])) (\<lambda>_.
     bind_result (require (kind \<noteq> ACTION_STEP \<or> (case value of ActionValue _ \<Rightarrow> True | _ \<Rightarrow> False)) (Misconfigured ''step not executable'' [])) (\<lambda>_.
     bind_result (require (kind \<noteq> WAIT_STEP \<or> (case value of EventWait _ \<Rightarrow> True | TimerWait _ _ \<Rightarrow> True | _ \<Rightarrow> False))
       (Misconfigured ''wait without source'' [])) (\<lambda>_.
     bind_result (require (case value of EventWait e \<Rightarrow> ss_reference s = Some (ascii e) | _ \<Rightarrow> True) (Misconfigured ''wait event mismatch'' [])) (\<lambda>_.
     bind_result (require (case value of TimerWait t _ \<Rightarrow> ss_reference s = Some t | _ \<Rightarrow> True) (Misconfigured ''wait timer mismatch'' [])) (\<lambda>_.
     bind_result (require (kind \<noteq> COMPLETE_STEP \<or> value = PlainValue JNull) (Misconfigured ''complete with value'' [])) (\<lambda>_.
     case canonical_json_bytes (dump_step_value value) (ascii ''scenario step value'') of
       Inl e \<Rightarrow> Inl (StepNotJson e) | Inr _ \<Rightarrow> Inr ())))))))))"

text \<open>The constructors: the value is checked when it is built, the step as a whole afterwards.\<close>

definition make_ScenarioStep :: "StepKind \<Rightarrow> unicode \<Rightarrow> unicode option \<Rightarrow> step_value \<Rightarrow> project_error + ScenarioStep" where
  "make_ScenarioStep kind description reference value =
     (let s = \<lparr>ss_kind = kind, ss_description = description, ss_reference = reference, ss_value = value\<rparr> in
      bind_result (check_step_value value) (\<lambda>_. bind_result (check_ScenarioStep s) (\<lambda>_. Inr s)))"

definition step_event :: "string \<Rightarrow> unicode \<Rightarrow> ScenarioFact list \<Rightarrow> jobject \<Rightarrow> unicode \<Rightarrow> ExternalReference list
    \<Rightarrow> project_error + ScenarioStep" where
  "step_event event_type description facts payload source references =
     make_ScenarioStep EVENT_STEP description (Some (ascii event_type))
       (EventValue \<lparr>sv_source = source, sv_external_references = references, sv_facts = facts, sv_payload = payload\<rparr>)"

definition step_action :: "string \<Rightarrow> unicode \<Rightarrow> jobject \<Rightarrow> unicode option \<Rightarrow> unicode option \<Rightarrow> bool \<Rightarrow> project_error + ScenarioStep" where
  "step_action action_type description parameters logical_action_key rationale approve =
     (let chosen = (\<lambda>given default. case given of Some (c # cs) \<Rightarrow> c # cs | _ \<Rightarrow> default) in
      make_ScenarioStep ACTION_STEP description (Some (ascii action_type))
        (ActionValue \<lparr>sc_logical_action_key = chosen logical_action_key (ascii action_type), sc_parameters = parameters,
           sc_rationale = chosen rationale description, sc_approve = approve\<rparr>))"

definition wait_for_event :: "string \<Rightarrow> unicode \<Rightarrow> project_error + ScenarioStep" where
  "wait_for_event event_type description = make_ScenarioStep WAIT_STEP description (Some (ascii event_type)) (EventWait event_type)"

text \<open>\<open>wait_for_timer\<close>: a duration in microseconds.\<close>

definition wait_for_timer :: "unicode \<Rightarrow> duration \<Rightarrow> unicode \<Rightarrow> project_error + ScenarioStep" where
  "wait_for_timer timer_id after description =
     (if after mod 1000000 \<noteq> 0 \<or> after < 1000000 then Inl (Misconfigured ''timer delay invalid'' [])
      else make_ScenarioStep WAIT_STEP description (Some timer_id) (TimerWait timer_id (after div 1000000)))"

definition step_fact :: "Fact \<Rightarrow> json \<Rightarrow> unicode \<Rightarrow> project_error + ScenarioStep" where
  "step_fact f value description =
     bind_result (fact_equals f value) (\<lambda>(key, expected).
     make_ScenarioStep FACT_STEP description (Some (ascii (fa_key f))) (PlainValue expected))"

definition step_complete :: "unicode \<Rightarrow> project_error + ScenarioStep" where
  "step_complete description = make_ScenarioStep COMPLETE_STEP description None (PlainValue JNull)"

record Scenario =
  sn_id :: string
  sn_journey_id :: string
  sn_title :: unicode
  sn_description :: unicode
  sn_steps :: "ScenarioStep list"
  sn_started_at :: datetime

definition check_Scenario :: "Scenario \<Rightarrow> project_error + unit" where
  "check_Scenario s =
     bind_result (require_identifier (sn_id s) ''scenario ID'') (\<lambda>_.
     bind_result (require_identifier (sn_journey_id s) ''scenario journey ID'') (\<lambda>_.
     bind_result (require_nonblank (sn_title s) ''scenario title'') (\<lambda>_.
     bind_result (require_nonblank (sn_description s) ''scenario description'') (\<lambda>_.
     bind_result (require (sn_steps s \<noteq> []) (Misconfigured ''scenario without steps'' (sn_id s))) (\<lambda>_.
     require (case sn_started_at s of Naive _ \<Rightarrow> False | Aware _ \<Rightarrow> True) (Misconfigured ''scenario start naive'' (sn_id s)))))))"

record Communications =
  cm_outbound_actions :: "string list"
  cm_customer_reply_events :: "string list"
  cm_opt_out_events :: "string list"
  cm_automated_response_events :: "string list"
  cm_quiet_hours :: "DailyQuietHours option"

definition check_group :: "string \<Rightarrow> (string \<Rightarrow> bool) \<Rightarrow> string list \<Rightarrow> project_error + unit" where
  "check_group label matches values =
     bind_result (require (distinct values) (Misconfigured ''communication repeated'' label)) (\<lambda>_.
     require (list_all matches values) (Misconfigured ''communication invalid'' label))"

definition check_Communications :: "Communications \<Rightarrow> project_error + unit" where
  "check_Communications c =
     (let reply = set (cm_customer_reply_events c); opt_out = set (cm_opt_out_events c);
          automated = set (cm_automated_response_events c) in
     bind_result (check_group ''outbound actions'' is_identifier (cm_outbound_actions c)) (\<lambda>_.
     bind_result (check_group ''customer reply events'' is_dotted_name (cm_customer_reply_events c)) (\<lambda>_.
     bind_result (check_group ''opt-out events'' is_dotted_name (cm_opt_out_events c)) (\<lambda>_.
     bind_result (check_group ''automated-response events'' is_dotted_name (cm_automated_response_events c)) (\<lambda>_.
     bind_result (require (reply \<inter> opt_out = {} \<and> reply \<inter> automated = {} \<and> opt_out \<inter> automated = {})
       (Misconfigured ''communication ambiguous'' [])) (\<lambda>_.
     require (\<not> (cm_outbound_actions c = []
         \<and> (reply \<noteq> {} \<or> opt_out \<noteq> {} \<or> automated \<noteq> {} \<or> cm_quiet_hours c \<noteq> None)))
       (Misconfigured ''communication without outbound'' [])))))))"

record Journey =
  jo_id :: string
  jo_version :: unicode
  jo_title :: unicode
  jo_description :: unicode
  jo_goals :: "unicode list"
  jo_capabilities :: "string list"
  jo_complete_when :: "(string \<times> json) list"
  jo_status :: DefinitionStatus
  jo_permission_overrides :: "(string \<times> PermissionOutcome) list"
  jo_action_guidance :: "(string \<times> unicode) list"
  jo_decision_guidance :: "unicode list"
  jo_terminal_states :: "ProcessStatus list"
  jo_limits :: ProcessLimits
  jo_review_commands :: "ReviewCommandType list"
  jo_communications :: Communications

definition check_Journey :: "Journey \<Rightarrow> project_error + unit" where
  "check_Journey j =
     bind_result (require_identifier (jo_id j) ''journey ID'') (\<lambda>_.
     bind_result (require_nonblank (jo_version j) ''journey version'') (\<lambda>_.
     bind_result (require_nonblank (jo_title j) ''journey title'') (\<lambda>_.
     bind_result (require_nonblank (jo_description j) ''journey description'') (\<lambda>_.
     bind_result (require (jo_goals j \<noteq> [] \<and> \<not> list_ex (\<lambda>g. strip g = []) (jo_goals j)) (Misconfigured ''goals invalid'' (jo_id j))) (\<lambda>_.
     bind_result (require (distinct (jo_capabilities j)) (Misconfigured ''capabilities repeated'' (jo_id j))) (\<lambda>_.
     bind_result (require (jo_complete_when j \<noteq> []) (Misconfigured ''completion missing'' (jo_id j))) (\<lambda>_.
     require (distinct (map fst (jo_complete_when j))) (Misconfigured ''completion repeated'' (jo_id j)))))))))"

record Project =
  pj_id :: string
  pj_version :: unicode
  pj_title :: unicode
  pj_description :: unicode
  pj_journeys :: "Journey list"
  pj_routes :: "Route list"
  pj_capabilities :: "Capability list"
  pj_facts :: "Fact list"
  pj_scenarios :: "Scenario list"
  pj_tiramisu_compatibility :: unicode

definition check_Project :: "Project \<Rightarrow> project_error + unit" where
  "check_Project p =
     bind_result (require_identifier (pj_id p) ''project ID'') (\<lambda>_.
     bind_result (require_nonblank (pj_version p) ''project version'') (\<lambda>_.
     bind_result (require_nonblank (pj_title p) ''project title'') (\<lambda>_.
     bind_result (require_nonblank (pj_description p) ''project description'') (\<lambda>_.
     require (pj_journeys p \<noteq> []) (Misconfigured ''no journeys'' [])))))"

section \<open>Descriptions\<close>

text \<open>\<open>_unique_by\<close>\<close>

fun unique_by :: "('a \<Rightarrow> string) \<Rightarrow> string \<Rightarrow> 'a list \<Rightarrow> string list \<Rightarrow> project_error + unit" where
  "unique_by key label [] seen = Inr ()"
| "unique_by key label (x # xs) seen =
     (if key x \<in> set seen then Inl (Misconfigured ''duplicate'' label) else unique_by key label xs (key x # seen))"

definition fact_description :: "Fact \<Rightarrow> FactDescription" where
  "fact_description f =
     \<lparr>fx_key = fa_key f, fx_title = fa_title f, fx_description = fa_description f, fx_kinds = fa_kinds f,
      fx_value_schema = (case fa_value_schema f of None \<Rightarrow> [] | Some schema \<Rightarrow> schema),
      fx_operator_editable = fa_operator_editable f\<rparr>"

definition fact_definition :: "Fact \<Rightarrow> FactDefinition" where
  "fact_definition f =
     (let x = fact_description f in
      \<lparr>fd_key = fx_key x, fd_title = fx_title x, fd_description = fx_description x, fd_kinds = fx_kinds x,
       fd_value_schema = fx_value_schema x, fd_operator_editable = fx_operator_editable x\<rparr>)"

definition capability_description :: "Capability \<Rightarrow> CapabilityDescription" where
  "capability_description c =
     \<lparr>kx_action_type = ca_action_type c, kx_title = ca_title c, kx_description = ca_description c,
      kx_adapter_id = (case ao_id (ca_adapter c) of None \<Rightarrow> [] | Some i \<Rightarrow> i),
      kx_default_permission = ca_default_permission c, kx_parameters_schema = pm_schema (ca_parameters_model c),
      kx_produces_fact_keys = map fa_key (ca_produces c)\<rparr>"

definition route_description :: "Route \<Rightarrow> RouteDescription" where
  "route_description r =
     \<lparr>rx_kind = ro_kind r, rx_event_type = ro_event_type r, rx_title = ro_title r, rx_description = ro_description r,
      rx_provides_fact_keys = map fa_key (ro_provides r)\<rparr>"

definition scenario_description :: "Scenario \<Rightarrow> ScenarioDescription" where
  "scenario_description s =
     \<lparr>zx_id = sn_id s, zx_title = sn_title s, zx_description = sn_description s,
      zx_steps = map (\<lambda>t. \<lparr>sx_kind = ss_kind t, sx_description = ss_description t, sx_reference = ss_reference t,
        sx_value = dump_step_value (ss_value t)\<rparr>) (sn_steps s),
      zx_started_at = sn_started_at s\<rparr>"

section \<open>Facts\<close>

definition same_fact :: "Fact \<Rightarrow> Fact \<Rightarrow> bool" where
  "same_fact f g \<longleftrightarrow>
     (let a = fact_description f; b = fact_description g in
      fx_key a = fx_key b \<and> fx_title a = fx_title b \<and> fx_description a = fx_description b \<and> fx_kinds a = fx_kinds b
      \<and> py_eq (JObj (fx_value_schema a)) (JObj (fx_value_schema b)) \<and> fx_operator_editable a = fx_operator_editable b)"

text \<open>The catalog is a dictionary; its newest entry comes first here.\<close>

fun add_facts :: "Fact list \<Rightarrow> (string \<times> Fact) list \<Rightarrow> project_error + (string \<times> Fact) list" where
  "add_facts [] facts = Inr facts"
| "add_facts (f # fs) facts =
     (if (case map_of facts (fa_key f) of None \<Rightarrow> False | Some existing \<Rightarrow> \<not> same_fact existing f)
      then Inl (Misconfigured ''fact inconsistent'' (fa_key f))
      else add_facts fs ((fa_key f, f) # facts))"

definition declared_facts :: "Project \<Rightarrow> Fact list" where
  "declared_facts p =
     pj_facts p @ concat (map ca_produces (pj_capabilities p)) @ concat (map ro_provides (pj_routes p))"

definition collect_fact_catalog :: "Project \<Rightarrow> project_error + (string \<times> Fact) list" where
  "collect_fact_catalog p = add_facts (declared_facts p) []"

section \<open>Scenarios\<close>

text \<open>
  \<open>_validate_scenario_value_references\<close>: whether a value reads facts; \<open>None\<close> when it reads a fact that is
  not known (or whose key is no text).
\<close>

function value_refs :: "unicode list \<Rightarrow> json \<Rightarrow> bool option"
  and item_refs :: "unicode list \<Rightarrow> json list \<Rightarrow> bool option"
  and field_refs :: "unicode list \<Rightarrow> jobject \<Rightarrow> bool option" where
  "value_refs known (JObj kvs) =
     (if map_of kvs (ascii ''type'') = Some (text_json ''fact'')
         \<and> fst ` set kvs \<subseteq> {ascii ''type'', ascii ''fact_key'', ascii ''path''}
      then (case map_of kvs (ascii ''fact_key'') of
              Some (JStr key) \<Rightarrow> if key \<in> set known then Some True else None
            | _ \<Rightarrow> None)
      else field_refs known kvs)"
| "value_refs known (JArr xs) = item_refs known xs"
| "value_refs known JNull = Some False"
| "value_refs known (JBool b) = Some False"
| "value_refs known (JInt i) = Some False"
| "value_refs known (JFloat m k t) = Some False"
| "value_refs known (JStr s) = Some False"
| "value_refs known JUnsupported = Some False"
| "item_refs known [] = Some False"
| "item_refs known (x # xs) =
     (case (value_refs known x, item_refs known xs) of (Some a, Some b) \<Rightarrow> Some (a \<or> b) | _ \<Rightarrow> None)"
| "field_refs known [] = Some False"
| "field_refs known ((k, x) # xs) =
     (case (value_refs known x, field_refs known xs) of (Some a, Some b) \<Rightarrow> Some (a \<or> b) | _ \<Rightarrow> None)"
  by pat_completeness auto
termination
  by (relation "measure (\<lambda>v. case v of
        Inl (known, a) \<Rightarrow> size a
      | Inr (Inl (known, xs)) \<Rightarrow> size_list size xs
      | Inr (Inr (known, xs)) \<Rightarrow> size_list (\<lambda>p. Suc (size (snd p))) xs)")
    (auto simp: size_prod_simp)

definition permission_for :: "Journey \<Rightarrow> Capability \<Rightarrow> PermissionOutcome" where
  "permission_for j c =
     (case map_of (jo_permission_overrides j) (ca_action_type c) of None \<Rightarrow> ca_default_permission c | Some o' \<Rightarrow> o')"

definition find_capability :: "Project \<Rightarrow> string \<Rightarrow> Capability option" where
  "find_capability p action_type = map_of (map (\<lambda>c. (ca_action_type c, c)) (pj_capabilities p)) action_type"

text \<open>The state of the loop over the steps: the awaited event, and whether a turn may run.\<close>

type_synonym scenario_state = "unicode option \<times> bool"

definition scenario_event :: "Scenario \<Rightarrow> Route list \<Rightarrow> (string \<times> Fact) list \<Rightarrow> ScenarioStep \<Rightarrow> nat \<Rightarrow> scenario_state
    \<Rightarrow> project_error + scenario_state" where
  "scenario_event s routes facts step index state =
     (let i = sn_id s; known = map (\<lambda>(k, _). ascii k) facts in
      case (find (\<lambda>r. Some (ascii (ro_event_type r)) = ss_reference step) (rev routes), ss_value step) of
        (None, _) \<Rightarrow> Inl (Misconfigured ''scenario event outside'' i)
      | (Some route, EventValue e) \<Rightarrow>
          bind_result (require (index = 0 \<or> fst state = ss_reference step) (Misconfigured ''scenario event unawaited'' i)) (\<lambda>_.
          bind_result (require (distinct (map sf_key (sv_facts e))) (Misconfigured ''scenario fact repeated'' i)) (\<lambda>_.
          bind_result (check_all (\<lambda>f.
            case map_of facts (sf_key f) of
              None \<Rightarrow> Inl (Misconfigured ''scenario fact undeclared'' i)
            | Some declared \<Rightarrow>
                bind_result (require (sf_key f \<in> fa_key ` set (ro_provides route)) (Misconfigured ''scenario fact undeclared'' i)) (\<lambda>_.
                bind_result (require (sf_kind f \<in> set (fa_kinds declared)) (Misconfigured ''scenario fact authority'' i)) (\<lambda>_.
                require (value_refs known (sf_value f) \<noteq> None) (Misconfigured ''scenario reads unknown fact'' i)))) (sv_facts e)) (\<lambda>_.
          bind_result (require (value_refs known (JObj (sv_payload e)) \<noteq> None) (Misconfigured ''scenario reads unknown fact'' i)) (\<lambda>_.
          Inr (None, True)))))
      | (Some _, _) \<Rightarrow> Inl (Misconfigured ''step not executable'' []))"

definition scenario_action :: "Scenario \<Rightarrow> Project \<Rightarrow> Journey \<Rightarrow> (string \<times> Fact) list \<Rightarrow> ScenarioStep \<Rightarrow> scenario_state
    \<Rightarrow> project_error + scenario_state" where
  "scenario_action s p j facts step state =
     (let i = sn_id s; known = map (\<lambda>(k, _). ascii k) facts in
      if \<not> snd state then Inl (Misconfigured ''scenario action without wake'' i)
      else (case find (\<lambda>a. Some (ascii a) = ss_reference step) (jo_capabilities j) of
              None \<Rightarrow> Inl (Misconfigured ''scenario action unavailable'' i)
            | Some action_type \<Rightarrow>
                (case (ss_value step, find_capability p action_type) of
                   (ActionValue a, Some c) \<Rightarrow>
                     (case value_refs known (JObj (sc_parameters a)) of
                        None \<Rightarrow> Inl (Misconfigured ''scenario reads unknown fact'' i)
                      | Some has_references \<Rightarrow>
                          bind_result (require (has_references \<or> pm_accepts (ca_parameters_model c) (sc_parameters a))
                            (Misconfigured ''scenario parameters invalid'' i)) (\<lambda>_.
                          bind_result (require (\<not> (sc_approve a \<and> permission_for j c \<noteq> REQUIRE_APPROVAL))
                            (Misconfigured ''scenario approval unneeded'' i)) (\<lambda>_.
                          bind_result (require (\<not> (permission_for j c = REQUIRE_APPROVAL \<and> \<not> sc_approve a))
                            (Misconfigured ''scenario approval missing'' i)) (\<lambda>_.
                          bind_result (require (permission_for j c \<noteq> DENY) (Misconfigured ''scenario denied'' i)) (\<lambda>_.
                          Inr (fst state, True))))))
                 | _ \<Rightarrow> Inl (Misconfigured ''step not executable'' []))))"

definition scenario_wait :: "Scenario \<Rightarrow> Route list \<Rightarrow> ScenarioStep \<Rightarrow> scenario_state \<Rightarrow> project_error + scenario_state" where
  "scenario_wait s routes step state =
     (if \<not> snd state then Inl (Misconfigured ''scenario wait without wake'' (sn_id s))
      else (case ss_value step of
              EventWait e \<Rightarrow>
                if e \<notin> set (map ro_event_type (filter (\<lambda>r. ro_kind r = WAKE_ROUTE) routes))
                then Inl (Misconfigured ''scenario wait unavailable'' (sn_id s)) else Inr (Some (ascii e), False)
            | TimerWait _ _ \<Rightarrow> Inr (fst state, True)
            | _ \<Rightarrow> Inl (Misconfigured ''scenario wait invalid'' (sn_id s))))"

definition scenario_step :: "Scenario \<Rightarrow> Project \<Rightarrow> Journey \<Rightarrow> Route list \<Rightarrow> (string \<times> Fact) list \<Rightarrow> nat \<Rightarrow> ScenarioStep
    \<Rightarrow> scenario_state \<Rightarrow> project_error + scenario_state" where
  "scenario_step s p j routes facts index step state =
     (case ss_kind step of
        EVENT_STEP \<Rightarrow> scenario_event s routes facts step index state
      | ACTION_STEP \<Rightarrow> scenario_action s p j facts step state
      | WAIT_STEP \<Rightarrow> scenario_wait s routes step state
      | FACT_STEP \<Rightarrow>
          if \<not> snd state then Inl (Misconfigured ''scenario fact without wake'' (sn_id s))
          else if ss_reference step \<notin> set (map (\<lambda>(k, _). Some (ascii k)) facts) then Inl (Misconfigured ''scenario fact unknown'' (sn_id s))
          else Inr state
      | COMPLETE_STEP \<Rightarrow>
          if \<not> snd state then Inl (Misconfigured ''scenario complete without wake'' (sn_id s))
          else if Suc index \<noteq> length (sn_steps s) then Inl (Misconfigured ''scenario complete not last'' (sn_id s))
          else Inr (fst state, False))"

fun scenario_steps :: "Scenario \<Rightarrow> Project \<Rightarrow> Journey \<Rightarrow> Route list \<Rightarrow> (string \<times> Fact) list \<Rightarrow> nat \<Rightarrow> ScenarioStep list
    \<Rightarrow> scenario_state \<Rightarrow> project_error + scenario_state" where
  "scenario_steps s p j routes facts index [] state = Inr state"
| "scenario_steps s p j routes facts index (step # steps) state =
     bind_result (scenario_step s p j routes facts index step state) (scenario_steps s p j routes facts (Suc index) steps)"

definition validate_scenario :: "Scenario \<Rightarrow> Project \<Rightarrow> Journey \<Rightarrow> Route list \<Rightarrow> (string \<times> Fact) list \<Rightarrow> project_error + unit" where
  "validate_scenario s p j routes facts =
     (case sn_steps s of
        [] \<Rightarrow> Inl (Misconfigured ''scenario without steps'' (sn_id s))
      | first # _ \<Rightarrow>
          bind_result (require (ss_kind first = EVENT_STEP \<and> ss_reference first
              \<in> set (map (\<lambda>r. Some (ascii (ro_event_type r))) (filter (\<lambda>r. ro_kind r = START_ROUTE) routes)))
            (Misconfigured ''scenario start'' (sn_id s))) (\<lambda>_.
          bind_result (require (ss_kind (last (sn_steps s)) = COMPLETE_STEP) (Misconfigured ''scenario end'' (sn_id s))) (\<lambda>_.
          bind_result (scenario_steps s p j routes facts 0 (sn_steps s) (None, False)) (\<lambda>(expected, _).
          require (expected = None) (Misconfigured ''scenario event never supplied'' (sn_id s))))))"

section \<open>The compiler\<close>

text \<open>What it takes from pydantic and \<open>zoneinfo\<close>: the generated output type and the known time zones.\<close>

record CompileEnv = PackEnv +
  cv_known_zone :: "unicode \<Rightarrow> bool"
  cv_output_type :: "string \<Rightarrow> unicode \<Rightarrow> (string \<times> jobject) list \<Rightarrow> string list \<Rightarrow> OutputType"

fun check_routes :: "string set \<Rightarrow> Route list \<Rightarrow> (string \<times> RouteKind \<times> string) list \<Rightarrow> project_error + unit" where
  "check_routes journeys [] seen = Inr ()"
| "check_routes journeys (r # rs) seen =
     (if ro_journey_id r \<notin> journeys then Inl (Misconfigured ''route to an unknown journey'' (ro_event_type r))
      else if (ro_journey_id r, ro_kind r, ro_event_type r) \<in> set seen
      then Inl (Misconfigured ''route repeated'' (ro_event_type r))
      else check_routes journeys rs ((ro_journey_id r, ro_kind r, ro_event_type r) # seen))"

definition journey_published :: "Project \<Rightarrow> string \<Rightarrow> bool" where
  "journey_published p i \<longleftrightarrow> list_ex (\<lambda>j. jo_id j = i \<and> jo_status j = DefinitionStatus.PUBLISHED) (pj_journeys p)"

definition published_start_events :: "Project \<Rightarrow> string list" where
  "published_start_events p =
     map ro_event_type (filter (\<lambda>r. ro_kind r = START_ROUTE \<and> journey_published p (ro_journey_id r)) (pj_routes p))"

fun first_repeated :: "'a list \<Rightarrow> 'a list \<Rightarrow> 'a option" where
  "first_repeated [] seen = None"
| "first_repeated (x # xs) seen = (if x \<in> set seen then Some x else first_repeated xs (x # seen))"

definition routes_of :: "Project \<Rightarrow> Journey \<Rightarrow> Route list" where
  "routes_of p j = filter (\<lambda>r. ro_journey_id r = jo_id j) (pj_routes p)"

definition route_events :: "RouteKind \<Rightarrow> Project \<Rightarrow> Journey \<Rightarrow> string list" where
  "route_events kind p j = map ro_event_type (filter (\<lambda>r. ro_kind r = kind) (routes_of p j))"

definition scenarios_of :: "Project \<Rightarrow> Journey \<Rightarrow> Scenario list" where
  "scenarios_of p j = filter (\<lambda>s. sn_journey_id s = jo_id j) (pj_scenarios p)"

definition selected :: "Project \<Rightarrow> Journey \<Rightarrow> Capability list" where
  "selected p j = List.map_filter (find_capability p) (jo_capabilities j)"

definition communication_events :: "Journey \<Rightarrow> string set" where
  "communication_events j =
     (let c = jo_communications j in
      set (cm_customer_reply_events c) \<union> set (cm_opt_out_events c) \<union> set (cm_automated_response_events c))"

text \<open>The checks of one journey against the project and the catalog of facts.\<close>

definition check_compiled_journey :: "Project \<Rightarrow> (string \<times> Fact) list \<Rightarrow> Journey \<Rightarrow> project_error + unit" where
  "check_compiled_journey p facts j =
     (let i = jo_id j; requirements = map fst (jo_complete_when j);
          unknown_capabilities = filter (\<lambda>a. find_capability p a = None) (jo_capabilities j);
          unknown_facts = filter (\<lambda>k. map_of facts k = None) requirements in
     bind_result (require (\<not> (jo_status j = DefinitionStatus.PUBLISHED \<and> route_events START_ROUTE p j = []))
       (Misconfigured ''published journey without start route'' i)) (\<lambda>_.
     bind_result (require (unknown_capabilities = []) (UnknownCapabilities i (sort unknown_capabilities))) (\<lambda>_.
     bind_result (require (fst ` set (jo_permission_overrides j) \<subseteq> set (jo_capabilities j))
       (Misconfigured ''overrides for unavailable capabilities'' i)) (\<lambda>_.
     bind_result (require (fst ` set (jo_action_guidance j) \<subseteq> set (jo_capabilities j))
       (Misconfigured ''guidance for unavailable capabilities'' i)) (\<lambda>_.
     bind_result (require (set (cm_outbound_actions (jo_communications j)) \<subseteq> set (jo_capabilities j))
       (Misconfigured ''unavailable capability marked outbound'' i)) (\<lambda>_.
     bind_result (require (communication_events j \<subseteq> set (route_events WAKE_ROUTE p j))
       (Misconfigured ''communication events without wake routes'' i)) (\<lambda>_.
     bind_result (require (unknown_facts = []) (UnknownCompletionFacts i (sort unknown_facts))) (\<lambda>_.
     require (list_all (\<lambda>k. case map_of facts k of None \<Rightarrow> False | Some f \<Rightarrow> AUTHORITATIVE \<in> set (fa_kinds f)) requirements)
       (Misconfigured ''completion not authoritative'' i)))))))))"

definition relevant_facts :: "Project \<Rightarrow> (string \<times> Fact) list \<Rightarrow> Journey \<Rightarrow> Fact list" where
  "relevant_facts p facts j =
     List.map_filter (map_of facts)
       (sort (remdups (map fst (jo_complete_when j) @ map fa_key (concat (map ca_produces (selected p j)))
          @ map fa_key (concat (map ro_provides (routes_of p j))))))"

definition compiled_communications :: "Journey \<Rightarrow> CommunicationConfiguration" where
  "compiled_communications j =
     (let c = jo_communications j in
      \<lparr>cc_outbound_action_types = cm_outbound_actions c, cc_reply_event_types = cm_customer_reply_events c,
       cc_opt_out_event_types = cm_opt_out_events c, cc_automated_response_event_types = cm_automated_response_events c,
       cc_quiet_hours = cm_quiet_hours c\<rparr>)"

definition guidance_for :: "Journey \<Rightarrow> Capability \<Rightarrow> unicode" where
  "guidance_for j c = (case map_of (jo_action_guidance j) (ca_action_type c) of None \<Rightarrow> ca_guidance c | Some g \<Rightarrow> g)"

definition adapter_id :: "Capability \<Rightarrow> unicode" where
  "adapter_id c = (case ao_id (ca_adapter c) of None \<Rightarrow> [] | Some i \<Rightarrow> i)"

definition journey_definition :: "Project \<Rightarrow> (string \<times> Fact) list \<Rightarrow> Journey \<Rightarrow> ProcessDefinition" where
  "journey_definition p facts j =
     \<lparr>pd_id = jo_id j, pd_version = jo_version j, pd_status = jo_status j,
      pd_trigger_events = route_events START_ROUTE p j, pd_goals = jo_goals j,
      pd_terminal_states = jo_terminal_states j, pd_allowed_actions = jo_capabilities j,
      pd_action_permissions = map (\<lambda>c. (ca_action_type c, permission_for j c)) (selected p j),
      pd_action_guidance = map (\<lambda>c. (ca_action_type c, guidance_for j c)) (selected p j),
      pd_decision_guidance = jo_decision_guidance j, pd_allowed_wake_events = route_events WAKE_ROUTE p j,
      pd_limits = jo_limits j, pd_review = jo_review_commands j, pd_communications = compiled_communications j,
      pd_integrations = map (\<lambda>c. (ascii (ca_action_type c), adapter_id c)) (selected p j),
      pd_facts = map fact_definition (relevant_facts p facts j), pd_completion_requirements = jo_complete_when j\<rparr>"

text \<open>\<open>ReviewConfiguration\<close>, \<open>CommunicationConfiguration\<close> and the facts are built before the definition.\<close>

definition make_definition :: "CompileEnv \<Rightarrow> ProcessDefinition \<Rightarrow> project_error + ProcessDefinition" where
  "make_definition env d =
     (case bind_result (check_ReviewConfiguration (pd_review d)) (\<lambda>_.
           bind_result (check_CommunicationConfiguration (cv_known_zone env) (pd_communications d)) (\<lambda>_.
           bind_result (check_all check_FactDefinition (pd_facts d)) (\<lambda>_.
           check_ProcessDefinition (cv_known_zone env) d))) of
        Inl e \<Rightarrow> Inl (DefinitionRejected e) | Inr made \<Rightarrow> Inr made)"

definition journey_description :: "Project \<Rightarrow> (string \<times> Fact) list \<Rightarrow> Journey \<Rightarrow> JourneyDescription" where
  "journey_description p facts j =
     \<lparr>jx_id = jo_id j, jx_version = jo_version j, jx_title = jo_title j, jx_description = jo_description j,
      jx_status = definition_status_value (jo_status j), jx_goals = jo_goals j,
      jx_routes = map route_description (routes_of p j), jx_capabilities = map capability_description (selected p j),
      jx_facts = map fact_description (relevant_facts p facts j),
      jx_permissions = map (\<lambda>c. (ca_action_type c, permission_for j c)) (selected p j), jx_limits = jo_limits j,
      jx_communications = compiled_communications j, jx_completion_requirements = jo_complete_when j,
      jx_scenarios = map scenario_description (scenarios_of p j)\<rparr>"

definition compile_journey :: "CompileEnv \<Rightarrow> Project \<Rightarrow> (string \<times> Fact) list \<Rightarrow> Journey
    \<Rightarrow> project_error + ProcessDefinition \<times> JourneyDescription" where
  "compile_journey env p facts j =
     bind_result (check_compiled_journey p facts j) (\<lambda>_.
     bind_result (make_definition env (journey_definition p facts j)) (\<lambda>d.
     bind_result (check_all (\<lambda>s. validate_scenario s p j (routes_of p j)
         (map (\<lambda>f. (fa_key f, f)) (relevant_facts p facts j))) (scenarios_of p j)) (\<lambda>_.
     Inr (d, journey_description p facts j))))"

fun compile_journeys :: "CompileEnv \<Rightarrow> Project \<Rightarrow> (string \<times> Fact) list \<Rightarrow> Journey list
    \<Rightarrow> project_error + (ProcessDefinition \<times> JourneyDescription) list" where
  "compile_journeys env p facts [] = Inr []"
| "compile_journeys env p facts (j # js) =
     bind_result (compile_journey env p facts j) (\<lambda>c.
     bind_result (compile_journeys env p facts js) (\<lambda>cs. Inr (c # cs)))"

definition scenario_action_types :: "Project \<Rightarrow> unicode option list" where
  "scenario_action_types p =
     map ss_reference (filter (\<lambda>s. ss_kind s = ACTION_STEP) (concat (map sn_steps (pj_scenarios p))))"

definition simulation_adapter :: "Capability \<Rightarrow> AdapterObject option" where
  "simulation_adapter c =
     (case ca_simulation_adapter c of
        Some a \<Rightarrow> Some a
      | None \<Rightarrow> if ao_is_simulation (ca_adapter c) then Some (ca_adapter c) else None)"

definition played :: "Project \<Rightarrow> Capability \<Rightarrow> bool" where
  "played p c \<longleftrightarrow> Some (ascii (ca_action_type c)) \<in> set (scenario_action_types p)"

definition check_simulations :: "Project \<Rightarrow> Capability list \<Rightarrow> project_error + unit" where
  "check_simulations p cs =
     check_all (\<lambda>c. require (\<not> (played p c \<and> simulation_adapter c = None)) (Misconfigured ''simulation missing'' (ca_action_type c))) cs"

definition simulation_bindings :: "Project \<Rightarrow> Capability list \<Rightarrow> (string \<times> AdapterObject) list" where
  "simulation_bindings p cs =
     List.map_filter (\<lambda>c. if played p c then map_option (\<lambda>a. (ca_action_type c, a)) (simulation_adapter c) else None) cs"

definition policy_id :: "Project \<Rightarrow> Journey \<Rightarrow> unicode" where
  "policy_id p j = ascii (pj_id p) @ [46] @ ascii (jo_id j) @ ascii ''.policy.v'' @ jo_version j"

definition used_actions :: "Project \<Rightarrow> string list" where
  "used_actions p = concat (map jo_capabilities (pj_journeys p))"

definition used_capabilities :: "Project \<Rightarrow> Capability list" where
  "used_capabilities p = filter (\<lambda>c. ca_action_type c \<in> set (used_actions p)) (pj_capabilities p)"

definition project_manifest :: "Project \<Rightarrow> ProcessDefinition list \<Rightarrow> ExtensionManifest" where
  "project_manifest p ds =
     \<lparr>em_extension_id = pj_id p, em_extension_version = pj_version p,
      em_tiramisu_compatibility = pj_tiramisu_compatibility p, em_process_definitions = map definition_name ds,
      em_adapters = sort (remdups (map adapter_id (used_capabilities p))),
      em_policies = map (policy_id p) (pj_journeys p), em_activities = []\<rparr>"

definition project_contents :: "CompileEnv \<Rightarrow> Project \<Rightarrow> (ProcessDefinition \<times> JourneyDescription) list \<Rightarrow> PackContents" where
  "project_contents env p compiled =
     (let used = used_capabilities p; ds = map fst compiled in
      \<lparr>cp_manifest = project_manifest p ds, cp_definitions = ds,
       cp_bindings = map (\<lambda>c. (ca_action_type c, ca_adapter c)) used,
       cp_output_type = cv_output_type env (pj_id p) (pj_version p)
         (map (\<lambda>c. (ca_action_type c, pm_schema (ca_parameters_model c))) used)
         (sort (remdups (map ro_event_type (filter (\<lambda>r. ro_kind r = WAKE_ROUTE) (pj_routes p))))),
       cp_policy_ids = map (policy_id p) (pj_journeys p),
       cp_project = Some \<lparr>px_id = pj_id p, px_version = pj_version p, px_title = pj_title p,
         px_description = pj_description p, px_journeys = map snd compiled\<rparr>,
       cp_simulation_bindings = simulation_bindings p used\<rparr>)"

text \<open>Everything \<open>compile_project\<close> checks before it assembles the pack, with the journeys it compiles.\<close>

definition compile_parts :: "CompileEnv \<Rightarrow> Project \<Rightarrow> project_error + (ProcessDefinition \<times> JourneyDescription) list" where
  "compile_parts env p =
     (let journeys = set (map jo_id (pj_journeys p));
          unused = filter (\<lambda>a. a \<notin> set (used_actions p)) (map ca_action_type (pj_capabilities p)) in
     bind_result (unique_by jo_id ''journey ID'' (pj_journeys p) []) (\<lambda>_.
     bind_result (unique_by ca_action_type ''capability action type'' (pj_capabilities p) []) (\<lambda>_.
     bind_result (unique_by sn_id ''scenario ID'' (pj_scenarios p) []) (\<lambda>_.
     bind_result (unique_by fa_key ''project fact key'' (pj_facts p) []) (\<lambda>_.
     bind_result (collect_fact_catalog p) (\<lambda>facts.
     bind_result (check_routes journeys (pj_routes p) []) (\<lambda>_.
     bind_result (case first_repeated (published_start_events p) [] of
         None \<Rightarrow> Inr () | Some e \<Rightarrow> Inl (Misconfigured ''published start event routed twice'' e)) (\<lambda>_.
     bind_result (check_all (\<lambda>s. require (sn_journey_id s \<in> journeys)
         (Misconfigured ''scenario of an unknown journey'' (sn_id s))) (pj_scenarios p)) (\<lambda>_.
     bind_result (compile_journeys env p facts (pj_journeys p)) (\<lambda>compiled.
     bind_result (require (unused = []) (CapabilitiesUnused (sort unused))) (\<lambda>_.
     bind_result (check_simulations p (used_capabilities p)) (\<lambda>_. Inr compiled))))))))))))"

definition compile_project :: "CompileEnv \<Rightarrow> Project \<Rightarrow> project_error + ClientPack" where
  "compile_project env p =
     bind_result (compile_parts env p) (\<lambda>compiled.
     case check_ExtensionManifest (cp_manifest (project_contents env p compiled)) of
       Inl e \<Rightarrow> Inl (ManifestRejected e)
     | Inr _ \<Rightarrow>
         (case make_ClientPack (PackEnv.truncate env) (project_contents env p compiled) of
            Inl e \<Rightarrow> Inl (PackRejected e) | Inr pack \<Rightarrow> Inr pack))"

end
