(* ===== verification/Deployment_Properties.thy ===== *)
theory Deployment_Properties
  imports Projects Access_Properties Composition_Properties
begin

text \<open>
  What holds once a deployment is composed: its trigger rules are those of its registry, every process
  it starts is one it can run, and a compiled project is accepted as a client pack.
\<close>

section \<open>Trigger rules\<close>

text \<open>
  (C17) The trigger rules of a release are total and agree with the registry: for every client pack that
  was accepted and a release made for it, the rules exist, and every event type resolves without
  ambiguity, either to nothing, and then it has no rule, or to one published definition of the
  pack that lists it as a trigger. Its rule then carries the identity and version of that
  definition, the fingerprint computed from that definition, the manifest and pack fingerprints of
  the pack, and the deployment, release fingerprint and task queue of the release, with late
  events only recorded.
\<close>

theorem trigger_rules_match_registry:
  assumes "make_ClientPack env c = Inr pack"
    and "\<forall>d \<in> set (cp_definitions c). check_ProcessDefinition known_zone d = Inr d"
    and "rl_client_pack_fingerprint r = cp_fingerprint pack"
  shows "\<exists>rules. trigger_rules env pack r = Inr rules \<and> (\<forall>e.
     (resolve_trigger (cp_registry pack) e False = Inr None \<and> map_of rules e = None)
     \<or> (\<exists>d b. resolve_trigger (cp_registry pack) e False = Inr (Some d) \<and> map_of rules e = Some b
          \<and> d \<in> set (cp_definitions c) \<and> e \<in> set (pd_trigger_events d) \<and> pd_status d = DefinitionStatus.PUBLISHED
          \<and> pb_process_type b = pd_id d \<and> pb_definition_version b = pd_version d
          \<and> definition_fingerprint (pe_show_clock env) d = Some (pb_process_definition_fingerprint b)
          \<and> pb_extension_manifest_hash b = cp_manifest_fingerprint pack
          \<and> pb_client_pack_fingerprint b = cp_fingerprint pack
          \<and> pb_deployment_id b = dr_deployment_id r
          \<and> pb_deployment_release_fingerprint b = dr_release_fingerprint r
          \<and> pb_temporal_task_queue b = dr_temporal_task_queue r
          \<and> pb_late_event_policy b = ''record_only''))"
  using assms
proof (rule trigger_rules_made)
  fix print
  let ?rules = "pack_rules (\<lambda>d. bootstrap_of pack r d (print d)) (cp_definitions c)"
  assume prints: "\<And>d. d \<in> set (cp_definitions c) \<Longrightarrow> definition_fingerprint (pe_show_clock env) d = Some (print d)"
    and rules: "trigger_rules env pack r = Inr ?rules" and distinct: "distinct (map fst ?rules)"
  have "(resolve_trigger (cp_registry pack) e False = Inr None \<and> map_of ?rules e = None)
     \<or> (\<exists>d. resolve_trigger (cp_registry pack) e False = Inr (Some d)
          \<and> map_of ?rules e = Some (bootstrap_of pack r d (print d))
          \<and> d \<in> set (cp_definitions c) \<and> e \<in> set (pd_trigger_events d) \<and> pd_status d = DefinitionStatus.PUBLISHED)" for e
  proof (cases rule: pack_trigger [OF assms(1), of e, case_names none one])
    case none
    then have "map_of ?rules e = None"
      using map_of_pack_rules [OF distinct, of e] by (cases "map_of ?rules e") auto
    then show ?thesis using none by simp
  next
    case (one d)
    have trigger: "e \<in> set (pd_trigger_events d)" "pd_status d = DefinitionStatus.PUBLISHED"
      using one(3) by (simp_all add: triggered_by_def)
    have "map_of ?rules e = Some (bootstrap_of pack r d (print d))"
      by (rule map_of_pack_rules [OF distinct, THEN iffD2], rule bexI [of _ d], intro conjI one(3) refl, rule one(2))
    with one(1,2) trigger show ?thesis by (intro disjI2 exI [of _ d] conjI)
  qed
  note answers = this
  show ?thesis
  proof (intro exI [of _ ?rules] conjI allI)
    fix e
    from answers [of e] show "(resolve_trigger (cp_registry pack) e False = Inr None \<and> map_of ?rules e = None)
     \<or> (\<exists>d b. resolve_trigger (cp_registry pack) e False = Inr (Some d) \<and> map_of ?rules e = Some b
          \<and> d \<in> set (cp_definitions c) \<and> e \<in> set (pd_trigger_events d) \<and> pd_status d = DefinitionStatus.PUBLISHED
          \<and> pb_process_type b = pd_id d \<and> pb_definition_version b = pd_version d
          \<and> definition_fingerprint (pe_show_clock env) d = Some (pb_process_definition_fingerprint b)
          \<and> pb_extension_manifest_hash b = cp_manifest_fingerprint pack
          \<and> pb_client_pack_fingerprint b = cp_fingerprint pack
          \<and> pb_deployment_id b = dr_deployment_id r
          \<and> pb_deployment_release_fingerprint b = dr_release_fingerprint r
          \<and> pb_temporal_task_queue b = dr_temporal_task_queue r
          \<and> pb_late_event_policy b = ''record_only'')"
    proof (elim disjE exE)
      fix d
      assume d: "resolve_trigger (cp_registry pack) e False = Inr (Some d)
          \<and> map_of ?rules e = Some (bootstrap_of pack r d (print d))
          \<and> d \<in> set (cp_definitions c) \<and> e \<in> set (pd_trigger_events d) \<and> pd_status d = DefinitionStatus.PUBLISHED"
      then have "definition_fingerprint (pe_show_clock env) d = Some (print d)" using prints by blast
      with d show ?thesis
        by (intro disjI2 exI [of _ d] exI [of _ "bootstrap_of pack r d (print d)"]) (simp add: bootstrap_of_def)
    qed simp
  qed (rule rules)
qed

lemma make_release_assigned:
  assumes "make_release deployment build fingerprint model = Inr r"
  shows "dr_deployment_id r \<noteq> UNASSIGNED" "rl_client_pack_fingerprint r = fingerprint"
  using assms by (auto simp: make_release_def Let_def split: sum.splits if_splits option.splits)

definition pack_definition :: ProcessDefinition where
  "pack_definition =
     sample_definition\<lparr>pd_integrations := [(ascii ''send_reply'', ascii ''mail''), (ascii ''look_up'', ascii ''mail'')]\<rparr>"

definition pack_contents :: PackContents where
  "pack_contents =
     (let mail = \<lparr>ao_id = Some (ascii ''mail''), ao_guarantees_idempotency = Some True, ao_callable = True, ao_is_simulation = False\<rparr> in
      \<lparr>cp_manifest = \<lparr>em_extension_id = ''sample'', em_extension_version = ascii ''1'', em_tiramisu_compatibility = ascii ''>=0.1'',
         em_process_definitions = [definition_name pack_definition], em_adapters = [ascii ''mail''], em_policies = [ascii ''p''],
         em_activities = []\<rparr>,
       cp_definitions = [pack_definition], cp_bindings = [(''send_reply'', mail), (''look_up'', mail)],
       cp_output_type = \<lparr>ot_name = ascii ''Output'', ot_json_schema = JObj [], ot_converts = True\<rparr>,
       cp_policy_ids = [ascii ''p''], cp_project = None, cp_simulation_bindings = []\<rparr>)"

definition pack_env :: PackEnv where
  "pack_env = \<lparr>pe_show_clock = (\<lambda>_. []), pe_show_time = (\<lambda>_. []), pe_supports = (\<lambda>_ specifier. Some (specifier = ascii ''>=0.1''))\<rparr>"

lemma pack_definition_checked: "check_ProcessDefinition (\<lambda>_. True) pack_definition = Inr pack_definition"
  by code_simp

lemmas pack_sample_defs = pack_contents_def pack_definition_def sample_definition_def pack_env_def Let_def

lemma pack_writable:
  "writable (dump_ProcessDefinition show_clock pack_definition)" "writable (dump_ExtensionManifest (cp_manifest pack_contents))"
  "writable (canonical_composition pack_env pack_contents)"
proof -
  have made: "writable (dump_ProcessDefinition show_clock pack_definition)" for show_clock
    by (simp add: pack_definition_def sample_definition_def dump_ProcessDefinition_def text_json_def dump_permissions_def
        dump_ProcessLimits_def dump_CommunicationConfiguration_def dump_FactDefinition_def dump_requirements_def)
  then show "writable (dump_ProcessDefinition show_clock pack_definition)" .
  show manifest: "writable (dump_ExtensionManifest (cp_manifest pack_contents))"
    by (simp add: dump_ExtensionManifest_def text_json_def list_all_iff)
  show "writable (canonical_composition pack_env pack_contents)"
    using made manifest by (simp add: canonical_composition_def dump_binding_def list_all_iff) (simp add: pack_contents_def Let_def)
qed

lemma sample_pack:
  obtains pack where "make_ClientPack pack_env pack_contents = Inr pack"
    "cp_registry pack = [(definition_key pack_definition, pack_definition)]"
proof -
  have checks: "check_contents pack_env pack_contents = Inr ()" by code_simp
  have ds: "cp_definitions pack_contents = [pack_definition]" by (simp add: pack_contents_def Let_def)
  have "\<exists>k. pack_compatibility pack_env pack_contents = Some k"
    using json_fingerprint_writable [OF pack_writable(1), of "pe_show_clock pack_env"]
      json_fingerprint_writable [OF pack_writable(2)] json_fingerprint_writable [OF pack_writable(3)]
    by (auto simp: pack_compatibility_def ds definition_fingerprint_def manifest_fingerprint_def)
  then obtain k where k: "pack_compatibility pack_env pack_contents = Some k" by blast
  have registry: "make_registry [pack_definition] = Inr [(definition_key pack_definition, pack_definition)]"
    by (simp add: make_registry_def)
  have "resolve_all [(definition_key pack_definition, pack_definition)] (published_events [pack_definition]) = Inr ()"
    by (auto simp: resolve_all_def resolve_trigger_def)
  then have "\<exists>pack. make_ClientPack pack_env pack_contents = Inr pack"
    using checks k pack_compatibility_checked [OF k] registry by (simp add: make_ClientPack_def ds)
  then obtain pack where pack: "make_ClientPack pack_env pack_contents = Inr pack" by blast
  moreover have "cp_registry pack = [(definition_key pack_definition, pack_definition)]"
    using make_ClientPack_parts(3) [OF pack] registry by (simp add: ds)
  ultimately show ?thesis by (rule that)
qed

lemma sample_pack_release:
  assumes "make_ClientPack pack_env pack_contents = Inr pack"
  obtains r where "make_release (ascii ''dep'') (ascii ''b1'') (cp_fingerprint pack) (ascii ''m'') = Inr r" "dr_deployment_id r = ''dep''"
proof -
  have "normalize_deployment_id (ascii ''dep'') = Inr ''dep''" "strip (ascii ''b1'') = ascii ''b1''" "strip (ascii ''m'') = ascii ''m''"
    "''dep'' \<noteq> UNASSIGNED" by code_simp+
  moreover have "is_sha256_hex (cp_fingerprint pack)"
    using json_fingerprint_hex pack_compatibility_parts(1) make_ClientPack_parts(4,5) [OF assms] by metis
  moreover have "writable (release_document i b f m)" for i b f m by (simp add: release_document_def text_json_def)
  then obtain f where "json_fingerprint (release_document ''dep'' (ascii ''b1'') (cp_fingerprint pack) (ascii ''m'')) = Some f"
    using json_fingerprint_writable by blast
  ultimately have "\<exists>r. make_release (ascii ''dep'') (ascii ''b1'') (cp_fingerprint pack) (ascii ''m'') = Inr r \<and> dr_deployment_id r = ''dep''"
    by (simp add: make_release_def Let_def ascii_def)
  then show ?thesis using that by blast
qed

theorem trigger_rules_match_registry_witness:
  "\<exists>pack r rules b. make_ClientPack pack_env pack_contents = Inr pack \<and> trigger_rules pack_env pack r = Inr rules
     \<and> map_of rules ''enquiry.received'' = Some b \<and> pb_process_type b = ''enquiry'' \<and> pb_deployment_id b = ''dep''"
proof -
  obtain pack where pack: "make_ClientPack pack_env pack_contents = Inr pack"
    "cp_registry pack = [(definition_key pack_definition, pack_definition)]" by (rule sample_pack)
  obtain r where r: "make_release (ascii ''dep'') (ascii ''b1'') (cp_fingerprint pack) (ascii ''m'') = Inr r"
    "dr_deployment_id r = ''dep''"
    by (rule sample_pack_release [OF pack(1)])
  have "\<forall>d \<in> set (cp_definitions pack_contents). check_ProcessDefinition (\<lambda>_. True) d = Inr d"
    using pack_definition_checked by (simp add: pack_contents_def Let_def)
  from trigger_rules_match_registry [OF pack(1) this make_release_assigned(2) [OF r(1)]]
  obtain rules where rules: "trigger_rules pack_env pack r = Inr rules"
    and rule: "resolve_trigger (cp_registry pack) ''enquiry.received'' False = Inr None
      \<or> (\<exists>d b. resolve_trigger (cp_registry pack) ''enquiry.received'' False = Inr (Some d)
          \<and> map_of rules ''enquiry.received'' = Some b \<and> pb_process_type b = pd_id d \<and> pb_deployment_id b = ''dep'')"
    unfolding r(2) by blast
  have "resolve_trigger (cp_registry pack) ''enquiry.received'' False = Inr (Some pack_definition)"
    by (simp add: pack(2) resolve_trigger_def triggered_by_def pack_definition_def sample_definition_def)
  then obtain b where "map_of rules ''enquiry.received'' = Some b" "pb_process_type b = pd_id pack_definition" "pb_deployment_id b = ''dep''"
    using rule by auto
  moreover have "pd_id pack_definition = ''enquiry''" by (simp add: pack_definition_def sample_definition_def)
  ultimately show ?thesis using pack(1) rules by metis
qed

section \<open>Intake of a composed application\<close>

definition made_release :: "Release \<Rightarrow> bool" where
  "made_release r \<longleftrightarrow> (\<exists>deployment build fingerprint model. make_release deployment build fingerprint model = Inr r)"

lemma app_release_made:
  assumes "app_release s args pack = Inr r" "\<And>r. aa_deployment_release args = Some r \<Longrightarrow> made_release r"
  shows "dr_deployment_id r \<noteq> UNASSIGNED" "rl_client_pack_fingerprint r = cp_fingerprint pack"
proof -
  have "made_release r \<and> rl_client_pack_fingerprint r = cp_fingerprint pack"
  proof (cases "aa_deployment_release args")
    case None
    then show ?thesis
      using assms(1) make_release_assigned(2)
      by (auto simp: app_release_def compose_deployment_release_def made_release_def split: option.splits if_splits sum.splits)
  next
    case (Some given)
    then show ?thesis using assms by (auto simp: app_release_def require_client_pack_def split: sum.splits)
  qed
  then show "dr_deployment_id r \<noteq> UNASSIGNED" "rl_client_pack_fingerprint r = cp_fingerprint pack"
    using make_release_assigned(1) by (auto simp: made_release_def)
qed

lemma check_rule_runs_here:
  assumes "check_rule pack r (e, b) = Inr ()"
  shows "runs_here pack (DeploymentRelease.truncate r) (new_process 0 0 0 b)"
proof -
  define pinned where "pinned = new_process 0 0 0 b"
  obtain d where d: "resolve_trigger (cp_registry pack) e False = Inr (Some d)"
    using assms by (auto simp: check_rule_def Let_def split: sum.splits option.splits)
  have "bind_result (compatible_process (cp_compatibility pack) pinned)
      (\<lambda>_. release_require_process (DeploymentRelease.truncate r) pinned) = Inr ()"
    using assms d unfolding check_rule_def Let_def fst_conv snd_conv pinned_def [symmetric]
    by (simp split: sum.splits if_splits)
  then show ?thesis unfolding runs_here_def pinned_def [symmetric]
    by (cases "compatible_process (cp_compatibility pack) pinned") auto
qed

lemma app_rules_run_here:
  assumes "app_rules env args pack r = Inr rules" "made_pack env known_zone pack"
    and "rl_client_pack_fingerprint r = cp_fingerprint pack" "(e, b) \<in> set rules"
  shows "runs_here pack (DeploymentRelease.truncate r) (new_process i now t b)"
proof (cases "aa_trigger_rules args")
  case (Some given)
  then have "check_rule pack r (e, b) = Inr ()" using assms(1,4) by (auto simp: app_rules_def)
  then have "runs_here pack (DeploymentRelease.truncate r) (new_process 0 0 0 b)"
    by (rule check_rule_runs_here)
  then show ?thesis by (rule runs_here_new [THEN iffD2])
next
  case None
  obtain c where c: "make_ClientPack env c = Inr pack" "\<forall>d \<in> set (cp_definitions c). check_ProcessDefinition known_zone d = Inr d"
    using assms(2) by (auto simp: made_pack_def)
  from c assms(3) show ?thesis
  proof (rule trigger_rules_made)
    fix print
    assume prints: "\<And>d. d \<in> set (cp_definitions c) \<Longrightarrow> definition_fingerprint (pe_show_clock env) d = Some (print d)"
      and rules: "trigger_rules env pack r = Inr (pack_rules (\<lambda>d. bootstrap_of pack r d (print d)) (cp_definitions c))"
    have "(e, b) \<in> set (pack_rules (\<lambda>d. bootstrap_of pack r d (print d)) (cp_definitions c))"
      using assms(1,4) None rules by (simp add: app_rules_def)
    then obtain d where "d \<in> set (cp_definitions c)" "b = bootstrap_of pack r d (print d)"
      by (auto simp: pack_rules_def)
    then show ?thesis using bootstrap_runs_here [OF c(1)] prints by blast
  qed
qed

lemma runs_here_deployment:
  assumes "runs_here pack r (new_process i now t b)"
  shows "pb_deployment_id b = dr_deployment_id r"
  using assms by (auto simp: runs_here_def release_require_process_def new_process_def Let_def split: if_splits)

lemma create_app_with_pack:
  assumes "create_app import_module env s args = Inr app" "app_pack import_module s args = Inr (Some pack)"
  obtains r rules where "app_release s args pack = Inr r" "app_rules env args pack r = Inr rules"
    "ax_trigger_rules app = rules" "as_deployment_release app = Some (DeploymentRelease.truncate r)"
  using assms by (auto simp: create_app_def make_app_def)

lemma ingest_event_served:
  assumes "ingest_event a env r b db = Inr (res, db')"
  obtains c where "ingest (ae_ingest env) c (command_database env db) = Inr (res, db')"
    "nc_bootstrap c = map_of (ax_trigger_rules a) (ce_event_type (nc_event c))" "nc_deployment_id c = release_id a"
proof -
  obtain i where i: "require_event_ingress_identity (app_state a) (ae_authenticated_at env) (ae_before_assignment env) r db
      = (Inr i :: api_failure + OperatorIdentity)"
    using assms by (auto simp: ingest_event_def)
  have "ingest (ae_ingest env) \<lparr>nc_event = event_of_request env i b,
      nc_bootstrap = map_of (ax_trigger_rules a) (ce_event_type (event_of_request env i b)),
      nc_deployment_id = release_id a\<rparr> (command_database env db) = Inr (res, db')"
    using assms i by (auto simp: ingest_event_def split: sum.splits dest: checked_unchanged)
  then show ?thesis by (rule that) simp_all
qed

text \<open>
  (C15) What the API starts, the worker runs: in an application composed from a client pack, every
  process an accepted event adds to the database is pinned to the pack, definition and
  release of this deployment, so the compatibility checks of its worker accept it; and the
  intake is a step that keeps every running process on the deployment of its tenant.
\<close>

theorem intake_pins_processes:
  assumes "create_app import_module env s args = Inr app" "app_pack import_module s args = Inr (Some pack)"
    and "made_pack env known_zone pack" "\<And>r. aa_deployment_release args = Some r \<Longrightarrow> made_release r"
    and "ingest_event app aenv request body db = Inr (res, db')"
  shows "placement_step (command_database aenv db) db'
    \<and> (\<exists>rel. as_deployment_release app = Some rel
        \<and> (\<forall>p \<in> set (db_processes db') - set (db_processes (command_database aenv db)).
             compatible_process (cp_compatibility pack) p = Inr () \<and> release_require_process rel p = Inr ()))"
proof -
  obtain r rules where r: "app_release s args pack = Inr r" and rules: "app_rules env args pack r = Inr rules"
    and app: "ax_trigger_rules app = rules" "as_deployment_release app = Some (DeploymentRelease.truncate r)"
    using create_app_with_pack [OF assms(1,2)] by metis
  have assigned: "dr_deployment_id r \<noteq> UNASSIGNED" "rl_client_pack_fingerprint r = cp_fingerprint pack"
    using app_release_made [OF r assms(4)] by auto
  obtain c where served: "ingest (ae_ingest aenv) c (command_database aenv db) = Inr (res, db')"
    and c: "nc_bootstrap c = map_of (ax_trigger_rules app) (ce_event_type (nc_event c))" "nc_deployment_id c = release_id app"
    using ingest_event_served [OF assms(5)] by metis
  have here: "runs_here pack (DeploymentRelease.truncate r) (new_process i now t b)" if "nc_bootstrap c = Some b" for i now t b
    using app_rules_run_here [OF rules assms(3) assigned(2)] that c(1) app(1) map_of_SomeD by metis
  have "placement_step (command_database aenv db) db'"
    using served
  proof (rule place_ingest, intro allI impI)
    fix b
    assume b: "nc_bootstrap c = Some b"
    have "pb_deployment_id b = dr_deployment_id r"
      using runs_here_deployment [OF here [OF b]] by (simp add: DeploymentRelease.defs)
    then show "nc_deployment_id c = Some (pb_deployment_id b) \<and> pb_deployment_id b \<noteq> UNASSIGNED"
      using c(2) app(2) assigned(1) by (simp add: release_id_def DeploymentRelease.defs)
  qed
  moreover have "\<forall>p \<in> set (db_processes db') - set (db_processes (command_database aenv db)).
      runs_here pack (DeploymentRelease.truncate r) p"
    using ingest_processes [OF served] here by auto
  ultimately show ?thesis using app(2) by (auto simp: runs_here_def)
qed

definition sample_settings :: Settings where
  "sample_settings =
     \<lparr>st_environment = ''production'', st_log_level = ascii ''INFO'', st_database_url = ascii ''postgresql+asyncpg://db'',
      st_migration_database_url = ascii ''postgresql+asyncpg://db'', st_temporal_target = ascii ''t'', st_temporal_namespace = ascii ''n'',
      st_deployment_id = Some (ascii ''dep''), st_deployment_build_id = Some (ascii ''b1''), st_deployment_tenant_ids = [1],
      st_openai_model = Some (ascii ''m''), st_openai_api_key = None, st_max_model_tokens_per_tenant = 0,
      st_max_model_cost_micros_per_tenant = 0, st_platform_model_calls_paused = False,
      st_platform_outbound_messages_paused = False, st_api_host = ascii ''h'', st_api_port = 8000,
      st_allow_unsafe_development_tenant_header = False, st_load_fictional_example_processes = False,
      st_client_pack_factory = None\<rparr>"

definition app_arguments :: "ClientPack \<Rightarrow> AppArguments" where
  "app_arguments pack = \<lparr>aa_trigger_rules = None, aa_process_registry = None, aa_client_pack = Some pack, aa_deployment_release = None\<rparr>"

definition enquiry_request :: IngestEventRequest where
  "enquiry_request =
     \<lparr>ib_event_id = 20, ib_process_instance_id = None, ib_event_type = ''enquiry.received'', ib_source = ascii ''crm'',
      ib_source_event_id = ascii ''e1'', ib_occurred_at = Aware 3, ib_schema_version = 1,
      ib_sensitivity = Sensitivity.CONFIDENTIAL,
      ib_external_references = [\<lparr>er_provider = ascii ''crm'', er_resource_type = ascii ''order'', er_external_id = ascii ''7''\<rparr>],
      ib_facts = [], ib_payload = []\<rparr>"

definition enquiry_event :: CanonicalEvent where
  "enquiry_event =
     \<lparr>ce_event_id = 20, ce_tenant_id = 1, ce_process_instance_id = None, ce_event_type = ''enquiry.received'',
      ce_source = ascii ''crm'', ce_source_event_id = ascii ''e1'', ce_occurred_at = Aware 3, ce_received_at = Aware 5,
      ce_schema_version = 1, ce_sensitivity = Sensitivity.CONFIDENTIAL,
      ce_external_references = [\<lparr>er_provider = ascii ''crm'', er_resource_type = ascii ''order'', er_external_id = ascii ''7''\<rparr>],
      ce_facts = [], ce_payload = []\<rparr>"

definition intake_env :: ApiEnv where
  "intake_env = sample_api_env\<lparr>ae_show_uuid := (\<lambda>_. [])\<rparr>"

definition intake_database :: Database where
  "intake_database = tenant_database\<lparr>db_credentials := [sample_credential]\<rparr>"

lemma sample_app_composed:
  assumes "make_ClientPack pack_env pack_contents = Inr pack"
    "cp_registry pack = [(definition_key pack_definition, pack_definition)]"
  obtains app b where "create_app (\<lambda>_. None) pack_env sample_settings (app_arguments pack) = Inr app"
    "map_of (ax_trigger_rules app) ''enquiry.received'' = Some b" "release_id app = Some ''dep''"
    "as_deployment_tenant_ids app = {1}" "\<exists>r. as_deployment_release app = Some r \<and> dr_deployment_id r = ''dep''"
proof -
  obtain r where r: "make_release (ascii ''dep'') (ascii ''b1'') (cp_fingerprint pack) (ascii ''m'') = Inr r" "dr_deployment_id r = ''dep''"
    by (rule sample_pack_release [OF assms(1)])
  have ds: "\<forall>d \<in> set (cp_definitions pack_contents). check_ProcessDefinition (\<lambda>_. True) d = Inr d"
    using pack_definition_checked by (simp add: pack_contents_def Let_def)
  from assms(1) ds make_release_assigned(2) [OF r(1)] show ?thesis
  proof (rule trigger_rules_made)
    fix print
    let ?rules = "pack_rules (\<lambda>d. bootstrap_of pack r d (print d)) (cp_definitions pack_contents)"
    assume rules: "trigger_rules pack_env pack r = Inr ?rules"
    have release: "app_release sample_settings (app_arguments pack) pack = Inr r"
      using r(1) by (simp add: app_release_def compose_deployment_release_def sample_settings_def app_arguments_def)
    have loaded: "app_pack (\<lambda>_. None) sample_settings (app_arguments pack) = Inr (Some pack)"
      by (simp add: app_pack_def app_arguments_def)
    have "app_rules pack_env (app_arguments pack) pack r = Inr ?rules" by (simp add: app_rules_def app_arguments_def rules)
    then have app: "create_app (\<lambda>_. None) pack_env sample_settings (app_arguments pack)
        = Inr (make_app sample_settings (Some r) ?rules (Some (cp_registry pack)))"
      using release loaded by (simp add: create_app_def app_arguments_def)
    have "map_of ?rules ''enquiry.received'' = Some (bootstrap_of pack r pack_definition (print pack_definition))"
      by (simp add: pack_rules_def pack_contents_def Let_def pack_definition_def sample_definition_def)
    then show ?thesis using r(2)
      by (intro that [OF app]) (simp_all add: make_app_def release_id_def sample_settings_def DeploymentRelease.defs)
  qed
qed

theorem intake_pins_processes_witness:
  "\<exists>pack app res db' p. create_app (\<lambda>_. None) pack_env sample_settings (app_arguments pack) = Inr app
     \<and> ingest_event app intake_env sample_api_request enquiry_request intake_database = Inr (res, db')
     \<and> set (db_processes db') = {p} \<and> compatible_process (cp_compatibility pack) p = Inr ()"
proof -
  obtain pack where pack: "make_ClientPack pack_env pack_contents = Inr pack"
    "cp_registry pack = [(definition_key pack_definition, pack_definition)]" by (rule sample_pack)
  obtain app b where app: "create_app (\<lambda>_. None) pack_env sample_settings (app_arguments pack) = Inr app"
    and rule: "map_of (ax_trigger_rules app) ''enquiry.received'' = Some b" and dep: "release_id app = Some ''dep''"
    and release: "as_deployment_tenant_ids app = {1}" "\<exists>r. as_deployment_release app = Some r \<and> dr_deployment_id r = ''dep''"
    by (rule sample_app_composed [OF pack])
  let ?i = "credential_identity sample_credential"
  have tenants: "db_tenants intake_database = db_tenants sample_database" by (simp add: intake_database_def tenant_database_def)
  have bearer: "authenticate_bearer 5 (ascii ''Bearer '' @ sample_token) intake_database = (Inr ?i :: api_failure + OperatorIdentity)"
    by (rule sample_bearer) (simp_all add: tenants, simp add: intake_database_def)
  have tenant: "oi_tenant_id ?i = 1" and granted: "granted EVENTS_INGEST ?i"
    by (simp_all add: credential_identity_def sample_credential_def granted_def)
  obtain rel where rel: "as_deployment_release app = Some rel" "dr_deployment_id rel = ''dep''" using release(2) by blast
  have "require_tenant_deployment 1 ''dep'' intake_database = Inr ()"
    by (simp add: require_tenant_deployment_def find_tenant_def tenants sample_database_def)
  then have "require_deployment_assignment (app_state app) ?i intake_database = (Inr ?i :: api_failure + OperatorIdentity)"
    unfolding require_deployment_assignment_def tenant app_state_def by (simp add: AppState.defs rel release(1))
  then have identity: "require_event_ingress_identity (app_state app) (ae_authenticated_at intake_env) (ae_before_assignment intake_env)
      sample_api_request intake_database = (Inr ?i :: api_failure + OperatorIdentity)"
    using bearer granted by (simp add: require_event_ingress_identity_def sample_api_request_def intake_env_def sample_api_env_def)
  have body: "check_IngestEventRequest (\<lambda>_. []) (\<lambda>_. []) enquiry_request = Inr ()" by code_simp
  have event: "event_of_request intake_env ?i enquiry_request = enquiry_event"
    by (simp add: event_of_request_def enquiry_request_def enquiry_event_def tenant intake_env_def sample_api_env_def)
  have checked: "check_CanonicalEvent (\<lambda>_. []) (\<lambda>_. []) enquiry_event = Inr enquiry_event" by code_simp
  have env: "ae_show_time intake_env = (\<lambda>_. [])" "ae_show_uuid intake_env = (\<lambda>_. [])" "command_database intake_env intake_database = intake_database"
    by (simp_all add: intake_env_def sample_api_env_def command_database_def)
  have empty: "db_events intake_database = []" "db_outbox intake_database = []" "db_correlations intake_database = []"
    "db_processes intake_database = []" by (simp_all add: intake_database_def tenant_database_def empty_database_def)
  have e: "ce_process_instance_id enquiry_event = None" "ce_event_type enquiry_event = ''enquiry.received''" "ce_tenant_id enquiry_event = 1"
    "ce_external_references enquiry_event = [\<lparr>er_provider = ascii ''crm'', er_resource_type = ascii ''order'', er_external_id = ascii ''7''\<rparr>]"
    "''enquiry.received'' \<notin> set RESERVED_KERNEL_EVENT_TYPES"
    by (simp_all add: enquiry_event_def RESERVED_KERNEL_EVENT_TYPES_def)
  have assigned: "require_ingress_tenant 1 (Some ''dep'') intake_database = Inr ''dep''"
    by (simp add: require_ingress_tenant_def find_tenant_def tenants sample_database_def)
  obtain res db' where ingested: "ingest (ae_ingest intake_env) \<lparr>nc_event = enquiry_event, nc_bootstrap = Some b, nc_deployment_id = Some ''dep''\<rparr>
      intake_database = Inr (res, db')" and new: "db_processes db' = [new_process (ng_process_id (ae_ingest intake_env)) (ng_now (ae_ingest intake_env)) 1 b]"
    using first_event_ingested [OF empty, of enquiry_event "Some ''dep''" "''dep''" _ "ae_ingest intake_env" b] e assigned by (simp, blast)
  have served: "ingest_event app intake_env sample_api_request enquiry_request intake_database = Inr (res, db')"
    using identity body checked ingested by (simp add: ingest_event_def env event unprocessable_def rule dep e(2))
  have "made_pack pack_env (\<lambda>_. True) pack"
    using pack(1) pack_definition_checked by (auto simp: made_pack_def pack_contents_def Let_def intro!: exI [of _ pack_contents])
  moreover have "app_pack (\<lambda>_. None) sample_settings (app_arguments pack) = Inr (Some pack)"
    by (simp add: app_pack_def app_arguments_def)
  ultimately have "\<forall>p \<in> set (db_processes db') - set (db_processes (command_database intake_env intake_database)).
      compatible_process (cp_compatibility pack) p = Inr ()"
    using intake_pins_processes [OF app _ _ _ served, of pack "\<lambda>_. True"] by (auto simp: app_arguments_def)
  moreover have "set (db_processes db') = {new_process (ng_process_id (ae_ingest intake_env)) (ng_now (ae_ingest intake_env)) 1 b}"
    by (simp add: new)
  ultimately show ?thesis using app served unfolding env(3) empty by (intro exI conjI) (assumption | simp)+
qed

end
