(* ===== verification/Project_Properties.thy ===== *)
theory Project_Properties
  imports Projects
begin

text \<open>
  The compiler keeps its promise: whatever it produces passes the independent consistency checks of
  \<open>ClientPack\<close>, and the definitions it writes say what the author declared.
\<close>

section \<open>Dictionaries\<close>

lemma same_dict_self:
  assumes "\<And>k v. (k, v) \<in> set xs \<Longrightarrow> same v v"
  shows "same_dict same xs xs"
proof -
  have "case (map_of (rev xs) k, map_of (rev xs) k) of (Some v, Some w) \<Rightarrow> same v w | _ \<Rightarrow> False" if "k \<in> set (map fst xs)" for k
  proof -
    have "k \<in> fst ` set (rev xs)" using that by simp
    then obtain v where v: "map_of (rev xs) k = Some v" by (metis domD dom_map_of_conv_image_fst)
    then show ?thesis using map_of_SomeD [OF v] assms by simp
  qed
  then show ?thesis by (auto simp: same_dict_def list_all_iff)
qed

section \<open>Parts of a compiled project\<close>

lemma unique_by_distinct: "unique_by key label xs seen = Inr u \<Longrightarrow> distinct (map key xs) \<and> set (map key xs) \<inter> set seen = {}"
  by (induction xs arbitrary: seen) (fastforce split: if_splits)+

lemma first_repeated_None: "first_repeated xs seen = None \<Longrightarrow> distinct xs \<and> set xs \<inter> set seen = {}"
proof (induction xs arbitrary: seen)
  case (Cons x xs)
  then have "x \<notin> set seen" "first_repeated xs (x # seen) = None" by (simp_all split: if_splits)
  then show ?case using Cons.IH [of "x # seen"] by auto
qed simp

lemma find_capability_Some:
  assumes "find_capability p a = Some c"
  shows "c \<in> set (pj_capabilities p)" "ca_action_type c = a"
  using assms by (auto simp: find_capability_def dest!: map_of_SomeD)

lemma find_capability_self:
  assumes "distinct (map ca_action_type (pj_capabilities p))" "c \<in> set (pj_capabilities p)"
  shows "find_capability p (ca_action_type c) = Some c"
proof -
  have "distinct (map fst (map (\<lambda>c. (ca_action_type c, c)) (pj_capabilities p)))" using assms(1) by (simp add: comp_def)
  then show ?thesis unfolding find_capability_def using assms(2) by (intro map_of_is_SomeI) auto
qed

lemma compile_journeys_parts:
  assumes "compile_journeys env p facts js = Inr compiled"
  shows "map fst compiled = map (journey_definition p facts) js"
    "map snd compiled = map (journey_description p facts) js"
    "\<And>j. j \<in> set js \<Longrightarrow> check_compiled_journey p facts j = Inr ()"
    "\<And>j. j \<in> set js \<Longrightarrow> check_ProcessDefinition (cv_known_zone env) (journey_definition p facts j) = Inr (journey_definition p facts j)"
    "\<And>j s. j \<in> set js \<Longrightarrow> s \<in> set (scenarios_of p j) \<Longrightarrow> validate_scenario s p j (routes_of p j)
         (map (\<lambda>f. (fa_key f, f)) (relevant_facts p facts j)) = Inr ()"
proof -
  have made: "d = d' \<and> check_ProcessDefinition (cv_known_zone env) d = Inr d" if "make_definition env d = Inr d'" for d d'
    using that check_ProcessDefinition_parts(1) by (auto simp: make_definition_def split: sum.splits)
  have "map fst compiled = map (journey_definition p facts) js \<and> map snd compiled = map (journey_description p facts) js
      \<and> (\<forall>j \<in> set js. check_compiled_journey p facts j = Inr ()
          \<and> check_ProcessDefinition (cv_known_zone env) (journey_definition p facts j) = Inr (journey_definition p facts j)
          \<and> (\<forall>s \<in> set (scenarios_of p j). validate_scenario s p j (routes_of p j)
               (map (\<lambda>f. (fa_key f, f)) (relevant_facts p facts j)) = Inr ()))"
    using assms
  proof (induction js arbitrary: compiled)
    case (Cons j js)
    obtain c cs where c: "compile_journey env p facts j = Inr c" and cs: "compile_journeys env p facts js = Inr cs"
      and compiled: "compiled = c # cs" using Cons.prems by auto
    obtain d where "make_definition env (journey_definition p facts j) = Inr d" "c = (d, journey_description p facts j)"
      and "check_compiled_journey p facts j = Inr ()"
      and "\<forall>s \<in> set (scenarios_of p j). validate_scenario s p j (routes_of p j)
               (map (\<lambda>f. (fa_key f, f)) (relevant_facts p facts j)) = Inr ()"
      using c by (auto simp: compile_journey_def)
    with Cons.IH [OF cs] made show ?case by (auto simp: compiled)
  qed simp
  then show "map fst compiled = map (journey_definition p facts) js" "map snd compiled = map (journey_description p facts) js"
    "\<And>j. j \<in> set js \<Longrightarrow> check_compiled_journey p facts j = Inr ()"
    "\<And>j. j \<in> set js \<Longrightarrow> check_ProcessDefinition (cv_known_zone env) (journey_definition p facts j) = Inr (journey_definition p facts j)"
    "\<And>j s. j \<in> set js \<Longrightarrow> s \<in> set (scenarios_of p j) \<Longrightarrow> validate_scenario s p j (routes_of p j)
         (map (\<lambda>f. (fa_key f, f)) (relevant_facts p facts j)) = Inr ()"
    by blast+
qed

text \<open>The capabilities a journey selects are those it names.\<close>

lemma map_filter_known:
  assumes "\<And>x. x \<in> set xs \<Longrightarrow> \<exists>y. f x = Some y \<and> key y = x"
  shows "map key (List.map_filter f xs) = xs"
  using assms
proof (induction xs)
  case (Cons x xs)
  have "map key (List.map_filter f xs) = xs" using Cons.prems by (intro Cons.IH) simp
  moreover obtain y where "f x = Some y" "key y = x" using Cons.prems [of x] by auto
  ultimately show ?case by (simp add: map_filter_simps)
qed (simp add: map_filter_simps)

lemma selected_capabilities:
  assumes "check_compiled_journey p facts j = Inr ()"
  shows "map ca_action_type (selected p j) = jo_capabilities j" "set (selected p j) \<subseteq> set (pj_capabilities p)"
proof -
  have "\<forall>a \<in> set (jo_capabilities j). \<exists>c. find_capability p a = Some c"
    using assms by (auto simp: check_compiled_journey_def Let_def filter_empty_conv)
  then show "map ca_action_type (selected p j) = jo_capabilities j"
    unfolding selected_def by (intro map_filter_known) (metis find_capability_Some(2))
  show "set (selected p j) \<subseteq> set (pj_capabilities p)"
    by (auto simp: selected_def map_filter_def dest: find_capability_Some(1))
qed

lemma selected_members:
  assumes "check_compiled_journey p facts j = Inr ()" "distinct (map ca_action_type (pj_capabilities p))"
  shows "set (selected p j) = {c \<in> set (pj_capabilities p). ca_action_type c \<in> set (jo_capabilities j)}"
proof -
  have types: "ca_action_type ` set (selected p j) = set (jo_capabilities j)"
    using selected_capabilities(1) [OF assms(1)] by (metis set_map)
  have "c \<in> set (selected p j)" if "c \<in> set (pj_capabilities p)" "ca_action_type c \<in> set (jo_capabilities j)" for c
    using find_capability_self [OF assms(2) that(1)] that(2) by (force simp: selected_def map_filter_def)
  then show ?thesis using types selected_capabilities(2) [OF assms(1)] by auto
qed

section \<open>A journey agrees with its definition\<close>

lemma dump_fact_same: "dump_FactDefinition (fact_definition f) = dump_FactDescription (fact_description f)"
  by (simp add: dump_FactDefinition_def dump_FactDescription_def fact_definition_def Let_def)

lemma dump_fact_document:
  assumes "document (JObj (fx_value_schema f))"
  shows "document (dump_FactDescription f)"
proof -
  have "distinct (map ascii [''key'', ''title'', ''description'', ''kinds'', ''value_schema'', ''operator_editable''])"
    by code_simp
  then show ?thesis using assms by (simp add: dump_FactDescription_def text_json_def list_all_iff)
qed

lemma journey_agrees:
  assumes "check_compiled_journey p facts j = Inr ()"
    and "\<And>f. f \<in> set (relevant_facts p facts j) \<Longrightarrow> document (JObj (fx_value_schema (fact_description f)))"
    and "\<And>k v. (k, v) \<in> set (jo_complete_when j) \<Longrightarrow> document v"
  shows "check_journey (journey_definition p facts j) (journey_description p facts j) = Inr ()"
proof -
  let ?d = "journey_definition p facts j" and ?x = "journey_description p facts j"
  have routes: "journey_events kind ?x = set (route_events kind p j)" for kind
    unfolding journey_events_def journey_description_def route_events_def
    by (simp add: route_description_def filter_map comp_def)
  have "kx_action_type ` set (jx_capabilities ?x) = set (pd_allowed_actions ?d)"
    using selected_capabilities(1) [OF assms(1)]
    by (simp add: journey_description_def journey_definition_def capability_description_def image_image comp_def flip: set_map)
  moreover have "same_dict (=) (map (\<lambda>k. (ascii (kx_action_type k), kx_adapter_id k)) (jx_capabilities ?x)) (pd_integrations ?d)"
    using same_dict_self [of "pd_integrations ?d" "(=)"]
    by (simp add: journey_description_def journey_definition_def capability_description_def adapter_id_def comp_def)
  moreover have "same_dict (=) (jx_permissions ?x) (pd_action_permissions ?d)"
    using same_dict_self [of "pd_action_permissions ?d" "(=)"] by (simp add: journey_description_def journey_definition_def)
  moreover have "same_dict py_eq (jx_completion_requirements ?x) (pd_completion_requirements ?d)"
    using same_dict_self [of "jo_complete_when j" py_eq] assms(3) document_self
    by (simp add: journey_description_def journey_definition_def del: py_eq.simps)
  moreover have "py_eq_items (map dump_FactDescription (jx_facts ?x)) (map dump_FactDefinition (pd_facts ?d))"
    using assms(2) document_self dump_fact_document
    by (auto simp: journey_description_def journey_definition_def dump_fact_same comp_def simp del: py_eq.simps
        intro!: py_eq_items_self)
  ultimately show ?thesis
    using routes [of START_ROUTE] routes [of WAKE_ROUTE]
    by (simp add: check_journey_def) (simp add: journey_description_def journey_definition_def)
qed

section \<open>Facts and scenarios\<close>

lemma add_facts_members:
  assumes "add_facts fs facts = Inr catalog" "map_of catalog k = Some f"
  shows "f \<in> set fs \<or> map_of facts k = Some f"
  using assms(1)
proof (induction fs arbitrary: facts)
  case (Cons g fs)
  then have "add_facts fs ((fa_key g, g) # facts) = Inr catalog" by (simp split: if_splits)
  from Cons.IH [OF this] show ?case by (auto split: if_splits)
qed (simp add: assms(2))

lemma relevant_facts_declared:
  assumes "collect_fact_catalog p = Inr facts" "f \<in> set (relevant_facts p facts j)"
  shows "f \<in> set (declared_facts p)"
  using assms add_facts_members [of "declared_facts p" "[]" facts]
  by (auto simp: relevant_facts_def collect_fact_catalog_def map_filter_def)

lemma scenario_steps_actions:
  assumes "scenario_steps s p j routes facts index steps state = Inr state'" "t \<in> set steps" "ss_kind t = ACTION_STEP"
  shows "\<exists>a \<in> set (jo_capabilities j). ss_reference t = Some (ascii a)"
  using assms
proof (induction steps arbitrary: index state)
  case (Cons u steps)
  obtain mid where mid: "scenario_step s p j routes facts index u state = Inr mid"
    and rest: "scenario_steps s p j routes facts (Suc index) steps mid = Inr state'" using Cons.prems(1) by auto
  show ?case
  proof (cases "t = u")
    case True
    then have "\<exists>a. find (\<lambda>a. Some (ascii a) = ss_reference u) (jo_capabilities j) = Some a"
      using mid Cons.prems(3) by (auto simp: scenario_step_def scenario_action_def Let_def split: option.splits if_splits)
    then show ?thesis using True by (auto dest!: find_Some_mem intro: sym)
  next
    case False
    then show ?thesis using Cons.IH [OF rest] Cons.prems by simp
  qed
qed simp

lemma validate_scenario_actions:
  assumes "validate_scenario s p j routes facts = Inr ()" "t \<in> set (sn_steps s)" "ss_kind t = ACTION_STEP"
  shows "\<exists>a \<in> set (jo_capabilities j). ss_reference t = Some (ascii a)"
proof -
  obtain state where "scenario_steps s p j routes facts 0 (sn_steps s) (None, False) = Inr state"
    using assms(1) by (auto simp: validate_scenario_def split: list.splits)
  then show ?thesis using assms(2,3) by (rule scenario_steps_actions)
qed

section \<open>The compiled pack\<close>

text \<open>What the compiler has established when it assembles the pack.\<close>

definition well_compiled :: "CompileEnv \<Rightarrow> Project \<Rightarrow> (string \<times> Fact) list \<Rightarrow> bool" where
  "well_compiled env p facts \<longleftrightarrow>
     distinct (map jo_id (pj_journeys p)) \<and> distinct (map ca_action_type (pj_capabilities p))
     \<and> distinct (published_start_events p) \<and> collect_fact_catalog p = Inr facts
     \<and> (\<forall>s \<in> set (pj_scenarios p). sn_journey_id s \<in> jo_id ` set (pj_journeys p))
     \<and> (\<forall>j \<in> set (pj_journeys p). check_compiled_journey p facts j = Inr ()
          \<and> check_ProcessDefinition (cv_known_zone env) (journey_definition p facts j) = Inr (journey_definition p facts j)
          \<and> (\<forall>s \<in> set (scenarios_of p j). \<forall>t \<in> set (sn_steps s). ss_kind t = ACTION_STEP \<longrightarrow>
               (\<exists>a \<in> set (jo_capabilities j). ss_reference t = Some (ascii a))))
     \<and> (\<forall>c \<in> set (pj_capabilities p). ca_action_type c \<in> set (used_actions p))
     \<and> (\<forall>c \<in> set (pj_capabilities p). played p c \<longrightarrow> simulation_adapter c \<noteq> None)"

definition compiled_contents :: "CompileEnv \<Rightarrow> Project \<Rightarrow> (string \<times> Fact) list \<Rightarrow> PackContents" where
  "compiled_contents env p facts =
     project_contents env p (map (\<lambda>j. (journey_definition p facts j, journey_description p facts j)) (pj_journeys p))"

lemma zip_map_same: "map fst xs = map f js \<Longrightarrow> map snd xs = map g js \<Longrightarrow> xs = map (\<lambda>j. (f j, g j)) js"
  by (induction xs arbitrary: js) (auto simp: map_eq_Cons_conv Cons_eq_map_conv prod_eq_iff)

lemma compile_parts_well_compiled:
  assumes "compile_parts env p = Inr compiled"
  obtains facts where "well_compiled env p facts" "project_contents env p compiled = compiled_contents env p facts"
proof -
  let ?js = "pj_journeys p"
  obtain facts where j: "unique_by jo_id ''journey ID'' ?js [] = Inr ()"
    and c: "unique_by ca_action_type ''capability action type'' (pj_capabilities p) [] = Inr ()"
    and f: "collect_fact_catalog p = Inr facts"
    and starts: "first_repeated (published_start_events p) [] = None"
    and scenarios: "\<forall>s \<in> set (pj_scenarios p). sn_journey_id s \<in> jo_id ` set ?js"
    and k: "compile_journeys env p facts ?js = Inr compiled"
    and rest: "filter (\<lambda>a. a \<notin> set (used_actions p)) (map ca_action_type (pj_capabilities p)) = []"
      "check_simulations p (used_capabilities p) = Inr ()"
    using assms by (auto simp: compile_parts_def Let_def split: option.splits)
  note parts = compile_journeys_parts [OF k]
  have contents: "project_contents env p compiled = compiled_contents env p facts"
    unfolding compiled_contents_def using zip_map_same [OF parts(1,2)] by simp
  have used: "\<forall>x \<in> set (pj_capabilities p). ca_action_type x \<in> set (used_actions p)"
    using rest(1) by (auto simp: filter_empty_conv)
  have "well_compiled env p facts"
    unfolding well_compiled_def
  proof (intro conjI ballI impI)
    show "distinct (map jo_id ?js)" "distinct (map ca_action_type (pj_capabilities p))" "distinct (published_start_events p)"
      using unique_by_distinct [OF j] unique_by_distinct [OF c] first_repeated_None [OF starts] by simp_all
    show "simulation_adapter x \<noteq> None" if "x \<in> set (pj_capabilities p)" "played p x" for x
      using rest(2) that used by (auto simp: check_simulations_def used_capabilities_def)
  qed (use f scenarios parts(3,4) used validate_scenario_actions [OF parts(5)] in auto)
  then show ?thesis using contents by (rule that)
qed

lemma used_capabilities_all:
  assumes "well_compiled env p facts"
  shows "used_capabilities p = pj_capabilities p"
  using assms by (simp add: used_capabilities_def well_compiled_def filter_id_conv)

lemma selected_union:
  assumes "well_compiled env p facts"
  shows "(\<Union>j \<in> set (pj_journeys p). set (selected p j)) = set (pj_capabilities p)"
proof -
  have "set (selected p j) = {c \<in> set (pj_capabilities p). ca_action_type c \<in> set (jo_capabilities j)}"
    if "j \<in> set (pj_journeys p)" for j
    using selected_members assms that unfolding well_compiled_def by blast
  then have "(\<Union>j \<in> set (pj_journeys p). set (selected p j))
      = {c \<in> set (pj_capabilities p). ca_action_type c \<in> set (used_actions p)}"
    by (auto simp: used_actions_def)
  then show ?thesis using assms by (auto simp: well_compiled_def)
qed

section \<open>The checks of the pack\<close>

lemma compiled_fields:
  assumes "well_compiled env p facts"
  shows "cp_definitions (compiled_contents env p facts) = map (journey_definition p facts) (pj_journeys p)"
    "cp_manifest (compiled_contents env p facts) = project_manifest p (map (journey_definition p facts) (pj_journeys p))"
    "cp_bindings (compiled_contents env p facts) = map (\<lambda>c. (ca_action_type c, ca_adapter c)) (pj_capabilities p)"
    "cp_policy_ids (compiled_contents env p facts) = map (policy_id p) (pj_journeys p)"
    "cp_simulation_bindings (compiled_contents env p facts) = simulation_bindings p (pj_capabilities p)"
    "cp_project (compiled_contents env p facts) = Some \<lparr>px_id = pj_id p, px_version = pj_version p, px_title = pj_title p,
         px_description = pj_description p, px_journeys = map (journey_description p facts) (pj_journeys p)\<rparr>"
  using used_capabilities_all [OF assms]
  by (simp_all add: compiled_contents_def project_contents_def Let_def comp_def)

lemma simulation_binding_members:
  "(a, o') \<in> set (simulation_bindings p cs) \<longleftrightarrow> (\<exists>c \<in> set cs. played p c \<and> a = ca_action_type c \<and> simulation_adapter c = Some o')"
  by (auto simp: simulation_bindings_def map_filter_def image_iff split: if_splits)

lemma scenario_actions_compiled:
  assumes "\<forall>s \<in> set (pj_scenarios p). sn_journey_id s \<in> jo_id ` set (pj_journeys p)"
    and "px_journeys x = map (journey_description p facts) (pj_journeys p)"
  shows "set (scenario_actions x) = set (scenario_action_types p)"
proof -
  have "set (concat (map (scenarios_of p) (pj_journeys p))) = set (pj_scenarios p)"
    using assms(1) by (auto simp: scenarios_of_def)
  then have "(\<Union>j \<in> set (pj_journeys p). set (scenarios_of p j)) = set (pj_scenarios p)" by simp
  moreover have "set (scenario_actions x) = ss_reference ` {t \<in> (\<Union>s \<in> (\<Union>j \<in> set (pj_journeys p). set (scenarios_of p j)). set (sn_steps s)).
      ss_kind t = ACTION_STEP}"
    by (force simp: scenario_actions_def assms(2) journey_description_def scenario_description_def)
  ultimately show ?thesis by (auto simp: scenario_action_types_def)
qed

lemma played_capability:
  assumes "well_compiled env p facts" "r \<in> set (scenario_action_types p)"
  shows "\<exists>c \<in> set (pj_capabilities p). r = Some (ascii (ca_action_type c))"
proof -
  obtain s t where s: "s \<in> set (pj_scenarios p)" "t \<in> set (sn_steps s)" "ss_kind t = ACTION_STEP" "r = ss_reference t"
    using assms(2) by (auto simp: scenario_action_types_def)
  obtain j where j: "j \<in> set (pj_journeys p)" "s \<in> set (scenarios_of p j)"
    using assms(1) s(1) unfolding well_compiled_def scenarios_of_def by fastforce
  then obtain a where a: "a \<in> set (jo_capabilities j)" "r = Some (ascii a)"
    using assms(1) s unfolding well_compiled_def by blast
  have check: "check_compiled_journey p facts j = Inr ()" using assms(1) j(1) unfolding well_compiled_def by blast
  have "a \<in> ca_action_type ` set (selected p j)" using a(1) selected_capabilities(1) [OF check] by (metis set_map)
  then show ?thesis using a(2) selected_capabilities(2) [OF check] by blast
qed

lemma simulations_cover:
  assumes "well_compiled env p facts"
  shows "(\<lambda>(a, _). Some (ascii a)) ` set (simulation_bindings p (pj_capabilities p)) = set (scenario_action_types p)"
proof (intro equalityI subsetI)
  fix r
  assume "r \<in> set (scenario_action_types p)"
  then obtain c where c: "c \<in> set (pj_capabilities p)" "r = Some (ascii (ca_action_type c))" "played p c"
    using played_capability [OF assms] unfolding played_def by metis
  then obtain o' where "simulation_adapter c = Some o'" using assms unfolding well_compiled_def by blast
  then have "(ca_action_type c, o') \<in> set (simulation_bindings p (pj_capabilities p))"
    using c by (auto simp: simulation_binding_members)
  then show "r \<in> (\<lambda>(a, _). Some (ascii a)) ` set (simulation_bindings p (pj_capabilities p))"
    using c(2) by (auto intro: rev_image_eqI)
qed (auto simp: simulation_binding_members played_def)

lemma simulation_safe:
  assumes "check_Capability c = Inr ()" "simulation_adapter c = Some o'"
  shows "ao_is_simulation o'"
  using assms
  by (auto simp: check_Capability_def Let_def check_simulation_adapter_def simulation_adapter_def split: option.splits if_splits)

lemma journey_lookup:
  assumes "distinct (map jo_id (pj_journeys p))" "j \<in> set (pj_journeys p)"
  shows "map_of (rev (map (\<lambda>x. ((jx_id x, jx_version x), x)) (map (journey_description p facts) (pj_journeys p))))
    (definition_key (journey_definition p facts j)) = Some (journey_description p facts j)"
proof (rule map_of_is_SomeI)
  have "inj_on (\<lambda>j. (jo_id j, jo_version j)) (set (pj_journeys p))" "distinct (pj_journeys p)"
    using assms(1) by (auto simp: distinct_map inj_on_def)
  then show "distinct (map fst (rev (map (\<lambda>x. ((jx_id x, jx_version x), x)) (map (journey_description p facts) (pj_journeys p)))))"
    by (simp add: rev_map comp_def journey_description_def distinct_map)
next
  show "(definition_key (journey_definition p facts j), journey_description p facts j)
      \<in> set (rev (map (\<lambda>x. ((jx_id x, jx_version x), x)) (map (journey_description p facts) (pj_journeys p))))"
    using assms(2) by (auto simp: definition_key_def journey_definition_def journey_description_def image_iff)
qed

text \<open>What the author supplies: checked capabilities, and documents as schemas and completion values.\<close>

definition documented :: "Project \<Rightarrow> bool" where
  "documented p \<longleftrightarrow>
     (\<forall>c \<in> set (pj_capabilities p). check_Capability c = Inr ())
     \<and> (\<forall>f \<in> set (declared_facts p). document (JObj (fx_value_schema (fact_description f))))
     \<and> (\<forall>j \<in> set (pj_journeys p). \<forall>(k, v) \<in> set (jo_complete_when j). document v)"

lemma compiled_project_checked:
  assumes "well_compiled env p facts" "documented p" "cp_project (compiled_contents env p facts) = Some x"
    and "check_project (compiled_contents env p facts) x = Inl e"
  shows "e = SimulationNotAdapter"
proof -
  note fields = compiled_fields [OF assms(1)]
  have journeys: "px_journeys x = map (journey_description p facts) (pj_journeys p)" and x: "px_id x = pj_id p" "px_version x = pj_version p"
    using assms(3) fields(6) by auto
  have distinct: "distinct (map jo_id (pj_journeys p))" and facts: "collect_fact_catalog p = Inr facts"
    and scenarios: "\<forall>s \<in> set (pj_scenarios p). sn_journey_id s \<in> jo_id ` set (pj_journeys p)"
    using assms(1) by (simp_all add: well_compiled_def)
  have keys: "fst ` set (map (\<lambda>j. ((jx_id j, jx_version j), j)) (px_journeys x))
      = definition_key ` set (cp_definitions (compiled_contents env p facts))"
    by (simp add: journeys fields(1) image_image definition_key_def journey_definition_def journey_description_def)
  have "check_journey (journey_definition p facts j) (journey_description p facts j) = Inr ()" if "j \<in> set (pj_journeys p)" for j
  proof (rule journey_agrees)
    show "check_compiled_journey p facts j = Inr ()" using assms(1) that by (simp add: well_compiled_def)
  qed (use assms(2) that relevant_facts_declared [OF facts] in \<open>auto simp: documented_def\<close>)
  then have agree: "check_all (\<lambda>d.
      case map_of (rev (map (\<lambda>j. ((jx_id j, jx_version j), j)) (px_journeys x))) (definition_key d) of
        None \<Rightarrow> Inl ProjectJourneysDisagree | Some j \<Rightarrow> check_journey d j) (cp_definitions (compiled_contents env p facts)) = Inr ()"
    using journey_lookup [OF distinct] by (simp add: fields(1) journeys)
  have simulations: "(\<lambda>(a, _). Some (ascii a)) ` set (cp_simulation_bindings (compiled_contents env p facts)) = set (scenario_actions x)"
    using simulations_cover [OF assms(1)] scenario_actions_compiled [OF scenarios journeys] fields(5) by simp
  have safe: "list_all (\<lambda>(_, o'). ao_is_simulation o') (cp_simulation_bindings (compiled_contents env p facts))"
    unfolding fields(5) list_all_iff
  proof (clarsimp simp: simulation_binding_members)
    fix c o'
    assume c: "c \<in> set (pj_capabilities p)" "simulation_adapter c = Some o'"
    then have "check_Capability c = Inr ()" using assms(2) by (simp add: documented_def)
    then show "ao_is_simulation o'" using c(2) by (rule simulation_safe)
  qed
  have "px_id x = em_extension_id (cp_manifest (compiled_contents env p facts))"
    "px_version x = em_extension_version (cp_manifest (compiled_contents env p facts))"
    by (simp_all add: x fields(2) project_manifest_def)
  then show ?thesis using assms(4) unfolding check_project_def Let_def keys agree simulations
    by (simp add: safe bind_result_Inl require_def split: if_splits)
qed

lemma capability_adapter_id:
  assumes "check_Capability c = Inr ()"
  shows "ao_id (ca_adapter c) = Some (adapter_id c)"
  using assms by (auto simp: check_Capability_def Let_def has_id_def adapter_id_def split: option.splits)

lemma compiled_adapters:
  assumes "well_compiled env p facts"
  shows "snd ` set (concat (map pd_integrations (cp_definitions (compiled_contents env p facts)))) = adapter_id ` set (pj_capabilities p)"
proof -
  have "snd ` set (concat (map pd_integrations (cp_definitions (compiled_contents env p facts))))
      = adapter_id ` (\<Union>j \<in> set (pj_journeys p). set (selected p j))"
    by (simp add: compiled_fields(1) [OF assms] journey_definition_def image_UN image_image)
  then show ?thesis by (simp only: selected_union [OF assms])
qed

lemma compiled_actions:
  assumes "well_compiled env p facts"
  shows "set (concat (map pd_allowed_actions (cp_definitions (compiled_contents env p facts)))) = ca_action_type ` set (pj_capabilities p)"
proof -
  have "set (jo_capabilities j) = ca_action_type ` set (selected p j)" if "j \<in> set (pj_journeys p)" for j
  proof -
    have "check_compiled_journey p facts j = Inr ()" using assms that by (simp add: well_compiled_def)
    then show ?thesis using selected_capabilities(1) by (metis set_map)
  qed
  then have "set (concat (map pd_allowed_actions (cp_definitions (compiled_contents env p facts))))
      = ca_action_type ` (\<Union>j \<in> set (pj_journeys p). set (selected p j))"
    by (simp add: compiled_fields(1) [OF assms] journey_definition_def image_UN)
  then show ?thesis by (simp only: selected_union [OF assms])
qed

lemma compiled_contents_checked:
  assumes "well_compiled env p facts" "documented p" "pj_journeys p \<noteq> []"
    and "ot_converts (cp_output_type (compiled_contents env p facts))"
    and "check_contents penv (compiled_contents env p facts) = Inl e"
  shows "e \<in> {InvalidCompatibility, UnsupportedVersion, SimulationNotAdapter}"
proof -
  let ?c = "compiled_contents env p facts"
  note fields = compiled_fields [OF assms(1)]
  obtain x where x: "cp_project ?c = Some x" using fields(6) by blast
  have project: "e' = SimulationNotAdapter" if "check_project ?c x = Inl e'" for e'
    using compiled_project_checked [OF assms(1,2) x that] .
  have ids: "ao_id (ca_adapter c) = Some (adapter_id c)" if "c \<in> set (pj_capabilities p)" for c
    using assms(2) that by (intro capability_adapter_id) (simp add: documented_def)
  have manifest: "em_activities (cp_manifest ?c) = []" "set (em_process_definitions (cp_manifest ?c)) = definition_name ` set (cp_definitions ?c)"
    "set (em_adapters (cp_manifest ?c)) = adapter_id ` set (pj_capabilities p)" "set (em_policies (cp_manifest ?c)) = set (cp_policy_ids ?c)"
    by (simp_all add: fields project_manifest_def used_capabilities_all [OF assms(1)] image_image)
  have bindings: "(\<lambda>(_, o'). ao_id o') ` set (cp_bindings ?c) = Some ` set (em_adapters (cp_manifest ?c))"
    "fst ` set (cp_bindings ?c) = set (concat (map pd_allowed_actions (cp_definitions ?c)))"
    unfolding manifest(3) compiled_actions [OF assms(1)] using ids by (auto simp: fields(3) image_image)
  have "cp_definitions ?c \<noteq> []" using assms(3) by (simp add: fields(1))
  then show ?thesis
    using assms(4,5) manifest bindings compiled_adapters [OF assms(1)] project
    unfolding check_contents_def Let_def x
    by (auto simp: bind_result_Inl require_def split: if_splits option.splits)
qed

section \<open>The registry of the pack\<close>

lemma register_fresh:
  "distinct (map fst registered @ map definition_key ds)
    \<Longrightarrow> register_definitions ds registered = Inr (registered @ map (\<lambda>d. (definition_key d, d)) ds)"
  by (induction ds arbitrary: registered) auto

lemma resolve_trigger_total:
  assumes "distinct ds" "\<And>d d'. d \<in> set ds \<Longrightarrow> d' \<in> set ds \<Longrightarrow> triggered_by drafts e d \<Longrightarrow> triggered_by drafts e d' \<Longrightarrow> d = d'"
  shows "\<exists>a. resolve_trigger (map (\<lambda>d. (definition_key d, d)) ds) e drafts = Inr a"
proof -
  let ?f = "filter (triggered_by drafts e) ds"
  have "map snd (map (\<lambda>d. (definition_key d, d)) ds) = ds" by (simp add: comp_def)
  moreover have "distinct ?f" "\<forall>d \<in> set ?f. \<forall>d' \<in> set ?f. d = d'" using assms by auto
  then have "length ?f \<le> 1" by (metis card_le_Suc0_iff_eq distinct_card finite_set One_nat_def)
  then have "?f = [] \<or> (\<exists>d. ?f = [d])" by (cases ?f) simp_all
  ultimately show ?thesis unfolding resolve_trigger_def by auto
qed

lemma compiled_trigger_unique:
  assumes "well_compiled env p facts" "j \<in> set (pj_journeys p)" "j' \<in> set (pj_journeys p)"
    and "triggered_by False e (journey_definition p facts j)" "triggered_by False e (journey_definition p facts j')"
  shows "j = j'"
proof -
  let ?starts = "filter (\<lambda>r. ro_kind r = START_ROUTE \<and> journey_published p (ro_journey_id r)) (pj_routes p)"
  have start: "\<exists>r \<in> set ?starts. ro_event_type r = e \<and> ro_journey_id r = jo_id k"
    if "k \<in> set (pj_journeys p)" "triggered_by False e (journey_definition p facts k)" for k
  proof -
    have "jo_status k = DefinitionStatus.PUBLISHED" "e \<in> set (route_events START_ROUTE p k)"
      using that(2) by (simp_all add: triggered_by_def journey_definition_def)
    moreover from this(2) obtain r where "r \<in> set (pj_routes p)" "ro_journey_id r = jo_id k" "ro_kind r = START_ROUTE" "ro_event_type r = e"
      by (auto simp: route_events_def routes_of_def)
    ultimately show ?thesis using that(1) by (intro bexI [of _ r]) (auto simp: journey_published_def list_ex_iff)
  qed
  obtain r where r: "r \<in> set ?starts" "ro_event_type r = e" "ro_journey_id r = jo_id j" using start assms by blast
  obtain r' where r': "r' \<in> set ?starts" "ro_event_type r' = e" "ro_journey_id r' = jo_id j'" using start assms by blast
  have "inj_on ro_event_type (set ?starts)" using assms(1) by (simp add: well_compiled_def published_start_events_def distinct_map)
  then have "r = r'" using r r' by (auto dest: inj_onD)
  then have "jo_id j = jo_id j'" using r r' by simp
  then show ?thesis using assms(1-3) by (auto simp: well_compiled_def distinct_map inj_on_def)
qed

lemma compiled_registry:
  assumes "well_compiled env p facts"
  shows "\<exists>registry. make_registry (cp_definitions (compiled_contents env p facts)) = Inr registry
    \<and> resolve_all registry events = Inr ()"
proof -
  let ?ds = "cp_definitions (compiled_contents env p facts)"
  note ds = compiled_fields(1) [OF assms]
  have "distinct (map jo_id (pj_journeys p))" using assms by (simp add: well_compiled_def)
  then have keys: "distinct (map definition_key ?ds)"
    by (auto simp: ds comp_def definition_key_def journey_definition_def distinct_map inj_on_def)
  have "\<exists>a. resolve_trigger (map (\<lambda>d. (definition_key d, d)) ?ds) e False = Inr a" for e
  proof (rule resolve_trigger_total)
    show "distinct ?ds" using keys by (simp add: distinct_map)
  qed (use compiled_trigger_unique [OF assms] in \<open>auto simp: ds\<close>)
  then show ?thesis using register_fresh [of "[]" ?ds] keys by (auto simp: make_registry_def resolve_all_def)
qed

text \<open>
  (C16) The compiler writes only consistent packs: for a project and capabilities that passed their
  own checks, once the compiler's checks of the whole project have passed, the independent
  checks of the client pack (definitions, routes, capabilities, adapters, permissions, completion,
  facts, simulations, bindings, policies, fingerprints, registry, triggers) cannot fail, except for
  the version specifier, a simulation adapter without an idempotency flag and a composition
  that is not serialisable; the manifest may still break a rule of its fields.
\<close>

theorem compiled_project_consistent:
  assumes "check_Project p = Inr ()" "documented p" "compile_parts env p = Inr compiled"
    and "ot_converts (cp_output_type (project_contents env p compiled))"
  shows "(\<exists>pack. compile_project env p = Inr pack)
    \<or> (\<exists>m. compile_project env p = Inl (ManifestRejected m))
    \<or> compile_project env p
        \<in> (Inl \<circ> PackRejected) ` {InvalidCompatibility, UnsupportedVersion, SimulationNotAdapter, PackNotSerialisable}"
proof -
  obtain facts where good: "well_compiled env p facts" and contents: "project_contents env p compiled = compiled_contents env p facts"
    using compile_parts_well_compiled [OF assms(3)] by blast
  have "e \<in> {InvalidCompatibility, UnsupportedVersion, SimulationNotAdapter, PackNotSerialisable}"
    if rejected: "make_ClientPack (PackEnv.truncate env) (compiled_contents env p facts) = Inl e" for e
  proof (cases "check_contents (PackEnv.truncate env) (compiled_contents env p facts)")
    case (Inl e')
    then show ?thesis
      using compiled_contents_checked [OF good assms(2) _ _ Inl] assms(1,4) rejected
      by (auto simp: contents make_ClientPack_def check_Project_def)
  next
    case (Inr u)
    obtain registry where "make_registry (cp_definitions (compiled_contents env p facts)) = Inr registry"
      "resolve_all registry (published_events (cp_definitions (compiled_contents env p facts))) = Inr ()"
      using compiled_registry [OF good] by blast
    then show ?thesis using Inr rejected pack_compatibility_checked
      by (auto simp: make_ClientPack_def split: option.splits sum.splits)
  qed
  then show ?thesis
    by (auto simp: compile_project_def assms(3) contents split: sum.splits)
qed

section \<open>A project that compiles\<close>

definition sample_fact :: Fact where
  "sample_fact =
     \<lparr>fa_key = ''enquiry.answered'', fa_title = ascii ''x'', fa_description = ascii ''x'',
      fa_value_schema = Some [(ascii ''type'', text_json ''boolean'')], fa_encode = Some, fa_kinds = [AUTHORITATIVE],
      fa_operator_editable = False\<rparr>"

definition sample_capability :: Capability where
  "sample_capability =
     \<lparr>ca_action_type = ''send_reply'', ca_title = ascii ''x'', ca_description = ascii ''x'',
      ca_parameters_model = \<lparr>pm_is_model = True, pm_schema = [(ascii ''additionalProperties'', JBool False)],
        pm_accepts = (\<lambda>parameters. map_of parameters (ascii ''body'') \<noteq> None)\<rparr>,
      ca_adapter = \<lparr>ao_id = Some (ascii ''mail''), ao_guarantees_idempotency = Some True, ao_callable = True, ao_is_simulation = False\<rparr>,
      ca_guidance = ascii ''x'', ca_default_permission = REQUIRE_APPROVAL, ca_produces = [sample_fact],
      ca_simulation_adapter = Some \<lparr>ao_id = Some (ascii ''mail.simulated''), ao_guarantees_idempotency = Some True,
        ao_callable = True, ao_is_simulation = True\<rparr>\<rparr>"

definition sample_scenario :: Scenario where
  "sample_scenario =
     \<lparr>sn_id = ''answered'', sn_journey_id = ''enquiry'', sn_title = ascii ''x'', sn_description = ascii ''x'',
      sn_steps =
        [\<lparr>ss_kind = EVENT_STEP, ss_description = ascii ''x'', ss_reference = Some (ascii ''enquiry.received''),
          ss_value = EventValue \<lparr>sv_source = ascii ''web'', sv_external_references = [], sv_facts = [], sv_payload = []\<rparr>\<rparr>,
         \<lparr>ss_kind = ACTION_STEP, ss_description = ascii ''x'', ss_reference = Some (ascii ''send_reply''),
          ss_value = ActionValue \<lparr>sc_logical_action_key = ascii ''reply-1'', sc_parameters = [(ascii ''body'', text_json ''Hello'')],
            sc_rationale = ascii ''asked'', sc_approve = True\<rparr>\<rparr>,
         \<lparr>ss_kind = COMPLETE_STEP, ss_description = ascii ''x'', ss_reference = None, ss_value = PlainValue JNull\<rparr>],
      sn_started_at = Aware 0\<rparr>"

definition sample_project :: Project where
  "sample_project =
     \<lparr>pj_id = ''enquiries'', pj_version = ascii ''1'', pj_title = ascii ''x'', pj_description = ascii ''x'',
      pj_journeys =
        [\<lparr>jo_id = ''enquiry'', jo_version = ascii ''1'', jo_title = ascii ''x'', jo_description = ascii ''x'',
          jo_goals = [ascii ''answer''], jo_capabilities = [''send_reply''],
          jo_complete_when = [(''enquiry.answered'', JBool True)], jo_status = DefinitionStatus.PUBLISHED,
          jo_permission_overrides = [], jo_action_guidance = [], jo_decision_guidance = [],
          jo_terminal_states = [ProcessStatus.COMPLETED, ProcessStatus.CANCELLED], jo_limits = default_ProcessLimits,
          jo_review_commands = [APPROVE, REJECT],
          jo_communications = \<lparr>cm_outbound_actions = [''send_reply''], cm_customer_reply_events = [''customer.replied''],
            cm_opt_out_events = [''customer.opted_out''], cm_automated_response_events = [], cm_quiet_hours = None\<rparr>\<rparr>],
      pj_routes =
        map (\<lambda>(kind, event). \<lparr>ro_kind = kind, ro_event_type = event, ro_journey_id = ''enquiry'', ro_title = ascii ''x'',
               ro_description = ascii ''x'', ro_provides = []\<rparr>)
          [(START_ROUTE, ''enquiry.received''), (WAKE_ROUTE, ''customer.replied''), (WAKE_ROUTE, ''customer.opted_out'')],
      pj_capabilities = [sample_capability], pj_facts = [], pj_scenarios = [sample_scenario],
      pj_tiramisu_compatibility = ascii ''>=0.1''\<rparr>"

definition sample_env :: CompileEnv where
  "sample_env =
     \<lparr>pe_show_clock = (\<lambda>_. []), pe_show_time = (\<lambda>_. []), pe_supports = (\<lambda>_ specifier. Some (specifier = ascii ''>=0.1'')),
      cv_known_zone = (\<lambda>_. True),
      cv_output_type = (\<lambda>project version actions events. \<lparr>ot_name = ascii project, ot_json_schema = JObj [], ot_converts = True\<rparr>)\<rparr>"

theorem compiled_project_consistent_witness:
  "check_Project sample_project = Inr () \<and> documented sample_project \<and> \<not> isl (compile_parts sample_env sample_project)
    \<and> ((\<exists>pack. compile_project sample_env sample_project = Inr pack)
      \<or> (\<exists>m. compile_project sample_env sample_project = Inl (ManifestRejected m))
      \<or> compile_project sample_env sample_project
          \<in> (Inl \<circ> PackRejected) ` {InvalidCompatibility, UnsupportedVersion, SimulationNotAdapter, PackNotSerialisable})"
proof -
  have project: "check_Project sample_project = Inr ()" by code_simp
  have "check_Capability sample_capability = Inr ()" by code_simp
  then have documented: "documented sample_project"
    by (simp add: documented_def declared_facts_def sample_project_def sample_capability_def sample_fact_def
        fact_description_def text_json_def)
  have parts: "\<not> isl (compile_parts sample_env sample_project)" by code_simp
  then obtain compiled where compiled: "compile_parts sample_env sample_project = Inr compiled"
    by (cases "compile_parts sample_env sample_project") simp_all
  have "ot_converts (cp_output_type (project_contents sample_env sample_project compiled))"
    by (simp add: project_contents_def Let_def sample_env_def)
  from compiled_project_consistent [OF project documented compiled this] show ?thesis
    using project documented parts by (intro conjI)
qed

end
