(* ===== verification/Spec2Isabelle.thy ===== *)
theory Spec2Isabelle
  imports Decision_Properties Mailbox_Properties Execution_Properties Service_Properties
    Delivery_Properties Operator_Properties Composition_Properties Turn_Properties Access_Properties
    Deployment_Properties Project_Properties
begin

text \<open>
  A verification of Tiramisu Agents (\<open>src/backend/src/tiramisu_agents\<close>), a platform on which
  long-running business processes are driven by an agent that only proposes, while
  deterministic code decides, persists and executes.

  \<^bold>\<open>The program.\<close> An external event is taken in (\<open>events/ingestion.py\<close>), correlated with a process
  instance or quarantined (\<open>events/quarantine.py\<close>), and handed to the mailbox workflow of the
  process (\<open>temporal/workflows/mailbox.py\<close>) by the transactional outbox
  (\<open>temporal/dispatcher.py\<close>). The mailbox chooses a wake, asks the agent for a decision, has it
  validated (\<open>core/policy.py\<close>), persisted as classified actions (\<open>actions/gateway.py\<close>) and applied
  to the process (\<open>processes/state.py\<close>, \<open>core/transitions.py\<close>), and executes the allowed actions
  (\<open>actions/execution.py\<close>) within the bounds of permission, human approval
  (\<open>reviews/service.py\<close>), communication policy (\<open>communications\<close>), budgets and circuit breakers
  (\<open>budgets\<close>). Operators intervene through commands (\<open>processes/control.py\<close>,
  \<open>actions/reconciliation.py\<close>, \<open>events/outbox_recovery.py\<close>) that reach the services through the
  HTTP API (\<open>api\<close>) under a bearer credential of their tenant (\<open>security\<close>). What a deployment can
  do is fixed before it starts: an authored project (\<open>projects\<close>) is compiled into a client pack
  (\<open>extensions\<close>), whose fingerprints and release every process is pinned to.

  \<^bold>\<open>Theories and sources.\<close>
  \<^item> \<open>Prelude\<close>: lists, results and options shared by all; the interfaces \<open>dedup_inbox\<close>
    (a deduplicating queue), \<open>idempotent_command\<close> (a stored command answers again what it
    answered) and \<open>fence\<close> (an assessment with exact blocks), each interpreted on every component
    that promises it.
  \<^item> \<open>Json\<close>, \<open>Sha256\<close>, \<open>Identity\<close>: \<open>json.dumps\<close> with sorted keys, UTF-8, SHA-256 as executable
    functions; \<open>core/action_identity.py\<close>, \<open>core/action_policy.py\<close>, \<open>core/reserved_events.py\<close>.
  \<^item> \<open>Limits\<close> (\<open>core/limits.py\<close>), \<open>Contracts\<close> (\<open>core/contracts\<close>), \<open>Definitions\<close>
    (\<open>processes/definitions.py\<close>), \<open>Policy\<close> (\<open>core/policy.py\<close>), \<open>Transitions\<close>
    (\<open>core/transitions.py\<close>): the typed decision boundary; \<open>Decision_Properties\<close> states what it
    guarantees.
  \<^item> \<open>Store\<close>: the rows of \<open>db/models\<close> as records, tables as lists, the database as a record of
    tables; inserts that respect the unique constraints; \<open>security/tenancy.py\<close>.
  \<^item> \<open>Communications\<close>, \<open>Communication_Service\<close> (\<open>communications\<close>), \<open>Budgets\<close> (\<open>budgets\<close>):
    policies, ledger and breakers; \<open>Service_Properties\<close>.
  \<^item> \<open>Outbox\<close> (\<open>temporal/dispatcher.py\<close>, \<open>events/outbox_recovery.py\<close>), \<open>Reviews\<close>
    (\<open>reviews/service.py\<close>); \<open>Delivery_Properties\<close>.
  \<^item> \<open>Execution\<close> (\<open>actions/execution.py\<close>, \<open>core/ports/actions.py\<close>,
    \<open>processes/compatibility.py\<close>), \<open>Execution_Safety\<close>, \<open>Execution_Properties\<close>.
  \<^item> \<open>Mailbox\<close> (state and signals), \<open>Mailbox_Turn\<close> (one turn), \<open>Mailbox_Run\<close> (the main loop) of
    \<open>temporal/workflows/mailbox.py\<close>; \<open>Mailbox_Safety\<close>, \<open>Mailbox_Properties\<close>.
  \<^item> \<open>Process_State\<close> (\<open>processes/state.py\<close>), \<open>Control\<close> (\<open>processes/control.py\<close>), \<open>Gateway\<close>
    (\<open>actions/gateway.py\<close>), \<open>Reconciliation\<close> (\<open>actions/reconciliation.py\<close>), \<open>Ingestion\<close>
    (\<open>events/ingestion.py\<close>, \<open>events/quarantine.py\<close>, \<open>processes/registry.py\<close>);
    \<open>Operator_Properties\<close> and \<open>Composition_Properties\<close> state what they guarantee, alone and
    together with the mailbox and the executor.
  \<^item> \<open>Agent_Context\<close> (\<open>agents/context.py\<close>), \<open>Activities\<close> (\<open>temporal/activities\<close>,
    \<open>agents/runner.py\<close>): what the model sees, when it is called, how it is charged and corrected,
    and how a decision reaches the services; \<open>Turn_Properties\<close>.
  \<^item> \<open>Access\<close> (\<open>security/credentials.py\<close>, \<open>credential_service.py\<close>, \<open>deployment_assignment.py\<close>,
    \<open>tenant_provisioning.py\<close>, \<open>api/operator_auth.py\<close>): credentials, tenants and the identity of a
    request; \<open>Api\<close> (the requests of \<open>api\<close> that write); \<open>Isolation\<close>: the interface
    \<open>confined_service\<close>, which every service behind the API satisfies; \<open>Access_Properties\<close>.
  \<^item> \<open>Deployment\<close> (\<open>extensions\<close>, \<open>api/settings.py\<close>, \<open>api/deployment.py\<close>, \<open>create_app\<close> of
    \<open>api/main.py\<close>): manifests, releases, client packs, their fingerprints and trigger rules, and
    the application made of them; \<open>Projects\<close> (\<open>projects/contracts.py\<close>, \<open>projects/compiler.py\<close>): what
    an author writes and its compilation; \<open>Deployment_Properties\<close>, \<open>Project_Properties\<close>.

  \<^bold>\<open>Modelling.\<close> Every service operation is a function from the database to an error or to a result
  and the new database; a raised exception rolls the transaction back, so an error carries no
  database. Every raise of the code is a constructor of the error type of its component. Code
  that runs in several transactions (\<open>execute\<close>, \<open>reconcile\<close>, \<open>dispatch_one\<close>, \<open>run_agent_turn\<close>) has a gap
  between them, an arbitrary function on the database, in which other workers may commit
  anything a theorem does not exclude. Clocks, generated ids, provider answers, the answers of
  activities and the signals that arrive at each await are fields of an environment record, so
  a theorem quantifies over all of them. Strings of the program are lists of code points
  (\<open>unicode\<close>), identifiers from a closed alphabet are HOL strings, UUIDs and instants are
  integers. Python dictionaries are association lists where their order matters.

  \<^bold>\<open>What the lemmas show.\<close> Decisions: accepted exactly when admissible, within the platform's
  bounds, completion only when justified. Mailbox: an invariant over the whole life of a
  workflow, each message handled once, Continue-As-New loses nothing, every iteration makes
  progress and automatic turns are bounded, takeover and overtaken turns have no effects.
  Executor: a provider is called only with authorization read in the same transaction, at most
  once for an adapter without idempotency, and a settled outcome is final. Outbox: no message is
  lost, duplicated or altered under any interleaving. Operator commands: idempotent, and a takeover
  stops automation at once. Stores: revisions count up without gaps, terminal processes never
  change, references keep their owner, an event is recorded once, and permission is recorded
  before anything is executed. Services: fences block exactly what their policy forbids.
  Turns: the model sees stored rows of its own process only, in bounded size; it is called at most
  three times, each time admitted and then charged; a decision a turn accepts is not rejected later.
  Access: a request writes only with a valid credential and scope and only rows of its own tenant,
  an issued token authenticates exactly its command, a revoked one never again, and a tenant changes
  its deployment only without running processes. Deployment: the trigger rules are those of the
  registry, a process the API starts is one its worker accepts, and a project that passes the
  compiler passes the independent checks of the pack.

  \<^bold>\<open>Termination and fuel.\<close> The functions are total. Only the main loop of the mailbox, which is
  meant to run for ever, takes fuel (a number of iterations); every theorem about it holds for
  all numbers, and each single iteration is total.

  \<^bold>\<open>Not modelled.\<close> The views of the API, its routing and the parsing of bodies by third-party
  packages, the worker set-up. The prompt and the client of the model provider
  (\<open>agents/openai_runner.py\<close>), the text of the instructions and the output classes generated for a
  project (\<open>projects/output.py\<close>): they are arguments, as are the version specifiers of
  \<open>packaging\<close> and the import of a client module. The command line tools and the project
  skeleton writer; example packs, stub adapters and the test kit. Of the database: the order of
  rows a query does not fix, foreign keys, row level security (each query takes the
  tenant) and locks (a transaction is atomic).
\<close>

end
